(* ===== verification/Prelude.thy ===== *)
theory Prelude
  imports Main "HOL-Library.AList" "HOL-Library.List_Lexorder" "HOL-Library.Char_ord"
    "HOL-Library.Multiset"
begin

text \<open>
  Shared vocabulary of the development: the error-or-value results of the service methods, the
  association-list tables that stand for the SQL tables, the Python idioms the code uses over and
  over (\<open>dict.fromkeys\<close>, \<open>sorted(set(...))\<close>, truthiness of optional strings, equality of values
  of different types), the JSON values handed to the hash functions, and the interface locales the
  components share.
\<close>

section \<open>Results\<close>

text \<open>
  A service method either raises (\<open>Inl\<close>, and the surrounding database transaction is rolled back,
  so no new state is returned) or returns a value and commits (\<open>Inr\<close>).
\<close>

definition bindE :: "'e + 'a \<Rightarrow> ('a \<Rightarrow> 'e + 'b) \<Rightarrow> 'e + 'b" where
  "bindE m f = (case m of Inl e \<Rightarrow> Inl e | Inr x \<Rightarrow> f x)"

definition needE :: "'e \<Rightarrow> 'a option \<Rightarrow> 'e + 'a" where
  "needE e x = (case x of None \<Rightarrow> Inl e | Some y \<Rightarrow> Inr y)"

named_theorems table_laws
named_theorems frame_laws
named_theorems inv_laws

lemma bindE_simps [simp]:
  "bindE (Inl e) f = Inl e"
  "bindE (Inr x) f = f x"
  by (simp_all add: bindE_def)

lemma bindE_Inr_iff: "bindE m f = Inr y \<longleftrightarrow> (\<exists>x. m = Inr x \<and> f x = Inr y)"
  by (cases m) (auto simp: bindE_def)

lemma bindE_InrE [elim!]:
  assumes "bindE m f = Inr y"
  obtains x where "m = Inr x" and "f x = Inr y"
  using assms by (auto simp: bindE_Inr_iff)

lemma needE_simps [simp]:
  "needE e None = Inl e"
  "needE e (Some x) = Inr x"
  by (simp_all add: needE_def)

lemma needE_Inr_iff [simp]: "needE e x = Inr y \<longleftrightarrow> x = Some y"
  by (cases x) (auto simp: needE_def)

lemma if_Inl_Inr_iff [simp]:
  "(if b then Inl e else m) = Inr y \<longleftrightarrow> \<not> b \<and> m = Inr y"
  "(if b then m else Inl e) = Inr y \<longleftrightarrow> b \<and> m = Inr y"
  by auto

section \<open>Tables\<close>

text \<open>
  A table is an association list from primary key to row, in insertion order: \<open>session.get\<close> is
  \<open>tget\<close>, an \<open>UPDATE\<close> or \<open>session.add\<close> of one row is \<open>tput\<close>, and a scan without \<open>ORDER BY\<close> reads the
  rows in insertion order.
\<close>

definition tget :: "'k \<Rightarrow> ('k \<times> 'v) list \<Rightarrow> 'v option" where
  "tget k t = map_of t k"

definition tput :: "'k \<Rightarrow> 'v \<Rightarrow> ('k \<times> 'v) list \<Rightarrow> ('k \<times> 'v) list" where
  "tput k v t = AList.update k v t"

definition trows :: "('k \<times> 'v) list \<Rightarrow> 'v list" where
  "trows t = map snd t"

definition tkeys_distinct :: "('k \<times> 'v) list \<Rightarrow> bool" where
  "tkeys_distinct t = distinct (map fst t)"

text \<open>
  The interface every table client relies on: what a lookup returns after a write, and which rows
  a scan can return. A compare-and-swap (\<open>UPDATE ... WHERE\<close>) is a guarded \<open>put\<close>.
\<close>

locale row_table =
  fixes get :: "'k \<Rightarrow> 't \<Rightarrow> 'v option"
    and put :: "'k \<Rightarrow> 'v \<Rightarrow> 't \<Rightarrow> 't"
    and rows :: "'t \<Rightarrow> 'v list"
    and wf :: "'t \<Rightarrow> bool"
  assumes get_put: "get k (put j v t) = (if k = j then Some v else get k t)"
    and wf_put: "wf t \<Longrightarrow> wf (put k v t)"
    and rows_get: "wf t \<Longrightarrow> r \<in> set (rows t) \<longleftrightarrow> (\<exists>k. get k t = Some r)"
begin

definition cas :: "('v \<Rightarrow> bool) \<Rightarrow> 'k \<Rightarrow> 'v \<Rightarrow> 't \<Rightarrow> 't option" where
  "cas guard k v t = (case get k t of None \<Rightarrow> None
     | Some old \<Rightarrow> if guard old then Some (put k v t) else None)"

lemma cas_get: "cas guard k v t = Some t' \<Longrightarrow> get k t' = Some v"
  by (auto simp: cas_def get_put split: option.splits if_splits)

lemma cas_excludes_second:
  assumes "cas guard k v t = Some t'" and "\<not> guard v"
  shows "cas guard k w t' = None"
  using assms by (auto simp: cas_def get_put split: option.splits if_splits)

lemma rows_put:
  assumes "wf t" and "r \<in> set (rows (put k v t))"
  shows "r = v \<or> (\<exists>j. j \<noteq> k \<and> get j t = Some r)"
  using assms by (auto simp: rows_get wf_put get_put split: if_splits)

lemma all_rows_put:
  assumes "wf t" and "\<And>r. r \<in> set (rows t) \<Longrightarrow> P r" and "P v" and "r \<in> set (rows (put k v t))"
  shows "P r"
  using rows_put [OF assms(1,4)] assms(2,3) by (auto simp: rows_get [OF assms(1)])

end

lemma tget_tput [simp, table_laws]: "tget k (tput j v t) = (if k = j then Some v else tget k t)"
  by (simp add: tget_def tput_def update_conv')

lemma tget_Nil [simp]: "tget k [] = None"
  by (simp add: tget_def)

lemma tkeys_distinct_tput [simp, intro]: "tkeys_distinct t \<Longrightarrow> tkeys_distinct (tput k v t)"
  by (simp add: tkeys_distinct_def tput_def distinct_update)

lemma tkeys_distinct_Nil [simp]: "tkeys_distinct []"
  by (simp add: tkeys_distinct_def)

lemma trows_tget:
  "tkeys_distinct t \<Longrightarrow> r \<in> set (trows t) \<longleftrightarrow> (\<exists>k. tget k t = Some r)"
  by (force simp: trows_def tget_def tkeys_distinct_def map_of_eq_Some_iff image_iff)

text \<open>\<open>session.add\<close> of a new row raises on a primary key that is already used.\<close>

definition tadd :: "'e \<Rightarrow> 'k \<Rightarrow> 'v \<Rightarrow> ('k \<times> 'v) list \<Rightarrow> 'e + ('k \<times> 'v) list" where
  "tadd e k v t = (if tget k t = None then Inr (tput k v t) else Inl e)"

lemma tadd_Inr_iff [simp]: "tadd e k v t = Inr t' \<longleftrightarrow> tget k t = None \<and> t' = tput k v t"
  by (auto simp: tadd_def)

lemma tget_in_rows: "tget k t = Some r \<Longrightarrow> r \<in> set (trows t)"
  by (force simp: tget_def trows_def dest: map_of_SomeD)

interpretation tbl: row_table tget tput trows tkeys_distinct
  by unfold_locales (auto simp: trows_tget)

section \<open>Python idioms\<close>

text \<open>\<open>tuple(dict.fromkeys(xs))\<close> keeps the first occurrence of every element.\<close>

fun dedup :: "'a list \<Rightarrow> 'a list" where
  "dedup [] = []"
| "dedup (x # xs) = x # filter (\<lambda>y. y \<noteq> x) (dedup xs)"

lemma set_dedup [simp]: "set (dedup xs) = set xs"
  by (induction xs) auto

lemma distinct_dedup [simp]: "distinct (dedup xs)"
  by (induction xs) auto

lemma dedup_eq_Nil [simp]: "dedup xs = [] \<longleftrightarrow> xs = []"
  by (cases xs) auto

text \<open>\<open>tuple(sorted(set(xs)))\<close>.\<close>

definition sorted_set :: "'a::linorder list \<Rightarrow> 'a list" where
  "sorted_set xs = sort (remdups xs)"

lemma set_sorted_set [simp]: "set (sorted_set xs) = set xs"
  by (simp add: sorted_set_def)

lemma sorted_set_sorted [simp]: "sorted (sorted_set xs)" and
  sorted_set_distinct [simp]: "distinct (sorted_set xs)"
  by (simp_all add: sorted_set_def)

lemma sorted_set_cong: "set xs = set ys \<Longrightarrow> sorted_set xs = sorted_set ys"
  by (rule sorted_distinct_set_unique) auto

lemma sorted_set_Nil [simp]: "sorted_set xs = [] \<longleftrightarrow> xs = []"
  by (metis set_empty set_sorted_set)

text \<open>An optional string is truthy when it is present and not empty.\<close>

definition truthy :: "string option \<Rightarrow> bool" where
  "truthy s = (case s of None \<Rightarrow> False | Some x \<Rightarrow> x \<noteq> [])"

definition or_else :: "string option \<Rightarrow> string \<Rightarrow> string" where
  "or_else s d = (case s of None \<Rightarrow> d | Some x \<Rightarrow> if x = [] then d else x)"

text \<open>\<open>max(xs, key=f, default=None)\<close>: the first element with the largest key.\<close>

definition max_by :: "('a \<Rightarrow> 'b::linorder) \<Rightarrow> 'a list \<Rightarrow> 'a option" where
  "max_by f xs = (case xs of [] \<Rightarrow> None
     | y # ys \<Rightarrow> Some (fold (\<lambda>x best. if f best < f x then x else best) ys y))"

lemma fold_max_by:
  fixes f :: "'a \<Rightarrow> 'b::linorder"
  defines "g \<equiv> \<lambda>x best. if f best < f x then x else best"
  shows "fold g ys y \<in> set (y # ys) \<and> (\<forall>x\<in>set (y # ys). f x \<le> f (fold g ys y))"
proof (induction ys arbitrary: y)
  case Nil
  show ?case by simp
next
  case (Cons a ys)
  have le: "f y \<le> f (g a y)" "f a \<le> f (g a y)" "g a y \<in> {y, a}" by (auto simp: g_def)
  note IH = Cons.IH [of "g a y"]
  then have "f (g a y) \<le> f (fold g ys (g a y))" by simp
  with le have "f y \<le> f (fold g ys (g a y))" "f a \<le> f (fold g ys (g a y))"
    using order_trans by blast+
  with IH le(3) show ?case by auto
qed

lemma max_by_None [simp]: "max_by f xs = None \<longleftrightarrow> xs = []"
  by (simp add: max_by_def split: list.split)

lemma max_by_Some: "max_by f xs = Some x \<Longrightarrow> x \<in> set xs \<and> (\<forall>y\<in>set xs. f y \<le> f x)"
  using fold_max_by [where f = f and y = "hd xs" and ys = "tl xs"]
  by (cases xs) (simp_all add: max_by_def)

text \<open>\<open>max(xs, default=d)\<close>.\<close>

definition max_default :: "'a::linorder \<Rightarrow> 'a list \<Rightarrow> 'a" where
  "max_default d xs = (if xs = [] then d else Max (set xs))"

section \<open>Scalar values of claims\<close>

text \<open>
  Python compares values of different types too: \<open>True == 1\<close>. \<open>py_key\<close> maps a value to its
  equality class, \<open>same_type\<close> compares the types.
\<close>

datatype val = VBool bool | VInt int | VStr string

fun py_key :: "val \<Rightarrow> val" where
  "py_key (VBool b) = VInt (if b then 1 else 0)"
| "py_key v = v"

definition py_eq :: "val \<Rightarrow> val \<Rightarrow> bool" where
  "py_eq a b = (py_key a = py_key b)"

fun same_type :: "val \<Rightarrow> val \<Rightarrow> bool" where
  "same_type (VBool _) (VBool _) = True"
| "same_type (VInt _) (VInt _) = True"
| "same_type (VStr _) (VStr _) = True"
| "same_type _ _ = False"

lemma py_eq_same_type: "same_type a b \<Longrightarrow> py_eq a b \<longleftrightarrow> a = b"
  by (cases a; cases b) (auto simp: py_eq_def)

lemma py_eq_refl [simp]: "py_eq a a" and same_type_refl [simp]: "same_type a a"
  by (simp_all add: py_eq_def) (cases a; simp)

lemma py_eq_VStr [simp]: "py_eq v (VStr s) \<longleftrightarrow> v = VStr s" "py_eq (VStr s) v \<longleftrightarrow> v = VStr s"
  by (cases v; auto simp: py_eq_def)+

section \<open>Comparison of characters\<close>

text \<open>
  Strings are compared by code point. The library compares the numbers of two characters; this code
  equation compares their bits from the highest one down, which evaluates faster.
\<close>

fun bits_less :: "bool list \<Rightarrow> bool list \<Rightarrow> bool" where
  "bits_less (x # xs) (y # ys) = (if x then (if y then bits_less xs ys else False) else (if y then True else bits_less xs ys))"
| "bits_less _ _ = False"

lemma bits_less_value:
  "length xs = length ys \<Longrightarrow>
   bits_less xs ys \<longleftrightarrow> horner_sum of_bool (2 :: nat) (rev xs) < horner_sum of_bool 2 (rev ys)"
proof (induction xs ys rule: bits_less.induct)
  case (1 x xs y ys)
  have "horner_sum of_bool (2 :: nat) (rev xs) < 2 ^ length ys" "horner_sum of_bool (2 :: nat) (rev ys) < 2 ^ length ys"
    using horner_sum_of_bool_2_less [of "rev xs"] horner_sum_of_bool_2_less [of "rev ys"] 1(3) by simp_all
  with 1 show ?case by (cases x; cases y) (simp_all add: horner_sum_append)
qed auto

lemma char_less_code [code]:
  "(Char a0 a1 a2 a3 a4 a5 a6 a7 < Char b0 b1 b2 b3 b4 b5 b6 b7) =
   bits_less [a7, a6, a5, a4, a3, a2, a1, a0] [b7, b6, b5, b4, b3, b2, b1, b0]"
proof -
  have "bits_less [a7, a6, a5, a4, a3, a2, a1, a0] [b7, b6, b5, b4, b3, b2, b1, b0] \<longleftrightarrow>
    horner_sum of_bool (2 :: nat) [a0, a1, a2, a3, a4, a5, a6, a7]
      < horner_sum of_bool 2 [b0, b1, b2, b3, b4, b5, b6, b7]"
    by (subst bits_less_value) (simp_all only: list.size rev.simps append.simps)
  then show ?thesis by (simp only: less_char_def of_char_Char)
qed

lemma char_less_eq_code [code]: "(c :: char) \<le> d \<longleftrightarrow> \<not> d < c"
  by (rule linorder_not_less [symmetric])

section \<open>JSON values and time\<close>

text \<open>
  The payloads handed to the SHA-256 based \<open>digest\<close> and \<open>json_hash\<close>. Both serialise with sorted
  keys, so a payload is built with \<open>jobj\<close>, which sorts the members. The hash functions are
  parameters of the definitions that use them.
\<close>

datatype jv = JNull | JBool bool | JInt int | JStr string | JArr "jv list" | JObj "(string \<times> jv) list"

definition jobj :: "(string \<times> jv) list \<Rightarrow> jv" where
  "jobj kvs = JObj (sort_key fst kvs)"

definition jopt :: "('a \<Rightarrow> jv) \<Rightarrow> 'a option \<Rightarrow> jv" where
  "jopt f x = (case x of None \<Rightarrow> JNull | Some y \<Rightarrow> f y)"

fun jval :: "val \<Rightarrow> jv" where
  "jval (VBool b) = JBool b"
| "jval (VInt n) = JInt n"
| "jval (VStr s) = JStr s"

text \<open>A point in time is a number of microseconds (the resolution of \<open>datetime\<close>).\<close>

type_synonym time = int

definition seconds :: "int \<Rightarrow> time" where
  "seconds n = n * 1000000"

lemma seconds_mono [simp]: "seconds a \<le> seconds b \<longleftrightarrow> a \<le> b" "seconds a < seconds b \<longleftrightarrow> a < b"
  by (simp_all add: seconds_def)

lemma seconds_nonneg: "0 \<le> n \<Longrightarrow> 0 \<le> seconds n"
  by (simp add: seconds_def)

section \<open>Status machines\<close>

text \<open>
  Ledger entries, work items, approvals and Cases each carry a status that the code only changes
  along a fixed set of edges, and each operation is one transaction over the database. The contract
  of such a component: no transaction forgets a row, and a row's status changes along an edge.
  What follows for every run of transactions is proved once, here.
\<close>

locale status_machine =
  fixes step :: "'db \<Rightarrow> 'db \<Rightarrow> bool"
    and status_of :: "'db \<Rightarrow> 'k \<Rightarrow> 'st option"
    and edge :: "'st \<Rightarrow> 'st \<Rightarrow> bool"
  assumes step_edge:
    "step d d' \<Longrightarrow> status_of d k = Some a \<Longrightarrow> \<exists>b. status_of d' k = Some b \<and> (b = a \<or> edge a b)"
begin

lemma run_path:
  assumes "step\<^sup>*\<^sup>* d d'" and "status_of d k = Some a"
  shows "\<exists>b. status_of d' k = Some b \<and> edge\<^sup>*\<^sup>* a b"
  using assms
proof (induction rule: rtranclp_induct)
  case base
  then show ?case by blast
next
  case (step y z)
  then obtain b where "status_of y k = Some b" "edge\<^sup>*\<^sup>* a b" by blast
  moreover then obtain c where "status_of z k = Some c" "c = b \<or> edge b c"
    using step_edge [OF step.hyps(2)] by blast
  ultimately show ?case by (auto intro: rtranclp.rtrancl_into_rtrancl)
qed

lemma run_final:
  assumes "step\<^sup>*\<^sup>* d d'" and "status_of d k = Some a" and "\<And>b. \<not> edge a b"
  shows "status_of d' k = Some a"
proof -
  obtain b where b: "status_of d' k = Some b" and path: "edge\<^sup>*\<^sup>* a b"
    using run_path [OF assms(1,2)] by blast
  from path have "b = a"
    by (cases rule: converse_rtranclpE) (use assms(3) in auto)
  with b show ?thesis by simp
qed

lemma run_invariant:
  assumes "step\<^sup>*\<^sup>* d d'" and "status_of d k = Some a" and "P a"
    and "\<And>x y. P x \<Longrightarrow> edge x y \<Longrightarrow> P y"
  shows "\<exists>b. status_of d' k = Some b \<and> P b"
proof -
  obtain b where b: "status_of d' k = Some b" and path: "edge\<^sup>*\<^sup>* a b"
    using run_path [OF assms(1,2)] by blast
  from path have "P b" by (induction rule: rtranclp_induct) (auto intro: assms)
  with b show ?thesis by blast
qed

end

end
