(* ===== verification/Domain.thy ===== *)
theory Domain
  imports Prelude
begin

text \<open>
  The domain model (\<open>domain/enums.py\<close>, \<open>domain/models.py\<close>, \<open>domain/identity.py\<close>) and the tool
  contracts (\<open>tools/contracts.py\<close>). Every \<open>StrEnum\<close> is a datatype with a \<open>_value\<close> function that gives
  its string value, every pydantic model is a record whose fields carry a prefix of the model's
  name, and every \<open>model_validator\<close> is a predicate on the record. Points in time are the
  microseconds of \<^theory_text>\<open>time\<close>; an offset other than UTC denotes the same instant.
\<close>

section \<open>Enumerations\<close>

datatype loan_status =
    Loan_PROCESSING | Loan_SUCCESS | Loan_FAILED

primrec loan_status_value :: "loan_status \<Rightarrow> string" where
  "loan_status_value Loan_PROCESSING = ''PROCESSING''"
| "loan_status_value Loan_SUCCESS = ''SUCCESS''"
| "loan_status_value Loan_FAILED = ''FAILED''"

datatype fund_business_status =
    Fund_NOT_RECEIVED | Fund_PROCESSING | Fund_SUCCESS | Fund_FAILED

primrec fund_business_status_value :: "fund_business_status \<Rightarrow> string" where
  "fund_business_status_value Fund_NOT_RECEIVED = ''NOT_RECEIVED''"
| "fund_business_status_value Fund_PROCESSING = ''PROCESSING''"
| "fund_business_status_value Fund_SUCCESS = ''SUCCESS''"
| "fund_business_status_value Fund_FAILED = ''FAILED''"

datatype payment_finality =
    Pay_UNKNOWN | Pay_NOT_EXECUTED | Pay_PENDING | Pay_SETTLED

primrec payment_finality_value :: "payment_finality \<Rightarrow> string" where
  "payment_finality_value Pay_UNKNOWN = ''UNKNOWN''"
| "payment_finality_value Pay_NOT_EXECUTED = ''NOT_EXECUTED''"
| "payment_finality_value Pay_PENDING = ''PENDING''"
| "payment_finality_value Pay_SETTLED = ''SETTLED''"

datatype accounting_status =
    Acct_NOT_CREATED | Acct_POSTED

primrec accounting_status_value :: "accounting_status \<Rightarrow> string" where
  "accounting_status_value Acct_NOT_CREATED = ''NOT_CREATED''"
| "accounting_status_value Acct_POSTED = ''POSTED''"

datatype callback_status =
    Cbs_NOT_RECEIVED | Cbs_RECEIVED | Cbs_PARSE_FAILED | Cbs_APPLIED

primrec callback_status_value :: "callback_status \<Rightarrow> string" where
  "callback_status_value Cbs_NOT_RECEIVED = ''NOT_RECEIVED''"
| "callback_status_value Cbs_RECEIVED = ''RECEIVED''"
| "callback_status_value Cbs_PARSE_FAILED = ''PARSE_FAILED''"
| "callback_status_value Cbs_APPLIED = ''APPLIED''"

datatype consume_status =
    Consume_PENDING | Consume_CONSUMED | Consume_FAILED

primrec consume_status_value :: "consume_status \<Rightarrow> string" where
  "consume_status_value Consume_PENDING = ''PENDING''"
| "consume_status_value Consume_CONSUMED = ''CONSUMED''"
| "consume_status_value Consume_FAILED = ''FAILED''"

datatype delivery_status =
    Delivery_NOT_ATTEMPTED | Delivery_DELIVERED | Delivery_FAILED

primrec delivery_status_value :: "delivery_status \<Rightarrow> string" where
  "delivery_status_value Delivery_NOT_ATTEMPTED = ''NOT_ATTEMPTED''"
| "delivery_status_value Delivery_DELIVERED = ''DELIVERED''"
| "delivery_status_value Delivery_FAILED = ''FAILED''"

datatype transport_status =
    Http_NOT_ATTEMPTED | Http_OK | Http_TIMEOUT

primrec transport_status_value :: "transport_status \<Rightarrow> string" where
  "transport_status_value Http_NOT_ATTEMPTED = ''NOT_ATTEMPTED''"
| "transport_status_value Http_OK = ''OK''"
| "transport_status_value Http_TIMEOUT = ''TIMEOUT''"

datatype currency =
    Cur_CNY | Cur_USD

primrec currency_value :: "currency \<Rightarrow> string" where
  "currency_value Cur_CNY = ''CNY''"
| "currency_value Cur_USD = ''USD''"

datatype field_type =
    Field_INTEGER | Field_STRING

primrec field_type_value :: "field_type \<Rightarrow> string" where
  "field_type_value Field_INTEGER = ''integer''"
| "field_type_value Field_STRING = ''string''"

datatype business_meaning =
    Meaning_LOAN_CREATED_PAYMENT_SEPARATE | Meaning_REQUEST_PROCESSING
  | Meaning_REJECTED_NO_DISBURSEMENT

primrec business_meaning_value :: "business_meaning \<Rightarrow> string" where
  "business_meaning_value Meaning_LOAN_CREATED_PAYMENT_SEPARATE = ''LOAN_CREATED_PAYMENT_SEPARATE''"
| "business_meaning_value Meaning_REQUEST_PROCESSING = ''REQUEST_PROCESSING''"
| "business_meaning_value Meaning_REJECTED_NO_DISBURSEMENT = ''REJECTED_NO_DISBURSEMENT''"

datatype tool_name =
    Tool_ASSET | Tool_GUARANTEE | Tool_FUND | Tool_PAYMENT | Tool_LOAN_NOTE | Tool_CALLBACK
  | Tool_CALLBACK_RAW | Tool_MESSAGES | Tool_ACCOUNTING | Tool_TRACE | Tool_ASSET_DELIVERY
  | Tool_PROTOCOL

primrec tool_name_value :: "tool_name \<Rightarrow> string" where
  "tool_name_value Tool_ASSET = ''get_asset_order''"
| "tool_name_value Tool_GUARANTEE = ''get_guarantee_order''"
| "tool_name_value Tool_FUND = ''get_fund_order''"
| "tool_name_value Tool_PAYMENT = ''get_payment_transaction''"
| "tool_name_value Tool_LOAN_NOTE = ''get_loan_note''"
| "tool_name_value Tool_CALLBACK = ''get_callback_gateway''"
| "tool_name_value Tool_CALLBACK_RAW = ''get_callback_raw''"
| "tool_name_value Tool_MESSAGES = ''get_messages''"
| "tool_name_value Tool_ACCOUNTING = ''get_accounting''"
| "tool_name_value Tool_TRACE = ''get_request_trace''"
| "tool_name_value Tool_ASSET_DELIVERY = ''get_asset_delivery''"
| "tool_name_value Tool_PROTOCOL = ''get_protocol''"

datatype observation_status =
    Obs_OK | Obs_TIMEOUT | Obs_NOT_FOUND

primrec observation_status_value :: "observation_status \<Rightarrow> string" where
  "observation_status_value Obs_OK = ''OK''"
| "observation_status_value Obs_TIMEOUT = ''TIMEOUT''"
| "observation_status_value Obs_NOT_FOUND = ''NOT_FOUND''"

datatype completeness =
    Compl_COMPLETE | Compl_PARTIAL | Compl_UNKNOWN

primrec completeness_value :: "completeness \<Rightarrow> string" where
  "completeness_value Compl_COMPLETE = ''COMPLETE''"
| "completeness_value Compl_PARTIAL = ''PARTIAL''"
| "completeness_value Compl_UNKNOWN = ''UNKNOWN''"

datatype freshness =
    Fresh_CURRENT | Fresh_STALE | Fresh_UNKNOWN

primrec freshness_value :: "freshness \<Rightarrow> string" where
  "freshness_value Fresh_CURRENT = ''CURRENT''"
| "freshness_value Fresh_STALE = ''STALE''"
| "freshness_value Fresh_UNKNOWN = ''UNKNOWN''"

datatype knowledge_status =
    Know_OBSERVED | Know_UNKNOWN

primrec knowledge_status_value :: "knowledge_status \<Rightarrow> string" where
  "knowledge_status_value Know_OBSERVED = ''OBSERVED''"
| "knowledge_status_value Know_UNKNOWN = ''UNKNOWN''"

datatype source_kind =
    Src_PRIMARY | Src_REPLICA | Src_CACHE | Src_INDEX

primrec source_kind_value :: "source_kind \<Rightarrow> string" where
  "source_kind_value Src_PRIMARY = ''PRIMARY''"
| "source_kind_value Src_REPLICA = ''REPLICA''"
| "source_kind_value Src_CACHE = ''CACHE''"
| "source_kind_value Src_INDEX = ''INDEX''"

datatype fault_kind =
    Fault_TIMEOUT | Fault_DATA_DELAY | Fault_REPLICA_LAG | Fault_INDEX_MISSING | Fault_OLD_CACHE

primrec fault_kind_value :: "fault_kind \<Rightarrow> string" where
  "fault_kind_value Fault_TIMEOUT = ''TIMEOUT''"
| "fault_kind_value Fault_DATA_DELAY = ''DATA_DELAY''"
| "fault_kind_value Fault_REPLICA_LAG = ''REPLICA_LAG''"
| "fault_kind_value Fault_INDEX_MISSING = ''INDEX_MISSING''"
| "fault_kind_value Fault_OLD_CACHE = ''OLD_CACHE''"

datatype scenario_id =
    Scen_S1 | Scen_S2 | Scen_S3 | Scen_S4 | Scen_S5 | Scen_S6 | Scen_S7 | Scen_S8

primrec scenario_id_value :: "scenario_id \<Rightarrow> string" where
  "scenario_id_value Scen_S1 = ''S1''"
| "scenario_id_value Scen_S2 = ''S2''"
| "scenario_id_value Scen_S3 = ''S3''"
| "scenario_id_value Scen_S4 = ''S4''"
| "scenario_id_value Scen_S5 = ''S5''"
| "scenario_id_value Scen_S6 = ''S6''"
| "scenario_id_value Scen_S7 = ''S7''"
| "scenario_id_value Scen_S8 = ''S8''"

datatype root_cause =
    Root_REQUEST_NOT_SENT | Root_NOT_ACCEPTED | Root_FUND_REJECTED | Root_RESPONSE_LOST
  | Root_CALLBACK_NOT_DELIVERED | Root_CALLBACK_SCHEMA_MISMATCH | Root_ASSET_NOTIFICATION_FAILED
  | Root_PAYMENT_PENDING_UNOBSERVABLE

primrec root_cause_value :: "root_cause \<Rightarrow> string" where
  "root_cause_value Root_REQUEST_NOT_SENT = ''REQUEST_NOT_SENT''"
| "root_cause_value Root_NOT_ACCEPTED = ''NOT_ACCEPTED''"
| "root_cause_value Root_FUND_REJECTED = ''FUND_REJECTED''"
| "root_cause_value Root_RESPONSE_LOST = ''RESPONSE_LOST''"
| "root_cause_value Root_CALLBACK_NOT_DELIVERED = ''CALLBACK_NOT_DELIVERED''"
| "root_cause_value Root_CALLBACK_SCHEMA_MISMATCH = ''CALLBACK_SCHEMA_MISMATCH''"
| "root_cause_value Root_ASSET_NOTIFICATION_FAILED = ''ASSET_NOTIFICATION_FAILED''"
| "root_cause_value Root_PAYMENT_PENDING_UNOBSERVABLE = ''PAYMENT_PENDING_UNOBSERVABLE''"

section \<open>Identity references\<close>

text \<open>\<open>^CUS-[A-Za-z0-9-]{1,64}$\<close> and its siblings.\<close>

definition ref_char :: "char \<Rightarrow> bool" where
  "ref_char c = (c = CHR ''-''
     \<or> (CHR ''0'' \<le> c \<and> c \<le> CHR ''9'')
     \<or> (CHR ''A'' \<le> c \<and> c \<le> CHR ''Z'')
     \<or> (CHR ''a'' \<le> c \<and> c \<le> CHR ''z''))"

definition ref_with_prefix :: "string \<Rightarrow> string \<Rightarrow> bool" where
  "ref_with_prefix pre s = (take 4 s = pre \<and> 1 \<le> length (drop 4 s) \<and> length (drop 4 s) \<le> 64
     \<and> list_all ref_char (drop 4 s))"

definition customer_ref_valid :: "string \<Rightarrow> bool" where
  "customer_ref_valid = ref_with_prefix ''CUS-''"

definition beneficiary_ref_valid :: "string \<Rightarrow> bool" where
  "beneficiary_ref_valid = ref_with_prefix ''BEN-''"

definition account_ref_valid :: "string \<Rightarrow> bool" where
  "account_ref_valid = ref_with_prefix ''ACC-''"

section \<open>Domain models\<close>

record asset_system =
  as_event_time :: time
  as_asset_order_id :: string
  as_loan_status :: loan_status
  as_last_callback_event :: "string option"
  as_update_time :: time

record guarantee_core =
  gc_event_time :: time
  gc_internal_order_id :: string
  gc_status :: loan_status
  gc_version :: int
  gc_fund_request_id :: string
  gc_loan_no :: "string option"
  gc_accounting_status :: accounting_status
  gc_callback_status :: callback_status
  gc_protocol_version :: string

record disbursement_transaction =
  dt_event_time :: time
  dt_transaction_id :: string
  dt_fund_request_id :: string
  dt_loan_no :: string
  dt_amount :: int
  dt_currency :: currency
  dt_payment_finality :: payment_finality
  dt_customer_ref :: "string option"
  dt_beneficiary_ref :: "string option"
  dt_account_ref :: "string option"

record fund_system =
  fs_event_time :: time
  fs_fund_request_id :: string
  fs_business_status :: fund_business_status
  fs_accepted_at :: "time option"
  fs_loan_no :: "string option"
  fs_disbursement_transaction :: "disbursement_transaction option"
  fs_amount :: int
  fs_currency :: currency
  fs_payment_finality :: payment_finality

record callback_payload =
  cp_event_id :: string
  cp_fund_request_id :: string
  cp_loanNo :: val
  cp_business_status :: fund_business_status

record callback_gateway =
  cg_event_time :: time
  cg_raw_callback :: callback_payload
  cg_received_at :: time
  cg_signature_verified :: bool
  cg_protocol_version :: string

record message_error =
  me_code :: string
  me_field :: string
  me_expected_type :: field_type
  me_actual_type :: field_type
  me_detail :: string

record message_system =
  ms_event_time :: time
  ms_message_id :: string
  ms_topic :: string
  ms_message :: callback_payload
  ms_consume_status :: consume_status
  ms_dlq :: "string option"
  ms_error :: "message_error option"

record accounting_entry =
  ae_event_time :: time
  ae_entry_id :: string
  ae_internal_order_id :: string
  ae_loan_no :: string
  ae_amount :: int
  ae_currency :: currency
  ae_entry_type :: string

record accounting_system =
  acs_event_time :: time
  acs_expected_entry :: "accounting_entry option"
  acs_actual_entry :: "accounting_entry option"

record idempotency_semantics =
  is_key_fields :: "string list"
  is_retention_seconds :: int
  is_same_key_different_payload :: string
  is_timeout_policy :: string

record protocol_registry =
  pr_event_time :: time
  pr_partner :: string
  pr_protocol_version :: string
  pr_effective_time :: time
  pr_field_schema :: "(string \<times> field_type) list"
  pr_business_semantics :: "(fund_business_status \<times> business_meaning) list"
  pr_idempotency_semantics :: idempotency_semantics

record request_trace =
  rt_event_time :: time
  rt_trace_id :: string
  rt_fund_request_id :: string
  rt_sent :: bool
  rt_sent_at :: "time option"
  rt_http_response :: transport_status
  rt_response_business_status :: "fund_business_status option"

record asset_delivery =
  ad_event_time :: time
  ad_event_id :: "string option"
  ad_delivery_status :: delivery_status
  ad_error_code :: "string option"

record world_state =
  ws_event_time :: time
  ws_asset :: asset_system
  ws_guarantee :: guarantee_core
  ws_fund :: fund_system
  ws_callback_gateway :: "callback_gateway option"
  ws_messages :: "message_system list"
  ws_accounting :: accounting_system
  ws_protocols :: "protocol_registry list"
  ws_request_trace :: request_trace
  ws_asset_delivery :: asset_delivery
  ws_disbursement_intent_count :: int

text \<open>\<open>FundSystem.validate_transaction\<close>.\<close>

definition fund_system_valid :: "fund_system \<Rightarrow> bool" where
  "fund_system_valid f = ((case fs_disbursement_transaction f of
       None \<Rightarrow> True
     | Some t \<Rightarrow> dt_fund_request_id t = fs_fund_request_id f \<and> Some (dt_loan_no t) = fs_loan_no f
         \<and> dt_amount t = fs_amount f \<and> dt_currency t = fs_currency f
         \<and> dt_payment_finality t = fs_payment_finality f)
     \<and> \<not> (fs_payment_finality f = Pay_SETTLED \<and> fs_disbursement_transaction f = None))"

section \<open>Tool contracts\<close>

record tool_query =
  tq_internal_order_id :: string
  tq_protocol_version :: "string option"
  tq_effective_at :: "time option"

record fund_record =
  fr_event_time :: time
  fr_fund_request_id :: string
  fr_business_status :: fund_business_status
  fr_loan_no :: "string option"
  fr_amount :: int
  fr_currency :: currency

record payment_transaction_record =
  ptr_event_time :: time
  ptr_transaction_id :: string
  ptr_fund_request_id :: string
  ptr_loan_no :: string
  ptr_amount :: int
  ptr_currency :: currency
  ptr_payment_finality :: payment_finality
  ptr_customer_ref :: "string option"
  ptr_beneficiary_ref :: "string option"
  ptr_account_ref :: "string option"

record payment_record =
  pyr_event_time :: time
  pyr_fund_request_id :: string
  pyr_payment_finality :: payment_finality
  pyr_transaction :: "payment_transaction_record option"

record loan_note_record =
  ln_event_time :: time
  ln_fund_request_id :: string
  ln_loan_no :: string
  ln_amount :: int
  ln_currency :: currency

record callback_record =
  cbr_event_time :: time
  cbr_event_id :: string
  cbr_received_at :: time
  cbr_signature_verified :: bool
  cbr_protocol_version :: string

record callback_raw_record = callback_record +
  cbw_raw_callback :: callback_payload

record consumer_deployment_observation =
  cd_event_time :: time
  cd_schema_version :: string
  cd_accepted_protocol_version :: string
  cd_loan_no_type :: field_type

record message_record =
  mr_event_time :: time
  mr_message_id :: string
  mr_event_id :: string
  mr_topic :: string
  mr_consume_status :: consume_status
  mr_dlq :: "string option"
  mr_error :: "message_error option"
  mr_consumer_deployment :: "consumer_deployment_observation option"

text \<open>The discriminated union of the projections a tool may return (\<open>kind\<close> is the constructor).\<close>

datatype observation_data =
    AssetData asset_system | GuaranteeData guarantee_core | FundData fund_record
  | PaymentData payment_record | LoanNoteData loan_note_record | CallbackData callback_record
  | CallbackRawData callback_raw_record | MessagesData "message_record list"
  | AccountingData "accounting_entry option" | TraceData request_trace
  | DeliveryData asset_delivery | ProtocolData protocol_registry

record observation =
  ob_observation_id :: string
  ob_tool :: tool_name
  ob_internal_order_id :: string
  ob_status :: observation_status
  ob_knowledge :: knowledge_status
  ob_event_time :: "time option"
  ob_observed_at :: time
  ob_source_as_of :: "time option"
  ob_source_kind :: source_kind
  ob_completeness :: completeness
  ob_freshness :: freshness
  ob_data :: "observation_data option"

text \<open>\<open>Observation.validate_observation\<close>.\<close>

definition observation_valid :: "observation \<Rightarrow> bool" where
  "observation_valid o1 = (
     (case ob_event_time o1 of None \<Rightarrow> True | Some t \<Rightarrow> t \<le> ob_observed_at o1)
     \<and> (case ob_source_as_of o1 of None \<Rightarrow> True | Some t \<Rightarrow> t \<le> ob_observed_at o1)
     \<and> (if ob_status o1 \<noteq> Obs_OK then ob_data o1 = None \<and> ob_knowledge o1 = Know_UNKNOWN
        else ob_data o1 \<noteq> None \<and> ob_knowledge o1 = Know_OBSERVED))"

lemma observation_valid_not_OK:
  "observation_valid o1 \<Longrightarrow> ob_status o1 \<noteq> Obs_OK \<Longrightarrow> ob_data o1 = None"
  by (auto simp: observation_valid_def)

lemma observation_valid_OK:
  "observation_valid o1 \<Longrightarrow> ob_status o1 = Obs_OK \<longleftrightarrow> ob_data o1 \<noteq> None"
  by (auto simp: observation_valid_def split: if_splits)

end
