(* ===== verification/Simulator.thy ===== *)
theory Simulator
  imports Domain
begin

text \<open>
  The trusted simulator that stands behind the read-only tools: the visibility faults
  (\<open>simulator/faults.py\<close>), the allowlist projections (\<open>simulator/projections.py\<close>), the tables and
  the clock of \<open>persistence/store.py\<close>, and the observation service (\<open>simulator/service.py\<close>).
  \<^theory_text>\<open>oh\<close> is the content hash of an observation and \<^theory_text>\<open>th\<close> the hash of a credential.
\<close>

section \<open>Observation faults\<close>

record observation_fault =
  of_tool :: tool_name
  of_kind :: fault_kind
  of_starts_at :: time
  of_ends_at :: "time option"
  of_lag_seconds :: int
  of_cached_revision :: "int option"

definition observation_fault_valid :: "observation_fault \<Rightarrow> bool" where
  "observation_fault_valid f = (0 \<le> of_lag_seconds f
     \<and> (case of_cached_revision f of None \<Rightarrow> True | Some r \<Rightarrow> 0 \<le> r)
     \<and> (case of_ends_at f of None \<Rightarrow> True | Some e \<Rightarrow> of_starts_at f < e)
     \<and> \<not> (of_kind f = Fault_OLD_CACHE \<and> of_cached_revision f = None)
     \<and> \<not> (of_kind f = Fault_REPLICA_LAG \<and> of_lag_seconds f = 0))"

definition fault_active :: "observation_fault \<Rightarrow> time \<Rightarrow> bool" where
  "fault_active f observed_at = (of_starts_at f \<le> observed_at
     \<and> (case of_ends_at f of None \<Rightarrow> True | Some e \<Rightarrow> observed_at < e))"

section \<open>Projections\<close>

definition project_payment_transaction :: "disbursement_transaction \<Rightarrow> payment_transaction_record" where
  "project_payment_transaction t = \<lparr>
     ptr_event_time = dt_event_time t, ptr_transaction_id = dt_transaction_id t,
     ptr_fund_request_id = dt_fund_request_id t, ptr_loan_no = dt_loan_no t,
     ptr_amount = dt_amount t, ptr_currency = dt_currency t,
     ptr_payment_finality = dt_payment_finality t, ptr_customer_ref = dt_customer_ref t,
     ptr_beneficiary_ref = dt_beneficiary_ref t, ptr_account_ref = dt_account_ref t \<rparr>"

definition project_fund :: "fund_system \<Rightarrow> tool_name \<Rightarrow> observation_data option \<times> time option" where
  "project_fund fund tool = (
     if fs_business_status fund = Fund_NOT_RECEIVED then (None, None)
     else if tool = Tool_FUND then
       (Some (FundData \<lparr> fr_event_time = fs_event_time fund,
          fr_fund_request_id = fs_fund_request_id fund,
          fr_business_status = fs_business_status fund, fr_loan_no = fs_loan_no fund,
          fr_amount = fs_amount fund, fr_currency = fs_currency fund \<rparr>), Some (fs_event_time fund))
     else if tool = Tool_PAYMENT then
       (Some (PaymentData \<lparr> pyr_event_time = fs_event_time fund,
          pyr_fund_request_id = fs_fund_request_id fund,
          pyr_payment_finality = fs_payment_finality fund,
          pyr_transaction = map_option project_payment_transaction (fs_disbursement_transaction fund) \<rparr>),
        Some (fs_event_time fund))
     else (case fs_loan_no fund of
       None \<Rightarrow> (None, None)
     | Some loan_no \<Rightarrow>
       (Some (LoanNoteData \<lparr> ln_event_time = fs_event_time fund,
          ln_fund_request_id = fs_fund_request_id fund, ln_loan_no = loan_no,
          ln_amount = fs_amount fund, ln_currency = fs_currency fund \<rparr>), Some (fs_event_time fund))))"

definition project_callback :: "callback_gateway option \<Rightarrow> tool_name \<Rightarrow> observation_data option \<times> time option" where
  "project_callback gw tool = (case gw of
     None \<Rightarrow> (None, None)
   | Some gateway \<Rightarrow>
     let values = \<lparr> cbr_event_time = cg_event_time gateway,
           cbr_event_id = cp_event_id (cg_raw_callback gateway),
           cbr_received_at = cg_received_at gateway,
           cbr_signature_verified = cg_signature_verified gateway,
           cbr_protocol_version = cg_protocol_version gateway \<rparr>
     in if tool = Tool_CALLBACK_RAW
        then (Some (CallbackRawData (callback_record.extend values
                (callback_raw_record.fields (cg_raw_callback gateway)))), Some (cg_event_time gateway))
        else (Some (CallbackData values), Some (cg_event_time gateway)))"

definition project_message :: "message_system \<Rightarrow> message_record" where
  "project_message message = \<lparr>
     mr_event_time = ms_event_time message, mr_message_id = ms_message_id message,
     mr_event_id = cp_event_id (ms_message message), mr_topic = ms_topic message,
     mr_consume_status = ms_consume_status message, mr_dlq = ms_dlq message,
     mr_error = ms_error message, mr_consumer_deployment = None \<rparr>"

definition project_protocol ::
    "world_state \<Rightarrow> tool_query \<Rightarrow> time \<Rightarrow> observation_data option \<times> time option" where
  "project_protocol world query observed_at = (
     let effective_at = (case tq_effective_at query of None \<Rightarrow> gc_event_time (ws_guarantee world) | Some t \<Rightarrow> t);
         applicable = filter (\<lambda>r. pr_effective_time r \<le> effective_at \<and> pr_event_time r \<le> observed_at
           \<and> (tq_protocol_version query = None \<or> Some (pr_protocol_version r) = tq_protocol_version query))
           (ws_protocols world)
     in case max_by pr_effective_time applicable of
          None \<Rightarrow> (None, None)
        | Some r \<Rightarrow> (Some (ProtocolData r), Some (pr_event_time r)))"

fun project :: "world_state \<Rightarrow> tool_name \<Rightarrow> tool_query \<Rightarrow> time \<Rightarrow> observation_data option \<times> time option" where
  "project world Tool_ASSET query observed_at =
     (Some (AssetData (ws_asset world)), Some (as_event_time (ws_asset world)))"
| "project world Tool_GUARANTEE query observed_at =
     (Some (GuaranteeData (ws_guarantee world)), Some (gc_event_time (ws_guarantee world)))"
| "project world Tool_FUND query observed_at = project_fund (ws_fund world) Tool_FUND"
| "project world Tool_PAYMENT query observed_at = project_fund (ws_fund world) Tool_PAYMENT"
| "project world Tool_LOAN_NOTE query observed_at = project_fund (ws_fund world) Tool_LOAN_NOTE"
| "project world Tool_CALLBACK query observed_at = project_callback (ws_callback_gateway world) Tool_CALLBACK"
| "project world Tool_CALLBACK_RAW query observed_at =
     project_callback (ws_callback_gateway world) Tool_CALLBACK_RAW"
| "project world Tool_MESSAGES query observed_at = (
     let records = map project_message (ws_messages world)
     in (Some (MessagesData records),
         if records = [] then None else Some (Max (set (map mr_event_time records)))))"
| "project world Tool_ACCOUNTING query observed_at =
     (Some (AccountingData (acs_actual_entry (ws_accounting world))),
      map_option ae_event_time (acs_actual_entry (ws_accounting world)))"
| "project world Tool_TRACE query observed_at =
     (Some (TraceData (ws_request_trace world)), Some (rt_event_time (ws_request_trace world)))"
| "project world Tool_ASSET_DELIVERY query observed_at =
     (Some (DeliveryData (ws_asset_delivery world)), Some (ad_event_time (ws_asset_delivery world)))"
| "project world Tool_PROTOCOL query observed_at = project_protocol world query observed_at"

section \<open>The simulator's tables\<close>

datatype sim_error = AuthenticationError | ScopeError | QueryError | SimValidationError
  | SimKeyError | SimValueError | SimIndexError | SimIntegrityError

record simulation_row =
  si_scenario_id :: scenario_id
  si_clock :: time
  si_clock_version :: int

record grant_row =
  gr_simulation_id :: string
  gr_order_id :: string
  gr_allowed_tools :: "tool_name list"
  gr_expires_at :: time

record observation_row =
  or_simulation_id :: string
  or_grant_hash :: string
  or_tool :: tool_name
  or_request :: tool_query
  or_observation :: observation
  or_content_hash :: string
  or_dispatch_correlation_id :: "string option"

record sim_db =
  sim_simulations :: "(string \<times> simulation_row) list"
  sim_snapshots :: "((string \<times> int) \<times> world_state) list"
  sim_faults :: "(string \<times> (string \<times> observation_fault)) list"
  sim_grants :: "(string \<times> grant_row) list"
  sim_observations :: "(string \<times> observation_row) list"

text \<open>What \<open>WorldState.model_validate\<close> rejects.\<close>

definition disbursement_transaction_valid :: "disbursement_transaction \<Rightarrow> bool" where
  "disbursement_transaction_valid t = (0 \<le> dt_amount t
     \<and> (case dt_customer_ref t of None \<Rightarrow> True | Some r \<Rightarrow> customer_ref_valid r)
     \<and> (case dt_beneficiary_ref t of None \<Rightarrow> True | Some r \<Rightarrow> beneficiary_ref_valid r)
     \<and> (case dt_account_ref t of None \<Rightarrow> True | Some r \<Rightarrow> account_ref_valid r))"

definition world_state_valid :: "world_state \<Rightarrow> bool" where
  "world_state_valid w = (
     1 \<le> gc_version (ws_guarantee w) \<and> 0 \<le> fs_amount (ws_fund w) \<and> fund_system_valid (ws_fund w)
     \<and> (case fs_disbursement_transaction (ws_fund w) of None \<Rightarrow> True
        | Some t \<Rightarrow> disbursement_transaction_valid t)
     \<and> (case acs_expected_entry (ws_accounting w) of None \<Rightarrow> True | Some e \<Rightarrow> 0 \<le> ae_amount e)
     \<and> (case acs_actual_entry (ws_accounting w) of None \<Rightarrow> True | Some e \<Rightarrow> 0 \<le> ae_amount e)
     \<and> list_all (\<lambda>p. 1 \<le> is_retention_seconds (pr_idempotency_semantics p)) (ws_protocols w)
     \<and> 0 \<le> ws_disbursement_intent_count w)"

definition snapshots :: "sim_db \<Rightarrow> string \<Rightarrow> sim_error + (int \<times> world_state) list" where
  "snapshots db simulation_id = (
     let rows = map (\<lambda>((s, r), w). (r, w)) (filter (\<lambda>((s, r), w). s = simulation_id) (sim_snapshots db))
     in if list_all (\<lambda>(r, w). world_state_valid w) rows then Inr (sort_key fst rows)
        else Inl SimValidationError)"

definition simulation_faults :: "sim_db \<Rightarrow> string \<Rightarrow> sim_error + observation_fault list" where
  "simulation_faults db simulation_id = (
     let policies = map snd (filter (\<lambda>(s, f). s = simulation_id) (trows (sim_faults db)))
     in if list_all observation_fault_valid policies then Inr policies else Inl SimValidationError)"

section \<open>Administration\<close>

definition sim_grant :: "(string \<Rightarrow> string) \<Rightarrow> sim_db \<Rightarrow> string \<Rightarrow> tool_name list \<Rightarrow> int \<Rightarrow> string
    \<Rightarrow> sim_error + sim_db" where
  "sim_grant th db simulation_id tools ttl_seconds token = (
     if ttl_seconds \<le> 0 then Inl SimValueError
     else bindE (needE SimKeyError (tget simulation_id (sim_simulations db))) (\<lambda>row.
     bindE (snapshots db simulation_id) (\<lambda>states.
     if states = [] then Inl SimIndexError
     else bindE (tadd SimIntegrityError (th token) \<lparr>
            gr_simulation_id = simulation_id,
            gr_order_id = gc_internal_order_id (ws_guarantee (snd (last states))),
            gr_allowed_tools = sort_key tool_name_value (remdups tools),
            gr_expires_at = si_clock row + seconds ttl_seconds \<rparr> (sim_grants db))
          (\<lambda>grants. Inr (db \<lparr> sim_grants := grants \<rparr>)))))"

definition sim_advance :: "sim_db \<Rightarrow> string \<Rightarrow> int \<Rightarrow> sim_error + sim_db \<times> time" where
  "sim_advance db simulation_id secs = (
     if secs < 0 then Inl SimValueError
     else bindE (needE SimKeyError (tget simulation_id (sim_simulations db))) (\<lambda>row.
       let new_time = si_clock row + seconds secs
       in Inr (db \<lparr> sim_simulations := tput simulation_id
                (row \<lparr> si_clock := new_time, si_clock_version := si_clock_version row + 1 \<rparr>)
                (sim_simulations db) \<rparr>, new_time)))"

definition sim_add_fault :: "sim_db \<Rightarrow> string \<Rightarrow> string \<Rightarrow> observation_fault \<Rightarrow> sim_error + sim_db" where
  "sim_add_fault db fresh simulation_id fault = (
     case tget simulation_id (sim_simulations db) of None \<Rightarrow> Inl SimKeyError
     | Some row \<Rightarrow> bindE (tadd SimIntegrityError fresh (simulation_id, fault) (sim_faults db))
         (\<lambda>faults. Inr (db \<lparr> sim_faults := faults \<rparr>)))"

definition sim_revoke :: "(string \<Rightarrow> string) \<Rightarrow> sim_db \<Rightarrow> string \<Rightarrow> sim_db" where
  "sim_revoke th db token = db \<lparr> sim_grants := filter (\<lambda>(k, g). k \<noteq> th token) (sim_grants db) \<rparr>"

section \<open>The observation service\<close>

text \<open>\<open>^[0-9a-f]{8}-[0-9a-f]{4}-4[0-9a-f]{3}-[89ab][0-9a-f]{3}-[0-9a-f]{12}$\<close>.\<close>

definition hex_char :: "char \<Rightarrow> bool" where
  "hex_char c = ((CHR ''0'' \<le> c \<and> c \<le> CHR ''9'') \<or> (CHR ''a'' \<le> c \<and> c \<le> CHR ''f''))"

definition dispatch_correlation_id_valid :: "string \<Rightarrow> bool" where
  "dispatch_correlation_id_valid s = (length s = 36
     \<and> list_all (\<lambda>(i, c). if i \<in> {8, 13, 18, 23} then c = CHR ''-''
         else if i = 14 then c = CHR ''4''
         else if i = 19 then c \<in> set ''89ab''
         else hex_char c) (enumerate 0 s))"

text \<open>
  Which view a query sees under the active faults, and how the envelope describes it:
  \<open>(status, source, completeness, freshness, source_as_of, selected)\<close>.
\<close>

definition select_view :: "observation_fault list \<Rightarrow> time \<Rightarrow> (int \<times> world_state) list
    \<Rightarrow> observation_status \<times> source_kind \<times> completeness \<times> freshness \<times> time option \<times> world_state option" where
  "select_view active now history = (
     if list_ex (\<lambda>f. of_kind f = Fault_TIMEOUT) active then
       (Obs_TIMEOUT, Src_PRIMARY, Compl_UNKNOWN, Fresh_UNKNOWN, None, None)
     else if list_ex (\<lambda>f. of_kind f = Fault_DATA_DELAY \<or> of_kind f = Fault_INDEX_MISSING) active then
       (Obs_NOT_FOUND, Src_INDEX, Compl_PARTIAL, Fresh_UNKNOWN, None, None)
     else
       let cache = filter (\<lambda>f. of_kind f = Fault_OLD_CACHE) active;
           replicas = filter (\<lambda>f. of_kind f = Fault_REPLICA_LAG) active
       in if cache \<noteq> [] then
            let revision = Min (set (map (the \<circ> of_cached_revision) cache));
                eligible = filter (\<lambda>(r, w). r \<le> revision) history
            in (Obs_OK, Src_CACHE, Compl_PARTIAL, Fresh_STALE,
                if eligible = [] then None else Some (ws_event_time (snd (last eligible))),
                if eligible = [] then None else Some (snd (last eligible)))
          else if replicas \<noteq> [] then
            let as_of = now - seconds (Max (set (map of_lag_seconds replicas)));
                eligible = filter (\<lambda>(r, w). ws_event_time w \<le> as_of) history
            in (Obs_OK, Src_REPLICA, Compl_PARTIAL, Fresh_STALE, Some as_of,
                if eligible = [] then None else Some (snd (last eligible)))
          else (Obs_OK, Src_PRIMARY, Compl_COMPLETE, Fresh_CURRENT, Some now, Some (snd (last history))))"

text \<open>The observation built from the view; a view that failed carries no data.\<close>

definition build_observation :: "string \<Rightarrow> tool_name \<Rightarrow> tool_query \<Rightarrow> time \<Rightarrow> observation_fault list
    \<Rightarrow> (int \<times> world_state) list \<Rightarrow> observation" where
  "build_observation fresh tool query now active history = (
     let (status, source, compl, frsh, as_of, selected) = select_view active now history;
         (data, event_time) = (case selected of None \<Rightarrow> (None, None)
            | Some w \<Rightarrow> project w tool query now);
         absent = (status = Obs_OK \<and> data = None)
     in \<lparr> ob_observation_id = fresh, ob_tool = tool,
          ob_internal_order_id = tq_internal_order_id query,
          ob_status = (if absent then Obs_NOT_FOUND else status),
          ob_knowledge = (if data \<noteq> None then Know_OBSERVED else Know_UNKNOWN),
          ob_event_time = (if absent then None else event_time),
          ob_observed_at = now, ob_source_as_of = as_of, ob_source_kind = source,
          ob_completeness = (if absent then (if active = [] then Compl_UNKNOWN else Compl_PARTIAL) else compl),
          ob_freshness = frsh, ob_data = data \<rparr>)"

definition observe :: "(string \<Rightarrow> string) \<Rightarrow> (observation \<Rightarrow> string) \<Rightarrow> sim_db \<Rightarrow> string \<Rightarrow> string
    \<Rightarrow> tool_name \<Rightarrow> tool_query \<Rightarrow> string option \<Rightarrow> sim_error + sim_db \<times> observation" where
  "observe th oh db fresh token tool query correlation = (
     if (case correlation of None \<Rightarrow> False | Some c \<Rightarrow> \<not> dispatch_correlation_id_valid c)
     then Inl SimValidationError
     else bindE (needE AuthenticationError (tget (th token) (sim_grants db))) (\<lambda>grant.
     bindE (needE AuthenticationError (tget (gr_simulation_id grant) (sim_simulations db))) (\<lambda>simulation.
     let now = si_clock simulation in
     if gr_expires_at grant \<le> now then Inl AuthenticationError
     else if tool \<notin> set (gr_allowed_tools grant) \<or> tq_internal_order_id query \<noteq> gr_order_id grant
     then Inl ScopeError
     else if tool \<noteq> Tool_PROTOCOL \<and> (truthy (tq_protocol_version query) \<or> tq_effective_at query \<noteq> None)
     then Inl QueryError
     else if (case tq_effective_at query of None \<Rightarrow> False | Some t \<Rightarrow> now < t) then Inl QueryError
     else bindE (snapshots db (gr_simulation_id grant)) (\<lambda>all.
     let history = filter (\<lambda>(r, w). ws_event_time w \<le> now) all in
     if history = [] then Inl QueryError
     else bindE (simulation_faults db (gr_simulation_id grant)) (\<lambda>policies.
     let active = filter (\<lambda>f. of_tool f = tool \<and> fault_active f now) policies;
         o1 = build_observation fresh tool query now active history in
     if \<not> observation_valid o1 then Inl SimValidationError
     else bindE (tadd SimIntegrityError fresh \<lparr>
            or_simulation_id = gr_simulation_id grant, or_grant_hash = th token, or_tool = tool,
            or_request = query, or_observation = o1, or_content_hash = oh o1,
            or_dispatch_correlation_id = correlation \<rparr> (sim_observations db))
          (\<lambda>obs. Inr (db \<lparr> sim_observations := obs \<rparr>, o1)))))))"

section \<open>What a tool can disclose\<close>

text \<open>
  The part of a world the tools may disclose: the expected accounting entry, the count of
  disbursement intents, the acceptance time and a fund system that never received the request are
  the oracle's.
\<close>

definition public_fund :: "fund_system \<Rightarrow> fund_system option" where
  "public_fund f = (if fs_business_status f = Fund_NOT_RECEIVED then None
     else Some (f \<lparr> fs_accepted_at := None \<rparr>))"

definition same_public :: "world_state \<Rightarrow> world_state \<Rightarrow> bool" where
  "same_public w v = (ws_event_time w = ws_event_time v \<and> ws_asset w = ws_asset v
     \<and> ws_guarantee w = ws_guarantee v \<and> public_fund (ws_fund w) = public_fund (ws_fund v)
     \<and> ws_callback_gateway w = ws_callback_gateway v \<and> ws_messages w = ws_messages v
     \<and> acs_actual_entry (ws_accounting w) = acs_actual_entry (ws_accounting v)
     \<and> ws_protocols w = ws_protocols v \<and> ws_request_trace w = ws_request_trace v
     \<and> ws_asset_delivery w = ws_asset_delivery v)"

lemma project_fund_accepted_at: "project_fund (f \<lparr> fs_accepted_at := None \<rparr>) tool = project_fund f tool"
  by (cases "fs_loan_no f") (simp_all add: project_fund_def)

lemma project_fund_public:
  assumes "public_fund f = public_fund g"
  shows "project_fund f tool = project_fund g tool"
proof (cases "fs_business_status f = Fund_NOT_RECEIVED")
  case True
  then show ?thesis using assms by (simp add: public_fund_def project_fund_def split: if_splits)
next
  case False
  then have "f \<lparr> fs_accepted_at := None \<rparr> = g \<lparr> fs_accepted_at := None \<rparr>"
    using assms by (simp add: public_fund_def split: if_splits)
  then show ?thesis by (metis project_fund_accepted_at)
qed

lemma project_public:
  assumes "same_public w v"
  shows "project w tool query now = project v tool query now"
proof -
  have fund: "project_fund (ws_fund w) t = project_fund (ws_fund v) t" for t
    using assms by (auto simp: same_public_def intro: project_fund_public)
  have eqs: "ws_asset w = ws_asset v" "ws_guarantee w = ws_guarantee v"
    "ws_callback_gateway w = ws_callback_gateway v" "ws_messages w = ws_messages v"
    "acs_actual_entry (ws_accounting w) = acs_actual_entry (ws_accounting v)"
    "ws_protocols w = ws_protocols v" "ws_request_trace w = ws_request_trace v"
    "ws_asset_delivery w = ws_asset_delivery v"
    using assms by (simp_all add: same_public_def)
  have protocol: "project_protocol w query now = project_protocol v query now"
    unfolding project_protocol_def eqs ..
  show ?thesis by (cases tool) (simp_all only: project.simps fund eqs protocol)
qed

lemma same_public_last:
  assumes "list_all2 (\<lambda>(r, w) (q, v). r = q \<and> same_public w v) xs ys" and "xs \<noteq> []"
  shows "same_public (snd (last xs)) (snd (last ys))"
proof -
  have len: "length ys = length xs" using assms(1) by (simp add: list_all2_lengthD)
  with assms(2) have "ys \<noteq> []" by auto
  have "(\<lambda>(r, w) (q, v). r = q \<and> same_public w v) (xs ! (length xs - 1)) (ys ! (length xs - 1))"
    by (rule list_all2_nthD [OF assms(1)]) (use assms(2) in simp)
  then show ?thesis
    using last_conv_nth [OF assms(2)] last_conv_nth [OF \<open>ys \<noteq> []\<close>] len
    by (simp add: case_prod_unfold)
qed

lemma filter_public:
  assumes "list_all2 (\<lambda>(r, w) (q, v). r = q \<and> same_public w v) xs ys"
    and "\<And>r w v. same_public w v \<Longrightarrow> P (r, w) = P (r, v)"
  shows "list_all2 (\<lambda>(r, w) (q, v). r = q \<and> same_public w v) (filter P xs) (filter P ys)"
  using assms(1) by (induction rule: list_all2_induct) (auto simp: assms(2))

lemma select_view_public:
  assumes h: "list_all2 (\<lambda>(r, w) (q, v). r = q \<and> same_public w v) h1 h2" and "h1 \<noteq> []"
  shows "rel_prod (=) (rel_prod (=) (rel_prod (=) (rel_prod (=) (rel_prod (=) (rel_option same_public)))))
    (select_view active now h1) (select_view active now h2)"
proof -
  let ?R = "\<lambda>(r, w) (q, v). r = q \<and> same_public w v"
  have rev: "list_all2 ?R (filter (\<lambda>(r, w). r \<le> n) h1) (filter (\<lambda>(r, w). r \<le> n) h2)" for n
    by (rule filter_public [OF h]) auto
  have tm: "list_all2 ?R (filter (\<lambda>(r, w). ws_event_time w \<le> t) h1)
      (filter (\<lambda>(r, w). ws_event_time w \<le> t) h2)" for t
    by (rule filter_public [OF h]) (auto simp: same_public_def)
  have nil: "list_all2 ?R xs ys \<Longrightarrow> xs = [] \<longleftrightarrow> ys = []" for xs ys by auto
  have ev: "list_all2 ?R xs ys \<Longrightarrow> xs \<noteq> [] \<Longrightarrow>
      ws_event_time (snd (last xs)) = ws_event_time (snd (last ys))" for xs ys
    using same_public_last [of xs ys] by (simp add: same_public_def)
  show ?thesis
    using nil [OF rev] nil [OF tm] ev [OF rev] same_public_last [OF rev] same_public_last [OF tm]
      same_public_last [OF h \<open>h1 \<noteq> []\<close>]
    by (simp add: select_view_def Let_def)
qed

lemma build_observation_public_aux:
  assumes "list_all2 (\<lambda>(r, w) (q, v). r = q \<and> same_public w v) h1 h2" and "h1 \<noteq> []"
  shows "build_observation fresh tool query now active h1 = build_observation fresh tool query now active h2"
proof -
  obtain st1 so1 co1 fr1 as1 w1 where v1: "select_view active now h1 = (st1, so1, co1, fr1, as1, w1)"
    by (metis prod_cases6)
  obtain st2 so2 co2 fr2 as2 w2 where v2: "select_view active now h2 = (st2, so2, co2, fr2, as2, w2)"
    by (metis prod_cases6)
  have "st2 = st1" "so2 = so1" "co2 = co1" "fr2 = fr1" "as2 = as1" "rel_option same_public w1 w2"
    using select_view_public [OF assms, of active now] by (simp_all add: v1 v2)
  moreover then have "(case w1 of None \<Rightarrow> (None, None) | Some w \<Rightarrow> project w tool query now)
      = (case w2 of None \<Rightarrow> (None, None) | Some w \<Rightarrow> project w tool query now)"
    by (cases w1; cases w2) (simp_all add: project_public)
  ultimately show ?thesis by (simp add: build_observation_def v1 v2)
qed

lemma observe_shape:
  assumes "observe th oh db fresh token tool query correlation = Inr (db', o1)"
  shows "\<exists>grant sim all policies.
    tget (th token) (sim_grants db) = Some grant
    \<and> tget (gr_simulation_id grant) (sim_simulations db) = Some sim
    \<and> si_clock sim < gr_expires_at grant \<and> tool \<in> set (gr_allowed_tools grant)
    \<and> tq_internal_order_id query = gr_order_id grant
    \<and> snapshots db (gr_simulation_id grant) = Inr all
    \<and> simulation_faults db (gr_simulation_id grant) = Inr policies
    \<and> filter (\<lambda>(r, w). ws_event_time w \<le> si_clock sim) all \<noteq> []
    \<and> o1 = build_observation fresh tool query (si_clock sim)
        (filter (\<lambda>f. of_tool f = tool \<and> fault_active f (si_clock sim)) policies)
        (filter (\<lambda>(r, w). ws_event_time w \<le> si_clock sim) all)
    \<and> observation_valid o1 \<and> tget fresh (sim_observations db) = None
    \<and> db' = db \<lparr> sim_observations := tput fresh \<lparr> or_simulation_id = gr_simulation_id grant,
       or_grant_hash = th token, or_tool = tool, or_request = query, or_observation = o1,
       or_content_hash = oh o1, or_dispatch_correlation_id = correlation \<rparr> (sim_observations db) \<rparr>"
  using assms unfolding observe_def Let_def bindE_Inr_iff needE_Inr_iff if_Inl_Inr_iff
  by (elim conjE exE) (clarsimp simp: not_le)

lemma build_observation_fields:
  "ob_observation_id (build_observation fresh tool query now active history) = fresh"
  "ob_tool (build_observation fresh tool query now active history) = tool"
  "ob_internal_order_id (build_observation fresh tool query now active history) = tq_internal_order_id query"
  "ob_observed_at (build_observation fresh tool query now active history) = now"
  by (simp_all add: build_observation_def Let_def split: prod.splits)

lemma select_view_faulted:
  assumes "active \<noteq> []" and "select_view active now history = (st, so, co, fr, as_of, w)"
  shows "fr \<noteq> Fresh_CURRENT \<and> co \<noteq> Compl_COMPLETE"
proof -
  obtain f where f: "f \<in> set active" using assms(1) by (cases active) auto
  then have "list_ex (\<lambda>f. of_kind f = Fault_TIMEOUT) active
      \<or> list_ex (\<lambda>f. of_kind f = Fault_DATA_DELAY \<or> of_kind f = Fault_INDEX_MISSING) active
      \<or> filter (\<lambda>f. of_kind f = Fault_OLD_CACHE) active \<noteq> []
      \<or> filter (\<lambda>f. of_kind f = Fault_REPLICA_LAG) active \<noteq> []"
    by (cases "of_kind f") (auto simp: list_ex_iff filter_empty_conv)
  then show ?thesis
    using assms(2) unfolding select_view_def Let_def by (elim disjE) (simp_all only: if_True split: if_split_asm, auto)
qed

lemma build_observation_faulted:
  assumes "active \<noteq> []"
  shows "ob_freshness (build_observation fresh tool query now active history) \<noteq> Fresh_CURRENT"
    and "ob_completeness (build_observation fresh tool query now active history) \<noteq> Compl_COMPLETE"
proof -
  obtain st so co fr as_of w where v: "select_view active now history = (st, so, co, fr, as_of, w)"
    by (metis prod_cases6)
  have "fr \<noteq> Fresh_CURRENT" "co \<noteq> Compl_COMPLETE" using select_view_faulted [OF assms v] by simp_all
  then show "ob_freshness (build_observation fresh tool query now active history) \<noteq> Fresh_CURRENT"
    and "ob_completeness (build_observation fresh tool query now active history) \<noteq> Compl_COMPLETE"
    using assms by (simp_all add: build_observation_def v Let_def split: prod.splits)
qed

end
