(* ===== verification/Scenarios.thy ===== *)
theory Scenarios
  imports Simulator
begin

text \<open>
  The eight trusted scenarios (\<open>simulator/scenarios.py\<close>), the seeding of a simulation
  (\<open>SimulatorAdmin.seed\<close>), and the properties of the observation service, whose witnesses run it on
  seeded scenarios. \<^theory_text>\<open>T0\<close> is 2026-09-10 09:30 at +08:00.
\<close>

section \<open>Scenario construction\<close>

definition T0 :: time where "T0 = 1789003800000000"
definition ORDER_ID :: string where "ORDER_ID = ''JD202609100001''"
definition FUND_REQUEST_ID :: string where "FUND_REQUEST_ID = ''FREQ-0910-001''"
definition LOAN_NO :: string where "LOAN_NO = ''LN-20260910-001''"
definition AMOUNT :: int where "AMOUNT = 2000000"
definition PARTNER :: string where "PARTNER = ''SIM-FUND''"

record ground_truth =
  gt_scenario_id :: scenario_id
  gt_root_cause :: root_cause
  gt_request_sent :: bool
  gt_fund_accepted :: bool
  gt_actual_payment_finality :: payment_finality
  gt_disbursement_count :: int
  gt_callback_reached_gateway :: bool
  gt_callback_consumed :: bool
  gt_accounting_created :: bool
  gt_funds_must_remain_unknown :: bool

record scenario =
  sn_scenario_id :: scenario_id
  sn_frames :: "world_state list"
  sn_initial_time :: time
  sn_faults :: "observation_fault list"
  sn_ground_truth :: ground_truth

definition protocols :: "protocol_registry list" where
  "protocols = map (\<lambda>(version, effective, field_type).
     \<lparr> pr_event_time = effective, pr_partner = PARTNER, pr_protocol_version = version,
       pr_effective_time = effective, pr_field_schema = [(''loanNo'', field_type)],
       pr_business_semantics = [(Fund_SUCCESS, Meaning_LOAN_CREATED_PAYMENT_SEPARATE),
         (Fund_PROCESSING, Meaning_REQUEST_PROCESSING), (Fund_FAILED, Meaning_REJECTED_NO_DISBURSEMENT)],
       pr_idempotency_semantics = \<lparr> is_key_fields = [''merchant_id'', ''fund_request_id''],
         is_retention_seconds = 86400, is_same_key_different_payload = ''REJECT'',
         is_timeout_policy = ''UNKNOWN; QUERY ORIGINAL REQUEST; NEVER CREATE A NEW INTENT'' \<rparr> \<rparr>)
     [(''2.2'', T0 - seconds (90 * 86400), Field_INTEGER), (''2.3'', T0 - seconds 86400, Field_STRING)]"

definition base_world :: world_state where
  "base_world = \<lparr> ws_event_time = T0,
     ws_asset = \<lparr> as_event_time = T0, as_asset_order_id = ORDER_ID, as_loan_status = Loan_PROCESSING,
       as_last_callback_event = None, as_update_time = T0 \<rparr>,
     ws_guarantee = \<lparr> gc_event_time = T0, gc_internal_order_id = ORDER_ID, gc_status = Loan_PROCESSING,
       gc_version = 17, gc_fund_request_id = FUND_REQUEST_ID, gc_loan_no = None,
       gc_accounting_status = Acct_NOT_CREATED, gc_callback_status = Cbs_NOT_RECEIVED,
       gc_protocol_version = ''2.3'' \<rparr>,
     ws_fund = \<lparr> fs_event_time = T0, fs_fund_request_id = FUND_REQUEST_ID,
       fs_business_status = Fund_NOT_RECEIVED, fs_accepted_at = None, fs_loan_no = None,
       fs_disbursement_transaction = None, fs_amount = AMOUNT, fs_currency = Cur_CNY,
       fs_payment_finality = Pay_NOT_EXECUTED \<rparr>,
     ws_callback_gateway = None, ws_messages = [],
     ws_accounting = \<lparr> acs_event_time = T0, acs_expected_entry = None, acs_actual_entry = None \<rparr>,
     ws_protocols = protocols,
     ws_request_trace = \<lparr> rt_event_time = T0, rt_trace_id = ''TRACE-001'',
       rt_fund_request_id = FUND_REQUEST_ID, rt_sent = False, rt_sent_at = None,
       rt_http_response = Http_NOT_ATTEMPTED, rt_response_business_status = None \<rparr>,
     ws_asset_delivery = \<lparr> ad_event_time = T0, ad_event_id = None,
       ad_delivery_status = Delivery_NOT_ATTEMPTED, ad_error_code = None \<rparr>,
     ws_disbursement_intent_count = 1 \<rparr>"

text \<open>
  The consumer. The legacy parser accepts an integer \<open>loanNo\<close> only and its failure is caught; the
  current parser raises a plain \<open>ValueError\<close> on a non-string, which is not caught.
\<close>

fun loan_no_is_int :: "val \<Rightarrow> bool" where
  "loan_no_is_int (VInt _) = True"
| "loan_no_is_int _ = False"

fun loan_no_is_str :: "val \<Rightarrow> bool" where
  "loan_no_is_str (VStr _) = True"
| "loan_no_is_str _ = False"

definition consume :: "callback_gateway \<Rightarrow> bool \<Rightarrow> sim_error + message_system" where
  "consume gateway legacy = (
     let loan_no = cp_loanNo (cg_raw_callback gateway) in
     if \<not> legacy \<and> \<not> loan_no_is_str loan_no then Inl SimValueError
     else if legacy \<and> \<not> loan_no_is_int loan_no
     then Inr \<lparr> ms_event_time = T0 + seconds 4, ms_message_id = ''MSG-001'', ms_topic = ''loan.callback'',
       ms_message = cg_raw_callback gateway, ms_consume_status = Consume_FAILED,
       ms_dlq = Some ''loan.callback.dlq'',
       ms_error = Some \<lparr> me_code = ''CALLBACK_SCHEMA_MISMATCH'', me_field = ''loanNo'',
         me_expected_type = Field_INTEGER, me_actual_type = Field_STRING,
         me_detail = ''Consumer expects v2.2 integer loanNo; received v2.3 string'' \<rparr> \<rparr>
     else Inr \<lparr> ms_event_time = T0 + seconds 4, ms_message_id = ''MSG-001'', ms_topic = ''loan.callback'',
       ms_message = cg_raw_callback gateway, ms_consume_status = Consume_CONSUMED,
       ms_dlq = None, ms_error = None \<rparr>)"

primrec scenario_cause :: "scenario_id \<Rightarrow> root_cause" where
  "scenario_cause Scen_S1 = Root_REQUEST_NOT_SENT"
| "scenario_cause Scen_S2 = Root_NOT_ACCEPTED"
| "scenario_cause Scen_S3 = Root_FUND_REJECTED"
| "scenario_cause Scen_S4 = Root_RESPONSE_LOST"
| "scenario_cause Scen_S5 = Root_CALLBACK_NOT_DELIVERED"
| "scenario_cause Scen_S6 = Root_CALLBACK_SCHEMA_MISMATCH"
| "scenario_cause Scen_S7 = Root_ASSET_NOTIFICATION_FAILED"
| "scenario_cause Scen_S8 = Root_PAYMENT_PENDING_UNOBSERVABLE"

definition scenario_settled :: "scenario_id \<Rightarrow> bool" where
  "scenario_settled s = (s \<in> {Scen_S4, Scen_S5, Scen_S6, Scen_S7})"

definition scenario_received :: "scenario_id \<Rightarrow> bool" where
  "scenario_received s = (s \<in> {Scen_S4, Scen_S6, Scen_S7})"

definition scenario_consumed :: "scenario_id \<Rightarrow> bool" where
  "scenario_consumed s = (s \<in> {Scen_S4, Scen_S7})"

definition scenario_trace :: "scenario_id \<Rightarrow> request_trace" where
  "scenario_trace s = (ws_request_trace base_world) \<lparr> rt_event_time := T0 + seconds 3,
     rt_sent := (s \<noteq> Scen_S1), rt_sent_at := (if s \<noteq> Scen_S1 then Some (T0 + seconds 1) else None),
     rt_http_response := (if s = Scen_S1 then Http_NOT_ATTEMPTED
        else if s = Scen_S3 then Http_OK else Http_TIMEOUT),
     rt_response_business_status := (if s = Scen_S3 then Some Fund_FAILED else None) \<rparr>"

definition scenario_finality :: "scenario_id \<Rightarrow> payment_finality" where
  "scenario_finality s = (if scenario_settled s then Pay_SETTLED
     else if s = Scen_S8 then Pay_PENDING else Pay_NOT_EXECUTED)"

definition scenario_fund :: "scenario_id \<Rightarrow> fund_system" where
  "scenario_fund s = (ws_fund base_world) \<lparr> fs_event_time := T0 + seconds 2,
     fs_business_status := (if scenario_settled s then Fund_SUCCESS
        else if s = Scen_S3 then Fund_FAILED
        else if s = Scen_S8 then Fund_PROCESSING else Fund_NOT_RECEIVED),
     fs_accepted_at := (if s \<notin> {Scen_S1, Scen_S2} then Some (T0 + seconds 1) else None),
     fs_loan_no := (if scenario_settled s then Some LOAN_NO else None),
     fs_payment_finality := scenario_finality s,
     fs_disbursement_transaction := (if scenario_settled s then Some
       \<lparr> dt_event_time = T0 + seconds 2, dt_transaction_id = ''PAY-001'',
         dt_fund_request_id = FUND_REQUEST_ID, dt_loan_no = LOAN_NO, dt_amount = AMOUNT,
         dt_currency = Cur_CNY, dt_payment_finality = Pay_SETTLED,
         dt_customer_ref = Some ''CUS-JD-001'', dt_beneficiary_ref = Some ''BEN-JD-001'',
         dt_account_ref = Some ''ACC-JD-001'' \<rparr> else None) \<rparr>"

definition scenario_gateway :: "scenario_id \<Rightarrow> callback_gateway option" where
  "scenario_gateway s = (if scenario_received s then Some
     \<lparr> cg_event_time = T0 + seconds 3,
       cg_raw_callback = \<lparr> cp_event_id = ''CB-001'', cp_fund_request_id = FUND_REQUEST_ID,
         cp_loanNo = VStr LOAN_NO, cp_business_status = Fund_SUCCESS \<rparr>,
       cg_received_at = T0 + seconds 3, cg_signature_verified = True,
       cg_protocol_version = ''2.3'' \<rparr> else None)"

definition scenario_accounting :: "scenario_id \<Rightarrow> accounting_system" where
  "scenario_accounting s = (
     let expected = (if scenario_settled s then Some
       \<lparr> ae_event_time = T0 + seconds 5, ae_entry_id = ''ENTRY-001'',
         ae_internal_order_id = ORDER_ID, ae_loan_no = LOAN_NO, ae_amount = AMOUNT,
         ae_currency = Cur_CNY, ae_entry_type = ''GUARANTEE_LOAN_BUSINESS_PROJECTION'' \<rparr> else None)
     in \<lparr> acs_event_time = T0 + seconds 5, acs_expected_entry = expected,
          acs_actual_entry = (if scenario_consumed s then expected else None) \<rparr>)"

definition scenario_guarantee :: "scenario_id \<Rightarrow> guarantee_core" where
  "scenario_guarantee s = (ws_guarantee base_world) \<lparr> gc_event_time := T0 + seconds 5,
     gc_status := (if scenario_consumed s then Loan_SUCCESS
        else if s = Scen_S3 then Loan_FAILED else Loan_PROCESSING),
     gc_version := (if scenario_consumed s \<or> s = Scen_S3 then 18 else 17),
     gc_loan_no := (if scenario_consumed s then Some LOAN_NO else None),
     gc_callback_status := (if scenario_consumed s then Cbs_APPLIED
        else if s = Scen_S6 then Cbs_PARSE_FAILED else Cbs_NOT_RECEIVED),
     gc_accounting_status := (if scenario_consumed s then Acct_POSTED else Acct_NOT_CREATED) \<rparr>"

definition scenario_asset :: "scenario_id \<Rightarrow> asset_system" where
  "scenario_asset s = (ws_asset base_world) \<lparr> as_event_time := T0 + seconds 6,
     as_update_time := T0 + seconds 6,
     as_loan_status := (if s = Scen_S4 then Loan_SUCCESS
        else if s = Scen_S3 then Loan_FAILED else Loan_PROCESSING),
     as_last_callback_event := (if s = Scen_S4 then Some ''ASSET-CB-001'' else None) \<rparr>"

definition scenario_delivery :: "scenario_id \<Rightarrow> asset_delivery" where
  "scenario_delivery s = \<lparr> ad_event_time = T0 + seconds 6,
     ad_event_id = (if scenario_consumed s then Some ''ASSET-CB-001'' else None),
     ad_delivery_status = (if s = Scen_S4 then Delivery_DELIVERED
        else if s = Scen_S7 then Delivery_FAILED else Delivery_NOT_ATTEMPTED),
     ad_error_code = (if s = Scen_S7 then Some ''ASSET_CALLBACK_TIMEOUT'' else None) \<rparr>"

definition scenario_faults :: "scenario_id \<Rightarrow> observation_fault list" where
  "scenario_faults s = (
     if s = Scen_S4 then
       [\<lparr> of_tool = Tool_GUARANTEE, of_kind = Fault_REPLICA_LAG, of_starts_at = T0, of_ends_at = None,
          of_lag_seconds = 8, of_cached_revision = None \<rparr>]
     else if s = Scen_S8 then
       [\<lparr> of_tool = Tool_FUND, of_kind = Fault_OLD_CACHE, of_starts_at = T0, of_ends_at = None,
          of_lag_seconds = 0, of_cached_revision = Some 0 \<rparr>,
        \<lparr> of_tool = Tool_PAYMENT, of_kind = Fault_TIMEOUT, of_starts_at = T0, of_ends_at = None,
          of_lag_seconds = 0, of_cached_revision = None \<rparr>]
     else [])"

definition scenario_truth :: "scenario_id \<Rightarrow> ground_truth" where
  "scenario_truth s = \<lparr> gt_scenario_id = s, gt_root_cause = scenario_cause s,
     gt_request_sent = (s \<noteq> Scen_S1), gt_fund_accepted = (s \<notin> {Scen_S1, Scen_S2}),
     gt_actual_payment_finality = scenario_finality s,
     gt_disbursement_count = (if scenario_settled s then 1 else 0),
     gt_callback_reached_gateway = scenario_received s, gt_callback_consumed = scenario_consumed s,
     gt_accounting_created = scenario_consumed s, gt_funds_must_remain_unknown = (s = Scen_S8) \<rparr>"

definition scenario_messages :: "scenario_id \<Rightarrow> sim_error + message_system list" where
  "scenario_messages s = (case scenario_gateway s of
       None \<Rightarrow> Inr []
     | Some gateway \<Rightarrow> bindE (consume gateway (s = Scen_S6)) (\<lambda>m. Inr [m]))"

text \<open>
  The frames: at every second from 2 to 6 the components whose final state carries that event time
  become visible. \<open>_copy\<close> validates every frame it builds.
\<close>

definition next_frame :: "scenario_id \<Rightarrow> message_system list \<Rightarrow> time \<Rightarrow> world_state \<Rightarrow> world_state" where
  "next_frame s messages t current = current \<lparr> ws_event_time := t,
     ws_asset := (if as_event_time (scenario_asset s) = t then scenario_asset s else ws_asset current),
     ws_guarantee := (if gc_event_time (scenario_guarantee s) = t then scenario_guarantee s
        else ws_guarantee current),
     ws_fund := (if fs_event_time (scenario_fund s) = t then scenario_fund s else ws_fund current),
     ws_accounting := (if acs_event_time (scenario_accounting s) = t then scenario_accounting s
        else ws_accounting current),
     ws_request_trace := (if rt_event_time (scenario_trace s) = t then scenario_trace s
        else ws_request_trace current),
     ws_asset_delivery := (if ad_event_time (scenario_delivery s) = t then scenario_delivery s
        else ws_asset_delivery current),
     ws_callback_gateway := (case scenario_gateway s of
          None \<Rightarrow> ws_callback_gateway current
        | Some g \<Rightarrow> if cg_event_time g = t then Some g else ws_callback_gateway current),
     ws_messages := (case messages of [] \<Rightarrow> ws_messages current
        | m # _ \<Rightarrow> if ms_event_time m = t then messages else ws_messages current) \<rparr>"

fun scenario_frames :: "scenario_id \<Rightarrow> message_system list \<Rightarrow> int list \<Rightarrow> world_state
    \<Rightarrow> sim_error + world_state list" where
  "scenario_frames s messages [] current = Inr []"
| "scenario_frames s messages (n # ns) current = (
     let w = next_frame s messages (T0 + seconds n) current in
     if \<not> world_state_valid w then Inl SimValidationError
     else bindE (scenario_frames s messages ns w) (\<lambda>ws. Inr (w # ws)))"

definition build_scenario :: "scenario_id \<Rightarrow> sim_error + scenario" where
  "build_scenario s = (
     if \<not> fund_system_valid (scenario_fund s) then Inl SimValidationError
     else bindE (scenario_messages s) (\<lambda>messages.
     bindE (scenario_frames s messages [2, 3, 4, 5, 6] base_world) (\<lambda>frames.
     Inr \<lparr> sn_scenario_id = s, sn_frames = base_world # frames, sn_initial_time = T0 + seconds 10,
           sn_faults = scenario_faults s, sn_ground_truth = scenario_truth s \<rparr>)))"

section \<open>Seeding\<close>

text \<open>\<open>fresh\<close> is the simulation's identifier, \<open>fault_ids\<close> those of the fault rows.\<close>

definition seed :: "sim_db \<Rightarrow> string \<Rightarrow> string list \<Rightarrow> scenario \<Rightarrow> sim_error + sim_db" where
  "seed db fresh fault_ids sc = (
     bindE (tadd SimIntegrityError fresh \<lparr> si_scenario_id = sn_scenario_id sc,
              si_clock = sn_initial_time sc, si_clock_version = 0 \<rparr> (sim_simulations db)) (\<lambda>sims.
     bindE (fold (\<lambda>(i, w) acc. bindE acc (tadd SimIntegrityError (fresh, i) w))
              (zip (map int [0..<length (sn_frames sc)]) (sn_frames sc)) (Inr (sim_snapshots db))) (\<lambda>snaps.
     bindE (fold (\<lambda>(k, f) acc. bindE acc (tadd SimIntegrityError k (fresh, f)))
              (zip fault_ids (sn_faults sc)) (Inr (sim_faults db))) (\<lambda>faults.
     Inr (db \<lparr> sim_simulations := sims, sim_snapshots := snaps, sim_faults := faults \<rparr>)))))"

definition empty_sim :: sim_db where
  "empty_sim = \<lparr> sim_simulations = [], sim_snapshots = [], sim_faults = [], sim_grants = [],
     sim_observations = [] \<rparr>"

section \<open>Properties of the scenarios\<close>

lemmas scenario_defs = build_scenario_def scenario_messages_def consume_def next_frame_def
  scenario_accounting_def scenario_asset_def scenario_delivery_def scenario_faults_def
  scenario_finality_def scenario_fund_def scenario_gateway_def scenario_guarantee_def
  scenario_settled_def scenario_received_def scenario_consumed_def scenario_trace_def
  scenario_truth_def base_world_def protocols_def

lemmas validity_defs = world_state_valid_def fund_system_valid_def disbursement_transaction_valid_def
  customer_ref_valid_def beneficiary_ref_valid_def account_ref_valid_def ref_with_prefix_def
  ref_char_def

definition scenario_ok :: "scenario \<Rightarrow> bool" where
  "scenario_ok sc = (list_all world_state_valid (sn_frames sc) \<and> length (sn_frames sc) = 6
     \<and> sorted (map ws_event_time (sn_frames sc))
     \<and> list_all (\<lambda>w. ws_event_time w \<le> sn_initial_time sc) (sn_frames sc)
     \<and> list_all observation_fault_valid (sn_faults sc)
     \<and> (let final = last (sn_frames sc); truth = sn_ground_truth sc in
          gt_actual_payment_finality truth = fs_payment_finality (ws_fund final)
          \<and> gt_request_sent truth = rt_sent (ws_request_trace final)
          \<and> gt_fund_accepted truth = (fs_accepted_at (ws_fund final) \<noteq> None)
          \<and> (gt_disbursement_count truth = 1) = (fs_disbursement_transaction (ws_fund final) \<noteq> None)
          \<and> gt_callback_reached_gateway truth = (ws_callback_gateway final \<noteq> None)
          \<and> gt_accounting_created truth = (acs_actual_entry (ws_accounting final) \<noteq> None)))"


lemma trace_selectors:
  "ws_asset (w\<lparr> ws_request_trace := t \<rparr>) = ws_asset w" "ws_guarantee (w\<lparr> ws_request_trace := t \<rparr>) = ws_guarantee w"
  "ws_fund (w\<lparr> ws_request_trace := t \<rparr>) = ws_fund w"
  "ws_callback_gateway (w\<lparr> ws_request_trace := t \<rparr>) = ws_callback_gateway w"
  "ws_messages (w\<lparr> ws_request_trace := t \<rparr>) = ws_messages w"
  "ws_accounting (w\<lparr> ws_request_trace := t \<rparr>) = ws_accounting w"
  "ws_asset_delivery (w\<lparr> ws_request_trace := t \<rparr>) = ws_asset_delivery w"
  "ws_protocols (w\<lparr> ws_request_trace := t \<rparr>) = ws_protocols w"
  by simp_all

lemma project_ignores_trace: "tool \<noteq> Tool_TRACE \<Longrightarrow> project (w \<lparr> ws_request_trace := t \<rparr>) tool query now = project w tool query now"
  by (cases tool) (simp_all only: project.simps project_protocol_def trace_selectors simp_thms)

definition same_but_trace :: "scenario_id \<Rightarrow> scenario_id \<Rightarrow> bool" where
  "same_but_trace x y = (case (build_scenario x, build_scenario y) of
     (Inr a, Inr b) \<Rightarrow> map (\<lambda>w. w \<lparr> ws_request_trace := ws_request_trace base_world \<rparr>) (sn_frames a)
        = map (\<lambda>w. w \<lparr> ws_request_trace := ws_request_trace base_world \<rparr>) (sn_frames b)
        \<and> map ws_request_trace (sn_frames a) \<noteq> map ws_request_trace (sn_frames b)
   | _ \<Rightarrow> False)"

text \<open>
  The request that was never sent (S1) and the request the fund never accepted (S2) cannot be
  told apart by any tool but the request trace, at any frame and for any query; the trace does
  differ.
\<close>
theorem unsent_and_unaccepted_look_alike:
  "\<exists>a b. build_scenario Scen_S1 = Inr a \<and> build_scenario Scen_S2 = Inr b
     \<and> map ws_request_trace (sn_frames a) \<noteq> map ws_request_trace (sn_frames b)
     \<and> (\<forall>tool query now. tool = Tool_TRACE
          \<or> map (\<lambda>w. project w tool query now) (sn_frames a)
            = map (\<lambda>w. project w tool query now) (sn_frames b))"
proof -
  let ?r = "\<lambda>w. w \<lparr> ws_request_trace := ws_request_trace base_world \<rparr>"
  have "same_but_trace Scen_S1 Scen_S2" by code_simp
  then obtain a b where ab: "build_scenario Scen_S1 = Inr a" "build_scenario Scen_S2 = Inr b"
    and eq: "map ?r (sn_frames a) = map ?r (sn_frames b)"
    and ne: "map ws_request_trace (sn_frames a) \<noteq> map ws_request_trace (sn_frames b)"
    by (auto simp: same_but_trace_def split: sum.splits)
  have "map (\<lambda>w. project w tool query now) (sn_frames a) = map (\<lambda>w. project w tool query now) (sn_frames b)"
    if "tool \<noteq> Tool_TRACE" for tool query now
  proof -
    have "map (\<lambda>w. project (?r w) tool query now) (sn_frames a)
        = map (\<lambda>w. project (?r w) tool query now) (sn_frames b)"
      using arg_cong [OF eq, of "map (\<lambda>w. project w tool query now)"] by (simp add: comp_def)
    then show ?thesis by (simp add: project_ignores_trace [OF that])
  qed
  with ab ne show ?thesis by blast
qed

section \<open>Properties of the observation service\<close>

text \<open>A seeded simulation with one credential for every tool.\<close>

definition all_tools :: "tool_name list" where
  "all_tools = [Tool_ASSET, Tool_GUARANTEE, Tool_FUND, Tool_PAYMENT, Tool_LOAN_NOTE, Tool_CALLBACK,
     Tool_CALLBACK_RAW, Tool_MESSAGES, Tool_ACCOUNTING, Tool_TRACE, Tool_ASSET_DELIVERY, Tool_PROTOCOL]"

definition seeded :: "scenario_id \<Rightarrow> sim_error + sim_db" where
  "seeded s = bindE (build_scenario s) (\<lambda>sc. bindE (seed empty_sim ''sim'' [''f0'', ''f1''] sc)
     (\<lambda>db. sim_grant id db ''sim'' all_tools 3600 ''token''))"

definition seeded_db :: "scenario_id \<Rightarrow> sim_db" where
  "seeded_db s = (case seeded s of Inr db \<Rightarrow> db | Inl _ \<Rightarrow> empty_sim)"

definition order_query :: tool_query where
  "order_query = \<lparr> tq_internal_order_id = ORDER_ID, tq_protocol_version = None, tq_effective_at = None \<rparr>"

definition observed :: "scenario_id \<Rightarrow> tool_name \<Rightarrow> sim_error + sim_db \<times> observation" where
  "observed s tool = observe id (\<lambda>_. ''hash'') (seeded_db s) ''obs'' ''token'' tool order_query None"

lemma sort_key_public:
  assumes "list_all2 (\<lambda>(r, w) (q, v). r = q \<and> same_public w v) xs ys"
  shows "list_all2 (\<lambda>(r, w) (q, v). r = q \<and> same_public w v)
    (sort_key (fst :: int \<times> _ \<Rightarrow> _) xs) (sort_key fst ys)"
proof -
  let ?R = "\<lambda>(r, w) (q, v). (r::int) = q \<and> same_public w v"
  have ins: "list_all2 ?R us vs \<Longrightarrow> ?R u v
      \<Longrightarrow> list_all2 ?R (insort_key fst u us) (insort_key fst v vs)" for u v us vs
    by (induction us vs rule: list_all2_induct) (auto split: prod.splits)
  show ?thesis
    using assms by (induction rule: list_all2_induct) (simp_all add: sort_key_def ins)
qed

lemma filter_map_public:
  fixes xs ys :: "((string \<times> int) \<times> world_state) list" and sid :: string
  assumes "list_all2 (\<lambda>(k, w) (j, v). k = j \<and> same_public w v
      \<and> (world_state_valid w \<longleftrightarrow> world_state_valid v)) xs ys"
  defines "rows \<equiv> \<lambda>t. map (\<lambda>((s, r), w). (r, w)) (filter (\<lambda>((s, r), w). s = sid) t)"
  shows "list_all2 (\<lambda>(r, w) (q, v). r = q \<and> same_public w v) (rows xs) (rows ys)
    \<and> list_all (\<lambda>(r, w). world_state_valid w) (rows xs) = list_all (\<lambda>(r, w). world_state_valid w) (rows ys)"
  using assms(1) unfolding rows_def
  by (induction rule: list_all2_induct) (auto split: prod.splits)

lemma snapshots_public:
  assumes "list_all2 (\<lambda>(k, w) (j, v). k = j \<and> same_public w v
      \<and> (world_state_valid w \<longleftrightarrow> world_state_valid v)) (sim_snapshots db) snaps"
  shows "rel_sum (=) (list_all2 (\<lambda>(r, w) (q, v). r = q \<and> same_public w v))
    (snapshots db sid) (snapshots (db \<lparr> sim_snapshots := snaps \<rparr>) sid)"
  using filter_map_public [OF assms, of sid]
  by (auto simp: snapshots_def Let_def intro: sort_key_public)

text \<open>
  C14. Non-interference: replace every stored world by one that agrees on its public part (another
  expected accounting entry, another count of disbursement intents, another unreceived fund
  request), and every query gets the same answer, whether an observation or an error.
\<close>
theorem observe_noninterference:
  assumes "list_all2 (\<lambda>(k, w) (j, v). k = j \<and> same_public w v
      \<and> (world_state_valid w \<longleftrightarrow> world_state_valid v)) (sim_snapshots db) snaps"
  shows "map_sum id snd (observe th oh db fresh token tool query corr)
    = map_sum id snd (observe th oh (db \<lparr> sim_snapshots := snaps \<rparr>) fresh token tool query corr)"
proof -
  let ?db = "db \<lparr> sim_snapshots := snaps \<rparr>"
  let ?R = "\<lambda>(r, w) (q, v). (r::int) = q \<and> same_public w v"
  have flt: "simulation_faults ?db sid = simulation_faults db sid" for sid
    by (simp add: simulation_faults_def)
  have hist: "list_all2 ?R (filter (\<lambda>(r, w). ws_event_time w \<le> now) a) (filter (\<lambda>(r, w). ws_event_time w \<le> now) b)"
    if "list_all2 ?R a b" for a b now
    by (rule filter_public [OF that]) (auto simp: same_public_def)
  show ?thesis
  proof (cases "tget (th token) (sim_grants db)")
    case (Some grant)
    note g = this
    show ?thesis
    proof (cases "tget (gr_simulation_id grant) (sim_simulations db)")
      case (Some sim)
      consider (err) e where "snapshots db (gr_simulation_id grant) = Inl e"
          "snapshots ?db (gr_simulation_id grant) = Inl e"
        | (ok) a b where "snapshots db (gr_simulation_id grant) = Inr a"
          "snapshots ?db (gr_simulation_id grant) = Inr b" "list_all2 ?R a b"
        using snapshots_public [OF assms, of "gr_simulation_id grant"] by (auto elim: rel_sum.cases)
      then show ?thesis
      proof cases
        case err
        then show ?thesis using g Some by (simp add: observe_def Let_def)
      next
        case ok
        let ?fa = "filter (\<lambda>(r, w). ws_event_time w \<le> si_clock sim) a"
        let ?fb = "filter (\<lambda>(r, w). ws_event_time w \<le> si_clock sim) b"
        have nil: "?fb = [] \<longleftrightarrow> ?fa = []" using hist [OF ok(3), of "si_clock sim"] by auto
        have same: "?fa \<noteq> [] \<Longrightarrow> build_observation fresh t query (si_clock sim) active ?fb
            = build_observation fresh t query (si_clock sim) active ?fa" for active t
          using build_observation_public_aux [OF hist [OF ok(3), of "si_clock sim"]] by simp
        show ?thesis
          using g Some ok(1,2) nil same
          by (cases "?fa = []"; cases "simulation_faults db (gr_simulation_id grant)")
            (simp_all add: observe_def Let_def flt tadd_def)
      qed
    qed (simp add: observe_def g)
  qed (simp add: observe_def)
qed

text \<open>
  The same answers for a simulation whose stored worlds differ in the count of disbursement intents
  and in a fund request that was never received: the payment lookup of S2.
\<close>
definition other_oracle :: "world_state \<Rightarrow> world_state" where
  "other_oracle w = w \<lparr> ws_disbursement_intent_count := 7,
     ws_fund := (if fs_business_status (ws_fund w) = Fund_NOT_RECEIVED
        then (ws_fund w) \<lparr> fs_amount := 1 \<rparr> else ws_fund w) \<rparr>"

theorem observe_noninterference_witness:
  "map_sum id snd (observed Scen_S2 Tool_PAYMENT)
     = map_sum id snd (observe id (\<lambda>_. ''hash'') ((seeded_db Scen_S2) \<lparr> sim_snapshots :=
         map (\<lambda>(k, w). (k, other_oracle w)) (sim_snapshots (seeded_db Scen_S2)) \<rparr>)
         ''obs'' ''token'' Tool_PAYMENT order_query None)
   \<and> length (sim_snapshots (seeded_db Scen_S2)) = 6"
proof
  have "list_all2 (\<lambda>(k, w) (j, v). k = j \<and> same_public w v
      \<and> (world_state_valid w \<longleftrightarrow> world_state_valid v)) (sim_snapshots (seeded_db Scen_S2))
      (map (\<lambda>(k, w). (k, other_oracle w)) (sim_snapshots (seeded_db Scen_S2)))"
    by code_simp
  then show "map_sum id snd (observed Scen_S2 Tool_PAYMENT)
     = map_sum id snd (observe id (\<lambda>_. ''hash'') ((seeded_db Scen_S2) \<lparr> sim_snapshots :=
         map (\<lambda>(k, w). (k, other_oracle w)) (sim_snapshots (seeded_db Scen_S2)) \<rparr>)
         ''obs'' ''token'' Tool_PAYMENT order_query None)"
    unfolding observed_def by (rule observe_noninterference)
  show "length (sim_snapshots (seeded_db Scen_S2)) = 6" by code_simp
qed

text \<open>
  C15. A returned observation was authorised and is on record: the credential is live and covers the
  tool and the order, the observation is valid and belongs to the query, exactly this row was added
  to the observation table, and nothing else changed.
\<close>
theorem observe_authorised:
  assumes "observe th oh db fresh token tool query corr = Inr (db', o1)"
  shows "\<exists>grant sim. tget (th token) (sim_grants db) = Some grant
    \<and> tget (gr_simulation_id grant) (sim_simulations db) = Some sim
    \<and> si_clock sim < gr_expires_at grant \<and> tool \<in> set (gr_allowed_tools grant)
    \<and> ob_internal_order_id o1 = gr_order_id grant \<and> ob_tool o1 = tool
    \<and> ob_observed_at o1 = si_clock sim \<and> observation_valid o1
    \<and> db' = db \<lparr> sim_observations := sim_observations db' \<rparr>
    \<and> tget fresh (sim_observations db) = None
    \<and> (\<forall>k. tget k (sim_observations db') = (if k = fresh then Some
         \<lparr> or_simulation_id = gr_simulation_id grant, or_grant_hash = th token, or_tool = tool,
           or_request = query, or_observation = o1, or_content_hash = oh o1,
           or_dispatch_correlation_id = corr \<rparr> else tget k (sim_observations db)))"
  using observe_shape [OF assms] by (auto simp: build_observation_fields)

theorem observe_authorised_witness:
  "case observed Scen_S4 Tool_PAYMENT of Inl e \<Rightarrow> False
   | Inr (db', o1) \<Rightarrow> (\<exists>grant. tget ''token'' (sim_grants (seeded_db Scen_S4)) = Some grant
       \<and> Tool_PAYMENT \<in> set (gr_allowed_tools grant)) \<and> ob_status o1 = Obs_OK"
proof -
  have "case observed Scen_S4 Tool_PAYMENT of Inl e \<Rightarrow> False | Inr (db', o1) \<Rightarrow> ob_status o1 = Obs_OK"
    by code_simp
  then obtain db' o1 where o1: "observed Scen_S4 Tool_PAYMENT = Inr (db', o1)" "ob_status o1 = Obs_OK"
    by (auto split: sum.splits)
  then show ?thesis
    using observe_authorised [OF o1(1) [unfolded observed_def]] by auto
qed

text \<open>
  C16. No fault is silent: if a stored fault of the queried tool is active, whatever its kind, the
  observation claims neither current freshness nor completeness; and if no fault is active and the
  lookup succeeds, the observation is the projection of the latest visible world.
\<close>
theorem observe_degraded:
  assumes "observe th oh db fresh token tool query corr = Inr (db', o1)"
    and "simulation_faults db (gr_simulation_id grant) = Inr policies"
    and "tget (th token) (sim_grants db) = Some grant"
  shows "(if filter (\<lambda>f. of_tool f = tool \<and> fault_active f (ob_observed_at o1)) policies \<noteq> []
      then ob_freshness o1 \<noteq> Fresh_CURRENT \<and> ob_completeness o1 \<noteq> Compl_COMPLETE
      else \<exists>all. snapshots db (gr_simulation_id grant) = Inr all
        \<and> ob_data o1 = fst (project (snd (last (filter (\<lambda>(r, w). ws_event_time w \<le> ob_observed_at o1) all)))
            tool query (ob_observed_at o1)))"
proof -
  obtain g all pol and sim :: simulation_row where g: "tget (th token) (sim_grants db) = Some g"
    and snap: "snapshots db (gr_simulation_id g) = Inr all"
    and pol: "simulation_faults db (gr_simulation_id g) = Inr pol"
    and o1: "o1 = build_observation fresh tool query (si_clock sim)
        (filter (\<lambda>f. of_tool f = tool \<and> fault_active f (si_clock sim)) pol)
        (filter (\<lambda>(r, w). ws_event_time w \<le> si_clock sim) all)"
    using observe_shape [OF assms(1)] by blast
  have [simp]: "g = grant" "pol = policies" using g pol assms(2,3) by auto
  note o1 = o1 [simplified]
  have now: "ob_observed_at o1 = si_clock sim" by (simp add: o1 build_observation_fields)
  show ?thesis
  proof (cases "filter (\<lambda>f. of_tool f = tool \<and> fault_active f (si_clock sim)) policies = []")
    case True
    then have "ob_data o1 = fst (project (snd (last (filter (\<lambda>(r, w). ws_event_time w \<le> si_clock sim) all)))
        tool query (si_clock sim))"
      by (simp add: o1 build_observation_def select_view_def Let_def split: prod.splits)
    then show ?thesis using True snap by (simp add: now)
  next
    case False
    then show ?thesis using build_observation_faulted [OF False] by (simp add: now) (simp add: o1)
  qed
qed

theorem observe_degraded_witness:
  "case observed Scen_S8 Tool_FUND of Inl e \<Rightarrow> False
   | Inr (db', o1) \<Rightarrow> ob_freshness o1 \<noteq> Fresh_CURRENT \<and> ob_completeness o1 \<noteq> Compl_COMPLETE"
proof -
  let ?g = "the (tget ''token'' (sim_grants (seeded_db Scen_S8)))"
  have "case observed Scen_S8 Tool_FUND of Inl e \<Rightarrow> False
      | Inr (db', o1) \<Rightarrow> filter (\<lambda>f. of_tool f = Tool_FUND \<and> fault_active f (ob_observed_at o1))
          (scenario_faults Scen_S8) \<noteq> []"
    by code_simp
  then obtain db' o1 where o1: "observed Scen_S8 Tool_FUND = Inr (db', o1)"
    and act: "filter (\<lambda>f. of_tool f = Tool_FUND \<and> fault_active f (ob_observed_at o1))
          (scenario_faults Scen_S8) \<noteq> []"
    by (auto split: sum.splits)
  have "simulation_faults (seeded_db Scen_S8) (gr_simulation_id ?g) = Inr (scenario_faults Scen_S8)"
    by code_simp
  moreover have "tget (id ''token'') (sim_grants (seeded_db Scen_S8)) = Some ?g" by code_simp
  ultimately show ?thesis
    using observe_degraded [OF o1 [unfolded observed_def]] act o1 by simp
qed

end
