(* ===== verification/CaseModel.thy ===== *)
theory CaseModel
  imports Domain
begin

text \<open>
  The Case and what it is bound to (\<open>cases/models.py\<close>, \<open>cases/preconditions.py\<close>,
  \<open>identity/models.py\<close>), and the exceptions the services raise. A frozenset is a list whose order
  nothing depends on.
\<close>

section \<open>Exceptions\<close>

datatype authorization_code =
    Auth_AUTHORIZED | Auth_UNSIGNED_CAPABILITY | Auth_INVALID_CAPABILITY
  | Auth_CAPABILITY_EXPIRED | Auth_CAPABILITY_PAYLOAD_MISMATCH | Auth_CAPABILITY_TARGET_MISMATCH
  | Auth_CAPABILITY_SCOPE_MISMATCH | Auth_CAPABILITY_ALREADY_USED | Auth_APPROVAL_REQUIRED
  | Auth_APPROVAL_NOT_APPROVED | Auth_APPROVAL_EXPIRED | Auth_APPROVAL_REVOKED
  | Auth_APPROVAL_BINDING_MISMATCH | Auth_STALE_AUTHORIZATION | Auth_ACTION_NOT_ALLOWED
  | Auth_IDEMPOTENCY_CONFLICT | Auth_INVALID_TRANSITION | Auth_WRITE_FENCED_BY_UNRESOLVED_EFFECT

primrec authorization_code_value :: "authorization_code \<Rightarrow> string" where
  "authorization_code_value Auth_AUTHORIZED = ''AUTHORIZED''"
| "authorization_code_value Auth_UNSIGNED_CAPABILITY = ''UNSIGNED_CAPABILITY''"
| "authorization_code_value Auth_INVALID_CAPABILITY = ''INVALID_CAPABILITY''"
| "authorization_code_value Auth_CAPABILITY_EXPIRED = ''CAPABILITY_EXPIRED''"
| "authorization_code_value Auth_CAPABILITY_PAYLOAD_MISMATCH = ''CAPABILITY_PAYLOAD_MISMATCH''"
| "authorization_code_value Auth_CAPABILITY_TARGET_MISMATCH = ''CAPABILITY_TARGET_MISMATCH''"
| "authorization_code_value Auth_CAPABILITY_SCOPE_MISMATCH = ''CAPABILITY_SCOPE_MISMATCH''"
| "authorization_code_value Auth_CAPABILITY_ALREADY_USED = ''CAPABILITY_ALREADY_USED''"
| "authorization_code_value Auth_APPROVAL_REQUIRED = ''APPROVAL_REQUIRED''"
| "authorization_code_value Auth_APPROVAL_NOT_APPROVED = ''APPROVAL_NOT_APPROVED''"
| "authorization_code_value Auth_APPROVAL_EXPIRED = ''APPROVAL_EXPIRED''"
| "authorization_code_value Auth_APPROVAL_REVOKED = ''APPROVAL_REVOKED''"
| "authorization_code_value Auth_APPROVAL_BINDING_MISMATCH = ''APPROVAL_BINDING_MISMATCH''"
| "authorization_code_value Auth_STALE_AUTHORIZATION = ''STALE_AUTHORIZATION''"
| "authorization_code_value Auth_ACTION_NOT_ALLOWED = ''ACTION_NOT_ALLOWED''"
| "authorization_code_value Auth_IDEMPOTENCY_CONFLICT = ''IDEMPOTENCY_CONFLICT''"
| "authorization_code_value Auth_INVALID_TRANSITION = ''INVALID_TRANSITION''"
| "authorization_code_value Auth_WRITE_FENCED_BY_UNRESOLVED_EFFECT = ''WRITE_FENCED_BY_UNRESOLVED_EFFECT''"

datatype recovery_failure =
    Rf_LOOKUP_TIMEOUT | Rf_LOOKUP_TRANSPORT_ERROR | Rf_LOOKUP_INDETERMINATE
  | Rf_LOOKUP_NOT_FOUND | Rf_LOOKUP_PROOF_CONFLICT | Rf_INVALID_LOOKUP_RECEIPT
  | Rf_RECOVERY_AUTHORIZATION_EXPIRED | Rf_RECOVERY_APPROVAL_REVOKED | Rf_RECOVERY_STALE
  | Rf_RECOVERY_LIMIT_REACHED | Rf_LEASE_LOST | Rf_NOT_ELIGIBLE | Rf_CLOSURE_INVARIANT_VIOLATION

primrec recovery_failure_value :: "recovery_failure \<Rightarrow> string" where
  "recovery_failure_value Rf_LOOKUP_TIMEOUT = ''LOOKUP_TIMEOUT''"
| "recovery_failure_value Rf_LOOKUP_TRANSPORT_ERROR = ''LOOKUP_TRANSPORT_ERROR''"
| "recovery_failure_value Rf_LOOKUP_INDETERMINATE = ''LOOKUP_INDETERMINATE''"
| "recovery_failure_value Rf_LOOKUP_NOT_FOUND = ''LOOKUP_NOT_FOUND''"
| "recovery_failure_value Rf_LOOKUP_PROOF_CONFLICT = ''LOOKUP_PROOF_CONFLICT''"
| "recovery_failure_value Rf_INVALID_LOOKUP_RECEIPT = ''INVALID_LOOKUP_RECEIPT''"
| "recovery_failure_value Rf_RECOVERY_AUTHORIZATION_EXPIRED = ''RECOVERY_AUTHORIZATION_EXPIRED''"
| "recovery_failure_value Rf_RECOVERY_APPROVAL_REVOKED = ''RECOVERY_APPROVAL_REVOKED''"
| "recovery_failure_value Rf_RECOVERY_STALE = ''RECOVERY_STALE''"
| "recovery_failure_value Rf_RECOVERY_LIMIT_REACHED = ''RECOVERY_LIMIT_REACHED''"
| "recovery_failure_value Rf_LEASE_LOST = ''LEASE_LOST''"
| "recovery_failure_value Rf_NOT_ELIGIBLE = ''NOT_ELIGIBLE''"
| "recovery_failure_value Rf_CLOSURE_INVARIANT_VIOLATION = ''CLOSURE_INVARIANT_VIOLATION''"

datatype closure_code =
    Clo_PASS_REQUIRED | Clo_STALE_EVALUATION | Clo_REPORT_NOT_PERSISTED | Clo_REPORT_INVALID
  | Clo_CLOSURE_INVARIANT_VIOLATION

primrec closure_code_value :: "closure_code \<Rightarrow> string" where
  "closure_code_value Clo_PASS_REQUIRED = ''PASS_REQUIRED''"
| "closure_code_value Clo_STALE_EVALUATION = ''STALE_EVALUATION''"
| "closure_code_value Clo_REPORT_NOT_PERSISTED = ''REPORT_NOT_PERSISTED''"
| "closure_code_value Clo_REPORT_INVALID = ''REPORT_INVALID''"
| "closure_code_value Clo_CLOSURE_INVARIANT_VIOLATION = ''CLOSURE_INVARIANT_VIOLATION''"

text \<open>
  One constructor per exception class, with the code it carries. \<open>AgentPreconditionFailed\<close> is a
  subclass of \<open>CasePolicyError\<close>.
\<close>

datatype error = CaseAccessError | CasePolicyError | AgentPreconditionFailed | ProvenanceError
  | RuntimeError | ValueError | ValidationError | TypeError | KeyError | AttributeError | IntegrityError
  | HypothesisInvariantError | OrchestrationError | RemediationUnavailable | RemediationProtocolError
  | PlannerUnavailable | PlannerProtocolError | FrameStale | ContextEligibilityError
  | ContextEnvelopeInvariantError | MandatoryContextOverflow | ReasoningContextInvariantError
  | AuthorizationError authorization_code | RecoveryError recovery_failure | ClosureError closure_code

definition is_policy_error :: "error \<Rightarrow> bool" where
  "is_policy_error e = (e = CasePolicyError \<or> e = AgentPreconditionFailed)"

section \<open>Identity references of a Case\<close>

record financial_subject =
  fsub_expected_principal_minor :: int
  fsub_currency :: currency
  fsub_customer_ref :: string
  fsub_expected_beneficiary_ref :: string
  fsub_expected_account_ref :: string

datatype identity_match =
    Match_MATCH | Match_MISMATCH | Match_UNKNOWN

primrec identity_match_value :: "identity_match \<Rightarrow> string" where
  "identity_match_value Match_MATCH = ''MATCH''"
| "identity_match_value Match_MISMATCH = ''MISMATCH''"
| "identity_match_value Match_UNKNOWN = ''UNKNOWN''"

datatype identity_dimension =
    Dim_FINALITY | Dim_TRANSACTION | Dim_REQUEST | Dim_AMOUNT | Dim_CURRENCY | Dim_CUSTOMER
  | Dim_BENEFICIARY | Dim_ACCOUNT

primrec identity_dimension_value :: "identity_dimension \<Rightarrow> string" where
  "identity_dimension_value Dim_FINALITY = ''FINALITY''"
| "identity_dimension_value Dim_TRANSACTION = ''TRANSACTION''"
| "identity_dimension_value Dim_REQUEST = ''REQUEST''"
| "identity_dimension_value Dim_AMOUNT = ''AMOUNT''"
| "identity_dimension_value Dim_CURRENCY = ''CURRENCY''"
| "identity_dimension_value Dim_CUSTOMER = ''CUSTOMER''"
| "identity_dimension_value Dim_BENEFICIARY = ''BENEFICIARY''"
| "identity_dimension_value Dim_ACCOUNT = ''ACCOUNT''"

record payment_identity_witness =
  piw_case_id :: string
  piw_observation_id :: string
  piw_transaction_ref :: string
  piw_result :: identity_match
  piw_mismatch_dimensions :: "identity_dimension list"
  piw_unknown_dimensions :: "identity_dimension list"
  piw_evidence_refs :: "string list"

record payment_identity_result =
  pir_case_id :: string
  pir_result :: identity_match
  pir_mismatch_dimensions :: "identity_dimension list"
  pir_unknown_dimensions :: "identity_dimension list"
  pir_witnesses :: "payment_identity_witness list"
  pir_evidence_refs :: "string list"
  pir_verification_version :: string

text \<open>\<open>sorted\<close> on a \<open>StrEnum\<close> compares the string values.\<close>

instantiation identity_dimension :: linorder
begin

definition less_eq_identity_dimension :: "identity_dimension \<Rightarrow> identity_dimension \<Rightarrow> bool" where
  "less_eq_identity_dimension a b = (identity_dimension_value a \<le> identity_dimension_value b)"

definition less_identity_dimension :: "identity_dimension \<Rightarrow> identity_dimension \<Rightarrow> bool" where
  "less_identity_dimension a b = (identity_dimension_value a < identity_dimension_value b)"

instance
proof
  fix x y z :: identity_dimension
  show "(x < y) = (x \<le> y \<and> \<not> y \<le> x)"
    by (auto simp: less_eq_identity_dimension_def less_identity_dimension_def)
  show "x \<le> x" by (simp add: less_eq_identity_dimension_def)
  show "x \<le> y \<Longrightarrow> y \<le> z \<Longrightarrow> x \<le> z" by (simp add: less_eq_identity_dimension_def)
  show "x \<le> y \<Longrightarrow> y \<le> x \<Longrightarrow> x = y"
    unfolding less_eq_identity_dimension_def
    by (drule order.antisym, assumption) (cases x; cases y; simp)
  show "x \<le> y \<or> y \<le> x" by (auto simp: less_eq_identity_dimension_def)
qed

end

section \<open>The Case\<close>

datatype case_status =
    Case_NEW | Case_INVESTIGATING | Case_WAITING | Case_ESCALATED | Case_CLOSED
  | Case_CLOSED_VERIFIED

primrec case_status_value :: "case_status \<Rightarrow> string" where
  "case_status_value Case_NEW = ''NEW''"
| "case_status_value Case_INVESTIGATING = ''INVESTIGATING''"
| "case_status_value Case_WAITING = ''WAITING''"
| "case_status_value Case_ESCALATED = ''ESCALATED''"
| "case_status_value Case_CLOSED = ''CLOSED''"
| "case_status_value Case_CLOSED_VERIFIED = ''CLOSED_VERIFIED''"

record task_contract =
  tc_goal :: string
  tc_success_criteria :: "string list"
  tc_stop_conditions :: "string list"
  tc_escalation_conditions :: "string list"
  tc_forbidden_outcomes :: "string list"

record case_scope =
  csc_allowed_order_ids :: "string list"
  csc_allowed_tools :: "tool_name list"

record case_constraints =
  ccn_forbidden_actions :: "string list"

record case_budget =
  cb_max_tool_calls :: int
  cb_used_tool_calls :: int

record case_rec =
  case_case_id :: string
  case_simulation_id :: string
  case_tenant_id :: string
  case_internal_order_id :: string
  case_goal :: string
  case_task_contract :: task_contract
  case_status :: case_status
  case_created_at :: time
  case_updated_at :: time
  case_scope :: case_scope
  case_constraints :: case_constraints
  case_budget :: case_budget
  case_financial_subject :: "financial_subject option"
  case_lookup_retry_after :: "time option"

record work_lease_precondition =
  wlp_work_item_id :: string
  wlp_worker_id :: string
  wlp_lease_token :: string

record agent_execution_precondition =
  aep_case_id :: string
  aep_tenant_id :: string
  aep_expected_case_status :: case_status
  aep_expected_used_tool_calls :: int
  aep_expected_case_updated_at :: time
  aep_expected_snapshot_id :: string
  aep_planner_policy_version :: string
  aep_work_lease :: "work_lease_precondition option"
  aep_registry_version :: "string option"
  aep_routing_fingerprint :: "string option"

definition is_terminal :: "case_status \<Rightarrow> bool" where
  "is_terminal s = (s = Case_CLOSED \<or> s = Case_CLOSED_VERIFIED)"

lemma is_terminal_simps [simp]:
  "\<not> is_terminal Case_NEW" "\<not> is_terminal Case_INVESTIGATING" "\<not> is_terminal Case_WAITING"
  "\<not> is_terminal Case_ESCALATED" "is_terminal Case_CLOSED" "is_terminal Case_CLOSED_VERIFIED"
  by (simp_all add: is_terminal_def)

definition identifier_valid :: "string \<Rightarrow> bool" where
  "identifier_valid s = (1 \<le> length s \<and> length s \<le> 80)"

definition text_valid :: "string \<Rightarrow> bool" where
  "text_valid s = (1 \<le> length s)"

definition task_contract_valid :: "task_contract \<Rightarrow> bool" where
  "task_contract_valid c = (text_valid (tc_goal c)
     \<and> list_all (\<lambda>xs. xs \<noteq> [] \<and> list_all text_valid xs)
         [tc_success_criteria c, tc_stop_conditions c, tc_escalation_conditions c, tc_forbidden_outcomes c])"

definition case_budget_valid :: "case_budget \<Rightarrow> bool" where
  "case_budget_valid b = (0 \<le> cb_max_tool_calls b \<and> 0 \<le> cb_used_tool_calls b
     \<and> cb_used_tool_calls b \<le> cb_max_tool_calls b)"

definition financial_subject_valid :: "financial_subject \<Rightarrow> bool" where
  "financial_subject_valid s = (0 \<le> fsub_expected_principal_minor s
     \<and> customer_ref_valid (fsub_customer_ref s)
     \<and> beneficiary_ref_valid (fsub_expected_beneficiary_ref s)
     \<and> account_ref_valid (fsub_expected_account_ref s))"

text \<open>\<open>Case.consistent\<close> and the field constraints.\<close>

definition case_valid :: "case_rec \<Rightarrow> bool" where
  "case_valid c = (list_all identifier_valid
       [case_case_id c, case_simulation_id c, case_tenant_id c, case_internal_order_id c]
     \<and> text_valid (case_goal c) \<and> task_contract_valid (case_task_contract c)
     \<and> csc_allowed_order_ids (case_scope c) \<noteq> []
     \<and> list_all identifier_valid (csc_allowed_order_ids (case_scope c))
     \<and> csc_allowed_tools (case_scope c) \<noteq> []
     \<and> list_all text_valid (ccn_forbidden_actions (case_constraints c))
     \<and> case_budget_valid (case_budget c)
     \<and> (case case_financial_subject c of None \<Rightarrow> True | Some s \<Rightarrow> financial_subject_valid s)
     \<and> case_goal c = tc_goal (case_task_contract c)
     \<and> case_internal_order_id c \<in> set (csc_allowed_order_ids (case_scope c))
     \<and> case_created_at c \<le> case_updated_at c)"

section \<open>A sample Case\<close>

text \<open>The Case and the query on which the witnesses evaluate.\<close>

definition sample_case :: case_rec where
  "sample_case = \<lparr> case_case_id = ''CASE-1'', case_simulation_id = ''sim'', case_tenant_id = ''tenant'',
     case_internal_order_id = ''JD-1'', case_goal = ''goal'',
     case_task_contract = \<lparr> tc_goal = ''goal'', tc_success_criteria = [''s''],
       tc_stop_conditions = [''s''], tc_escalation_conditions = [''e''], tc_forbidden_outcomes = [''f''] \<rparr>,
     case_status = Case_INVESTIGATING, case_created_at = 0, case_updated_at = 0,
     case_scope = \<lparr> csc_allowed_order_ids = [''JD-1''],
       csc_allowed_tools = [Tool_PAYMENT, Tool_TRACE, Tool_FUND, Tool_GUARANTEE, Tool_MESSAGES,
         Tool_CALLBACK] \<rparr>,
     case_constraints = \<lparr> ccn_forbidden_actions = [] \<rparr>,
     case_budget = \<lparr> cb_max_tool_calls = 10, cb_used_tool_calls = 0 \<rparr>,
     case_financial_subject = Some \<lparr> fsub_expected_principal_minor = 2000000, fsub_currency = Cur_CNY,
       fsub_customer_ref = ''CUS-1'', fsub_expected_beneficiary_ref = ''BEN-1'',
       fsub_expected_account_ref = ''ACC-1'' \<rparr>,
     case_lookup_retry_after = None \<rparr>"

definition sample_query :: tool_query where
  "sample_query = \<lparr> tq_internal_order_id = ''JD-1'', tq_protocol_version = None, tq_effective_at = None \<rparr>"

end
