(* ===== verification/EvidenceModel.thy ===== *)
theory EvidenceModel
  imports CaseModel
begin

text \<open>
  The Evidence record (\<open>evidence/models.py\<close>), its canonical payload, fingerprint and validator.
  \<^theory_text>\<open>jh\<close> is \<open>json_hash\<close>: SHA-256 of the JSON with sorted keys. Timestamps enter a payload as their
  microseconds.
\<close>

datatype claim_type =
    Claim_REQUEST_SENT | Claim_HTTP_RESPONSE_STATUS | Claim_FUND_BUSINESS_STATUS
  | Claim_LOAN_NO_PRESENT | Claim_LOAN_NOTE_REFERENCE | Claim_PAYMENT_FINALITY
  | Claim_PAYMENT_TRANSACTION_ID | Claim_PAYMENT_AMOUNT | Claim_PAYMENT_CURRENCY
  | Claim_PAYMENT_CUSTOMER_REF | Claim_PAYMENT_BENEFICIARY_REF | Claim_PAYMENT_ACCOUNT_REF
  | Claim_TRANSACTION_FUND_REQUEST_ID | Claim_CALLBACK_GATEWAY_RECEIVED
  | Claim_CALLBACK_SIGNATURE_VERIFIED | Claim_CALLBACK_PROTOCOL_VERSION
  | Claim_MESSAGE_CONSUME_STATUS | Claim_MESSAGE_DLQ | Claim_MESSAGE_ERROR_CODE
  | Claim_MESSAGE_ERROR_FIELD | Claim_MESSAGE_EXPECTED_FIELD_TYPE
  | Claim_MESSAGE_ACTUAL_FIELD_TYPE | Claim_CONSUMER_DEPLOYED_SCHEMA_VERSION
  | Claim_CONSUMER_ACCEPTED_PROTOCOL_VERSION | Claim_CONSUMER_LOAN_NO_FIELD_TYPE
  | Claim_ACCOUNTING_ENTRY_PRESENT | Claim_ASSET_STATUS | Claim_GUARANTEE_STATUS
  | Claim_GUARANTEE_VERSION | Claim_ASSET_DELIVERY_STATUS | Claim_ASSET_DELIVERY_EVENT_REF
  | Claim_PROTOCOL_FIELD_TYPE | Claim_PROTOCOL_BUSINESS_SEMANTICS | Claim_SOURCE_LOOKUP_STATUS

primrec claim_type_value :: "claim_type \<Rightarrow> string" where
  "claim_type_value Claim_REQUEST_SENT = ''REQUEST_SENT''"
| "claim_type_value Claim_HTTP_RESPONSE_STATUS = ''HTTP_RESPONSE_STATUS''"
| "claim_type_value Claim_FUND_BUSINESS_STATUS = ''FUND_BUSINESS_STATUS''"
| "claim_type_value Claim_LOAN_NO_PRESENT = ''LOAN_NO_PRESENT''"
| "claim_type_value Claim_LOAN_NOTE_REFERENCE = ''LOAN_NOTE_REFERENCE''"
| "claim_type_value Claim_PAYMENT_FINALITY = ''PAYMENT_FINALITY''"
| "claim_type_value Claim_PAYMENT_TRANSACTION_ID = ''PAYMENT_TRANSACTION_ID''"
| "claim_type_value Claim_PAYMENT_AMOUNT = ''PAYMENT_AMOUNT''"
| "claim_type_value Claim_PAYMENT_CURRENCY = ''PAYMENT_CURRENCY''"
| "claim_type_value Claim_PAYMENT_CUSTOMER_REF = ''PAYMENT_CUSTOMER_REF''"
| "claim_type_value Claim_PAYMENT_BENEFICIARY_REF = ''PAYMENT_BENEFICIARY_REF''"
| "claim_type_value Claim_PAYMENT_ACCOUNT_REF = ''PAYMENT_ACCOUNT_REF''"
| "claim_type_value Claim_TRANSACTION_FUND_REQUEST_ID = ''TRANSACTION_FUND_REQUEST_ID''"
| "claim_type_value Claim_CALLBACK_GATEWAY_RECEIVED = ''CALLBACK_GATEWAY_RECEIVED''"
| "claim_type_value Claim_CALLBACK_SIGNATURE_VERIFIED = ''CALLBACK_SIGNATURE_VERIFIED''"
| "claim_type_value Claim_CALLBACK_PROTOCOL_VERSION = ''CALLBACK_PROTOCOL_VERSION''"
| "claim_type_value Claim_MESSAGE_CONSUME_STATUS = ''MESSAGE_CONSUME_STATUS''"
| "claim_type_value Claim_MESSAGE_DLQ = ''MESSAGE_DLQ''"
| "claim_type_value Claim_MESSAGE_ERROR_CODE = ''MESSAGE_ERROR_CODE''"
| "claim_type_value Claim_MESSAGE_ERROR_FIELD = ''MESSAGE_ERROR_FIELD''"
| "claim_type_value Claim_MESSAGE_EXPECTED_FIELD_TYPE = ''MESSAGE_EXPECTED_FIELD_TYPE''"
| "claim_type_value Claim_MESSAGE_ACTUAL_FIELD_TYPE = ''MESSAGE_ACTUAL_FIELD_TYPE''"
| "claim_type_value Claim_CONSUMER_DEPLOYED_SCHEMA_VERSION = ''CONSUMER_DEPLOYED_SCHEMA_VERSION''"
| "claim_type_value Claim_CONSUMER_ACCEPTED_PROTOCOL_VERSION = ''CONSUMER_ACCEPTED_PROTOCOL_VERSION''"
| "claim_type_value Claim_CONSUMER_LOAN_NO_FIELD_TYPE = ''CONSUMER_LOAN_NO_FIELD_TYPE''"
| "claim_type_value Claim_ACCOUNTING_ENTRY_PRESENT = ''ACCOUNTING_ENTRY_PRESENT''"
| "claim_type_value Claim_ASSET_STATUS = ''ASSET_STATUS''"
| "claim_type_value Claim_GUARANTEE_STATUS = ''GUARANTEE_STATUS''"
| "claim_type_value Claim_GUARANTEE_VERSION = ''GUARANTEE_VERSION''"
| "claim_type_value Claim_ASSET_DELIVERY_STATUS = ''ASSET_DELIVERY_STATUS''"
| "claim_type_value Claim_ASSET_DELIVERY_EVENT_REF = ''ASSET_DELIVERY_EVENT_REF''"
| "claim_type_value Claim_PROTOCOL_FIELD_TYPE = ''PROTOCOL_FIELD_TYPE''"
| "claim_type_value Claim_PROTOCOL_BUSINESS_SEMANTICS = ''PROTOCOL_BUSINESS_SEMANTICS''"
| "claim_type_value Claim_SOURCE_LOOKUP_STATUS = ''SOURCE_LOOKUP_STATUS''"

datatype evidence_strength =
    Strength_AUTHORITATIVE | Strength_STRONG | Strength_SUPPORTING | Strength_WEAK
  | Strength_HINT

primrec evidence_strength_value :: "evidence_strength \<Rightarrow> string" where
  "evidence_strength_value Strength_AUTHORITATIVE = ''AUTHORITATIVE''"
| "evidence_strength_value Strength_STRONG = ''STRONG''"
| "evidence_strength_value Strength_SUPPORTING = ''SUPPORTING''"
| "evidence_strength_value Strength_WEAK = ''WEAK''"
| "evidence_strength_value Strength_HINT = ''HINT''"

datatype subject_kind =
    Subj_ORDER | Subj_FUND_REQUEST | Subj_TRANSACTION | Subj_CALLBACK | Subj_MESSAGE
  | Subj_PROTOCOL

primrec subject_kind_value :: "subject_kind \<Rightarrow> string" where
  "subject_kind_value Subj_ORDER = ''ORDER''"
| "subject_kind_value Subj_FUND_REQUEST = ''FUND_REQUEST''"
| "subject_kind_value Subj_TRANSACTION = ''TRANSACTION''"
| "subject_kind_value Subj_CALLBACK = ''CALLBACK''"
| "subject_kind_value Subj_MESSAGE = ''MESSAGE''"
| "subject_kind_value Subj_PROTOCOL = ''PROTOCOL''"

record evidence_subject =
  es_kind :: subject_kind
  es_identifier :: string
  es_internal_order_id :: string
  es_field :: "string option"

record evidence_metadata =
  em_extractor_version :: string
  em_source_path :: string
  em_scope :: tool_query
  em_fund_request_id :: "string option"
  em_callback_event_id :: "string option"

record evidence =
  ev_evidence_id :: string
  ev_case_id :: string
  ev_observation_id :: string
  ev_tool :: tool_name
  ev_source_kind :: source_kind
  ev_claim_type :: claim_type
  ev_subject :: evidence_subject
  ev_value :: val
  ev_event_time :: "time option"
  ev_observed_at :: time
  ev_source_as_of :: "time option"
  ev_source_version :: "string option"
  ev_protocol_version :: "string option"
  ev_completeness :: completeness
  ev_freshness :: freshness
  ev_strength :: evidence_strength
  ev_raw_ref :: string
  ev_content_hash :: string
  ev_created_at :: time
  ev_metadata :: evidence_metadata

record raw_observation =
  ro_observation_id :: string
  ro_tool :: tool_name
  ro_request :: tool_query
  ro_content_hash :: string
  ro_observation :: observation

record evidence_conflict =
  ec_conflict_id :: string
  ec_case_id :: string
  ec_claim_type :: claim_type
  ec_evidence_refs :: "string list"
  ec_reason :: string
  ec_detected_at :: time

text \<open>\<open>Evidence.validate_identity_reference\<close>: an identity claim carries a typed reference.\<close>

fun val_string :: "val \<Rightarrow> string option" where
  "val_string (VStr s) = Some s"
| "val_string _ = None"

definition evidence_valid :: "evidence \<Rightarrow> bool" where
  "evidence_valid e = (
     let ref = (\<lambda>p. case val_string (ev_value e) of None \<Rightarrow> False | Some s \<Rightarrow> p s)
     in case ev_claim_type e of
          Claim_PAYMENT_CUSTOMER_REF \<Rightarrow> ref customer_ref_valid
        | Claim_PAYMENT_BENEFICIARY_REF \<Rightarrow> ref beneficiary_ref_valid
        | Claim_PAYMENT_ACCOUNT_REF \<Rightarrow> ref account_ref_valid
        | _ \<Rightarrow> True)"

section \<open>Canonical payload and fingerprint\<close>

definition scope_json :: "tool_query \<Rightarrow> jv" where
  "scope_json q = jobj [(''internal_order_id'', JStr (tq_internal_order_id q)),
     (''protocol_version'', jopt JStr (tq_protocol_version q)),
     (''effective_at'', jopt JInt (tq_effective_at q))]"

definition subject_json :: "evidence_subject \<Rightarrow> jv" where
  "subject_json s = jobj [(''kind'', JStr (subject_kind_value (es_kind s))),
     (''identifier'', JStr (es_identifier s)), (''internal_order_id'', JStr (es_internal_order_id s)),
     (''field'', jopt JStr (es_field s))]"

definition metadata_json :: "evidence_metadata \<Rightarrow> jv" where
  "metadata_json m = jobj [(''extractor_version'', JStr (em_extractor_version m)),
     (''source_path'', JStr (em_source_path m)), (''scope'', scope_json (em_scope m)),
     (''fund_request_id'', jopt JStr (em_fund_request_id m)),
     (''callback_event_id'', jopt JStr (em_callback_event_id m))]"

definition evidence_fields :: "evidence \<Rightarrow> (string \<times> jv) list" where
  "evidence_fields e = [
     (''evidence_id'', JStr (ev_evidence_id e)), (''case_id'', JStr (ev_case_id e)),
     (''observation_id'', JStr (ev_observation_id e)), (''tool'', JStr (tool_name_value (ev_tool e))),
     (''source_kind'', JStr (source_kind_value (ev_source_kind e))),
     (''claim_type'', JStr (claim_type_value (ev_claim_type e))),
     (''subject'', subject_json (ev_subject e)), (''value'', jval (ev_value e)),
     (''event_time'', jopt JInt (ev_event_time e)), (''observed_at'', JInt (ev_observed_at e)),
     (''source_as_of'', jopt JInt (ev_source_as_of e)),
     (''source_version'', jopt JStr (ev_source_version e)),
     (''protocol_version'', jopt JStr (ev_protocol_version e)),
     (''completeness'', JStr (completeness_value (ev_completeness e))),
     (''freshness'', JStr (freshness_value (ev_freshness e))),
     (''strength'', JStr (evidence_strength_value (ev_strength e))),
     (''raw_ref'', JStr (ev_raw_ref e)), (''content_hash'', JStr (ev_content_hash e)),
     (''created_at'', JInt (ev_created_at e)), (''metadata'', metadata_json (ev_metadata e))]"

definition fingerprint_payload :: "evidence \<Rightarrow> jv" where
  "fingerprint_payload e = jobj (
     filter (\<lambda>(k, v). k \<notin> {''evidence_id'', ''observation_id'', ''raw_ref'', ''content_hash'',
       ''created_at'', ''observed_at''}) (evidence_fields e)
     @ (if ev_event_time e = None then [(''lookup_at'', JInt (ev_observed_at e))] else []))"

definition fingerprint :: "(jv \<Rightarrow> string) \<Rightarrow> evidence \<Rightarrow> string" where
  "fingerprint jh e = jh (fingerprint_payload e)"

end
