(* ===== verification/EvidenceIndex.thy ===== *)
theory EvidenceIndex
  imports EvidenceModel
begin

text \<open>
  Reading Evidence: the immutable index with its notions of latest, current and agreed facts
  (\<open>hypotheses/index.py\<close>), freshness and conflicts (\<open>evidence/services.py\<close>), and the payment
  identity contract (\<open>identity/payment.py\<close>, \<open>identity/service.py\<close>).
\<close>

section \<open>The index\<close>

record evidence_index =
  ix_case :: case_rec
  ix_evidence :: "evidence list"

definition in_case_scope :: "case_rec \<Rightarrow> evidence \<Rightarrow> bool" where
  "in_case_scope c e = (ev_case_id e = case_case_id c
     \<and> es_internal_order_id (ev_subject e) = case_internal_order_id c
     \<and> tq_internal_order_id (em_scope (ev_metadata e)) = case_internal_order_id c
     \<and> ev_tool e \<in> set (csc_allowed_tools (case_scope c)))"

text \<open>\<open>by_id\<close> keeps the dictionary of the loop, in insertion order.\<close>

fun index_loop :: "case_rec \<Rightarrow> evidence list \<Rightarrow> (string \<times> evidence) list \<Rightarrow> error + (string \<times> evidence) list" where
  "index_loop c [] by_id = Inr by_id"
| "index_loop c (e # es) by_id = (
     if \<not> evidence_valid e then Inl ValidationError
     else if \<not> in_case_scope c e then Inl ValueError
     else if (case map_of by_id (ev_evidence_id e) of None \<Rightarrow> False | Some f \<Rightarrow> f \<noteq> e) then Inl ValueError
     else if ev_raw_ref e \<noteq> ''observation://'' @ ev_observation_id e then Inl ValueError
     else index_loop c es (AList.update (ev_evidence_id e) e by_id))"

definition build_index :: "case_rec \<Rightarrow> evidence list \<Rightarrow> error + evidence_index" where
  "build_index c es = (
     if \<not> case_valid c then Inl ValidationError
     else bindE (index_loop c es []) (\<lambda>by_id.
       Inr \<lparr> ix_case = c, ix_evidence = sort_key ev_evidence_id (map snd by_id) \<rparr>))"

definition all_claims :: "evidence_index \<Rightarrow> claim_type \<Rightarrow> evidence list" where
  "all_claims ix claim = filter (\<lambda>e. ev_claim_type e = claim) (ix_evidence ix)"

definition dimension :: "evidence \<Rightarrow> subject_kind \<times> string \<times> string \<times> string option \<times> string option" where
  "dimension e = (es_kind (ev_subject e), es_identifier (ev_subject e),
     es_internal_order_id (ev_subject e), es_field (ev_subject e),
     if ev_tool e = Tool_PROTOCOL then ev_protocol_version e else None)"

definition business_time :: "evidence \<Rightarrow> time" where
  "business_time e = (case ev_event_time e of Some t \<Rightarrow> t
     | None \<Rightarrow> (case ev_source_as_of e of Some t \<Rightarrow> t | None \<Rightarrow> ev_observed_at e))"

definition latest :: "evidence list \<Rightarrow> evidence list" where
  "latest candidates = sort_key ev_evidence_id (filter (\<lambda>e. business_time e
      = Max (set (map business_time (filter (\<lambda>x. dimension x = dimension e) candidates)))) candidates)"

definition shadowed :: "evidence_index \<Rightarrow> evidence \<Rightarrow> bool" where
  "shadowed ix e = list_ex (\<lambda>l. ev_tool l = ev_tool e
     \<and> em_scope (ev_metadata l) = em_scope (ev_metadata e) \<and> ev_observed_at e \<le> ev_observed_at l)
     (all_claims ix Claim_SOURCE_LOOKUP_STATUS)"

definition current :: "evidence_index \<Rightarrow> claim_type \<Rightarrow> evidence list" where
  "current ix claim = latest (filter (\<lambda>e. ev_freshness e = Fresh_CURRENT
     \<and> ev_completeness e = Compl_COMPLETE \<and> ev_source_as_of e \<noteq> None \<and> \<not> shadowed ix e)
     (all_claims ix claim))"

definition agreed :: "evidence_index \<Rightarrow> claim_type \<Rightarrow> val \<Rightarrow> evidence list" where
  "agreed ix claim v = (let cur = current ix claim in
     filter (\<lambda>e. ev_value e = v
       \<and> list_all (\<lambda>other. dimension other = dimension e \<longrightarrow> ev_value other = v) cur) cur)"

definition has_value :: "evidence_index \<Rightarrow> claim_type \<Rightarrow> val \<Rightarrow> bool" where
  "has_value ix claim v = (agreed ix claim v \<noteq> [])"

definition refs :: "evidence list \<Rightarrow> string list" where
  "refs items = sorted_set (map ev_evidence_id items)"

definition evaluated_at :: "evidence_index \<Rightarrow> time" where
  "evaluated_at ix = max_default (case_created_at (ix_case ix)) (map ev_observed_at (ix_evidence ix))"

definition single :: "'a list \<Rightarrow> 'a option" where
  "single xs = (case remdups xs of [x] \<Rightarrow> Some x | _ \<Rightarrow> None)"

definition request_id :: "evidence_index \<Rightarrow> string option" where
  "request_id ix = (
     let anchors = concat (map (\<lambda>c. map (\<lambda>e. or_else (em_fund_request_id (ev_metadata e)) [])
           (filter (\<lambda>e. truthy (em_fund_request_id (ev_metadata e)) \<and> ev_source_kind e = Src_PRIMARY
              \<and> (ev_tool e = Tool_TRACE \<or> ev_tool e = Tool_GUARANTEE)) (current ix c)))
         [Claim_REQUEST_SENT, Claim_HTTP_RESPONSE_STATUS, Claim_GUARANTEE_STATUS]);
         fallback = map (\<lambda>e. es_identifier (ev_subject e))
           (filter (\<lambda>e. es_kind (ev_subject e) = Subj_FUND_REQUEST \<and> ev_tool e = Tool_FUND
              \<and> ev_source_kind e = Src_PRIMARY) (current ix Claim_FUND_BUSINESS_STATUS))
     in single (if anchors = [] then fallback else anchors))"

text \<open>\<open>e.metadata.fund_request_id or e.subject.identifier\<close>.\<close>

definition linked_request :: "evidence \<Rightarrow> string" where
  "linked_request e = or_else (em_fund_request_id (ev_metadata e)) (es_identifier (ev_subject e))"

definition for_request :: "evidence_index \<Rightarrow> evidence list \<Rightarrow> evidence list" where
  "for_request ix items = (case request_id ix of None \<Rightarrow> []
     | Some r \<Rightarrow> filter (\<lambda>e. linked_request e = r) items)"

section \<open>Freshness and conflicts\<close>

definition is_stale :: "evidence \<Rightarrow> bool" where
  "is_stale e = (ev_freshness e = Fresh_STALE)"

definition age :: "evidence \<Rightarrow> time \<Rightarrow> error + time option" where
  "age e now = (case ev_source_as_of e of None \<Rightarrow> Inr None
     | Some t \<Rightarrow> if now < t then Inl ValueError else Inr (Some (now - t)))"

fun pairs :: "'a list \<Rightarrow> ('a \<times> 'a) list" where
  "pairs [] = []"
| "pairs (x # xs) = map (Pair x) xs @ pairs xs"

definition conflict_rules :: "claim_type list" where
  "conflict_rules = [Claim_PAYMENT_AMOUNT, Claim_PAYMENT_CURRENCY, Claim_TRANSACTION_FUND_REQUEST_ID]"

definition conflict_eligible :: "evidence \<Rightarrow> bool" where
  "conflict_eligible e = (ev_claim_type e \<in> set conflict_rules
     \<and> es_kind (ev_subject e) = Subj_TRANSACTION \<and> ev_event_time e \<noteq> None
     \<and> ev_freshness e = Fresh_CURRENT \<and> ev_completeness e = Compl_COMPLETE)"

definition conflicting :: "evidence \<Rightarrow> evidence \<Rightarrow> bool" where
  "conflicting a b = (\<not> (ev_claim_type a \<noteq> ev_claim_type b \<or> ev_subject a \<noteq> ev_subject b
     \<or> ev_event_time a \<noteq> ev_event_time b \<or> py_eq (ev_value a) (ev_value b)
     \<or> ev_observation_id a = ev_observation_id b
     \<or> (ev_tool a = ev_tool b \<and> ev_source_kind a = ev_source_kind b)))"

definition detect_conflicts :: "(jv \<Rightarrow> string) \<Rightarrow> string \<Rightarrow> evidence list \<Rightarrow> time \<Rightarrow> error + evidence_conflict list" where
  "detect_conflicts jh case_id es now = (
     if list_ex (\<lambda>e. ev_case_id e \<noteq> case_id) es then Inl ValueError
     else Inr (sort_key ec_conflict_id (map (\<lambda>(a, b).
       let rs = sort [ev_evidence_id a, ev_evidence_id b] in
       \<lparr> ec_conflict_id = ''CF-'' @ jh (JArr [JStr case_id, JStr (claim_type_value (ev_claim_type a)),
             JArr (map JStr rs)]),
         ec_case_id = case_id, ec_claim_type = ev_claim_type a, ec_evidence_refs = rs,
         ec_reason = [], ec_detected_at = now \<rparr>)
       (filter (\<lambda>(a, b). conflicting a b) (pairs (filter conflict_eligible es))))))"

section \<open>Payment identity\<close>

definition IDENTITY_CLAIMS :: "(identity_dimension \<times> claim_type) list" where
  "IDENTITY_CLAIMS = [(Dim_FINALITY, Claim_PAYMENT_FINALITY), (Dim_TRANSACTION, Claim_PAYMENT_TRANSACTION_ID),
     (Dim_REQUEST, Claim_TRANSACTION_FUND_REQUEST_ID), (Dim_AMOUNT, Claim_PAYMENT_AMOUNT),
     (Dim_CURRENCY, Claim_PAYMENT_CURRENCY), (Dim_CUSTOMER, Claim_PAYMENT_CUSTOMER_REF),
     (Dim_BENEFICIARY, Claim_PAYMENT_BENEFICIARY_REF), (Dim_ACCOUNT, Claim_PAYMENT_ACCOUNT_REF)]"

definition compare_reference :: "val option \<Rightarrow> val option \<Rightarrow> identity_match" where
  "compare_reference expected observed = (case (expected, observed) of
       (Some x, Some y) \<Rightarrow> if py_eq x y then Match_MATCH else Match_MISMATCH
     | _ \<Rightarrow> Match_UNKNOWN)"

text \<open>The payment Evidence the contract reads: current, primary, about a transaction.\<close>

definition payment_current :: "evidence_index \<Rightarrow> claim_type \<Rightarrow> evidence list" where
  "payment_current ix claim = filter (\<lambda>e. ev_tool e = Tool_PAYMENT \<and> ev_source_kind e = Src_PRIMARY
     \<and> es_kind (ev_subject e) = Subj_TRANSACTION) (current ix claim)"

type_synonym group_key = "evidence_subject \<times> string \<times> time option"

definition group_key :: "evidence \<Rightarrow> group_key" where
  "group_key e = (ev_subject e, ev_observation_id e, ev_event_time e)"

definition identity_anchors :: "evidence_index \<Rightarrow> evidence list" where
  "identity_anchors ix = concat (map (\<lambda>c. filter (\<lambda>e. ev_source_kind e = Src_PRIMARY
       \<and> (ev_tool e = Tool_TRACE \<or> ev_tool e = Tool_GUARANTEE \<or> ev_tool e = Tool_FUND)
       \<and> Some (linked_request e) = request_id ix) (current ix c))
     [Claim_REQUEST_SENT, Claim_HTTP_RESPONSE_STATUS, Claim_GUARANTEE_STATUS, Claim_FUND_BUSINESS_STATUS])"

definition identity_expected :: "evidence_index \<Rightarrow> string \<Rightarrow> identity_dimension \<Rightarrow> val option" where
  "identity_expected ix transaction_ref d = (
     let subject = case_financial_subject (ix_case ix)
     in case d of
          Dim_FINALITY \<Rightarrow> Some (VStr ''SETTLED'')
        | Dim_TRANSACTION \<Rightarrow> Some (VStr transaction_ref)
        | Dim_REQUEST \<Rightarrow> if identity_anchors ix \<noteq> [] then map_option VStr (request_id ix) else None
        | Dim_AMOUNT \<Rightarrow> map_option (VInt \<circ> fsub_expected_principal_minor) subject
        | Dim_CURRENCY \<Rightarrow> map_option (VStr \<circ> currency_value \<circ> fsub_currency) subject
        | Dim_CUSTOMER \<Rightarrow> map_option (VStr \<circ> fsub_customer_ref) subject
        | Dim_BENEFICIARY \<Rightarrow> map_option (VStr \<circ> fsub_expected_beneficiary_ref) subject
        | Dim_ACCOUNT \<Rightarrow> map_option (VStr \<circ> fsub_expected_account_ref) subject)"

text \<open>The verdict on one dimension of one group of Evidence.\<close>

definition dimension_match :: "evidence_index \<Rightarrow> evidence_subject \<Rightarrow> evidence list
    \<Rightarrow> identity_dimension \<times> claim_type \<Rightarrow> identity_match" where
  "dimension_match ix transaction items dc = (
     let (d, claim) = dc;
         coherent = (length (remdups (map (\<lambda>e. (ev_content_hash e, ev_source_as_of e, ev_observed_at e)) items)) = 1);
         values = remdups (map ev_value (filter (\<lambda>e. ev_claim_type e = claim) items));
         simultaneous = remdups (map ev_value
           (filter (\<lambda>e. ev_subject e = transaction) (payment_current ix claim)));
         expected = identity_expected ix (es_identifier transaction) d
     in case (coherent, values, simultaneous, expected) of
          (True, [v], [_], Some x) \<Rightarrow>
            let comparison = (if \<not> same_type v x then Match_MISMATCH
                  else compare_reference (Some x) (Some v))
            in if comparison = Match_MISMATCH
               then (if d = Dim_FINALITY then Match_UNKNOWN else Match_MISMATCH) else Match_MATCH
        | _ \<Rightarrow> Match_UNKNOWN)"

definition overall_match :: "bool \<Rightarrow> bool \<Rightarrow> identity_match" where
  "overall_match mismatch unknown = (if mismatch then Match_MISMATCH
     else if unknown then Match_UNKNOWN else Match_MATCH)"

definition identity_witness :: "evidence_index \<Rightarrow> group_key \<times> evidence list \<Rightarrow> payment_identity_witness" where
  "identity_witness ix g = (
     let ((transaction, observation_id, _), items) = g;
         dims = (\<lambda>m. map fst (filter (\<lambda>dc. dimension_match ix transaction items dc = m) IDENTITY_CLAIMS))
     in \<lparr> piw_case_id = case_case_id (ix_case ix), piw_observation_id = observation_id,
          piw_transaction_ref = es_identifier transaction,
          piw_result = overall_match (dims Match_MISMATCH \<noteq> []) (dims Match_UNKNOWN \<noteq> []),
          piw_mismatch_dimensions = dims Match_MISMATCH, piw_unknown_dimensions = dims Match_UNKNOWN,
          piw_evidence_refs = refs (items @ identity_anchors ix) \<rparr>)"

definition identity_groups :: "evidence_index \<Rightarrow> (group_key \<times> evidence list) list" where
  "identity_groups ix = (
     let items = concat (map (\<lambda>(d, c). payment_current ix c) IDENTITY_CLAIMS)
     in map (\<lambda>k. (k, filter (\<lambda>e. group_key e = k) items)) (dedup (map group_key items)))"

text \<open>\<open>gk\<close> is the \<open>str\<close> of a group key, by which the code orders the groups.\<close>

definition verify_payment_identity :: "(group_key \<Rightarrow> string) \<Rightarrow> evidence_index \<Rightarrow> payment_identity_result" where
  "verify_payment_identity gk ix = (
     let witnesses = map (identity_witness ix) (sort_key (gk \<circ> fst) (identity_groups ix));
         mismatches = sorted_set (concat (map piw_mismatch_dimensions witnesses));
         unknowns = sorted_set (concat (map piw_unknown_dimensions witnesses)
           @ (if witnesses = [] then map fst IDENTITY_CLAIMS else [])
           @ (if 1 < length (remdups (map piw_transaction_ref witnesses)) then [Dim_TRANSACTION] else []))
     in \<lparr> pir_case_id = case_case_id (ix_case ix),
          pir_result = overall_match (mismatches \<noteq> []) (unknowns \<noteq> []),
          pir_mismatch_dimensions = mismatches, pir_unknown_dimensions = unknowns,
          pir_witnesses = witnesses,
          pir_evidence_refs = sorted_set (concat (map piw_evidence_refs witnesses)),
          pir_verification_version = ''1'' \<rparr>)"

section \<open>The index does not depend on the order of the Evidence\<close>

definition admissible :: "case_rec \<Rightarrow> evidence \<Rightarrow> bool" where
  "admissible c e = (evidence_valid e \<and> in_case_scope c e
     \<and> ev_raw_ref e = ''observation://'' @ ev_observation_id e)"

definition ids_agree :: "evidence set \<Rightarrow> bool" where
  "ids_agree E = (\<forall>e\<in>E. \<forall>f\<in>E. ev_evidence_id e = ev_evidence_id f \<longrightarrow> e = f)"

definition keyed :: "(string \<times> evidence) list \<Rightarrow> bool" where
  "keyed t = (distinct (map fst t) \<and> (\<forall>(k, e)\<in>set t. k = ev_evidence_id e))"

lemma keyed_update:
  assumes "keyed t"
  shows "keyed (AList.update (ev_evidence_id e) e t)"
proof -
  have d: "distinct (map fst (AList.update (ev_evidence_id e) e t))"
    using assms by (simp add: keyed_def distinct_update)
  have "k = ev_evidence_id f" if "(k, f) \<in> set (AList.update (ev_evidence_id e) e t)" for k f
  proof -
    have "map_of (AList.update (ev_evidence_id e) e t) k = Some f"
      using that d by (simp add: map_of_eq_Some_iff)
    then show ?thesis
      using assms by (auto simp: update_conv' keyed_def split: if_splits dest: map_of_SomeD)
  qed
  with d show ?thesis by (auto simp: keyed_def)
qed

lemma snd_update:
  assumes "keyed t" and "\<And>f. map_of t (ev_evidence_id e) = Some f \<Longrightarrow> f = e"
  shows "snd ` set (AList.update (ev_evidence_id e) e t) = insert e (snd ` set t)"
proof -
  have k: "keyed (AList.update (ev_evidence_id e) e t)" using assms(1) by (rule keyed_update)
  have ran: "keyed u \<Longrightarrow> snd ` set u = ran (map_of u)" for u
    by (simp add: keyed_def ran_distinct)
  show ?thesis
    using assms(2)
    by (auto simp: ran [OF k] ran [OF assms(1)] update_conv' ran_def split: if_splits)
      (metis option.inject)
qed

lemma keyed_ids: "keyed t \<Longrightarrow> f \<in> snd ` set t \<Longrightarrow> map_of t (ev_evidence_id f) = Some f"
  by (auto simp: keyed_def map_of_eq_Some_iff)

lemma keyed_ids_agree: "keyed t \<Longrightarrow> ids_agree (snd ` set t)"
  unfolding ids_agree_def by (metis keyed_ids option.inject)

lemma index_loop_Inr:
  "keyed t \<Longrightarrow> index_loop c es t = Inr r \<longleftrightarrow> (\<forall>e\<in>set es. admissible c e)
     \<and> ids_agree (set es \<union> snd ` set t) \<and> r = fold (\<lambda>e. AList.update (ev_evidence_id e) e) es t"
proof (induction es arbitrary: t)
  case Nil
  then show ?case by (auto simp: keyed_ids_agree)
next
  case (Cons e es)
  let ?t = "AList.update (ev_evidence_id e) e t"
  have k: "keyed ?t" using Cons.prems by (rule keyed_update)
  show ?case
  proof (cases "\<forall>f. map_of t (ev_evidence_id e) = Some f \<longrightarrow> f = e")
    case True
    then have guard: "\<not> (case map_of t (ev_evidence_id e) of None \<Rightarrow> False | Some f \<Rightarrow> f \<noteq> e)"
      by (auto split: option.split)
    have "snd ` set ?t = insert e (snd ` set t)" using snd_update [OF Cons.prems] True by blast
    then show ?thesis using Cons.IH [OF k] guard by (auto simp: admissible_def)
  next
    case False
    then obtain f where f: "map_of t (ev_evidence_id e) = Some f" "f \<noteq> e" by blast
    then have "f \<in> snd ` set t" "ev_evidence_id f = ev_evidence_id e"
      using Cons.prems by (force simp: keyed_def dest: map_of_SomeD)+
    then have "\<not> ids_agree (set (e # es) \<union> snd ` set t)" using f(2) by (auto simp: ids_agree_def)
    then show ?thesis using f by simp
  qed
qed

lemma index_fold:
  "keyed t \<Longrightarrow> ids_agree (set es \<union> snd ` set t) \<Longrightarrow>
     keyed (fold (\<lambda>e. AList.update (ev_evidence_id e) e) es t)
     \<and> snd ` set (fold (\<lambda>e. AList.update (ev_evidence_id e) e) es t) = set es \<union> snd ` set t"
proof (induction es arbitrary: t)
  case (Cons e es)
  let ?t = "AList.update (ev_evidence_id e) e t"
  have k: "keyed ?t" using Cons.prems(1) by (rule keyed_update)
  have "\<And>f. map_of t (ev_evidence_id e) = Some f \<Longrightarrow> f = e"
  proof -
    fix f assume "map_of t (ev_evidence_id e) = Some f"
    then have "f \<in> snd ` set t" "ev_evidence_id f = ev_evidence_id e"
      using Cons.prems(1) by (force simp: keyed_def dest: map_of_SomeD)+
    then show "f = e" using Cons.prems(2) by (auto simp: ids_agree_def)
  qed
  then have "snd ` set ?t = insert e (snd ` set t)" using snd_update [OF Cons.prems(1)] by blast
  then show ?case using Cons.IH [OF k] Cons.prems(2) by simp
qed simp

lemma build_index_Inr:
  "build_index c es = Inr ix \<longleftrightarrow> case_valid c \<and> (\<forall>e\<in>set es. admissible c e) \<and> ids_agree (set es)
     \<and> ix = \<lparr> ix_case = c, ix_evidence = sort_key ev_evidence_id
          (map snd (fold (\<lambda>e. AList.update (ev_evidence_id e) e) es [])) \<rparr>"
proof -
  have "keyed []" by (simp add: keyed_def)
  then show ?thesis by (auto simp: build_index_def bindE_Inr_iff index_loop_Inr)
qed

lemma keyed_evidence:
  assumes "keyed t"
  shows "distinct (map ev_evidence_id (sort_key ev_evidence_id (map snd t)))"
    and "set (sort_key ev_evidence_id (map snd t)) = snd ` set t"
proof -
  have "map ev_evidence_id (map snd t) = map fst t" using assms by (auto simp: keyed_def)
  then have "distinct (map ev_evidence_id (map snd t))" using assms by (simp only: keyed_def)
  then show "distinct (map ev_evidence_id (sort_key ev_evidence_id (map snd t)))"
    by (metis distinct_map distinct_sort set_sort)
qed simp

lemma build_index_evidence:
  assumes "build_index c es = Inr ix"
  shows "ix_case ix = c" and "set (ix_evidence ix) = set es"
    and "distinct (map ev_evidence_id (ix_evidence ix))" and "sorted (map ev_evidence_id (ix_evidence ix))"
proof -
  have "ids_agree (set es)" and ix: "ix = \<lparr> ix_case = c, ix_evidence = sort_key ev_evidence_id
      (map snd (fold (\<lambda>e. AList.update (ev_evidence_id e) e) es [])) \<rparr>"
    using assms by (simp_all add: build_index_Inr)
  then have k: "keyed (fold (\<lambda>e. AList.update (ev_evidence_id e) e) es [])"
      "snd ` set (fold (\<lambda>e. AList.update (ev_evidence_id e) e) es []) = set es"
    using index_fold [of "[]" es] by (simp_all add: keyed_def)
  show "ix_case ix = c" "sorted (map ev_evidence_id (ix_evidence ix))" by (simp_all add: ix)
  show "set (ix_evidence ix) = set es" "distinct (map ev_evidence_id (ix_evidence ix))"
    using keyed_evidence [OF k(1)] k(2) by (simp_all add: ix)
qed


section \<open>Latest, current, agreed\<close>

lemma latest_subset: "set (latest es) \<subseteq> set es"
  by (auto simp: latest_def)

lemma current_facts:
  assumes "e \<in> set (current ix claim)"
  shows "e \<in> set (ix_evidence ix)" "ev_claim_type e = claim" "ev_freshness e = Fresh_CURRENT"
    "ev_completeness e = Compl_COMPLETE" "\<not> shadowed ix e"
proof -
  have "e \<in> set (filter (\<lambda>e. ev_freshness e = Fresh_CURRENT
     \<and> ev_completeness e = Compl_COMPLETE \<and> ev_source_as_of e \<noteq> None \<and> \<not> shadowed ix e)
     (all_claims ix claim))"
    using assms unfolding current_def by (rule subsetD [OF latest_subset])
  then show "e \<in> set (ix_evidence ix)" "ev_claim_type e = claim" "ev_freshness e = Fresh_CURRENT"
    "ev_completeness e = Compl_COMPLETE" "\<not> shadowed ix e"
    unfolding all_claims_def by simp_all
qed

lemma current_latest:
  assumes "e \<in> set (current ix claim)" and "f \<in> set (current ix claim)" and "dimension e = dimension f"
  shows "business_time e = business_time f"
  using assms by (auto simp: current_def latest_def)

lemma agreed_subset: "set (agreed ix claim v) \<subseteq> set (current ix claim)"
  by (auto simp: agreed_def Let_def)

lemma agreed_value: "e \<in> set (agreed ix claim v) \<Longrightarrow> ev_value e = v"
  by (auto simp: agreed_def Let_def)

lemma agreed_unanimous:
  "e \<in> set (agreed ix claim v) \<Longrightarrow> f \<in> set (current ix claim) \<Longrightarrow> dimension f = dimension e \<Longrightarrow> ev_value f = v"
  by (auto simp: agreed_def Let_def list_all_iff)

text \<open>
  A decisive fact is current and uncontested: an agreed Evidence is current, complete, of the
  latest business time of its subject, not shadowed by a later failed lookup of the same query, and
  no current Evidence about the same subject has another value; so no two values of one claim are
  ever agreed for the same subject.
\<close>
theorem agreed_uncontested:
  assumes "e \<in> set (agreed ix claim v)"
  shows "e \<in> set (ix_evidence ix) \<and> ev_claim_type e = claim \<and> ev_value e = v
    \<and> ev_freshness e = Fresh_CURRENT \<and> ev_completeness e = Compl_COMPLETE
    \<and> (\<forall>l\<in>set (ix_evidence ix). ev_claim_type l \<noteq> Claim_SOURCE_LOOKUP_STATUS \<or> ev_tool l \<noteq> ev_tool e
        \<or> em_scope (ev_metadata l) \<noteq> em_scope (ev_metadata e) \<or> ev_observed_at l < ev_observed_at e)
    \<and> (\<forall>f\<in>set (current ix claim). dimension f \<noteq> dimension e
        \<or> ev_value f = v \<and> business_time f = business_time e)
    \<and> (\<forall>w f. f \<in> set (agreed ix claim w) \<longrightarrow> dimension f \<noteq> dimension e \<or> w = v)"
proof -
  have cur: "e \<in> set (current ix claim)" using assms agreed_subset by blast
  note facts = current_facts [OF cur]
  have "\<forall>w f. f \<in> set (agreed ix claim w) \<longrightarrow> dimension f \<noteq> dimension e \<or> w = v"
    using agreed_unanimous [OF assms] agreed_value agreed_subset by blast
  then show ?thesis
    using facts agreed_value [OF assms] agreed_unanimous [OF assms] current_latest [OF _ cur]
    by (auto simp: shadowed_def list_ex_iff all_claims_def not_le)
qed

section \<open>Soundness of the payment identity\<close>

lemma dimension_match_MATCH:
  assumes "dimension_match ix transaction items (d, claim) = Match_MATCH"
  shows "\<exists>v. remdups (map ev_value (filter (\<lambda>e. ev_claim_type e = claim) items)) = [v]
    \<and> identity_expected ix (es_identifier transaction) d = Some v"
proof -
  let ?vs = "remdups (map ev_value (filter (\<lambda>e. ev_claim_type e = claim) items))"
  let ?ss = "remdups (map ev_value (filter (\<lambda>e. ev_subject e = transaction) (payment_current ix claim)))"
  let ?x = "identity_expected ix (es_identifier transaction) d"
  obtain v where v: "?vs = [v]"
    using assms by (auto simp: dimension_match_def Let_def split: list.splits bool.splits option.splits)
  obtain w where w: "?ss = [w]"
    using assms by (auto simp: dimension_match_def Let_def split: list.splits bool.splits option.splits)
  obtain x where x: "?x = Some x"
    using assms by (auto simp: dimension_match_def Let_def split: list.splits bool.splits option.splits)
  have "same_type v x \<and> py_eq x v"
    using assms unfolding dimension_match_def Let_def compare_reference_def
    by (cases "d = Dim_FINALITY") (use x in \<open>simp_all add: v w split: if_splits bool.splits\<close>)
  then have "x = v" using py_eq_same_type [of v x] by (simp add: py_eq_def)
  with v x show ?thesis by simp
qed

lemma dimension_match_cases:
  "dimension_match ix transaction items dc \<noteq> Match_MISMATCH \<Longrightarrow>
   dimension_match ix transaction items dc \<noteq> Match_UNKNOWN \<Longrightarrow>
   dimension_match ix transaction items dc = Match_MATCH"
  by (cases "dimension_match ix transaction items dc") auto

lemma single_ref: "length (remdups xs) \<le> 1 \<Longrightarrow> x \<in> set xs \<Longrightarrow> y \<in> set xs \<Longrightarrow> x = y"
  by (cases "remdups xs") (auto simp flip: set_remdups [of xs])

lemma overall_match_MATCH [simp]: "overall_match a b = Match_MATCH \<longleftrightarrow> \<not> a \<and> \<not> b"
  by (simp add: overall_match_def)

lemma identity_MATCH:
  assumes "pir_result (verify_payment_identity gk ix) = Match_MATCH"
  shows "identity_groups ix \<noteq> []"
    and "k \<in> set (identity_groups ix) \<Longrightarrow> dc \<in> set IDENTITY_CLAIMS \<Longrightarrow>
      dimension_match ix (fst (fst k)) (snd k) dc = Match_MATCH"
    and "k \<in> set (identity_groups ix) \<Longrightarrow> l \<in> set (identity_groups ix) \<Longrightarrow>
      es_identifier (fst (fst k)) = es_identifier (fst (fst l))"
proof -
  let ?ws = "map (identity_witness ix) (sort_key (gk \<circ> fst) (identity_groups ix))"
  have mm: "concat (map piw_mismatch_dimensions ?ws) = []"
    and un: "concat (map piw_unknown_dimensions ?ws) = []" and ne: "?ws \<noteq> []"
    and one: "length (remdups (map piw_transaction_ref ?ws)) \<le> 1"
    using assms by (auto simp: verify_payment_identity_def Let_def IDENTITY_CLAIMS_def split: if_splits)
  show "identity_groups ix \<noteq> []" using ne by (metis list.simps(8) sort_key_simps(1))
  show "dimension_match ix (fst (fst k)) (snd k) dc = Match_MATCH"
    if k: "k \<in> set (identity_groups ix)" and dc: "dc \<in> set IDENTITY_CLAIMS"
  proof (rule dimension_match_cases)
    have "piw_mismatch_dimensions (identity_witness ix k) = []"
      "piw_unknown_dimensions (identity_witness ix k) = []"
      using mm un k by auto
    then show "dimension_match ix (fst (fst k)) (snd k) dc \<noteq> Match_MISMATCH"
      "dimension_match ix (fst (fst k)) (snd k) dc \<noteq> Match_UNKNOWN"
      using dc by (auto simp: identity_witness_def Let_def filter_empty_conv split: prod.splits)
  qed
  show "es_identifier (fst (fst k)) = es_identifier (fst (fst l))"
    if "k \<in> set (identity_groups ix)" "l \<in> set (identity_groups ix)"
  proof -
    have ref: "piw_transaction_ref (identity_witness ix g) = es_identifier (fst (fst g))" for g
      by (simp add: identity_witness_def Let_def split: prod.splits)
    have "piw_transaction_ref (identity_witness ix k) = piw_transaction_ref (identity_witness ix l)"
      by (rule single_ref [OF one]) (use that in auto)
    then show ?thesis by (simp add: ref)
  qed
qed

lemma identity_groups_item:
  assumes "(d, c) \<in> set IDENTITY_CLAIMS" and "e \<in> set (payment_current ix c)"
  shows "\<exists>k\<in>set (identity_groups ix). fst (fst k) = ev_subject e \<and> e \<in> set (snd k)"
  using assms by (force simp: identity_groups_def Let_def group_key_def image_iff)

lemma identity_groups_claim:
  assumes "k \<in> set (identity_groups ix)" and "e \<in> set (snd k)"
  shows "e \<in> set (payment_current ix (ev_claim_type e))"
proof -
  obtain d c where "e \<in> set (payment_current ix c)" "(d, c) \<in> set IDENTITY_CLAIMS"
    using assms by (auto simp: identity_groups_def Let_def)
  then show ?thesis using current_facts(2) [of e ix c] by (auto simp: payment_current_def)
qed

lemma remdups_single: "remdups xs = [v] \<Longrightarrow> x \<in> set xs \<Longrightarrow> x = v"
  by (metis empty_iff insert_iff list.set(1) list.set(2) set_remdups)

text \<open>
  C7. A payment identity MATCH is never a convenient choice: the Case names its financial subject,
  a primary Trace, Guarantee or Fund record anchors the request, all current primary payment facts
  are about one single transaction, and for each of the eight dimensions (finality, transaction,
  request, amount, currency, customer, beneficiary, account) such facts exist and every one of them
  has the expected value.
\<close>
theorem payment_identity_match_sound:
  assumes "pir_result (verify_payment_identity gk ix) = Match_MATCH"
  shows "case_financial_subject (ix_case ix) \<noteq> None \<and> identity_anchors ix \<noteq> []
    \<and> (\<exists>t. \<forall>(d, c)\<in>set IDENTITY_CLAIMS. payment_current ix c \<noteq> []
        \<and> (\<forall>e\<in>set (payment_current ix c). es_identifier (ev_subject e) = t
             \<and> identity_expected ix t d = Some (ev_value e)))"
proof -
  note M = identity_MATCH [OF assms]
  obtain g where g: "g \<in> set (identity_groups ix)" using M(1) by (cases "identity_groups ix") auto
  let ?t = "es_identifier (fst (fst g))"
  have dim: "\<exists>v. remdups (map ev_value (filter (\<lambda>e. ev_claim_type e = c) (snd k))) = [v]
      \<and> identity_expected ix ?t d = Some v"
    if "k \<in> set (identity_groups ix)" "(d, c) \<in> set IDENTITY_CLAIMS" for k d c
    using dimension_match_MATCH [OF M(2) [OF that]] M(3) [OF that(1) g] by simp
  have main: "payment_current ix c \<noteq> [] \<and> (\<forall>e\<in>set (payment_current ix c).
      es_identifier (ev_subject e) = ?t \<and> identity_expected ix ?t d = Some (ev_value e))"
    if dc: "(d, c) \<in> set IDENTITY_CLAIMS" for d c
  proof (intro conjI ballI)
    obtain v where v: "remdups (map ev_value (filter (\<lambda>e. ev_claim_type e = c) (snd g))) = [v]"
      using dim [OF g dc] by blast
    then have "filter (\<lambda>e. ev_claim_type e = c) (snd g) \<noteq> []" by auto
    then obtain e where "e \<in> set (snd g)" "ev_claim_type e = c" by (auto simp: filter_empty_conv)
    then show "payment_current ix c \<noteq> []" using identity_groups_claim [OF g] by fastforce
  next
    fix e assume e: "e \<in> set (payment_current ix c)"
    obtain k where k: "k \<in> set (identity_groups ix)" "fst (fst k) = ev_subject e" "e \<in> set (snd k)"
      using identity_groups_item [OF dc e] by blast
    show "es_identifier (ev_subject e) = ?t" using M(3) [OF k(1) g] k(2) by simp
    have "ev_claim_type e = c" using e current_facts(2) by (auto simp: payment_current_def)
    obtain v where v: "remdups (map ev_value (filter (\<lambda>e. ev_claim_type e = c) (snd k))) = [v]"
      "identity_expected ix ?t d = Some v" using dim [OF k(1) dc] by blast
    have "ev_value e = v"
      by (rule remdups_single [OF v(1)]) (use k(3) \<open>ev_claim_type e = c\<close> in auto)
    with v(2) show "identity_expected ix ?t d = Some (ev_value e)" by simp
  qed
  have "identity_expected ix ?t Dim_AMOUNT \<noteq> None" "identity_expected ix ?t Dim_REQUEST \<noteq> None"
    using dim [OF g, of Dim_AMOUNT Claim_PAYMENT_AMOUNT]
      dim [OF g, of Dim_REQUEST Claim_TRANSACTION_FUND_REQUEST_ID]
    by (auto simp: IDENTITY_CLAIMS_def)
  then have "case_financial_subject (ix_case ix) \<noteq> None" "identity_anchors ix \<noteq> []"
    by (auto simp: identity_expected_def Let_def split: if_splits)
  with main show ?thesis by blast
qed

section \<open>Sample facts\<close>

definition sample_fact :: "string \<Rightarrow> tool_name \<Rightarrow> claim_type \<Rightarrow> subject_kind \<Rightarrow> string \<Rightarrow> val \<Rightarrow> evidence" where
  "sample_fact i tool claim kind ident v = \<lparr>
     ev_evidence_id = i, ev_case_id = ''CASE-1'', ev_observation_id = ''o1'', ev_tool = tool,
     ev_source_kind = Src_PRIMARY, ev_claim_type = claim,
     ev_subject = \<lparr> es_kind = kind, es_identifier = ident, es_internal_order_id = ''JD-1'', es_field = None \<rparr>,
     ev_value = v, ev_event_time = Some 5, ev_observed_at = 10, ev_source_as_of = Some 10,
     ev_source_version = None, ev_protocol_version = None, ev_completeness = Compl_COMPLETE,
     ev_freshness = Fresh_CURRENT, ev_strength = Strength_STRONG, ev_raw_ref = ''observation://o1'',
     ev_content_hash = ''h'', ev_created_at = 10,
     ev_metadata = \<lparr> em_extractor_version = ''4'', em_source_path = [], em_scope = sample_query,
       em_fund_request_id = Some ''FREQ-1'', em_callback_event_id = None \<rparr> \<rparr>"

definition sample_payment_fact :: "string \<Rightarrow> claim_type \<Rightarrow> val \<Rightarrow> evidence" where
  "sample_payment_fact i claim v = sample_fact i Tool_PAYMENT claim Subj_TRANSACTION ''PAY-1'' v"

definition settled_facts :: "evidence list" where
  "settled_facts = [
     sample_fact ''a'' Tool_TRACE Claim_HTTP_RESPONSE_STATUS Subj_ORDER ''JD-1'' (VStr ''TIMEOUT''),
     sample_payment_fact ''b'' Claim_PAYMENT_FINALITY (VStr ''SETTLED''),
     sample_payment_fact ''c'' Claim_PAYMENT_TRANSACTION_ID (VStr ''PAY-1''),
     sample_payment_fact ''d'' Claim_TRANSACTION_FUND_REQUEST_ID (VStr ''FREQ-1''),
     sample_payment_fact ''e'' Claim_PAYMENT_AMOUNT (VInt 2000000),
     sample_payment_fact ''f'' Claim_PAYMENT_CURRENCY (VStr ''CNY''),
     sample_payment_fact ''g'' Claim_PAYMENT_CUSTOMER_REF (VStr ''CUS-1''),
     sample_payment_fact ''h'' Claim_PAYMENT_BENEFICIARY_REF (VStr ''BEN-1''),
     sample_payment_fact ''i'' Claim_PAYMENT_ACCOUNT_REF (VStr ''ACC-1'')]"

definition settled_index :: evidence_index where
  "settled_index = \<lparr> ix_case = sample_case, ix_evidence = settled_facts \<rparr>"

lemma settled_index: "build_index sample_case settled_facts = Inr settled_index"
  by code_simp


theorem agreed_uncontested_witness:
  "sample_payment_fact ''e'' Claim_PAYMENT_AMOUNT (VInt 2000000) \<in> set (ix_evidence settled_index)
   \<and> ev_freshness (sample_payment_fact ''e'' Claim_PAYMENT_AMOUNT (VInt 2000000)) = Fresh_CURRENT"
proof -
  have "agreed settled_index Claim_PAYMENT_AMOUNT (VInt 2000000)
      = [sample_payment_fact ''e'' Claim_PAYMENT_AMOUNT (VInt 2000000)]" by code_simp
  then show ?thesis
    using agreed_uncontested [of "sample_payment_fact ''e'' Claim_PAYMENT_AMOUNT (VInt 2000000)"
        settled_index Claim_PAYMENT_AMOUNT "VInt 2000000"] by simp
qed

theorem payment_identity_match_sound_witness:
  "pir_result (verify_payment_identity (\<lambda>_. []) settled_index) = Match_MATCH
   \<and> case_financial_subject (ix_case settled_index) \<noteq> None \<and> identity_anchors settled_index \<noteq> []"
proof -
  have m: "pir_result (verify_payment_identity (\<lambda>_. []) settled_index) = Match_MATCH" by code_simp
  show ?thesis using m payment_identity_match_sound [OF m] by simp
qed

end
