(* ===== verification/Hypotheses.thy ===== *)
theory Hypotheses
  imports EvidenceIndex
begin

text \<open>
  The deterministic hypothesis engine: models (\<open>hypotheses/models.py\<close>), catalog, rules, gaps, graph
  invariants and the engine that composes them. The human-readable texts (descriptions, reasons and
  questions) are left out; every identifier, status, reference and relation is kept. \<^theory_text>\<open>gk\<close> orders
  the payment groups, \<^theory_text>\<open>gf\<close> is the fingerprint of the Case and its Evidence.
\<close>

section \<open>Models\<close>

datatype hypothesis_id =
    Hyp_H1 | Hyp_H2 | Hyp_H3 | Hyp_H4 | Hyp_H5 | Hyp_H6 | Hyp_H6_SCHEMA_MISMATCH
  | Hyp_H6_STALE_CONSUMER_SCHEMA | Hyp_H7 | Hyp_H8

primrec hypothesis_id_value :: "hypothesis_id \<Rightarrow> string" where
  "hypothesis_id_value Hyp_H1 = ''H1''"
| "hypothesis_id_value Hyp_H2 = ''H2''"
| "hypothesis_id_value Hyp_H3 = ''H3''"
| "hypothesis_id_value Hyp_H4 = ''H4''"
| "hypothesis_id_value Hyp_H5 = ''H5''"
| "hypothesis_id_value Hyp_H6 = ''H6''"
| "hypothesis_id_value Hyp_H6_SCHEMA_MISMATCH = ''H6_SCHEMA_MISMATCH''"
| "hypothesis_id_value Hyp_H6_STALE_CONSUMER_SCHEMA = ''H6_STALE_CONSUMER_SCHEMA''"
| "hypothesis_id_value Hyp_H7 = ''H7''"
| "hypothesis_id_value Hyp_H8 = ''H8''"

datatype hypothesis_kind =
    Kind_CAUSAL | Kind_STATE | Kind_SEMANTIC_GUARD

primrec hypothesis_kind_value :: "hypothesis_kind \<Rightarrow> string" where
  "hypothesis_kind_value Kind_CAUSAL = ''CAUSAL''"
| "hypothesis_kind_value Kind_STATE = ''STATE''"
| "hypothesis_kind_value Kind_SEMANTIC_GUARD = ''SEMANTIC_GUARD''"

datatype hypothesis_status =
    Hs_UNKNOWN | Hs_POSSIBLE | Hs_SUPPORTED | Hs_CONFIRMED | Hs_ELIMINATED

primrec hypothesis_status_value :: "hypothesis_status \<Rightarrow> string" where
  "hypothesis_status_value Hs_UNKNOWN = ''UNKNOWN''"
| "hypothesis_status_value Hs_POSSIBLE = ''POSSIBLE''"
| "hypothesis_status_value Hs_SUPPORTED = ''SUPPORTED''"
| "hypothesis_status_value Hs_CONFIRMED = ''CONFIRMED''"
| "hypothesis_status_value Hs_ELIMINATED = ''ELIMINATED''"

datatype relation_kind =
    Rel_SUPPORTS | Rel_CONTRADICTS | Rel_DECISIVE_SUPPORT | Rel_DECISIVE_CONTRADICTION
  | Rel_CONTEXT_ONLY

primrec relation_kind_value :: "relation_kind \<Rightarrow> string" where
  "relation_kind_value Rel_SUPPORTS = ''SUPPORTS''"
| "relation_kind_value Rel_CONTRADICTS = ''CONTRADICTS''"
| "relation_kind_value Rel_DECISIVE_SUPPORT = ''DECISIVE_SUPPORT''"
| "relation_kind_value Rel_DECISIVE_CONTRADICTION = ''DECISIVE_CONTRADICTION''"
| "relation_kind_value Rel_CONTEXT_ONLY = ''CONTEXT_ONLY''"

datatype gap_status =
    Gap_OPEN | Gap_SATISFIED | Gap_UNAVAILABLE

primrec gap_status_value :: "gap_status \<Rightarrow> string" where
  "gap_status_value Gap_OPEN = ''OPEN''"
| "gap_status_value Gap_SATISFIED = ''SATISFIED''"
| "gap_status_value Gap_UNAVAILABLE = ''UNAVAILABLE''"

datatype priority_class =
    Prio_SAFETY_CRITICAL | Prio_DISCRIMINATING | Prio_SUPPORTING

primrec priority_class_value :: "priority_class \<Rightarrow> string" where
  "priority_class_value Prio_SAFETY_CRITICAL = ''SAFETY_CRITICAL''"
| "priority_class_value Prio_DISCRIMINATING = ''DISCRIMINATING''"
| "priority_class_value Prio_SUPPORTING = ''SUPPORTING''"

datatype uncollected_claim_type =
    Unc_DEPLOYED_CONSUMER_SCHEMA_VERSION | Unc_FUND_REQUEST_PROTOCOL_APPLICABILITY
  | Unc_REQUEST_ASSOCIATION | Unc_CALLBACK_EVENT_ASSOCIATION
  | Unc_FUND_REJECTION_WITHOUT_DISBURSEMENT

primrec uncollected_claim_type_value :: "uncollected_claim_type \<Rightarrow> string" where
  "uncollected_claim_type_value Unc_DEPLOYED_CONSUMER_SCHEMA_VERSION = ''DEPLOYED_CONSUMER_SCHEMA_VERSION''"
| "uncollected_claim_type_value Unc_FUND_REQUEST_PROTOCOL_APPLICABILITY = ''FUND_REQUEST_PROTOCOL_APPLICABILITY''"
| "uncollected_claim_type_value Unc_REQUEST_ASSOCIATION = ''REQUEST_ASSOCIATION''"
| "uncollected_claim_type_value Unc_CALLBACK_EVENT_ASSOCIATION = ''CALLBACK_EVENT_ASSOCIATION''"
| "uncollected_claim_type_value Unc_FUND_REJECTION_WITHOUT_DISBURSEMENT = ''FUND_REJECTION_WITHOUT_DISBURSEMENT''"

record hypothesis_definition =
  hd_hypothesis_id :: hypothesis_id
  hd_kind :: hypothesis_kind
  hd_statement :: string
  hd_confirmation_rule_id :: string
  hd_elimination_rule_id :: string
  hd_relevant_claim_types :: "claim_type list"
  hd_parent_hypothesis_id :: "hypothesis_id option"

record evidence_relation =
  er_case_id :: string
  er_hypothesis_id :: hypothesis_id
  er_evidence_id :: string
  er_relation :: relation_kind
  er_rule_id :: string

record evidence_gap =
  eg_gap_id :: string
  eg_case_id :: string
  eg_hypothesis_ids :: "hypothesis_id list"
  eg_required_claim_types :: "(claim_type + uncollected_claim_type) list"
  eg_status :: gap_status
  eg_priority_class :: priority_class
  eg_evidence_refs :: "string list"

record hypothesis_state =
  hs_hypothesis_id :: hypothesis_id
  hs_status :: hypothesis_status
  hs_supporting_evidence_refs :: "string list"
  hs_contradicting_evidence_refs :: "string list"
  hs_decisive_evidence_refs :: "string list"
  hs_missing_evidence :: "string list"
  hs_rule_version :: string
  hs_evaluated_at :: time

record hypothesis_graph_view =
  hg_case_id :: string
  hg_rule_version :: string
  hg_evaluated_at :: time
  hg_input_fingerprint :: string
  hg_definitions :: "hypothesis_definition list"
  hg_hypotheses :: "hypothesis_state list"
  hg_relations :: "evidence_relation list"
  hg_gaps :: "evidence_gap list"
  hg_open_gaps :: "evidence_gap list"
  hg_confirmed :: "hypothesis_id list"
  hg_supported :: "hypothesis_id list"
  hg_eliminated :: "hypothesis_id list"
  hg_payment_identity :: payment_identity_result

record rule_result =
  rr_hypothesis_id :: hypothesis_id
  rr_status :: hypothesis_status
  rr_relations :: "evidence_relation list"

section \<open>The catalog\<close>

definition hypothesis_definition_of :: "hypothesis_id \<Rightarrow> hypothesis_kind \<Rightarrow> string \<Rightarrow> claim_type list
    \<Rightarrow> hypothesis_id option \<Rightarrow> bool \<Rightarrow> hypothesis_definition" where
  "hypothesis_definition_of h kind statement claims parent deferred = \<lparr>
     hd_hypothesis_id = h, hd_kind = kind, hd_statement = statement,
     hd_confirmation_rule_id = hypothesis_id_value h @ (if deferred then ''.confirmation_deferred.v3''
        else ''.confirm.v3''),
     hd_elimination_rule_id = hypothesis_id_value h @ ''.eliminate.v3'',
     hd_relevant_claim_types = claims, hd_parent_hypothesis_id = parent \<rparr>"

definition HYPOTHESIS_RULESET_VERSION :: string where
  "HYPOTHESIS_RULESET_VERSION = ''5''"

definition CATALOG :: "hypothesis_definition list" where
  "CATALOG = [
     hypothesis_definition_of Hyp_H1 Kind_CAUSAL ''REQUEST_NOT_SENT'' [Claim_REQUEST_SENT] None False,
     hypothesis_definition_of Hyp_H2 Kind_CAUSAL ''FUND_NOT_ACCEPTED''
       [Claim_FUND_BUSINESS_STATUS, Claim_PAYMENT_FINALITY, Claim_TRANSACTION_FUND_REQUEST_ID,
        Claim_SOURCE_LOOKUP_STATUS] None True,
     hypothesis_definition_of Hyp_H3 Kind_CAUSAL ''FUND_PROCESSING_FAILED''
       [Claim_FUND_BUSINESS_STATUS, Claim_PAYMENT_FINALITY, Claim_TRANSACTION_FUND_REQUEST_ID] None True,
     hypothesis_definition_of Hyp_H4 Kind_STATE ''PAYMENT_SETTLED_WITHOUT_SUCCESSFUL_HTTP_RESPONSE''
       [Claim_HTTP_RESPONSE_STATUS, Claim_PAYMENT_FINALITY, Claim_TRANSACTION_FUND_REQUEST_ID] None False,
     hypothesis_definition_of Hyp_H5 Kind_CAUSAL ''CALLBACK_NOT_OBSERVED_AT_GATEWAY''
       [Claim_SOURCE_LOOKUP_STATUS, Claim_CALLBACK_GATEWAY_RECEIVED] None True,
     hypothesis_definition_of Hyp_H6 Kind_CAUSAL ''CALLBACK_CONSUMPTION_FAILED''
       [Claim_CALLBACK_GATEWAY_RECEIVED, Claim_CALLBACK_SIGNATURE_VERIFIED, Claim_MESSAGE_CONSUME_STATUS]
       None False,
     hypothesis_definition_of Hyp_H6_SCHEMA_MISMATCH Kind_CAUSAL ''CALLBACK_SCHEMA_MISMATCH_TRIGGERED_FAILURE''
       [Claim_CALLBACK_GATEWAY_RECEIVED, Claim_MESSAGE_CONSUME_STATUS, Claim_MESSAGE_ERROR_CODE,
        Claim_MESSAGE_ERROR_FIELD, Claim_MESSAGE_EXPECTED_FIELD_TYPE, Claim_MESSAGE_ACTUAL_FIELD_TYPE]
       (Some Hyp_H6) False,
     hypothesis_definition_of Hyp_H6_STALE_CONSUMER_SCHEMA Kind_CAUSAL ''STALE_CONSUMER_SCHEMA''
       [Claim_CALLBACK_GATEWAY_RECEIVED, Claim_MESSAGE_CONSUME_STATUS, Claim_MESSAGE_ERROR_CODE,
        Claim_MESSAGE_ERROR_FIELD, Claim_MESSAGE_EXPECTED_FIELD_TYPE, Claim_MESSAGE_ACTUAL_FIELD_TYPE,
        Claim_CALLBACK_PROTOCOL_VERSION, Claim_PROTOCOL_FIELD_TYPE, Claim_CONSUMER_DEPLOYED_SCHEMA_VERSION,
        Claim_CONSUMER_ACCEPTED_PROTOCOL_VERSION, Claim_CONSUMER_LOAN_NO_FIELD_TYPE] (Some Hyp_H6) True,
     hypothesis_definition_of Hyp_H7 Kind_CAUSAL ''ASSET_NOTIFICATION_FAILED''
       [Claim_GUARANTEE_STATUS, Claim_ASSET_DELIVERY_STATUS, Claim_ASSET_DELIVERY_EVENT_REF,
        Claim_ASSET_STATUS] None False,
     hypothesis_definition_of Hyp_H8 Kind_SEMANTIC_GUARD ''FUND_SUCCESS_NOT_EQUAL_PAYMENT_FINALITY''
       [Claim_PROTOCOL_BUSINESS_SEMANTICS, Claim_GUARANTEE_STATUS] None False]"

definition catalog_definition :: "hypothesis_id \<Rightarrow> hypothesis_definition option" where
  "catalog_definition h = find (\<lambda>d. hd_hypothesis_id d = h) CATALOG"

section \<open>Facts\<close>

definition facts :: "evidence_index \<Rightarrow> claim_type \<Rightarrow> val \<Rightarrow> tool_name list \<Rightarrow> evidence list" where
  "facts ix claim v tools = filter (\<lambda>e. ev_tool e \<in> set tools \<and> ev_source_kind e = Src_PRIMARY)
     (agreed ix claim v)"

definition payment_facts :: "evidence_index \<Rightarrow> string \<Rightarrow> evidence list" where
  "payment_facts ix v = for_request ix (facts ix Claim_PAYMENT_FINALITY (VStr v) [Tool_PAYMENT])"

definition settled_witness :: "(group_key \<Rightarrow> string) \<Rightarrow> evidence_index \<Rightarrow> evidence list" where
  "settled_witness gk ix = (let result = verify_payment_identity gk ix in
     if pir_result result = Match_MATCH
     then filter (\<lambda>e. ev_evidence_id e \<in> set (pir_evidence_refs result)) (ix_evidence ix) else [])"

definition gateway_facts :: "evidence_index \<Rightarrow> evidence list" where
  "gateway_facts ix = facts ix Claim_CALLBACK_GATEWAY_RECEIVED (VBool True) [Tool_CALLBACK, Tool_CALLBACK_RAW]"

definition message_facts :: "evidence_index \<Rightarrow> string \<Rightarrow> evidence list" where
  "message_facts ix v = facts ix Claim_MESSAGE_CONSUME_STATUS (VStr v) [Tool_MESSAGES]"

definition callback_of :: "evidence \<Rightarrow> string option" where
  "callback_of e = em_callback_event_id (ev_metadata e)"

definition time_le :: "time option \<Rightarrow> time option \<Rightarrow> bool" where
  "time_le a b = (case (a, b) of (Some s, Some t) \<Rightarrow> s \<le> t | _ \<Rightarrow> False)"

definition callback_pairs :: "evidence_index \<Rightarrow> string \<Rightarrow> (evidence \<times> evidence) list" where
  "callback_pairs ix v = filter (\<lambda>(gateway, message).
       callback_of message = Some (es_identifier (ev_subject gateway))
       \<and> time_le (ev_event_time gateway) (ev_event_time message)
       \<and> \<not> (v = ''FAILED'' \<and> list_ex (\<lambda>m. ev_event_time m \<noteq> None
              \<and> callback_of m = Some (es_identifier (ev_subject gateway))
              \<and> time_le (ev_event_time message) (ev_event_time m)) (message_facts ix ''CONSUMED'')))
     (List.product (gateway_facts ix) (message_facts ix v))"

definition mismatch_claims :: "claim_type list" where
  "mismatch_claims = [Claim_MESSAGE_ERROR_CODE, Claim_MESSAGE_ERROR_FIELD,
     Claim_MESSAGE_EXPECTED_FIELD_TYPE, Claim_MESSAGE_ACTUAL_FIELD_TYPE]"

text \<open>The facts of one claim about the very message that failed.\<close>

definition same_failure :: "evidence_index \<Rightarrow> evidence \<Rightarrow> claim_type \<Rightarrow> evidence list" where
  "same_failure ix failed claim = filter (\<lambda>e. ev_tool e = Tool_MESSAGES \<and> ev_subject e = ev_subject failed
       \<and> ev_observation_id e = ev_observation_id failed \<and> ev_event_time e = ev_event_time failed
       \<and> callback_of e = callback_of failed \<and> ev_content_hash e = ev_content_hash failed
       \<and> ev_source_kind e = Src_PRIMARY) (current ix claim)"

definition values_are :: "evidence list \<Rightarrow> string \<Rightarrow> bool" where
  "values_are es s = (es \<noteq> [] \<and> list_all (\<lambda>e. py_eq (ev_value e) (VStr s)) es)"

text \<open>A group is the failed message with the facts of its error.\<close>

definition mismatch_groups :: "evidence_index \<Rightarrow> (evidence \<times> evidence list) list" where
  "mismatch_groups ix = concat (map (\<lambda>failed.
     let vs = map (same_failure ix failed) mismatch_claims;
         expected = remdups (map (py_key \<circ> ev_value) (same_failure ix failed Claim_MESSAGE_EXPECTED_FIELD_TYPE));
         actual = remdups (map (py_key \<circ> ev_value) (same_failure ix failed Claim_MESSAGE_ACTUAL_FIELD_TYPE))
     in if list_ex (\<lambda>g. g = []) vs then []
        else if \<not> values_are (same_failure ix failed Claim_MESSAGE_ERROR_CODE) ''CALLBACK_SCHEMA_MISMATCH''
           \<or> \<not> values_are (same_failure ix failed Claim_MESSAGE_ERROR_FIELD) ''loanNo'' then []
        else if length expected = 1 \<and> length actual = 1 \<and> expected \<noteq> actual then [(failed, concat vs)]
        else []) (message_facts ix ''FAILED''))"

definition group_members :: "evidence \<times> evidence list \<Rightarrow> evidence list" where
  "group_members g = fst g # snd g"

definition protocol_bindings :: "evidence_index \<Rightarrow> evidence list" where
  "protocol_bindings ix = for_request ix (filter (\<lambda>e. ev_tool e = Tool_GUARANTEE
     \<and> truthy (ev_protocol_version e) \<and> truthy (em_fund_request_id (ev_metadata e))
     \<and> ev_source_kind e = Src_PRIMARY) (current ix Claim_GUARANTEE_STATUS))"

section \<open>Rules\<close>

definition relation_of :: "evidence_index \<Rightarrow> hypothesis_id \<Rightarrow> relation_kind \<Rightarrow> string \<Rightarrow> evidence
    \<Rightarrow> string \<times> evidence_relation" where
  "relation_of ix h rel rule e = (ev_evidence_id e, \<lparr> er_case_id = case_case_id (ix_case ix),
     er_hypothesis_id = h, er_evidence_id = ev_evidence_id e, er_relation = rel, er_rule_id = rule \<rparr>)"

definition put_relations :: "(string \<times> evidence_relation) list \<Rightarrow> (string \<times> evidence_relation) list
    \<Rightarrow> (string \<times> evidence_relation) list" where
  "put_relations new acc = fold (\<lambda>(k, r). AList.update k r) new acc"

definition relation_rules :: "hypothesis_id \<Rightarrow> claim_type list \<times> string \<times> string" where
  "relation_rules h = (case catalog_definition h of None \<Rightarrow> ([], [], [])
     | Some d \<Rightarrow> (hd_relevant_claim_types d, hd_confirmation_rule_id d, hd_elimination_rule_id d))"

definition relation_table :: "evidence_index \<Rightarrow> hypothesis_id \<Rightarrow> evidence list \<Rightarrow> evidence list
    \<Rightarrow> evidence list \<Rightarrow> evidence list \<Rightarrow> (string \<times> evidence_relation) list" where
  "relation_table ix h support contradict confirm eliminate = (
     let (claims, confirm_rule, eliminate_rule) = relation_rules h; name = hypothesis_id_value h in
       put_relations (map (relation_of ix h Rel_DECISIVE_CONTRADICTION eliminate_rule) eliminate)
       (put_relations (map (relation_of ix h Rel_DECISIVE_SUPPORT confirm_rule) confirm)
       (put_relations (map (relation_of ix h Rel_CONTRADICTS (name @ ''.contradict.v3'')) contradict)
       (put_relations (map (relation_of ix h Rel_SUPPORTS (name @ ''.support.v3'')) support)
       (put_relations (map (relation_of ix h Rel_CONTEXT_ONLY (name @ ''.context.v3''))
          (concat (map (all_claims ix) claims))) [])))))"

definition decide :: "evidence_index \<Rightarrow> hypothesis_id \<Rightarrow> evidence list \<Rightarrow> evidence list \<Rightarrow> evidence list
    \<Rightarrow> rule_result" where
  "decide ix h support confirm eliminate = (
     let default = (if case_status (ix_case ix) = Case_INVESTIGATING then Hs_POSSIBLE else Hs_UNKNOWN);
         status = (if confirm \<noteq> [] then Hs_CONFIRMED else if eliminate \<noteq> [] then Hs_ELIMINATED
            else if support \<noteq> [] then Hs_SUPPORTED else default)
     in if confirm \<noteq> [] \<and> eliminate \<noteq> []
        then \<lparr> rr_hypothesis_id = h, rr_status = Hs_SUPPORTED,
               rr_relations = map snd (sort_key fst (relation_table ix h (support @ confirm) eliminate [] [])) \<rparr>
        else \<lparr> rr_hypothesis_id = h, rr_status = status,
               rr_relations = map snd (sort_key fst (relation_table ix h support [] confirm eliminate)) \<rparr>)"

definition rule_H1 :: "evidence_index \<Rightarrow> rule_result" where
  "rule_H1 ix = decide ix Hyp_H1 [] (facts ix Claim_REQUEST_SENT (VBool False) [Tool_TRACE])
     (facts ix Claim_REQUEST_SENT (VBool True) [Tool_TRACE])"

definition rule_H2 :: "(group_key \<Rightarrow> string) \<Rightarrow> evidence_index \<Rightarrow> rule_result" where
  "rule_H2 gk ix = decide ix Hyp_H2 [] [] (settled_witness gk ix
     @ concat (map (\<lambda>v. for_request ix (facts ix Claim_FUND_BUSINESS_STATUS (VStr v) [Tool_FUND]))
         [''PROCESSING'', ''SUCCESS'', ''FAILED'']))"

definition rule_H3 :: "(group_key \<Rightarrow> string) \<Rightarrow> evidence_index \<Rightarrow> rule_result" where
  "rule_H3 gk ix = decide ix Hyp_H3
     (for_request ix (facts ix Claim_FUND_BUSINESS_STATUS (VStr ''FAILED'') [Tool_FUND])) []
     (settled_witness gk ix)"

definition rule_H4 :: "(group_key \<Rightarrow> string) \<Rightarrow> evidence_index \<Rightarrow> rule_result" where
  "rule_H4 gk ix = (
     let timeout = filter (\<lambda>e. em_fund_request_id (ev_metadata e) = request_id ix)
           (for_request ix (facts ix Claim_HTTP_RESPONSE_STATUS (VStr ''TIMEOUT'') [Tool_TRACE]));
         ok = for_request ix (facts ix Claim_HTTP_RESPONSE_STATUS (VStr ''OK'') [Tool_TRACE]);
         settled = settled_witness gk ix
     in decide ix Hyp_H4 (timeout @ payment_facts ix ''SETTLED'')
          (if timeout \<noteq> [] \<and> settled \<noteq> [] then timeout @ settled else []) ok)"

definition rule_H5 :: "evidence_index \<Rightarrow> rule_result" where
  "rule_H5 ix = decide ix Hyp_H5 (filter (\<lambda>e. (ev_tool e = Tool_CALLBACK \<or> ev_tool e = Tool_CALLBACK_RAW)
       \<and> py_eq (ev_value e) (VStr ''NOT_FOUND'')) (all_claims ix Claim_SOURCE_LOOKUP_STATUS))
     [] (gateway_facts ix)"

definition flat_pairs :: "('a \<times> 'a) list \<Rightarrow> 'a list" where
  "flat_pairs ps = concat (map (\<lambda>(a, b). [a, b]) ps)"

definition rule_H6 :: "evidence_index \<Rightarrow> rule_result" where
  "rule_H6 ix = (
     let failed = flat_pairs (callback_pairs ix ''FAILED'');
         consumed = flat_pairs (callback_pairs ix ''CONSUMED'')
     in decide ix Hyp_H6 (gateway_facts ix @ message_facts ix ''FAILED'') failed
          (if failed = [] then consumed else []))"

definition rule_schema_mismatch :: "evidence_index \<Rightarrow> rule_result" where
  "rule_schema_mismatch ix = (
     let mismatches = mismatch_groups ix;
         members = concat (map group_members mismatches);
         witness = concat (map (\<lambda>g. concat (map (\<lambda>(gateway, message).
             if ev_evidence_id (fst g) = ev_evidence_id message then gateway # group_members g else [])
             (callback_pairs ix ''FAILED''))) mismatches)
     in decide ix Hyp_H6_SCHEMA_MISMATCH
          (if members \<noteq> [] then members else message_facts ix ''FAILED'') witness [])"

text \<open>\<open>identifier.rsplit("@", 1)[0]\<close>.\<close>

definition before_last_at :: "string \<Rightarrow> string" where
  "before_last_at s = (if CHR ''@'' \<in> set s then rev (tl (dropWhile (\<lambda>c. c \<noteq> CHR ''@'') (rev s))) else s)"

definition time_less :: "time option \<Rightarrow> time option \<Rightarrow> bool" where
  "time_less a b = (case (a, b) of (Some s, Some t) \<Rightarrow> s < t | _ \<Rightarrow> False)"

definition first_value :: "claim_type \<Rightarrow> evidence list \<Rightarrow> val option" where
  "first_value claim es = map_option ev_value (find (\<lambda>e. ev_claim_type e = claim) es)"

definition stale_support :: "evidence_index \<Rightarrow> evidence list" where
  "stale_support ix = (
     let fields = current ix Claim_PROTOCOL_FIELD_TYPE;
         versions = current ix Claim_CALLBACK_PROTOCOL_VERSION;
         on_loan_no = (\<lambda>e. es_field (ev_subject e) = Some ''loanNo'')
     in concat (map (\<lambda>g.
       let message = fst g;
           parent_witness = flat_pairs (filter (\<lambda>p. ev_evidence_id (snd p) = ev_evidence_id message)
             (callback_pairs ix ''FAILED''))
       in if parent_witness = [] then []
          else case (first_value Claim_MESSAGE_EXPECTED_FIELD_TYPE (group_members g),
                     first_value Claim_MESSAGE_ACTUAL_FIELD_TYPE (group_members g)) of
            (Some expected, Some actual) \<Rightarrow>
              concat (map (\<lambda>version.
                if Some (es_identifier (ev_subject version)) \<noteq> callback_of message then []
                else concat (map (\<lambda>doc.
                  let partner = before_last_at (es_identifier (ev_subject doc));
                      older_docs = filter (\<lambda>e. on_loan_no e \<and> py_eq (ev_value e) expected
                        \<and> before_last_at (es_identifier (ev_subject e)) = partner
                        \<and> ev_protocol_version e \<noteq> ev_protocol_version doc
                        \<and> time_less (ev_event_time e) (ev_event_time doc)) fields
                  in if older_docs = [] then []
                     else parent_witness @ group_members g @ [version, doc] @ older_docs)
                  (filter (\<lambda>e. on_loan_no e \<and> map_option VStr (ev_protocol_version e) = Some (ev_value version)
                     \<and> py_eq (ev_value e) actual) fields))) versions)
          | _ \<Rightarrow> []) (mismatch_groups ix)))"

definition rule_stale_consumer :: "evidence_index \<Rightarrow> rule_result" where
  "rule_stale_consumer ix = decide ix Hyp_H6_STALE_CONSUMER_SCHEMA (stale_support ix) [] []"

definition rule_H7 :: "evidence_index \<Rightarrow> rule_result" where
  "rule_H7 ix = (
     let applied = facts ix Claim_GUARANTEE_STATUS (VStr ''SUCCESS'') [Tool_GUARANTEE];
         delivery_failed = facts ix Claim_ASSET_DELIVERY_STATUS (VStr ''FAILED'') [Tool_ASSET_DELIVERY];
         asset_pending = facts ix Claim_ASSET_STATUS (VStr ''PROCESSING'') [Tool_ASSET];
         asset_success = facts ix Claim_ASSET_STATUS (VStr ''SUCCESS'') [Tool_ASSET]
     in decide ix Hyp_H7 (applied @ delivery_failed)
          (if applied \<noteq> [] \<and> delivery_failed \<noteq> [] \<and> asset_pending \<noteq> []
           then applied @ delivery_failed @ asset_pending else []) asset_success)"

definition on_success :: "evidence \<Rightarrow> bool" where
  "on_success e = (es_field (ev_subject e) = Some ''SUCCESS'')"

definition applicable_semantics :: "evidence_index \<Rightarrow> evidence list" where
  "applicable_semantics ix = (
     let semantics = filter on_success (facts ix Claim_PROTOCOL_BUSINESS_SEMANTICS
           (VStr ''LOAN_CREATED_PAYMENT_SEPARATE'') [Tool_PROTOCOL]);
         bindings = protocol_bindings ix
     in if length (remdups (map ev_protocol_version bindings)) = 1
        then concat (map (\<lambda>binding.
          let docs = filter (\<lambda>e. ev_protocol_version e = ev_protocol_version binding) semantics;
              candidates = filter (\<lambda>e. ev_tool e = Tool_PROTOCOL \<and> on_success e
                \<and> ev_protocol_version e = ev_protocol_version binding)
                (current ix Claim_PROTOCOL_BUSINESS_SEMANTICS)
          in if docs \<noteq> [] \<and> length (remdups (map (es_identifier \<circ> ev_subject) candidates)) = 1
             then binding # docs else []) bindings)
        else [])"

definition rule_H8 :: "evidence_index \<Rightarrow> rule_result" where
  "rule_H8 ix = decide ix Hyp_H8 (filter on_success (facts ix Claim_PROTOCOL_BUSINESS_SEMANTICS
       (VStr ''LOAN_CREATED_PAYMENT_SEPARATE'') [Tool_PROTOCOL])) (applicable_semantics ix) []"

definition evaluate_rules :: "(group_key \<Rightarrow> string) \<Rightarrow> evidence_index \<Rightarrow> rule_result list" where
  "evaluate_rules gk ix = [rule_H1 ix, rule_H2 gk ix, rule_H3 gk ix, rule_H4 gk ix, rule_H5 ix, rule_H6 ix,
     rule_schema_mismatch ix, rule_stale_consumer ix, rule_H7 ix, rule_H8 ix]"

section \<open>Evidence gaps\<close>

definition gap_of :: "evidence_index \<Rightarrow> string \<Rightarrow> hypothesis_id list
    \<Rightarrow> (claim_type + uncollected_claim_type) list \<Rightarrow> evidence list \<Rightarrow> priority_class \<Rightarrow> evidence_gap" where
  "gap_of ix name hs claims witness priority = \<lparr>
     eg_gap_id = case_case_id (ix_case ix) @ '':'' @ name, eg_case_id = case_case_id (ix_case ix),
     eg_hypothesis_ids = hs, eg_required_claim_types = claims,
     eg_status = (if witness \<noteq> [] then Gap_SATISFIED else Gap_OPEN),
     eg_priority_class = priority, eg_evidence_refs = refs witness \<rparr>"

definition result_of :: "hypothesis_id \<Rightarrow> rule_result list \<Rightarrow> rule_result option" where
  "result_of h results = find (\<lambda>r. rr_hypothesis_id r = h) results"

definition status_in :: "hypothesis_id \<Rightarrow> rule_result list \<Rightarrow> hypothesis_status option" where
  "status_in h results = map_option rr_status (result_of h results)"

definition refs_with :: "hypothesis_id \<Rightarrow> relation_kind list \<Rightarrow> rule_result list \<Rightarrow> string list" where
  "refs_with h kinds results = (case result_of h results of None \<Rightarrow> []
     | Some r \<Rightarrow> map er_evidence_id (filter (\<lambda>x. er_relation x \<in> set kinds) (rr_relations r)))"

definition request_gaps :: "(group_key \<Rightarrow> string) \<Rightarrow> evidence_index \<Rightarrow> evidence_gap list" where
  "request_gaps gk ix = (
     if all_claims ix Claim_HTTP_RESPONSE_STATUS = [] \<and> all_claims ix Claim_PAYMENT_FINALITY = [] then []
     else
       let http = concat (map (\<lambda>v. for_request ix (facts ix Claim_HTTP_RESPONSE_STATUS (VStr v) [Tool_TRACE]))
             [''OK'', ''TIMEOUT'', ''NOT_ATTEMPTED'']);
           links = (case request_id ix of None \<Rightarrow> []
             | Some r \<Rightarrow> filter (\<lambda>e. em_fund_request_id (ev_metadata e) = Some r)
                 (current ix Claim_HTTP_RESPONSE_STATUS));
           bound = (case request_id ix of None \<Rightarrow> []
             | Some r \<Rightarrow> for_request ix (facts ix Claim_TRANSACTION_FUND_REQUEST_ID (VStr r) [Tool_PAYMENT]));
           payment_links = (if bound \<noteq> [] then bound
             else if payment_facts ix ''NOT_EXECUTED'' \<noteq> [] then payment_facts ix ''NOT_EXECUTED''
             else payment_facts ix ''PENDING'')
       in [gap_of ix ''HTTP_RESPONSE_STATUS'' [Hyp_H4] [Inl Claim_HTTP_RESPONSE_STATUS] http Prio_DISCRIMINATING,
           gap_of ix ''REQUEST_ASSOCIATION'' [Hyp_H2, Hyp_H3, Hyp_H4]
             [Inr Unc_REQUEST_ASSOCIATION, Inl Claim_PAYMENT_FINALITY]
             (if links \<noteq> [] \<and> payment_links \<noteq> [] then links @ payment_links else []) Prio_SAFETY_CRITICAL])"

definition callback_gaps :: "(group_key \<Rightarrow> string) \<Rightarrow> evidence_index \<Rightarrow> rule_result list \<Rightarrow> evidence_gap list" where
  "callback_gaps gk ix results = (
     let gateway_context = (settled_witness gk ix \<noteq> [] \<or> all_claims ix Claim_CALLBACK_GATEWAY_RECEIVED \<noteq> []
           \<or> list_ex (\<lambda>e. ev_tool e = Tool_CALLBACK \<or> ev_tool e = Tool_CALLBACK_RAW)
               (all_claims ix Claim_SOURCE_LOOKUP_STATUS));
         consumption = flat_pairs (callback_pairs ix ''FAILED'') @ flat_pairs (callback_pairs ix ''CONSUMED'');
         mismatch = concat (map group_members (mismatch_groups ix))
     in (if gateway_context then [gap_of ix ''CALLBACK_GATEWAY_OBSERVATION'' [Hyp_H5, Hyp_H6]
            [Inl Claim_CALLBACK_GATEWAY_RECEIVED] (gateway_facts ix) Prio_DISCRIMINATING] else [])
      @ (if gateway_facts ix \<noteq> [] \<or> all_claims ix Claim_MESSAGE_CONSUME_STATUS \<noteq> [] then
           gap_of ix ''CALLBACK_CONSUMPTION'' [Hyp_H6] [Inl Claim_MESSAGE_CONSUME_STATUS] consumption
             Prio_DISCRIMINATING
           # (if all_claims ix Claim_MESSAGE_CONSUME_STATUS \<noteq> [] \<and> consumption = [] then
                [gap_of ix ''CALLBACK_EVENT_ASSOCIATION'' [Hyp_H6] [Inr Unc_CALLBACK_EVENT_ASSOCIATION] []
                   Prio_DISCRIMINATING] else [])
         else [])
      @ (if message_facts ix ''FAILED'' \<noteq> [] then
           gap_of ix ''CONSUMER_FAILURE_DETAILS'' [Hyp_H6_SCHEMA_MISMATCH, Hyp_H6_STALE_CONSUMER_SCHEMA]
             (map Inl mismatch_claims) mismatch Prio_DISCRIMINATING
           # (if mismatch \<noteq> [] then
                gap_of ix ''DEPLOYED_CONSUMER_SCHEMA_VERSION'' [Hyp_H6_STALE_CONSUMER_SCHEMA]
                  [Inr Unc_DEPLOYED_CONSUMER_SCHEMA_VERSION] [] Prio_DISCRIMINATING
                # (if status_in Hyp_H6_STALE_CONSUMER_SCHEMA results \<noteq> Some Hs_SUPPORTED then
                     [gap_of ix ''CALLBACK_SCHEMA_PROTOCOL'' [Hyp_H6_STALE_CONSUMER_SCHEMA]
                        [Inl Claim_CALLBACK_PROTOCOL_VERSION, Inl Claim_PROTOCOL_FIELD_TYPE] []
                        Prio_DISCRIMINATING] else [])
              else [])
         else []))"

definition derive_gaps :: "(group_key \<Rightarrow> string) \<Rightarrow> evidence_index \<Rightarrow> rule_result list \<Rightarrow> evidence_gap list" where
  "derive_gaps gk ix results = sort_key eg_gap_id (
     [gap_of ix ''PAYMENT_IDENTITY'' [Hyp_H2, Hyp_H3, Hyp_H4] (map (Inl \<circ> snd) IDENTITY_CLAIMS)
        (settled_witness gk ix) Prio_SAFETY_CRITICAL,
      gap_of ix ''PAYMENT_FINALITY'' [Hyp_H2, Hyp_H3, Hyp_H4] [Inl Claim_PAYMENT_FINALITY]
        (concat (map (\<lambda>v. facts ix Claim_PAYMENT_FINALITY (VStr v) [Tool_PAYMENT]) [''SETTLED'', ''NOT_EXECUTED'']))
        Prio_SAFETY_CRITICAL]
     @ request_gaps gk ix
     @ (if status_in Hyp_H1 results \<noteq> Some Hs_CONFIRMED \<and> status_in Hyp_H1 results \<noteq> Some Hs_ELIMINATED
        then [gap_of ix ''TRACE_REQUEST_STATUS'' [Hyp_H1] [Inl Claim_REQUEST_SENT] [] Prio_DISCRIMINATING]
        else [])
     @ callback_gaps gk ix results
     @ (if all_claims ix Claim_PROTOCOL_BUSINESS_SEMANTICS \<noteq> []
           \<or> has_value ix Claim_FUND_BUSINESS_STATUS (VStr ''SUCCESS'')
        then [gap_of ix ''FUND_PROTOCOL_APPLICABILITY'' [Hyp_H8]
               [Inr Unc_FUND_REQUEST_PROTOCOL_APPLICABILITY, Inl Claim_PROTOCOL_BUSINESS_SEMANTICS]
               (if status_in Hyp_H8 results = Some Hs_CONFIRMED
                then filter (\<lambda>e. ev_evidence_id e \<in> set (refs_with Hyp_H8 [Rel_DECISIVE_SUPPORT] results))
                       (ix_evidence ix) else []) Prio_SAFETY_CRITICAL]
        else [])
     @ [gap_of ix ''ASSET_CONVERGENCE'' [Hyp_H7]
          [Inl Claim_GUARANTEE_STATUS, Inl Claim_ASSET_DELIVERY_STATUS, Inl Claim_ASSET_STATUS]
          (filter (\<lambda>e. ev_evidence_id e \<in> set (refs_with Hyp_H7
             [Rel_DECISIVE_SUPPORT, Rel_DECISIVE_CONTRADICTION] results)) (ix_evidence ix))
          Prio_DISCRIMINATING])"

section \<open>Graph invariants\<close>

definition definition_of :: "hypothesis_id \<Rightarrow> hypothesis_definition list \<Rightarrow> hypothesis_definition option" where
  "definition_of h defs = find (\<lambda>d. hd_hypothesis_id d = h) defs"

text \<open>The walk to the root; \<open>seen\<close> grows by a defined hypothesis at every step.\<close>

function chain_ok :: "hypothesis_definition list \<Rightarrow> hypothesis_id list \<Rightarrow> hypothesis_id option \<Rightarrow> bool" where
  "chain_ok defs seen None = True"
| "chain_ok defs seen (Some p) = (
     if p \<in> set seen then False
     else case definition_of p defs of None \<Rightarrow> False
       | Some d \<Rightarrow> chain_ok defs (p # seen) (hd_parent_hypothesis_id d))"
  by pat_completeness auto

termination
proof (relation "measure (\<lambda>(defs, seen, p). case p of None \<Rightarrow> 0
    | Some h \<Rightarrow> Suc (length (filter (\<lambda>d. hd_hypothesis_id d \<notin> set seen) defs)))", goal_cases)
  case 1
  then show ?case by simp
next
  case (2 defs seen p d)
  then have d: "d \<in> set defs" "hd_hypothesis_id d = p"
    by (auto simp: definition_of_def find_Some_iff)
  have "length (filter (\<lambda>d. hd_hypothesis_id d \<notin> set (p # seen)) defs)
      < length (filter (\<lambda>d. hd_hypothesis_id d \<notin> set seen) defs)"
  proof -
    have "filter (\<lambda>d. hd_hypothesis_id d \<notin> set (p # seen)) defs
        = filter (\<lambda>d. hd_hypothesis_id d \<noteq> p) (filter (\<lambda>d. hd_hypothesis_id d \<notin> set seen) defs)"
      by (auto intro: filter_cong)
    also have "length \<dots> < length (filter (\<lambda>d. hd_hypothesis_id d \<notin> set seen) defs)"
      using d 2(1) by (intro length_filter_less [of d]) auto
    finally show ?thesis .
  qed
  then show ?case by (auto split: option.split)
qed

definition state_status :: "hypothesis_id \<Rightarrow> hypothesis_state list \<Rightarrow> hypothesis_status option" where
  "state_status h states = map_option hs_status (find (\<lambda>s. hs_hypothesis_id s = h) states)"

definition graph_valid :: "hypothesis_graph_view \<Rightarrow> bool" where
  "graph_valid graph = (
     let defs = hg_definitions graph; states = hg_hypotheses graph;
         dids = map hd_hypothesis_id defs; sids = map hs_hypothesis_id states
     in distinct dids \<and> distinct sids \<and> list_all (\<lambda>h. h \<in> set sids) dids \<and> list_all (\<lambda>h. h \<in> set dids) sids
        \<and> list_all (\<lambda>d. case hd_parent_hypothesis_id d of None \<Rightarrow> True
            | Some p \<Rightarrow> p \<in> set sids
                \<and> \<not> (state_status (hd_hypothesis_id d) states = Some Hs_CONFIRMED
                     \<and> state_status p states \<noteq> Some Hs_CONFIRMED)
                \<and> chain_ok defs [hd_hypothesis_id d] (Some p)) defs)"

section \<open>The engine\<close>

definition state_of :: "evidence_index \<Rightarrow> evidence_gap list \<Rightarrow> rule_result \<Rightarrow> hypothesis_state" where
  "state_of ix gaps result = (
     let rs = (\<lambda>kinds. sort (map er_evidence_id (filter (\<lambda>r. er_relation r \<in> set kinds) (rr_relations result))))
     in \<lparr> hs_hypothesis_id = rr_hypothesis_id result, hs_status = rr_status result,
          hs_supporting_evidence_refs = rs [Rel_SUPPORTS, Rel_DECISIVE_SUPPORT],
          hs_contradicting_evidence_refs = rs [Rel_CONTRADICTS, Rel_DECISIVE_CONTRADICTION],
          hs_decisive_evidence_refs = rs [Rel_DECISIVE_SUPPORT, Rel_DECISIVE_CONTRADICTION],
          hs_missing_evidence = map eg_gap_id (filter (\<lambda>g. eg_status g = Gap_OPEN
             \<and> rr_hypothesis_id result \<in> set (eg_hypothesis_ids g)
             \<and> rr_status result \<noteq> Hs_CONFIRMED \<and> rr_status result \<noteq> Hs_ELIMINATED) gaps),
          hs_rule_version = HYPOTHESIS_RULESET_VERSION, hs_evaluated_at = evaluated_at ix \<rparr>)"

definition graph_of :: "(group_key \<Rightarrow> string) \<Rightarrow> (case_rec \<Rightarrow> evidence list \<Rightarrow> string) \<Rightarrow> evidence_index
    \<Rightarrow> hypothesis_graph_view" where
  "graph_of gk gf ix = (
     let results = evaluate_rules gk ix;
         gaps = derive_gaps gk ix results;
         states = map (state_of ix gaps) results;
         with_status = (\<lambda>st. map hs_hypothesis_id (filter (\<lambda>s. hs_status s = st) states))
     in \<lparr> hg_case_id = case_case_id (ix_case ix), hg_rule_version = HYPOTHESIS_RULESET_VERSION,
          hg_evaluated_at = evaluated_at ix, hg_input_fingerprint = gf (ix_case ix) (ix_evidence ix),
          hg_definitions = CATALOG, hg_hypotheses = states,
          hg_relations = concat (map rr_relations results), hg_gaps = gaps,
          hg_open_gaps = filter (\<lambda>g. eg_status g = Gap_OPEN) gaps,
          hg_confirmed = with_status Hs_CONFIRMED, hg_supported = with_status Hs_SUPPORTED,
          hg_eliminated = with_status Hs_ELIMINATED,
          hg_payment_identity = verify_payment_identity gk ix \<rparr>)"

definition evaluate :: "(group_key \<Rightarrow> string) \<Rightarrow> (case_rec \<Rightarrow> evidence list \<Rightarrow> string) \<Rightarrow> case_rec
    \<Rightarrow> evidence list \<Rightarrow> error + hypothesis_graph_view" where
  "evaluate gk gf c es = bindE (build_index c es) (\<lambda>ix.
     let graph = graph_of gk gf ix
     in if graph_valid graph then Inr graph else Inl HypothesisInvariantError)"

section \<open>What a decision rests on\<close>

lemma set_alist_update: "set (AList.update k v t) \<subseteq> insert (k, v) (set t)"
  by (induction t) auto

lemma put_relations_set: "set (put_relations new acc) \<subseteq> set new \<union> set acc"
proof (induction new arbitrary: acc)
  case (Cons x new)
  obtain k r where x: "x = (k, r)" by (cases x)
  have "put_relations (x # new) acc = put_relations new (AList.update k r acc)"
    by (simp add: put_relations_def x)
  then show ?case using Cons.IH [of "AList.update k r acc"] set_alist_update [of k r acc] x by auto
qed (simp add: put_relations_def)

lemma put_relations_last:
  assumes "new \<noteq> []"
  shows "last new \<in> set (put_relations new acc)"
proof -
  obtain ys k r where new: "new = ys @ [(k, r)]" using assms by (metis rev_exhaust surj_pair)
  have "put_relations new acc = AList.update k r (put_relations ys acc)"
    by (simp add: put_relations_def new)
  moreover have "map_of (AList.update k r t) k = Some r" for t by (simp add: update_conv')
  ultimately show ?thesis by (metis last_snoc map_of_SomeD new)
qed

lemma decide_id [simp]: "rr_hypothesis_id (decide ix h s c e) = h"
  by (simp add: decide_def Let_def)

lemma decide_status:
  "rr_status (decide ix h s c e) = (if c \<noteq> [] \<and> e \<noteq> [] then Hs_SUPPORTED else if c \<noteq> [] then Hs_CONFIRMED
     else if e \<noteq> [] then Hs_ELIMINATED else if s \<noteq> [] then Hs_SUPPORTED
     else if case_status (ix_case ix) = Case_INVESTIGATING then Hs_POSSIBLE else Hs_UNKNOWN)"
  by (simp add: decide_def Let_def)

lemma decide_confirmed [simp]:
  "rr_status (decide ix h s c e) = Hs_CONFIRMED \<longleftrightarrow> c \<noteq> [] \<and> e = []"
  by (simp add: decide_status)

lemma decide_eliminated [simp]:
  "rr_status (decide ix h s c e) = Hs_ELIMINATED \<longleftrightarrow> c = [] \<and> e \<noteq> []"
  by (simp add: decide_status)

definition decisive :: "evidence_relation \<Rightarrow> bool" where
  "decisive r = (er_relation r = Rel_DECISIVE_SUPPORT \<or> er_relation r = Rel_DECISIVE_CONTRADICTION)"

lemma put_relations_mem:
  assumes "(k, r) \<in> set (put_relations (map (relation_of ix h rel rule) es) acc)"
  shows "(\<exists>x\<in>set es. er_evidence_id r = ev_evidence_id x \<and> er_relation r = rel) \<or> (k, r) \<in> set acc"
  using subsetD [OF put_relations_set assms] by (auto simp: relation_of_def)

lemma relation_table_mem:
  assumes "(k, r) \<in> set (relation_table ix h s ct c e)"
  shows "\<exists>x. er_evidence_id r = ev_evidence_id x
    \<and> (if decisive r then x \<in> set c \<union> set e else x \<in> set (ix_evidence ix) \<union> set s \<union> set ct)"
proof -
  obtain claims cr er where rr: "relation_rules h = (claims, cr, er)" by (metis prod_cases3)
  have "(\<exists>x\<in>set e. er_evidence_id r = ev_evidence_id x \<and> er_relation r = Rel_DECISIVE_CONTRADICTION)
    \<or> (\<exists>x\<in>set c. er_evidence_id r = ev_evidence_id x \<and> er_relation r = Rel_DECISIVE_SUPPORT)
    \<or> (\<exists>x\<in>set ct. er_evidence_id r = ev_evidence_id x \<and> er_relation r = Rel_CONTRADICTS)
    \<or> (\<exists>x\<in>set s. er_evidence_id r = ev_evidence_id x \<and> er_relation r = Rel_SUPPORTS)
    \<or> (\<exists>x\<in>set (concat (map (all_claims ix) claims)).
          er_evidence_id r = ev_evidence_id x \<and> er_relation r = Rel_CONTEXT_ONLY)"
    using assms unfolding relation_table_def rr Let_def prod.case
    by (elim put_relations_mem [THEN disjE]; blast?) simp
  then show ?thesis
    by (elim disjE bexE conjE) (auto simp: decisive_def all_claims_def)
qed

lemma decide_relations:
  assumes "r \<in> set (rr_relations (decide ix h s c e))"
  shows "\<exists>x. er_evidence_id r = ev_evidence_id x
    \<and> (if decisive r then x \<in> set c \<union> set e else x \<in> set (ix_evidence ix) \<union> set s \<union> set c \<union> set e)"
proof (cases "c \<noteq> [] \<and> e \<noteq> []")
  case True
  then obtain k where "(k, r) \<in> set (relation_table ix h (s @ c) e [] [])"
    using assms by (auto simp: decide_def Let_def)
  from relation_table_mem [OF this] show ?thesis by (auto split: if_splits)
next
  case False
  then have "rr_relations (decide ix h s c e) = map snd (sort_key fst (relation_table ix h s [] c e))"
    by (auto simp: decide_def Let_def)
  then obtain k where "(k, r) \<in> set (relation_table ix h s [] c e)" using assms by auto
  from relation_table_mem [OF this] show ?thesis by (auto split: if_splits)
qed

lemma last_relation:
  assumes "es \<noteq> []"
  shows "\<exists>k r. (k, r) \<in> set (put_relations (map (relation_of ix h rel rule) es) acc) \<and> er_relation r = rel"
proof -
  obtain r where r: "relation_of ix h rel rule (last es) = (ev_evidence_id (last es), r)" "er_relation r = rel"
    by (simp add: relation_of_def)
  then have "(ev_evidence_id (last es), r) \<in> set (put_relations (map (relation_of ix h rel rule) es) acc)"
    using put_relations_last [of "map (relation_of ix h rel rule) es" acc] assms by (simp add: last_map)
  with r(2) show ?thesis by blast
qed

lemma decide_decisive_exists:
  assumes "rr_status (decide ix h s c e) = Hs_CONFIRMED \<or> rr_status (decide ix h s c e) = Hs_ELIMINATED"
  shows "\<exists>r\<in>set (rr_relations (decide ix h s c e)). decisive r"
proof -
  obtain claims cr er where rr: "relation_rules h = (claims, cr, er)" by (metis prod_cases3)
  have one: "c \<noteq> [] \<and> e = [] \<or> c = [] \<and> e \<noteq> []" using assms by simp
  then have "rr_relations (decide ix h s c e) = map snd (sort_key fst (relation_table ix h s [] c e))"
    by (auto simp: decide_def Let_def)
  moreover have "\<exists>k r. (k, r) \<in> set (relation_table ix h s [] c e) \<and> decisive r"
    using one
  proof
    assume "c \<noteq> [] \<and> e = []"
    then show ?thesis
      using last_relation [of c ix h Rel_DECISIVE_SUPPORT cr]
      unfolding relation_table_def rr Let_def prod.case
      by (simp add: put_relations_def [where new = "[]"] decisive_def) blast
  next
    assume "c = [] \<and> e \<noteq> []"
    then show ?thesis
      using last_relation [of e ix h Rel_DECISIVE_CONTRADICTION er]
      unfolding relation_table_def rr Let_def prod.case
      by (simp add: decisive_def) blast
  qed
  ultimately show ?thesis by force
qed

definition decisive_quality :: "evidence_index \<Rightarrow> evidence \<Rightarrow> bool" where
  "decisive_quality ix e = (e \<in> set (ix_evidence ix) \<and> ev_freshness e = Fresh_CURRENT
     \<and> ev_completeness e = Compl_COMPLETE \<and> ev_source_kind e = Src_PRIMARY
     \<and> ev_claim_type e \<noteq> Claim_SOURCE_LOOKUP_STATUS)"

named_theorems quality

lemma current_quality:
  "e \<in> set (current ix claim) \<Longrightarrow> ev_source_kind e = Src_PRIMARY \<Longrightarrow> claim \<noteq> Claim_SOURCE_LOOKUP_STATUS
     \<Longrightarrow> decisive_quality ix e"
  using current_facts [of e ix claim] by (simp add: decisive_quality_def)

lemma facts_quality [quality]:
  "e \<in> set (facts ix claim v tools) \<Longrightarrow> claim \<noteq> Claim_SOURCE_LOOKUP_STATUS \<Longrightarrow> decisive_quality ix e"
  using agreed_subset [of ix claim v] by (auto simp: facts_def intro: current_quality)

lemma for_request_subset: "set (for_request ix es) \<subseteq> set es"
  by (auto simp: for_request_def split: option.splits)

lemma for_request_quality [quality]:
  "e \<in> set (for_request ix es) \<Longrightarrow> (\<And>x. x \<in> set es \<Longrightarrow> decisive_quality ix x) \<Longrightarrow> decisive_quality ix e"
  using for_request_subset by blast

lemma payment_current_quality:
  "(d, c) \<in> set IDENTITY_CLAIMS \<Longrightarrow> e \<in> set (payment_current ix c) \<Longrightarrow> decisive_quality ix e"
  by (auto simp: payment_current_def IDENTITY_CLAIMS_def intro: current_quality)

lemma identity_refs:
  assumes "i \<in> set (pir_evidence_refs (verify_payment_identity gk ix))"
  shows "\<exists>e. ev_evidence_id e = i \<and> decisive_quality ix e"
proof -
  obtain k where k: "k \<in> set (identity_groups ix)" and i: "i \<in> set (piw_evidence_refs (identity_witness ix k))"
    using assms by (auto simp: verify_payment_identity_def Let_def)
  then obtain e where e: "ev_evidence_id e = i" "e \<in> set (snd k) \<or> e \<in> set (identity_anchors ix)"
    by (auto simp: identity_witness_def Let_def refs_def split: prod.splits)
  have "e \<in> set (snd k) \<Longrightarrow> decisive_quality ix e"
    using k by (auto simp: identity_groups_def Let_def dest: payment_current_quality)
  moreover have "e \<in> set (identity_anchors ix) \<Longrightarrow> decisive_quality ix e"
    by (auto simp: identity_anchors_def intro: current_quality)
  ultimately show ?thesis using e by blast
qed

lemma settled_quality [quality]:
  assumes "distinct (map ev_evidence_id (ix_evidence ix))" and "e \<in> set (settled_witness gk ix)"
  shows "decisive_quality ix e"
proof -
  have e: "e \<in> set (ix_evidence ix)" and "ev_evidence_id e \<in> set (pir_evidence_refs (verify_payment_identity gk ix))"
    using assms(2) by (auto simp: settled_witness_def Let_def split: if_splits)
  then obtain f where f: "ev_evidence_id f = ev_evidence_id e" "decisive_quality ix f"
    using identity_refs by blast
  then have "f = e" using assms(1) e by (auto simp: distinct_map decisive_quality_def inj_on_def)
  with f show ?thesis by simp
qed

lemma message_quality [quality]: "e \<in> set (message_facts ix v) \<Longrightarrow> decisive_quality ix e"
  by (auto simp: message_facts_def intro: quality)

lemma gateway_quality [quality]: "e \<in> set (gateway_facts ix) \<Longrightarrow> decisive_quality ix e"
  by (auto simp: gateway_facts_def intro: quality)

lemma pairs_quality [quality]: "e \<in> set (flat_pairs (callback_pairs ix v)) \<Longrightarrow> decisive_quality ix e"
  by (auto simp: flat_pairs_def callback_pairs_def intro: quality)

lemma same_failure_quality:
  "e \<in> set (same_failure ix failed claim) \<Longrightarrow> claim \<noteq> Claim_SOURCE_LOOKUP_STATUS \<Longrightarrow> decisive_quality ix e"
  unfolding same_failure_def by (auto intro: current_quality)

lemma mismatch_groups_shape:
  "g \<in> set (mismatch_groups ix) \<Longrightarrow> fst g \<in> set (message_facts ix ''FAILED'')
     \<and> snd g = concat (map (same_failure ix (fst g)) mismatch_claims)"
  unfolding mismatch_groups_def by (auto simp: Let_def split: if_split_asm)

lemma group_quality [quality]:
  assumes "g \<in> set (mismatch_groups ix)" and "e \<in> set (group_members g)"
  shows "decisive_quality ix e"
proof -
  note g = mismatch_groups_shape [OF assms(1)]
  then consider "e = fst g"
    | claim where "claim \<in> set mismatch_claims" "e \<in> set (same_failure ix (fst g) claim)"
    using assms(2) by (auto simp: group_members_def)
  then show ?thesis
  proof cases
    case 1
    with g show ?thesis by (auto intro: quality)
  next
    case 2
    then show ?thesis by (auto simp: mismatch_claims_def intro: same_failure_quality)
  qed
qed

lemma payment_facts_quality [quality]: "e \<in> set (payment_facts ix v) \<Longrightarrow> decisive_quality ix e"
  unfolding payment_facts_def by (rule for_request_quality) (auto intro: quality)

lemma applicable_quality [quality]:
  assumes "e \<in> set (applicable_semantics ix)"
  shows "decisive_quality ix e"
proof -
  have "e \<in> set (protocol_bindings ix)
    \<or> e \<in> set (facts ix Claim_PROTOCOL_BUSINESS_SEMANTICS (VStr ''LOAN_CREATED_PAYMENT_SEPARATE'') [Tool_PROTOCOL])"
    using assms by (auto simp: applicable_semantics_def Let_def split: if_splits)
  moreover have "e \<in> set (protocol_bindings ix) \<Longrightarrow> decisive_quality ix e"
    unfolding protocol_bindings_def by (rule for_request_quality) (auto intro: current_quality)
  ultimately show ?thesis by (auto intro: quality)
qed

text \<open>Every rule is a decision whose decisive lists hold quality facts only.\<close>

definition sound_rule :: "evidence_index \<Rightarrow> rule_result \<Rightarrow> bool" where
  "sound_rule ix r = (\<exists>h s c e. r = decide ix h s c e \<and> (\<forall>x\<in>set c \<union> set e. decisive_quality ix x)
     \<and> set s \<subseteq> set (ix_evidence ix))"

lemma quality_in: "decisive_quality ix e \<Longrightarrow> e \<in> set (ix_evidence ix)"
  by (simp add: decisive_quality_def)

lemma sound_ruleI:
  "(\<And>x. x \<in> set c \<Longrightarrow> decisive_quality ix x) \<Longrightarrow> (\<And>x. x \<in> set e \<Longrightarrow> decisive_quality ix x)
   \<Longrightarrow> (\<And>x. x \<in> set s \<Longrightarrow> x \<in> set (ix_evidence ix)) \<Longrightarrow> sound_rule ix (decide ix h s c e)"
  unfolding sound_rule_def by blast

lemma request_fund_quality:
  "claim \<noteq> Claim_SOURCE_LOOKUP_STATUS \<Longrightarrow> e \<in> set (for_request ix (facts ix claim v tools)) \<Longrightarrow> decisive_quality ix e"
  by (erule for_request_quality) (auto intro: quality)

lemma flat_pairs_filter: "e \<in> set (flat_pairs (filter P ps)) \<Longrightarrow> e \<in> set (flat_pairs ps)"
  unfolding flat_pairs_def by (simp only: set_concat set_map set_filter) blast

lemma concat_guarded:
  "e \<in> set (concat (map (\<lambda>x. if b x then [] else f x) xs))
   \<Longrightarrow> (\<And>x. x \<in> set xs \<Longrightarrow> e \<in> set (f x) \<Longrightarrow> P) \<Longrightarrow> P"
  by (auto split: if_split_asm)

lemma case_pair_guarded:
  "e \<in> set (case (a, b) of (Some x, Some y) \<Rightarrow> f x y | _ \<Rightarrow> []) \<Longrightarrow> (\<And>x y. e \<in> set (f x y) \<Longrightarrow> P) \<Longrightarrow> P"
  by (auto split: option.split_asm)

lemma stale_support_in: "e \<in> set (stale_support ix) \<Longrightarrow> e \<in> set (ix_evidence ix)"
proof -
  assume "e \<in> set (stale_support ix)"
  then have "e \<in> set (flat_pairs (callback_pairs ix ''FAILED'')) \<or> (\<exists>g\<in>set (mismatch_groups ix). e \<in> set (group_members g))
      \<or> e \<in> set (current ix Claim_CALLBACK_PROTOCOL_VERSION) \<or> e \<in> set (current ix Claim_PROTOCOL_FIELD_TYPE)"
    unfolding stale_support_def Let_def
    by (elim concat_guarded case_pair_guarded)
      (simp only: set_append set_simps set_filter Un_iff, blast dest: flat_pairs_filter)
  then show ?thesis using current_facts(1) by (auto dest: quality intro: quality_in)
qed

lemma rules_sound:
  assumes "distinct (map ev_evidence_id (ix_evidence ix))" and "r \<in> set (evaluate_rules gk ix)"
  shows "sound_rule ix r"
proof -
  note q = settled_quality [OF assms(1), of _ gk]
  have H1: "sound_rule ix (rule_H1 ix)"
    unfolding rule_H1_def by (rule sound_ruleI) (auto intro: quality)
  have H2: "sound_rule ix (rule_H2 gk ix)"
    unfolding rule_H2_def by (rule sound_ruleI) (auto intro: q request_fund_quality)
  have H3: "sound_rule ix (rule_H3 gk ix)"
    unfolding rule_H3_def by (rule sound_ruleI) (auto intro: q request_fund_quality quality_in)
  have H4: "sound_rule ix (rule_H4 gk ix)"
    unfolding rule_H4_def Let_def
    by (rule sound_ruleI) (auto intro: q request_fund_quality quality quality_in split: if_splits)
  have H5: "sound_rule ix (rule_H5 ix)"
    unfolding rule_H5_def by (rule sound_ruleI) (auto intro: quality simp: all_claims_def)
  have H6: "sound_rule ix (rule_H6 ix)"
    unfolding rule_H6_def Let_def
    by (rule sound_ruleI) (auto intro: quality quality_in split: if_splits)
  have S: "sound_rule ix (rule_schema_mismatch ix)"
    unfolding rule_schema_mismatch_def Let_def
    by (rule sound_ruleI)
      (auto intro: quality quality_in simp: callback_pairs_def split: if_splits)
  have T: "sound_rule ix (rule_stale_consumer ix)"
    unfolding rule_stale_consumer_def by (rule sound_ruleI) (auto intro: stale_support_in)
  have H7: "sound_rule ix (rule_H7 ix)"
    unfolding rule_H7_def Let_def by (rule sound_ruleI) (auto intro: quality quality_in split: if_splits)
  have H8: "sound_rule ix (rule_H8 ix)"
    unfolding rule_H8_def by (rule sound_ruleI) (auto intro: quality quality_in)
  show ?thesis
    using assms(2) H1 H2 H3 H4 H5 H6 S T H7 H8 by (auto simp: evaluate_rules_def)
qed

lemma rule_decision:
  assumes "sound_rule ix r" and "rr_status r = Hs_CONFIRMED \<or> rr_status r = Hs_ELIMINATED"
  shows "\<exists>x\<in>set (rr_relations r). decisive x"
    and "x \<in> set (rr_relations r) \<Longrightarrow> decisive x \<Longrightarrow> \<exists>e. ev_evidence_id e = er_evidence_id x \<and> decisive_quality ix e"
proof -
  obtain h s c e where r: "r = decide ix h s c e" and q: "\<forall>x\<in>set c \<union> set e. decisive_quality ix x"
    using assms(1) by (auto simp: sound_rule_def)
  show "\<exists>x\<in>set (rr_relations r). decisive x" using decide_decisive_exists assms(2) by (simp add: r)
  show "x \<in> set (rr_relations r) \<Longrightarrow> decisive x \<Longrightarrow> \<exists>e. ev_evidence_id e = er_evidence_id x \<and> decisive_quality ix e"
    using decide_relations [of x ix h s c e] q by (auto simp: r split: if_splits)
qed

lemma state_of_fields [simp]:
  "hs_hypothesis_id (state_of ix gaps r) = rr_hypothesis_id r" "hs_status (state_of ix gaps r) = rr_status r"
  by (simp_all add: state_of_def Let_def)

lemma state_decisive_refs:
  "set (hs_decisive_evidence_refs (state_of ix gaps r)) = er_evidence_id ` {x \<in> set (rr_relations r). decisive x}"
  by (auto simp: state_of_def Let_def decisive_def)

lemma graph_of_hypotheses:
  "hg_hypotheses (graph_of gk gf ix)
     = map (state_of ix (derive_gaps gk ix (evaluate_rules gk ix))) (evaluate_rules gk ix)"
  by (simp add: graph_of_def Let_def)

text \<open>
  C8. No hypothesis is decided on weak facts: a hypothesis is CONFIRMED or ELIMINATED only with
  decisive references, and every decisive reference is Evidence of the Case that is current,
  complete, from a primary source, and not the record of a failed lookup.
\<close>
theorem decisions_rest_on_quality:
  assumes "evaluate gk gf c es = Inr graph" and "s \<in> set (hg_hypotheses graph)"
    and "hs_status s = Hs_CONFIRMED \<or> hs_status s = Hs_ELIMINATED"
  shows "hs_decisive_evidence_refs s \<noteq> []
    \<and> (\<forall>i\<in>set (hs_decisive_evidence_refs s). \<exists>e\<in>set es. ev_evidence_id e = i
         \<and> ev_freshness e = Fresh_CURRENT \<and> ev_completeness e = Compl_COMPLETE
         \<and> ev_source_kind e = Src_PRIMARY \<and> ev_claim_type e \<noteq> Claim_SOURCE_LOOKUP_STATUS)"
proof -
  obtain ix where ix: "build_index c es = Inr ix" and g: "graph = graph_of gk gf ix"
    using assms(1) by (auto simp: evaluate_def Let_def split: if_splits)
  note ixe = build_index_evidence [OF ix]
  obtain r where r: "r \<in> set (evaluate_rules gk ix)"
    and s: "s = state_of ix (derive_gaps gk ix (evaluate_rules gk ix)) r"
    using assms(2) by (auto simp: g graph_of_hypotheses)
  have sound: "sound_rule ix r" using rules_sound [OF ixe(3) r] .
  have st: "rr_status r = Hs_CONFIRMED \<or> rr_status r = Hs_ELIMINATED" using assms(3) by (simp add: s)
  note D = rule_decision [OF sound st]
  have "set (hs_decisive_evidence_refs s) \<noteq> {}" using D(1) by (auto simp: s state_decisive_refs)
  then show ?thesis
    using D(2) ixe(2) by (fastforce simp: s state_decisive_refs decisive_quality_def)
qed

section \<open>The graph is well formed\<close>

lemma evaluate_rules_ids:
  "map rr_hypothesis_id (evaluate_rules gk ix) = map hd_hypothesis_id CATALOG"
  by (simp add: evaluate_rules_def CATALOG_def hypothesis_definition_of_def rule_H1_def rule_H2_def
      rule_H3_def rule_H4_def rule_H5_def rule_H6_def rule_schema_mismatch_def rule_stale_consumer_def
      rule_H7_def rule_H8_def Let_def)

lemma catalog_distinct: "distinct (map hd_hypothesis_id CATALOG)"
  by (simp add: CATALOG_def hypothesis_definition_of_def)

lemma find_state:
  assumes "distinct (map rr_hypothesis_id rs)" and "r \<in> set rs"
  shows "state_status (rr_hypothesis_id r) (map (state_of ix gaps) rs) = Some (rr_status r)"
proof -
  have "find (\<lambda>s. hs_hypothesis_id s = rr_hypothesis_id r) (map (state_of ix gaps) rs) = Some (state_of ix gaps r)"
    using assms by (induction rs) (auto simp: image_iff)
  then show ?thesis by (simp add: state_status_def)
qed

lemma schema_confirmed_parent:
  assumes "rr_status (rule_schema_mismatch ix) = Hs_CONFIRMED"
  shows "rr_status (rule_H6 ix) = Hs_CONFIRMED"
proof -
  have "callback_pairs ix ''FAILED'' \<noteq> []"
    using assms by (auto simp: rule_schema_mismatch_def Let_def)
  then have "flat_pairs (callback_pairs ix ''FAILED'') \<noteq> []"
    by (cases "callback_pairs ix ''FAILED''") (auto simp: flat_pairs_def)
  then show ?thesis by (simp add: rule_H6_def Let_def)
qed

lemma stale_not_confirmed: "rr_status (rule_stale_consumer ix) \<noteq> Hs_CONFIRMED"
  by (simp add: rule_stale_consumer_def)

lemma rule_statuses:
  fixes gk ix gaps
  defines "states \<equiv> map (state_of ix gaps) (evaluate_rules gk ix)"
  shows "state_status Hyp_H6 states = Some (rr_status (rule_H6 ix))"
    and "state_status Hyp_H6_SCHEMA_MISMATCH states = Some (rr_status (rule_schema_mismatch ix))"
    and "state_status Hyp_H6_STALE_CONSUMER_SCHEMA states = Some (rr_status (rule_stale_consumer ix))"
proof -
  have d: "distinct (map rr_hypothesis_id (evaluate_rules gk ix))"
    using catalog_distinct by (simp only: evaluate_rules_ids)
  have ids: "rr_hypothesis_id (rule_H6 ix) = Hyp_H6"
    "rr_hypothesis_id (rule_schema_mismatch ix) = Hyp_H6_SCHEMA_MISMATCH"
    "rr_hypothesis_id (rule_stale_consumer ix) = Hyp_H6_STALE_CONSUMER_SCHEMA"
    by (simp_all add: rule_H6_def rule_schema_mismatch_def rule_stale_consumer_def Let_def)
  have "rule_H6 ix \<in> set (evaluate_rules gk ix)" "rule_schema_mismatch ix \<in> set (evaluate_rules gk ix)"
    "rule_stale_consumer ix \<in> set (evaluate_rules gk ix)" by (simp_all add: evaluate_rules_def)
  from this [THEN find_state [OF d, of _ ix gaps]] show
    "state_status Hyp_H6 states = Some (rr_status (rule_H6 ix))"
    "state_status Hyp_H6_SCHEMA_MISMATCH states = Some (rr_status (rule_schema_mismatch ix))"
    "state_status Hyp_H6_STALE_CONSUMER_SCHEMA states = Some (rr_status (rule_stale_consumer ix))"
    by (simp_all add: states_def ids)
qed

lemma catalog_chains:
  "list_all (\<lambda>d. case hd_parent_hypothesis_id d of None \<Rightarrow> True
     | Some p \<Rightarrow> p = Hyp_H6 \<and> hd_hypothesis_id d \<in> {Hyp_H6_SCHEMA_MISMATCH, Hyp_H6_STALE_CONSUMER_SCHEMA}
         \<and> chain_ok CATALOG [hd_hypothesis_id d] (Some p)) CATALOG"
  by code_simp

lemma graph_of_valid: "graph_valid (graph_of gk gf ix)"
proof -
  let ?gaps = "derive_gaps gk ix (evaluate_rules gk ix)"
  let ?states = "map (state_of ix ?gaps) (evaluate_rules gk ix)"
  have sids: "map hs_hypothesis_id ?states = map hd_hypothesis_id CATALOG"
    using evaluate_rules_ids [of gk ix] by (simp add: comp_def)
  note st = rule_statuses [of ix ?gaps gk]
  have child: "\<not> (state_status h ?states = Some Hs_CONFIRMED \<and> state_status Hyp_H6 ?states \<noteq> Some Hs_CONFIRMED)"
    if "h \<in> {Hyp_H6_SCHEMA_MISMATCH, Hyp_H6_STALE_CONSUMER_SCHEMA}" for h
    using that st schema_confirmed_parent [of ix] stale_not_confirmed [of ix] by auto
  have mem: "Hyp_H6 \<in> set (map hd_hypothesis_id CATALOG)"
    by (simp add: CATALOG_def hypothesis_definition_of_def)
  have parents: "case hd_parent_hypothesis_id d of None \<Rightarrow> True
      | Some p \<Rightarrow> p \<in> set (map hd_hypothesis_id CATALOG)
          \<and> \<not> (state_status (hd_hypothesis_id d) ?states = Some Hs_CONFIRMED
               \<and> state_status p ?states \<noteq> Some Hs_CONFIRMED)
          \<and> chain_ok CATALOG [hd_hypothesis_id d] (Some p)" if "d \<in> set CATALOG" for d
  proof (cases "hd_parent_hypothesis_id d")
    case (Some p)
    then have "p = Hyp_H6" "hd_hypothesis_id d \<in> {Hyp_H6_SCHEMA_MISMATCH, Hyp_H6_STALE_CONSUMER_SCHEMA}"
      "chain_ok CATALOG [hd_hypothesis_id d] (Some p)"
      using catalog_chains that by (auto simp: list_all_iff simp del: chain_ok.simps)
    then show ?thesis using Some child mem by (simp del: chain_ok.simps)
  qed simp
  have defs: "hg_definitions (graph_of gk gf ix) = CATALOG" by (simp add: graph_of_def Let_def)
  show ?thesis
    using parents catalog_distinct
    unfolding graph_valid_def graph_of_hypotheses Let_def defs sids list_all_iff by blast
qed

text \<open>
  C13. The graph invariants hold by construction: for every Case and every Evidence the validator
  accepts the graph, so an evaluation fails only when the index rejects its input; a confirmed
  child always has a confirmed parent, and the hypotheses whose confirmation is deferred are never
  confirmed.
\<close>
theorem evaluate_invariants:
  "evaluate gk gf c es = (case build_index c es of Inl e \<Rightarrow> Inl e | Inr ix \<Rightarrow> Inr (graph_of gk gf ix))
   \<and> set (hg_confirmed (graph_of gk gf ix)) \<subseteq> {Hyp_H1, Hyp_H4, Hyp_H6, Hyp_H6_SCHEMA_MISMATCH, Hyp_H7, Hyp_H8}
   \<and> (if Hyp_H6_SCHEMA_MISMATCH \<in> set (hg_confirmed (graph_of gk gf ix))
      then Hyp_H6 \<in> set (hg_confirmed (graph_of gk gf ix)) else True)"
proof -
  have "evaluate gk gf c es = (case build_index c es of Inl e \<Rightarrow> Inl e | Inr ix \<Rightarrow> Inr (graph_of gk gf ix))"
    by (simp add: evaluate_def bindE_def graph_of_valid Let_def split: sum.split)
  moreover have "hg_confirmed (graph_of gk gf ix)
      = map rr_hypothesis_id (filter (\<lambda>r. rr_status r = Hs_CONFIRMED) (evaluate_rules gk ix))"
    by (simp add: graph_of_def Let_def filter_map comp_def)
  then have conf: "h \<in> set (hg_confirmed (graph_of gk gf ix))
      \<longleftrightarrow> (\<exists>r\<in>set (evaluate_rules gk ix). rr_hypothesis_id r = h \<and> rr_status r = Hs_CONFIRMED)" for h
    by auto
  have "h \<notin> {Hyp_H2, Hyp_H3, Hyp_H5, Hyp_H6_STALE_CONSUMER_SCHEMA}"
    if "h \<in> set (hg_confirmed (graph_of gk gf ix))" for h
    using that stale_not_confirmed [of ix]
    by (auto simp: conf evaluate_rules_def rule_H1_def rule_H2_def rule_H3_def rule_H4_def rule_H5_def
        rule_H6_def rule_schema_mismatch_def rule_stale_consumer_def rule_H7_def rule_H8_def Let_def)
  then have "set (hg_confirmed (graph_of gk gf ix))
      \<subseteq> {Hyp_H1, Hyp_H4, Hyp_H6, Hyp_H6_SCHEMA_MISMATCH, Hyp_H7, Hyp_H8}"
    using hypothesis_id.exhaust by blast
  moreover have "Hyp_H6 \<in> set (hg_confirmed (graph_of gk gf ix))"
    if schema: "Hyp_H6_SCHEMA_MISMATCH \<in> set (hg_confirmed (graph_of gk gf ix))"
  proof -
    have "rr_status (rule_schema_mismatch ix) = Hs_CONFIRMED"
      using schema by (auto simp: conf evaluate_rules_def rule_H1_def rule_H2_def rule_H3_def rule_H4_def
          rule_H5_def rule_H6_def rule_stale_consumer_def rule_H7_def rule_H8_def Let_def)
    then have "rr_status (rule_H6 ix) = Hs_CONFIRMED" by (rule schema_confirmed_parent)
    moreover have "rr_hypothesis_id (rule_H6 ix) = Hyp_H6" by (simp add: rule_H6_def Let_def)
    ultimately show ?thesis by (auto simp: conf evaluate_rules_def)
  qed
  then have "if Hyp_H6_SCHEMA_MISMATCH \<in> set (hg_confirmed (graph_of gk gf ix))
      then Hyp_H6 \<in> set (hg_confirmed (graph_of gk gf ix)) else True" by simp
  ultimately show ?thesis by (intro conjI)
qed

section \<open>Gaps\<close>

lemma gap_of_status: "eg_status (gap_of ix n hs cs w p) = Gap_SATISFIED \<longleftrightarrow> eg_evidence_refs (gap_of ix n hs cs w p) \<noteq> []"
  by (simp add: gap_of_def refs_def)

definition gap_ok :: "evidence_index \<Rightarrow> evidence_gap \<Rightarrow> bool" where
  "gap_ok ix g = ((eg_status g = Gap_SATISFIED \<longleftrightarrow> eg_evidence_refs g \<noteq> []) \<and> eg_status g \<noteq> Gap_UNAVAILABLE
     \<and> set (eg_evidence_refs g) \<subseteq> ev_evidence_id ` set (ix_evidence ix))"

lemma gap_of_ok: "set w \<subseteq> set (ix_evidence ix) \<Longrightarrow> gap_ok ix (gap_of ix n hs cs w p)"
  by (auto simp: gap_ok_def gap_of_def refs_def)

lemma in_index:
  "e \<in> set (current ix claim) \<Longrightarrow> e \<in> set (ix_evidence ix)"
  "e \<in> set (facts ix claim v tools) \<Longrightarrow> e \<in> set (ix_evidence ix)"
  "e \<in> set (payment_facts ix s) \<Longrightarrow> e \<in> set (ix_evidence ix)"
  "e \<in> set (gateway_facts ix) \<Longrightarrow> e \<in> set (ix_evidence ix)"
  "e \<in> set (message_facts ix s) \<Longrightarrow> e \<in> set (ix_evidence ix)"
  "e \<in> set (flat_pairs (callback_pairs ix s)) \<Longrightarrow> e \<in> set (ix_evidence ix)"
  "e \<in> set (settled_witness gk ix) \<Longrightarrow> e \<in> set (ix_evidence ix)"
proof -
  have f: "e \<in> set (facts ix claim v tools) \<Longrightarrow> e \<in> set (ix_evidence ix)" for claim v tools
    using agreed_subset current_facts(1) by (fastforce simp: facts_def)
  show "e \<in> set (current ix claim) \<Longrightarrow> e \<in> set (ix_evidence ix)" by (rule current_facts(1))
  show "e \<in> set (facts ix claim v tools) \<Longrightarrow> e \<in> set (ix_evidence ix)" by (rule f)
  show "e \<in> set (payment_facts ix s) \<Longrightarrow> e \<in> set (ix_evidence ix)"
    using for_request_subset f by (fastforce simp: payment_facts_def)
  show "e \<in> set (gateway_facts ix) \<Longrightarrow> e \<in> set (ix_evidence ix)"
    "e \<in> set (message_facts ix s) \<Longrightarrow> e \<in> set (ix_evidence ix)"
    "e \<in> set (flat_pairs (callback_pairs ix s)) \<Longrightarrow> e \<in> set (ix_evidence ix)"
    "e \<in> set (settled_witness gk ix) \<Longrightarrow> e \<in> set (ix_evidence ix)"
    by (auto simp: gateway_facts_def message_facts_def flat_pairs_def callback_pairs_def settled_witness_def
        Let_def dest: f split: if_splits)
qed

lemma for_request_in: "e \<in> set (for_request ix es) \<Longrightarrow> e \<in> set es"
  using for_request_subset by blast

lemma request_gaps_ok: "g \<in> set (request_gaps gk ix) \<Longrightarrow> gap_ok ix g"
  unfolding request_gaps_def Let_def
  by (auto intro!: gap_of_ok dest!: for_request_in dest: in_index split: if_splits option.splits)

lemma callback_gaps_ok:
  assumes "g \<in> set (callback_gaps gk ix results)"
  shows "gap_ok ix g"
proof -
  let ?m = "concat (map group_members (mismatch_groups ix))"
  have m: "set ?m \<subseteq> set (ix_evidence ix)" by (auto intro: quality_in group_quality)
  have c: "set (flat_pairs (callback_pairs ix ''FAILED'') @ flat_pairs (callback_pairs ix ''CONSUMED''))
      \<subseteq> set (ix_evidence ix)" by (auto dest: in_index)
  have w: "set (gateway_facts ix) \<subseteq> set (ix_evidence ix)" by (auto dest: in_index)
  show ?thesis
    using assms gap_of_ok [OF m] gap_of_ok [OF c] gap_of_ok [OF w] gap_of_ok [of "[]" ix]
    unfolding callback_gaps_def Let_def by (auto simp del: set_concat set_map set_append split: if_splits)
qed

lemma derive_gaps_ok:
  assumes "g \<in> set (derive_gaps gk ix results)"
  shows "gap_ok ix g"
proof -
  have flt: "set (filter P (ix_evidence ix)) \<subseteq> set (ix_evidence ix)" for P by auto
  have s: "set (settled_witness gk ix) \<subseteq> set (ix_evidence ix)" by (auto dest: in_index)
  have p: "set (concat (map (\<lambda>v. facts ix Claim_PAYMENT_FINALITY (VStr v) [Tool_PAYMENT])
      [''SETTLED'', ''NOT_EXECUTED''])) \<subseteq> set (ix_evidence ix)" by (auto dest: in_index)
  show ?thesis
    using assms request_gaps_ok callback_gaps_ok gap_of_ok [OF s] gap_of_ok [OF p] gap_of_ok [OF flt]
      gap_of_ok [of "[]" ix]
    unfolding derive_gaps_def set_sort set_append
    by (auto simp del: set_filter concat.simps list.map(2) split: if_splits)
qed

text \<open>
  C20. Gaps and references are honest: a gap is SATISFIED exactly when it cites Evidence, every
  reference of a gap, and every reference of a hypothesis state, is Evidence of the Case, and a
  hypothesis that is decided asks for nothing.
\<close>
theorem gaps_and_references:
  assumes "evaluate gk gf c es = Inr graph"
  shows "(\<forall>g\<in>set (hg_gaps graph). (eg_status g = Gap_SATISFIED \<longleftrightarrow> eg_evidence_refs g \<noteq> [])
      \<and> set (eg_evidence_refs g) \<subseteq> ev_evidence_id ` set es)
    \<and> (\<forall>s\<in>set (hg_hypotheses graph).
        set (hs_supporting_evidence_refs s @ hs_contradicting_evidence_refs s @ hs_decisive_evidence_refs s)
          \<subseteq> ev_evidence_id ` set es
        \<and> (hs_status s \<notin> {Hs_CONFIRMED, Hs_ELIMINATED} \<or> hs_missing_evidence s = []))"
proof -
  obtain ix where ix: "build_index c es = Inr ix" and g: "graph = graph_of gk gf ix"
    using assms by (auto simp: evaluate_def Let_def split: if_splits)
  note ixe = build_index_evidence [OF ix]
  have "\<exists>e\<in>set es. er_evidence_id x = ev_evidence_id e"
    if r: "r \<in> set (evaluate_rules gk ix)" and x: "x \<in> set (rr_relations r)" for r x
  proof -
    obtain h s cc ee where "r = decide ix h s cc ee" "\<forall>x\<in>set cc \<union> set ee. decisive_quality ix x"
      "set s \<subseteq> set (ix_evidence ix)" using rules_sound [OF ixe(3) r] by (auto simp: sound_rule_def)
    then show ?thesis
      using decide_relations [of x ix h s cc ee] x ixe(2) by (fastforce simp: decisive_quality_def split: if_splits)
  qed
  then have "set (hs_supporting_evidence_refs (state_of ix gaps r) @ hs_contradicting_evidence_refs (state_of ix gaps r)
      @ hs_decisive_evidence_refs (state_of ix gaps r)) \<subseteq> ev_evidence_id ` set es"
    if "r \<in> set (evaluate_rules gk ix)" for r gaps
    using that by (fastforce simp: state_of_def Let_def)
  moreover have "rr_status r \<in> {Hs_CONFIRMED, Hs_ELIMINATED} \<Longrightarrow> hs_missing_evidence (state_of ix gaps r) = []" for r gaps
    by (auto simp: state_of_def Let_def)
  moreover have "\<forall>g\<in>set (hg_gaps graph). gap_ok ix g"
    using derive_gaps_ok by (auto simp: g graph_of_def Let_def)
  ultimately show ?thesis
    using ixe(2) by (auto simp: g graph_of_hypotheses gap_ok_def)
qed

text \<open>The witnesses evaluate the engine on a Trace that never sent the request.\<close>

definition unsent_index :: evidence_index where
  "unsent_index = \<lparr> ix_case = sample_case, ix_evidence =
     [sample_fact ''a'' Tool_TRACE Claim_REQUEST_SENT Subj_ORDER ''JD-1'' (VBool False)] \<rparr>"

definition unsent_graph :: hypothesis_graph_view where
  "unsent_graph = graph_of (\<lambda>_. []) (\<lambda>_ _. ''fp'') unsent_index"

lemma unsent_evaluate:
  "evaluate (\<lambda>_. []) (\<lambda>_ _. ''fp'') sample_case (ix_evidence unsent_index) = Inr unsent_graph"
proof -
  have "build_index sample_case (ix_evidence unsent_index) = Inr unsent_index" by code_simp
  then show ?thesis by (simp add: evaluate_def graph_of_valid unsent_graph_def Let_def)
qed

theorem decisions_rest_on_quality_witness:
  "\<exists>s\<in>set (hg_hypotheses unsent_graph). hs_hypothesis_id s = Hyp_H1 \<and> hs_status s = Hs_CONFIRMED
     \<and> hs_decisive_evidence_refs s \<noteq> []"
proof -
  have "facts unsent_index Claim_REQUEST_SENT (VBool False) [Tool_TRACE] \<noteq> []
      \<and> facts unsent_index Claim_REQUEST_SENT (VBool True) [Tool_TRACE] = []" by code_simp
  then have h1: "rr_status (rule_H1 unsent_index) = Hs_CONFIRMED" by (simp add: rule_H1_def)
  let ?s = "state_of unsent_index (derive_gaps (\<lambda>_. []) unsent_index (evaluate_rules (\<lambda>_. []) unsent_index))
    (rule_H1 unsent_index)"
  have s: "?s \<in> set (hg_hypotheses unsent_graph)"
    unfolding unsent_graph_def graph_of_hypotheses by (simp add: evaluate_rules_def)
  have "hs_decisive_evidence_refs ?s \<noteq> []"
    using decisions_rest_on_quality [OF unsent_evaluate s] h1 by simp
  with s h1 show ?thesis by (intro bexI [of _ ?s]) (simp_all add: rule_H1_def)
qed

theorem gaps_and_references_witness:
  "hg_gaps unsent_graph \<noteq> [] \<and> list_all (\<lambda>g.
     (eg_status g = Gap_SATISFIED \<longleftrightarrow> eg_evidence_refs g \<noteq> []) \<and> set (eg_evidence_refs g) \<subseteq> {''a''})
     (hg_gaps unsent_graph)"
proof -
  have "hg_gaps unsent_graph \<noteq> []"
  proof -
    have "set (derive_gaps gk ix rs) \<noteq> {}" for gk ix rs by (simp add: derive_gaps_def)
    then have "derive_gaps gk ix rs \<noteq> []" for gk ix rs by fastforce
    then show ?thesis by (simp add: unsent_graph_def graph_of_def Let_def)
  qed
  moreover have "ev_evidence_id ` set (ix_evidence unsent_index) = {''a''}"
    by (simp add: unsent_index_def sample_fact_def)
  ultimately show ?thesis using gaps_and_references [OF unsent_evaluate] by (simp add: list_all_iff)
qed

end
