(* ===== verification/LedgerModel.thy ===== *)
theory LedgerModel
  imports CaseModel
begin

text \<open>
  The models of the side-effect ledger: remediation actions and intents (\<open>remediation/models.py\<close>),
  approvals, capabilities, ledger entries and receipts (\<open>authorization/models.py\<close>), domain commands
  (\<open>authorization/commands.py\<close>), and lookups, proofs, attempts and policies of the recovery
  (\<open>recovery/models.py\<close>). Fields that admit a single literal (\<open>RemediationIntent.status\<close>,
  \<open>ExecutionCapability.max_effects\<close>) carry no information and are left out of the records; the JSON
  form of an intent still has its \<open>status\<close>. \<open>digest\<close>, the SHA-256 of canonical JSON, is a parameter
  everywhere.
\<close>

section \<open>Remediation actions and intents\<close>

definition REMEDIATION_POLICY_VERSION :: string where
  "REMEDIATION_POLICY_VERSION = ''2''"

definition REMEDIATION_CATALOG_VERSION :: string where
  "REMEDIATION_CATALOG_VERSION = ''2''"

definition AUTHORIZATION_POLICY_VERSION :: string where
  "AUTHORIZATION_POLICY_VERSION = ''1''"

datatype remediation_action_type =
    Act_NO_REMEDIATION | Act_REPLAY_CALLBACK_CONSUMPTION | Act_REDELIVER_ASSET_NOTIFICATION
  | Act_CREATE_RECONCILIATION_TASK | Act_REQUEST_OPERATOR_REVIEW

primrec remediation_action_type_value :: "remediation_action_type \<Rightarrow> string" where
  "remediation_action_type_value Act_NO_REMEDIATION = ''NO_REMEDIATION''"
| "remediation_action_type_value Act_REPLAY_CALLBACK_CONSUMPTION = ''REPLAY_CALLBACK_CONSUMPTION''"
| "remediation_action_type_value Act_REDELIVER_ASSET_NOTIFICATION = ''REDELIVER_ASSET_NOTIFICATION''"
| "remediation_action_type_value Act_CREATE_RECONCILIATION_TASK = ''CREATE_RECONCILIATION_TASK''"
| "remediation_action_type_value Act_REQUEST_OPERATOR_REVIEW = ''REQUEST_OPERATOR_REVIEW''"

datatype action_risk_level =
    Risk_L0_READ_ONLY | Risk_L1_ADMINISTRATIVE | Risk_L2_SINGLE_ORDER_SIDE_EFFECT
  | Risk_L3_MONEY_MOVEMENT | Risk_L4_BULK_OR_SYSTEMIC

primrec action_risk_level_value :: "action_risk_level \<Rightarrow> string" where
  "action_risk_level_value Risk_L0_READ_ONLY = ''L0_READ_ONLY''"
| "action_risk_level_value Risk_L1_ADMINISTRATIVE = ''L1_ADMINISTRATIVE''"
| "action_risk_level_value Risk_L2_SINGLE_ORDER_SIDE_EFFECT = ''L2_SINGLE_ORDER_SIDE_EFFECT''"
| "action_risk_level_value Risk_L3_MONEY_MOVEMENT = ''L3_MONEY_MOVEMENT''"
| "action_risk_level_value Risk_L4_BULK_OR_SYSTEMIC = ''L4_BULK_OR_SYSTEMIC''"

record remediation_target =
  rtg_case_id :: string
  rtg_tenant_id :: string
  rtg_internal_order_id :: string
  rtg_callback_event_ref :: "string option"
  rtg_message_ref :: "string option"
  rtg_delivery_ref :: "string option"

record remediation_intent =
  ri_intent_id :: string
  ri_case_id :: string
  ri_tenant_id :: string
  ri_internal_order_id :: string
  ri_action_type :: remediation_action_type
  ri_risk_level :: action_risk_level
  ri_target :: remediation_target
  ri_supporting_evidence_refs :: "string list"
  ri_snapshot_id :: string
  ri_evidence_hash :: string
  ri_catalog_version :: string
  ri_policy_version :: string
  ri_preflight_fingerprint :: string
  ri_requires_approval :: bool
  ri_requires_capability :: bool

section \<open>Approvals, capabilities and the ledger\<close>

datatype approval_status =
    Apv_PENDING | Apv_APPROVED | Apv_REJECTED | Apv_EXPIRED | Apv_REVOKED

primrec approval_status_value :: "approval_status \<Rightarrow> string" where
  "approval_status_value Apv_PENDING = ''PENDING''"
| "approval_status_value Apv_APPROVED = ''APPROVED''"
| "approval_status_value Apv_REJECTED = ''REJECTED''"
| "approval_status_value Apv_EXPIRED = ''EXPIRED''"
| "approval_status_value Apv_REVOKED = ''REVOKED''"

datatype approval_reason =
    Apr_REQUESTED | Apr_OPERATOR_APPROVED | Apr_OPERATOR_REJECTED | Apr_OPERATOR_REVOKED

primrec approval_reason_value :: "approval_reason \<Rightarrow> string" where
  "approval_reason_value Apr_REQUESTED = ''REQUESTED''"
| "approval_reason_value Apr_OPERATOR_APPROVED = ''OPERATOR_APPROVED''"
| "approval_reason_value Apr_OPERATOR_REJECTED = ''OPERATOR_REJECTED''"
| "approval_reason_value Apr_OPERATOR_REVOKED = ''OPERATOR_REVOKED''"

record approval_request =
  ar_approval_id :: string
  ar_intent :: remediation_intent
  ar_status :: approval_status
  ar_requested_at :: time
  ar_decided_at :: "time option"
  ar_expires_at :: time
  ar_actor_ref :: "string option"
  ar_reason_code :: approval_reason

record approval_decision =
  adn_approval_id :: string
  adn_decision :: approval_status
  adn_actor_ref :: string

record execution_capability =
  xc_capability_id :: string
  xc_intent_id :: string
  xc_tenant_id :: string
  xc_case_id :: string
  xc_internal_order_id :: string
  xc_action_type :: remediation_action_type
  xc_target_hash :: string
  xc_payload_hash :: string
  xc_snapshot_id :: string
  xc_evidence_hash :: string
  xc_preflight_fingerprint :: string
  xc_approval_id :: "string option"
  xc_policy_version :: string
  xc_catalog_version :: string
  xc_authorization_policy_version :: string
  xc_expected_case_revision :: time
  xc_issued_at :: time
  xc_expires_at :: time

record signed_execution_capability =
  sxc_payload :: execution_capability
  sxc_signature :: string

datatype effect_status =
    Eff_PREPARED | Eff_DISPATCHED | Eff_ACCEPTED | Eff_APPLIED | Eff_VERIFIED | Eff_UNKNOWN
  | Eff_REJECTED | Eff_FAILED_CONFIRMED | Eff_NOOP

primrec effect_status_value :: "effect_status \<Rightarrow> string" where
  "effect_status_value Eff_PREPARED = ''PREPARED''"
| "effect_status_value Eff_DISPATCHED = ''DISPATCHED''"
| "effect_status_value Eff_ACCEPTED = ''ACCEPTED''"
| "effect_status_value Eff_APPLIED = ''APPLIED''"
| "effect_status_value Eff_VERIFIED = ''VERIFIED''"
| "effect_status_value Eff_UNKNOWN = ''UNKNOWN''"
| "effect_status_value Eff_REJECTED = ''REJECTED''"
| "effect_status_value Eff_FAILED_CONFIRMED = ''FAILED_CONFIRMED''"
| "effect_status_value Eff_NOOP = ''NOOP''"

datatype receipt_outcome =
    Rcp_ACCEPTED | Rcp_APPLIED | Rcp_FAILED_CONFIRMED

primrec receipt_outcome_value :: "receipt_outcome \<Rightarrow> string" where
  "receipt_outcome_value Rcp_ACCEPTED = ''ACCEPTED''"
| "receipt_outcome_value Rcp_APPLIED = ''APPLIED''"
| "receipt_outcome_value Rcp_FAILED_CONFIRMED = ''FAILED_CONFIRMED''"

datatype failure_code =
    Fc_TRANSPORT_UNCERTAIN | Fc_INVALID_RECEIPT | Fc_REMOTE_REJECTED

primrec failure_code_value :: "failure_code \<Rightarrow> string" where
  "failure_code_value Fc_TRANSPORT_UNCERTAIN = ''TRANSPORT_UNCERTAIN''"
| "failure_code_value Fc_INVALID_RECEIPT = ''INVALID_RECEIPT''"
| "failure_code_value Fc_REMOTE_REJECTED = ''REMOTE_REJECTED''"

record side_effect_receipt =
  srx_correlation_id :: string
  srx_outcome :: receipt_outcome
  srx_external_effect_ref :: "string option"
  srx_observed_at :: time
  srx_no_effect_confirmed :: bool

record side_effect_ledger =
  led_effect_id :: string
  led_idempotency_key :: string
  led_intent_id :: string
  led_capability_id :: string
  led_approval_id :: "string option"
  led_tenant_id :: string
  led_case_id :: string
  led_internal_order_id :: string
  led_action_type :: remediation_action_type
  led_target_hash :: string
  led_payload_hash :: string
  led_snapshot_id :: string
  led_evidence_hash :: string
  led_prepared_case_revision :: time
  led_status :: effect_status
  led_attempt_count :: int
  led_created_at :: time
  led_updated_at :: time
  led_dispatch_correlation_id :: string
  led_external_effect_ref :: "string option"
  led_failure_code :: "failure_code option"

record side_effect_execution_result =
  ser_ledger :: side_effect_ledger
  ser_executed_now :: bool
  ser_idempotent_replay :: bool
  ser_authorization_status :: authorization_code

datatype audit_event =
    Aue_APPROVAL_REQUESTED | Aue_APPROVAL_DECIDED | Aue_CAPABILITY_ISSUED | Aue_EFFECT_PREPARED
  | Aue_EFFECT_TRANSITION

primrec audit_event_value :: "audit_event \<Rightarrow> string" where
  "audit_event_value Aue_APPROVAL_REQUESTED = ''APPROVAL_REQUESTED''"
| "audit_event_value Aue_APPROVAL_DECIDED = ''APPROVAL_DECIDED''"
| "audit_event_value Aue_CAPABILITY_ISSUED = ''CAPABILITY_ISSUED''"
| "audit_event_value Aue_EFFECT_PREPARED = ''EFFECT_PREPARED''"
| "audit_event_value Aue_EFFECT_TRANSITION = ''EFFECT_TRANSITION''"

record authorization_audit_record =
  aud_audit_id :: string
  aud_event :: audit_event
  aud_tenant_id :: string
  aud_case_id :: string
  aud_intent_id :: string
  aud_approval_id :: "string option"
  aud_capability_id :: "string option"
  aud_effect_id :: "string option"
  aud_correlation_id :: "string option"
  aud_effect_status :: "effect_status option"
  aud_actor_ref :: "string option"
  aud_recorded_at :: time

text \<open>\<open>SideEffectReceipt.confirmed_failure_requires_no_effect\<close>.\<close>

definition side_effect_receipt_valid :: "side_effect_receipt \<Rightarrow> bool" where
  "side_effect_receipt_valid r =
     (srx_no_effect_confirmed r \<longleftrightarrow> srx_outcome r = Rcp_FAILED_CONFIRMED)"

text \<open>\<open>EffectStatus(receipt.outcome.value)\<close>: the three outcomes are values of the effect status.\<close>

primrec outcome_status :: "receipt_outcome \<Rightarrow> effect_status" where
  "outcome_status Rcp_ACCEPTED = Eff_ACCEPTED"
| "outcome_status Rcp_APPLIED = Eff_APPLIED"
| "outcome_status Rcp_FAILED_CONFIRMED = Eff_FAILED_CONFIRMED"

lemma outcome_status_value: "effect_status_value (outcome_status r) = receipt_outcome_value r"
  by (cases r) simp_all

section \<open>Domain commands\<close>

record command_scope =
  cmd_tenant_id :: string
  cmd_case_id :: string
  cmd_internal_order_id :: string

datatype domain_command =
    ReplayCallbackCommand command_scope string string
  | RedeliverAssetNotificationCommand command_scope string
  | CreateReconciliationTaskCommand command_scope
  | RequestOperatorReviewCommand command_scope

fun command_strings :: "domain_command \<Rightarrow> string list" where
  "command_strings (ReplayCallbackCommand s m c) =
     [cmd_tenant_id s, cmd_case_id s, cmd_internal_order_id s, m, c]"
| "command_strings (RedeliverAssetNotificationCommand s d) =
     [cmd_tenant_id s, cmd_case_id s, cmd_internal_order_id s, d]"
| "command_strings (CreateReconciliationTaskCommand s) =
     [cmd_tenant_id s, cmd_case_id s, cmd_internal_order_id s]"
| "command_strings (RequestOperatorReviewCommand s) =
     [cmd_tenant_id s, cmd_case_id s, cmd_internal_order_id s]"

text \<open>\<open>Command.no_alias\<close>: a model alias is not a command address.\<close>

definition command_valid :: "domain_command \<Rightarrow> bool" where
  "command_valid c = list_all (\<lambda>s. take 7 s \<noteq> ''EXTREF-'') (command_strings c)"

fun command_action :: "domain_command \<Rightarrow> remediation_action_type" where
  "command_action (ReplayCallbackCommand _ _ _) = Act_REPLAY_CALLBACK_CONSUMPTION"
| "command_action (RedeliverAssetNotificationCommand _ _) = Act_REDELIVER_ASSET_NOTIFICATION"
| "command_action (CreateReconciliationTaskCommand _) = Act_CREATE_RECONCILIATION_TASK"
| "command_action (RequestOperatorReviewCommand _) = Act_REQUEST_OPERATOR_REVIEW"

fun command_scope_of :: "domain_command \<Rightarrow> command_scope" where
  "command_scope_of (ReplayCallbackCommand s _ _) = s"
| "command_scope_of (RedeliverAssetNotificationCommand s _) = s"
| "command_scope_of (CreateReconciliationTaskCommand s) = s"
| "command_scope_of (RequestOperatorReviewCommand s) = s"

section \<open>Recovery\<close>

datatype lookup_status =
    Lk_FOUND_APPLIED | Lk_FOUND_ACCEPTED | Lk_FOUND_FAILED_NO_EFFECT | Lk_NOT_FOUND
  | Lk_INDETERMINATE

primrec lookup_status_value :: "lookup_status \<Rightarrow> string" where
  "lookup_status_value Lk_FOUND_APPLIED = ''FOUND_APPLIED''"
| "lookup_status_value Lk_FOUND_ACCEPTED = ''FOUND_ACCEPTED''"
| "lookup_status_value Lk_FOUND_FAILED_NO_EFFECT = ''FOUND_FAILED_NO_EFFECT''"
| "lookup_status_value Lk_NOT_FOUND = ''NOT_FOUND''"
| "lookup_status_value Lk_INDETERMINATE = ''INDETERMINATE''"

record recovery_capability =
  rcap_resolver_id :: string
  rcap_contract_version :: string
  rcap_supports_lookup :: bool
  rcap_not_found_proves_no_effect :: bool
  rcap_lookup_freshness_sla_seconds :: int
  rcap_supports_external_effect_ref :: bool

record effect_identity =
  eid_effect_id :: string
  eid_target_hash :: string
  eid_payload_hash :: string
  eid_command :: domain_command

record side_effect_lookup_result =
  lkr_correlation_id :: string
  lkr_command_identity_hash :: string
  lkr_resolver_id :: string
  lkr_lookup_status :: lookup_status
  lkr_external_effect_ref :: "string option"
  lkr_observed_at :: time
  lkr_no_effect_confirmed :: bool
  lkr_remote_status_reference :: "string option"

datatype recovery_outcome =
    Ro_RECOVERED_APPLIED | Ro_RECOVERED_ACCEPTED | Ro_RECOVERED_FAILED_CONFIRMED
  | Ro_STILL_UNKNOWN | Ro_RESUMED_PREPARED | Ro_BLOCKED_PREPARED | Ro_NOTHING_TO_DO
  | Ro_ESCALATION_REQUIRED | Ro_BUSY_OR_NOT_DUE

primrec recovery_outcome_value :: "recovery_outcome \<Rightarrow> string" where
  "recovery_outcome_value Ro_RECOVERED_APPLIED = ''RECOVERED_APPLIED''"
| "recovery_outcome_value Ro_RECOVERED_ACCEPTED = ''RECOVERED_ACCEPTED''"
| "recovery_outcome_value Ro_RECOVERED_FAILED_CONFIRMED = ''RECOVERED_FAILED_CONFIRMED''"
| "recovery_outcome_value Ro_STILL_UNKNOWN = ''STILL_UNKNOWN''"
| "recovery_outcome_value Ro_RESUMED_PREPARED = ''RESUMED_PREPARED''"
| "recovery_outcome_value Ro_BLOCKED_PREPARED = ''BLOCKED_PREPARED''"
| "recovery_outcome_value Ro_NOTHING_TO_DO = ''NOTHING_TO_DO''"
| "recovery_outcome_value Ro_ESCALATION_REQUIRED = ''ESCALATION_REQUIRED''"
| "recovery_outcome_value Ro_BUSY_OR_NOT_DUE = ''BUSY_OR_NOT_DUE''"

datatype dispatch_recovery_status =
    Dr_OBSERVATION_RECOVERED | Dr_OBSERVATION_ALREADY_PUBLISHED | Dr_OBSERVATION_NOT_FOUND
  | Dr_PROVENANCE_INVALID | Dr_AMBIGUOUS_OBSERVATION

primrec dispatch_recovery_status_value :: "dispatch_recovery_status \<Rightarrow> string" where
  "dispatch_recovery_status_value Dr_OBSERVATION_RECOVERED = ''OBSERVATION_RECOVERED''"
| "dispatch_recovery_status_value Dr_OBSERVATION_ALREADY_PUBLISHED = ''OBSERVATION_ALREADY_PUBLISHED''"
| "dispatch_recovery_status_value Dr_OBSERVATION_NOT_FOUND = ''OBSERVATION_NOT_FOUND''"
| "dispatch_recovery_status_value Dr_PROVENANCE_INVALID = ''PROVENANCE_INVALID''"
| "dispatch_recovery_status_value Dr_AMBIGUOUS_OBSERVATION = ''AMBIGUOUS_OBSERVATION''"

datatype recovery_subject =
    Rs_READ_DISPATCH | Rs_SIDE_EFFECT

primrec recovery_subject_value :: "recovery_subject \<Rightarrow> string" where
  "recovery_subject_value Rs_READ_DISPATCH = ''READ_DISPATCH''"
| "recovery_subject_value Rs_SIDE_EFFECT = ''SIDE_EFFECT''"

record recovery_result =
  rres_recovery_id :: string
  rres_subject_type :: recovery_subject
  rres_subject_id :: string
  rres_before_status :: "(effect_status + dispatch_recovery_status) option"
  rres_after_status :: "effect_status + dispatch_recovery_status"
  rres_action_taken :: "recovery_outcome + dispatch_recovery_status"
  rres_proof_ref :: "string option"
  rres_recovered_evidence_refs :: "string list"
  rres_requires_escalation :: bool
  rres_failure_code :: "recovery_failure option"

record recovery_proof =
  rpf_effect_id :: string
  rpf_correlation_id :: string
  rpf_resolver_id :: string
  rpf_lookup_status :: lookup_status
  rpf_external_effect_ref :: "string option"
  rpf_observed_at :: time
  rpf_contract_version :: string
  rpf_command_identity_hash :: string
  rpf_result_hash :: string

record effect_recovery_attempt =
  era_recovery_id :: string
  era_worker_id :: string
  era_effect_id :: string
  era_sequence :: int
  era_started_at :: time
  era_completed_at :: "time option"
  era_source_status :: effect_status
  era_lookup_result :: "side_effect_lookup_result option"
  era_result_status :: "effect_status option"
  era_resolver_id :: string
  era_proof_hash :: "string option"
  era_failure_code :: "recovery_failure option"

record recovery_policy =
  rpo_grace_seconds :: int
  rpo_lease_seconds :: int
  rpo_max_attempts :: int
  rpo_backoff_seconds :: "int list"

record recovery_claim =
  rcl_recovery_id :: string
  rcl_effect_id :: string
  rcl_worker_id :: string
  rcl_source_status :: effect_status
  rcl_sequence :: int

datatype recovery_audit_event =
    Rae_RECOVERY_SCAN | Rae_RECOVERY_LOOKUP | Rae_RECOVERY_TRANSITION | Rae_RECOVERY_ESCALATED

primrec recovery_audit_event_value :: "recovery_audit_event \<Rightarrow> string" where
  "recovery_audit_event_value Rae_RECOVERY_SCAN = ''RECOVERY_SCAN''"
| "recovery_audit_event_value Rae_RECOVERY_LOOKUP = ''RECOVERY_LOOKUP''"
| "recovery_audit_event_value Rae_RECOVERY_TRANSITION = ''RECOVERY_TRANSITION''"
| "recovery_audit_event_value Rae_RECOVERY_ESCALATED = ''RECOVERY_ESCALATED''"

record recovery_audit_record =
  raud_recovery_id :: string
  raud_tenant_id :: string
  raud_case_id :: string
  raud_intent_id :: string
  raud_approval_id :: "string option"
  raud_capability_id :: string
  raud_effect_id :: string
  raud_correlation_id :: string
  raud_event :: recovery_audit_event
  raud_recorded_at :: time
  raud_proof :: "recovery_proof option"
  raud_failure_code :: "recovery_failure option"

text \<open>\<open>SideEffectLookupResult.no_effect_semantics\<close>.\<close>

definition lookup_result_valid :: "side_effect_lookup_result \<Rightarrow> bool" where
  "lookup_result_valid r = (
     \<not> (lkr_lookup_status r = Lk_FOUND_FAILED_NO_EFFECT \<and> \<not> lkr_no_effect_confirmed r)
     \<and> \<not> (lkr_no_effect_confirmed r
          \<and> lkr_lookup_status r \<notin> {Lk_FOUND_FAILED_NO_EFFECT, Lk_NOT_FOUND}))"

text \<open>The field constraints of \<open>RecoveryCapability\<close> and \<open>RecoveryPolicy\<close>.\<close>

definition recovery_capability_valid :: "recovery_capability \<Rightarrow> bool" where
  "recovery_capability_valid c = (1 \<le> rcap_lookup_freshness_sla_seconds c
     \<and> rcap_lookup_freshness_sla_seconds c \<le> 3600)"

definition recovery_policy_valid :: "recovery_policy \<Rightarrow> bool" where
  "recovery_policy_valid p = (0 \<le> rpo_grace_seconds p \<and> rpo_grace_seconds p \<le> 3600
     \<and> 1 \<le> rpo_lease_seconds p \<and> rpo_lease_seconds p \<le> 3600
     \<and> 1 \<le> rpo_max_attempts p \<and> rpo_max_attempts p \<le> 20
     \<and> rpo_backoff_seconds p \<noteq> []
     \<and> list_all (\<lambda>b. 1 \<le> b \<and> b \<le> 86400) (rpo_backoff_seconds p))"

section \<open>JSON forms\<close>

text \<open>
  \<open>model_dump(mode="json")\<close> of the models that are hashed. A point in time is serialised to a text
  that determines it; \<open>JInt\<close> of the instant stands for that text.
\<close>

definition target_json :: "remediation_target \<Rightarrow> jv" where
  "target_json t = jobj [(''case_id'', JStr (rtg_case_id t)), (''tenant_id'', JStr (rtg_tenant_id t)),
     (''internal_order_id'', JStr (rtg_internal_order_id t)),
     (''callback_event_ref'', jopt JStr (rtg_callback_event_ref t)),
     (''message_ref'', jopt JStr (rtg_message_ref t)),
     (''delivery_ref'', jopt JStr (rtg_delivery_ref t))]"

text \<open>\<open>intent.model_dump(mode="json", exclude={"intent_id"})\<close>.\<close>

definition intent_json :: "remediation_intent \<Rightarrow> jv" where
  "intent_json i = jobj [(''case_id'', JStr (ri_case_id i)), (''tenant_id'', JStr (ri_tenant_id i)),
     (''internal_order_id'', JStr (ri_internal_order_id i)),
     (''action_type'', JStr (remediation_action_type_value (ri_action_type i))),
     (''risk_level'', JStr (action_risk_level_value (ri_risk_level i))),
     (''target'', target_json (ri_target i)),
     (''supporting_evidence_refs'', JArr (map JStr (ri_supporting_evidence_refs i))),
     (''snapshot_id'', JStr (ri_snapshot_id i)), (''evidence_hash'', JStr (ri_evidence_hash i)),
     (''catalog_version'', JStr (ri_catalog_version i)),
     (''policy_version'', JStr (ri_policy_version i)),
     (''preflight_fingerprint'', JStr (ri_preflight_fingerprint i)),
     (''requires_approval'', JBool (ri_requires_approval i)),
     (''requires_capability'', JBool (ri_requires_capability i)),
     (''status'', JStr ''PROPOSED'')]"

fun command_refs :: "domain_command \<Rightarrow> (string \<times> jv) list" where
  "command_refs (ReplayCallbackCommand _ m c) =
     [(''message_ref'', JStr m), (''callback_event_ref'', JStr c)]"
| "command_refs (RedeliverAssetNotificationCommand _ d) = [(''delivery_ref'', JStr d)]"
| "command_refs _ = []"

definition command_json :: "domain_command \<Rightarrow> jv" where
  "command_json c = jobj ([(''tenant_id'', JStr (cmd_tenant_id (command_scope_of c))),
     (''case_id'', JStr (cmd_case_id (command_scope_of c))),
     (''internal_order_id'', JStr (cmd_internal_order_id (command_scope_of c))),
     (''action_type'', JStr (remediation_action_type_value (command_action c)))] @ command_refs c)"

definition effect_identity_json :: "effect_identity \<Rightarrow> jv" where
  "effect_identity_json i = jobj [(''effect_id'', JStr (eid_effect_id i)),
     (''target_hash'', JStr (eid_target_hash i)), (''payload_hash'', JStr (eid_payload_hash i)),
     (''command'', command_json (eid_command i))]"

definition lookup_result_json :: "side_effect_lookup_result \<Rightarrow> jv" where
  "lookup_result_json r = jobj [(''correlation_id'', JStr (lkr_correlation_id r)),
     (''command_identity_hash'', JStr (lkr_command_identity_hash r)),
     (''resolver_id'', JStr (lkr_resolver_id r)),
     (''lookup_status'', JStr (lookup_status_value (lkr_lookup_status r))),
     (''external_effect_ref'', jopt JStr (lkr_external_effect_ref r)),
     (''observed_at'', JInt (lkr_observed_at r)),
     (''no_effect_confirmed'', JBool (lkr_no_effect_confirmed r)),
     (''remote_status_reference'', jopt JStr (lkr_remote_status_reference r))]"

definition recovery_proof_json :: "recovery_proof \<Rightarrow> jv" where
  "recovery_proof_json p = jobj [(''effect_id'', JStr (rpf_effect_id p)),
     (''correlation_id'', JStr (rpf_correlation_id p)), (''resolver_id'', JStr (rpf_resolver_id p)),
     (''lookup_status'', JStr (lookup_status_value (rpf_lookup_status p))),
     (''external_effect_ref'', jopt JStr (rpf_external_effect_ref p)),
     (''observed_at'', JInt (rpf_observed_at p)),
     (''contract_version'', JStr (rpf_contract_version p)),
     (''command_identity_hash'', JStr (rpf_command_identity_hash p)),
     (''result_hash'', JStr (rpf_result_hash p))]"

end
