(* ===== verification/WorkModel.thy ===== *)
theory WorkModel
  imports LedgerModel EvidenceModel
begin

text \<open>
  The models of the evaluation (\<open>evaluation/models.py\<close>) and of the orchestration
  (\<open>orchestration/models.py\<close>): verification requirements, evaluation reports, durable work items,
  their budgets, claims and signals.
\<close>

section \<open>Evaluation\<close>

datatype evaluation_verdict =
    V_PASS | V_FAIL | V_INCONCLUSIVE

primrec evaluation_verdict_value :: "evaluation_verdict \<Rightarrow> string" where
  "evaluation_verdict_value V_PASS = ''PASS''"
| "evaluation_verdict_value V_FAIL = ''FAIL''"
| "evaluation_verdict_value V_INCONCLUSIVE = ''INCONCLUSIVE''"

datatype dimension_status =
    Ds_PASS | Ds_FAIL | Ds_INCONCLUSIVE | Ds_NOT_APPLICABLE

primrec dimension_status_value :: "dimension_status \<Rightarrow> string" where
  "dimension_status_value Ds_PASS = ''PASS''"
| "dimension_status_value Ds_FAIL = ''FAIL''"
| "dimension_status_value Ds_INCONCLUSIVE = ''INCONCLUSIVE''"
| "dimension_status_value Ds_NOT_APPLICABLE = ''NOT_APPLICABLE''"

datatype evaluation_dimension =
    Ed_MONEY | Ed_IDENTITY | Ed_STATE_CONVERGENCE | Ed_SIDE_EFFECT | Ed_EVIDENCE_SUFFICIENCY
  | Ed_POLICY | Ed_RECOVERY | Ed_OUTCOME

primrec evaluation_dimension_value :: "evaluation_dimension \<Rightarrow> string" where
  "evaluation_dimension_value Ed_MONEY = ''MONEY''"
| "evaluation_dimension_value Ed_IDENTITY = ''IDENTITY''"
| "evaluation_dimension_value Ed_STATE_CONVERGENCE = ''STATE_CONVERGENCE''"
| "evaluation_dimension_value Ed_SIDE_EFFECT = ''SIDE_EFFECT''"
| "evaluation_dimension_value Ed_EVIDENCE_SUFFICIENCY = ''EVIDENCE_SUFFICIENCY''"
| "evaluation_dimension_value Ed_POLICY = ''POLICY''"
| "evaluation_dimension_value Ed_RECOVERY = ''RECOVERY''"
| "evaluation_dimension_value Ed_OUTCOME = ''OUTCOME''"

datatype outcome_path =
    Op_SETTLED_PATH | Op_NO_DISBURSEMENT_PATH

primrec outcome_path_value :: "outcome_path \<Rightarrow> string" where
  "outcome_path_value Op_SETTLED_PATH = ''SETTLED_PATH''"
| "outcome_path_value Op_NO_DISBURSEMENT_PATH = ''NO_DISBURSEMENT_PATH''"

datatype evaluation_reason =
    Er_PAYMENT_FINALITY_UNKNOWN | Er_PAYMENT_IDENTITY_UNKNOWN | Er_PAYMENT_IDENTITY_MISMATCH
  | Er_MONEY_STATE_CONTRADICTION | Er_REQUEST_ASSOCIATION_UNKNOWN | Er_FUND_NOT_CONVERGED
  | Er_GUARANTEE_NOT_CONVERGED | Er_ASSET_NOT_CONVERGED | Er_ACCOUNTING_NOT_CONVERGED
  | Er_CALLBACK_NOT_CONSUMED | Er_DELIVERY_NOT_DELIVERED | Er_POST_EFFECT_EVIDENCE_MISSING
  | Er_OPEN_SAFETY_CRITICAL_GAP | Er_UNRESOLVED_SIDE_EFFECT | Er_RECOVERY_UNRESOLVED
  | Er_EVIDENCE_STALE | Er_EVIDENCE_INCOMPLETE | Er_PROVENANCE_INVALID
  | Er_PENDING_READ_DISPATCH | Er_POLICY_VIOLATION | Er_FORBIDDEN_EFFECT_OBSERVED
  | Er_BUSINESS_OUTCOME_NOT_CONVERGED | Er_CONVERGENCE_WINDOW_OPEN
  | Er_CLOSURE_INVARIANT_VIOLATION

primrec evaluation_reason_value :: "evaluation_reason \<Rightarrow> string" where
  "evaluation_reason_value Er_PAYMENT_FINALITY_UNKNOWN = ''PAYMENT_FINALITY_UNKNOWN''"
| "evaluation_reason_value Er_PAYMENT_IDENTITY_UNKNOWN = ''PAYMENT_IDENTITY_UNKNOWN''"
| "evaluation_reason_value Er_PAYMENT_IDENTITY_MISMATCH = ''PAYMENT_IDENTITY_MISMATCH''"
| "evaluation_reason_value Er_MONEY_STATE_CONTRADICTION = ''MONEY_STATE_CONTRADICTION''"
| "evaluation_reason_value Er_REQUEST_ASSOCIATION_UNKNOWN = ''REQUEST_ASSOCIATION_UNKNOWN''"
| "evaluation_reason_value Er_FUND_NOT_CONVERGED = ''FUND_NOT_CONVERGED''"
| "evaluation_reason_value Er_GUARANTEE_NOT_CONVERGED = ''GUARANTEE_NOT_CONVERGED''"
| "evaluation_reason_value Er_ASSET_NOT_CONVERGED = ''ASSET_NOT_CONVERGED''"
| "evaluation_reason_value Er_ACCOUNTING_NOT_CONVERGED = ''ACCOUNTING_NOT_CONVERGED''"
| "evaluation_reason_value Er_CALLBACK_NOT_CONSUMED = ''CALLBACK_NOT_CONSUMED''"
| "evaluation_reason_value Er_DELIVERY_NOT_DELIVERED = ''DELIVERY_NOT_DELIVERED''"
| "evaluation_reason_value Er_POST_EFFECT_EVIDENCE_MISSING = ''POST_EFFECT_EVIDENCE_MISSING''"
| "evaluation_reason_value Er_OPEN_SAFETY_CRITICAL_GAP = ''OPEN_SAFETY_CRITICAL_GAP''"
| "evaluation_reason_value Er_UNRESOLVED_SIDE_EFFECT = ''UNRESOLVED_SIDE_EFFECT''"
| "evaluation_reason_value Er_RECOVERY_UNRESOLVED = ''RECOVERY_UNRESOLVED''"
| "evaluation_reason_value Er_EVIDENCE_STALE = ''EVIDENCE_STALE''"
| "evaluation_reason_value Er_EVIDENCE_INCOMPLETE = ''EVIDENCE_INCOMPLETE''"
| "evaluation_reason_value Er_PROVENANCE_INVALID = ''PROVENANCE_INVALID''"
| "evaluation_reason_value Er_PENDING_READ_DISPATCH = ''PENDING_READ_DISPATCH''"
| "evaluation_reason_value Er_POLICY_VIOLATION = ''POLICY_VIOLATION''"
| "evaluation_reason_value Er_FORBIDDEN_EFFECT_OBSERVED = ''FORBIDDEN_EFFECT_OBSERVED''"
| "evaluation_reason_value Er_BUSINESS_OUTCOME_NOT_CONVERGED = ''BUSINESS_OUTCOME_NOT_CONVERGED''"
| "evaluation_reason_value Er_CONVERGENCE_WINDOW_OPEN = ''CONVERGENCE_WINDOW_OPEN''"
| "evaluation_reason_value Er_CLOSURE_INVARIANT_VIOLATION = ''CLOSURE_INVARIANT_VIOLATION''"

datatype verification_requirement =
    Q_PAYMENT_FINALITY | Q_PAYMENT_IDENTITY | Q_REQUEST_ASSOCIATION | Q_FUND_FINAL_STATE
  | Q_GUARANTEE_FINAL_STATE | Q_ASSET_FINAL_STATE | Q_ACCOUNTING_ENTRY | Q_CALLBACK_CONSUMPTION
  | Q_ASSET_DELIVERY | Q_POST_EFFECT_MESSAGE_STATUS | Q_POST_EFFECT_DELIVERY_STATUS
  | Q_SAFETY_GAP | Q_PROVENANCE | Q_READ_PUBLICATION | Q_EFFECT_FINALITY | Q_RECOVERY_FINALITY
  | Q_SAFE_POLICY

primrec verification_requirement_value :: "verification_requirement \<Rightarrow> string" where
  "verification_requirement_value Q_PAYMENT_FINALITY = ''PAYMENT_FINALITY''"
| "verification_requirement_value Q_PAYMENT_IDENTITY = ''PAYMENT_IDENTITY''"
| "verification_requirement_value Q_REQUEST_ASSOCIATION = ''REQUEST_ASSOCIATION''"
| "verification_requirement_value Q_FUND_FINAL_STATE = ''FUND_FINAL_STATE''"
| "verification_requirement_value Q_GUARANTEE_FINAL_STATE = ''GUARANTEE_FINAL_STATE''"
| "verification_requirement_value Q_ASSET_FINAL_STATE = ''ASSET_FINAL_STATE''"
| "verification_requirement_value Q_ACCOUNTING_ENTRY = ''ACCOUNTING_ENTRY''"
| "verification_requirement_value Q_CALLBACK_CONSUMPTION = ''CALLBACK_CONSUMPTION''"
| "verification_requirement_value Q_ASSET_DELIVERY = ''ASSET_DELIVERY''"
| "verification_requirement_value Q_POST_EFFECT_MESSAGE_STATUS = ''POST_EFFECT_MESSAGE_STATUS''"
| "verification_requirement_value Q_POST_EFFECT_DELIVERY_STATUS = ''POST_EFFECT_DELIVERY_STATUS''"
| "verification_requirement_value Q_SAFETY_GAP = ''SAFETY_GAP''"
| "verification_requirement_value Q_PROVENANCE = ''PROVENANCE''"
| "verification_requirement_value Q_READ_PUBLICATION = ''READ_PUBLICATION''"
| "verification_requirement_value Q_EFFECT_FINALITY = ''EFFECT_FINALITY''"
| "verification_requirement_value Q_RECOVERY_FINALITY = ''RECOVERY_FINALITY''"
| "verification_requirement_value Q_SAFE_POLICY = ''SAFE_POLICY''"

record unresolved_verification_requirement =
  uvr_requirement :: verification_requirement
  uvr_dimension :: evaluation_dimension
  uvr_reason_code :: evaluation_reason
  uvr_required_claims :: "claim_type list"
  uvr_effect_ref :: "string option"

record evaluation_dimension_result =
  edr_dimension :: evaluation_dimension
  edr_status :: dimension_status
  edr_reason_codes :: "evaluation_reason list"
  edr_supporting_evidence_refs :: "string list"
  edr_side_effect_refs :: "string list"
  edr_required_claims_missing :: "claim_type list"

record verification_snapshot =
  vs_verification_snapshot_id :: string
  vs_case_id :: string
  vs_tenant_id :: string
  vs_case_revision :: time
  vs_case_fingerprint :: string
  vs_evidence_fingerprint :: string
  vs_payment_identity_fingerprint :: string
  vs_current_state_fingerprint :: string
  vs_side_effect_ledger_fingerprint :: string
  vs_recovery_fingerprint :: string
  vs_call_history_fingerprint :: string
  vs_authorization_policy_fingerprint :: string
  vs_evaluation_policy_version :: string
  vs_verification_contract_version :: string
  vs_evaluation_policy_fingerprint :: string
  vs_verification_contract_fingerprint :: string

record evaluation_report =
  erp_report_id :: string
  erp_evaluation_run_id :: string
  erp_case_id :: string
  erp_verification_snapshot_id :: string
  erp_snapshot :: verification_snapshot
  erp_contract_version :: string
  erp_policy_version :: string
  erp_outcome_path :: "outcome_path option"
  erp_overall_verdict :: evaluation_verdict
  erp_dimensions :: "evaluation_dimension_result list"
  erp_reason_codes :: "evaluation_reason list"
  erp_supporting_evidence_refs :: "string list"
  erp_side_effect_refs :: "string list"
  erp_unresolved_requirements :: "unresolved_verification_requirement list"
  erp_created_at :: time

record case_closure_record =
  ccr_closure_id :: string
  ccr_case_id :: string
  ccr_evaluation_run_id :: string
  ccr_report_id :: string
  ccr_verification_snapshot_id :: string
  ccr_evidence_fingerprint :: string
  ccr_ledger_fingerprint :: string
  ccr_evaluation_policy_version :: string
  ccr_contract_version :: string
  ccr_closed_at :: time

datatype closure_status =
    Cls_CLOSED_VERIFIED | Cls_ALREADY_CLOSED_VERIFIED

primrec closure_status_value :: "closure_status \<Rightarrow> string" where
  "closure_status_value Cls_CLOSED_VERIFIED = ''CLOSED_VERIFIED''"
| "closure_status_value Cls_ALREADY_CLOSED_VERIFIED = ''ALREADY_CLOSED_VERIFIED''"

record verified_closure_result =
  vcr_status :: closure_status
  vcr_record :: case_closure_record

section \<open>Orchestration\<close>

datatype work_type =
    Work_INVESTIGATION_RESUME | Work_VERIFICATION_REQUIRED | Work_RECOVERY_RECHECK
  | Work_OPERATOR_FOLLOWUP

primrec work_type_value :: "work_type \<Rightarrow> string" where
  "work_type_value Work_INVESTIGATION_RESUME = ''INVESTIGATION_RESUME''"
| "work_type_value Work_VERIFICATION_REQUIRED = ''VERIFICATION_REQUIRED''"
| "work_type_value Work_RECOVERY_RECHECK = ''RECOVERY_RECHECK''"
| "work_type_value Work_OPERATOR_FOLLOWUP = ''OPERATOR_FOLLOWUP''"

datatype work_status =
    Ws_PENDING | Ws_READY | Ws_CLAIMED | Ws_COMPLETED | Ws_CANCELED | Ws_BLOCKED

primrec work_status_value :: "work_status \<Rightarrow> string" where
  "work_status_value Ws_PENDING = ''PENDING''"
| "work_status_value Ws_READY = ''READY''"
| "work_status_value Ws_CLAIMED = ''CLAIMED''"
| "work_status_value Ws_COMPLETED = ''COMPLETED''"
| "work_status_value Ws_CANCELED = ''CANCELED''"
| "work_status_value Ws_BLOCKED = ''BLOCKED''"

datatype work_binding_mode =
    Bind_CASE_SNAPSHOT | Bind_SIDE_EFFECT

primrec work_binding_mode_value :: "work_binding_mode \<Rightarrow> string" where
  "work_binding_mode_value Bind_CASE_SNAPSHOT = ''CASE_SNAPSHOT''"
| "work_binding_mode_value Bind_SIDE_EFFECT = ''SIDE_EFFECT''"

datatype work_reason =
    Why_WAIT_REQUESTED | Why_SOURCE_UNAVAILABLE | Why_DEPLOYMENT_STATE_UNKNOWN
  | Why_CAPABILITY_UNAVAILABLE | Why_OPERATOR_REQUIRED | Why_EFFECT_APPLIED
  | Why_EFFECT_UNRESOLVED | Why_EFFECT_FAILED | Why_EVALUATION_INCONCLUSIVE
  | Why_EVALUATION_FAILED | Why_RESUME_LIMIT | Why_VERIFICATION_LIMIT | Why_NO_PROGRESS
  | Why_INTERRUPTED_RUN | Why_NO_TOOL | Why_TOOL_BUDGET_EXHAUSTED

primrec work_reason_value :: "work_reason \<Rightarrow> string" where
  "work_reason_value Why_WAIT_REQUESTED = ''WAIT_REQUESTED''"
| "work_reason_value Why_SOURCE_UNAVAILABLE = ''SOURCE_UNAVAILABLE''"
| "work_reason_value Why_DEPLOYMENT_STATE_UNKNOWN = ''DEPLOYMENT_STATE_UNKNOWN''"
| "work_reason_value Why_CAPABILITY_UNAVAILABLE = ''CAPABILITY_UNAVAILABLE''"
| "work_reason_value Why_OPERATOR_REQUIRED = ''OPERATOR_REQUIRED''"
| "work_reason_value Why_EFFECT_APPLIED = ''EFFECT_APPLIED''"
| "work_reason_value Why_EFFECT_UNRESOLVED = ''EFFECT_UNRESOLVED''"
| "work_reason_value Why_EFFECT_FAILED = ''EFFECT_FAILED''"
| "work_reason_value Why_EVALUATION_INCONCLUSIVE = ''EVALUATION_INCONCLUSIVE''"
| "work_reason_value Why_EVALUATION_FAILED = ''EVALUATION_FAILED''"
| "work_reason_value Why_RESUME_LIMIT = ''RESUME_LIMIT''"
| "work_reason_value Why_VERIFICATION_LIMIT = ''VERIFICATION_LIMIT''"
| "work_reason_value Why_NO_PROGRESS = ''NO_PROGRESS''"
| "work_reason_value Why_INTERRUPTED_RUN = ''INTERRUPTED_RUN''"
| "work_reason_value Why_NO_TOOL = ''NO_TOOL''"
| "work_reason_value Why_TOOL_BUDGET_EXHAUSTED = ''TOOL_BUDGET_EXHAUSTED''"

datatype signal_type =
    Sig_OPERATOR_ACKNOWLEDGED | Sig_CAPABILITY_AVAILABLE | Sig_DEPLOYMENT_STATE_UPDATED
  | Sig_SOURCE_RECOVERED

primrec signal_type_value :: "signal_type \<Rightarrow> string" where
  "signal_type_value Sig_OPERATOR_ACKNOWLEDGED = ''OPERATOR_ACKNOWLEDGED''"
| "signal_type_value Sig_CAPABILITY_AVAILABLE = ''CAPABILITY_AVAILABLE''"
| "signal_type_value Sig_DEPLOYMENT_STATE_UPDATED = ''DEPLOYMENT_STATE_UPDATED''"
| "signal_type_value Sig_SOURCE_RECOVERED = ''SOURCE_RECOVERED''"

datatype trigger =
    Trig_TIMER | Trig_RESOLUTION_SIGNAL | Trig_SIDE_EFFECT | Trig_EVALUATION | Trig_RECOVERY

primrec trigger_value :: "trigger \<Rightarrow> string" where
  "trigger_value Trig_TIMER = ''TIMER''"
| "trigger_value Trig_RESOLUTION_SIGNAL = ''RESOLUTION_SIGNAL''"
| "trigger_value Trig_SIDE_EFFECT = ''SIDE_EFFECT''"
| "trigger_value Trig_EVALUATION = ''EVALUATION''"
| "trigger_value Trig_RECOVERY = ''RECOVERY''"

datatype work_event =
    We_RECOVERY_REBASED | We_REARMED | We_CREATED | We_READY | We_CLAIMED | We_RESUMED
  | We_STARTED | We_COMPLETED | We_STALE | We_BLOCKED | We_CANCELED

primrec work_event_value :: "work_event \<Rightarrow> string" where
  "work_event_value We_RECOVERY_REBASED = ''RECOVERY_REBASED''"
| "work_event_value We_REARMED = ''REARMED''"
| "work_event_value We_CREATED = ''CREATED''"
| "work_event_value We_READY = ''READY''"
| "work_event_value We_CLAIMED = ''CLAIMED''"
| "work_event_value We_RESUMED = ''RESUMED''"
| "work_event_value We_STARTED = ''STARTED''"
| "work_event_value We_COMPLETED = ''COMPLETED''"
| "work_event_value We_STALE = ''STALE''"
| "work_event_value We_BLOCKED = ''BLOCKED''"
| "work_event_value We_CANCELED = ''CANCELED''"

record orchestration_budget =
  ob1_max_resume_cycles :: int
  ob1_max_verification_cycles :: int
  ob1_max_no_progress_cycles :: int

record case_orchestration_state =
  cos_case_id :: string
  cos_tenant_id :: string
  cos_budget :: orchestration_budget
  cos_resume_cycle_count :: int
  cos_verification_cycle_count :: int
  cos_no_progress_count :: int
  cos_pending_work_count :: int
  cos_last_work_item_id :: "string option"
  cos_last_progress_fingerprint :: "string option"
  cos_last_progress_version :: "string option"

record pause_reservation =
  pres_decision_id :: string
  pres_snapshot_id :: string
  pres_run_id :: string
  pres_reason :: work_reason
  pres_wait_seconds :: "int option"
  pres_required_signal :: "signal_type option"

record resolution_signal =
  rsg_signal_id :: string
  rsg_tenant_id :: string
  rsg_case_id :: string
  rsg_work_item_id :: string
  rsg_signal_type :: signal_type
  rsg_subject :: string
  rsg_created_at :: time
  rsg_source_actor_ref :: string

record orchestration_progress_fingerprint =
  opf_version :: string
  opf_evidence_fingerprint :: string
  opf_effect_fingerprint :: string
  opf_requirements :: "verification_requirement list"
  opf_fingerprint :: string

record resume_recovery_result =
  rrr_case_id :: string
  rrr_work_item_id :: string
  rrr_before_case_revision :: time
  rrr_after_case_revision :: time
  rrr_read_recoveries :: "recovery_result list"
  rrr_recovered_evidence_refs :: "string list"
  rrr_effect_recoveries :: "recovery_result list"
  rrr_semantic_progress :: bool
  rrr_prepared_blocked :: bool

record case_work_item =
  wi_work_item_id :: string
  wi_tenant_id :: string
  wi_case_id :: string
  wi_work_type :: work_type
  wi_status :: work_status
  wi_reason_code :: work_reason
  wi_source_ref :: string
  wi_trigger :: trigger
  wi_expected_case_status :: case_status
  wi_expected_case_revision :: time
  wi_created_at :: time
  wi_not_before :: time
  wi_claimed_by :: "string option"
  wi_lease_until :: "time option"
  wi_lease_token :: "string option"
  wi_attempt_count :: int
  wi_completed_at :: "time option"
  wi_required_signal :: "signal_type option"
  wi_signal_id :: "string option"
  wi_previous_run_id :: "string option"
  wi_run_id :: "string option"
  wi_resumed_at :: "time option"
  wi_resume_lease_token :: "string option"
  wi_started_at :: "time option"
  wi_snapshot_ref :: "string option"
  wi_wait_seconds :: "int option"
  wi_requirement :: "verification_requirement option"
  wi_before_progress_fingerprint :: "string option"
  wi_after_progress_fingerprint :: "string option"
  wi_before_evidence_fingerprint :: "string option"
  wi_after_evidence_fingerprint :: "string option"
  wi_verification_requirements :: "verification_requirement list"
  wi_progress_before :: "orchestration_progress_fingerprint option"
  wi_recovery_reads :: "recovery_result list"
  wi_recovery_result :: "resume_recovery_result option"
  wi_recovery_claim_token :: "string option"

record work_claim =
  wc_work_item_id :: string
  wc_worker_id :: string
  wc_lease_token :: string

record run_lineage =
  rl_parent_run_id :: "string option"
  rl_resumed_from_work_item_id :: string
  rl_resume_reason :: work_reason
  rl_resume_trigger :: trigger

record orchestration_audit_record =
  oaud_work_item_id :: string
  oaud_case_id :: string
  oaud_event :: work_event
  oaud_before_status :: "work_status option"
  oaud_after_status :: work_status
  oaud_worker_id :: "string option"
  oaud_trigger_ref :: string
  oaud_recorded_at :: time

text \<open>\<open>CaseWorkItem.binding_mode\<close> is derived from the durable type.\<close>

definition binding_mode :: "case_work_item \<Rightarrow> work_binding_mode" where
  "binding_mode w = (if wi_work_type w = Work_RECOVERY_RECHECK then Bind_SIDE_EFFECT
     else Bind_CASE_SNAPSHOT)"

text \<open>The defaults and the field constraints of \<open>OrchestrationBudget\<close>.\<close>

definition default_budget :: orchestration_budget where
  "default_budget = \<lparr> ob1_max_resume_cycles = 5, ob1_max_verification_cycles = 5,
     ob1_max_no_progress_cycles = 3 \<rparr>"

definition orchestration_budget_valid :: "orchestration_budget \<Rightarrow> bool" where
  "orchestration_budget_valid b = (0 \<le> ob1_max_resume_cycles b \<and> ob1_max_resume_cycles b \<le> 20
     \<and> 0 \<le> ob1_max_verification_cycles b \<and> ob1_max_verification_cycles b \<le> 20
     \<and> 1 \<le> ob1_max_no_progress_cycles b \<and> ob1_max_no_progress_cycles b \<le> 20)"

text \<open>The constraint on \<open>PauseReservation.wait_seconds\<close>.\<close>

definition pause_reservation_valid :: "pause_reservation \<Rightarrow> bool" where
  "pause_reservation_valid r = (case pres_wait_seconds r of None \<Rightarrow> True
     | Some n \<Rightarrow> 30 \<le> n \<and> n \<le> 3600)"

end
