(* ===== verification/Database.thy ===== *)
theory Database
  imports Simulator WorkModel
begin

text \<open>
  The tables of the deployment (\<open>cases/tables.py\<close>, \<open>evidence/tables.py\<close>,
  \<open>authorization/tables.py\<close>, \<open>recovery/tables.py\<close>, \<open>orchestration/tables.py\<close>,
  \<open>evaluation/tables.py\<close>): one record per row class, without the columns that repeat the primary
  key, and one record \<open>db\<close> for the database. A JSON \<open>payload\<close> column holds the typed model it was
  dumped from; a column that repeats a field of the payload (\<open>status\<close>, \<open>lease_until\<close>) is kept,
  because the code writes the two separately. An \<open>autoincrement\<close> log is a list, oldest first. A
  \<open>REAL\<close> timestamp is the instant itself.
\<close>

section \<open>Rows\<close>

text \<open>\<open>CallState\<close>.\<close>

datatype call_state = Call_DISPATCHED | Call_OBSERVED | Call_ERROR

record case_row =
  cr_tenant_id :: string
  cr_simulation_id :: string
  cr_grant_hash :: string
  cr_payload :: case_rec
  cr_status :: case_status
  cr_max_tool_calls :: int
  cr_used_tool_calls :: int
  cr_updated_at :: time

record case_call_row =
  cl_dispatch_correlation_id :: "string option"
  cl_case_id :: string
  cl_sequence :: int
  cl_tool :: tool_name
  cl_request :: tool_query
  cl_state :: call_state
  cl_observation_id :: "string option"

record evidence_row =
  evw_case_id :: string
  evw_observation_id :: string
  evw_payload :: evidence

record authorized_intent_row =
  ain_case_id :: string
  ain_payload :: remediation_intent

record approval_row =
  apr_intent_id :: string
  apr_status :: approval_status
  apr_payload :: approval_request

record capability_row =
  cap_intent_id :: string
  cap_payload :: execution_capability
  cap_used_effect_id :: "string option"

record effect_row =
  eff_idempotency_key :: string
  eff_capability_id :: string
  eff_case_id :: string
  eff_status :: effect_status
  eff_payload :: side_effect_ledger

record effect_recovery_state_row =
  ers_tenant_id :: string
  ers_case_id :: string
  ers_status :: effect_status
  ers_ledger_updated_at :: time
  ers_next_eligible_at :: time
  ers_lease_owner :: "string option"
  ers_lease_until :: "time option"
  ers_lease_token :: "string option"
  ers_attempt_count :: int
  ers_requires_escalation :: bool

record effect_recovery_attempt_row =
  att_worker_id :: string
  att_effect_id :: string
  att_sequence :: int
  att_started_at :: time
  att_completed_at :: "time option"
  att_source_status :: effect_status
  att_resolver_id :: string
  att_result_status :: "effect_status option"
  att_lookup_result :: "side_effect_lookup_result option"
  att_proof :: "recovery_proof option"
  att_proof_hash :: "string option"
  att_failure_code :: "recovery_failure option"

record read_dispatch_recovery_row =
  rdr_case_id :: string
  rdr_dispatch_correlation_id :: "string option"
  rdr_status :: dispatch_recovery_status
  rdr_recovered_observation_id :: "string option"
  rdr_recovered_evidence_refs :: "string list"
  rdr_attempted_at :: time

record work_item_row =
  wir_tenant_id :: string
  wir_case_id :: string
  wir_status :: work_status
  wir_not_before :: time
  wir_lease_until :: "time option"
  wir_payload :: case_work_item

datatype handoff_status = Hand_PENDING | Hand_COMPLETED | Hand_CANCELED

record evaluation_handoff_row =
  hnd_tenant_id :: string
  hnd_case_id :: string
  hnd_status :: handoff_status

record evaluation_report_row =
  evr_case_id :: string
  evr_payload :: evaluation_report

text \<open>\<open>AgentRunStatus\<close>, and the audit pointer of a run (\<open>AgentCheckpointRow\<close>).\<close>

datatype agent_run_status =
    Run_WAITING | Run_ESCALATED | Run_SAFE_NO_ACTION | Run_PLANNER_UNAVAILABLE
  | Run_TOOL_EXECUTION_ERROR | Run_MAX_TURNS_REACHED | Run_STALE_REPLAN_EXHAUSTED
  | Run_NO_KNOWLEDGE_PROGRESS | Run_RUNTIME_SAFETY_STOP

record agent_checkpoint_row =
  chk_case_id :: string
  chk_last_completed_turn :: int
  chk_last_snapshot_id :: string
  chk_last_decision_id :: "string option"
  chk_last_call_id :: "string option"
  chk_stop_status :: "agent_run_status option"
  chk_updated_at :: time

section \<open>The database\<close>

record db =
  db_sim :: sim_db
  db_cases :: "(string \<times> case_row) list"
  db_calls :: "(string \<times> case_call_row) list"
  db_evidence :: "(string \<times> evidence_row) list"
  db_origins :: "((string \<times> string) \<times> unit) list"
  db_intents :: "(string \<times> authorized_intent_row) list"
  db_approvals :: "(string \<times> approval_row) list"
  db_capabilities :: "(string \<times> capability_row) list"
  db_signatures :: "(string \<times> string) list"
  db_effects :: "(string \<times> effect_row) list"
  db_authorization_audit :: "authorization_audit_record list"
  db_recovery_state :: "(string \<times> effect_recovery_state_row) list"
  db_attempts :: "(string \<times> effect_recovery_attempt_row) list"
  db_recovery_audit :: "recovery_audit_record list"
  db_read_recovery :: "(string \<times> read_dispatch_recovery_row) list"
  db_work :: "(string \<times> work_item_row) list"
  db_orchestration :: "(string \<times> case_orchestration_state) list"
  db_signals :: "(string \<times> resolution_signal) list"
  db_orchestration_audit :: "orchestration_audit_record list"
  db_reports :: "(string \<times> evaluation_report_row) list"
  db_handoffs :: "(string \<times> evaluation_handoff_row) list"
  db_closures :: "(string \<times> case_closure_record) list"
  db_routes :: "(string \<times> unit) list"
  db_runs :: "(string \<times> string) list"
  db_checkpoints :: "(string \<times> agent_checkpoint_row) list"

definition empty_db :: db where
  "empty_db = \<lparr> db_sim = \<lparr> sim_simulations = [], sim_snapshots = [], sim_faults = [], sim_grants = [],
       sim_observations = [] \<rparr>,
     db_cases = [], db_calls = [], db_evidence = [], db_origins = [], db_intents = [],
     db_approvals = [], db_capabilities = [], db_signatures = [], db_effects = [],
     db_authorization_audit = [], db_recovery_state = [], db_attempts = [], db_recovery_audit = [],
     db_read_recovery = [], db_work = [], db_orchestration = [], db_signals = [],
     db_orchestration_audit = [], db_reports = [], db_handoffs = [], db_closures = [], db_routes = [],
     db_runs = [], db_checkpoints = [] \<rparr>"

text \<open>Every table has one row per key.\<close>

definition db_keys_distinct :: "db \<Rightarrow> bool" where
  "db_keys_distinct d = (tkeys_distinct (db_cases d) \<and> tkeys_distinct (db_calls d)
     \<and> tkeys_distinct (db_effects d) \<and> tkeys_distinct (db_capabilities d)
     \<and> tkeys_distinct (db_approvals d) \<and> tkeys_distinct (db_recovery_state d)
     \<and> tkeys_distinct (db_attempts d) \<and> tkeys_distinct (db_work d))"

section \<open>Which tables a transaction writes\<close>

datatype table =
    T_sim | T_cases | T_calls | T_evidence | T_origins | T_intents | T_approvals |
    T_capabilities | T_signatures | T_effects | T_authorization_audit | T_recovery_state |
    T_attempts | T_recovery_audit | T_read_recovery | T_work | T_orchestration | T_signals |
    T_orchestration_audit | T_reports | T_handoffs | T_closures | T_routes | T_runs |
    T_checkpoints

primrec unchanged :: "table \<Rightarrow> db \<Rightarrow> db \<Rightarrow> bool" where
  "unchanged T_sim d d' = (db_sim d' = db_sim d)"
| "unchanged T_cases d d' = (db_cases d' = db_cases d)"
| "unchanged T_calls d d' = (db_calls d' = db_calls d)"
| "unchanged T_evidence d d' = (db_evidence d' = db_evidence d)"
| "unchanged T_origins d d' = (db_origins d' = db_origins d)"
| "unchanged T_intents d d' = (db_intents d' = db_intents d)"
| "unchanged T_approvals d d' = (db_approvals d' = db_approvals d)"
| "unchanged T_capabilities d d' = (db_capabilities d' = db_capabilities d)"
| "unchanged T_signatures d d' = (db_signatures d' = db_signatures d)"
| "unchanged T_effects d d' = (db_effects d' = db_effects d)"
| "unchanged T_authorization_audit d d' = (db_authorization_audit d' = db_authorization_audit d)"
| "unchanged T_recovery_state d d' = (db_recovery_state d' = db_recovery_state d)"
| "unchanged T_attempts d d' = (db_attempts d' = db_attempts d)"
| "unchanged T_recovery_audit d d' = (db_recovery_audit d' = db_recovery_audit d)"
| "unchanged T_read_recovery d d' = (db_read_recovery d' = db_read_recovery d)"
| "unchanged T_work d d' = (db_work d' = db_work d)"
| "unchanged T_orchestration d d' = (db_orchestration d' = db_orchestration d)"
| "unchanged T_signals d d' = (db_signals d' = db_signals d)"
| "unchanged T_orchestration_audit d d' = (db_orchestration_audit d' = db_orchestration_audit d)"
| "unchanged T_reports d d' = (db_reports d' = db_reports d)"
| "unchanged T_handoffs d d' = (db_handoffs d' = db_handoffs d)"
| "unchanged T_closures d d' = (db_closures d' = db_closures d)"
| "unchanged T_routes d d' = (db_routes d' = db_routes d)"
| "unchanged T_runs d d' = (db_runs d' = db_runs d)"
| "unchanged T_checkpoints d d' = (db_checkpoints d' = db_checkpoints d)"

text \<open>A transaction is framed by the set of tables it may write.\<close>

definition same_but :: "table set \<Rightarrow> db \<Rightarrow> db \<Rightarrow> bool" where
  "same_but S d d' = (\<forall>t. t \<in> S \<or> unchanged t d d')"

lemma all_tables: "(\<forall>t. P t) \<longleftrightarrow> P T_sim \<and> P T_cases \<and> P T_calls \<and> P T_evidence \<and> P T_origins \<and>
  P T_intents \<and> P T_approvals \<and> P T_capabilities \<and> P T_signatures \<and>
  P T_effects \<and> P T_authorization_audit \<and> P T_recovery_state \<and> P T_attempts \<and>
  P T_recovery_audit \<and> P T_read_recovery \<and> P T_work \<and> P T_orchestration \<and>
  P T_signals \<and> P T_orchestration_audit \<and> P T_reports \<and> P T_handoffs \<and>
  P T_closures \<and> P T_routes \<and> P T_runs \<and> P T_checkpoints"
proof
  show "\<forall>t. P t" if "P T_sim \<and> P T_cases \<and> P T_calls \<and> P T_evidence \<and> P T_origins \<and>
      P T_intents \<and> P T_approvals \<and> P T_capabilities \<and> P T_signatures \<and>
      P T_effects \<and> P T_authorization_audit \<and> P T_recovery_state \<and>
      P T_attempts \<and> P T_recovery_audit \<and> P T_read_recovery \<and> P T_work \<and>
      P T_orchestration \<and> P T_signals \<and> P T_orchestration_audit \<and>
      P T_reports \<and> P T_handoffs \<and> P T_closures \<and> P T_routes \<and>
      P T_runs \<and> P T_checkpoints"
    using that by (intro allI, case_tac t) simp_all
qed simp

lemma same_but_iff: "same_but S d d' \<longleftrightarrow> ((T_sim \<in> S \<or> db_sim d' = db_sim d)
     \<and> (T_cases \<in> S \<or> db_cases d' = db_cases d)
     \<and> (T_calls \<in> S \<or> db_calls d' = db_calls d)
     \<and> (T_evidence \<in> S \<or> db_evidence d' = db_evidence d)
     \<and> (T_origins \<in> S \<or> db_origins d' = db_origins d)
     \<and> (T_intents \<in> S \<or> db_intents d' = db_intents d)
     \<and> (T_approvals \<in> S \<or> db_approvals d' = db_approvals d)
     \<and> (T_capabilities \<in> S \<or> db_capabilities d' = db_capabilities d)
     \<and> (T_signatures \<in> S \<or> db_signatures d' = db_signatures d)
     \<and> (T_effects \<in> S \<or> db_effects d' = db_effects d)
     \<and> (T_authorization_audit \<in> S \<or> db_authorization_audit d' = db_authorization_audit d)
     \<and> (T_recovery_state \<in> S \<or> db_recovery_state d' = db_recovery_state d)
     \<and> (T_attempts \<in> S \<or> db_attempts d' = db_attempts d)
     \<and> (T_recovery_audit \<in> S \<or> db_recovery_audit d' = db_recovery_audit d)
     \<and> (T_read_recovery \<in> S \<or> db_read_recovery d' = db_read_recovery d)
     \<and> (T_work \<in> S \<or> db_work d' = db_work d)
     \<and> (T_orchestration \<in> S \<or> db_orchestration d' = db_orchestration d)
     \<and> (T_signals \<in> S \<or> db_signals d' = db_signals d)
     \<and> (T_orchestration_audit \<in> S \<or> db_orchestration_audit d' = db_orchestration_audit d)
     \<and> (T_reports \<in> S \<or> db_reports d' = db_reports d)
     \<and> (T_handoffs \<in> S \<or> db_handoffs d' = db_handoffs d)
     \<and> (T_closures \<in> S \<or> db_closures d' = db_closures d)
     \<and> (T_routes \<in> S \<or> db_routes d' = db_routes d)
     \<and> (T_runs \<in> S \<or> db_runs d' = db_runs d)
     \<and> (T_checkpoints \<in> S \<or> db_checkpoints d' = db_checkpoints d))"
  by (simp add: same_but_def all_tables)

lemma same_but_refl [simp]: "same_but S d d"
  by (simp add: same_but_iff)

lemma unchanged_trans: "unchanged t a b \<Longrightarrow> unchanged t b c \<Longrightarrow> unchanged t a c"
  by (cases t) simp_all

lemma same_but_trans: "same_but S a b \<Longrightarrow> same_but S' b c \<Longrightarrow> same_but (S \<union> S') a c"
  unfolding same_but_def by (blast intro: unchanged_trans)

lemma same_but_mono: "same_but S a b \<Longrightarrow> S \<subseteq> S' \<Longrightarrow> same_but S' a b"
  unfolding same_but_def by blast

end
