(* ===== verification/CaseRepository.thy ===== *)
theory CaseRepository
  imports Database
begin

text \<open>
  \<open>cases/repository.py\<close>: creation of a Case under a tool grant, reservation of a budgeted tool
  call, the error receipt of a call, the pause, and the lease fence that ties them to a claimed work
  item. The tenant of the repository is an argument; so are the readings of the clock and the fresh
  UUIDs. The deployment modelled has no registry guard (\<open>registry_guard=None\<close>), so a Case bound to a
  registry route cannot dispatch.
\<close>

section \<open>Rows\<close>

definition case_row_of :: "string \<Rightarrow> db \<Rightarrow> string \<Rightarrow> error + case_row" where
  "case_row_of tenant d cid = (case tget cid (db_cases d) of
     Some r \<Rightarrow> if cr_tenant_id r = tenant then Inr r else Inl CaseAccessError
   | None \<Rightarrow> Inl CaseAccessError)"

definition hydrate :: "case_row \<Rightarrow> error + case_rec" where
  "hydrate r = (let c = (cr_payload r)\<lparr> case_status := cr_status r, case_updated_at := cr_updated_at r,
       case_budget := \<lparr> cb_max_tool_calls = cr_max_tool_calls r,
         cb_used_tool_calls = cr_used_tool_calls r \<rparr> \<rparr>
     in if case_valid c then Inr c else Inl ValidationError)"

definition get_case :: "string \<Rightarrow> db \<Rightarrow> string \<Rightarrow> error + case_rec" where
  "get_case tenant d cid = bindE (case_row_of tenant d cid) hydrate"

definition put_case :: "string \<Rightarrow> case_row \<Rightarrow> db \<Rightarrow> db" where
  "put_case cid r d = d\<lparr> db_cases := tput cid r (db_cases d) \<rparr>"

text \<open>The revision is a point in time, strictly monotonic even with a frozen clock.\<close>

definition next_update_time :: "time \<Rightarrow> time \<Rightarrow> time" where
  "next_update_time now previous = max now (previous + 1)"

lemma next_update_time_gt [simp]: "previous < next_update_time now previous"
  by (simp add: next_update_time_def max_def)

section \<open>Creation\<close>

definition create_case :: "(string \<Rightarrow> string) \<Rightarrow> string \<Rightarrow> db \<Rightarrow> case_rec \<Rightarrow> string \<Rightarrow> error + db \<times> case_rec" where
  "create_case token_hash tenant d c tool_credential = (
     if case_tenant_id c \<noteq> tenant then Inl CaseAccessError
     else if case_status c \<noteq> Case_NEW \<or> cb_used_tool_calls (case_budget c) \<noteq> 0
       \<or> case_lookup_retry_after c \<noteq> None then Inl CasePolicyError
     else case (tget (token_hash tool_credential) (sim_grants (db_sim d)),
                tget (case_simulation_id c) (sim_simulations (db_sim d))) of
       (Some grant, Some simulation) \<Rightarrow>
         if gr_simulation_id grant \<noteq> case_simulation_id c
           \<or> gr_expires_at grant \<le> si_clock simulation
           \<or> \<not> set (csc_allowed_order_ids (case_scope c)) \<subseteq> {gr_order_id grant}
           \<or> \<not> set (csc_allowed_tools (case_scope c)) \<subseteq> set (gr_allowed_tools grant)
         then Inl CaseAccessError
         else bindE (tadd IntegrityError (case_case_id c)
             \<lparr> cr_tenant_id = case_tenant_id c, cr_simulation_id = case_simulation_id c,
               cr_grant_hash = token_hash tool_credential, cr_payload = c, cr_status = case_status c,
               cr_max_tool_calls = cb_max_tool_calls (case_budget c), cr_used_tool_calls = 0,
               cr_updated_at = case_updated_at c \<rparr> (db_cases d))
           (\<lambda>cases. Inr (d\<lparr> db_cases := cases \<rparr>, c))
     | _ \<Rightarrow> Inl CaseAccessError)"

section \<open>Preconditions and the lease fence\<close>

definition execution_conditions ::
  "string \<Rightarrow> string \<Rightarrow> agent_execution_precondition \<Rightarrow> error + (case_row \<Rightarrow> bool)" where
  "execution_conditions cid tenant p = (
     if aep_case_id p \<noteq> cid \<or> aep_tenant_id p \<noteq> tenant then Inl AgentPreconditionFailed
     else Inr (\<lambda>r. cr_status r = aep_expected_case_status p
       \<and> cr_used_tool_calls r = aep_expected_used_tool_calls p
       \<and> cr_updated_at r = aep_expected_case_updated_at p))"

definition claimed_rows :: "db \<Rightarrow> string \<Rightarrow> (string \<times> work_item_row) list" where
  "claimed_rows d cid = filter (\<lambda>(_, r). wir_case_id r = cid \<and> wir_status r = Ws_CLAIMED) (db_work d)"

definition work_fence :: "string \<Rightarrow> db \<Rightarrow> string \<Rightarrow> agent_execution_precondition option \<Rightarrow> time
    \<Rightarrow> error + unit" where
  "work_fence tenant d cid precondition now = (
     let active = filter (\<lambda>(_, r). wir_tenant_id r = tenant) (claimed_rows d cid);
         fence = (case precondition of None \<Rightarrow> None | Some p \<Rightarrow> aep_work_lease p)
     in case (active, fence) of
       ([], None) \<Rightarrow> Inr ()
     | ((key, r) # _, Some f) \<Rightarrow>
         if key \<noteq> wlp_work_item_id f \<or> wi_claimed_by (wir_payload r) \<noteq> Some (wlp_worker_id f)
           \<or> wi_lease_token (wir_payload r) \<noteq> Some (wlp_lease_token f)
           \<or> (case wir_lease_until r of None \<Rightarrow> True | Some t \<Rightarrow> t \<le> now)
         then Inl AgentPreconditionFailed else Inr ()
     | _ \<Rightarrow> Inl AgentPreconditionFailed)"

section \<open>Tool calls\<close>

definition call_conditions :: "string \<Rightarrow> string \<Rightarrow> agent_execution_precondition option
    \<Rightarrow> error + (case_row \<Rightarrow> bool)" where
  "call_conditions cid tenant precondition = (case precondition of
     None \<Rightarrow> Inr (\<lambda>_. True) | Some p \<Rightarrow> execution_conditions cid tenant p)"

definition can_reserve :: "case_row \<Rightarrow> bool" where
  "can_reserve r = (cr_status r \<in> {Case_NEW, Case_INVESTIGATING}
     \<and> cr_used_tool_calls r < cr_max_tool_calls r)"

definition reserved_row :: "time \<Rightarrow> case_row \<Rightarrow> case_row" where
  "reserved_row now r = r\<lparr> cr_used_tool_calls := cr_used_tool_calls r + 1,
     cr_status := Case_INVESTIGATING, cr_updated_at := next_update_time now (cr_updated_at r) \<rparr>"

text \<open>
  \<open>fence_now\<close> and \<open>now\<close> are the two readings of the clock, by \<open>_work_fence\<close> and by
  \<open>next_update_time\<close>. The unique constraint on (case, sequence) is the last guard. The Case is read
  back after the commit.
\<close>

definition reserve_call :: "string \<Rightarrow> db \<Rightarrow> string \<Rightarrow> tool_name \<Rightarrow> tool_query
    \<Rightarrow> agent_execution_precondition option \<Rightarrow> time \<Rightarrow> time \<Rightarrow> string
    \<Rightarrow> error + db \<times> (error + case_rec) \<times> string" where
  "reserve_call tenant d cid tool query precondition fence_now now call_id =
     bindE (call_conditions cid tenant precondition) (\<lambda>conditions.
     bindE (work_fence tenant d cid precondition fence_now) (\<lambda>_.
     bindE (case_row_of tenant d cid) (\<lambda>row.
     bindE (hydrate row) (\<lambda>c.
       if tq_internal_order_id query \<notin> set (csc_allowed_order_ids (case_scope c)) then Inl CasePolicyError
       else if tool \<notin> set (csc_allowed_tools (case_scope c))
         \<or> tool_name_value tool \<in> set (ccn_forbidden_actions (case_constraints c)) then Inl CasePolicyError
       else if tool \<noteq> Tool_PROTOCOL \<and> (truthy (tq_protocol_version query) \<or> tq_effective_at query \<noteq> None)
         then Inl CasePolicyError
       else if tget cid (db_routes d) \<noteq> None then Inl AgentPreconditionFailed
       else if \<not> (can_reserve row \<and> conditions row)
         then Inl (if precondition = None then CasePolicyError else AgentPreconditionFailed)
       else
         let row' = reserved_row now row; sequence = cr_used_tool_calls row' in
         if \<exists>(_, r) \<in> set (db_calls d). cl_case_id r = cid \<and> cl_sequence r = sequence then Inl IntegrityError
         else bindE (tadd IntegrityError call_id
             \<lparr> cl_dispatch_correlation_id = Some call_id, cl_case_id = cid, cl_sequence = sequence,
               cl_tool = tool, cl_request = query, cl_state = Call_DISPATCHED,
               cl_observation_id = None \<rparr> (db_calls d)) (\<lambda>calls.
           let d' = put_case cid row' (d\<lparr> db_calls := calls \<rparr>)
           in Inr (d', get_case tenant d' cid, call_id))))))"

definition mark_error :: "string \<Rightarrow> db \<Rightarrow> string \<Rightarrow> string \<Rightarrow> error + db" where
  "mark_error tenant d cid call_id = bindE (case_row_of tenant d cid) (\<lambda>_.
     case tget call_id (db_calls d) of
       Some r \<Rightarrow> if cl_case_id r = cid \<and> cl_state r = Call_DISPATCHED
         then Inr (d\<lparr> db_calls := tput call_id (r\<lparr> cl_state := Call_ERROR \<rparr>) (db_calls d) \<rparr>) else Inr d
     | None \<Rightarrow> Inr d)"

section \<open>Pause\<close>

definition paused_row :: "case_status \<Rightarrow> time \<Rightarrow> case_row \<Rightarrow> case_row" where
  "paused_row s now r = r\<lparr> cr_status := s, cr_updated_at := next_update_time now (cr_updated_at r) \<rparr>"

text \<open>
  The Case is read back after the commit, so the outcome of that read comes with the new state.
\<close>

definition pause :: "string \<Rightarrow> db \<Rightarrow> string \<Rightarrow> case_status \<Rightarrow> time \<Rightarrow> error + db \<times> (error + case_rec)" where
  "pause tenant d cid s now = (
     if s \<notin> {Case_WAITING, Case_ESCALATED} then Inl CasePolicyError
     else bindE (case_row_of tenant d cid) (\<lambda>row.
       if is_terminal (cr_status row) then Inl CasePolicyError
       else let d' = put_case cid (paused_row s now row) d in Inr (d', get_case tenant d' cid)))"

end
