(* ===== verification/EffectWork.thy ===== *)
theory EffectWork
  imports CaseRepository
begin

text \<open>
  Durable work (\<open>orchestration/repository.py\<close>, module functions), the scheduling of effect recovery
  (\<open>orchestration/effect_work.py\<close>) and the handoff of a ledger transition
  (\<open>orchestration/handoff.py: effect_handoff\<close>, \<open>recovery/tables.py: synchronize_effect\<close>). All of it
  runs inside the transaction of its caller, which holds the Case lock; a raised error aborts that
  transaction.
\<close>

section \<open>Durable work\<close>

definition ACTIVE :: "work_status list" where
  "ACTIVE = [Ws_PENDING, Ws_READY, Ws_CLAIMED]"

definition RECOVERABLE :: "effect_status list" where
  "RECOVERABLE = [Eff_PREPARED, Eff_DISPATCHED, Eff_ACCEPTED, Eff_UNKNOWN]"

definition LOOKUP_ONLY :: "effect_status list" where
  "LOOKUP_ONLY = [Eff_DISPATCHED, Eff_ACCEPTED, Eff_UNKNOWN]"

text \<open>The keyword arguments of \<open>create_work\<close>.\<close>

record work_spec =
  wsp_work_type :: work_type
  wsp_reason :: work_reason
  wsp_source_ref :: string
  wsp_trigger :: trigger
  wsp_now :: time
  wsp_not_before :: "time option"
  wsp_requirement :: "verification_requirement option"
  wsp_required_signal :: "signal_type option"
  wsp_previous_run_id :: "string option"
  wsp_snapshot_ref :: "string option"
  wsp_wait_seconds :: "int option"
  wsp_verification_requirements :: "verification_requirement list"

definition work_spec :: "work_type \<Rightarrow> work_reason \<Rightarrow> string \<Rightarrow> trigger \<Rightarrow> time \<Rightarrow> work_spec" where
  "work_spec wt reason source trig now = \<lparr> wsp_work_type = wt, wsp_reason = reason,
     wsp_source_ref = source, wsp_trigger = trig, wsp_now = now, wsp_not_before = None,
     wsp_requirement = None, wsp_required_signal = None, wsp_previous_run_id = None,
     wsp_snapshot_ref = None, wsp_wait_seconds = None, wsp_verification_requirements = [] \<rparr>"

definition work_key :: "(jv \<Rightarrow> string) \<Rightarrow> string \<Rightarrow> string \<Rightarrow> work_spec \<Rightarrow> string" where
  "work_key digest cid tenant s = digest (jobj [(''case'', JStr cid), (''tenant'', JStr tenant),
     (''type'', JStr (work_type_value (wsp_work_type s))),
     (''reason'', JStr (work_reason_value (wsp_reason s))), (''source'', JStr (wsp_source_ref s)),
     (''requirement'', jopt (\<lambda>q. JStr (verification_requirement_value q)) (wsp_requirement s)),
     (''snapshot'', jopt JStr (wsp_snapshot_ref s))])"

definition default_state :: "string \<Rightarrow> string \<Rightarrow> case_orchestration_state" where
  "default_state cid tenant = \<lparr> cos_case_id = cid, cos_tenant_id = tenant, cos_budget = default_budget,
     cos_resume_cycle_count = 0, cos_verification_cycle_count = 0, cos_no_progress_count = 0,
     cos_pending_work_count = 0, cos_last_work_item_id = None, cos_last_progress_fingerprint = None,
     cos_last_progress_version = None \<rparr>"

text \<open>\<open>state_in\<close> inserts the default state of a Case that has none.\<close>

definition state_in :: "db \<Rightarrow> string \<Rightarrow> string \<Rightarrow> db \<times> case_orchestration_state" where
  "state_in d cid tenant = (case tget cid (db_orchestration d) of
     Some s \<Rightarrow> (d, s)
   | None \<Rightarrow> (d\<lparr> db_orchestration := tput cid (default_state cid tenant) (db_orchestration d) \<rparr>,
       default_state cid tenant))"

definition save_state :: "string \<Rightarrow> case_orchestration_state \<Rightarrow> db \<Rightarrow> db" where
  "save_state cid s d = d\<lparr> db_orchestration := tput cid s (db_orchestration d) \<rparr>"

definition audit_work :: "case_work_item \<Rightarrow> work_event \<Rightarrow> time \<Rightarrow> work_status option \<Rightarrow> string option
    \<Rightarrow> db \<Rightarrow> db" where
  "audit_work item event now prior worker d = d\<lparr> db_orchestration_audit := db_orchestration_audit d @
     [\<lparr> oaud_work_item_id = wi_work_item_id item, oaud_case_id = wi_case_id item, oaud_event = event,
        oaud_before_status = prior, oaud_after_status = wi_status item, oaud_worker_id = worker,
        oaud_trigger_ref = or_else (wi_signal_id item) (wi_source_ref item),
        oaud_recorded_at = now \<rparr>] \<rparr>"

definition work_row_of :: "case_work_item \<Rightarrow> work_item_row \<Rightarrow> work_item_row" where
  "work_row_of item r = r\<lparr> wir_payload := item, wir_status := wi_status item,
     wir_not_before := wi_not_before item, wir_lease_until := wi_lease_until item \<rparr>"

definition save_work :: "string \<Rightarrow> case_work_item \<Rightarrow> db \<Rightarrow> db" where
  "save_work key item d = (case tget key (db_work d) of
     Some r \<Rightarrow> d\<lparr> db_work := tput key (work_row_of item r) (db_work d) \<rparr> | None \<Rightarrow> d)"

definition the_case :: "db \<Rightarrow> string \<Rightarrow> error + case_row" where
  "the_case d cid = needE AttributeError (tget cid (db_cases d))"

text \<open>The timers a verification of a waiting Case must not overtake.\<close>

definition wait_timers :: "db \<Rightarrow> string \<Rightarrow> case_work_item list" where
  "wait_timers d cid = filter (\<lambda>w. wi_reason_code w = Why_WAIT_REQUESTED)
     (map wir_payload (filter (\<lambda>r. wir_case_id r = cid \<and> wir_status r \<in> {Ws_PENDING, Ws_READY})
       (trows (db_work d))))"

definition spec_not_before :: "db \<Rightarrow> string \<Rightarrow> case_row \<Rightarrow> work_spec \<Rightarrow> time" where
  "spec_not_before d cid row s = (let t = (case wsp_not_before s of None \<Rightarrow> wsp_now s | Some t \<Rightarrow> t)
     in if cr_status row = Case_WAITING \<and> wsp_work_type s = Work_VERIFICATION_REQUIRED
        then fold max (map wi_not_before (wait_timers d cid)) t else t)"

text \<open>A receipt or a report cannot bypass an escalation: its work waits for the operator.\<close>

definition spec_required_signal :: "case_row \<Rightarrow> work_spec \<Rightarrow> signal_type option" where
  "spec_required_signal row s = (if cr_status row = Case_ESCALATED \<and> wsp_required_signal s = None
       \<and> wsp_work_type s \<noteq> Work_RECOVERY_RECHECK then Some Sig_OPERATOR_ACKNOWLEDGED
     else wsp_required_signal s)"

definition new_work :: "string \<Rightarrow> db \<Rightarrow> string \<Rightarrow> case_row \<Rightarrow> work_spec \<Rightarrow> case_work_item" where
  "new_work key d cid row s = \<lparr> wi_work_item_id = key, wi_tenant_id = cr_tenant_id row, wi_case_id = cid,
     wi_work_type = wsp_work_type s,
     wi_status = (if is_terminal (cr_status row) then Ws_CANCELED else Ws_PENDING),
     wi_reason_code = wsp_reason s, wi_source_ref = wsp_source_ref s, wi_trigger = wsp_trigger s,
     wi_expected_case_status = cr_status row, wi_expected_case_revision = cr_updated_at row,
     wi_created_at = wsp_now s, wi_not_before = spec_not_before d cid row s, wi_claimed_by = None,
     wi_lease_until = None, wi_lease_token = None, wi_attempt_count = 0, wi_completed_at = None,
     wi_required_signal = spec_required_signal row s, wi_signal_id = None,
     wi_previous_run_id = wsp_previous_run_id s, wi_run_id = None, wi_resumed_at = None,
     wi_resume_lease_token = None, wi_started_at = None, wi_snapshot_ref = wsp_snapshot_ref s,
     wi_wait_seconds = wsp_wait_seconds s, wi_requirement = wsp_requirement s,
     wi_before_progress_fingerprint = None, wi_after_progress_fingerprint = None,
     wi_before_evidence_fingerprint = None, wi_after_evidence_fingerprint = None,
     wi_verification_requirements = wsp_verification_requirements s, wi_progress_before = None,
     wi_recovery_reads = [], wi_recovery_result = None, wi_recovery_claim_token = None \<rparr>"

text \<open>\<open>_create_work\<close>: the key is a digest of what the work is about, so the same work is created once.\<close>

definition create_work_item :: "(jv \<Rightarrow> string) \<Rightarrow> db \<Rightarrow> string \<Rightarrow> work_spec \<Rightarrow> error + db \<times> case_work_item" where
  "create_work_item digest d cid s = bindE (the_case d cid) (\<lambda>row.
     let key = work_key digest cid (cr_tenant_id row) s in
     case tget key (db_work d) of
       Some old \<Rightarrow> Inr (d, wir_payload old)
     | None \<Rightarrow>
       let (d1, state) = state_in d cid (cr_tenant_id row);
           item = new_work key d cid row s;
           d2 = d1\<lparr> db_work := tput key \<lparr> wir_tenant_id = cr_tenant_id row, wir_case_id = cid,
             wir_status = wi_status item, wir_not_before = wi_not_before item, wir_lease_until = None,
             wir_payload = item \<rparr> (db_work d1) \<rparr>;
           d3 = save_state cid (state\<lparr> cos_last_work_item_id := Some key \<rparr>) d2
       in Inr (audit_work item We_CREATED (wsp_now s) None None d3, item))"

definition cancel_one :: "time \<Rightarrow> string \<times> work_item_row \<Rightarrow> db \<Rightarrow> db" where
  "cancel_one now kr d = (let old = wir_payload (snd kr);
       item = old\<lparr> wi_status := Ws_CANCELED, wi_lease_until := None \<rparr>
     in audit_work item We_CANCELED now (Some (wi_status old)) None (save_work (fst kr) item d))"

definition cancel_terminal_work :: "db \<Rightarrow> string \<Rightarrow> time \<Rightarrow> db" where
  "cancel_terminal_work d cid now = fold (cancel_one now)
     (filter (\<lambda>(_, r). wir_case_id r = cid \<and> wir_status r \<in> set (ACTIVE @ [Ws_BLOCKED])) (db_work d)) d"

definition escalated_row :: "time \<Rightarrow> case_row \<Rightarrow> case_row" where
  "escalated_row now r = r\<lparr> cr_status := Case_ESCALATED, cr_updated_at := max now (cr_updated_at r + 1) \<rparr>"

text \<open>
  \<open>escalate_in\<close>. The \<open>create_work\<close> it ends with is never of type \<open>RECOVERY_RECHECK\<close>, so it is
  \<open>_create_work\<close>; the same holds for every call in this section.
\<close>

definition escalate_in :: "(jv \<Rightarrow> string) \<Rightarrow> db \<Rightarrow> string \<Rightarrow> work_reason \<Rightarrow> string \<Rightarrow> time
    \<Rightarrow> error + db \<times> case_work_item option" where
  "escalate_in digest d cid reason source now = bindE (the_case d cid) (\<lambda>row.
     if is_terminal (cr_status row) then Inr (d, None)
     else bindE (create_work_item digest (put_case cid (escalated_row now row) d) cid
         ((work_spec Work_OPERATOR_FOLLOWUP reason source Trig_RECOVERY now)
           \<lparr> wsp_required_signal := Some Sig_OPERATOR_ACKNOWLEDGED \<rparr>))
       (\<lambda>(d', item). Inr (d', Some item)))"

section \<open>Effect-bound work\<close>

definition effect_binding :: "db \<Rightarrow> string \<Rightarrow> case_row \<Rightarrow> string
    \<Rightarrow> error + side_effect_ledger \<times> effect_recovery_state_row" where
  "effect_binding d cid row effect_id = (case tget effect_id (db_effects d) of
     None \<Rightarrow> Inl OrchestrationError
   | Some e \<Rightarrow>
     if eff_case_id e \<noteq> cid then Inl OrchestrationError
     else case tget effect_id (db_recovery_state d) of
       None \<Rightarrow> Inl OrchestrationError
     | Some st \<Rightarrow>
       if led_effect_id (eff_payload e) \<noteq> effect_id \<or> led_case_id (eff_payload e) \<noteq> cid
         \<or> led_tenant_id (eff_payload e) \<noteq> cr_tenant_id row
         \<or> ers_case_id st \<noteq> cid \<or> ers_tenant_id st \<noteq> cr_tenant_id row
       then Inl OrchestrationError else Inr (eff_payload e, st))"

definition recovery_operator :: "(jv \<Rightarrow> string) \<Rightarrow> db \<Rightarrow> string \<Rightarrow> case_work_item \<Rightarrow> time
    \<Rightarrow> error + db \<times> case_work_item option" where
  "recovery_operator digest d cid work now = bindE (the_case d cid) (\<lambda>row.
     if is_terminal (cr_status row) then Inr (d, None)
     else if cr_status row \<noteq> Case_ESCALATED
       then escalate_in digest d cid Why_EFFECT_UNRESOLVED (wi_work_item_id work) now
     else bindE (create_work_item digest d cid
         ((work_spec Work_OPERATOR_FOLLOWUP Why_EFFECT_UNRESOLVED (wi_work_item_id work) Trig_RECOVERY now)
           \<lparr> wsp_required_signal := Some Sig_OPERATOR_ACKNOWLEDGED \<rparr>))
       (\<lambda>(d', item). Inr (d', Some item)))"

text \<open>The part of \<open>effect_handoff\<close> for a settled effect: a read verification or an operator.\<close>

fun effect_requirement :: "remediation_action_type \<Rightarrow> verification_requirement option" where
  "effect_requirement Act_REPLAY_CALLBACK_CONSUMPTION = Some Q_POST_EFFECT_MESSAGE_STATUS"
| "effect_requirement Act_REDELIVER_ASSET_NOTIFICATION = Some Q_POST_EFFECT_DELIVERY_STATUS"
| "effect_requirement _ = None"

definition settled_spec :: "side_effect_ledger \<Rightarrow> work_spec" where
  "settled_spec l = (
     if led_status l = Eff_APPLIED \<and> effect_requirement (led_action_type l) \<noteq> None
     then (work_spec Work_VERIFICATION_REQUIRED Why_EFFECT_APPLIED (led_effect_id l) Trig_SIDE_EFFECT
         (led_updated_at l))\<lparr> wsp_requirement := effect_requirement (led_action_type l) \<rparr>
     else (work_spec Work_OPERATOR_FOLLOWUP
         (if led_status l = Eff_FAILED_CONFIRMED then Why_EFFECT_FAILED else Why_OPERATOR_REQUIRED)
         (led_effect_id l) Trig_SIDE_EFFECT (led_updated_at l))
         \<lparr> wsp_required_signal := Some Sig_OPERATOR_ACKNOWLEDGED \<rparr>)"

definition handoff_settled :: "(jv \<Rightarrow> string) \<Rightarrow> db \<Rightarrow> side_effect_ledger
    \<Rightarrow> error + db \<times> case_work_item option" where
  "handoff_settled digest d l = (
     if led_status l \<in> {Eff_APPLIED, Eff_FAILED_CONFIRMED}
     then bindE (create_work_item digest d (led_case_id l) (settled_spec l))
       (\<lambda>(d', item). Inr (d', Some item))
     else Inr (d, None))"

definition block_work :: "string \<Rightarrow> case_work_item \<Rightarrow> time \<Rightarrow> db \<Rightarrow> db \<times> case_work_item" where
  "block_work key work now d = (let changed = work\<lparr> wi_status := Ws_BLOCKED, wi_lease_until := None \<rparr>
     in (audit_work changed We_BLOCKED now (Some (wi_status work)) None (save_work key changed d), changed))"

text \<open>\<open>settle\<close> is false only for the guard of a worker that is completing its recovery call.\<close>

definition check_recovery_work :: "(jv \<Rightarrow> string) \<Rightarrow> db \<Rightarrow> string \<Rightarrow> string \<Rightarrow> case_work_item \<Rightarrow> time \<Rightarrow> bool
    \<Rightarrow> error + db \<times> (side_effect_ledger \<times> effect_recovery_state_row) option" where
  "check_recovery_work digest d cid key work now settle = bindE (the_case d cid) (\<lambda>row.
     if binding_mode work \<noteq> Bind_SIDE_EFFECT \<or> wi_case_id work \<noteq> cid
       \<or> wi_tenant_id work \<noteq> cr_tenant_id row then Inl OrchestrationError
     else if is_terminal (cr_status row) then Inr (cancel_terminal_work d cid now, None)
     else case effect_binding d cid row (wi_source_ref work) of
       Inl _ \<Rightarrow>
         let (d1, changed) = block_work key work now d
         in bindE (recovery_operator digest d1 cid changed now) (\<lambda>(d2, _). Inr (d2, None))
     | Inr (l, st) \<Rightarrow>
       if settle \<and> led_status l \<notin> set RECOVERABLE then
         let d1 = (if wi_status work \<noteq> Ws_COMPLETED then
             let changed = work\<lparr> wi_status := Ws_COMPLETED, wi_completed_at := Some now,
                   wi_lease_until := None \<rparr>
             in audit_work changed We_COMPLETED now (Some (wi_status work)) None (save_work key changed d)
           else d)
         in bindE (handoff_settled digest d1 l) (\<lambda>(d2, _). Inr (d2, None))
       else if settle \<and> ers_requires_escalation st then
         let d1 = (if wi_status work \<noteq> Ws_BLOCKED then fst (block_work key work now d) else d)
         in bindE (recovery_operator digest d1 cid work now) (\<lambda>(d2, _). Inr (d2, None))
       else Inr (d, Some (l, st)))"

definition existing_recovery_work :: "db \<Rightarrow> string \<Rightarrow> string \<Rightarrow> (string \<times> work_item_row) option" where
  "existing_recovery_work d cid effect_id = find (\<lambda>(_, r). wir_case_id r = cid
     \<and> wi_work_type (wir_payload r) = Work_RECOVERY_RECHECK
     \<and> wi_source_ref (wir_payload r) = effect_id) (db_work d)"

definition work_payload :: "db \<Rightarrow> string \<Rightarrow> error + case_work_item" where
  "work_payload d key = needE AttributeError (map_option wir_payload (tget key (db_work d)))"

text \<open>The work is new, or a stale cancellation whose effect the policy may still retry.\<close>

definition recheck_spec :: "string \<Rightarrow> time \<Rightarrow> time option \<Rightarrow> effect_recovery_state_row \<Rightarrow> work_spec" where
  "recheck_spec effect_id now not_before st =
     (work_spec Work_RECOVERY_RECHECK Why_EFFECT_UNRESOLVED effect_id Trig_RECOVERY now)
       \<lparr> wsp_not_before := Some (max (case not_before of None \<Rightarrow> now | Some t \<Rightarrow> t)
           (max (ers_next_eligible_at st) (case ers_lease_until st of None \<Rightarrow> 0 | Some t \<Rightarrow> t))) \<rparr>"

definition last_work_event :: "db \<Rightarrow> string \<Rightarrow> string \<Rightarrow> work_event option" where
  "last_work_event d cid work_id = map_option oaud_event (find (\<lambda>a. oaud_case_id a = cid
     \<and> oaud_work_item_id a = work_id) (rev (db_orchestration_audit d)))"

definition may_rearm :: "db \<Rightarrow> string \<Rightarrow> case_work_item \<Rightarrow> effect_recovery_state_row
    \<Rightarrow> recovery_policy option \<Rightarrow> bool" where
  "may_rearm d cid work st policy = (wi_status work = Ws_CANCELED
     \<and> last_work_event d cid (wi_work_item_id work) = Some We_STALE
     \<and> (case policy of None \<Rightarrow> ers_attempt_count st = 0
        | Some p \<Rightarrow> ers_attempt_count st < rpo_max_attempts p)
     \<and> \<not> ers_requires_escalation st \<and> ers_lease_token st = None)"

definition rearmed :: "time \<Rightarrow> effect_recovery_state_row \<Rightarrow> recovery_policy option \<Rightarrow> case_work_item
    \<Rightarrow> case_work_item" where
  "rearmed now st policy work = work\<lparr> wi_status := Ws_PENDING,
     wi_not_before := max now (max (ers_next_eligible_at st) (ers_ledger_updated_at st
       + seconds (case policy of None \<Rightarrow> 0 | Some p \<Rightarrow> rpo_grace_seconds p))),
     wi_claimed_by := None, wi_lease_token := None, wi_lease_until := None,
     wi_recovery_claim_token := None, wi_progress_before := None, wi_recovery_reads := [],
     wi_recovery_result := None \<rparr>"

text \<open>The tail of \<open>ensure_recovery_work\<close>, on the row that exists or has just been created.\<close>

definition continue_recovery_work :: "(jv \<Rightarrow> string) \<Rightarrow> db \<Rightarrow> string \<Rightarrow> string \<Rightarrow> effect_recovery_state_row
    \<Rightarrow> time \<Rightarrow> recovery_policy option \<Rightarrow> error + db \<times> case_work_item option" where
  "continue_recovery_work digest d cid key st now policy = bindE (work_payload d key) (\<lambda>work.
     if wi_status work = Ws_CLAIMED \<and> (case wi_lease_until work of None \<Rightarrow> False | Some t \<Rightarrow> now < t)
     then Inr (d, Some work)
     else bindE (check_recovery_work digest d cid key work now True) (\<lambda>(d1, checked).
       case checked of
         None \<Rightarrow> bindE (work_payload d1 key) (\<lambda>w. Inr (d1, Some w))
       | Some _ \<Rightarrow>
         if wi_status work \<in> set ACTIVE then Inr (d1, Some work)
         else if may_rearm d1 cid work st policy then
           let changed = rearmed now st policy work
           in Inr (audit_work changed We_REARMED now (Some (wi_status work)) None
             (save_work key changed d1), Some changed)
         else Inr (d1, Some work)))"

definition ensure_recovery_work :: "(jv \<Rightarrow> string) \<Rightarrow> db \<Rightarrow> string \<Rightarrow> string \<Rightarrow> time \<Rightarrow> time option
    \<Rightarrow> recovery_policy option \<Rightarrow> error + db \<times> case_work_item option" where
  "ensure_recovery_work digest d cid effect_id now not_before policy = bindE (the_case d cid) (\<lambda>row.
     if is_terminal (cr_status row) then
       (case existing_recovery_work d cid effect_id of
          None \<Rightarrow> Inr (d, None)
        | Some (key, r) \<Rightarrow> bindE (check_recovery_work digest d cid key (wir_payload r) now True) (\<lambda>(d1, _).
            bindE (work_payload d1 key) (\<lambda>w. Inr (d1, Some w))))
     else bindE (effect_binding d cid row effect_id) (\<lambda>(l, st).
       case existing_recovery_work d cid effect_id of
         Some (key, _) \<Rightarrow> continue_recovery_work digest d cid key st now policy
       | None \<Rightarrow>
         if led_status l \<notin> set RECOVERABLE
         then bindE (handoff_settled digest d l) (\<lambda>(d1, _). Inr (d1, None))
         else bindE (create_work_item digest d cid (recheck_spec effect_id now not_before st))
           (\<lambda>(d1, item). continue_recovery_work digest d1 cid (wi_work_item_id item) st now policy)))"

definition create_work :: "(jv \<Rightarrow> string) \<Rightarrow> db \<Rightarrow> string \<Rightarrow> work_spec \<Rightarrow> error + db \<times> case_work_item option" where
  "create_work digest d cid s = (
     if wsp_work_type s = Work_RECOVERY_RECHECK
     then ensure_recovery_work digest d cid (wsp_source_ref s) (wsp_now s) (wsp_not_before s) None
     else bindE (create_work_item digest d cid s) (\<lambda>(d', item). Inr (d', Some item)))"

section \<open>The handoff of a ledger transition\<close>

definition effect_handoff :: "(jv \<Rightarrow> string) \<Rightarrow> db \<Rightarrow> side_effect_ledger
    \<Rightarrow> error + db \<times> case_work_item option" where
  "effect_handoff digest d l = (
     if led_status l \<notin> {Eff_APPLIED, Eff_FAILED_CONFIRMED, Eff_UNKNOWN, Eff_DISPATCHED}
     then Inr (d, None)
     else bindE (the_case d (led_case_id l)) (\<lambda>row.
       if led_status l \<in> {Eff_UNKNOWN, Eff_DISPATCHED} then
         (case tget (led_effect_id l) (db_recovery_state d) of
            None \<Rightarrow> (case tget (led_effect_id l) (db_effects d) of
                None \<Rightarrow> Inl OrchestrationError
              | Some e \<Rightarrow>
                if eff_case_id e \<noteq> led_case_id l \<or> led_tenant_id l \<noteq> cr_tenant_id row \<or> eff_payload e \<noteq> l
                then Inl OrchestrationError
                else case existing_recovery_work d (led_case_id l) (led_effect_id l) of
                  Some (_, r) \<Rightarrow> Inr (d, Some (wir_payload r))
                | None \<Rightarrow> bindE (create_work_item digest d (led_case_id l)
                    ((work_spec Work_RECOVERY_RECHECK Why_EFFECT_UNRESOLVED (led_effect_id l)
                        Trig_RECOVERY (led_updated_at l))
                      \<lparr> wsp_not_before := Some (led_updated_at l + seconds 30) \<rparr>))
                    (\<lambda>(d', item). Inr (d', Some item)))
          | Some _ \<Rightarrow> ensure_recovery_work digest d (led_case_id l) (led_effect_id l) (led_updated_at l)
              (Some (led_updated_at l + seconds 30)) None)
       else handoff_settled digest d l))"

definition synchronize_effect :: "(jv \<Rightarrow> string) \<Rightarrow> db \<Rightarrow> side_effect_ledger \<Rightarrow> error + db" where
  "synchronize_effect digest d l = (
     let old = tget (led_effect_id l) (db_recovery_state d) in
     bindE (effect_handoff digest d l) (\<lambda>(d1, _).
       Inr (d1\<lparr> db_recovery_state := tput (led_effect_id l) (case old of
         None \<Rightarrow> \<lparr> ers_tenant_id = led_tenant_id l, ers_case_id = led_case_id l,
           ers_status = led_status l, ers_ledger_updated_at = led_updated_at l,
           ers_next_eligible_at = led_updated_at l, ers_lease_owner = None, ers_lease_until = None,
           ers_lease_token = None, ers_attempt_count = 0, ers_requires_escalation = False \<rparr>
       | Some st \<Rightarrow> st\<lparr> ers_status := led_status l, ers_ledger_updated_at := led_updated_at l,
           ers_requires_escalation := (if led_status l \<in> set RECOVERABLE
             then ers_requires_escalation st else False) \<rparr>) (db_recovery_state d1) \<rparr>)))"

section \<open>What the scheduling may change\<close>

text \<open>
  The scheduling writes work, orchestration state and audit, and of a Case only its status and
  revision, and that only to escalate an open Case. A work row keeps its identity and type.
\<close>

definition case_kept :: "case_row \<Rightarrow> case_row \<Rightarrow> bool" where
  "case_kept r r' = (r' = r \<or> (\<not> is_terminal (cr_status r)
     \<and> (\<exists>t>cr_updated_at r. r' = r\<lparr> cr_status := Case_ESCALATED, cr_updated_at := t \<rparr>)))"

definition work_kept :: "work_item_row \<Rightarrow> work_item_row \<Rightarrow> bool" where
  "work_kept r r' = (wir_tenant_id r' = wir_tenant_id r \<and> wir_case_id r' = wir_case_id r
     \<and> wi_work_item_id (wir_payload r') = wi_work_item_id (wir_payload r)
     \<and> wi_case_id (wir_payload r') = wi_case_id (wir_payload r)
     \<and> wi_tenant_id (wir_payload r') = wi_tenant_id (wir_payload r)
     \<and> wi_work_type (wir_payload r') = wi_work_type (wir_payload r)
     \<and> wi_source_ref (wir_payload r') = wi_source_ref (wir_payload r))"

definition cases_kept :: "db \<Rightarrow> db \<Rightarrow> bool" where
  "cases_kept d d' = (\<forall>k. rel_option case_kept (tget k (db_cases d)) (tget k (db_cases d')))"

text \<open>A well-formed queue: the columns of a row repeat its payload.\<close>

definition work_row_ok :: "string \<Rightarrow> work_item_row \<Rightarrow> bool" where
  "work_row_ok k r = (let w = wir_payload r in wi_work_item_id w = k \<and> wir_status r = wi_status w
     \<and> wir_not_before r = wi_not_before w \<and> wir_lease_until r = wi_lease_until w
     \<and> wir_case_id r = wi_case_id w \<and> wir_tenant_id r = wi_tenant_id w)"

definition work_ok :: "db \<Rightarrow> bool" where
  "work_ok d = (tkeys_distinct (db_work d)
     \<and> (\<forall>k r. tget k (db_work d) = Some r \<longrightarrow> work_row_ok k r))"

text \<open>No work is claimed by the scheduling.\<close>

definition works_kept :: "db \<Rightarrow> db \<Rightarrow> bool" where
  "works_kept d d' = ((\<forall>k r. tget k (db_work d) = Some r \<longrightarrow>
     (\<exists>r'. tget k (db_work d') = Some r' \<and> work_kept r r'))
   \<and> (\<forall>k r'. tget k (db_work d') = Some r' \<and> wir_status r' = Ws_CLAIMED \<longrightarrow> tget k (db_work d) = Some r')
   \<and> (if work_ok d then work_ok d' else True))"

definition core_kept :: "db \<Rightarrow> db \<Rightarrow> bool" where
  "core_kept = same_but {T_cases, T_work, T_orchestration, T_orchestration_audit}"

definition scheduled :: "db \<Rightarrow> db \<Rightarrow> bool" where
  "scheduled d d' = (core_kept d d' \<and> cases_kept d d' \<and> works_kept d d')"

lemma case_kept_trans: "case_kept a b \<Longrightarrow> case_kept b c \<Longrightarrow> case_kept a c"
  unfolding case_kept_def by (elim disjE conjE exE) (auto intro: less_trans)

lemma work_kept_refl [simp]: "work_kept r r"
  by (simp add: work_kept_def)

lemma case_kept_refl [simp]: "case_kept r r"
  by (simp add: case_kept_def)

lemma cases_kept_refl [simp]: "cases_kept d d" and works_kept_refl [simp]: "works_kept d d"
  by (simp_all add: cases_kept_def works_kept_def option.rel_refl)

lemma scheduled_refl [simp]: "scheduled d d"
  by (simp add: scheduled_def core_kept_def)

lemma scheduled_core: "scheduled d d' \<Longrightarrow> core_kept d d'"
  by (simp add: scheduled_def)

lemma scheduled_frame [frame_laws]:
  assumes "scheduled d d'"
  shows "db_sim d' = db_sim d" "db_calls d' = db_calls d" "db_evidence d' = db_evidence d"
    "db_origins d' = db_origins d" "db_intents d' = db_intents d" "db_approvals d' = db_approvals d"
    "db_capabilities d' = db_capabilities d" "db_signatures d' = db_signatures d" "db_effects d' = db_effects d"
    "db_authorization_audit d' = db_authorization_audit d" "db_recovery_state d' = db_recovery_state d" "db_attempts d' = db_attempts d"
    "db_recovery_audit d' = db_recovery_audit d" "db_read_recovery d' = db_read_recovery d" "db_signals d' = db_signals d"
    "db_reports d' = db_reports d" "db_handoffs d' = db_handoffs d" "db_closures d' = db_closures d"
    "db_routes d' = db_routes d" "db_runs d' = db_runs d" "db_checkpoints d' = db_checkpoints d"
  using scheduled_core [OF assms] by (simp_all add: core_kept_def same_but_iff)

lemma cases_kept_trans: "cases_kept a b \<Longrightarrow> cases_kept b c \<Longrightarrow> cases_kept a c"
  unfolding cases_kept_def
proof (intro allI)
  fix k
  assume "\<forall>k. rel_option case_kept (tget k (db_cases a)) (tget k (db_cases b))"
    and "\<forall>k. rel_option case_kept (tget k (db_cases b)) (tget k (db_cases c))"
  then have "rel_option case_kept (tget k (db_cases a)) (tget k (db_cases b))"
    and "rel_option case_kept (tget k (db_cases b)) (tget k (db_cases c))" by blast+
  then show "rel_option case_kept (tget k (db_cases a)) (tget k (db_cases c))"
    by (cases "tget k (db_cases a)"; cases "tget k (db_cases b)"; cases "tget k (db_cases c)")
      (auto intro: case_kept_trans)
qed

lemma work_kept_trans: "work_kept a b \<Longrightarrow> work_kept b c \<Longrightarrow> work_kept a c"
  by (simp add: work_kept_def)

lemma works_kept_trans:
  assumes "works_kept a b" and "works_kept b c"
  shows "works_kept a c"
proof -
  have "\<exists>r'. tget k (db_work c) = Some r' \<and> work_kept r r'" if "tget k (db_work a) = Some r" for k r
    using assms that unfolding works_kept_def by (blast intro: work_kept_trans)
  moreover have "tget k (db_work a) = Some r"
    if "tget k (db_work c) = Some r" "wir_status r = Ws_CLAIMED" for k r
    using assms that unfolding works_kept_def by blast
  moreover have "work_ok c" if "work_ok a" using assms that unfolding works_kept_def by simp
  ultimately show ?thesis unfolding works_kept_def by simp
qed

lemma core_kept_trans: "core_kept a b \<Longrightarrow> core_kept b c \<Longrightarrow> core_kept a c"
  unfolding core_kept_def using same_but_trans by fastforce

lemma scheduled_trans [trans]: "scheduled a b \<Longrightarrow> scheduled b c \<Longrightarrow> scheduled a c"
  unfolding scheduled_def by (blast intro: cases_kept_trans works_kept_trans core_kept_trans)

lemma scheduled_case:
  assumes "scheduled d d'" and "tget k (db_cases d) = Some r"
  obtains r' where "tget k (db_cases d') = Some r'" "case_kept r r'"
  using assms unfolding scheduled_def cases_kept_def by (metis option_rel_Some1)

text \<open>The steps the scheduling is made of.\<close>

lemma scheduled_other:
  assumes "db_work d' = db_work d" and "db_cases d' = db_cases d" and "core_kept d d'"
  shows "scheduled d d'"
  using assms by (simp add: scheduled_def cases_kept_def works_kept_def work_ok_def option.rel_refl)

lemma scheduled_state: "scheduled d (d\<lparr> db_orchestration := x \<rparr>)"
  and scheduled_audit: "scheduled d (audit_work item ev now before worker d)"
  and scheduled_save_state: "scheduled d (save_state cid st d)"
  and scheduled_state_in: "scheduled d (fst (state_in d cid tenant))"
  by (rule scheduled_other; simp add: core_kept_def same_but_iff audit_work_def save_state_def state_in_def
      split: option.split)+

lemma scheduled_escalate:
  assumes "tget cid (db_cases d) = Some row" and "\<not> is_terminal (cr_status row)"
  shows "scheduled d (put_case cid (escalated_row now row) d)"
  using assms
  by (auto simp: scheduled_def core_kept_def same_but_iff cases_kept_def works_kept_def put_case_def case_kept_def
      work_ok_def escalated_row_def option.rel_refl intro!: exI [of _ "max now (cr_updated_at row + 1)"])

text \<open>An item may be saved over its row when it keeps the row's identity.\<close>

definition keeps_identity :: "db \<Rightarrow> string \<Rightarrow> case_work_item \<Rightarrow> bool" where
  "keeps_identity d key item = (\<forall>r. tget key (db_work d) = Some r \<longrightarrow> work_kept r (work_row_of item r))"

lemma work_row_of_ok: "work_row_ok k r \<Longrightarrow> work_kept r (work_row_of item r) \<Longrightarrow> work_row_ok k (work_row_of item r)"
  by (simp add: work_row_ok_def work_kept_def work_row_of_def Let_def)

lemma scheduled_save_work:
  assumes "keeps_identity d key item" and "wi_status item \<noteq> Ws_CLAIMED"
  shows "scheduled d (save_work key item d)"
proof (cases "tget key (db_work d)")
  case None
  then show ?thesis by (simp add: save_work_def)
next
  case (Some r)
  then have kept: "work_kept r (work_row_of item r)" using assms(1) by (simp add: keeps_identity_def)
  have st: "wir_status (work_row_of item r) \<noteq> Ws_CLAIMED" using assms(2) by (simp add: work_row_of_def)
  let ?d = "d\<lparr> db_work := tput key (work_row_of item r) (db_work d) \<rparr>"
  have "work_ok ?d" if "work_ok d"
    using that Some work_row_of_ok [OF _ kept] by (auto simp: work_ok_def)
  then have "works_kept d ?d" using Some kept st by (auto simp: works_kept_def)
  then show ?thesis
    using Some by (simp add: save_work_def scheduled_def core_kept_def same_but_iff cases_kept_def option.rel_refl)
qed

lemma scheduled_new_work:
  assumes "tget key (db_work d) = None" and "work_row_ok key r" and "wir_status r \<noteq> Ws_CLAIMED"
  shows "scheduled d (d\<lparr> db_work := tput key r (db_work d) \<rparr>)"
  using assms by (auto simp: scheduled_def core_kept_def same_but_iff cases_kept_def works_kept_def work_ok_def option.rel_refl)

lemma create_work_item_scheduled:
  assumes "create_work_item digest d cid s = Inr (d', item)"
  shows "scheduled d d'"
proof -
  obtain row where row: "the_case d cid = Inr row"
    using assms by (auto simp: create_work_item_def bindE_Inr_iff)
  let ?key = "work_key digest cid (cr_tenant_id row) s"
  show ?thesis
  proof (cases "tget ?key (db_work d)")
    case (Some old)
    with assms row show ?thesis by (simp add: create_work_item_def)
  next
    case None
    obtain d1 st where st: "state_in d cid (cr_tenant_id row) = (d1, st)" by fastforce
    have d1: "scheduled d d1" using scheduled_state_in [of d cid "cr_tenant_id row"] st by simp
    have work: "db_work d1 = db_work d" using st by (auto simp: state_in_def split: option.splits)
    note d1
    also have "scheduled d1 (d1\<lparr> db_work := tput ?key \<lparr> wir_tenant_id = cr_tenant_id row,
        wir_case_id = cid, wir_status = wi_status (new_work ?key d cid row s),
        wir_not_before = wi_not_before (new_work ?key d cid row s), wir_lease_until = None,
        wir_payload = new_work ?key d cid row s \<rparr> (db_work d1) \<rparr>)"
      by (rule scheduled_new_work) (simp_all add: None work work_row_ok_def new_work_def)
    also note scheduled_save_state
    also note scheduled_audit
    finally show ?thesis
      using assms row None st by (auto simp: create_work_item_def Let_def)
  qed
qed


lemma scheduled_work_ok: "scheduled d d' \<Longrightarrow> work_ok d \<Longrightarrow> work_ok d'"
  by (simp add: scheduled_def works_kept_def)

lemma work_ok_cong: "db_work d' = db_work d \<Longrightarrow> work_ok d \<Longrightarrow> work_ok d'"
  by (simp add: work_ok_def)

lemma scheduled_claimed:
  "scheduled d d' \<Longrightarrow> tget k (db_work d') = Some r \<Longrightarrow> wir_status r = Ws_CLAIMED \<Longrightarrow> tget k (db_work d) = Some r"
  by (simp add: scheduled_def works_kept_def)

lemma keeps_identity_scheduled:
  assumes "scheduled d d'" and "tget key (db_work d) = Some r" and "work_kept r (work_row_of item r)"
  shows "keeps_identity d' key item"
  using assms unfolding keeps_identity_def scheduled_def works_kept_def
  by (fastforce simp: work_kept_def work_row_of_def)

lemma tget_member: "tkeys_distinct t \<Longrightarrow> (k, r) \<in> set t \<Longrightarrow> tget k t = Some r"
  by (simp add: tget_def tkeys_distinct_def)

lemma cancel_terminal_work_scheduled:
  assumes "work_ok d"
  shows "scheduled d (cancel_terminal_work d cid now)"
proof -
  have "scheduled d (fold (cancel_one now) rows d1)"
    if "scheduled d d1" and "\<forall>(k, r) \<in> set rows. tget k (db_work d) = Some r" for rows d1
    using that
  proof (induction rows arbitrary: d1)
    case (Cons kr rows)
    obtain k r where kr: "kr = (k, r)" by (cases kr)
    have "scheduled d1 (cancel_one now kr d1)"
      unfolding cancel_one_def Let_def kr fst_conv snd_conv
      by (rule scheduled_trans [OF scheduled_save_work scheduled_audit],
          rule keeps_identity_scheduled [OF Cons.prems(1)])
        (use Cons.prems(2) in \<open>auto simp: kr work_kept_def work_row_of_def\<close>)
    from scheduled_trans [OF Cons.prems(1) this] Cons.prems(2) show ?case
      by (auto intro: Cons.IH)
  qed simp
  note cancelled = this [OF scheduled_refl]
  show ?thesis
    unfolding cancel_terminal_work_def by (rule cancelled) (use assms in \<open>auto simp: work_ok_def intro!: tget_member\<close>)
qed

lemma escalate_in_scheduled:
  "escalate_in digest d cid reason source now = Inr (d', x) \<Longrightarrow> scheduled d d'"
  by (auto simp: escalate_in_def bindE_Inr_iff the_case_def split: if_splits
      dest!: create_work_item_scheduled intro: scheduled_trans [OF scheduled_escalate])

lemma recovery_operator_scheduled:
  "recovery_operator digest d cid work now = Inr (d', x) \<Longrightarrow> scheduled d d'"
  by (auto simp: recovery_operator_def bindE_Inr_iff the_case_def split: if_splits
      dest: create_work_item_scheduled escalate_in_scheduled)

lemma handoff_settled_scheduled:
  "handoff_settled digest d l = Inr (d', x) \<Longrightarrow> scheduled d d'"
  by (auto simp: handoff_settled_def bindE_Inr_iff split: if_splits dest: create_work_item_scheduled)

lemma saved_scheduled:
  assumes "keeps_identity d key item" and "wi_status item \<noteq> Ws_CLAIMED"
  shows "scheduled d (audit_work i ev now before worker (save_work key item d))"
  using scheduled_trans [OF scheduled_save_work [OF assms] scheduled_audit] .

lemma block_work_scheduled:
  assumes "keeps_identity d key work" and "block_work key work now d = (d', changed)"
  shows "scheduled d d'"
  using assms by (auto simp: block_work_def Let_def intro!: saved_scheduled)
    (simp add: keeps_identity_def work_kept_def work_row_of_def)

lemma check_recovery_work_scheduled:
  assumes "check_recovery_work digest d cid key work now settle = Inr (d', x)"
    and "work_ok d" and "keeps_identity d key work"
  shows "scheduled d d'"
proof -
  have fin: "keeps_identity d key (work\<lparr> wi_status := Ws_COMPLETED, wi_completed_at := t, wi_lease_until := None \<rparr>)" for t
    using assms(3) by (simp add: keeps_identity_def work_kept_def work_row_of_def)
  have blocked: "scheduled d (fst (block_work key work now d))"
    using block_work_scheduled [OF assms(3)] by (metis prod.collapse)
  show ?thesis
    using assms(1)
    unfolding check_recovery_work_def bindE_Inr_iff
    by (auto simp: Let_def bindE_Inr_iff split: if_splits sum.splits option.splits prod.splits
        intro: cancel_terminal_work_scheduled [OF assms(2)]
        dest!: recovery_operator_scheduled handoff_settled_scheduled block_work_scheduled [OF assms(3)]
        intro: scheduled_trans [OF saved_scheduled [OF fin]] scheduled_trans
          scheduled_trans [OF blocked])
qed


lemma own_payload: "tget key (db_work d) = Some r \<Longrightarrow> keeps_identity d key (wir_payload r)"
  by (simp add: keeps_identity_def work_kept_def work_row_of_def)

lemma existing_recovery_work_Some:
  assumes "existing_recovery_work d cid effect_id = Some (key, r)" and "work_ok d"
  shows "tget key (db_work d) = Some r"
  using assms tget_member by (fastforce simp: work_ok_def existing_recovery_work_def find_Some_iff in_set_conv_nth)

lemma work_payload_Inr [simp]:
  "work_payload d key = Inr w \<longleftrightarrow> (\<exists>r. tget key (db_work d) = Some r \<and> w = wir_payload r)"
  by (auto simp: work_payload_def)

lemma continue_recovery_work_scheduled:
  assumes "continue_recovery_work digest d cid key st now policy = Inr (d', x)"
    and "work_ok d"
  shows "scheduled d d'"
proof -
  obtain r where r: "tget key (db_work d) = Some r"
    using assms(1) by (auto simp: continue_recovery_work_def bindE_Inr_iff)
  have rearm: "scheduled d1 (audit_work i ev t before worker (save_work key (rearmed now st policy (wir_payload r)) d1))"
    if "scheduled d d1" for d1 i ev t before worker
    using keeps_identity_scheduled [OF that r, of "rearmed now st policy (wir_payload r)"]
    by (intro saved_scheduled) (simp_all add: work_kept_def work_row_of_def rearmed_def)
  show ?thesis
    using assms(1) r
    by (auto simp: continue_recovery_work_def bindE_Inr_iff Let_def split: if_splits option.splits
        dest!: check_recovery_work_scheduled [OF _ assms(2) own_payload [OF r]]
        intro: scheduled_trans [OF _ rearm])
qed

lemma ensure_recovery_work_scheduled:
  assumes "ensure_recovery_work digest d cid effect_id now not_before policy = Inr (d', x)"
    and "work_ok d"
  shows "scheduled d d'"
  using assms(1)
  unfolding ensure_recovery_work_def bindE_Inr_iff
  by (auto simp: bindE_Inr_iff split: if_splits option.splits prod.splits
      dest: check_recovery_work_scheduled [OF _ assms(2) own_payload]
        existing_recovery_work_Some [OF _ assms(2)] handoff_settled_scheduled
        continue_recovery_work_scheduled [OF _ assms(2)]
      dest!: create_work_item_scheduled
      intro: scheduled_trans [OF _ continue_recovery_work_scheduled [OF _ scheduled_work_ok [OF _ assms(2)]]])

lemma effect_handoff_scheduled:
  assumes "effect_handoff digest d l = Inr (d', x)" and "work_ok d"
  shows "scheduled d d'"
  using assms(1)
  unfolding effect_handoff_def
  by (auto simp: bindE_Inr_iff split: if_splits option.splits prod.splits
      dest: ensure_recovery_work_scheduled [OF _ assms(2)] handoff_settled_scheduled
        create_work_item_scheduled)

lemma create_work_scheduled:
  assumes "create_work digest d cid s = Inr (d', x)" and "work_ok d"
  shows "scheduled d d'"
  using assms(1)
  by (auto simp: create_work_def bindE_Inr_iff split: if_splits
      dest: ensure_recovery_work_scheduled [OF _ assms(2)] create_work_item_scheduled)

text \<open>
  The contract of the ledger's writers with the handoff: publishing a ledger entry schedules, and
  then only touches the recovery row of that effect, which it gives the status of the entry.
\<close>

lemma synchronize_effect_Inr:
  assumes "synchronize_effect digest d l = Inr d'" and "work_ok d"
  obtains d1 st where "scheduled d d1"
    and "d' = d1\<lparr> db_recovery_state := tput (led_effect_id l) st (db_recovery_state d) \<rparr>"
    and "ers_status st = led_status l"
    and "case tget (led_effect_id l) (db_recovery_state d) of
      None \<Rightarrow> ers_case_id st = led_case_id l \<and> ers_lease_token st = None \<and> ers_attempt_count st = 0
    | Some old \<Rightarrow> ers_case_id st = ers_case_id old \<and> ers_lease_token st = ers_lease_token old
        \<and> ers_lease_owner st = ers_lease_owner old \<and> ers_lease_until st = ers_lease_until old
        \<and> ers_attempt_count st = ers_attempt_count old"
proof -
  obtain d1 x where h: "effect_handoff digest d l = Inr (d1, x)"
    using assms(1) by (auto simp: synchronize_effect_def bindE_Inr_iff)
  have s: "scheduled d d1" by (rule effect_handoff_scheduled [OF h assms(2)])
  show thesis
    using assms(1) h scheduled_frame [OF s] that [OF s]
    by (cases "tget (led_effect_id l) (db_recovery_state d)")
      (auto simp: synchronize_effect_def bindE_Inr_iff)
qed


text \<open>
  The interface the ledger's writers use: a row is written by its key, and the new entry is
  published in the same transaction. The publisher promises not to touch the ledger itself.
\<close>

locale published_ledger =
  fixes entry :: "'db \<Rightarrow> 'k \<Rightarrow> 'row option"
    and store :: "'k \<Rightarrow> 'row \<Rightarrow> 'db \<Rightarrow> 'db"
    and publish :: "'db \<Rightarrow> 'l \<Rightarrow> 'e + 'db"
    and ok :: "'db \<Rightarrow> bool"
  assumes entry_store: "entry (store k r d) j = (if j = k then Some r else entry d j)"
    and ok_store: "ok d \<Longrightarrow> ok (store k r d)"
    and publish_entry: "publish d l = Inr d' \<Longrightarrow> ok d \<Longrightarrow> entry d' k = entry d k"
    and publish_ok: "publish d l = Inr d' \<Longrightarrow> ok d \<Longrightarrow> ok d'"
begin

lemma store_publish:
  assumes "publish (store k r d) l = Inr d'" and "ok d"
  shows "entry d' j = (if j = k then Some r else entry d j)"
  using publish_entry [OF assms(1) ok_store [OF assms(2)]] by (simp add: entry_store)

lemma store_publish_ok: "publish (store k r d) l = Inr d' \<Longrightarrow> ok d \<Longrightarrow> ok d'"
  using publish_ok ok_store by blast

end

definition write_effect :: "string \<Rightarrow> effect_row \<Rightarrow> db \<Rightarrow> db" where
  "write_effect k r d = d\<lparr> db_effects := tput k r (db_effects d) \<rparr>"

interpretation ledger: published_ledger "\<lambda>d k. tget k (db_effects d)" write_effect
  "synchronize_effect digest" work_ok for digest
proof
  fix d d' l k
  assume "synchronize_effect digest d l = Inr d'" and "work_ok d"
  then show "tget k (db_effects d') = tget k (db_effects d)" "work_ok d'"
    by (auto elim!: synchronize_effect_Inr simp: scheduled_frame
        intro: work_ok_cong [OF _ scheduled_work_ok])
qed (simp_all add: write_effect_def work_ok_def)

end
