(* ===== verification/Authorization.thy ===== *)
theory Authorization
  imports EffectWork
begin

text \<open>
  Approvals, capabilities and the side-effect ledger (\<open>authorization/commands.py\<close>,
  \<open>authorization/signing.py\<close>, \<open>authorization/store.py\<close>). Every method of \<open>SQLApprovalStore\<close> is one
  transaction under the Case lock. \<open>now\<close> is the reading of the injected clock, \<open>wall\<close> the one
  \<open>next_update_time\<close> takes; fresh identifiers are arguments.
\<close>

section \<open>Commands\<close>

definition command_scope_for :: "remediation_intent \<Rightarrow> command_scope" where
  "command_scope_for i = \<lparr> cmd_tenant_id = ri_tenant_id i, cmd_case_id = ri_case_id i,
     cmd_internal_order_id = ri_internal_order_id i \<rparr>"

text \<open>
  \<open>DomainCommandBuilder.for_intent\<close>. A missing reference is a validation error of the command, as is
  a model alias.
\<close>

definition for_intent :: "remediation_intent \<Rightarrow> error + domain_command option" where
  "for_intent i = (let s = command_scope_for i; t = ri_target i;
       checked = (\<lambda>c. if command_valid c then Inr (Some c) else Inl ValidationError)
     in case ri_action_type i of
       Act_NO_REMEDIATION \<Rightarrow> Inr None
     | Act_REPLAY_CALLBACK_CONSUMPTION \<Rightarrow>
         (case (rtg_message_ref t, rtg_callback_event_ref t) of
            (Some m, Some c) \<Rightarrow> checked (ReplayCallbackCommand s m c) | _ \<Rightarrow> Inl ValidationError)
     | Act_REDELIVER_ASSET_NOTIFICATION \<Rightarrow>
         (case rtg_delivery_ref t of
            Some r \<Rightarrow> checked (RedeliverAssetNotificationCommand s r) | None \<Rightarrow> Inl ValidationError)
     | Act_CREATE_RECONCILIATION_TASK \<Rightarrow> checked (CreateReconciliationTaskCommand s)
     | Act_REQUEST_OPERATOR_REVIEW \<Rightarrow> checked (RequestOperatorReviewCommand s))"

definition payload_hash :: "(jv \<Rightarrow> string) \<Rightarrow> remediation_intent \<Rightarrow> error + string" where
  "payload_hash digest i = bindE (for_intent i) (\<lambda>c. Inr (digest (case c of
     Some cmd \<Rightarrow> command_json cmd | None \<Rightarrow> jobj [(''noop_target'', target_json (ri_target i))])))"

definition build_command :: "(jv \<Rightarrow> string) \<Rightarrow> remediation_intent \<Rightarrow> execution_capability
    \<Rightarrow> error + domain_command option" where
  "build_command digest i cap = (
     if ri_intent_id i \<noteq> xc_intent_id cap \<or> ri_case_id i \<noteq> xc_case_id cap
       \<or> ri_tenant_id i \<noteq> xc_tenant_id cap \<or> ri_internal_order_id i \<noteq> xc_internal_order_id cap
       \<or> ri_action_type i \<noteq> xc_action_type cap
     then Inl (AuthorizationError Auth_CAPABILITY_SCOPE_MISMATCH)
     else if digest (target_json (ri_target i)) \<noteq> xc_target_hash cap
     then Inl (AuthorizationError Auth_CAPABILITY_TARGET_MISMATCH)
     else bindE (payload_hash digest i) (\<lambda>h.
       if h \<noteq> xc_payload_hash cap then Inl (AuthorizationError Auth_CAPABILITY_PAYLOAD_MISMATCH)
       else for_intent i))"

text \<open>Snapshot and intent are not part of the key: new evidence must not rename the same effect.\<close>

definition effect_key :: "(jv \<Rightarrow> string) \<Rightarrow> execution_capability \<Rightarrow> string" where
  "effect_key digest cap = digest (jobj [(''tenant'', JStr (xc_tenant_id cap)),
     (''case'', JStr (xc_case_id cap)), (''order'', JStr (xc_internal_order_id cap)),
     (''action'', JStr (remediation_action_type_value (xc_action_type cap))),
     (''target_hash'', JStr (xc_target_hash cap))])"

section \<open>Signatures\<close>

definition capability_json :: "execution_capability \<Rightarrow> jv" where
  "capability_json c = jobj [(''capability_id'', JStr (xc_capability_id c)),
     (''intent_id'', JStr (xc_intent_id c)), (''tenant_id'', JStr (xc_tenant_id c)),
     (''case_id'', JStr (xc_case_id c)), (''internal_order_id'', JStr (xc_internal_order_id c)),
     (''action_type'', JStr (remediation_action_type_value (xc_action_type c))),
     (''target_hash'', JStr (xc_target_hash c)), (''payload_hash'', JStr (xc_payload_hash c)),
     (''snapshot_id'', JStr (xc_snapshot_id c)), (''evidence_hash'', JStr (xc_evidence_hash c)),
     (''preflight_fingerprint'', JStr (xc_preflight_fingerprint c)),
     (''approval_id'', jopt JStr (xc_approval_id c)), (''policy_version'', JStr (xc_policy_version c)),
     (''catalog_version'', JStr (xc_catalog_version c)),
     (''authorization_policy_version'', JStr (xc_authorization_policy_version c)),
     (''expected_case_revision'', JInt (xc_expected_case_revision c)),
     (''issued_at'', JInt (xc_issued_at c)), (''expires_at'', JInt (xc_expires_at c)),
     (''max_effects'', JInt 1)]"

text \<open>\<open>hmac\<close> is HMAC-SHA256 under the deployment's secret.\<close>

definition sign_capability :: "(jv \<Rightarrow> string) \<Rightarrow> execution_capability \<Rightarrow> signed_execution_capability" where
  "sign_capability hmac c = \<lparr> sxc_payload = c, sxc_signature = hmac (capability_json c) \<rparr>"

definition verify_capability :: "(jv \<Rightarrow> string) \<Rightarrow> signed_execution_capability
    \<Rightarrow> error + execution_capability" where
  "verify_capability hmac t = (
     if sxc_signature (sign_capability hmac (sxc_payload t)) \<noteq> sxc_signature t
     then Inl (AuthorizationError Auth_INVALID_CAPABILITY) else Inr (sxc_payload t))"

section \<open>Shared guards of the store\<close>

definition approval_from_row :: "approval_row \<Rightarrow> time \<Rightarrow> approval_request" where
  "approval_from_row r now = (let a = (apr_payload r)\<lparr> ar_status := apr_status r \<rparr>
     in if ar_status a \<in> {Apv_PENDING, Apv_APPROVED} \<and> ar_expires_at a \<le> now
        then a\<lparr> ar_status := Apv_EXPIRED \<rparr> else a)"

definition lock_case :: "error \<Rightarrow> string \<Rightarrow> db \<Rightarrow> string \<Rightarrow> error + case_row" where
  "lock_case e tenant d cid = (case case_row_of tenant d cid of Inl _ \<Rightarrow> Inl e | Inr r \<Rightarrow> Inr r)"

abbreviation lock_authorized :: "string \<Rightarrow> db \<Rightarrow> string \<Rightarrow> error + case_row" where
  "lock_authorized \<equiv> lock_case (AuthorizationError Auth_CAPABILITY_SCOPE_MISMATCH)"

definition require_open :: "case_row \<Rightarrow> error + unit" where
  "require_open r = (if is_terminal (cr_status r) then Inl (AuthorizationError Auth_ACTION_NOT_ALLOWED)
     else Inr ())"

definition get_intent :: "string \<Rightarrow> db \<Rightarrow> string \<Rightarrow> error + remediation_intent" where
  "get_intent tenant d iid = bindE (needE (AuthorizationError Auth_STALE_AUTHORIZATION)
       (tget iid (db_intents d))) (\<lambda>r.
     bindE (case_row_of tenant d (ain_case_id r)) (\<lambda>_. Inr (ain_payload r)))"

definition save_intent :: "remediation_intent \<Rightarrow> db \<Rightarrow> error + db" where
  "save_intent i d = (case tget (ri_intent_id i) (db_intents d) of
     None \<Rightarrow> Inr (d\<lparr> db_intents := tput (ri_intent_id i)
       \<lparr> ain_case_id = ri_case_id i, ain_payload = i \<rparr> (db_intents d) \<rparr>)
   | Some r \<Rightarrow> if ain_payload r \<noteq> i then Inl (AuthorizationError Auth_STALE_AUTHORIZATION) else Inr d)"

definition audit_record :: "string \<Rightarrow> audit_event \<Rightarrow> remediation_intent \<Rightarrow> time
    \<Rightarrow> authorization_audit_record" where
  "audit_record audit_id event i now = \<lparr> aud_audit_id = audit_id, aud_event = event,
     aud_tenant_id = ri_tenant_id i, aud_case_id = ri_case_id i, aud_intent_id = ri_intent_id i,
     aud_approval_id = None, aud_capability_id = None, aud_effect_id = None, aud_correlation_id = None,
     aud_effect_status = None, aud_actor_ref = None, aud_recorded_at = now \<rparr>"

definition log_authorization :: "authorization_audit_record \<Rightarrow> db \<Rightarrow> db" where
  "log_authorization r d = d\<lparr> db_authorization_audit := db_authorization_audit d @ [r] \<rparr>"

section \<open>Approvals\<close>

definition request_approval :: "string \<Rightarrow> db \<Rightarrow> approval_request \<Rightarrow> time \<Rightarrow> string
    \<Rightarrow> error + db \<times> approval_request" where
  "request_approval tenant d r revision audit_id =
     bindE (lock_authorized tenant d (ri_case_id (ar_intent r))) (\<lambda>c.
     bindE (require_open c) (\<lambda>_.
       if cr_updated_at c \<noteq> revision then Inl (AuthorizationError Auth_STALE_AUTHORIZATION)
       else bindE (save_intent (ar_intent r) d) (\<lambda>d1.
       bindE (tadd IntegrityError (ar_approval_id r) \<lparr> apr_intent_id = ri_intent_id (ar_intent r),
           apr_status = ar_status r, apr_payload = r \<rparr> (db_approvals d1)) (\<lambda>as.
       Inr (log_authorization ((audit_record audit_id Aue_APPROVAL_REQUESTED (ar_intent r) (ar_requested_at r))
           \<lparr> aud_approval_id := Some (ar_approval_id r) \<rparr>) (d1\<lparr> db_approvals := as \<rparr>), r)))))"

definition get_approval :: "string \<Rightarrow> db \<Rightarrow> string \<Rightarrow> time \<Rightarrow> error + approval_request" where
  "get_approval tenant d aid now = bindE (needE (AuthorizationError Auth_APPROVAL_REQUIRED)
       (tget aid (db_approvals d))) (\<lambda>r.
     bindE (get_intent tenant d (apr_intent_id r)) (\<lambda>_. Inr (approval_from_row r now)))"

definition approval_decision_valid :: "approval_decision \<Rightarrow> bool" where
  "approval_decision_valid x = (adn_decision x \<in> {Apv_APPROVED, Apv_REJECTED, Apv_REVOKED})"

definition decision_reason :: "approval_status \<Rightarrow> approval_reason" where
  "decision_reason s = (case s of Apv_APPROVED \<Rightarrow> Apr_OPERATOR_APPROVED
     | Apv_REJECTED \<Rightarrow> Apr_OPERATOR_REJECTED | _ \<Rightarrow> Apr_OPERATOR_REVOKED)"

definition decide_approval :: "string \<Rightarrow> db \<Rightarrow> approval_decision \<Rightarrow> time \<Rightarrow> string
    \<Rightarrow> error + db \<times> approval_request" where
  "decide_approval tenant d x now audit_id = (
     if \<not> approval_decision_valid x then Inl ValidationError
     else bindE (get_approval tenant d (adn_approval_id x) now) (\<lambda>prior.
     bindE (lock_authorized tenant d (ri_case_id (ar_intent prior))) (\<lambda>c.
     bindE (require_open c) (\<lambda>_.
     bindE (needE AttributeError (tget (adn_approval_id x) (db_approvals d))) (\<lambda>row.
       let current = approval_from_row row now in
       if \<not> (ar_status current = Apv_PENDING
          \<or> (ar_status current = Apv_APPROVED \<and> adn_decision x = Apv_REVOKED))
       then Inl (AuthorizationError (if ar_status current = Apv_EXPIRED then Auth_APPROVAL_EXPIRED
         else Auth_APPROVAL_NOT_APPROVED))
       else
         let changed = current\<lparr> ar_status := adn_decision x, ar_decided_at := Some now,
               ar_actor_ref := Some (adn_actor_ref x), ar_reason_code := decision_reason (adn_decision x) \<rparr>
         in Inr (log_authorization ((audit_record audit_id Aue_APPROVAL_DECIDED (ar_intent changed) now)
               \<lparr> aud_approval_id := Some (ar_approval_id changed), aud_actor_ref := ar_actor_ref changed \<rparr>)
             (d\<lparr> db_approvals := tput (adn_approval_id x) (row\<lparr> apr_status := ar_status changed,
               apr_payload := changed \<rparr>) (db_approvals d) \<rparr>), changed))))))"

definition check_approval :: "db \<Rightarrow> remediation_intent \<Rightarrow> string option \<Rightarrow> time \<Rightarrow> error + unit" where
  "check_approval d i aid now = (
     if \<not> ri_requires_approval i \<and> aid = None then Inr ()
     else case aid of
       None \<Rightarrow> Inl (AuthorizationError Auth_APPROVAL_REQUIRED)
     | Some a \<Rightarrow> (case tget a (db_approvals d) of
         None \<Rightarrow> Inl (AuthorizationError Auth_APPROVAL_REQUIRED)
       | Some row \<Rightarrow> let approval = approval_from_row row now in
           if ar_intent approval \<noteq> i then Inl (AuthorizationError Auth_APPROVAL_BINDING_MISMATCH)
           else (case ar_status approval of
             Apv_APPROVED \<Rightarrow> Inr ()
           | Apv_EXPIRED \<Rightarrow> Inl (AuthorizationError Auth_APPROVAL_EXPIRED)
           | Apv_REVOKED \<Rightarrow> Inl (AuthorizationError Auth_APPROVAL_REVOKED)
           | _ \<Rightarrow> Inl (AuthorizationError Auth_APPROVAL_NOT_APPROVED))))"

section \<open>Capabilities\<close>

definition unresolved_effect :: "(jv \<Rightarrow> string) \<Rightarrow> db \<Rightarrow> execution_capability \<Rightarrow> bool" where
  "unresolved_effect digest d cap = list_ex (\<lambda>r. eff_case_id r = xc_case_id cap
     \<and> eff_idempotency_key r = effect_key digest cap
     \<and> eff_status r \<in> {Eff_DISPATCHED, Eff_UNKNOWN, Eff_ACCEPTED}) (trows (db_effects d))"

definition issue :: "(jv \<Rightarrow> string) \<Rightarrow> string \<Rightarrow> db \<Rightarrow> remediation_intent \<Rightarrow> execution_capability
    \<Rightarrow> time \<Rightarrow> string option \<Rightarrow> string \<Rightarrow> error + db" where
  "issue digest tenant d i cap now signature audit_id =
     bindE (lock_authorized tenant d (ri_case_id i)) (\<lambda>c.
     bindE (require_open c) (\<lambda>_.
       if cr_updated_at c \<noteq> xc_expected_case_revision cap \<or> xc_expires_at cap \<le> now
       then Inl (AuthorizationError Auth_STALE_AUTHORIZATION)
       else bindE (check_approval d i (xc_approval_id cap) now) (\<lambda>_.
       if unresolved_effect digest d cap
       then Inl (AuthorizationError Auth_WRITE_FENCED_BY_UNRESOLVED_EFFECT)
       else bindE (save_intent i d) (\<lambda>d1.
       bindE (tadd IntegrityError (xc_capability_id cap) \<lparr> cap_intent_id = ri_intent_id i,
           cap_payload = cap, cap_used_effect_id = None \<rparr> (db_capabilities d1)) (\<lambda>caps.
       bindE (case signature of None \<Rightarrow> Inr (db_signatures d1)
         | Some s \<Rightarrow> tadd IntegrityError (xc_capability_id cap) s (db_signatures d1)) (\<lambda>sigs.
       Inr (log_authorization ((audit_record audit_id Aue_CAPABILITY_ISSUED i now)
           \<lparr> aud_approval_id := xc_approval_id cap, aud_capability_id := Some (xc_capability_id cap) \<rparr>)
         (d1\<lparr> db_capabilities := caps, db_signatures := sigs \<rparr>))))))))"

definition check_capability :: "string \<Rightarrow> db \<Rightarrow> execution_capability \<Rightarrow> time
    \<Rightarrow> error + capability_row \<times> remediation_intent" where
  "check_capability tenant d cap now = (
     if xc_tenant_id cap \<noteq> tenant then Inl (AuthorizationError Auth_CAPABILITY_SCOPE_MISMATCH)
     else if xc_expires_at cap \<le> now \<or> now < xc_issued_at cap
     then Inl (AuthorizationError Auth_CAPABILITY_EXPIRED)
     else if xc_policy_version cap \<noteq> REMEDIATION_POLICY_VERSION
       \<or> xc_catalog_version cap \<noteq> REMEDIATION_CATALOG_VERSION
       \<or> xc_authorization_policy_version cap \<noteq> AUTHORIZATION_POLICY_VERSION
     then Inl (AuthorizationError Auth_STALE_AUTHORIZATION)
     else case tget (xc_capability_id cap) (db_capabilities d) of
       None \<Rightarrow> Inl (AuthorizationError Auth_INVALID_CAPABILITY)
     | Some row \<Rightarrow>
       if cap_payload row \<noteq> cap then Inl (AuthorizationError Auth_INVALID_CAPABILITY)
       else bindE (get_intent tenant d (xc_intent_id cap)) (\<lambda>i.
         bindE (check_approval d i (xc_approval_id cap) now) (\<lambda>_. Inr (row, i))))"

definition use_capability :: "string \<Rightarrow> capability_row \<Rightarrow> string \<Rightarrow> db \<Rightarrow> db" where
  "use_capability cap_id row effect_id d = d\<lparr> db_capabilities := tput cap_id
     (row\<lparr> cap_used_effect_id := Some effect_id \<rparr>) (db_capabilities d) \<rparr>"

text \<open>\<open>_existing\<close>: the effect of this key, which the capability is then bound to.\<close>

definition existing_effect :: "db \<Rightarrow> execution_capability \<Rightarrow> capability_row \<Rightarrow> string
    \<Rightarrow> error + db \<times> side_effect_ledger option" where
  "existing_effect d cap row key = (
     case find (\<lambda>(_, r). eff_idempotency_key r = key) (db_effects d) of
       Some (eid, r) \<Rightarrow>
         let l = eff_payload r in
         if led_payload_hash l \<noteq> xc_payload_hash cap \<or> led_target_hash l \<noteq> xc_target_hash cap
           \<or> led_case_id l \<noteq> xc_case_id cap \<or> led_action_type l \<noteq> xc_action_type cap
           \<or> led_tenant_id l \<noteq> xc_tenant_id cap
         then Inl (AuthorizationError Auth_IDEMPOTENCY_CONFLICT)
         else if cap_used_effect_id row \<notin> {None, Some eid}
         then Inl (AuthorizationError Auth_CAPABILITY_ALREADY_USED)
         else Inr (use_capability (xc_capability_id cap) row eid d, Some l)
     | None \<Rightarrow>
         if cap_used_effect_id row \<noteq> None then Inl (AuthorizationError Auth_CAPABILITY_ALREADY_USED)
         else Inr (d, None))"

definition existing :: "(jv \<Rightarrow> string) \<Rightarrow> string \<Rightarrow> db \<Rightarrow> execution_capability \<Rightarrow> time
    \<Rightarrow> error + db \<times> side_effect_ledger option" where
  "existing digest tenant d cap now =
     bindE (lock_authorized tenant d (xc_case_id cap)) (\<lambda>_.
     bindE (check_capability tenant d cap now) (\<lambda>(row, _).
     existing_effect d cap row (effect_key digest cap)))"

section \<open>The ledger\<close>

definition prepared_ledger :: "execution_capability \<Rightarrow> string \<Rightarrow> time \<Rightarrow> time \<Rightarrow> string \<Rightarrow> side_effect_ledger" where
  "prepared_ledger cap key revision now correlation = \<lparr> led_effect_id = key, led_idempotency_key = key,
     led_intent_id = xc_intent_id cap, led_capability_id = xc_capability_id cap,
     led_approval_id = xc_approval_id cap, led_tenant_id = xc_tenant_id cap, led_case_id = xc_case_id cap,
     led_internal_order_id = xc_internal_order_id cap, led_action_type = xc_action_type cap,
     led_target_hash = xc_target_hash cap, led_payload_hash = xc_payload_hash cap,
     led_snapshot_id = xc_snapshot_id cap, led_evidence_hash = xc_evidence_hash cap,
     led_prepared_case_revision = revision,
     led_status = (if xc_action_type cap = Act_NO_REMEDIATION then Eff_NOOP else Eff_PREPARED),
     led_attempt_count = 0, led_created_at = now, led_updated_at = now,
     led_dispatch_correlation_id = correlation, led_external_effect_ref = None,
     led_failure_code = None \<rparr>"

definition effect_audit :: "string \<Rightarrow> audit_event \<Rightarrow> remediation_intent \<Rightarrow> time \<Rightarrow> side_effect_ledger
    \<Rightarrow> effect_status \<Rightarrow> authorization_audit_record" where
  "effect_audit audit_id event i now l status = (audit_record audit_id event i now)
     \<lparr> aud_capability_id := Some (led_capability_id l), aud_approval_id := led_approval_id l,
       aud_effect_id := Some (led_effect_id l), aud_correlation_id := Some (led_dispatch_correlation_id l),
       aud_effect_status := Some status \<rparr>"

definition prepare :: "(jv \<Rightarrow> string) \<Rightarrow> string \<Rightarrow> db \<Rightarrow> execution_capability \<Rightarrow> time \<Rightarrow> time \<Rightarrow> string \<Rightarrow> string
    \<Rightarrow> error + db \<times> side_effect_ledger \<times> bool" where
  "prepare digest tenant d cap now wall correlation audit_id =
     bindE (lock_authorized tenant d (xc_case_id cap)) (\<lambda>c.
     bindE (require_open c) (\<lambda>_.
     bindE (check_capability tenant d cap now) (\<lambda>(cap_row, i).
       let key = effect_key digest cap in
       bindE (existing_effect d cap cap_row key) (\<lambda>(d1, old).
       case old of
         Some l \<Rightarrow> Inr (d1, l, False)
       | None \<Rightarrow>
         let noop = xc_action_type cap = Act_NO_REMEDIATION;
             new_revision = (if noop then cr_updated_at c else next_update_time wall (cr_updated_at c))
         in if cr_updated_at c \<noteq> xc_expected_case_revision cap
            then Inl (AuthorizationError Auth_STALE_AUTHORIZATION)
            else if \<exists>(_, r) \<in> set (db_effects d1). eff_capability_id r = xc_capability_id cap
            then Inl IntegrityError
            else
              let d2 = put_case (xc_case_id cap) (c\<lparr> cr_updated_at := new_revision \<rparr>) d1;
                  l = prepared_ledger cap key new_revision now correlation
              in bindE (tadd IntegrityError key \<lparr> eff_idempotency_key = key,
                   eff_capability_id = xc_capability_id cap, eff_case_id = xc_case_id cap,
                   eff_status = led_status l, eff_payload = l \<rparr> (db_effects d2)) (\<lambda>effects.
                 bindE (synchronize_effect digest
                   (use_capability (xc_capability_id cap) cap_row key (d2\<lparr> db_effects := effects \<rparr>)) l) (\<lambda>d3.
                 Inr (log_authorization (effect_audit audit_id Aue_EFFECT_PREPARED i now l (led_status l)) d3,
                   l, \<not> noop)))))))"

text \<open>
  The compare-and-swap every later transition is: the row is written only over the expected status
  column, and the new entry is published in the same transaction.
\<close>

definition cas_effect :: "(jv \<Rightarrow> string) \<Rightarrow> error \<Rightarrow> db \<Rightarrow> string \<Rightarrow> effect_status \<Rightarrow> side_effect_ledger
    \<Rightarrow> error + db" where
  "cas_effect digest e d eid expected l = (case tget eid (db_effects d) of
     None \<Rightarrow> Inl e
   | Some r \<Rightarrow> if eff_status r \<noteq> expected then Inl e
       else synchronize_effect digest (write_effect eid
         (r\<lparr> eff_status := led_status l, eff_payload := l \<rparr>) d) l)"

definition lease_lost :: "db \<Rightarrow> string \<Rightarrow> recovery_claim \<Rightarrow> time \<Rightarrow> bool" where
  "lease_lost d eid claim now = (rcl_effect_id claim \<noteq> eid \<or> (case tget eid (db_recovery_state d) of
     None \<Rightarrow> True
   | Some s \<Rightarrow> ers_lease_token s \<noteq> Some (rcl_recovery_id claim)
       \<or> ers_lease_owner s \<noteq> Some (rcl_worker_id claim)
       \<or> (case ers_lease_until s of None \<Rightarrow> True | Some t \<Rightarrow> t \<le> now)))"

definition dispatch_prepared :: "(jv \<Rightarrow> string) \<Rightarrow> string \<Rightarrow> db \<Rightarrow> execution_capability \<Rightarrow> time
    \<Rightarrow> recovery_claim option \<Rightarrow> string \<Rightarrow> error + db \<times> side_effect_ledger" where
  "dispatch_prepared digest tenant d cap now claim audit_id =
     bindE (lock_authorized tenant d (xc_case_id cap)) (\<lambda>c.
     bindE (require_open c) (\<lambda>_.
     bindE (check_capability tenant d cap now) (\<lambda>(cap_row, i).
     case (case cap_used_effect_id cap_row of None \<Rightarrow> None
           | Some eid \<Rightarrow> map_option (Pair eid) (tget eid (db_effects d))) of
       None \<Rightarrow> Inl (AuthorizationError Auth_CAPABILITY_ALREADY_USED)
     | Some (eid, row) \<Rightarrow>
       if eff_capability_id row \<noteq> xc_capability_id cap
       then Inl (AuthorizationError Auth_CAPABILITY_ALREADY_USED)
       else let l = eff_payload row in
         if (case claim of None \<Rightarrow> False | Some k \<Rightarrow> lease_lost d (led_effect_id l) k now)
         then Inl (AuthorizationError Auth_STALE_AUTHORIZATION)
         else if cr_updated_at c \<noteq> led_prepared_case_revision l
         then Inl (AuthorizationError Auth_STALE_AUTHORIZATION)
         else let changed = l\<lparr> led_status := Eff_DISPATCHED, led_attempt_count := 1, led_updated_at := now \<rparr>
           in bindE (cas_effect digest (AuthorizationError Auth_INVALID_TRANSITION) d eid Eff_PREPARED changed)
             (\<lambda>d1. Inr (log_authorization (effect_audit audit_id Aue_EFFECT_TRANSITION i now
               (l\<lparr> led_capability_id := xc_capability_id cap, led_approval_id := xc_approval_id cap \<rparr>)
               Eff_DISPATCHED) d1, changed)))))"

definition get_ledger :: "string \<Rightarrow> db \<Rightarrow> string \<Rightarrow> error + side_effect_ledger" where
  "get_ledger tenant d eid = bindE (needE KeyError (tget eid (db_effects d))) (\<lambda>r.
     bindE (case_row_of tenant d (eff_case_id r)) (\<lambda>_. Inr (eff_payload r)))"

text \<open>\<open>TRANSITIONS\<close>: \<open>PREPARED\<close> is only left through \<open>dispatch_prepared\<close>.\<close>

fun TRANSITIONS :: "effect_status \<Rightarrow> effect_status list" where
  "TRANSITIONS Eff_DISPATCHED = [Eff_ACCEPTED, Eff_APPLIED, Eff_UNKNOWN, Eff_FAILED_CONFIRMED]"
| "TRANSITIONS Eff_ACCEPTED = [Eff_APPLIED, Eff_UNKNOWN, Eff_FAILED_CONFIRMED]"
| "TRANSITIONS _ = []"

definition transition :: "(jv \<Rightarrow> string) \<Rightarrow> string \<Rightarrow> db \<Rightarrow> string \<Rightarrow> effect_status \<Rightarrow> effect_status \<Rightarrow> time
    \<Rightarrow> side_effect_receipt option \<Rightarrow> failure_code option \<Rightarrow> string \<Rightarrow> error + db \<times> side_effect_ledger" where
  "transition digest tenant d eid expected status now receipt failure audit_id = (
     let bad = AuthorizationError Auth_INVALID_TRANSITION in
     if status \<notin> set (TRANSITIONS expected) then Inl bad
     else if status \<noteq> Eff_UNKNOWN \<and> (case receipt of None \<Rightarrow> True
       | Some r \<Rightarrow> outcome_status (srx_outcome r) \<noteq> status) then Inl bad
     else bindE (needE AttributeError (tget eid (db_effects d))) (\<lambda>row.
     bindE (lock_authorized tenant d (eff_case_id row)) (\<lambda>_.
       let l = eff_payload row in
       if (case receipt of None \<Rightarrow> False
         | Some r \<Rightarrow> srx_correlation_id r \<noteq> led_dispatch_correlation_id l) then Inl bad
       else if (case receipt of None \<Rightarrow> False
         | Some r \<Rightarrow> truthy (srx_external_effect_ref r) \<and> truthy (led_external_effect_ref l)
             \<and> srx_external_effect_ref r \<noteq> led_external_effect_ref l) then Inl bad
       else
         let changed = l\<lparr> led_status := status, led_updated_at := now,
               led_attempt_count := (if status = Eff_DISPATCHED then 1 else led_attempt_count l),
               led_external_effect_ref := (case receipt of None \<Rightarrow> led_external_effect_ref l
                 | Some r \<Rightarrow> srx_external_effect_ref r),
               led_failure_code := failure \<rparr>
         in bindE (cas_effect digest bad d eid expected changed) (\<lambda>d1.
            bindE (get_intent tenant d1 (led_intent_id l)) (\<lambda>i.
            Inr (log_authorization (effect_audit audit_id Aue_EFFECT_TRANSITION i now
              (l\<lparr> led_effect_id := eid \<rparr>) status) d1, changed))))))"

end
