(* ===== verification/LedgerInvariant.thy ===== *)
theory LedgerInvariant
  imports Authorization
begin

text \<open>
  What the ledger's writers keep: a well-formed ledger (row, payload and recovery row agree, at most
  one attempt) and, per transaction, the move of every entry along an edge of the status machine
  with its identity unchanged.
\<close>

section \<open>Well-formed ledgers\<close>

definition effect_row_ok :: "string \<Rightarrow> effect_row \<Rightarrow> bool" where
  "effect_row_ok k r = (let l = eff_payload r in
     eff_idempotency_key r = k \<and> led_effect_id l = k \<and> led_idempotency_key l = k
     \<and> eff_status r = led_status l \<and> eff_case_id r = led_case_id l
     \<and> eff_capability_id r = led_capability_id l
     \<and> led_attempt_count l = (if led_status l \<in> {Eff_PREPARED, Eff_NOOP} then 0 else 1)
     \<and> led_status l \<notin> {Eff_VERIFIED, Eff_REJECTED})"

definition recovery_row_ok :: "db \<Rightarrow> string \<Rightarrow> effect_row \<Rightarrow> bool" where
  "recovery_row_ok d k r = (\<exists>st. tget k (db_recovery_state d) = Some st
     \<and> ers_status st = eff_status r \<and> ers_case_id st = eff_case_id r)"

definition ledger_ok :: "db \<Rightarrow> bool" where
  "ledger_ok d = (work_ok d \<and> tkeys_distinct (db_effects d)
     \<and> (\<forall>k. case tget k (db_effects d) of None \<Rightarrow> tget k (db_recovery_state d) = None
          | Some r \<Rightarrow> effect_row_ok k r \<and> recovery_row_ok d k r))"

fun effect_edge :: "effect_status \<Rightarrow> effect_status \<Rightarrow> bool" where
  "effect_edge Eff_PREPARED s = (s = Eff_DISPATCHED)"
| "effect_edge Eff_DISPATCHED s = (s \<in> {Eff_ACCEPTED, Eff_APPLIED, Eff_UNKNOWN, Eff_FAILED_CONFIRMED})"
| "effect_edge Eff_ACCEPTED s = (s \<in> {Eff_ACCEPTED, Eff_APPLIED, Eff_UNKNOWN, Eff_FAILED_CONFIRMED})"
| "effect_edge Eff_UNKNOWN s = (s \<in> {Eff_ACCEPTED, Eff_APPLIED, Eff_UNKNOWN, Eff_FAILED_CONFIRMED})"
| "effect_edge _ s = False"

text \<open>What a transition may change of an entry: everything else binds the effect for ever.\<close>

definition same_effect :: "side_effect_ledger \<Rightarrow> side_effect_ledger \<Rightarrow> bool" where
  "same_effect l l' = (l' = l\<lparr> led_status := led_status l', led_attempt_count := led_attempt_count l',
     led_updated_at := led_updated_at l', led_external_effect_ref := led_external_effect_ref l',
     led_failure_code := led_failure_code l' \<rparr>)"

definition row_moved :: "effect_row \<Rightarrow> effect_row \<Rightarrow> bool" where
  "row_moved r r' = (r' = r \<or> (effect_edge (eff_status r) (eff_status r')
     \<and> same_effect (eff_payload r) (eff_payload r')
     \<and> r' = r\<lparr> eff_status := eff_status r', eff_payload := eff_payload r' \<rparr>))"

definition ledger_moved :: "db \<Rightarrow> db \<Rightarrow> bool" where
  "ledger_moved d d' = (\<forall>k. case tget k (db_effects d) of
     Some r \<Rightarrow> (\<exists>r'. tget k (db_effects d') = Some r' \<and> row_moved r r')
   | None \<Rightarrow> (case tget k (db_effects d') of None \<Rightarrow> True
       | Some r' \<Rightarrow> eff_status r' \<in> {Eff_PREPARED, Eff_NOOP}))"

text \<open>A transaction keeps the ledger when it is well formed afterwards and every entry moved.\<close>

definition ledger_kept :: "db \<Rightarrow> db \<Rightarrow> bool" where
  "ledger_kept d d' = (ledger_ok d' \<and> ledger_moved d d')"

lemma row_moved_refl [simp]: "row_moved r r"
  by (simp add: row_moved_def)

lemma ledger_moved_same: "db_effects d' = db_effects d \<Longrightarrow> ledger_moved d d'"
  by (simp add: ledger_moved_def split: option.split)

lemma ledger_ok_work: "ledger_ok d \<Longrightarrow> db_work d' = db_work d \<Longrightarrow> work_ok d'"
  by (simp add: ledger_ok_def work_ok_def)

lemma ledger_moved_cong:
  assumes "ledger_moved d d1" and "db_effects d2 = db_effects d1"
  shows "ledger_moved d d2"
  using assms(1) unfolding ledger_moved_def assms(2) .

lemma ledger_ok_cong:
  assumes "ledger_ok d" and "db_effects d' = db_effects d" and "db_recovery_state d' = db_recovery_state d"
    and "work_ok d'"
  shows "ledger_ok d'"
  using assms(1,4) unfolding ledger_ok_def recovery_row_ok_def assms(2,3) by blast

lemma ledger_keptI:
  assumes "ledger_ok d" and "db_effects d' = db_effects d" and "db_recovery_state d' = db_recovery_state d"
    and "work_ok d'"
  shows "ledger_kept d d'"
  using ledger_ok_cong [OF assms] ledger_moved_same [OF assms(2)] by (simp add: ledger_kept_def)

lemma ledger_kept_frame:
  "ledger_ok d \<Longrightarrow> db_effects d' = db_effects d \<Longrightarrow> db_recovery_state d' = db_recovery_state d
   \<Longrightarrow> db_work d' = db_work d \<Longrightarrow> ledger_kept d d'"
  by (rule ledger_keptI) (auto intro: ledger_ok_work)

lemma ledger_kept_scheduled: "ledger_ok d \<Longrightarrow> scheduled d d' \<Longrightarrow> ledger_kept d d'"
  by (rule ledger_keptI) (auto simp: scheduled_frame ledger_ok_def intro: scheduled_work_ok)

lemma ledger_kept_ok: "ledger_kept d d' \<Longrightarrow> ledger_ok d'"
  by (simp add: ledger_kept_def)

text \<open>Later writes that leave the ledger, its recovery rows and the work alone do not matter.\<close>

lemma ledger_kept_extend:
  assumes "ledger_kept d d1" and "db_effects d2 = db_effects d1"
    and "db_recovery_state d2 = db_recovery_state d1" and "db_work d2 = db_work d1"
  shows "ledger_kept d d2"
proof -
  have ok: "ledger_ok d1" and moved: "ledger_moved d d1" using assms(1) by (simp_all add: ledger_kept_def)
  have "ledger_ok d2" by (rule ledger_ok_cong [OF ok assms(2,3)]) (rule ledger_ok_work [OF ok assms(4)])
  moreover have "ledger_moved d d2" by (rule ledger_moved_cong [OF moved assms(2)])
  ultimately show ?thesis by (simp add: ledger_kept_def)
qed

lemma ledger_kept_log [simp]: "ledger_kept d d1 \<Longrightarrow> ledger_kept d (log_authorization a d1)"
  by (erule ledger_kept_extend) (simp_all add: log_authorization_def)

section \<open>The compare-and-swap\<close>

lemma ledger_okD:
  assumes "ledger_ok d" and "tget k (db_effects d) = Some r"
  shows "effect_row_ok k r" and "recovery_row_ok d k r"
  using assms unfolding ledger_ok_def by (auto dest!: spec [of _ k])

lemma ledger_ok_None: "ledger_ok d \<Longrightarrow> tget k (db_effects d) = None \<Longrightarrow> tget k (db_recovery_state d) = None"
  unfolding ledger_ok_def by (auto dest!: spec [of _ k])

lemma written_ledger_kept:
  assumes ok: "ledger_ok d0" and sync: "synchronize_effect digest (write_effect k r d) l = Inr d'"
    and frame: "db_effects d = db_effects d0" "db_recovery_state d = db_recovery_state d0"
      "db_work d = db_work d0"
    and row: "effect_row_ok k r" "eff_payload r = l"
    and new: "case tget k (db_effects d0) of Some old \<Rightarrow> row_moved old r
      | None \<Rightarrow> eff_status r \<in> {Eff_PREPARED, Eff_NOOP}"
  shows "ledger_kept d0 d'"
proof -
  have work: "work_ok d" by (rule ledger_ok_work [OF ok frame(3)])
  have work': "work_ok (write_effect k r d)" using work by (simp add: write_effect_def work_ok_def)
  have id: "led_effect_id l = k" "eff_status r = led_status l" "eff_case_id r = led_case_id l"
    using row by (auto simp: effect_row_ok_def Let_def)
  have entries: "tget j (db_effects d') = (if j = k then Some r else tget j (db_effects d0))" for j
    using ledger.store_publish [OF sync work] frame by simp
  obtain d1 st where s: "scheduled (write_effect k r d) d1"
    and d': "d' = d1\<lparr> db_recovery_state := tput k st (db_recovery_state (write_effect k r d)) \<rparr>"
    and st: "ers_status st = led_status l"
    and old: "case tget k (db_recovery_state (write_effect k r d)) of
        None \<Rightarrow> ers_case_id st = led_case_id l \<and> ers_lease_token st = None \<and> ers_attempt_count st = 0
      | Some old \<Rightarrow> ers_case_id st = ers_case_id old \<and> ers_lease_token st = ers_lease_token old
          \<and> ers_lease_owner st = ers_lease_owner old \<and> ers_lease_until st = ers_lease_until old
          \<and> ers_attempt_count st = ers_attempt_count old"
    using synchronize_effect_Inr [OF sync work'] unfolding id(1) by blast
  have rec: "tget j (db_recovery_state d') = (if j = k then Some st else tget j (db_recovery_state d0))" for j
    using d' frame by (simp add: write_effect_def)
  have "ers_case_id st = eff_case_id r"
  proof (cases "tget k (db_effects d0)")
    case None
    with ledger_ok_None [OF ok None] old frame id(3) show ?thesis by (simp add: write_effect_def)
  next
    case (Some r0)
    from ledger_okD [OF ok Some] obtain s0 where s0: "tget k (db_recovery_state d0) = Some s0"
      "ers_case_id s0 = eff_case_id r0" by (auto simp: recovery_row_ok_def)
    have "eff_case_id r = eff_case_id r0"
      using new Some by (auto simp: row_moved_def) (metis effect_row.select_convs(3) effect_row.surjective effect_row.update_convs(4,5))
    with s0 old frame show ?thesis by (simp add: write_effect_def)
  qed
  then have "recovery_row_ok d' k r" using rec st id(2) by (auto simp: recovery_row_ok_def)
  moreover have "recovery_row_ok d' j r'" if "j \<noteq> k" "tget j (db_effects d0) = Some r'" for j r'
    using that ledger_okD(2) [OF ok that(2)] rec by (simp add: recovery_row_ok_def)
  moreover have "tkeys_distinct (db_effects d')"
    using s ok frame(1) d' by (auto simp: scheduled_frame write_effect_def ledger_ok_def)
  moreover have "work_ok d'"
    using ledger.store_publish_ok [OF sync work] .
  ultimately have "ledger_ok d'"
    using ledger_okD(1) [OF ok] row(1) entries rec ledger_ok_None [OF ok]
    by (auto simp: ledger_ok_def split: option.split if_splits)
  moreover have "ledger_moved d0 d'"
    using new by (auto simp: ledger_moved_def entries split: option.splits)
  ultimately show ?thesis by (simp add: ledger_kept_def)
qed

section \<open>The transactions of the store\<close>

lemma save_intent_frame:
  "save_intent i d = Inr d1 \<Longrightarrow> d1 = d\<lparr> db_intents := db_intents d1 \<rparr>"
  by (auto simp: save_intent_def split: option.splits if_splits)

lemma save_intent_tables:
  assumes "save_intent i d = Inr d1"
  shows "db_effects d1 = db_effects d \<and> db_recovery_state d1 = db_recovery_state d
    \<and> db_work d1 = db_work d \<and> db_capabilities d1 = db_capabilities d
    \<and> db_approvals d1 = db_approvals d \<and> db_signatures d1 = db_signatures d
    \<and> db_cases d1 = db_cases d"
  using save_intent_frame [OF assms] by (cases d1; cases d) simp

lemma request_approval_kept [inv_laws]:
  "request_approval tenant d r revision audit_id = Inr (d', x) \<Longrightarrow> ledger_ok d \<Longrightarrow> ledger_kept d d'"
  by (rule ledger_kept_frame) (auto simp: request_approval_def bindE_Inr_iff log_authorization_def
      dest!: save_intent_tables)

lemma decide_approval_kept [inv_laws]:
  "decide_approval tenant d x now audit_id = Inr (d', y) \<Longrightarrow> ledger_ok d \<Longrightarrow> ledger_kept d d'"
  by (rule ledger_kept_frame) (auto simp: decide_approval_def bindE_Inr_iff log_authorization_def Let_def
      split: if_splits)

lemma issue_kept [inv_laws]:
  "issue digest tenant d i cap now signature audit_id = Inr d' \<Longrightarrow> ledger_ok d \<Longrightarrow> ledger_kept d d'"
  by (rule ledger_kept_frame) (auto simp: issue_def bindE_Inr_iff log_authorization_def
      dest!: save_intent_tables split: if_splits)

lemma existing_effect_Inr:
  assumes "existing_effect d cap row key = Inr (d1, old)"
  shows "case old of
      Some l \<Rightarrow> (\<exists>eid r. (eid, r) \<in> set (db_effects d) \<and> eff_idempotency_key r = key \<and> l = eff_payload r
        \<and> cap_used_effect_id row \<in> {None, Some eid}
        \<and> d1 = use_capability (xc_capability_id cap) row eid d)
    | None \<Rightarrow> d1 = d \<and> cap_used_effect_id row = None
        \<and> (\<forall>(_, r) \<in> set (db_effects d). eff_idempotency_key r \<noteq> key)"
proof (cases "find (\<lambda>(_, r). eff_idempotency_key r = key) (db_effects d)")
  case None
  with assms show ?thesis
    by (auto simp: existing_effect_def find_None_iff split: if_splits)
next
  case (Some er)
  obtain eid r where er: "er = (eid, r)" by (cases er)
  have "(eid, r) \<in> set (db_effects d)" "eff_idempotency_key r = key"
    using Some er by (auto simp: find_Some_iff in_set_conv_nth)
  with assms Some er show ?thesis
    by (auto simp: existing_effect_def Let_def split: if_splits) blast+
qed

lemma use_capability_tables [simp]:
  "db_effects (use_capability c r e d) = db_effects d"
  "db_recovery_state (use_capability c r e d) = db_recovery_state d"
  "db_work (use_capability c r e d) = db_work d"
  "db_cases (use_capability c r e d) = db_cases d"
  by (simp_all add: use_capability_def)

lemma existing_kept [inv_laws]:
  assumes "existing digest tenant d cap now = Inr (d', x)" and "ledger_ok d"
  shows "ledger_kept d d'"
proof -
  obtain row where "existing_effect d cap row (effect_key digest cap) = Inr (d', x)"
    using assms(1) by (auto simp: existing_def bindE_Inr_iff)
  from existing_effect_Inr [OF this] show ?thesis
    by (intro ledger_kept_frame [OF assms(2)]) (auto split: option.splits)
qed

definition prepared_row :: "side_effect_ledger \<Rightarrow> effect_row" where
  "prepared_row l = \<lparr> eff_idempotency_key = led_idempotency_key l, eff_capability_id = led_capability_id l,
     eff_case_id = led_case_id l, eff_status = led_status l, eff_payload = l \<rparr>"

lemma prepare_Inr:
  assumes "prepare digest tenant d cap now wall correlation audit_id = Inr (d', l, fresh)"
  obtains (old) c cap_row i eid r where "lock_authorized tenant d (xc_case_id cap) = Inr c"
      "require_open c = Inr ()" "check_capability tenant d cap now = Inr (cap_row, i)"
      "(eid, r) \<in> set (db_effects d)" "eff_idempotency_key r = effect_key digest cap"
      "l = eff_payload r" "cap_used_effect_id cap_row \<in> {None, Some eid}" "\<not> fresh"
      "d' = use_capability (xc_capability_id cap) cap_row eid d"
  | (new) c cap_row i revision d3 where "lock_authorized tenant d (xc_case_id cap) = Inr c"
      "require_open c = Inr ()" "check_capability tenant d cap now = Inr (cap_row, i)"
      "l = prepared_ledger cap (effect_key digest cap) revision now correlation"
      "fresh = (xc_action_type cap \<noteq> Act_NO_REMEDIATION)"
      "revision = (if fresh then next_update_time wall (cr_updated_at c) else cr_updated_at c)"
      "cr_updated_at c = xc_expected_case_revision cap" "cap_used_effect_id cap_row = None"
      "\<forall>(_, r) \<in> set (db_effects d). eff_idempotency_key r \<noteq> effect_key digest cap"
      "\<forall>(_, r) \<in> set (db_effects d). eff_capability_id r \<noteq> xc_capability_id cap"
      "tget (effect_key digest cap) (db_effects d) = None"
      "synchronize_effect digest (write_effect (effect_key digest cap) (prepared_row l)
        (use_capability (xc_capability_id cap) cap_row (effect_key digest cap)
          (put_case (xc_case_id cap) (c\<lparr> cr_updated_at := revision \<rparr>) d))) l = Inr d3"
      "d' = log_authorization (effect_audit audit_id Aue_EFFECT_PREPARED i now l (led_status l)) d3"
proof -
  let ?key = "effect_key digest cap"
  obtain c cap_row i d1 old where c: "lock_authorized tenant d (xc_case_id cap) = Inr c"
    and o: "require_open c = Inr ()" and k: "check_capability tenant d cap now = Inr (cap_row, i)"
    and e: "existing_effect d cap cap_row ?key = Inr (d1, old)"
    using assms by (auto simp: prepare_def bindE_Inr_iff Let_def)
  note ex = existing_effect_Inr [OF e]
  show thesis
  proof (cases old)
    case (Some l0)
    with assms c o k e have "l = l0" "\<not> fresh" "d' = d1" by (simp_all add: prepare_def Let_def)
    with ex Some c o k that(1) show thesis by auto
  next
    case None
    with ex have d1: "d1 = d" and used: "cap_used_effect_id cap_row = None"
      and keys: "\<forall>(_, r) \<in> set (db_effects d). eff_idempotency_key r \<noteq> ?key" by auto
    define revision where "revision = (if xc_action_type cap \<noteq> Act_NO_REMEDIATION
      then next_update_time wall (cr_updated_at c) else cr_updated_at c)"
    let ?l = "prepared_ledger cap ?key revision now correlation"
    let ?d2 = "put_case (xc_case_id cap) (c\<lparr> cr_updated_at := revision \<rparr>) d"
    have rev: "(if xc_action_type cap = Act_NO_REMEDIATION then cr_updated_at c
      else next_update_time wall (cr_updated_at c)) = revision" by (simp add: revision_def)
    have comm: "use_capability (xc_capability_id cap) cap_row ?key
        (?d2\<lparr> db_effects := tput ?key R (db_effects ?d2) \<rparr>)
      = write_effect ?key R (use_capability (xc_capability_id cap) cap_row ?key ?d2)" for R
      by (simp add: use_capability_def write_effect_def)
    have row: "\<lparr> eff_idempotency_key = ?key, eff_capability_id = xc_capability_id cap,
        eff_case_id = xc_case_id cap, eff_status = led_status ?l, eff_payload = ?l \<rparr> = prepared_row ?l"
      by (simp add: prepared_row_def prepared_ledger_def)
    from assms obtain d3 where "cr_updated_at c = xc_expected_case_revision cap"
      "\<forall>(_, r) \<in> set (db_effects d). eff_capability_id r \<noteq> xc_capability_id cap"
      "tget ?key (db_effects ?d2) = None"
      "synchronize_effect digest (write_effect ?key (prepared_row ?l)
        (use_capability (xc_capability_id cap) cap_row ?key ?d2)) ?l = Inr d3"
      "d' = log_authorization (effect_audit audit_id Aue_EFFECT_PREPARED i now ?l (led_status ?l)) d3"
      "l = ?l" "fresh = (xc_action_type cap \<noteq> Act_NO_REMEDIATION)"
      unfolding prepare_def Let_def c o k bindE_simps case_prod_conv e None option.case d1 rev
      by (auto simp: bindE_Inr_iff comm row split_beta)
    then show thesis
      by (intro that(2) [of c cap_row i revision d3])
        (use c o k keys used in \<open>simp_all add: revision_def put_case_def\<close>)
  qed
qed

lemma prepare_kept [inv_laws]:
  assumes "prepare digest tenant d cap now wall correlation audit_id = Inr (d', l, fresh)"
    and ok: "ledger_ok d"
  shows "ledger_kept d d'"
  using assms(1)
proof (cases rule: prepare_Inr)
  case old
  then show ?thesis by (auto intro: ledger_kept_frame [OF ok])
next
  case (new c cap_row i revision d3)
  have "ledger_kept d d3"
    by (rule written_ledger_kept [OF ok new(12)])
      (auto simp: put_case_def new(11) prepared_row_def effect_row_ok_def Let_def new(4) prepared_ledger_def)
  then show ?thesis by (simp add: new(13))
qed

lemma cas_effect_kept:
  assumes "cas_effect digest e d eid expected l' = Inr d'" and ok: "ledger_ok d"
    and r: "tget eid (db_effects d) = Some r"
    and same: "same_effect (eff_payload r) l'" and edge: "effect_edge expected (led_status l')"
    and count: "led_attempt_count l' = (if led_status l' \<in> {Eff_PREPARED, Eff_NOOP} then 0 else 1)"
  shows "ledger_kept d d'"
proof -
  have st: "eff_status r = expected"
    and sync: "synchronize_effect digest (write_effect eid (r\<lparr> eff_status := led_status l',
        eff_payload := l' \<rparr>) d) l' = Inr d'"
    using assms(1) r by (auto simp: cas_effect_def split: if_splits)
  have ids: "led_effect_id l' = led_effect_id (eff_payload r)"
    "led_idempotency_key l' = led_idempotency_key (eff_payload r)"
    "led_case_id l' = led_case_id (eff_payload r)"
    "led_capability_id l' = led_capability_id (eff_payload r)"
    by (subst same [unfolded same_effect_def], simp)+
  have "led_status l' \<notin> {Eff_VERIFIED, Eff_REJECTED}"
    using edge by (cases expected) auto
  then have "effect_row_ok eid (r\<lparr> eff_status := led_status l', eff_payload := l' \<rparr>)"
    using ledger_okD(1) [OF ok r] count by (simp add: effect_row_ok_def Let_def ids)
  moreover have "row_moved r (r\<lparr> eff_status := led_status l', eff_payload := l' \<rparr>)"
    using st edge same by (simp add: row_moved_def)
  ultimately show ?thesis
    by (intro written_ledger_kept [OF ok sync refl refl refl]) (simp_all add: r)
qed


text \<open>Everything a successful dispatch has checked, and what it writes.\<close>

lemma dispatch_prepared_Inr:
  assumes "dispatch_prepared digest tenant d cap now claim audit_id = Inr (d', l')"
  obtains c cap_row i eid row d1 where "lock_authorized tenant d (xc_case_id cap) = Inr c"
    and "require_open c = Inr ()" and "check_capability tenant d cap now = Inr (cap_row, i)"
    and "cap_used_effect_id cap_row = Some eid" and "tget eid (db_effects d) = Some row"
    and "eff_capability_id row = xc_capability_id cap"
    and "cr_updated_at c = led_prepared_case_revision (eff_payload row)"
    and "case claim of None \<Rightarrow> True
      | Some k \<Rightarrow> \<not> lease_lost d (led_effect_id (eff_payload row)) k now"
    and "l' = (eff_payload row)\<lparr> led_status := Eff_DISPATCHED, led_attempt_count := 1, led_updated_at := now \<rparr>"
    and "cas_effect digest (AuthorizationError Auth_INVALID_TRANSITION) d eid Eff_PREPARED l' = Inr d1"
    and "d' = log_authorization (effect_audit audit_id Aue_EFFECT_TRANSITION i now
        ((eff_payload row)\<lparr> led_capability_id := xc_capability_id cap,
          led_approval_id := xc_approval_id cap \<rparr>) Eff_DISPATCHED) d1"
proof -
  obtain c cap_row i where c: "lock_authorized tenant d (xc_case_id cap) = Inr c"
    and o: "require_open c = Inr ()" and k: "check_capability tenant d cap now = Inr (cap_row, i)"
    using assms by (auto simp: dispatch_prepared_def bindE_Inr_iff)
  note eqs = c o k bindE_simps case_prod_conv
  obtain eid row where used: "cap_used_effect_id cap_row = Some eid"
    and row: "tget eid (db_effects d) = Some row"
    using assms unfolding dispatch_prepared_def eqs
    by (cases "cap_used_effect_id cap_row"; cases "tget (the (cap_used_effect_id cap_row)) (db_effects d)") auto
  show thesis
    using assms unfolding dispatch_prepared_def eqs used row option.case option.map Let_def
    by (cases claim) (auto simp: bindE_Inr_iff intro!: that [OF c o k used row])
qed

lemma dispatch_prepared_kept [inv_laws]:
  assumes "dispatch_prepared digest tenant d cap now claim audit_id = Inr (d', l')" and ok: "ledger_ok d"
  shows "ledger_kept d d'"
  using assms(1)
proof (cases rule: dispatch_prepared_Inr)
  case (1 c cap_row i eid row d1)
  have "ledger_kept d d1"
    by (rule cas_effect_kept [OF 1(10) ok 1(5)]) (simp_all add: 1(9) same_effect_def)
  then show ?thesis by (simp add: 1(11))
qed

lemma transition_Inr:
  assumes "transition digest tenant d eid expected status now receipt failure audit_id = Inr (d', l')"
  obtains row d1 i where "status \<in> set (TRANSITIONS expected)"
    and "status = Eff_UNKNOWN \<or> (\<exists>r. receipt = Some r \<and> outcome_status (srx_outcome r) = status)"
    and "tget eid (db_effects d) = Some row"
    and "case receipt of None \<Rightarrow> True
      | Some r \<Rightarrow> srx_correlation_id r = led_dispatch_correlation_id (eff_payload row)"
    and "l' = (eff_payload row)\<lparr> led_status := status, led_updated_at := now,
        led_external_effect_ref := (case receipt of None \<Rightarrow> led_external_effect_ref (eff_payload row)
          | Some r \<Rightarrow> srx_external_effect_ref r), led_failure_code := failure \<rparr>"
    and "cas_effect digest (AuthorizationError Auth_INVALID_TRANSITION) d eid expected l' = Inr d1"
    and "d' = log_authorization (effect_audit audit_id Aue_EFFECT_TRANSITION i now
        ((eff_payload row)\<lparr> led_effect_id := eid \<rparr>) status) d1"
proof -
  have nd: "status \<in> set (TRANSITIONS expected) \<Longrightarrow> status \<noteq> Eff_DISPATCHED"
    by (cases expected) auto
  show thesis
    using assms that nd unfolding transition_def Let_def
    by (auto simp: bindE_Inr_iff split: if_splits option.splits)
qed

lemma transition_kept [inv_laws]:
  assumes "transition digest tenant d eid expected status now receipt failure audit_id = Inr (d', l')"
    and ok: "ledger_ok d"
  shows "ledger_kept d d'"
  using assms(1)
proof (cases rule: transition_Inr)
  case (1 row d1 i)
  have edge: "effect_edge expected status" "status \<notin> {Eff_PREPARED, Eff_NOOP}"
    "expected \<notin> {Eff_PREPARED, Eff_NOOP}"
    using 1(1) by (cases expected; auto)+
  have "eff_status row = expected" using 1(3,6) by (auto simp: cas_effect_def split: if_splits)
  then have "led_attempt_count (eff_payload row) = 1"
    using ledger_okD(1) [OF ok 1(3)] edge(3) by (auto simp: effect_row_ok_def Let_def)
  then have "ledger_kept d d1"
    using edge by (intro cas_effect_kept [OF 1(6) ok 1(3)]) (auto simp: 1(5) same_effect_def)
  then show ?thesis by (simp add: 1(7))
qed

end
