(* ===== verification/Recovery.thy ===== *)
theory Recovery
  imports Authorization
begin

text \<open>
  The recovery of effects whose outcome is unknown (\<open>recovery/proof.py\<close>, \<open>recovery/identity.py\<close>,
  \<open>recovery/repository.py\<close>): leases on an effect, persisted lookups, and the only transitions out of
  \<open>UNKNOWN\<close>. \<open>contract\<close> and \<open>policy\<close> are the trusted configuration of the repository.
\<close>

section \<open>Lookup proofs\<close>

definition validate_lookup :: "(jv \<Rightarrow> string) \<Rightarrow> side_effect_ledger \<Rightarrow> effect_identity
    \<Rightarrow> side_effect_lookup_result \<Rightarrow> recovery_capability \<Rightarrow> time \<Rightarrow> error + recovery_proof" where
  "validate_lookup digest l identity r contract now = (
     let age = now - lkr_observed_at r in
     if \<not> lookup_result_valid r \<or> \<not> recovery_capability_valid contract then Inl ValidationError
     else if \<not> rcap_supports_lookup contract \<or> lkr_resolver_id r \<noteq> rcap_resolver_id contract
       \<or> lkr_correlation_id r \<noteq> led_dispatch_correlation_id l
       \<or> lkr_command_identity_hash r \<noteq> digest (effect_identity_json identity)
       \<or> led_effect_id l \<noteq> eid_effect_id identity
     then Inl (RecoveryError Rf_LOOKUP_PROOF_CONFLICT)
     else if age < 0 \<or> seconds (rcap_lookup_freshness_sla_seconds contract) < age
     then Inl (RecoveryError Rf_INVALID_LOOKUP_RECEIPT)
     else if truthy (led_external_effect_ref l) \<and> truthy (lkr_external_effect_ref r)
       \<and> led_external_effect_ref l \<noteq> lkr_external_effect_ref r
     then Inl (RecoveryError Rf_LOOKUP_PROOF_CONFLICT)
     else if lkr_lookup_status r = Lk_NOT_FOUND \<and> truthy (led_external_effect_ref l)
     then Inl (RecoveryError Rf_LOOKUP_PROOF_CONFLICT)
     else if truthy (lkr_external_effect_ref r) \<and> \<not> rcap_supports_external_effect_ref contract
     then Inl (RecoveryError Rf_INVALID_LOOKUP_RECEIPT)
     else Inr \<lparr> rpf_effect_id = led_effect_id l, rpf_correlation_id = lkr_correlation_id r,
       rpf_resolver_id = lkr_resolver_id r, rpf_lookup_status = lkr_lookup_status r,
       rpf_external_effect_ref = lkr_external_effect_ref r, rpf_observed_at = lkr_observed_at r,
       rpf_contract_version = rcap_contract_version contract,
       rpf_command_identity_hash = lkr_command_identity_hash r,
       rpf_result_hash = digest (lookup_result_json r) \<rparr>)"

definition reconcile_status :: "side_effect_lookup_result \<Rightarrow> recovery_capability
    \<Rightarrow> effect_status \<times> recovery_failure option" where
  "reconcile_status r contract = (
     if lkr_lookup_status r = Lk_FOUND_APPLIED then (Eff_APPLIED, None)
     else if lkr_lookup_status r = Lk_FOUND_ACCEPTED then (Eff_ACCEPTED, None)
     else if lkr_lookup_status r = Lk_FOUND_FAILED_NO_EFFECT \<and> lkr_no_effect_confirmed r
     then (Eff_FAILED_CONFIRMED, None)
     else if lkr_lookup_status r = Lk_NOT_FOUND then
       (if rcap_not_found_proves_no_effect contract then (Eff_FAILED_CONFIRMED, None)
        else (Eff_UNKNOWN, Some Rf_LOOKUP_NOT_FOUND))
     else (Eff_UNKNOWN, Some Rf_LOOKUP_INDETERMINATE))"

section \<open>Reconstructed identity\<close>

text \<open>\<open>reconstruct_identity\<close>: every binding of the capability, and the command it authorised.\<close>

definition capability_binds :: "execution_capability \<Rightarrow> side_effect_ledger \<Rightarrow> bool" where
  "capability_binds cap l = (xc_intent_id cap = led_intent_id l \<and> xc_tenant_id cap = led_tenant_id l
     \<and> xc_case_id cap = led_case_id l \<and> xc_internal_order_id cap = led_internal_order_id l
     \<and> xc_action_type cap = led_action_type l \<and> xc_target_hash cap = led_target_hash l
     \<and> xc_payload_hash cap = led_payload_hash l \<and> xc_snapshot_id cap = led_snapshot_id l
     \<and> xc_evidence_hash cap = led_evidence_hash l \<and> xc_approval_id cap = led_approval_id l)"

definition reconstruct_identity :: "(jv \<Rightarrow> string) \<Rightarrow> string \<Rightarrow> db \<Rightarrow> side_effect_ledger
    \<Rightarrow> error + effect_identity \<times> execution_capability \<times> remediation_intent" where
  "reconstruct_identity digest tenant d l = (
     let conflict = RecoveryError Rf_LOOKUP_PROOF_CONFLICT in
     bindE (get_intent tenant d (led_intent_id l)) (\<lambda>i.
     case tget (led_capability_id l) (db_capabilities d) of
       None \<Rightarrow> Inl conflict
     | Some row \<Rightarrow>
       if cap_used_effect_id row \<noteq> Some (led_effect_id l) then Inl conflict
       else let cap = cap_payload row in
       if ri_intent_id i \<noteq> digest (intent_json i) then Inl conflict
       else if \<not> capability_binds cap l then Inl conflict
       else if effect_key digest cap \<noteq> led_effect_id l then Inl conflict
       else case build_command digest i cap of
         Inl (AuthorizationError _) \<Rightarrow> Inl conflict
       | Inl e \<Rightarrow> Inl e
       | Inr None \<Rightarrow> Inl conflict
       | Inr (Some command) \<Rightarrow> Inr (\<lparr> eid_effect_id = led_effect_id l, eid_target_hash = led_target_hash l,
           eid_payload_hash = led_payload_hash l, eid_command = command \<rparr>, cap, i)))"

definition original_signed_capability :: "db \<Rightarrow> execution_capability
    \<Rightarrow> error + signed_execution_capability" where
  "original_signed_capability d cap = bindE (needE (RecoveryError Rf_RECOVERY_STALE)
     (tget (xc_capability_id cap) (db_signatures d))) (\<lambda>s.
     Inr \<lparr> sxc_payload = cap, sxc_signature = s \<rparr>)"

section \<open>Leases\<close>

text \<open>\<open>_locked\<close>: the ledger row and the recovery row, under the Case lock.\<close>

definition locked :: "string \<Rightarrow> db \<Rightarrow> string \<Rightarrow> error + effect_row \<times> effect_recovery_state_row" where
  "locked tenant d eid = bindE (needE KeyError (tget eid (db_effects d))) (\<lambda>row.
     bindE (lock_authorized tenant d (eff_case_id row)) (\<lambda>c.
       if is_terminal (cr_status c) \<and> led_status (eff_payload row) \<in> set RECOVERABLE
       then Inl (RecoveryError Rf_CLOSURE_INVARIANT_VIOLATION)
       else bindE (needE (RecoveryError Rf_RECOVERY_STALE) (tget eid (db_recovery_state d)))
         (\<lambda>st. Inr (row, st))))"

text \<open>A truthy lease token.\<close>

definition lease_held :: "effect_recovery_state_row \<Rightarrow> time \<Rightarrow> bool" where
  "lease_held st now = (case ers_lease_until st of None \<Rightarrow> False | Some t \<Rightarrow> now < t)"

definition eligible :: "recovery_policy \<Rightarrow> effect_recovery_state_row \<Rightarrow> time \<Rightarrow> bool" where
  "eligible policy st now = (ers_next_eligible_at st \<le> now
     \<and> ers_ledger_updated_at st + seconds (rpo_grace_seconds policy) \<le> now \<and> \<not> lease_held st now)"

definition list_recoverable_effects :: "recovery_policy \<Rightarrow> string \<Rightarrow> db \<Rightarrow> time \<Rightarrow> time option \<Rightarrow> int
    \<Rightarrow> error + string list" where
  "list_recoverable_effects policy tenant d now older_than limit = (
     if \<not> (1 \<le> limit \<and> limit \<le> 1000) then Inl ValueError
     else let cutoff = min (now - seconds (rpo_grace_seconds policy))
            (case older_than of None \<Rightarrow> now | Some t \<Rightarrow> t)
     in Inr (take (nat limit) (map fst (sort_key (\<lambda>(_, s). ers_next_eligible_at s) (sort_key fst
       (filter (\<lambda>(_, s). ers_tenant_id s = tenant \<and> ers_status s \<in> set RECOVERABLE
          \<and> ers_ledger_updated_at s \<le> cutoff \<and> ers_next_eligible_at s \<le> now
          \<and> \<not> ers_requires_escalation s \<and> \<not> lease_held s now) (db_recovery_state d)))))))"

definition recovery_audit :: "side_effect_ledger \<Rightarrow> recovery_claim \<Rightarrow> recovery_audit_event \<Rightarrow> time
    \<Rightarrow> recovery_proof option \<Rightarrow> recovery_failure option \<Rightarrow> db \<Rightarrow> db" where
  "recovery_audit l claim event now proof failure d = d\<lparr> db_recovery_audit := db_recovery_audit d @
     [\<lparr> raud_recovery_id = rcl_recovery_id claim, raud_tenant_id = led_tenant_id l,
        raud_case_id = led_case_id l, raud_intent_id = led_intent_id l,
        raud_approval_id = led_approval_id l, raud_capability_id = led_capability_id l,
        raud_effect_id = led_effect_id l, raud_correlation_id = led_dispatch_correlation_id l,
        raud_event = event, raud_recorded_at = now, raud_proof = proof,
        raud_failure_code = failure \<rparr>] \<rparr>"

definition put_state :: "string \<Rightarrow> effect_recovery_state_row \<Rightarrow> db \<Rightarrow> db" where
  "put_state eid st d = d\<lparr> db_recovery_state := tput eid st (db_recovery_state d) \<rparr>"

definition put_attempt :: "string \<Rightarrow> effect_recovery_attempt_row \<Rightarrow> db \<Rightarrow> db" where
  "put_attempt rid a d = d\<lparr> db_attempts := tput rid a (db_attempts d) \<rparr>"

text \<open>The attempt of an expired lease is closed as lost before a successor starts.\<close>

definition abandon :: "effect_recovery_state_row \<Rightarrow> time \<Rightarrow> db \<Rightarrow> db" where
  "abandon st now d = (case ers_lease_token st of None \<Rightarrow> d
     | Some token \<Rightarrow> if token = [] then d else (case tget token (db_attempts d) of None \<Rightarrow> d
       | Some a \<Rightarrow> if att_completed_at a \<noteq> None then d
           else put_attempt token (a\<lparr> att_completed_at := Some now,
             att_failure_code := Some Rf_LEASE_LOST \<rparr>) d))"

definition claim_recovery :: "recovery_capability \<Rightarrow> recovery_policy \<Rightarrow> string \<Rightarrow> db \<Rightarrow> string \<Rightarrow> string
    \<Rightarrow> time \<Rightarrow> string \<Rightarrow> error + db \<times> recovery_claim option" where
  "claim_recovery contract policy tenant d eid worker now uuid =
     bindE (locked tenant d eid) (\<lambda>(row, st).
       let l = eff_payload row in
       if led_status l \<notin> set RECOVERABLE then Inr (d, None)
       else if ers_requires_escalation st \<or> rpo_max_attempts policy \<le> ers_attempt_count st
       then Inr (put_state eid (st\<lparr> ers_requires_escalation := True \<rparr>) d, None)
       else if \<not> eligible policy st now then Inr (d, None)
       else
         let d1 = abandon st now d;
             claim = \<lparr> rcl_recovery_id = uuid, rcl_effect_id = eid, rcl_worker_id = worker,
               rcl_source_status = led_status l, rcl_sequence = ers_attempt_count st + 1 \<rparr>;
             st' = st\<lparr> ers_lease_owner := Some worker, ers_lease_token := Some uuid,
               ers_lease_until := Some (now + seconds (rpo_lease_seconds policy)),
               ers_attempt_count := rcl_sequence claim \<rparr>
         in if \<exists>(_, a) \<in> set (db_attempts d1). att_effect_id a = eid
              \<and> att_sequence a = rcl_sequence claim then Inl IntegrityError
            else bindE (tadd IntegrityError uuid \<lparr> att_worker_id = worker, att_effect_id = eid,
                att_sequence = rcl_sequence claim, att_started_at = now, att_completed_at = None,
                att_source_status = led_status l, att_resolver_id = rcap_resolver_id contract,
                att_result_status = None, att_lookup_result = None, att_proof = None,
                att_proof_hash = None, att_failure_code = None \<rparr> (db_attempts d1)) (\<lambda>as.
              Inr (recovery_audit l claim Rae_RECOVERY_SCAN now None None
                (put_state eid st' (d1\<lparr> db_attempts := as \<rparr>)), Some claim)))"

definition owned_attempt :: "db \<Rightarrow> recovery_claim \<Rightarrow> effect_recovery_state_row \<Rightarrow> time
    \<Rightarrow> error + effect_recovery_attempt_row" where
  "owned_attempt d claim st now = (
     if ers_lease_token st \<noteq> Some (rcl_recovery_id claim) \<or> ers_lease_owner st \<noteq> Some (rcl_worker_id claim)
       \<or> (case ers_lease_until st of None \<Rightarrow> True | Some t \<Rightarrow> t \<le> now)
     then Inl (RecoveryError Rf_LEASE_LOST)
     else case tget (rcl_recovery_id claim) (db_attempts d) of
       None \<Rightarrow> Inl (RecoveryError Rf_LEASE_LOST)
     | Some a \<Rightarrow> if att_completed_at a \<noteq> None \<or> att_effect_id a \<noteq> rcl_effect_id claim
         then Inl (RecoveryError Rf_LEASE_LOST) else Inr a)"

section \<open>Lookups and transitions\<close>

definition persist_lookup :: "(jv \<Rightarrow> string) \<Rightarrow> recovery_capability \<Rightarrow> string \<Rightarrow> db \<Rightarrow> recovery_claim
    \<Rightarrow> effect_identity \<Rightarrow> side_effect_lookup_result \<Rightarrow> time \<Rightarrow> error + db" where
  "persist_lookup digest contract tenant d claim identity r now =
     bindE (locked tenant d (rcl_effect_id claim)) (\<lambda>(row, st).
     bindE (owned_attempt d claim st now) (\<lambda>a.
       let l = eff_payload row in
       if led_status l \<noteq> rcl_source_status claim \<or> led_status l \<notin> set LOOKUP_ONLY
       then Inl (RecoveryError Rf_RECOVERY_STALE)
       else if att_lookup_result a \<noteq> None then Inl (RecoveryError Rf_LOOKUP_PROOF_CONFLICT)
       else bindE (validate_lookup digest l identity r contract now) (\<lambda>proof.
         Inr (recovery_audit l claim Rae_RECOVERY_LOOKUP now (Some proof) None
           (put_attempt (rcl_recovery_id claim) (a\<lparr> att_lookup_result := Some r, att_proof := Some proof,
             att_proof_hash := Some (digest (recovery_proof_json proof)) \<rparr>) d)))))"

definition backoff :: "recovery_policy \<Rightarrow> int \<Rightarrow> int" where
  "backoff policy sequence = (let b = rpo_backoff_seconds policy
     in b ! nat (min (sequence - 1) (int (length b) - 1)))"

text \<open>\<open>_finish\<close>, on the recovery row as it is after the transition was published.\<close>

definition finish :: "recovery_policy \<Rightarrow> db \<Rightarrow> side_effect_ledger \<Rightarrow> effect_recovery_state_row
    \<Rightarrow> effect_recovery_attempt_row \<Rightarrow> recovery_claim \<Rightarrow> time \<Rightarrow> recovery_failure option
    \<Rightarrow> recovery_proof option \<Rightarrow> bool \<Rightarrow> db" where
  "finish policy d l st a claim now failure proof escalate = (
     let a' = a\<lparr> att_completed_at := Some now, att_result_status := Some (led_status l),
           att_failure_code := failure \<rparr>;
         st' = st\<lparr> ers_lease_owner := None, ers_lease_token := None, ers_lease_until := None,
           ers_next_eligible_at := now + seconds (backoff policy (rcl_sequence claim)),
           ers_requires_escalation := (led_status l \<in> set RECOVERABLE
             \<and> (escalate \<or> rpo_max_attempts policy \<le> rcl_sequence claim)) \<rparr>;
         d1 = put_state (rcl_effect_id claim) st' (put_attempt (rcl_recovery_id claim) a' d);
         d2 = recovery_audit l claim Rae_RECOVERY_TRANSITION now proof failure d1
     in if ers_requires_escalation st'
        then recovery_audit l claim Rae_RECOVERY_ESCALATED now None
          (Some (case failure of None \<Rightarrow> Rf_RECOVERY_LIMIT_REACHED | Some f \<Rightarrow> f)) d2
        else d2)"

definition state_after :: "db \<Rightarrow> string \<Rightarrow> error + effect_recovery_state_row" where
  "state_after d eid = needE AttributeError (tget eid (db_recovery_state d))"

definition recover_transition :: "(jv \<Rightarrow> string) \<Rightarrow> recovery_capability \<Rightarrow> recovery_policy \<Rightarrow> string \<Rightarrow> db
    \<Rightarrow> recovery_claim \<Rightarrow> time \<Rightarrow> error + db \<times> side_effect_ledger" where
  "recover_transition digest contract policy tenant d claim now =
     bindE (locked tenant d (rcl_effect_id claim)) (\<lambda>(row, st).
     bindE (owned_attempt d claim st now) (\<lambda>a.
       let l = eff_payload row in
       if led_status l \<noteq> rcl_source_status claim \<or> led_status l \<notin> set LOOKUP_ONLY
       then Inl (RecoveryError Rf_RECOVERY_STALE)
       else case (att_lookup_result a, att_proof a) of
         (Some r, Some saved) \<Rightarrow>
           if att_resolver_id a \<noteq> rcap_resolver_id contract
           then Inl (RecoveryError Rf_INVALID_LOOKUP_RECEIPT)
           else bindE (reconstruct_identity digest tenant d l) (\<lambda>(identity, _, _).
             bindE (validate_lookup digest l identity r contract now) (\<lambda>proof.
               if saved \<noteq> proof \<or> att_proof_hash a \<noteq> Some (digest (recovery_proof_json saved))
               then Inl (RecoveryError Rf_LOOKUP_PROOF_CONFLICT)
               else
                 let (target, failure) = reconcile_status r contract;
                     changed = l\<lparr> led_status := target, led_updated_at := now,
                       led_external_effect_ref := (if truthy (lkr_external_effect_ref r)
                         then lkr_external_effect_ref r else led_external_effect_ref l),
                       led_failure_code := (if target = Eff_UNKNOWN then led_failure_code l else None) \<rparr>
                 in bindE (cas_effect digest (RecoveryError Rf_RECOVERY_STALE) d (rcl_effect_id claim)
                      (led_status l) changed) (\<lambda>d1.
                    bindE (state_after d1 (rcl_effect_id claim)) (\<lambda>st1.
                    Inr (finish policy d1 changed st1 a claim now failure (Some proof) False, changed)))))
       | _ \<Rightarrow> Inl (RecoveryError Rf_INVALID_LOOKUP_RECEIPT)))"

definition finish_error :: "(jv \<Rightarrow> string) \<Rightarrow> recovery_policy \<Rightarrow> string \<Rightarrow> db \<Rightarrow> recovery_claim \<Rightarrow> time
    \<Rightarrow> recovery_failure \<Rightarrow> error + db \<times> side_effect_ledger" where
  "finish_error digest policy tenant d claim now failure =
     bindE (locked tenant d (rcl_effect_id claim)) (\<lambda>(row, st).
     bindE (owned_attempt d claim st now) (\<lambda>a.
       let l = eff_payload row;
           escalate = failure \<in> {Rf_LOOKUP_PROOF_CONFLICT, Rf_INVALID_LOOKUP_RECEIPT};
           changed = l\<lparr> led_status := Eff_UNKNOWN, led_updated_at := now \<rparr>
       in if led_status l = rcl_source_status claim \<and> led_status l \<in> set LOOKUP_ONLY
          then bindE (cas_effect digest (RecoveryError Rf_RECOVERY_STALE) d (rcl_effect_id claim)
                 (led_status l) changed) (\<lambda>d1.
               bindE (state_after d1 (rcl_effect_id claim)) (\<lambda>st1.
               Inr (finish policy d1 changed st1 a claim now (Some failure) None escalate, changed)))
          else Inr (finish policy d l st a claim now (Some failure) None escalate, l)))"

definition finish_resume :: "recovery_policy \<Rightarrow> string \<Rightarrow> db \<Rightarrow> recovery_claim \<Rightarrow> time
    \<Rightarrow> error + db \<times> side_effect_ledger" where
  "finish_resume policy tenant d claim now =
     bindE (locked tenant d (rcl_effect_id claim)) (\<lambda>(row, st).
     bindE (owned_attempt d claim st now) (\<lambda>a.
       Inr (finish policy d (eff_payload row) st a claim now None None False, eff_payload row)))"

definition requires_escalation :: "string \<Rightarrow> db \<Rightarrow> string \<Rightarrow> error + bool" where
  "requires_escalation tenant d eid = bindE (get_ledger tenant d eid) (\<lambda>_.
     bindE (state_after d eid) (\<lambda>st. Inr (ers_requires_escalation st)))"

definition attempts_of :: "db \<Rightarrow> string \<Rightarrow> (string \<times> effect_recovery_attempt_row) list" where
  "attempts_of d eid = sort_key (\<lambda>(_, a). att_sequence a)
     (filter (\<lambda>(_, a). att_effect_id a = eid) (db_attempts d))"

end
