(* ===== verification/RecoveryInvariant.thy ===== *)
theory RecoveryInvariant
  imports LedgerInvariant Recovery
begin

text \<open>
  The recovery keeps the ledger: its transactions move entries along the status machine only through
  the compare-and-swap, and otherwise write leases, attempts and audit.
\<close>

lemma locked_Inr:
  assumes "locked tenant d eid = Inr (row, st)"
  shows "tget eid (db_effects d) = Some row" and "tget eid (db_recovery_state d) = Some st"
  using assms by (auto simp: locked_def bindE_Inr_iff split: if_splits)

lemma put_state_kept:
  assumes kept: "ledger_kept d d1" and old: "tget eid (db_recovery_state d1) = Some st"
    and same: "ers_status st' = ers_status st" "ers_case_id st' = ers_case_id st"
  shows "ledger_kept d (put_state eid st' d1)"
proof -
  have ok: "ledger_ok d1" and moved: "ledger_moved d d1" using kept by (simp_all add: ledger_kept_def)
  have "recovery_row_ok (put_state eid st' d1) k r" if "recovery_row_ok d1 k r" for k r
    using that old same by (auto simp: recovery_row_ok_def put_state_def)
  moreover have "tget k (db_recovery_state (put_state eid st' d1)) = None"
    if "tget k (db_effects d1) = None" for k
    using ledger_ok_None [OF ok that] old by (auto simp: put_state_def)
  moreover have "db_effects (put_state eid st' d1) = db_effects d1" "db_work (put_state eid st' d1) = db_work d1"
    by (simp_all add: put_state_def)
  ultimately have "ledger_ok (put_state eid st' d1)"
    using ok ledger_okD [OF ok] ledger_ok_work [OF ok] by (simp add: ledger_ok_def split: option.split)
  moreover have "ledger_moved d (put_state eid st' d1)"
    by (rule ledger_moved_cong [OF moved]) (simp add: put_state_def)
  ultimately show ?thesis by (simp add: ledger_kept_def)
qed

lemma put_attempt_kept: "ledger_kept d d1 \<Longrightarrow> ledger_kept d (put_attempt rid a d1)"
  by (erule ledger_kept_extend) (simp_all add: put_attempt_def)

lemma recovery_audit_kept: "ledger_kept d d1 \<Longrightarrow> ledger_kept d (recovery_audit l c ev now p f d1)"
  by (erule ledger_kept_extend) (simp_all add: recovery_audit_def)

lemma attempts_update_kept: "ledger_kept d d1 \<Longrightarrow> ledger_kept d (d1\<lparr> db_attempts := x \<rparr>)"
  by (erule ledger_kept_extend) simp_all

lemma ledger_kept_refl: "ledger_ok d \<Longrightarrow> ledger_kept d d"
  by (rule ledger_kept_frame) simp_all

lemma abandon_tables [simp]:
  "db_recovery_state (abandon st now d) = db_recovery_state d"
  "db_effects (abandon st now d) = db_effects d" "db_work (abandon st now d) = db_work d"
  "db_cases (abandon st now d) = db_cases d"
  by (simp_all add: abandon_def put_attempt_def split: option.splits)

lemma claim_recovery_kept [inv_laws]:
  assumes "claim_recovery contract policy tenant d eid worker now uuid = Inr (d', x)" and ok: "ledger_ok d"
  shows "ledger_kept d d'"
proof -
  obtain row st where l: "locked tenant d eid = Inr (row, st)"
    using assms(1) by (auto simp: claim_recovery_def bindE_Inr_iff)
  note tables = locked_Inr [OF l]
  have "ledger_kept d (abandon st now d)" by (rule ledger_kept_frame [OF ok]) simp_all
  then have ab: "ledger_kept d (abandon st now d\<lparr> db_attempts := as \<rparr>)" for as
    by (rule attempts_update_kept)
  show ?thesis
    using assms(1) tables(2) ok
    unfolding claim_recovery_def l bindE_simps case_prod_conv Let_def
    by (auto simp: bindE_Inr_iff intro!: recovery_audit_kept put_state_kept [OF ab]
        put_state_kept [OF ledger_kept_refl [OF ok]] ledger_kept_refl split: if_splits)
qed

lemma persist_lookup_kept [inv_laws]:
  assumes "persist_lookup digest contract tenant d claim identity r now = Inr d'" and ok: "ledger_ok d"
  shows "ledger_kept d d'"
  using assms(1) ledger_kept_refl [OF ok]
  by (auto simp: persist_lookup_def bindE_Inr_iff Let_def intro!: recovery_audit_kept put_attempt_kept
      split: if_splits)

lemma finish_kept:
  assumes "ledger_kept d d1" and "tget (rcl_effect_id claim) (db_recovery_state d1) = Some st"
  shows "ledger_kept d (finish policy d1 l st a claim now failure proof escalate)"
proof -
  have "ledger_kept d (put_attempt (rcl_recovery_id claim) a' d1)" for a'
    by (rule put_attempt_kept [OF assms(1)])
  then have "ledger_kept d (put_state (rcl_effect_id claim) st' (put_attempt (rcl_recovery_id claim) a' d1))"
    if "ers_status st' = ers_status st" "ers_case_id st' = ers_case_id st" for st' a'
    using assms(2) that by (intro put_state_kept [of _ _ _ st]) (simp_all add: put_attempt_def)
  then show ?thesis
    by (simp add: finish_def Let_def recovery_audit_kept)
qed

lemma reconcile_status_edge:
  "reconcile_status r contract = (target, failure)
   \<Longrightarrow> target \<in> {Eff_APPLIED, Eff_ACCEPTED, Eff_FAILED_CONFIRMED, Eff_UNKNOWN}"
  by (auto simp: reconcile_status_def split: if_splits)

lemma lookup_only_edge:
  assumes "s \<in> set LOOKUP_ONLY" and "t \<in> {Eff_APPLIED, Eff_ACCEPTED, Eff_FAILED_CONFIRMED, Eff_UNKNOWN}"
  shows "effect_edge s t"
  using assms by (auto simp: LOOKUP_ONLY_def)

lemma lookup_cas_kept:
  assumes "cas_effect digest e d eid (led_status (eff_payload row)) l' = Inr d1" and ok: "ledger_ok d"
    and row: "tget eid (db_effects d) = Some row"
    and "led_status (eff_payload row) \<in> set LOOKUP_ONLY"
    and "led_status l' \<in> {Eff_APPLIED, Eff_ACCEPTED, Eff_FAILED_CONFIRMED, Eff_UNKNOWN}"
    and "same_effect (eff_payload row) l'" and "led_attempt_count l' = led_attempt_count (eff_payload row)"
  shows "ledger_kept d d1"
proof (rule cas_effect_kept [OF assms(1) ok row assms(6)])
  show "effect_edge (led_status (eff_payload row)) (led_status l')" by (rule lookup_only_edge [OF assms(4,5)])
  show "led_attempt_count l' = (if led_status l' \<in> {Eff_PREPARED, Eff_NOOP} then 0 else 1)"
    using ledger_okD(1) [OF ok row] assms(4,5,7) by (auto simp: effect_row_ok_def Let_def LOOKUP_ONLY_def)
qed

text \<open>What a recovered transition has checked.\<close>

lemma recover_transition_Inr:
  assumes "recover_transition digest contract policy tenant d claim now = Inr (d', l')"
  obtains row st a r pf identity cap i d1 st1 where
    "locked tenant d (rcl_effect_id claim) = Inr (row, st)" "owned_attempt d claim st now = Inr a"
    "led_status (eff_payload row) = rcl_source_status claim" "led_status (eff_payload row) \<in> set LOOKUP_ONLY"
    "att_lookup_result a = Some r" "att_proof a = Some pf"
    "att_resolver_id a = rcap_resolver_id contract"
    "att_proof_hash a = Some (digest (recovery_proof_json pf))"
    "reconstruct_identity digest tenant d (eff_payload row) = Inr (identity, cap, i)"
    "validate_lookup digest (eff_payload row) identity r contract now = Inr pf"
    "l' = (eff_payload row)\<lparr> led_status := fst (reconcile_status r contract), led_updated_at := now,
       led_external_effect_ref := (if truthy (lkr_external_effect_ref r)
         then lkr_external_effect_ref r else led_external_effect_ref (eff_payload row)),
       led_failure_code := (if fst (reconcile_status r contract) = Eff_UNKNOWN
         then led_failure_code (eff_payload row) else None) \<rparr>"
    "cas_effect digest (RecoveryError Rf_RECOVERY_STALE) d (rcl_effect_id claim)
       (led_status (eff_payload row)) l' = Inr d1"
    "tget (rcl_effect_id claim) (db_recovery_state d1) = Some st1"
    "d' = finish policy d1 l' st1 a claim now (snd (reconcile_status r contract)) (Some pf) False"
proof -
  obtain row st a where l: "locked tenant d (rcl_effect_id claim) = Inr (row, st)"
    and o: "owned_attempt d claim st now = Inr a"
    using assms by (auto simp: recover_transition_def bindE_Inr_iff)
  note eqs = l o bindE_simps case_prod_conv Let_def
  obtain r pf where r: "att_lookup_result a = Some r" "att_proof a = Some pf"
    using assms unfolding recover_transition_def eqs by (auto split: if_splits option.splits)
  obtain identity cap i where id: "reconstruct_identity digest tenant d (eff_payload row) = Inr (identity, cap, i)"
    using assms unfolding recover_transition_def eqs r option.case
    by (auto simp: bindE_Inr_iff split: if_splits)
  obtain target failure where t: "reconcile_status r contract = (target, failure)" by fastforce
  show thesis
    using assms unfolding recover_transition_def eqs r option.case id t
    by (auto simp: bindE_Inr_iff t state_after_def split: if_splits intro!: that [OF l o _ _ r _ _ id])
qed

lemma recover_transition_kept [inv_laws]:
  assumes "recover_transition digest contract policy tenant d claim now = Inr (d', l')" and ok: "ledger_ok d"
  shows "ledger_kept d d'"
  using assms(1)
proof (cases rule: recover_transition_Inr)
  case (1 row st a r pf identity cap i d1 st1)
  have "led_status l' \<in> {Eff_APPLIED, Eff_ACCEPTED, Eff_FAILED_CONFIRMED, Eff_UNKNOWN}"
    using reconcile_status_edge [of r contract] by (simp add: 1(11)) (metis prod.collapse)
  then have "ledger_kept d d1"
    by (intro lookup_cas_kept [OF 1(12) ok locked_Inr(1) [OF 1(1)] 1(4)])
      (simp_all add: 1(11) same_effect_def)
  from finish_kept [OF this 1(13)] show ?thesis unfolding 1(14) .
qed

lemma finish_error_kept [inv_laws]:
  assumes "finish_error digest policy tenant d claim now failure = Inr (d', l')" and ok: "ledger_ok d"
  shows "ledger_kept d d'"
proof -
  obtain row st a where l: "locked tenant d (rcl_effect_id claim) = Inr (row, st)"
    and o: "owned_attempt d claim st now = Inr a"
    using assms by (auto simp: finish_error_def bindE_Inr_iff)
  let ?l = "eff_payload row"
  show ?thesis
  proof (cases "led_status ?l = rcl_source_status claim \<and> led_status ?l \<in> set LOOKUP_ONLY")
    case False
    then have "d' = finish policy d ?l st a claim now (Some failure) None
        (failure \<in> {Rf_LOOKUP_PROOF_CONFLICT, Rf_INVALID_LOOKUP_RECEIPT})"
      using assms(1)
      unfolding finish_error_def l o bindE_simps case_prod_conv Let_def if_not_P [OF False] by auto
    then show ?thesis using finish_kept [OF ledger_kept_refl [OF ok] locked_Inr(2) [OF l]] by simp
  next
    case True
    let ?l' = "?l\<lparr> led_status := Eff_UNKNOWN, led_updated_at := now \<rparr>"
    from assms(1) obtain d1 st1 where
      cas: "cas_effect digest (RecoveryError Rf_RECOVERY_STALE) d (rcl_effect_id claim) (led_status ?l) ?l' = Inr d1"
      and st1: "tget (rcl_effect_id claim) (db_recovery_state d1) = Some st1"
      and d': "d' = finish policy d1 ?l' st1 a claim now (Some failure) None
        (failure \<in> {Rf_LOOKUP_PROOF_CONFLICT, Rf_INVALID_LOOKUP_RECEIPT})"
      unfolding finish_error_def l o bindE_simps case_prod_conv Let_def if_P [OF True]
      by (auto simp: bindE_Inr_iff state_after_def)
    have "ledger_kept d d1"
      by (rule lookup_cas_kept [OF cas ok locked_Inr(1) [OF l]]) (use True in \<open>auto simp: same_effect_def\<close>)
    from finish_kept [OF this st1] show ?thesis unfolding d' .
  qed
qed

lemma finish_resume_kept [inv_laws]:
  assumes "finish_resume policy tenant d claim now = Inr (d', l')" and ok: "ledger_ok d"
  shows "ledger_kept d d'"
  using assms(1) finish_kept [OF ledger_kept_refl [OF ok]] locked_Inr(2)
  by (auto simp: finish_resume_def bindE_Inr_iff)

end
