(* ===== verification/WorkRepository.thy ===== *)
theory WorkRepository
  imports EffectWork
begin

text \<open>
  The work queue of a tenant (\<open>orchestration/repository.py: WorkRepository\<close>,
  \<open>orchestration/effect_work.py: EffectRecoveryWorkGuard\<close>) and the pause of a Case together with the
  work that resumes it (\<open>orchestration/handoff.py: pause_handoff\<close>,
  \<open>cases/repository.py: pause_if_current\<close>). Every writer holds the Case lock.
\<close>

section \<open>Rows\<close>

definition work_row :: "string \<Rightarrow> db \<Rightarrow> string \<Rightarrow> error + work_item_row" where
  "work_row tenant d key = (case tget key (db_work d) of
     Some r \<Rightarrow> if wir_tenant_id r = tenant then Inr r else Inl OrchestrationError
   | None \<Rightarrow> Inl OrchestrationError)"

definition lock_work_case :: "string \<Rightarrow> db \<Rightarrow> string \<Rightarrow> error + case_row" where
  "lock_work_case tenant d cid = (case case_row_of tenant d cid of
     Inl _ \<Rightarrow> Inl OrchestrationError | Inr r \<Rightarrow> Inr r)"

definition get_work :: "string \<Rightarrow> db \<Rightarrow> string \<Rightarrow> error + case_work_item" where
  "get_work tenant d key = bindE (work_row tenant d key) (\<lambda>r. Inr (wir_payload r))"

definition list_work :: "string \<Rightarrow> db \<Rightarrow> string \<Rightarrow> error + case_work_item list" where
  "list_work tenant d cid = bindE (get_case tenant d cid) (\<lambda>_.
     Inr (map (\<lambda>(_, r). wir_payload r) (sort_key (\<lambda>(_, r). wir_not_before r) (sort_key fst
       (filter (\<lambda>(_, r). wir_case_id r = cid \<and> wir_tenant_id r = tenant) (db_work d))))))"

definition orchestration_state :: "string \<Rightarrow> db \<Rightarrow> string \<Rightarrow> error + db \<times> case_orchestration_state" where
  "orchestration_state tenant d cid = bindE (lock_work_case tenant d cid) (\<lambda>c.
     let (d1, s) = state_in d cid (cr_tenant_id c)
     in Inr (d1, s\<lparr> cos_pending_work_count := int (length (filter (\<lambda>r. wir_case_id r = cid
       \<and> wir_status r \<in> set ACTIVE) (trows (db_work d1)))) \<rparr>))"

definition configure :: "string \<Rightarrow> db \<Rightarrow> string \<Rightarrow> orchestration_budget \<Rightarrow> error + db" where
  "configure tenant d cid b = (
     if \<not> orchestration_budget_valid b then Inl ValidationError
     else bindE (lock_work_case tenant d cid) (\<lambda>c.
       let (d1, s) = state_in d cid (cr_tenant_id c)
       in if cos_resume_cycle_count s \<noteq> 0 \<or> cos_verification_cycle_count s \<noteq> 0
          then Inl OrchestrationError
          else Inr (save_state cid (s\<lparr> cos_budget := b \<rparr>) d1)))"

section \<open>Due work\<close>

definition signal_ready :: "case_work_item \<Rightarrow> bool" where
  "signal_ready w = (wi_required_signal w = None \<or> truthy (wi_signal_id w))"

definition due :: "string \<Rightarrow> time \<Rightarrow> work_item_row \<Rightarrow> bool" where
  "due tenant now r = (wir_tenant_id r = tenant
     \<and> ((wir_status r \<in> {Ws_PENDING, Ws_READY}
          \<and> (wi_work_type (wir_payload r) = Work_RECOVERY_RECHECK
             \<or> wi_required_signal (wir_payload r) = None \<or> wi_signal_id (wir_payload r) \<noteq> None))
        \<or> (wir_status r = Ws_CLAIMED \<and> (case wir_lease_until r of None \<Rightarrow> False | Some t \<Rightarrow> t \<le> now)))
     \<and> wir_not_before r \<le> now)"

definition due_ids :: "string \<Rightarrow> db \<Rightarrow> time \<Rightarrow> int \<Rightarrow> string list" where
  "due_ids tenant d now limit = take (nat limit) (map fst (sort_key (\<lambda>(_, r). wir_not_before r)
     (sort_key fst (filter (\<lambda>(_, r). due tenant now r) (db_work d)))))"

definition stale_snapshot :: "case_row \<Rightarrow> case_work_item \<Rightarrow> bool" where
  "stale_snapshot c w = (cr_status c \<noteq> wi_expected_case_status w
     \<or> cr_updated_at c \<noteq> wi_expected_case_revision w)"

text \<open>The tail of the loop body: \<open>PENDING\<close> becomes \<open>READY\<close>, an expired lease can be claimed again.\<close>

definition poll_ready :: "db \<Rightarrow> string \<Rightarrow> case_work_item \<Rightarrow> time \<Rightarrow> error + db \<times> bool" where
  "poll_ready d key w now = (
     if wi_status w \<in> {Ws_PENDING, Ws_READY} \<and> (binding_mode w = Bind_SIDE_EFFECT \<or> signal_ready w)
     then Inr (if wi_status w = Ws_PENDING
       then audit_work (w\<lparr> wi_status := Ws_READY \<rparr>) We_READY now (Some (wi_status w)) None
         (save_work key (w\<lparr> wi_status := Ws_READY \<rparr>) d) else d, True)
     else if wi_status w = Ws_CLAIMED then
       (case wi_lease_until w of None \<Rightarrow> Inl TypeError | Some t \<Rightarrow> Inr (d, t \<le> now))
     else Inr (d, False))"

definition poll_one :: "(jv \<Rightarrow> string) \<Rightarrow> string \<Rightarrow> db \<Rightarrow> string \<Rightarrow> time \<Rightarrow> error + db \<times> bool" where
  "poll_one digest tenant d key now = bindE (work_row tenant d key) (\<lambda>r.
     let cid = wi_case_id (wir_payload r); w = wir_payload r in
     bindE (lock_work_case tenant d cid) (\<lambda>c.
       if is_terminal (cr_status c) then Inr (cancel_terminal_work d cid now, False)
       else if binding_mode w = Bind_SIDE_EFFECT then
         bindE (check_recovery_work digest d cid key w now True) (\<lambda>(d1, checked).
           if checked = None then Inr (d1, False) else poll_ready d1 key w now)
       else if wi_status w \<in> {Ws_PENDING, Ws_READY} \<and> stale_snapshot c w then
         let changed = w\<lparr> wi_status := Ws_CANCELED, wi_lease_until := None \<rparr>
         in Inr (audit_work changed We_STALE now (Some (wi_status w)) None (save_work key changed d), False)
       else poll_ready d key w now))"

text \<open>One transaction per item: an error leaves the items before it committed.\<close>

fun poll_items :: "(jv \<Rightarrow> string) \<Rightarrow> string \<Rightarrow> time \<Rightarrow> string list \<Rightarrow> db \<Rightarrow> db \<times> (error + string list)" where
  "poll_items digest tenant now [] d = (d, Inr [])"
| "poll_items digest tenant now (k # ks) d = (case poll_one digest tenant d k now of
     Inl e \<Rightarrow> (d, Inl e)
   | Inr (d1, ready) \<Rightarrow> (case poll_items digest tenant now ks d1 of
       (d2, Inl e) \<Rightarrow> (d2, Inl e)
     | (d2, Inr xs) \<Rightarrow> (d2, Inr (if ready then k # xs else xs))))"

definition poll_due_work :: "(jv \<Rightarrow> string) \<Rightarrow> string \<Rightarrow> db \<Rightarrow> time \<Rightarrow> int \<Rightarrow> db \<times> (error + string list)" where
  "poll_due_work digest tenant d now limit = (
     if \<not> (1 \<le> limit \<and> limit \<le> 1000) then (d, Inl ValueError)
     else poll_items digest tenant now (due_ids tenant d now limit) d)"

section \<open>Claims\<close>

definition not_claimable :: "case_work_item \<Rightarrow> time \<Rightarrow> bool" where
  "not_claimable w now = (wi_status w \<notin> set ACTIVE \<or> now < wi_not_before w
     \<or> (binding_mode w = Bind_CASE_SNAPSHOT \<and> \<not> signal_ready w)
     \<or> (case wi_lease_until w of None \<Rightarrow> False | Some t \<Rightarrow> now < t))"

text \<open>One in-flight cycle per Case, expired runs awaiting recovery included.\<close>

definition other_claimed :: "db \<Rightarrow> string \<Rightarrow> string \<Rightarrow> bool" where
  "other_claimed d cid key = list_ex (\<lambda>(k, _). k \<noteq> key) (claimed_rows d cid)"

definition claimed_item :: "case_work_item \<Rightarrow> string \<Rightarrow> string \<Rightarrow> time \<Rightarrow> case_work_item" where
  "claimed_item w worker token lease = w\<lparr> wi_status := Ws_CLAIMED, wi_claimed_by := Some worker,
     wi_lease_token := Some token, wi_lease_until := Some lease,
     wi_attempt_count := wi_attempt_count w + 1 \<rparr>"

definition claim_work :: "(jv \<Rightarrow> string) \<Rightarrow> int \<Rightarrow> string \<Rightarrow> db \<Rightarrow> string \<Rightarrow> string \<Rightarrow> time \<Rightarrow> string
    \<Rightarrow> error + db \<times> work_claim option" where
  "claim_work digest lease_seconds tenant d key worker now token = bindE (work_row tenant d key) (\<lambda>r.
     let w = wir_payload r; cid = wi_case_id w in
     bindE (lock_work_case tenant d cid) (\<lambda>c.
       if is_terminal (cr_status c) then Inr (cancel_terminal_work d cid now, None)
       else if not_claimable w now then Inr (d, None)
       else bindE (if binding_mode w = Bind_SIDE_EFFECT
           then bindE (check_recovery_work digest d cid key w now True) (\<lambda>(d1, checked).
             Inr (d1, checked \<noteq> None))
           else Inr (d, True)) (\<lambda>(d1, go).
         if \<not> go then Inr (d1, None)
         else if other_claimed d1 cid key then Inr (d1, None)
         else
           let changed = claimed_item w worker token (now + seconds lease_seconds)
           in Inr (audit_work changed We_CLAIMED now (Some (wi_status w)) (Some worker)
                (save_work key changed d1),
              Some \<lparr> wc_work_item_id = key, wc_worker_id = worker, wc_lease_token = token \<rparr>))))"

definition owned_work :: "string \<Rightarrow> db \<Rightarrow> work_claim \<Rightarrow> time \<Rightarrow> error + case_work_item" where
  "owned_work tenant d k now = bindE (work_row tenant d (wc_work_item_id k)) (\<lambda>r.
     let w = wir_payload r in
     if wi_status w \<noteq> Ws_CLAIMED \<or> wi_lease_token w \<noteq> Some (wc_lease_token k)
       \<or> wi_claimed_by w \<noteq> Some (wc_worker_id k)
       \<or> (case wi_lease_until w of None \<Rightarrow> True | Some t \<Rightarrow> t \<le> now)
     then Inl OrchestrationError else Inr w)"

definition renew :: "int \<Rightarrow> string \<Rightarrow> db \<Rightarrow> work_claim \<Rightarrow> time \<Rightarrow> error + db \<times> work_lease_precondition" where
  "renew lease_seconds tenant d k now = bindE (get_work tenant d (wc_work_item_id k)) (\<lambda>item.
     bindE (lock_work_case tenant d (wi_case_id item)) (\<lambda>c.
       if is_terminal (cr_status c) then Inl OrchestrationError
       else bindE (owned_work tenant d k now) (\<lambda>w.
         Inr (save_work (wc_work_item_id k) (w\<lparr> wi_lease_until := Some (now + seconds lease_seconds) \<rparr>) d,
           \<lparr> wlp_work_item_id = wc_work_item_id k, wlp_worker_id = wc_worker_id k,
             wlp_lease_token = wc_lease_token k \<rparr>))))"

definition complete_work :: "string \<Rightarrow> db \<Rightarrow> work_claim \<Rightarrow> time \<Rightarrow> error + db \<times> case_work_item" where
  "complete_work tenant d k now = bindE (get_work tenant d (wc_work_item_id k)) (\<lambda>item.
     bindE (lock_work_case tenant d (wi_case_id item)) (\<lambda>_.
       if wi_status item = Ws_COMPLETED \<and> wi_lease_token item = Some (wc_lease_token k)
         \<and> wi_claimed_by item = Some (wc_worker_id k) then Inr (d, item)
       else bindE (owned_work tenant d k now) (\<lambda>w.
         let changed = w\<lparr> wi_status := Ws_COMPLETED, wi_completed_at := Some now, wi_lease_until := None \<rparr>
         in Inr (audit_work changed We_COMPLETED now (Some (wi_status w)) (Some (wc_worker_id k))
           (save_work (wc_work_item_id k) changed d), changed))))"

section \<open>Signals\<close>

definition signal_matches :: "case_row \<Rightarrow> string \<Rightarrow> case_work_item \<Rightarrow> resolution_signal \<Rightarrow> time \<Rightarrow> bool" where
  "signal_matches c cid w s now = (wi_case_id w = cid \<and> \<not> is_terminal (cr_status c)
     \<and> rsg_created_at s \<le> now \<and> wi_created_at w \<le> rsg_created_at s
     \<and> wi_status w \<in> {Ws_PENDING, Ws_READY} \<and> wi_required_signal w = Some (rsg_signal_type s))"

definition submit_signal :: "string \<Rightarrow> db \<Rightarrow> resolution_signal \<Rightarrow> time \<Rightarrow> error + db \<times> case_work_item" where
  "submit_signal tenant d s now = (
     if rsg_tenant_id s \<noteq> tenant then Inl OrchestrationError
     else bindE (lock_work_case tenant d (rsg_case_id s)) (\<lambda>c.
       bindE (work_row tenant d (rsg_work_item_id s)) (\<lambda>r.
         let w = wir_payload r in
         if \<not> signal_matches c (rsg_case_id s) w s now then Inl OrchestrationError
         else bindE (hydrate c) (\<lambda>case_now.
           if rsg_subject s \<noteq> case_internal_order_id case_now \<or> stale_snapshot c w
           then Inl OrchestrationError
           else if (case tget (rsg_signal_id s) (db_signals d) of None \<Rightarrow> False | Some old \<Rightarrow> old \<noteq> s)
           then Inl OrchestrationError
           else if truthy (wi_signal_id w) \<and> wi_signal_id w \<noteq> Some (rsg_signal_id s)
           then Inl OrchestrationError
           else
             let d1 = (if tget (rsg_signal_id s) (db_signals d) = None
                   then d\<lparr> db_signals := tput (rsg_signal_id s) s (db_signals d) \<rparr> else d);
                 changed = w\<lparr> wi_signal_id := Some (rsg_signal_id s), wi_trigger := Trig_RESOLUTION_SIGNAL \<rparr>
             in Inr (save_work (rsg_work_item_id s) changed d1, changed)))))"

section \<open>The guard of a worker that recovers an effect\<close>

definition guard_current :: "(jv \<Rightarrow> string) \<Rightarrow> string \<Rightarrow> db \<Rightarrow> work_claim \<Rightarrow> time
    \<Rightarrow> error + db \<times> case_work_item option" where
  "guard_current digest tenant d k now = bindE (get_work tenant d (wc_work_item_id k)) (\<lambda>item.
     bindE (lock_work_case tenant d (wi_case_id item)) (\<lambda>c.
       if is_terminal (cr_status c) then Inr (cancel_terminal_work d (wi_case_id item) now, None)
       else bindE (owned_work tenant d k now) (\<lambda>w.
         bindE (check_recovery_work digest d (wi_case_id item) (wc_work_item_id k) w now False)
           (\<lambda>(d1, checked). Inr (d1, if checked = None then None else Some w)))))"

section \<open>Pause\<close>

definition pause_handoff :: "(jv \<Rightarrow> string) \<Rightarrow> db \<Rightarrow> string \<Rightarrow> pause_reservation \<Rightarrow> time
    \<Rightarrow> error + db \<times> case_work_item option" where
  "pause_handoff digest d cid p now = (
     if \<not> pause_reservation_valid p then Inl ValidationError
     else bindE (the_case d cid) (\<lambda>c.
       let waiting = cr_status c = Case_WAITING in
       if waiting \<noteq> (pres_wait_seconds p \<noteq> None) then Inl OrchestrationError
       else let (d1, s) = state_in d cid (cr_tenant_id c) in
         if waiting \<and> ob1_max_resume_cycles (cos_budget s) \<le> cos_resume_cycle_count s then
           create_work digest (put_case cid (c\<lparr> cr_status := Case_ESCALATED \<rparr>) d1) cid
             ((work_spec Work_OPERATOR_FOLLOWUP Why_RESUME_LIMIT (pres_decision_id p) Trig_TIMER now)
               \<lparr> wsp_snapshot_ref := Some (pres_snapshot_id p),
                 wsp_previous_run_id := Some (pres_run_id p),
                 wsp_required_signal := Some Sig_OPERATOR_ACKNOWLEDGED \<rparr>)
         else
           create_work digest d1 cid
             ((work_spec (if waiting then Work_INVESTIGATION_RESUME else Work_OPERATOR_FOLLOWUP)
                 (if waiting then Why_WAIT_REQUESTED else pres_reason p) (pres_decision_id p)
                 (if waiting then Trig_TIMER else Trig_RESOLUTION_SIGNAL) now)
               \<lparr> wsp_snapshot_ref := Some (pres_snapshot_id p),
                 wsp_previous_run_id := Some (pres_run_id p),
                 wsp_wait_seconds := pres_wait_seconds p,
                 wsp_not_before := Some (now + seconds (case pres_wait_seconds p of None \<Rightarrow> 0 | Some n \<Rightarrow> n)),
                 wsp_required_signal := (if waiting then None else Some (case pres_required_signal p of
                   None \<Rightarrow> Sig_OPERATOR_ACKNOWLEDGED | Some g \<Rightarrow> g)) \<rparr>)))"

definition can_pause :: "case_row \<Rightarrow> bool" where
  "can_pause r = (cr_status r \<in> {Case_NEW, Case_INVESTIGATING})"

text \<open>\<open>fence_now\<close>, \<open>now\<close> and \<open>handoff_now\<close> are the three readings of the clock.\<close>

definition pause_if_current :: "(jv \<Rightarrow> string) \<Rightarrow> string \<Rightarrow> db \<Rightarrow> string \<Rightarrow> case_status
    \<Rightarrow> agent_execution_precondition \<Rightarrow> pause_reservation option \<Rightarrow> time \<Rightarrow> time \<Rightarrow> time
    \<Rightarrow> error + db \<times> (error + case_rec)" where
  "pause_if_current digest tenant d cid s p orchestration fence_now now handoff_now = (
     if s \<notin> {Case_WAITING, Case_ESCALATED} then Inl CasePolicyError
     else bindE (execution_conditions cid tenant p) (\<lambda>conditions.
     bindE (work_fence tenant d cid (Some p) fence_now) (\<lambda>_.
     bindE (case_row_of tenant d cid) (\<lambda>row.
       if \<not> (can_pause row \<and> conditions row) then Inl AgentPreconditionFailed
       else let d1 = put_case cid (paused_row s now row) d in
         case orchestration of
           None \<Rightarrow> Inr (d1, get_case tenant d1 cid)
         | Some r \<Rightarrow> bindE (pause_handoff digest d1 cid r handoff_now) (\<lambda>(d2, _).
             Inr (d2, get_case tenant d2 cid))))))"

end
