(* ===== verification/Extractor.thy ===== *)
theory Extractor
  imports EvidenceModel
begin

text \<open>
  The deterministic extractor (\<open>evidence/extractor.py\<close>): which facts an Observation yields. The
  nested \<open>emit\<close> of the code is split in two: \<open>claims\<close> lists its calls with their arguments, in the
  order of the code, and \<open>emit\<close> builds the Evidence of one call. \<^theory_text>\<open>jh\<close> is \<open>json_hash\<close> of an
  evidence payload, \<^theory_text>\<open>oh\<close> the content hash of the observation.
\<close>

section \<open>Decimal numerals\<close>

fun nat_digits :: "nat \<Rightarrow> nat list" where
  "nat_digits n = (if n < 10 then [n] else nat_digits (n div 10) @ [n mod 10])"

declare nat_digits.simps [simp del]

definition nat_str :: "nat \<Rightarrow> string" where
  "nat_str n = map (\<lambda>d. char_of (48 + d)) (nat_digits n)"

definition int_str :: "int \<Rightarrow> string" where
  "int_str i = (if i < 0 then CHR ''-'' # nat_str (nat (- i)) else nat_str (nat i))"

section \<open>The calls of emit\<close>

record claim =
  cl_claim :: claim_type
  cl_value :: val
  cl_path :: string
  cl_kind :: subject_kind
  cl_identifier :: "string option"
  cl_field :: "string option"
  cl_event_time :: "time option"
  cl_protocol :: "string option"
  cl_version :: "string option"
  cl_callback_event_id :: "string option"

text \<open>A call that leaves the keyword arguments at their defaults.\<close>

definition plain :: "claim_type \<Rightarrow> val \<Rightarrow> string \<Rightarrow> claim" where
  "plain c v p = \<lparr> cl_claim = c, cl_value = v, cl_path = p, cl_kind = Subj_ORDER, cl_identifier = None,
     cl_field = None, cl_event_time = None, cl_protocol = None, cl_version = None,
     cl_callback_event_id = None \<rparr>"

definition on_subject :: "subject_kind \<Rightarrow> string \<Rightarrow> claim \<Rightarrow> claim" where
  "on_subject k i c = c \<lparr> cl_kind := k, cl_identifier := Some i \<rparr>"

definition fund_claims :: "fund_record \<Rightarrow> claim list" where
  "fund_claims r = map (on_subject Subj_FUND_REQUEST (fr_fund_request_id r))
     ([plain Claim_FUND_BUSINESS_STATUS (VStr (fund_business_status_value (fr_business_status r)))
         ''/data/record/business_status'',
       plain Claim_LOAN_NO_PRESENT (VBool (fr_loan_no r \<noteq> None)) ''/data/record/loan_no'']
      @ (case fr_loan_no r of None \<Rightarrow> []
         | Some n \<Rightarrow> [plain Claim_LOAN_NOTE_REFERENCE (VStr n) ''/data/record/loan_no'']))"

definition transaction_claims :: "payment_transaction_record \<Rightarrow> claim list" where
  "transaction_claims t = map (\<lambda>(c, v, f). (on_subject Subj_TRANSACTION (ptr_transaction_id t)
         (plain c v (''/data/record/transaction/'' @ f))) \<lparr> cl_event_time := Some (ptr_event_time t) \<rparr>)
     ([(Claim_PAYMENT_TRANSACTION_ID, VStr (ptr_transaction_id t), ''transaction_id''),
       (Claim_PAYMENT_AMOUNT, VInt (ptr_amount t), ''amount''),
       (Claim_PAYMENT_CURRENCY, VStr (currency_value (ptr_currency t)), ''currency''),
       (Claim_TRANSACTION_FUND_REQUEST_ID, VStr (ptr_fund_request_id t), ''fund_request_id'')]
      @ (case ptr_customer_ref t of None \<Rightarrow> []
         | Some v \<Rightarrow> [(Claim_PAYMENT_CUSTOMER_REF, VStr v, ''customer_ref'')])
      @ (case ptr_beneficiary_ref t of None \<Rightarrow> []
         | Some v \<Rightarrow> [(Claim_PAYMENT_BENEFICIARY_REF, VStr v, ''beneficiary_ref'')])
      @ (case ptr_account_ref t of None \<Rightarrow> []
         | Some v \<Rightarrow> [(Claim_PAYMENT_ACCOUNT_REF, VStr v, ''account_ref'')]))"

definition payment_claims :: "payment_record \<Rightarrow> claim list" where
  "payment_claims r = (case pyr_transaction r of
       None \<Rightarrow> [(on_subject Subj_FUND_REQUEST (pyr_fund_request_id r)
          (plain Claim_PAYMENT_FINALITY (VStr (payment_finality_value (pyr_payment_finality r)))
             ''/data/record/payment_finality'')) \<lparr> cl_event_time := Some (pyr_event_time r) \<rparr>]
     | Some t \<Rightarrow> (on_subject Subj_TRANSACTION (ptr_transaction_id t)
          (plain Claim_PAYMENT_FINALITY (VStr (payment_finality_value (ptr_payment_finality t)))
             ''/data/record/transaction/payment_finality'')) \<lparr> cl_event_time := Some (ptr_event_time t) \<rparr>
          # transaction_claims t)"

definition callback_claims :: "'a callback_record_scheme \<Rightarrow> claim list" where
  "callback_claims r = map (\<lambda>(c, v, p). (on_subject Subj_CALLBACK (cbr_event_id r)
         (plain c v (''/data/record/'' @ p))) \<lparr> cl_protocol := Some (cbr_protocol_version r) \<rparr>)
     [(Claim_CALLBACK_GATEWAY_RECEIVED, VBool True, ''received_at''),
      (Claim_CALLBACK_SIGNATURE_VERIFIED, VBool (cbr_signature_verified r), ''signature_verified''),
      (Claim_CALLBACK_PROTOCOL_VERSION, VStr (cbr_protocol_version r), ''protocol_version'')]"

text \<open>One message. A deployment observed after the observation itself is an error.\<close>

definition message_claims :: "time \<Rightarrow> nat \<Rightarrow> message_record \<Rightarrow> error + claim list" where
  "message_claims observed_at index r = (
     let path = (\<lambda>p. ''/data/records/'' @ nat_str index @ ''/'' @ p);
         mk = (\<lambda>(c, v, p). (on_subject Subj_MESSAGE (mr_message_id r) (plain c v (path p)))
            \<lparr> cl_event_time := Some (mr_event_time r), cl_callback_event_id := Some (mr_event_id r) \<rparr>);
         head = map mk ([(Claim_MESSAGE_CONSUME_STATUS, VStr (consume_status_value (mr_consume_status r)),
               ''consume_status'')]
            @ (case mr_dlq r of None \<Rightarrow> [] | Some d \<Rightarrow> [(Claim_MESSAGE_DLQ, VStr d, ''dlq'')])
            @ (case mr_error r of None \<Rightarrow> []
               | Some e \<Rightarrow> [(Claim_MESSAGE_ERROR_CODE, VStr (me_code e), ''error/code''),
                   (Claim_MESSAGE_ERROR_FIELD, VStr (me_field e), ''error/field''),
                   (Claim_MESSAGE_EXPECTED_FIELD_TYPE, VStr (field_type_value (me_expected_type e)),
                      ''error/expected_type''),
                   (Claim_MESSAGE_ACTUAL_FIELD_TYPE, VStr (field_type_value (me_actual_type e)),
                      ''error/actual_type'')]))
     in case mr_consumer_deployment r of
          None \<Rightarrow> Inr head
        | Some d \<Rightarrow>
            if observed_at < cd_event_time d then Inl ValueError
            else Inr (head @ map (\<lambda>(c, v, p). (mk (c, v, ''consumer_deployment/'' @ p))
                  \<lparr> cl_event_time := Some (cd_event_time d) \<rparr>)
               [(Claim_CONSUMER_DEPLOYED_SCHEMA_VERSION, VStr (cd_schema_version d), ''schema_version''),
                (Claim_CONSUMER_ACCEPTED_PROTOCOL_VERSION, VStr (cd_accepted_protocol_version d),
                   ''accepted_protocol_version''),
                (Claim_CONSUMER_LOAN_NO_FIELD_TYPE, VStr (field_type_value (cd_loan_no_type d)),
                   ''loan_no_type'')]))"

fun messages_claims :: "time \<Rightarrow> nat \<Rightarrow> message_record list \<Rightarrow> error + claim list" where
  "messages_claims observed_at index [] = Inr []"
| "messages_claims observed_at index (r # rs) =
     bindE (message_claims observed_at index r) (\<lambda>a.
     bindE (messages_claims observed_at (Suc index) rs) (\<lambda>b. Inr (a @ b)))"

definition protocol_claims :: "protocol_registry \<Rightarrow> claim list" where
  "protocol_claims r = (
     let mk = (\<lambda>c f v p. (on_subject Subj_PROTOCOL (pr_partner r @ ''@'' @ pr_protocol_version r)
            (plain c v p)) \<lparr> cl_field := Some f, cl_protocol := Some (pr_protocol_version r),
               cl_version := Some (pr_protocol_version r) \<rparr>)
     in map (\<lambda>(f, t). mk Claim_PROTOCOL_FIELD_TYPE f (VStr (field_type_value t))
               (''/data/record/field_schema/'' @ f)) (sort_key fst (pr_field_schema r))
        @ map (\<lambda>(s, m). mk Claim_PROTOCOL_BUSINESS_SEMANTICS (fund_business_status_value s)
               (VStr (business_meaning_value m))
               (''/data/record/business_semantics/'' @ fund_business_status_value s))
            (sort_key (fund_business_status_value \<circ> fst) (pr_business_semantics r)))"

fun data_claims :: "time \<Rightarrow> observation_data \<Rightarrow> error + claim list" where
  "data_claims t (FundData r) = Inr (fund_claims r)"
| "data_claims t (PaymentData r) = Inr (payment_claims r)"
| "data_claims t (CallbackData r) = Inr (callback_claims r)"
| "data_claims t (CallbackRawData r) = Inr (callback_claims r)"
| "data_claims t (MessagesData rs) = messages_claims t 0 rs"
| "data_claims t (ProtocolData r) = Inr (protocol_claims r)"
| "data_claims t (TraceData r) = Inr
     [plain Claim_REQUEST_SENT (VBool (rt_sent r)) ''/data/record/sent'',
      plain Claim_HTTP_RESPONSE_STATUS (VStr (transport_status_value (rt_http_response r)))
        ''/data/record/http_response'']"
| "data_claims t (AssetData r) = Inr
     [plain Claim_ASSET_STATUS (VStr (loan_status_value (as_loan_status r))) ''/data/record/loan_status'']"
| "data_claims t (GuaranteeData r) = Inr (map (\<lambda>c. c \<lparr> cl_version := Some (int_str (gc_version r)),
        cl_protocol := Some (gc_protocol_version r) \<rparr>)
     [plain Claim_GUARANTEE_STATUS (VStr (loan_status_value (gc_status r))) ''/data/record/status'',
      plain Claim_GUARANTEE_VERSION (VInt (gc_version r)) ''/data/record/version''])"
| "data_claims t (AccountingData e) = Inr
     [plain Claim_ACCOUNTING_ENTRY_PRESENT (VBool (e \<noteq> None)) ''/data/actual_entry'']"
| "data_claims t (DeliveryData r) = Inr
     (plain Claim_ASSET_DELIVERY_STATUS (VStr (delivery_status_value (ad_delivery_status r)))
        ''/data/record/delivery_status''
      # (case ad_event_id r of None \<Rightarrow> []
         | Some i \<Rightarrow> [plain Claim_ASSET_DELIVERY_EVENT_REF (VStr i) ''/data/record/event_id'']))"
| "data_claims t (LoanNoteData r) = Inr (map (on_subject Subj_FUND_REQUEST (ln_fund_request_id r))
     [plain Claim_LOAN_NO_PRESENT (VBool True) ''/data/record/loan_no'',
      plain Claim_LOAN_NOTE_REFERENCE (VStr (ln_loan_no r)) ''/data/record/loan_no''])"

text \<open>\<open>DATA_TYPES\<close>: which projection a tool returns.\<close>

fun data_type_ok :: "tool_name \<Rightarrow> observation_data \<Rightarrow> bool" where
  "data_type_ok t (AssetData _) = (t = Tool_ASSET)"
| "data_type_ok t (GuaranteeData _) = (t = Tool_GUARANTEE)"
| "data_type_ok t (FundData _) = (t = Tool_FUND)"
| "data_type_ok t (PaymentData _) = (t = Tool_PAYMENT)"
| "data_type_ok t (LoanNoteData _) = (t = Tool_LOAN_NOTE)"
| "data_type_ok t (CallbackData _) = (t = Tool_CALLBACK)"
| "data_type_ok t (CallbackRawData _) = (t = Tool_CALLBACK_RAW)"
| "data_type_ok t (MessagesData _) = (t = Tool_MESSAGES)"
| "data_type_ok t (AccountingData _) = (t = Tool_ACCOUNTING)"
| "data_type_ok t (TraceData _) = (t = Tool_TRACE)"
| "data_type_ok t (DeliveryData _) = (t = Tool_ASSET_DELIVERY)"
| "data_type_ok t (ProtocolData _) = (t = Tool_PROTOCOL)"

section \<open>emit\<close>

fun data_fund_request_id :: "observation_data option \<Rightarrow> string option" where
  "data_fund_request_id (Some (TraceData r)) = Some (rt_fund_request_id r)"
| "data_fund_request_id (Some (FundData r)) = Some (fr_fund_request_id r)"
| "data_fund_request_id (Some (PaymentData r)) = Some (pyr_fund_request_id r)"
| "data_fund_request_id (Some (GuaranteeData r)) = Some (gc_fund_request_id r)"
| "data_fund_request_id (Some (LoanNoteData r)) = Some (ln_fund_request_id r)"
| "data_fund_request_id _ = None"

definition claim_strength :: "claim_type \<Rightarrow> observation \<Rightarrow> evidence_strength" where
  "claim_strength claim o1 = (
     if claim = Claim_SOURCE_LOOKUP_STATUS then Strength_HINT
     else if ob_freshness o1 \<noteq> Fresh_CURRENT then Strength_WEAK
     else if ob_source_kind o1 = Src_PRIMARY then Strength_STRONG else Strength_SUPPORTING)"

definition pending_evidence :: "(observation \<Rightarrow> string) \<Rightarrow> string \<Rightarrow> observation \<Rightarrow> tool_query \<Rightarrow> claim \<Rightarrow> evidence" where
  "pending_evidence oh case_id o1 query c = \<lparr>
     ev_evidence_id = ''pending'', ev_case_id = case_id, ev_observation_id = ob_observation_id o1,
     ev_tool = ob_tool o1, ev_source_kind = ob_source_kind o1, ev_claim_type = cl_claim c,
     ev_subject = \<lparr> es_kind = cl_kind c,
       es_identifier = or_else (cl_identifier c) (ob_internal_order_id o1),
       es_internal_order_id = ob_internal_order_id o1, es_field = cl_field c \<rparr>,
     ev_value = cl_value c,
     ev_event_time = (case cl_event_time c of Some t \<Rightarrow> Some t | None \<Rightarrow> ob_event_time o1),
     ev_observed_at = ob_observed_at o1, ev_source_as_of = ob_source_as_of o1,
     ev_source_version = cl_version c, ev_protocol_version = cl_protocol c,
     ev_completeness = ob_completeness o1, ev_freshness = ob_freshness o1,
     ev_strength = claim_strength (cl_claim c) o1,
     ev_raw_ref = ''observation://'' @ ob_observation_id o1, ev_content_hash = oh o1,
     ev_created_at = ob_observed_at o1,
     ev_metadata = \<lparr> em_extractor_version = ''4'', em_source_path = cl_path c, em_scope = query,
       em_fund_request_id = data_fund_request_id (ob_data o1),
       em_callback_event_id = cl_callback_event_id c \<rparr> \<rparr>"

definition emit :: "(jv \<Rightarrow> string) \<Rightarrow> (observation \<Rightarrow> string) \<Rightarrow> string \<Rightarrow> observation \<Rightarrow> tool_query
    \<Rightarrow> claim \<Rightarrow> error + evidence" where
  "emit jh oh case_id o1 query c = (
     let e = pending_evidence oh case_id o1 query c
     in if evidence_valid e then Inr (e \<lparr> ev_evidence_id := ''E-'' @ fingerprint jh e \<rparr>)
        else Inl ValidationError)"

fun mapE :: "('a \<Rightarrow> 'e + 'b) \<Rightarrow> 'a list \<Rightarrow> 'e + 'b list" where
  "mapE f [] = Inr []"
| "mapE f (x # xs) = bindE (f x) (\<lambda>y. bindE (mapE f xs) (\<lambda>ys. Inr (y # ys)))"

definition default_query :: "observation \<Rightarrow> tool_query" where
  "default_query o1 = \<lparr> tq_internal_order_id = ob_internal_order_id o1, tq_protocol_version = None,
     tq_effective_at = None \<rparr>"

definition claims :: "observation \<Rightarrow> error + claim list" where
  "claims o1 = (if ob_status o1 \<noteq> Obs_OK
     then Inr [plain Claim_SOURCE_LOOKUP_STATUS (VStr (observation_status_value (ob_status o1))) ''/status'']
     else case ob_data o1 of None \<Rightarrow> Inl ValueError | Some d \<Rightarrow> data_claims (ob_observed_at o1) d)"

definition extract_evidence :: "(jv \<Rightarrow> string) \<Rightarrow> (observation \<Rightarrow> string) \<Rightarrow> case_rec \<Rightarrow> observation
    \<Rightarrow> tool_query option \<Rightarrow> error + evidence list" where
  "extract_evidence jh oh c o1 query0 = (
     let query = (case query0 of None \<Rightarrow> default_query o1 | Some q \<Rightarrow> q)
     in if ob_internal_order_id o1 \<notin> set (csc_allowed_order_ids (case_scope c))
           \<or> ob_tool o1 \<notin> set (csc_allowed_tools (case_scope c))
           \<or> tq_internal_order_id query \<noteq> ob_internal_order_id o1
        then Inl CasePolicyError
        else if (case ob_data o1 of None \<Rightarrow> False | Some d \<Rightarrow> \<not> data_type_ok (ob_tool o1) d)
        then Inl ValueError
        else bindE (claims o1) (mapE (emit jh oh (case_case_id c) o1 query)))"

section \<open>What an extraction yields\<close>

lemma mapE_Inr: "mapE f xs = Inr ys \<Longrightarrow> list_all2 (\<lambda>x y. f x = Inr y) xs ys"
  by (induction xs arbitrary: ys) auto

lemma mapE_Inr_set: "mapE f xs = Inr ys \<Longrightarrow> y \<in> set ys \<Longrightarrow> \<exists>x\<in>set xs. f x = Inr y"
  using mapE_Inr by (fastforce simp: list_all2_conv_all_nth in_set_conv_nth)

lemma extract_shape:
  assumes "extract_evidence jh oh c o1 query0 = Inr es"
  shows "\<exists>cs. claims o1 = Inr cs
    \<and> mapE (emit jh oh (case_case_id c) o1 (case query0 of None \<Rightarrow> default_query o1 | Some q \<Rightarrow> q)) cs = Inr es
    \<and> ob_internal_order_id o1 \<in> set (csc_allowed_order_ids (case_scope c))
    \<and> ob_tool o1 \<in> set (csc_allowed_tools (case_scope c))
    \<and> tq_internal_order_id (case query0 of None \<Rightarrow> default_query o1 | Some q \<Rightarrow> q) = ob_internal_order_id o1"
  using assms by (auto simp: extract_evidence_def Let_def split: if_splits)

lemma emit_Inr:
  "emit jh oh cid o1 q c = Inr e \<longleftrightarrow> evidence_valid (pending_evidence oh cid o1 q c)
     \<and> e = (pending_evidence oh cid o1 q c)
       \<lparr> ev_evidence_id := ''E-'' @ fingerprint jh (pending_evidence oh cid o1 q c) \<rparr>"
  by (auto simp: emit_def Let_def)

lemma fingerprint_update_id [simp]:
  "fingerprint jh (e \<lparr> ev_evidence_id := i \<rparr>) = fingerprint jh e"
  by (simp add: fingerprint_def fingerprint_payload_def evidence_fields_def)

text \<open>The claims a tool can support; \<open>SOURCE_LOOKUP_STATUS\<close> is the claim of a failed lookup.\<close>

fun tool_claim_types :: "tool_name \<Rightarrow> claim_type list" where
  "tool_claim_types Tool_ASSET = [Claim_ASSET_STATUS]"
| "tool_claim_types Tool_GUARANTEE = [Claim_GUARANTEE_STATUS, Claim_GUARANTEE_VERSION]"
| "tool_claim_types Tool_FUND = [Claim_FUND_BUSINESS_STATUS, Claim_LOAN_NO_PRESENT, Claim_LOAN_NOTE_REFERENCE]"
| "tool_claim_types Tool_PAYMENT = [Claim_PAYMENT_FINALITY, Claim_PAYMENT_TRANSACTION_ID,
     Claim_PAYMENT_AMOUNT, Claim_PAYMENT_CURRENCY, Claim_TRANSACTION_FUND_REQUEST_ID,
     Claim_PAYMENT_CUSTOMER_REF, Claim_PAYMENT_BENEFICIARY_REF, Claim_PAYMENT_ACCOUNT_REF]"
| "tool_claim_types Tool_LOAN_NOTE = [Claim_LOAN_NO_PRESENT, Claim_LOAN_NOTE_REFERENCE]"
| "tool_claim_types Tool_CALLBACK = [Claim_CALLBACK_GATEWAY_RECEIVED, Claim_CALLBACK_SIGNATURE_VERIFIED,
     Claim_CALLBACK_PROTOCOL_VERSION]"
| "tool_claim_types Tool_CALLBACK_RAW = [Claim_CALLBACK_GATEWAY_RECEIVED,
     Claim_CALLBACK_SIGNATURE_VERIFIED, Claim_CALLBACK_PROTOCOL_VERSION]"
| "tool_claim_types Tool_MESSAGES = [Claim_MESSAGE_CONSUME_STATUS, Claim_MESSAGE_DLQ,
     Claim_MESSAGE_ERROR_CODE, Claim_MESSAGE_ERROR_FIELD, Claim_MESSAGE_EXPECTED_FIELD_TYPE,
     Claim_MESSAGE_ACTUAL_FIELD_TYPE, Claim_CONSUMER_DEPLOYED_SCHEMA_VERSION,
     Claim_CONSUMER_ACCEPTED_PROTOCOL_VERSION, Claim_CONSUMER_LOAN_NO_FIELD_TYPE]"
| "tool_claim_types Tool_ACCOUNTING = [Claim_ACCOUNTING_ENTRY_PRESENT]"
| "tool_claim_types Tool_TRACE = [Claim_REQUEST_SENT, Claim_HTTP_RESPONSE_STATUS]"
| "tool_claim_types Tool_ASSET_DELIVERY = [Claim_ASSET_DELIVERY_STATUS, Claim_ASSET_DELIVERY_EVENT_REF]"
| "tool_claim_types Tool_PROTOCOL = [Claim_PROTOCOL_FIELD_TYPE, Claim_PROTOCOL_BUSINESS_SEMANTICS]"

lemma cl_claim_simps [simp]:
  "cl_claim (plain c v p) = c" "cl_claim (on_subject k i x) = cl_claim x"
  by (simp_all add: plain_def on_subject_def)

lemmas claim_defs = fund_claims_def payment_claims_def transaction_claims_def callback_claims_def

lemma message_claims_types:
  "message_claims t i r = Inr cs \<Longrightarrow> c \<in> set cs \<Longrightarrow> cl_claim c \<in> set (tool_claim_types Tool_MESSAGES)"
  by (auto simp: message_claims_def Let_def split: option.splits if_splits)

lemma messages_claims_types:
  "messages_claims t i rs = Inr cs \<Longrightarrow> c \<in> set cs \<Longrightarrow> cl_claim c \<in> set (tool_claim_types Tool_MESSAGES)"
  by (induction rs arbitrary: i cs) (auto dest: message_claims_types simp del: tool_claim_types.simps)

lemma protocol_claims_types:
  "c \<in> set (protocol_claims r) \<Longrightarrow> cl_claim c \<in> set (tool_claim_types Tool_PROTOCOL)"
  unfolding protocol_claims_def Let_def by auto

lemma data_claims_types:
  assumes "data_claims t d = Inr cs" and "c \<in> set cs" and "data_type_ok tool d"
  shows "cl_claim c \<in> set (tool_claim_types tool)"
proof (cases d)
  case (MessagesData rs)
  with assms show ?thesis using messages_claims_types [of t 0 rs cs c] by simp
next
  case (ProtocolData r)
  with assms show ?thesis using protocol_claims_types by auto
qed (use assms in \<open>auto simp: claim_defs split: option.splits\<close>)

text \<open>
  C18. A failed lookup carries no facts: the only Evidence extracted from an Observation that is not
  OK is one HINT that records the status of the lookup, whatever data the Observation claims to
  carry.
\<close>
theorem extract_failed_lookup:
  assumes "extract_evidence jh oh c o1 query0 = Inr es" and "ob_status o1 \<noteq> Obs_OK"
  shows "\<exists>e. es = [e] \<and> ev_claim_type e = Claim_SOURCE_LOOKUP_STATUS \<and> ev_strength e = Strength_HINT
    \<and> ev_value e = VStr (observation_status_value (ob_status o1))
    \<and> ev_observation_id e = ob_observation_id o1 \<and> ev_tool e = ob_tool o1"
proof -
  obtain cs where cs: "claims o1 = Inr cs"
    and es: "mapE (emit jh oh (case_case_id c) o1
      (case query0 of None \<Rightarrow> default_query o1 | Some q \<Rightarrow> q)) cs = Inr es"
    using extract_shape [OF assms(1)] by blast
  from cs have "cs = [plain Claim_SOURCE_LOOKUP_STATUS (VStr (observation_status_value (ob_status o1))) ''/status'']"
    using assms(2) by (simp add: claims_def)
  with es show ?thesis
    by (auto simp: emit_Inr pending_evidence_def plain_def claim_strength_def)
qed

text \<open>
  C17. Provenance and quality of every extracted Evidence: it is bound to the Case, the Observation
  and the query it came from, its identifier is the hash of its own payload, its claim is one the
  tool supports, its value passed the identity-reference check, and it is STRONG only when the
  Observation is current and comes from a primary source.
\<close>
theorem extract_provenance:
  assumes "extract_evidence jh oh c o1 (Some query) = Inr es" and "e \<in> set es"
  shows "ev_case_id e = case_case_id c \<and> ev_observation_id e = ob_observation_id o1
    \<and> ev_tool e = ob_tool o1 \<and> em_scope (ev_metadata e) = query
    \<and> tq_internal_order_id query = es_internal_order_id (ev_subject e)
    \<and> es_internal_order_id (ev_subject e) \<in> set (csc_allowed_order_ids (case_scope c))
    \<and> ev_tool e \<in> set (csc_allowed_tools (case_scope c))
    \<and> ev_raw_ref e = ''observation://'' @ ev_observation_id e \<and> ev_content_hash e = oh o1
    \<and> ev_evidence_id e = ''E-'' @ fingerprint jh e \<and> evidence_valid e
    \<and> ev_claim_type e \<in> set (Claim_SOURCE_LOOKUP_STATUS # tool_claim_types (ev_tool e))
    \<and> ev_strength e \<noteq> Strength_AUTHORITATIVE
    \<and> (ev_strength e \<noteq> Strength_STRONG
       \<or> ob_freshness o1 = Fresh_CURRENT \<and> ob_source_kind o1 = Src_PRIMARY)"
proof -
  obtain cs where cs: "claims o1 = Inr cs"
    and es: "mapE (emit jh oh (case_case_id c) o1 query) cs = Inr es"
    and scope: "ob_internal_order_id o1 \<in> set (csc_allowed_order_ids (case_scope c))"
      "ob_tool o1 \<in> set (csc_allowed_tools (case_scope c))"
      "tq_internal_order_id query = ob_internal_order_id o1"
    using extract_shape [OF assms(1)] by auto
  from mapE_Inr_set [OF es assms(2)] obtain cl where cl: "cl \<in> set cs"
    and em: "emit jh oh (case_case_id c) o1 query cl = Inr e" by blast
  have "cl_claim cl \<in> set (Claim_SOURCE_LOOKUP_STATUS # tool_claim_types (ob_tool o1))"
  proof (cases "ob_status o1 = Obs_OK")
    case True
    then obtain d where d: "ob_data o1 = Some d" "data_claims (ob_observed_at o1) d = Inr cs"
      using cs by (auto simp: claims_def split: option.splits)
    then have "data_type_ok (ob_tool o1) d"
      using assms(1) by (auto simp: extract_evidence_def Let_def split: if_splits)
    then show ?thesis using data_claims_types [OF d(2) cl] by simp
  next
    case False
    then show ?thesis using cs cl by (auto simp: claims_def plain_def)
  qed
  moreover have "evidence_valid (x \<lparr> ev_evidence_id := i \<rparr>) = evidence_valid x" for x :: evidence and i
    by (simp add: evidence_valid_def Let_def)
  ultimately show ?thesis
    using em scope by (auto simp: emit_Inr) (auto simp: pending_evidence_def claim_strength_def split: if_splits)
qed

lemma fingerprint_same_event:
  assumes "ev_event_time e \<noteq> None"
  shows "fingerprint jh (e \<lparr> ev_observation_id := i, ev_observed_at := t, ev_created_at := t,
      ev_raw_ref := r, ev_content_hash := h \<rparr>) = fingerprint jh e"
proof -
  obtain y where "ev_event_time e = Some y" using assms by auto
  then show ?thesis by (simp add: fingerprint_def fingerprint_payload_def evidence_fields_def)
qed

lemma mapE_cong_ids:
  assumes "list_all2 (\<lambda>x y. f x = Inr y) xs ys" and "list_all2 (\<lambda>x z. g x = Inr z) xs zs"
    and "\<And>x y z. x \<in> set xs \<Longrightarrow> f x = Inr y \<Longrightarrow> g x = Inr z \<Longrightarrow> h y = h z"
  shows "map h ys = map h zs"
  using assms
proof (induction xs arbitrary: ys zs)
  case (Cons x xs)
  then show ?case by (fastforce simp: list_all2_Cons1)
qed simp

lemma messages_claims_time:
  "messages_claims t i rs = Inr cs \<Longrightarrow> messages_claims u i rs = Inr ds \<Longrightarrow> cs = ds"
proof (induction rs arbitrary: i cs ds)
  case (Cons r rs)
  have "message_claims t i r = Inr a \<Longrightarrow> message_claims u i r = Inr b \<Longrightarrow> a = b" for a b
    by (auto simp: message_claims_def Let_def split: option.splits if_splits)
  with Cons show ?case by fastforce
qed simp

lemma claims_time:
  assumes "claims o1 = Inr cs" and "claims (o1 \<lparr> ob_observation_id := i, ob_observed_at := t \<rparr>) = Inr ds"
  shows "cs = ds"
proof (cases "ob_data o1")
  case None
  then show ?thesis using assms by (simp add: claims_def split: if_splits)
next
  case (Some d)
  have "data_claims u d = Inr a \<Longrightarrow> data_claims v d = Inr b \<Longrightarrow> a = b" for u v a b
    by (cases d) (auto dest: messages_claims_time)
  then show ?thesis using Some assms by (auto simp: claims_def split: if_splits)
qed

text \<open>
  Evidence is identified by its facts, not by the call that observed it: if the same
  projection with the same business time is observed again, under another observation identifier
  and at another time, the two extractions yield the same Evidence identifiers in the same order,
  so publishing the second adds no Evidence.
\<close>
theorem extract_dedup:
  assumes "extract_evidence jh oh c o1 (Some query) = Inr es"
    and "extract_evidence jh oh c (o1 \<lparr> ob_observation_id := i, ob_observed_at := t \<rparr>) (Some query) = Inr fs"
    and "ob_event_time o1 \<noteq> None"
  shows "map ev_evidence_id es = map ev_evidence_id fs"
proof -
  let ?o = "o1 \<lparr> ob_observation_id := i, ob_observed_at := t \<rparr>"
  obtain cs where cs: "claims o1 = Inr cs" "mapE (emit jh oh (case_case_id c) o1 query) cs = Inr es"
    using extract_shape [OF assms(1)] by auto
  obtain ds where ds: "claims ?o = Inr ds" "mapE (emit jh oh (case_case_id c) ?o query) ds = Inr fs"
    using extract_shape [OF assms(2)] by auto
  have "ds = cs" using claims_time [OF cs(1) ds(1)] by simp
  have fp: "fingerprint jh (pending_evidence oh (case_case_id c) ?o query cl)
      = fingerprint jh (pending_evidence oh (case_case_id c) o1 query cl)" for cl
  proof -
    let ?e = "pending_evidence oh (case_case_id c) o1 query cl"
    have "pending_evidence oh (case_case_id c) ?o query cl
      = ?e \<lparr> ev_observation_id := i, ev_observed_at := t, ev_created_at := t,
          ev_raw_ref := ''observation://'' @ i, ev_content_hash := oh ?o \<rparr>"
      by (simp add: pending_evidence_def claim_strength_def split: option.split)
    moreover have "ev_event_time ?e \<noteq> None"
      using assms(3) by (simp add: pending_evidence_def split: option.split)
    ultimately show ?thesis by (simp add: fingerprint_same_event)
  qed
  show ?thesis
    by (rule mapE_cong_ids [OF mapE_Inr [OF cs(2)] mapE_Inr [OF ds(2) [unfolded \<open>ds = cs\<close>]]])
      (auto simp: emit_Inr fp)
qed

section \<open>A sample Case\<close>

text \<open>A rendering of JSON that stands for the hash in the witnesses.\<close>

fun json_text :: "jv \<Rightarrow> string" where
  "json_text JNull = ''null''"
| "json_text (JBool b) = (if b then ''true'' else ''false'')"
| "json_text (JInt i) = int_str i"
| "json_text (JStr s) = CHR 0x22 # s @ [CHR 0x22]"
| "json_text (JArr xs) = ''['' @ concat (map (\<lambda>x. json_text x @ '','') xs) @ '']''"
| "json_text (JObj kvs) = ''{'' @ concat (map (\<lambda>(k, v). k @ '':'' @ json_text v @ '','') kvs) @ ''}''"

definition sample_observation :: "string \<Rightarrow> tool_name \<Rightarrow> observation_data \<Rightarrow> observation" where
  "sample_observation i tool d = \<lparr> ob_observation_id = i, ob_tool = tool, ob_internal_order_id = ''JD-1'',
     ob_status = Obs_OK, ob_knowledge = Know_OBSERVED, ob_event_time = Some 5, ob_observed_at = 10,
     ob_source_as_of = Some 10, ob_source_kind = Src_PRIMARY, ob_completeness = Compl_COMPLETE,
     ob_freshness = Fresh_CURRENT, ob_data = Some d \<rparr>"

definition sample_payment :: "payment_finality \<Rightarrow> int \<Rightarrow> observation_data" where
  "sample_payment finality amount = PaymentData \<lparr> pyr_event_time = 5, pyr_fund_request_id = ''FREQ-1'',
     pyr_payment_finality = finality, pyr_transaction = Some
       \<lparr> ptr_event_time = 5, ptr_transaction_id = ''PAY-1'', ptr_fund_request_id = ''FREQ-1'',
         ptr_loan_no = ''LN-1'', ptr_amount = amount, ptr_currency = Cur_CNY,
         ptr_payment_finality = finality, ptr_customer_ref = Some ''CUS-1'',
         ptr_beneficiary_ref = Some ''BEN-1'', ptr_account_ref = Some ''ACC-1'' \<rparr> \<rparr>"

definition sample_trace :: "bool \<Rightarrow> transport_status \<Rightarrow> observation_data" where
  "sample_trace sent http = TraceData \<lparr> rt_event_time = 5, rt_trace_id = ''T-1'',
     rt_fund_request_id = ''FREQ-1'', rt_sent = sent, rt_sent_at = None, rt_http_response = http,
     rt_response_business_status = None \<rparr>"

definition sample_timeout :: "string \<Rightarrow> tool_name \<Rightarrow> observation" where
  "sample_timeout i tool = (sample_observation i tool (sample_trace True Http_TIMEOUT))
     \<lparr> ob_status := Obs_TIMEOUT, ob_knowledge := Know_UNKNOWN, ob_data := None, ob_event_time := None,
       ob_source_as_of := None, ob_completeness := Compl_UNKNOWN, ob_freshness := Fresh_UNKNOWN \<rparr>"

definition sample_extract :: "observation \<Rightarrow> error + evidence list" where
  "sample_extract o1 = extract_evidence json_text (\<lambda>_. ''hash'') sample_case o1 (Some sample_query)"

theorem extract_failed_lookup_witness:
  "case sample_extract (sample_timeout ''o1'' Tool_PAYMENT) of Inl e \<Rightarrow> False
   | Inr es \<Rightarrow> map ev_claim_type es = [Claim_SOURCE_LOOKUP_STATUS] \<and> map ev_strength es = [Strength_HINT]"
proof -
  have "case sample_extract (sample_timeout ''o1'' Tool_PAYMENT) of Inl e \<Rightarrow> False | Inr es \<Rightarrow> True"
    by code_simp
  then obtain es where es: "sample_extract (sample_timeout ''o1'' Tool_PAYMENT) = Inr es"
    by (auto split: sum.splits)
  have "ob_status (sample_timeout ''o1'' Tool_PAYMENT) \<noteq> Obs_OK" by code_simp
  from extract_failed_lookup [OF es [unfolded sample_extract_def] this] show ?thesis using es by auto
qed

theorem extract_provenance_witness:
  "case sample_extract (sample_observation ''o1'' Tool_TRACE (sample_trace True Http_OK)) of
     Inl e \<Rightarrow> False
   | Inr es \<Rightarrow> length es = 2
       \<and> (\<forall>e\<in>set es. ev_evidence_id e = ''E-'' @ fingerprint json_text e \<and> evidence_valid e)"
proof -
  have "case sample_extract (sample_observation ''o1'' Tool_TRACE (sample_trace True Http_OK)) of
     Inl e \<Rightarrow> False | Inr es \<Rightarrow> length es = 2" by code_simp
  then obtain es where es: "length es = 2"
    "sample_extract (sample_observation ''o1'' Tool_TRACE (sample_trace True Http_OK)) = Inr es"
    by (auto split: sum.splits)
  then show ?thesis using extract_provenance [OF es(2) [unfolded sample_extract_def]] by auto
qed

theorem extract_dedup_witness:
  "case (sample_extract (sample_observation ''o1'' Tool_TRACE (sample_trace True Http_TIMEOUT)),
         sample_extract ((sample_observation ''o1'' Tool_TRACE (sample_trace True Http_TIMEOUT))
           \<lparr> ob_observation_id := ''o2'', ob_observed_at := 99 \<rparr>)) of
     (Inr es, Inr fs) \<Rightarrow> map ev_evidence_id es = map ev_evidence_id fs \<and> length es = 2
       \<and> map ev_observation_id es \<noteq> map ev_observation_id fs
   | _ \<Rightarrow> False"
proof -
  let ?o = "sample_observation ''o1'' Tool_TRACE (sample_trace True Http_TIMEOUT)"
  let ?p = "?o \<lparr> ob_observation_id := ''o2'', ob_observed_at := 99 \<rparr>"
  have "case (sample_extract ?o, sample_extract ?p) of (Inr es, Inr fs) \<Rightarrow>
      length es = 2 \<and> map ev_observation_id es \<noteq> map ev_observation_id fs | _ \<Rightarrow> False"
    by code_simp
  then obtain es fs where es: "sample_extract ?o = Inr es" and fs: "sample_extract ?p = Inr fs"
    and "length es = 2" "map ev_observation_id es \<noteq> map ev_observation_id fs"
    by (auto split: sum.splits)
  moreover have "ob_event_time ?o \<noteq> None" by code_simp
  ultimately show ?thesis
    using extract_dedup [OF es [unfolded sample_extract_def] fs [unfolded sample_extract_def]] by simp
qed

end
