(* ===== verification/EvidenceRepository.thy ===== *)
theory EvidenceRepository
  imports WorkRepository Extractor
begin

text \<open>
  The trusted publication of Evidence (\<open>evidence/repository.py\<close>), the recovery of an observation
  whose publication was interrupted (\<open>recovery/read.py\<close>) and the executor that runs a budgeted
  tool call (\<open>cases/executor.py\<close>). \<^theory_text>\<open>jh\<close> is \<open>json_hash\<close> of claims, \<^theory_text>\<open>oh\<close> of an observation.
\<close>

section \<open>Publication\<close>

definition raw_observation :: "(observation \<Rightarrow> string) \<Rightarrow> string \<Rightarrow> observation_row
    \<Rightarrow> error + raw_observation" where
  "raw_observation oh rid r = (let o1 = or_observation r in
     if or_content_hash r \<noteq> oh o1 then Inl ProvenanceError
     else if \<not> observation_valid o1 then Inl ValidationError
     else if ob_observation_id o1 \<noteq> rid \<or> ob_tool o1 \<noteq> or_tool r
       \<or> tq_internal_order_id (or_request r) \<noteq> ob_internal_order_id o1 then Inl ProvenanceError
     else Inr \<lparr> ro_observation_id = rid, ro_tool = ob_tool o1, ro_request = or_request r,
       ro_content_hash = or_content_hash r, ro_observation = o1 \<rparr>)"

definition recordable :: "bool \<Rightarrow> call_state \<Rightarrow> bool" where
  "recordable recovery s = (if recovery then s \<in> {Call_DISPATCHED, Call_ERROR, Call_OBSERVED}
     else s = Call_DISPATCHED)"

text \<open>The call an observation is assigned to.\<close>

definition assigned_call :: "db \<Rightarrow> string \<Rightarrow> string option" where
  "assigned_call d rid = map_option fst (find (\<lambda>(_, c). cl_observation_id c = Some rid) (db_calls d))"

definition origins_of :: "db \<Rightarrow> string \<Rightarrow> string list" where
  "origins_of d call_id = sort (map (\<lambda>((e, _), _). e) (filter (\<lambda>((_, c), _). c = call_id) (db_origins d)))"

text \<open>The loop that stores the claims: a claim already stored only gains an origin.\<close>

definition publish_one :: "string \<Rightarrow> string \<Rightarrow> string \<Rightarrow> evidence \<Rightarrow> db \<Rightarrow> error + db" where
  "publish_one cid rid call_id e d = (
     let d1 = (if tget (ev_evidence_id e) (db_evidence d) = None
           then d\<lparr> db_evidence := tput (ev_evidence_id e) \<lparr> evw_case_id = cid,
             evw_observation_id = rid, evw_payload = e \<rparr> (db_evidence d) \<rparr> else d)
     in bindE (tadd IntegrityError (ev_evidence_id e, call_id) () (db_origins d1)) (\<lambda>os.
        Inr (d1\<lparr> db_origins := os \<rparr>)))"

fun publish_all :: "string \<Rightarrow> string \<Rightarrow> string \<Rightarrow> evidence list \<Rightarrow> db \<Rightarrow> error + db" where
  "publish_all cid rid call_id [] d = Inr d"
| "publish_all cid rid call_id (e # es) d =
     bindE (publish_one cid rid call_id e d) (publish_all cid rid call_id es)"

definition record_call :: "(jv \<Rightarrow> string) \<Rightarrow> (observation \<Rightarrow> string) \<Rightarrow> string \<Rightarrow> db \<Rightarrow> string \<Rightarrow> string
    \<Rightarrow> observation \<Rightarrow> bool \<Rightarrow> time \<Rightarrow> error + db \<times> string list" where
  "record_call jh oh tenant d cid call_id o1 recovery now =
     bindE (case_row_of tenant d cid) (\<lambda>row.
       if is_terminal (cr_status row) then Inl ProvenanceError
       else case tget call_id (db_calls d) of
         None \<Rightarrow> Inl ProvenanceError
       | Some call \<Rightarrow>
         if cl_case_id call \<noteq> cid \<or> \<not> recordable recovery (cl_state call) then Inl ProvenanceError
         else case tget (ob_observation_id o1) (sim_observations (db_sim d)) of
           None \<Rightarrow> Inl ProvenanceError
         | Some r \<Rightarrow>
           let rid = ob_observation_id o1 in
           bindE (raw_observation oh rid r) (\<lambda>raw.
             if or_simulation_id r \<noteq> cr_simulation_id row \<or> or_grant_hash r \<noteq> cr_grant_hash row
               \<or> or_tool r \<noteq> cl_tool call \<or> or_request r \<noteq> cl_request call \<or> ro_observation raw \<noteq> o1
             then Inl ProvenanceError
             else
               let assigned = assigned_call d rid;
                   again = recovery \<and> assigned = Some call_id \<and> cl_state call = Call_OBSERVED
               in if assigned \<noteq> None \<and> \<not> again then Inl ProvenanceError
                  else if \<not> truthy (cl_dispatch_correlation_id call)
                    \<or> \<not> truthy (or_dispatch_correlation_id r)
                    \<or> cl_dispatch_correlation_id call \<noteq> or_dispatch_correlation_id r
                  then Inl ProvenanceError
                  else if assigned \<noteq> None then Inr (d, origins_of d call_id)
                  else bindE (hydrate row) (\<lambda>c.
                    bindE (extract_evidence jh oh c (ro_observation raw) (Some (ro_request raw))) (\<lambda>es.
                    bindE (publish_all cid rid call_id es
                        ((put_case cid (row\<lparr> cr_updated_at := next_update_time now (cr_updated_at row) \<rparr>) d)
                          \<lparr> db_calls := tput call_id (call\<lparr> cl_observation_id := Some rid,
                            cl_state := Call_OBSERVED \<rparr>) (db_calls d) \<rparr>)) (\<lambda>d'.
                    Inr (d', map ev_evidence_id es))))))"

definition list_evidence :: "string \<Rightarrow> db \<Rightarrow> string \<Rightarrow> error + evidence list" where
  "list_evidence tenant d cid = bindE (case_row_of tenant d cid) (\<lambda>_.
     let es = map evw_payload (filter (\<lambda>r. evw_case_id r = cid) (trows (db_evidence d)))
     in if list_all evidence_valid es
        then Inr (sort_key ev_observed_at (sort_key (\<lambda>e. claim_type_value (ev_claim_type e))
          (sort_key ev_evidence_id es)))
        else Inl ValidationError)"

section \<open>The executor\<close>

datatype tool_reply = ToolFailed | Observed observation

datatype execution_failure = Reserve error | CaseToolExecutionError string | ToolRaised | Publish error

text \<open>
  \<open>CaseToolExecutor._execute\<close>. The tool client runs outside every transaction and may itself extend
  the simulator's tables; \<open>after\<close> is the state in which it returns. A reserved call consumes budget
  whatever happens to it.
\<close>

definition execute_call :: "(jv \<Rightarrow> string) \<Rightarrow> (observation \<Rightarrow> string) \<Rightarrow> string
    \<Rightarrow> (db \<Rightarrow> string \<Rightarrow> db \<times> tool_reply) \<Rightarrow> db \<Rightarrow> string \<Rightarrow> tool_name \<Rightarrow> tool_query
    \<Rightarrow> agent_execution_precondition option \<Rightarrow> time \<Rightarrow> time \<Rightarrow> time \<Rightarrow> string
    \<Rightarrow> db \<times> (execution_failure + string \<times> string list)" where
  "execute_call jh oh tenant client d cid tool query precondition fence_now now record_now uuid = (
     case reserve_call tenant d cid tool query precondition fence_now now uuid of
       Inl e \<Rightarrow> (d, Inl (Reserve e))
     | Inr (d1, Inl e, _) \<Rightarrow> (d1, Inl (Reserve e))
     | Inr (d1, Inr _, call_id) \<Rightarrow>
       let (d2, reply) = client d1 call_id;
           failed = (\<lambda>dx ex. (case mark_error tenant dx cid call_id of Inl e \<Rightarrow> (dx, Inl (Publish e))
             | Inr d3 \<Rightarrow> (d3, Inl (if precondition = None then ex else CaseToolExecutionError call_id))))
       in case reply of
            ToolFailed \<Rightarrow> failed d2 ToolRaised
          | Observed o1 \<Rightarrow> (case record_call jh oh tenant d2 cid call_id o1 False record_now of
              Inl e \<Rightarrow> failed d2 (Publish e)
            | Inr (d3, refs) \<Rightarrow> (d3, Inr (call_id, refs))))"

section \<open>Recovery of interrupted publications\<close>

definition pending_calls :: "string \<Rightarrow> db \<Rightarrow> string \<Rightarrow> error + string list" where
  "pending_calls tenant d cid = bindE (case_row_of tenant d cid) (\<lambda>_.
     Inr (map fst (sort_key (\<lambda>(_, c). cl_sequence c) (filter (\<lambda>(_, c). cl_case_id c = cid
       \<and> cl_state c \<in> {Call_DISPATCHED, Call_ERROR}) (db_calls d)))))"

definition correlated_observations :: "db \<Rightarrow> string \<Rightarrow> (string \<times> observation_row) list" where
  "correlated_observations d cor = take 2 (filter (\<lambda>(_, r). or_dispatch_correlation_id r = Some cor)
     (sim_observations (db_sim d)))"

text \<open>Which errors of the nested transaction count as invalid provenance.\<close>

definition invalid_provenance :: "error \<Rightarrow> bool" where
  "invalid_provenance e = (e \<in> {ProvenanceError, ValidationError, ValueError})"

definition recover_publication :: "(jv \<Rightarrow> string) \<Rightarrow> (observation \<Rightarrow> string) \<Rightarrow> string \<Rightarrow> db \<Rightarrow> string
    \<Rightarrow> string \<Rightarrow> case_call_row \<Rightarrow> time
    \<Rightarrow> error + db \<times> dispatch_recovery_status \<times> string list \<times> string option" where
  "recover_publication jh oh tenant d cid call_id call now = (
     if \<not> truthy (cl_dispatch_correlation_id call) then Inr (d, Dr_PROVENANCE_INVALID, [], None)
     else let cor = the (cl_dispatch_correlation_id call);
         calls = filter (\<lambda>(_, c). cl_dispatch_correlation_id c = Some cor) (db_calls d);
         observations = correlated_observations d cor
       in if length calls \<noteq> 1 \<or> 1 < length observations then Inr (d, Dr_AMBIGUOUS_OBSERVATION, [], None)
          else case observations of
            [] \<Rightarrow> Inr (d, Dr_OBSERVATION_NOT_FOUND, [], None)
          | (rid, r) # _ \<Rightarrow>
            (case bindE (raw_observation oh rid r) (\<lambda>raw.
                bindE (record_call jh oh tenant d cid call_id (ro_observation raw) True now) (\<lambda>(d1, refs).
                Inr (d1, (if cl_state call = Call_OBSERVED then Dr_OBSERVATION_ALREADY_PUBLISHED
                  else Dr_OBSERVATION_RECOVERED), refs, Some (ro_observation_id raw)))) of
               Inr x \<Rightarrow> Inr x
             | Inl e \<Rightarrow> if invalid_provenance e then Inr (d, Dr_PROVENANCE_INVALID, [], None) else Inl e))"

definition read_recovery_result :: "string \<Rightarrow> string \<Rightarrow> dispatch_recovery_status option
    \<Rightarrow> dispatch_recovery_status \<Rightarrow> string list \<Rightarrow> recovery_result" where
  "read_recovery_result uuid call_id prior status refs = \<lparr> rres_recovery_id = uuid,
     rres_subject_type = Rs_READ_DISPATCH, rres_subject_id = call_id,
     rres_before_status = map_option Inr prior, rres_after_status = Inr status,
     rres_action_taken = Inr status, rres_proof_ref = None,
     rres_recovered_evidence_refs = sort refs,
     rres_requires_escalation = (status \<in> {Dr_PROVENANCE_INVALID, Dr_AMBIGUOUS_OBSERVATION}),
     rres_failure_code = None \<rparr>"

definition recover_read :: "(jv \<Rightarrow> string) \<Rightarrow> (observation \<Rightarrow> string) \<Rightarrow> string \<Rightarrow> db \<Rightarrow> string \<Rightarrow> string
    \<Rightarrow> time \<Rightarrow> time \<Rightarrow> string \<Rightarrow> error + db \<times> recovery_result" where
  "recover_read jh oh tenant d cid call_id now attempted uuid =
     bindE (case_row_of tenant d cid) (\<lambda>row.
     case tget call_id (db_calls d) of
       None \<Rightarrow> Inl CaseAccessError
     | Some call \<Rightarrow>
       if cl_case_id call \<noteq> cid then Inl CaseAccessError
       else if is_terminal (cr_status row) then Inl CasePolicyError
       else let prior = map_option rdr_status (tget call_id (db_read_recovery d)) in
         bindE (recover_publication jh oh tenant d cid call_id call now) (\<lambda>(d1, status, refs, oid).
         Inr (d1\<lparr> db_read_recovery := tput call_id \<lparr> rdr_case_id = cid,
             rdr_dispatch_correlation_id = cl_dispatch_correlation_id call, rdr_status = status,
             rdr_recovered_observation_id = oid, rdr_recovered_evidence_refs = refs,
             rdr_attempted_at = attempted \<rparr> (db_read_recovery d1) \<rparr>,
           read_recovery_result uuid call_id prior status refs)))"

text \<open>
  \<open>recover_if_owned\<close>: publication and the rebase of the work on the new Case revision share one
  transaction.
\<close>

definition recover_if_owned :: "(jv \<Rightarrow> string) \<Rightarrow> (observation \<Rightarrow> string) \<Rightarrow> string \<Rightarrow> db \<Rightarrow> string \<Rightarrow> string
    \<Rightarrow> work_claim \<Rightarrow> time \<Rightarrow> time \<Rightarrow> time \<Rightarrow> string \<Rightarrow> error + db \<times> recovery_result" where
  "recover_if_owned jh oh tenant d cid call_id k now attempted work_now uuid =
     bindE (lock_work_case tenant d cid) (\<lambda>c.
     bindE (owned_work tenant d k work_now) (\<lambda>w.
       if wi_case_id w \<noteq> cid \<or> is_terminal (cr_status c) \<or> wi_resumed_at w \<noteq> None \<or> stale_snapshot c w
       then Inl OrchestrationError
       else bindE (recover_read jh oh tenant d cid call_id now attempted uuid) (\<lambda>(d1, result).
         bindE (owned_work tenant d1 k work_now) (\<lambda>_.
         bindE (the_case d1 cid) (\<lambda>c1.
         if rres_action_taken result = Inr Dr_OBSERVATION_RECOVERED then
           (case (tget call_id (db_read_recovery d1), tget call_id (db_calls d1)) of
              (Some receipt, Some call) \<Rightarrow>
                if rdr_status receipt \<noteq> Dr_OBSERVATION_RECOVERED \<or> rdr_case_id receipt \<noteq> cid
                  \<or> cl_state call \<noteq> Call_OBSERVED
                  \<or> rdr_recovered_observation_id receipt \<noteq> cl_observation_id call
                  \<or> set (rdr_recovered_evidence_refs receipt) \<noteq> set (origins_of d1 call_id)
                  \<or> set (rres_recovered_evidence_refs result) \<noteq> set (origins_of d1 call_id)
                then Inl OrchestrationError
                else let changed = w\<lparr> wi_expected_case_revision := cr_updated_at c1,
                       wi_recovery_reads := wi_recovery_reads w @ [result] \<rparr>
                  in Inr (audit_work changed We_RECOVERY_REBASED work_now (Some (wi_status w))
                    (Some (wc_worker_id k)) (save_work (wc_work_item_id k) changed d1), result)
            | _ \<Rightarrow> Inl AttributeError)
         else if cr_updated_at c1 \<noteq> wi_expected_case_revision w then Inl OrchestrationError
         else Inr (d1, result))))))"

end
