(* ===== verification/Resume.thy ===== *)
theory Resume
  imports WorkRepository
begin

text \<open>
  The transactions that wake a Case (\<open>orchestration/resume.py: CaseResumeService\<close>) and those of the
  orchestrator's tick (\<open>orchestration/service.py: DurableCaseOrchestrator\<close>). Each runs under the
  Case lock and starts by checking that the caller still owns the lease of the work. \<open>now\<close> is the
  reading of the clock the ownership is judged by, \<open>later\<close> the one of the writes after it.
\<close>

section \<open>Guards\<close>

text \<open>The claimed work is given up, in \<open>status\<close>, and its lease with it.\<close>

definition stop_work :: "work_claim \<Rightarrow> case_work_item \<Rightarrow> work_status \<Rightarrow> work_event \<Rightarrow> time \<Rightarrow> db \<Rightarrow> db" where
  "stop_work k w status event now d = (let changed = w\<lparr> wi_status := status, wi_lease_until := None \<rparr>
     in audit_work changed event now (Some (wi_status w)) (Some (wc_worker_id k))
       (save_work (wc_work_item_id k) changed d))"

definition block_and_escalate :: "(jv \<Rightarrow> string) \<Rightarrow> work_claim \<Rightarrow> case_work_item \<Rightarrow> string \<Rightarrow> work_reason \<Rightarrow> time
    \<Rightarrow> db \<Rightarrow> error + db" where
  "block_and_escalate digest k w cid reason now d =
     bindE (escalate_in digest (stop_work k w Ws_BLOCKED We_BLOCKED now d) cid reason (wi_work_item_id w) now)
       (\<lambda>(d', _). Inr d')"

text \<open>
  \<open>CaseResumeService._current\<close>: the Case and the work, while the work still binds this very revision
  of the Case. Otherwise the work is blocked or canceled and there is nothing to continue.
\<close>

definition current_snapshot :: "(jv \<Rightarrow> string) \<Rightarrow> string \<Rightarrow> db \<Rightarrow> work_claim \<Rightarrow> time \<Rightarrow> time
    \<Rightarrow> error + db \<times> (case_row \<times> case_work_item) option" where
  "current_snapshot digest tenant d k now later = bindE (get_work tenant d (wc_work_item_id k)) (\<lambda>item.
     bindE (lock_work_case tenant d (wi_case_id item)) (\<lambda>c.
     bindE (owned_work tenant d k now) (\<lambda>w.
       if binding_mode w \<noteq> Bind_CASE_SNAPSHOT \<or> is_terminal (cr_status c) then Inl OrchestrationError
       else if wi_resumed_at w \<noteq> None then
         (if wi_resume_lease_token w \<noteq> Some (wc_lease_token k)
          then bindE (block_and_escalate digest k w (wi_case_id item) Why_INTERRUPTED_RUN later d)
            (\<lambda>d'. Inr (d', None))
          else Inr (d, None))
       else if stale_snapshot c w then Inr (stop_work k w Ws_CANCELED We_STALE later d, None)
       else Inr (d, Some (c, w)))))"

section \<open>Recovery before the resume\<close>

text \<open>One recovery per claim, even with concurrent delivery: the claim's token is recorded first.\<close>

definition note_recovery_claim :: "work_claim \<Rightarrow> case_work_item \<Rightarrow> time \<Rightarrow> db \<Rightarrow> db \<times> time option" where
  "note_recovery_claim k w revision d = (
     if wi_recovery_claim_token w = Some (wc_lease_token k) then (d, None)
     else (save_work (wc_work_item_id k) (w\<lparr> wi_recovery_claim_token := Some (wc_lease_token k) \<rparr>) d,
       Some revision))"

definition begin_recovery :: "(jv \<Rightarrow> string) \<Rightarrow> string \<Rightarrow> db \<Rightarrow> work_claim \<Rightarrow> time \<Rightarrow> time
    \<Rightarrow> error + db \<times> time option" where
  "begin_recovery digest tenant d k now later = bindE (current_snapshot digest tenant d k now later)
     (\<lambda>(d1, cur). case cur of None \<Rightarrow> Inr (d1, None)
       | Some (_, w) \<Rightarrow> Inr (note_recovery_claim k w (wi_expected_case_revision w) d1))"

definition with_progress :: "orchestration_progress_fingerprint \<Rightarrow> case_work_item \<Rightarrow> case_work_item" where
  "with_progress prior w = (if wi_progress_before w \<noteq> None then w
     else w\<lparr> wi_progress_before := Some prior,
       wi_before_progress_fingerprint := Some (opf_fingerprint prior),
       wi_before_evidence_fingerprint := Some (opf_evidence_fingerprint prior) \<rparr>)"

definition note_progress :: "(jv \<Rightarrow> string) \<Rightarrow> string \<Rightarrow> db \<Rightarrow> work_claim
    \<Rightarrow> orchestration_progress_fingerprint \<Rightarrow> time \<Rightarrow> time \<Rightarrow> error + db \<times> bool" where
  "note_progress digest tenant d k prior now later = bindE (current_snapshot digest tenant d k now later)
     (\<lambda>(d1, cur). case cur of None \<Rightarrow> Inr (d1, False)
       | Some (_, w) \<Rightarrow> Inr (save_work (wc_work_item_id k) (with_progress prior w) d1, True))"

definition finish_recovery :: "(jv \<Rightarrow> string) \<Rightarrow> string \<Rightarrow> db \<Rightarrow> work_claim \<Rightarrow> time \<Rightarrow> recovery_result list
    \<Rightarrow> recovery_result list \<Rightarrow> bool \<Rightarrow> bool \<Rightarrow> time \<Rightarrow> time \<Rightarrow> error + db \<times> resume_recovery_result option" where
  "finish_recovery digest tenant d k before_revision reads effects progressed blocked now later =
     bindE (current_snapshot digest tenant d k now later) (\<lambda>(d1, cur). case cur of None \<Rightarrow> Inr (d1, None)
       | Some (c, w) \<Rightarrow>
         let result = \<lparr> rrr_case_id = wi_case_id w, rrr_work_item_id = wi_work_item_id w,
               rrr_before_case_revision = before_revision, rrr_after_case_revision = cr_updated_at c,
               rrr_read_recoveries = (if reads = [] then wi_recovery_reads w else reads),
               rrr_recovered_evidence_refs =
                 sorted_set (concat (map rres_recovered_evidence_refs (wi_recovery_reads w))),
               rrr_effect_recoveries = effects, rrr_semantic_progress = progressed,
               rrr_prepared_blocked = blocked \<rparr>
         in Inr (save_work (wc_work_item_id k) (w\<lparr> wi_recovery_result := Some result \<rparr>) d1, Some result))"

text \<open>The three transactions of \<open>recover_effect_work\<close>, under the guard of effect-bound work.\<close>

definition begin_effect_recovery :: "(jv \<Rightarrow> string) \<Rightarrow> string \<Rightarrow> db \<Rightarrow> work_claim \<Rightarrow> time
    \<Rightarrow> error + db \<times> time option" where
  "begin_effect_recovery digest tenant d k now = bindE (guard_current digest tenant d k now) (\<lambda>(d1, cur).
     case cur of None \<Rightarrow> Inr (d1, None)
     | Some w \<Rightarrow> bindE (the_case d1 (wi_case_id w)) (\<lambda>c.
         Inr (note_recovery_claim k w (cr_updated_at c) d1)))"

definition note_effect_progress :: "(jv \<Rightarrow> string) \<Rightarrow> string \<Rightarrow> db \<Rightarrow> work_claim
    \<Rightarrow> orchestration_progress_fingerprint \<Rightarrow> time \<Rightarrow> error + db \<times> (side_effect_ledger \<times> bool) option" where
  "note_effect_progress digest tenant d k prior now = bindE (guard_current digest tenant d k now) (\<lambda>(d1, cur).
     case cur of None \<Rightarrow> Inr (d1, None)
     | Some w \<Rightarrow>
       let d2 = save_work (wc_work_item_id k) (with_progress prior w) d1 in
       bindE (the_case d2 (wi_case_id w)) (\<lambda>c.
       bindE (effect_binding d2 (wi_case_id w) c (wi_source_ref w)) (\<lambda>(l, st).
         Inr (d2, Some (l, ers_requires_escalation st)))))"

definition finish_effect_recovery :: "(jv \<Rightarrow> string) \<Rightarrow> string \<Rightarrow> db \<Rightarrow> work_claim \<Rightarrow> time
    \<Rightarrow> recovery_result list \<Rightarrow> bool \<Rightarrow> time \<Rightarrow> error + db \<times> resume_recovery_result option" where
  "finish_effect_recovery digest tenant d k before_revision effects progressed now =
     bindE (guard_current digest tenant d k now) (\<lambda>(d1, cur). case cur of None \<Rightarrow> Inr (d1, None)
     | Some w \<Rightarrow>
       bindE (the_case d1 (wi_case_id w)) (\<lambda>c.
       bindE (effect_binding d1 (wi_case_id w) c (wi_source_ref w)) (\<lambda>(l, _).
         let result = \<lparr> rrr_case_id = wi_case_id w, rrr_work_item_id = wi_work_item_id w,
               rrr_before_case_revision = before_revision, rrr_after_case_revision = cr_updated_at c,
               rrr_read_recoveries = [], rrr_recovered_evidence_refs = [],
               rrr_effect_recoveries = effects, rrr_semantic_progress = progressed,
               rrr_prepared_blocked = (led_status l = Eff_PREPARED) \<rparr>
         in Inr (save_work (wc_work_item_id k) (w\<lparr> wi_recovery_result := Some result \<rparr>) d1, Some result))))"

section \<open>The resume\<close>

definition trigger_not_eligible :: "case_row \<Rightarrow> case_work_item \<Rightarrow> time \<Rightarrow> bool" where
  "trigger_not_eligible c w now = (
     (cr_status c = Case_ESCALATED \<and> \<not> truthy (wi_signal_id w))
     \<or> (wi_required_signal w \<noteq> None \<and> \<not> truthy (wi_signal_id w)) \<or> now < wi_not_before w)"

definition progress_changed :: "case_orchestration_state \<Rightarrow> string \<Rightarrow> string \<Rightarrow> bool" where
  "progress_changed s version fp = (cos_last_progress_version s = Some version
     \<and> cos_last_progress_fingerprint s \<noteq> None \<and> cos_last_progress_fingerprint s \<noteq> Some fp)"

text \<open>The first bound that stops the resume.\<close>

definition resume_block :: "case_orchestration_state \<Rightarrow> bool \<Rightarrow> bool \<Rightarrow> work_reason option" where
  "resume_block s verification prepared_blocked = (
     if prepared_blocked then Some Why_EFFECT_UNRESOLVED
     else if ob1_max_no_progress_cycles (cos_budget s) \<le> cos_no_progress_count s then Some Why_NO_PROGRESS
     else if verification \<and> ob1_max_verification_cycles (cos_budget s) \<le> cos_verification_cycle_count s
       then Some Why_VERIFICATION_LIMIT
     else if \<not> verification \<and> ob1_max_resume_cycles (cos_budget s) \<le> cos_resume_cycle_count s
       then Some Why_RESUME_LIMIT
     else None)"

definition counted_resume :: "bool \<Rightarrow> string \<Rightarrow> case_orchestration_state \<Rightarrow> case_orchestration_state" where
  "counted_resume verification work_id s = s\<lparr>
     cos_resume_cycle_count := cos_resume_cycle_count s + (if verification then 0 else 1),
     cos_verification_cycle_count := cos_verification_cycle_count s + (if verification then 1 else 0),
     cos_last_work_item_id := Some work_id \<rparr>"

definition resumed_row :: "time \<Rightarrow> case_row \<Rightarrow> case_row" where
  "resumed_row now r = r\<lparr> cr_status := Case_INVESTIGATING,
     cr_updated_at := next_update_time now (cr_updated_at r),
     cr_payload := (cr_payload r)\<lparr> case_lookup_retry_after := Some now \<rparr> \<rparr>"

text \<open>The transaction of \<open>resume\<close>, after the recovery: \<open>cid\<close> is the Case of the work read before.\<close>

definition resume_case :: "(jv \<Rightarrow> string) \<Rightarrow> string \<Rightarrow> db \<Rightarrow> work_claim \<Rightarrow> string \<Rightarrow> resume_recovery_result
    \<Rightarrow> string \<Rightarrow> time \<Rightarrow> string \<Rightarrow> error + db \<times> case_work_item option" where
  "resume_case digest tenant d k cid recovery current now uuid = bindE (lock_work_case tenant d cid) (\<lambda>c.
     if is_terminal (cr_status c) then Inr (cancel_terminal_work d cid now, None)
     else bindE (owned_work tenant d k now) (\<lambda>w.
       if wi_resumed_at w \<noteq> None then
         (if wi_resume_lease_token w = Some (wc_lease_token k) then Inr (d, None)
          else bindE (block_and_escalate digest k w cid Why_INTERRUPTED_RUN now d) (\<lambda>d'. Inr (d', None)))
       else if stale_snapshot c w then Inr (stop_work k w Ws_CANCELED We_STALE now d, None)
       else if trigger_not_eligible c w now then Inl OrchestrationError
       else
         let (d1, s0) = state_in d cid (cr_tenant_id c);
             reset = rrr_semantic_progress recovery \<or> progress_changed s0 ''2'' current;
             s1 = (if reset then s0\<lparr> cos_no_progress_count := 0 \<rparr> else s0);
             d2 = (if reset then save_state cid s1 d1 else d1);
             verification = wi_work_type w = Work_VERIFICATION_REQUIRED
         in case resume_block s1 verification (rrr_prepared_blocked recovery) of
              Some reason \<Rightarrow> bindE (block_and_escalate digest k w cid reason now d2) (\<lambda>d'. Inr (d', None))
            | None \<Rightarrow>
              let changed = w\<lparr> wi_resumed_at := Some now, wi_run_id := Some uuid,
                    wi_resume_lease_token := Some (wc_lease_token k) \<rparr>;
                  d3 = save_work (wc_work_item_id k) changed (put_case cid (resumed_row now c) d2);
                  d4 = save_state cid (counted_resume verification (wi_work_item_id w) s1) d3
              in Inr (audit_work changed We_RESUMED now (Some (wi_status w)) (Some (wc_worker_id k)) d4,
                   Some changed)))"

definition start_once :: "string \<Rightarrow> db \<Rightarrow> work_claim \<Rightarrow> string \<Rightarrow> time \<Rightarrow> error + db \<times> case_work_item" where
  "start_once tenant d k cid now = bindE (lock_work_case tenant d cid) (\<lambda>c.
     bindE (owned_work tenant d k now) (\<lambda>w.
       if wi_started_at w \<noteq> None \<or> wi_resumed_at w = None \<or> is_terminal (cr_status c)
       then Inl OrchestrationError
       else let changed = w\<lparr> wi_started_at := Some now \<rparr>
         in Inr (audit_work changed We_STARTED now (Some (wi_status w)) (Some (wc_worker_id k))
              (save_work (wc_work_item_id k) changed d), changed)))"

section \<open>The orchestrator's transactions\<close>

definition stamp_before :: "string \<Rightarrow> db \<Rightarrow> work_claim \<Rightarrow> string \<Rightarrow> orchestration_progress_fingerprint
    \<Rightarrow> time \<Rightarrow> error + db" where
  "stamp_before tenant d k cid prior now = bindE (lock_work_case tenant d cid) (\<lambda>_.
     bindE (owned_work tenant d k now) (\<lambda>w.
       Inr (save_work (wc_work_item_id k)
         (w\<lparr> wi_before_evidence_fingerprint := Some (opf_evidence_fingerprint prior),
            wi_before_progress_fingerprint := Some (opf_fingerprint prior) \<rparr>) d)))"

definition block_claimed :: "(jv \<Rightarrow> string) \<Rightarrow> string \<Rightarrow> db \<Rightarrow> work_claim \<Rightarrow> string \<Rightarrow> work_reason \<Rightarrow> time
    \<Rightarrow> error + db" where
  "block_claimed digest tenant d k cid reason now = bindE (lock_work_case tenant d cid) (\<lambda>_.
     bindE (owned_work tenant d k now) (\<lambda>w. block_and_escalate digest k w cid reason now d))"

definition report_requirements :: "evaluation_report \<Rightarrow> verification_requirement list" where
  "report_requirements report = sort_key verification_requirement_value
     (dedup (map uvr_requirement (erp_unresolved_requirements report)))"

text \<open>The row of a finished run: the primary key is the run, and a work item has one run.\<close>

definition add_run :: "string option \<Rightarrow> string \<Rightarrow> db \<Rightarrow> error + db" where
  "add_run run work_id d = (case run of None \<Rightarrow> Inr d
     | Some rid \<Rightarrow> if work_id \<in> set (trows (db_runs d)) then Inl IntegrityError
         else bindE (tadd IntegrityError rid work_id (db_runs d)) (\<lambda>t. Inr (d\<lparr> db_runs := t \<rparr>)))"

text \<open>\<open>_finish\<close>: the result tells whether the Case was escalated for lack of progress.\<close>

definition finish_run :: "(jv \<Rightarrow> string) \<Rightarrow> string \<Rightarrow> db \<Rightarrow> work_claim \<Rightarrow> string
    \<Rightarrow> orchestration_progress_fingerprint \<Rightarrow> orchestration_progress_fingerprint \<Rightarrow> evaluation_report
    \<Rightarrow> string option \<Rightarrow> time \<Rightarrow> error + db \<times> bool" where
  "finish_run digest tenant d k cid prior after report run now = bindE (lock_work_case tenant d cid) (\<lambda>c.
     bindE (owned_work tenant d k now) (\<lambda>w.
       let (d1, s) = state_in d cid (cr_tenant_id c);
           progress = (opf_fingerprint prior \<noteq> opf_fingerprint after
             \<or> progress_changed s (opf_version after) (opf_fingerprint after));
           no_progress = (if progress then 0 else cos_no_progress_count s + 1);
           d2 = save_state cid (s\<lparr> cos_no_progress_count := no_progress,
             cos_last_progress_fingerprint := Some (opf_fingerprint after),
             cos_last_progress_version := Some (opf_version after) \<rparr>) d1;
           finished = w\<lparr> wi_status := Ws_COMPLETED, wi_completed_at := Some now, wi_lease_until := None,
             wi_after_progress_fingerprint := Some (opf_fingerprint after),
             wi_after_evidence_fingerprint := Some (opf_evidence_fingerprint after),
             wi_verification_requirements := report_requirements report \<rparr>;
           d3 = audit_work finished We_COMPLETED now (Some (wi_status w)) (Some (wc_worker_id k))
             (save_work (wc_work_item_id k) finished d2)
       in bindE (add_run run (wi_work_item_id w) d3) (\<lambda>d4.
          if ob1_max_no_progress_cycles (cos_budget s) \<le> no_progress
            \<and> erp_overall_verdict report \<noteq> V_PASS
          then bindE (escalate_in digest d4 cid Why_NO_PROGRESS (wi_work_item_id w) now)
            (\<lambda>(d5, _). Inr (d5, True))
          else Inr (d4, False))))"

definition rechecked :: "orchestration_progress_fingerprint \<Rightarrow> case_work_item \<Rightarrow> case_work_item" where
  "rechecked after w = w\<lparr> wi_after_progress_fingerprint := Some (opf_fingerprint after),
     wi_after_evidence_fingerprint := Some (opf_evidence_fingerprint after),
     wi_verification_requirements := opf_requirements after \<rparr>"

definition rearmed_claim :: "time \<Rightarrow> case_work_item \<Rightarrow> case_work_item" where
  "rearmed_claim at w = w\<lparr> wi_status := Ws_PENDING, wi_not_before := at, wi_claimed_by := None,
     wi_lease_token := None, wi_lease_until := None, wi_progress_before := None, wi_recovery_reads := [] \<rparr>"

text \<open>
  The transaction of \<open>_recheck\<close>. \<open>policy\<close> is that of the effect recovery coordinator, when there is
  one. The retry limits belong to the recovery alone.
\<close>

definition recheck_effect :: "(jv \<Rightarrow> string) \<Rightarrow> recovery_policy option \<Rightarrow> string \<Rightarrow> db \<Rightarrow> work_claim
    \<Rightarrow> orchestration_progress_fingerprint \<Rightarrow> time \<Rightarrow> time \<Rightarrow> error + db \<times> bool" where
  "recheck_effect digest policy tenant d k after now later =
     bindE (guard_current digest tenant d k now) (\<lambda>(d1, cur). case cur of None \<Rightarrow> Inr (d1, False)
     | Some w \<Rightarrow>
       let cid = wi_case_id w; key = wc_work_item_id k in
       bindE (the_case d1 cid) (\<lambda>c.
         let (d2, s) = state_in d1 cid (cr_tenant_id c) in
         bindE (needE AttributeError (wi_progress_before w)) (\<lambda>prior.
         let progress = (opf_fingerprint prior \<noteq> opf_fingerprint after
               \<or> progress_changed s (opf_version after) (opf_fingerprint after));
             d3 = save_state cid (s\<lparr> cos_no_progress_count :=
                 (if progress then 0 else cos_no_progress_count s),
               cos_last_progress_fingerprint := Some (opf_fingerprint after),
               cos_last_progress_version := Some (opf_version after) \<rparr>) d2;
             changed = rechecked after w;
             blocked = bindE (block_and_escalate digest k changed cid Why_EFFECT_UNRESOLVED later d3)
               (\<lambda>d'. Inr (d', True))
         in case (tget (wi_source_ref w) (db_effects d3), policy) of
              (Some effect, Some p) \<Rightarrow>
                if eff_case_id effect \<noteq> cid then blocked
                else let l = eff_payload effect in
                  if led_status l \<notin> set RECOVERABLE then
                    let fin = changed\<lparr> wi_status := Ws_COMPLETED, wi_completed_at := Some later,
                          wi_lease_until := None \<rparr>;
                        d4 = audit_work fin We_COMPLETED later (Some (wi_status w)) (Some (wc_worker_id k))
                          (save_work key fin d3)
                    in bindE (effect_handoff digest d4 l) (\<lambda>(d5, _). Inr (d5, True))
                  else bindE (needE AttributeError (tget (led_effect_id l) (db_recovery_state d3))) (\<lambda>st.
                    if ers_requires_escalation st \<or> rpo_max_attempts p \<le> ers_attempt_count st then blocked
                    else
                      let at = max (ers_next_eligible_at st) (max (ers_ledger_updated_at st
                            + seconds (rpo_grace_seconds p))
                            (case ers_lease_until st of None \<Rightarrow> 0 | Some t \<Rightarrow> t));
                          again = rearmed_claim at changed
                      in Inr (audit_work again We_REARMED later (Some (wi_status w)) (Some (wc_worker_id k))
                           (save_work key again d3), True))
            | _ \<Rightarrow> blocked)))"

end
