(* ===== verification/Frames.thy ===== *)
theory Frames
  imports RecoveryInvariant EvidenceRepository Resume
begin

text \<open>
  The frame of every transaction: the tables it may write, one lemma per transaction in
  \<open>frame_laws\<close>. All the invariants of the system are proved over these frames: a transaction that
  does not write the tables an invariant reads keeps it.
\<close>

abbreviation SCHEDULING :: "table set" where
  "SCHEDULING \<equiv> {T_cases, T_work, T_orchestration, T_orchestration_audit}"

lemma scheduled_same: "scheduled d d' \<Longrightarrow> same_but SCHEDULING d d'"
  by (simp add: scheduled_def core_kept_def)

lemmas same_but_steps = same_but_iff put_case_def log_authorization_def audit_work_def save_state_def

lemma save_work_same: "same_but {T_work} d (save_work key item d)"
  by (simp add: save_work_def same_but_iff split: option.split)

lemma save_work_tables [simp]:
  "db_cases (save_work key item d) = db_cases d" "db_effects (save_work key item d) = db_effects d"
  "db_calls (save_work key item d) = db_calls d" "db_recovery_state (save_work key item d) = db_recovery_state d"
  "db_orchestration (save_work key item d) = db_orchestration d"
  by (simp_all add: save_work_def split: option.split)

text \<open>Frames compose along the steps of a transaction.\<close>

lemma same_but_step:
  assumes "same_but S a b" and "same_but S' b c" and "S' \<subseteq> S"
  shows "same_but S a c"
  using same_but_trans [OF assms(1,2)] assms(3) by (simp add: Un_absorb2)

section \<open>Cases and calls\<close>

lemma create_case_frame [frame_laws]:
  "create_case token_hash tenant d c cred = Inr (d', x) \<Longrightarrow> same_but {T_cases} d d'"
  by (auto simp: create_case_def bindE_Inr_iff same_but_iff split: option.splits if_splits)

lemma reserve_call_frame [frame_laws]:
  "reserve_call tenant d cid tool query p t1 t2 call_id = Inr (d', x) \<Longrightarrow> same_but {T_cases, T_calls} d d'"
  by (auto simp: reserve_call_def bindE_Inr_iff Let_def same_but_steps split: if_splits)

lemma mark_error_frame [frame_laws]:
  "mark_error tenant d cid call_id = Inr d' \<Longrightarrow> same_but {T_calls} d d'"
  by (auto simp: mark_error_def bindE_Inr_iff same_but_iff split: option.splits if_splits)

lemma pause_frame [frame_laws]: "pause tenant d cid s now = Inr (d', x) \<Longrightarrow> same_but {T_cases} d d'"
  by (auto simp: pause_def bindE_Inr_iff Let_def same_but_steps split: if_splits)

lemma publish_one_frame: "publish_one cid rid call_id e d = Inr d' \<Longrightarrow> same_but {T_evidence, T_origins} d d'"
  by (auto simp: publish_one_def bindE_Inr_iff Let_def same_but_iff split: if_splits)

lemma publish_all_frame: "publish_all cid rid call_id es d = Inr d' \<Longrightarrow> same_but {T_evidence, T_origins} d d'"
  by (induction es arbitrary: d) (auto simp: bindE_Inr_iff dest!: publish_one_frame intro: same_but_step)

abbreviation PUBLICATION :: "table set" where
  "PUBLICATION \<equiv> {T_cases, T_calls, T_evidence, T_origins}"

text \<open>What a publication has checked, and the two ways it ends.\<close>

lemma record_call_Inr:
  assumes "record_call jh oh tenant d cid call_id o1 recovery now = Inr (d', refs)"
  obtains row call r where "case_row_of tenant d cid = Inr row" and "\<not> is_terminal (cr_status row)"
    and "tget call_id (db_calls d) = Some call" and "cl_case_id call = cid"
    and "recordable recovery (cl_state call)"
    and "tget (ob_observation_id o1) (sim_observations (db_sim d)) = Some r"
    and "or_grant_hash r = cr_grant_hash row" and "or_tool r = cl_tool call" and "or_request r = cl_request call"
    and "or_dispatch_correlation_id r = cl_dispatch_correlation_id call"
    and "or_observation r = o1" and "or_content_hash r = oh o1"
    and "d' = d \<and> refs = origins_of d call_id
        \<and> assigned_call d (ob_observation_id o1) = Some call_id
      \<or> (\<exists>c es. hydrate row = Inr c \<and> extract_evidence jh oh c o1 (Some (cl_request call)) = Inr es
        \<and> refs = map ev_evidence_id es \<and> assigned_call d (ob_observation_id o1) = None
        \<and> publish_all cid (ob_observation_id o1) call_id es
          ((put_case cid (row\<lparr> cr_updated_at := next_update_time now (cr_updated_at row) \<rparr>) d)
            \<lparr> db_calls := tput call_id (call\<lparr> cl_observation_id := Some (ob_observation_id o1),
                cl_state := Call_OBSERVED \<rparr>) (db_calls d) \<rparr>) = Inr d')"
proof -
  obtain row where row: "case_row_of tenant d cid = Inr row"
    using assms by (auto simp: record_call_def)
  obtain call where call: "tget call_id (db_calls d) = Some call"
    using assms row by (cases "tget call_id (db_calls d)") (auto simp: record_call_def split: if_splits)
  obtain r where r: "tget (ob_observation_id o1) (sim_observations (db_sim d)) = Some r"
    using assms row call
    by (cases "tget (ob_observation_id o1) (sim_observations (db_sim d))")
      (auto simp: record_call_def split: if_splits)
  obtain raw where raw: "raw_observation oh (ob_observation_id o1) r = Inr raw"
    using assms unfolding record_call_def row call r bindE_simps option.case Let_def
    by (auto simp: bindE_Inr_iff split: if_splits)
  note eqs = row call r raw bindE_simps option.case Let_def
  have fields: "ro_observation raw = or_observation r" "ro_request raw = or_request r"
    "or_content_hash r = oh (or_observation r)"
    using raw by (auto simp: raw_observation_def Let_def split: if_splits)
  show thesis
    using assms unfolding record_call_def eqs
    by (intro that [OF row _ call _ _ r]) (auto simp: bindE_Inr_iff fields split: if_splits)
qed

lemma record_call_frame [frame_laws]:
  assumes "record_call jh oh tenant d cid call_id o1 recovery now = Inr (d', refs)"
  shows "same_but PUBLICATION d d'"
  using assms
proof (cases rule: record_call_Inr)
  case (1 row call r)
  have "same_but PUBLICATION d ((put_case cid row' d)\<lparr> db_calls := x \<rparr>)" for row' x
    by (simp add: same_but_steps)
  then show ?thesis using 1(13) by (auto dest!: publish_all_frame intro: same_but_step)
qed

lemma recover_publication_frame:
  "recover_publication jh oh tenant d cid call_id call now = Inr (d', s, refs, oid) \<Longrightarrow> same_but PUBLICATION d d'"
  by (auto simp: recover_publication_def Let_def bindE_Inr_iff dest!: record_call_frame
      split: if_splits list.splits sum.splits prod.splits)

lemma recover_read_frame [frame_laws]:
  "recover_read jh oh tenant d cid call_id now attempted uuid = Inr (d', x)
   \<Longrightarrow> same_but (insert T_read_recovery PUBLICATION) d d'"
  by (auto simp: recover_read_def bindE_Inr_iff Let_def dest!: recover_publication_frame
      split: if_splits option.splits) (simp add: same_but_iff)

text \<open>A recovered read publishes through \<open>record_call\<close> or writes nothing but its receipt.\<close>

lemma recover_publication_Inr:
  "recover_publication jh oh tenant d cid call_id call now = Inr (d', s, ids, oid)
   \<Longrightarrow> d' = d \<or> (\<exists>o1. record_call jh oh tenant d cid call_id o1 True now = Inr (d', ids))"
  by (auto simp: recover_publication_def Let_def bindE_Inr_iff split: if_splits list.splits sum.splits prod.splits)

lemma recover_read_Inr:
  assumes "recover_read jh oh tenant d cid call_id now attempted uuid = Inr (d', x)"
  obtains d1 where "same_but {T_read_recovery} d1 d'"
    and "d1 = d \<or> (\<exists>o1 ids. record_call jh oh tenant d cid call_id o1 True now = Inr (d1, ids))"
proof -
  obtain call d1 s ids oid where
      "recover_publication jh oh tenant d cid call_id call now = Inr (d1, s, ids, oid)"
      "same_but {T_read_recovery} d1 d'"
    using assms by (auto simp: recover_read_def bindE_Inr_iff Let_def same_but_iff split: if_splits option.splits)
  with recover_publication_Inr that show thesis by blast
qed

section \<open>Authorizations and effects\<close>

lemma save_intent_same: "save_intent i d = Inr d' \<Longrightarrow> same_but {T_intents} d d'"
  by (auto simp: save_intent_def same_but_iff split: option.splits if_splits)

lemma request_approval_frame [frame_laws]:
  "request_approval tenant d r revision audit_id = Inr (d', x)
   \<Longrightarrow> same_but {T_intents, T_approvals, T_authorization_audit} d d'"
  by (auto simp: request_approval_def bindE_Inr_iff dest!: save_intent_same split: if_splits)
    (simp add: same_but_steps)

lemma decide_approval_frame [frame_laws]:
  "decide_approval tenant d x now audit_id = Inr (d', y) \<Longrightarrow> same_but {T_approvals, T_authorization_audit} d d'"
  by (auto simp: decide_approval_def bindE_Inr_iff Let_def same_but_steps split: if_splits)

lemma issue_frame [frame_laws]:
  "issue digest tenant d i cap now signature audit_id = Inr d'
   \<Longrightarrow> same_but {T_intents, T_capabilities, T_signatures, T_authorization_audit} d d'"
  by (auto simp: issue_def bindE_Inr_iff dest!: save_intent_same split: if_splits)
    (simp add: same_but_steps)

lemma existing_frame [frame_laws]:
  "existing digest tenant d cap now = Inr (d', x) \<Longrightarrow> same_but {T_capabilities} d d'"
  by (auto simp: existing_def bindE_Inr_iff existing_effect_def use_capability_def Let_def same_but_iff
      split: option.splits if_splits)

abbreviation LEDGER :: "table set" where
  "LEDGER \<equiv> SCHEDULING \<union> {T_effects, T_recovery_state}"

lemma synchronize_effect_same:
  assumes "synchronize_effect digest d l = Inr d'" and "work_ok d"
  shows "same_but (insert T_recovery_state SCHEDULING) d d'"
  using assms
proof (cases rule: synchronize_effect_Inr)
  case (1 d1 st)
  then show ?thesis using scheduled_same [OF 1(1)] by (simp add: same_but_iff)
qed

lemma write_effect_work_ok: "work_ok d \<Longrightarrow> work_ok (write_effect k r d)"
  by (simp add: write_effect_def work_ok_def)

lemma cas_effect_same:
  assumes "cas_effect digest e d eid expected l = Inr d'" and "work_ok d"
  shows "same_but LEDGER d d'"
proof -
  obtain r where r: "synchronize_effect digest (write_effect eid r d) l = Inr d'"
    using assms(1) by (auto simp: cas_effect_def split: option.splits if_splits)
  have "same_but LEDGER d (write_effect eid r d)" by (simp add: write_effect_def same_but_iff)
  then show ?thesis
    by (rule same_but_step [OF _ synchronize_effect_same [OF r write_effect_work_ok [OF assms(2)]]]) auto
qed

lemma prepare_frame [frame_laws]:
  assumes "prepare digest tenant d cap now wall correlation audit_id = Inr (d', l, fresh)" and "work_ok d"
  shows "same_but (LEDGER \<union> {T_capabilities, T_authorization_audit}) d d'"
  using assms(1)
proof (cases rule: prepare_Inr)
  case old
  then show ?thesis by (simp add: use_capability_def same_but_iff)
next
  case (new c cap_row i revision d3)
  let ?d2 = "write_effect (effect_key digest cap) (prepared_row l)
    (use_capability (xc_capability_id cap) cap_row (effect_key digest cap)
      (put_case (xc_case_id cap) (c\<lparr> cr_updated_at := revision \<rparr>) d))"
  have "work_ok ?d2" using assms(2) by (simp add: write_effect_def use_capability_def put_case_def work_ok_def)
  from synchronize_effect_same [OF new(12) this] show ?thesis
    unfolding new(13) by (simp add: same_but_steps write_effect_def use_capability_def)
qed

lemma dispatch_prepared_frame [frame_laws]:
  assumes "dispatch_prepared digest tenant d cap now claim audit_id = Inr (d', l)" and "work_ok d"
  shows "same_but (insert T_authorization_audit LEDGER) d d'"
  using assms(1)
proof (cases rule: dispatch_prepared_Inr)
  case (1 c cap_row i eid row d1)
  from cas_effect_same [OF 1(10) assms(2)] show ?thesis unfolding 1(11) by (simp add: same_but_steps)
qed

lemma transition_frame [frame_laws]:
  assumes "transition digest tenant d eid expected status now receipt failure audit_id = Inr (d', l)" and "work_ok d"
  shows "same_but (insert T_authorization_audit LEDGER) d d'"
  using assms(1)
proof (cases rule: transition_Inr)
  case (1 row d1 i)
  from cas_effect_same [OF 1(6) assms(2)] show ?thesis unfolding 1(7) by (simp add: same_but_steps)
qed

end
