(* ===== verification/WorkInvariant.thy ===== *)
theory WorkInvariant
  imports Frames
begin

text \<open>
  The queue of durable work: its rows keep their identity, a row repeats its payload, and at most
  one item of a Case is claimed at any time. A transaction \<open>worked\<close> when it only schedules and
  moves items without claiming one; the claim itself checks that no other item of the Case is in
  flight.
\<close>

section \<open>Claims\<close>

definition claims_in :: "db \<Rightarrow> (string \<times> string) set" where
  "claims_in d = {(k, c). \<exists>r. tget k (db_work d) = Some r \<and> wir_status r = Ws_CLAIMED \<and> wir_case_id r = c}"

definition one_claim :: "db \<Rightarrow> bool" where
  "one_claim d = (\<forall>k k' c. (k, c) \<in> claims_in d \<and> (k', c) \<in> claims_in d \<longrightarrow> k = k')"

definition queue_kept :: "db \<Rightarrow> db \<Rightarrow> bool" where
  "queue_kept d d' = (work_ok d' \<and> claims_in d' \<subseteq> claims_in d
     \<and> (\<forall>k r. tget k (db_work d) = Some r \<longrightarrow> (\<exists>r'. tget k (db_work d') = Some r' \<and> work_kept r r')))"

definition worked :: "db \<Rightarrow> db \<Rightarrow> bool" where
  "worked d d' = (same_but SCHEDULING d d' \<and> cases_kept d d' \<and> queue_kept d d')"

lemma one_claim_mono: "one_claim d \<Longrightarrow> claims_in d' \<subseteq> claims_in d \<Longrightarrow> one_claim d'"
  unfolding one_claim_def by blast

lemma queue_kept_same: "work_ok d \<Longrightarrow> db_work d' = db_work d \<Longrightarrow> queue_kept d d'"
  by (simp add: queue_kept_def claims_in_def work_ok_def)

lemma queue_kept_trans: "queue_kept a b \<Longrightarrow> queue_kept b c \<Longrightarrow> queue_kept a c"
  unfolding queue_kept_def by (meson order_trans work_kept_trans)

lemma queue_kept_ok: "queue_kept d d' \<Longrightarrow> work_ok d'"
  by (simp add: queue_kept_def)

lemma worked_refl: "work_ok d \<Longrightarrow> worked d d"
  by (simp add: worked_def queue_kept_same)

lemma worked_ok: "worked d d' \<Longrightarrow> work_ok d'"
  by (simp add: worked_def queue_kept_def)

lemma worked_trans: "worked a b \<Longrightarrow> worked b c \<Longrightarrow> worked a c"
  unfolding worked_def by (blast intro: same_but_step cases_kept_trans queue_kept_trans)

lemma scheduled_worked:
  assumes "scheduled d d'" and "work_ok d"
  shows "worked d d'"
proof -
  have "claims_in d' \<subseteq> claims_in d" using scheduled_claimed [OF assms(1)] by (auto simp: claims_in_def)
  then show ?thesis
    using assms scheduled_same [OF assms(1)] scheduled_work_ok [OF assms]
    by (simp add: worked_def queue_kept_def scheduled_def works_kept_def)
qed

lemma worked_scheduled: "worked a b \<Longrightarrow> scheduled b c \<Longrightarrow> worked a c"
  by (blast intro: worked_trans scheduled_worked worked_ok)

lemma worked_audit: "worked a b \<Longrightarrow> worked a (audit_work i ev now before worker b)"
  by (rule worked_scheduled [OF _ scheduled_audit])

lemma worked_state: "worked a b \<Longrightarrow> worked a (save_state cid s b)"
  by (rule worked_scheduled [OF _ scheduled_save_state])

lemma worked_state_in: "work_ok d \<Longrightarrow> worked d (fst (state_in d cid tenant))"
  by (rule scheduled_worked [OF scheduled_state_in])

lemma state_in_work [simp]:
  "db_work (fst (state_in d cid tenant)) = db_work d" "db_cases (fst (state_in d cid tenant)) = db_cases d"
  by (auto simp: state_in_def split: option.splits)

text \<open>An item may be saved over the row it was read from; it stays claimed only if it was.\<close>

lemma worked_save:
  assumes w: "worked a d" and r: "tget key (db_work d) = Some r"
    and kept: "work_kept r (work_row_of item r)"
    and st: "wi_status item = Ws_CLAIMED \<Longrightarrow> wir_status r = Ws_CLAIMED"
  shows "worked a (save_work key item d)"
proof -
  let ?d = "d\<lparr> db_work := tput key (work_row_of item r) (db_work d) \<rparr>"
  have ok: "work_ok d" by (rule worked_ok [OF w])
  then have "work_ok ?d" using r work_row_of_ok [OF _ kept] by (auto simp: work_ok_def)
  moreover have "claims_in ?d \<subseteq> claims_in d"
    using r st by (auto simp: claims_in_def work_row_of_def split: if_splits)
  ultimately have "worked d ?d"
    using r kept by (auto simp: worked_def queue_kept_def same_but_iff cases_kept_def option.rel_refl)
  then show ?thesis using worked_trans [OF w] r by (simp add: save_work_def)
qed

section \<open>The transactions of the queue\<close>

lemma work_row_Inr [simp]:
  "work_row tenant d key = Inr r \<longleftrightarrow> tget key (db_work d) = Some r \<and> wir_tenant_id r = tenant"
  by (auto simp: work_row_def split: option.splits if_splits)

lemma owned_work_Inr:
  assumes "owned_work tenant d k now = Inr w"
  obtains r where "tget (wc_work_item_id k) (db_work d) = Some r" "w = wir_payload r"
    "wi_status w = Ws_CLAIMED" "wi_lease_token w = Some (wc_lease_token k)"
    "wi_claimed_by w = Some (wc_worker_id k)"
  using assms by (auto simp: owned_work_def bindE_Inr_iff Let_def)

lemma row_status: "work_ok d \<Longrightarrow> tget k (db_work d) = Some r \<Longrightarrow> wir_status r = wi_status (wir_payload r)"
  by (simp add: work_ok_def work_row_ok_def Let_def)

lemma worked_save_owned:
  assumes w: "worked d d1" and same: "db_work d1 = db_work d"
    and own: "owned_work tenant d k now = Inr w"
    and kept: "wi_work_item_id item = wi_work_item_id w \<and> wi_case_id item = wi_case_id w
      \<and> wi_tenant_id item = wi_tenant_id w \<and> wi_work_type item = wi_work_type w
      \<and> wi_source_ref item = wi_source_ref w"
  shows "worked d (save_work (wc_work_item_id k) item d1)"
  using own
proof (cases rule: owned_work_Inr)
  case (1 r)
  have "tget (wc_work_item_id k) (db_work d1) = Some r" using 1(1) same by simp
  moreover from row_status [OF worked_ok [OF w] this] 1(2,3) have "wir_status r = Ws_CLAIMED" by simp
  ultimately show ?thesis
    using 1(2) kept by (intro worked_save [OF w]) (auto simp: work_kept_def work_row_of_def)
qed

named_theorems work_laws

lemma check_recovery_worked:
  "check_recovery_work digest d cid key (wir_payload r) now settle = Inr (d', x) \<Longrightarrow> work_ok d
   \<Longrightarrow> tget key (db_work d) = Some r \<Longrightarrow> worked d d'"
  by (blast intro: scheduled_worked check_recovery_work_scheduled own_payload)

text \<open>A check that leaves the worker in charge has written nothing.\<close>

lemma check_recovery_work_Some:
  "check_recovery_work digest d cid key work now settle = Inr (d', Some x) \<Longrightarrow> d' = d"
  by (auto simp: check_recovery_work_def bindE_Inr_iff Let_def split: if_splits sum.splits prod.splits)

lemma orchestration_state_worked [work_laws]:
  "orchestration_state tenant d cid = Inr (d', s) \<Longrightarrow> work_ok d \<Longrightarrow> worked d d'"
  by (auto simp: orchestration_state_def bindE_Inr_iff split_beta Let_def intro: worked_state_in)

lemma configure_worked [work_laws]:
  "configure tenant d cid b = Inr d' \<Longrightarrow> work_ok d \<Longrightarrow> worked d d'"
  by (auto simp: configure_def bindE_Inr_iff split_beta Let_def intro!: worked_state worked_state_in)

lemma poll_ready_worked:
  assumes "poll_ready d1 key (wir_payload r) now = Inr (d', x)" and w: "worked d d1"
    and r: "tget key (db_work d1) = Some r"
  shows "worked d d'"
  using assms(1) w
  by (auto simp: poll_ready_def work_kept_def work_row_of_def intro!: worked_audit worked_save [OF w r]
      split: if_splits option.splits)

lemma poll_one_worked [work_laws]:
  assumes "poll_one digest tenant d key now = Inr (d', x)" and ok: "work_ok d"
  shows "worked d d'"
proof -
  obtain r where r: "tget key (db_work d) = Some r" and t: "work_row tenant d key = Inr r"
    using assms(1) by (auto simp: poll_one_def bindE_Inr_iff)
  note checked = check_recovery_worked [OF _ ok r]
  show ?thesis
    using assms(1) unfolding poll_one_def t bindE_simps Let_def
    by (auto simp: bindE_Inr_iff work_kept_def work_row_of_def split: if_splits prod.splits
        intro: scheduled_worked [OF cancel_terminal_work_scheduled [OF ok] ok] checked
          poll_ready_worked [OF _ worked_refl [OF ok] r]
        intro!: worked_audit worked_save [OF worked_refl [OF ok] r]
        dest!: check_recovery_work_Some)
qed

lemma renew_worked [work_laws]:
  "renew lease_seconds tenant d k now = Inr (d', x) \<Longrightarrow> work_ok d \<Longrightarrow> worked d d'"
  by (auto simp: renew_def bindE_Inr_iff intro!: worked_save_owned [OF worked_refl refl] split: if_splits)

lemma complete_work_worked [work_laws]:
  "complete_work tenant d k now = Inr (d', x) \<Longrightarrow> work_ok d \<Longrightarrow> worked d d'"
  by (auto simp: complete_work_def bindE_Inr_iff Let_def
      intro!: worked_audit worked_save_owned [OF worked_refl refl] worked_refl split: if_splits)

lemma guard_current_worked:
  assumes "guard_current digest tenant d k now = Inr (d', x)" and ok: "work_ok d"
  shows "worked d d'" and "x \<noteq> None \<Longrightarrow> d' = d \<and> owned_work tenant d k now = Inr (the x)"
proof -
  have checked: "worked d d1"
    if "check_recovery_work digest d cid (wc_work_item_id k) w now settle = Inr (d1, y)"
      "owned_work tenant d k now = Inr w" for d1 cid w settle y
    using that(2)
  proof (cases rule: owned_work_Inr)
    case (1 r)
    from that(1) show ?thesis unfolding 1(2) by (rule check_recovery_worked [OF _ ok 1(1)])
  qed
  show "worked d d'"
    using assms(1) checked
    by (auto simp: guard_current_def bindE_Inr_iff split: if_splits
        intro: scheduled_worked [OF cancel_terminal_work_scheduled [OF ok] ok])
  show "x \<noteq> None \<Longrightarrow> d' = d \<and> owned_work tenant d k now = Inr (the x)"
    using assms(1) by (auto simp: guard_current_def bindE_Inr_iff split: if_splits
        dest!: check_recovery_work_Some)
qed

declare guard_current_worked(1) [work_laws]

lemma submit_signal_worked [work_laws]:
  assumes "submit_signal tenant d s now = Inr (d', x)" and ok: "work_ok d"
  shows "same_but (insert T_signals SCHEDULING) d d'" and "cases_kept d d'" and "queue_kept d d'"
proof -
  obtain c where c: "lock_work_case tenant d (rsg_case_id s) = Inr c"
    using assms(1) by (auto simp: submit_signal_def bindE_Inr_iff)
  obtain r where row: "work_row tenant d (rsg_work_item_id s) = Inr r"
    using assms(1) c by (auto simp: submit_signal_def bindE_Inr_iff)
  then have r: "tget (rsg_work_item_id s) (db_work d) = Some r" by simp
  define d1 where "d1 = (if tget (rsg_signal_id s) (db_signals d) = None
    then d\<lparr> db_signals := tput (rsg_signal_id s) s (db_signals d) \<rparr> else d)"
  have d1: "db_work d1 = db_work d" "db_cases d1 = db_cases d" "same_but {T_signals} d d1"
    by (simp_all add: d1_def same_but_iff)
  have st: "wi_status (wir_payload r) \<in> {Ws_PENDING, Ws_READY}"
    and d': "d' = save_work (rsg_work_item_id s) ((wir_payload r)\<lparr> wi_signal_id := Some (rsg_signal_id s),
        wi_trigger := Trig_RESOLUTION_SIGNAL \<rparr>) d1"
    using assms(1) unfolding submit_signal_def c row bindE_simps Let_def d1_def [symmetric]
    by (auto simp: bindE_Inr_iff signal_matches_def)
  have ok1: "work_ok d1" using ok d1(1) by (simp add: work_ok_def)
  have w: "worked d1 d'"
    unfolding d' using r d1(1) st
    by (intro worked_save [OF worked_refl [OF ok1]]) (auto simp: work_kept_def work_row_of_def)
  then show "same_but (insert T_signals SCHEDULING) d d'"
    using d1(3) by (auto simp: worked_def intro: same_but_mono [OF same_but_trans])
  show "cases_kept d d'" using w d1(2) by (simp add: worked_def cases_kept_def)
  show "queue_kept d d'" using w queue_kept_same [OF ok d1(1)] by (auto simp: worked_def intro: queue_kept_trans)
qed

section \<open>The claim\<close>

text \<open>A claim is the only way into \<open>CLAIMED\<close>, and no other item of the Case is claimed then.\<close>

lemma other_claimed_iff:
  assumes "work_ok d"
  shows "other_claimed d cid key \<longleftrightarrow> (\<exists>k. k \<noteq> key \<and> (k, cid) \<in> claims_in d)"
proof -
  have "tget k (db_work d) = Some r \<longleftrightarrow> (k, r) \<in> set (db_work d)" for k r
    using assms by (simp add: work_ok_def tget_def tkeys_distinct_def)
  then show ?thesis by (auto simp: other_claimed_def claimed_rows_def claims_in_def list_ex_iff)
qed

lemma claim_work_Inr:
  assumes "claim_work digest lease_seconds tenant d key worker now token = Inr (d', c)" and ok: "work_ok d"
  obtains (idle) "c = None" "worked d d'"
  | (claimed) r d1 item where "tget key (db_work d) = Some r" "worked d d1"
      "\<not> not_claimable (wir_payload r) now"
      "\<not> other_claimed d1 (wi_case_id (wir_payload r)) key"
      "item = claimed_item (wir_payload r) worker token (now + seconds lease_seconds)"
      "d' = audit_work item We_CLAIMED now (Some (wi_status (wir_payload r))) (Some worker)
        (save_work key item d1)"
      "c = Some \<lparr> wc_work_item_id = key, wc_worker_id = worker, wc_lease_token = token \<rparr>" "d1 = d"
proof -
  obtain r where r: "tget key (db_work d) = Some r" and t: "work_row tenant d key = Inr r"
    using assms(1) by (auto simp: claim_work_def bindE_Inr_iff)
  obtain c0 where c0: "lock_work_case tenant d (wi_case_id (wir_payload r)) = Inr c0"
    using assms(1) unfolding claim_work_def t bindE_simps Let_def by (rule bindE_InrE)
  note eqs = t c0 bindE_simps Let_def
  show thesis
  proof (cases "is_terminal (cr_status c0) \<or> not_claimable (wir_payload r) now")
    case True
    then show thesis
      using assms(1) ok unfolding claim_work_def eqs
      by (auto split: if_splits intro!: idle intro: worked_refl
          scheduled_worked [OF cancel_terminal_work_scheduled])
  next
    case False
    define go where "go = (if binding_mode (wir_payload r) = Bind_SIDE_EFFECT
      then bindE (check_recovery_work digest d (wi_case_id (wir_payload r)) key (wir_payload r) now True)
        (\<lambda>(d1, checked). Inr (d1, checked \<noteq> None)) else Inr (d, True))"
    obtain d1 b where g: "go = Inr (d1, b)"
      using assms(1) False unfolding claim_work_def eqs go_def [symmetric] by (auto simp: bindE_Inr_iff)
    have w: "worked d d1" and same: "b \<Longrightarrow> d1 = d"
      using g check_recovery_worked [OF _ ok r] check_recovery_work_Some worked_refl [OF ok]
      by (auto simp: go_def bindE_Inr_iff split: if_splits)
    have "thesis" if "c = None" "d' = d1" using that w idle by simp
    then show thesis
      using assms(1) False claimed [OF r w] same
      unfolding claim_work_def eqs go_def [symmetric] g
      by (auto split: if_splits)
  qed
qed

lemma claim_work_kept:
  assumes "claim_work digest lease_seconds tenant d key worker now token = Inr (d', c)" and ok: "work_ok d"
  shows "work_ok d'" and "same_but SCHEDULING d d'" and "cases_kept d d'"
    and "one_claim d \<Longrightarrow> one_claim d'"
proof -
  have "work_ok d' \<and> same_but SCHEDULING d d' \<and> cases_kept d d' \<and> (one_claim d \<longrightarrow> one_claim d')"
    using assms(1) ok
  proof (cases rule: claim_work_Inr)
    case idle
    then show ?thesis by (auto simp: worked_def queue_kept_def intro: one_claim_mono)
  next
    case (claimed r d1 item)
    let ?r = "work_row_of item r" and ?cid = "wi_case_id (wir_payload r)"
    let ?d = "d\<lparr> db_work := tput key ?r (db_work d) \<rparr>"
    have d': "d' = audit_work item We_CLAIMED now (Some (wi_status (wir_payload r))) (Some worker) ?d"
      using claimed by (simp add: save_work_def)
    have row: "work_row_ok key r" using ok claimed(1) by (simp add: work_ok_def)
    have kept: "work_kept r ?r" by (simp add: claimed(5) claimed_item_def work_kept_def work_row_of_def)
    have "work_ok ?d" using ok work_row_of_ok [OF row kept] by (auto simp: work_ok_def)
    moreover have sub: "claims_in ?d \<subseteq> insert (key, ?cid) (claims_in d)"
      using row by (auto simp: claims_in_def work_row_of_def work_row_ok_def Let_def split: if_splits)
    have only: "k = key" if "(k, ?cid) \<in> claims_in d" for k
      using that claimed(4) unfolding claimed(8) other_claimed_iff [OF ok] by blast
    have "one_claim ?d" if one: "one_claim d"
      unfolding one_claim_def
    proof (intro allI impI, elim conjE)
      fix k k' c
      assume "(k, c) \<in> claims_in ?d" and "(k', c) \<in> claims_in ?d"
      then have "(k, c) = (key, ?cid) \<or> (k, c) \<in> claims_in d" "(k', c) = (key, ?cid) \<or> (k', c) \<in> claims_in d"
        using sub by blast+
      then show "k = k'" using only one unfolding one_claim_def by (elim disjE) auto
    qed
    moreover have "db_work d' = db_work ?d" "db_cases d' = db_cases d" unfolding d' by (simp_all add: audit_work_def)
    moreover from this have "claims_in d' = claims_in ?d" by (simp add: claims_in_def)
    moreover have "same_but SCHEDULING d d'" unfolding d' by (simp add: same_but_iff audit_work_def)
    ultimately show ?thesis
      by (simp add: one_claim_def cases_kept_def option.rel_refl work_ok_cong [of d' ?d])
  qed
  then show "work_ok d'" "same_but SCHEDULING d d'" "cases_kept d d'" "one_claim d \<Longrightarrow> one_claim d'" by auto
qed

section \<open>The transactions of the resume\<close>

lemma stop_work_worked:
  assumes "worked d d1" and "db_work d1 = db_work d" and "owned_work tenant d k now = Inr w"
  shows "worked d (stop_work k w st ev t d1)"
  unfolding stop_work_def Let_def
  by (intro worked_audit worked_save_owned [OF assms]) simp

lemma block_and_escalate_worked:
  assumes "block_and_escalate digest k w cid reason t d1 = Inr d'" and "worked d d1"
    and "db_work d1 = db_work d" and "owned_work tenant d k now = Inr w"
  shows "worked d d'"
  using assms(1) worked_scheduled [OF stop_work_worked [OF assms(2-4)] escalate_in_scheduled]
  by (auto simp: block_and_escalate_def bindE_Inr_iff)

text \<open>The guard of a resume either stops the work or has written nothing.\<close>

lemma current_snapshot_worked:
  assumes "current_snapshot digest tenant d k now later = Inr (d', x)" and ok: "work_ok d"
  shows "worked d d'" and "x \<noteq> None \<Longrightarrow> d' = d \<and> owned_work tenant d k now = Inr (snd (the x))"
  using assms(1) worked_refl [OF ok]
  by (auto simp: current_snapshot_def bindE_Inr_iff split: if_splits
      intro: block_and_escalate_worked [OF _ worked_refl [OF ok] refl] stop_work_worked [OF worked_refl [OF ok] refl])

lemma note_recovery_claim_worked:
  "owned_work tenant d k now = Inr w \<Longrightarrow> work_ok d \<Longrightarrow> worked d (fst (note_recovery_claim k w t d))"
  by (auto simp: note_recovery_claim_def worked_refl intro!: worked_save_owned [OF worked_refl refl])

lemma begin_recovery_worked [work_laws]:
  assumes "begin_recovery digest tenant d k now later = Inr (d', x)" and ok: "work_ok d"
  shows "worked d d'"
  using assms(1) current_snapshot_worked [OF _ ok] note_recovery_claim_worked [OF _ ok]
  by (auto simp: begin_recovery_def bindE_Inr_iff split: option.splits prod.splits) (metis fst_conv snd_conv option.distinct(1) option.sel)+

lemma note_progress_worked [work_laws]:
  assumes "note_progress digest tenant d k before now later = Inr (d', x)" and ok: "work_ok d"
  shows "worked d d'"
proof -
  obtain d1 cur where c: "current_snapshot digest tenant d k now later = Inr (d1, cur)"
    using assms(1) by (auto simp: note_progress_def)
  note kept = current_snapshot_worked [OF c ok]
  show ?thesis
    using assms(1) kept
    by (cases cur) (auto simp: note_progress_def c with_progress_def intro!: worked_save_owned [OF worked_refl [OF ok] refl])
qed

lemma finish_recovery_worked [work_laws]:
  assumes "finish_recovery digest tenant d k before reads effects progressed blocked now later = Inr (d', x)"
    and ok: "work_ok d"
  shows "worked d d'"
proof -
  obtain d1 cur where c: "current_snapshot digest tenant d k now later = Inr (d1, cur)"
    using assms(1) by (auto simp: finish_recovery_def)
  note kept = current_snapshot_worked [OF c ok]
  show ?thesis
    using assms(1) kept
    by (cases cur) (auto simp: finish_recovery_def c Let_def intro!: worked_save_owned [OF worked_refl [OF ok] refl])
qed

lemma begin_effect_recovery_worked [work_laws]:
  assumes "begin_effect_recovery digest tenant d k now = Inr (d', x)" and ok: "work_ok d"
  shows "worked d d'"
proof -
  obtain d1 cur where c: "guard_current digest tenant d k now = Inr (d1, cur)"
    using assms(1) by (auto simp: begin_effect_recovery_def)
  note kept = guard_current_worked [OF c ok]
  show ?thesis
    using assms(1) kept note_recovery_claim_worked [OF _ ok]
    by (cases cur) (auto simp: begin_effect_recovery_def c bindE_Inr_iff, metis fst_conv)
qed

lemma note_effect_progress_worked [work_laws]:
  assumes "note_effect_progress digest tenant d k before now = Inr (d', x)" and ok: "work_ok d"
  shows "worked d d'"
proof -
  obtain d1 cur where c: "guard_current digest tenant d k now = Inr (d1, cur)"
    using assms(1) by (auto simp: note_effect_progress_def)
  note kept = guard_current_worked [OF c ok]
  show ?thesis
    using assms(1) kept
    by (cases cur) (auto simp: note_effect_progress_def c bindE_Inr_iff Let_def with_progress_def
        intro!: worked_save_owned [OF worked_refl [OF ok] refl])
qed

lemma finish_effect_recovery_worked [work_laws]:
  assumes "finish_effect_recovery digest tenant d k before effects progressed now = Inr (d', x)"
    and ok: "work_ok d"
  shows "worked d d'"
proof -
  obtain d1 cur where c: "guard_current digest tenant d k now = Inr (d1, cur)"
    using assms(1) by (auto simp: finish_effect_recovery_def)
  note kept = guard_current_worked [OF c ok]
  show ?thesis
    using assms(1) kept
    by (cases cur) (auto simp: finish_effect_recovery_def c bindE_Inr_iff Let_def
        intro!: worked_save_owned [OF worked_refl [OF ok] refl])
qed

lemma start_once_worked [work_laws]:
  "start_once tenant d k cid now = Inr (d', x) \<Longrightarrow> work_ok d \<Longrightarrow> worked d d'"
  by (auto simp: start_once_def bindE_Inr_iff Let_def intro!: worked_audit worked_save_owned [OF worked_refl refl])

lemma stamp_before_worked [work_laws]:
  "stamp_before tenant d k cid before now = Inr d' \<Longrightarrow> work_ok d \<Longrightarrow> worked d d'"
  by (auto simp: stamp_before_def bindE_Inr_iff intro!: worked_save_owned [OF worked_refl refl])

lemma block_claimed_worked [work_laws]:
  "block_claimed digest tenant d k cid reason now = Inr d' \<Longrightarrow> work_ok d \<Longrightarrow> worked d d'"
  by (auto simp: block_claimed_def bindE_Inr_iff intro: block_and_escalate_worked [OF _ worked_refl refl])

end
