(* ===== verification/CaseInvariant.thy ===== *)
theory CaseInvariant
  imports WorkInvariant
begin

text \<open>
  The life of a Case: every transaction but the verified closure leaves a Case row as it is, or moves
  an open Case to a strictly later revision without touching what binds it to its tenant, simulation
  and grant, and without making it terminal. A terminal Case is never written again. The tool calls of a Case are exactly the ones its budget
  has paid for.
\<close>

section \<open>Moves of a Case\<close>

definition same_binding :: "case_row \<Rightarrow> case_row \<Rightarrow> bool" where
  "same_binding r r' = (cr_tenant_id r' = cr_tenant_id r \<and> cr_simulation_id r' = cr_simulation_id r
     \<and> cr_grant_hash r' = cr_grant_hash r \<and> cr_max_tool_calls r' = cr_max_tool_calls r
     \<and> (cr_payload r')\<lparr> case_lookup_retry_after := None \<rparr> = (cr_payload r)\<lparr> case_lookup_retry_after := None \<rparr>)"

definition case_moved :: "case_row \<Rightarrow> case_row \<Rightarrow> bool" where
  "case_moved r r' = (r' = r \<or> (\<not> is_terminal (cr_status r) \<and> cr_updated_at r < cr_updated_at r'
     \<and> same_binding r r'
     \<and> cr_status r' \<in> {cr_status r, Case_INVESTIGATING, Case_WAITING, Case_ESCALATED}
     \<and> (cr_used_tool_calls r' = cr_used_tool_calls r
        \<or> (cr_used_tool_calls r < cr_used_tool_calls r' \<and> cr_used_tool_calls r' \<le> cr_max_tool_calls r))))"

definition fresh_case :: "case_row \<Rightarrow> bool" where
  "fresh_case r = (cr_status r = Case_NEW \<and> cr_used_tool_calls r = 0 \<and> 0 \<le> cr_max_tool_calls r)"

definition cases_moved :: "db \<Rightarrow> db \<Rightarrow> bool" where
  "cases_moved d d' = (\<forall>k. case tget k (db_cases d) of
     Some r \<Rightarrow> (\<exists>r'. tget k (db_cases d') = Some r' \<and> case_moved r r')
   | None \<Rightarrow> (case tget k (db_cases d') of None \<Rightarrow> True | Some r' \<Rightarrow> fresh_case r'))"

named_theorems case_laws

lemma same_binding_refl [simp]: "same_binding r r"
  by (simp add: same_binding_def)

lemma same_binding_trans: "same_binding a b \<Longrightarrow> same_binding b c \<Longrightarrow> same_binding a c"
  by (simp add: same_binding_def)

lemma same_binding_max: "same_binding a b \<Longrightarrow> cr_max_tool_calls b = cr_max_tool_calls a"
  by (simp add: same_binding_def)

lemma case_moved_refl [simp]: "case_moved r r"
  by (simp add: case_moved_def)

lemma case_moved_trans:
  assumes "case_moved a b" and "case_moved b c"
  shows "case_moved a c"
proof (cases "b = a \<or> c = b")
  case True
  with assms show ?thesis by auto
next
  case False
  with assms have m: "\<not> is_terminal (cr_status a)" "cr_updated_at a < cr_updated_at b" "same_binding a b"
      "cr_updated_at b < cr_updated_at c" "same_binding b c"
    and s: "cr_status b \<in> {cr_status a, Case_INVESTIGATING, Case_WAITING, Case_ESCALATED}"
      "cr_status c \<in> {cr_status b, Case_INVESTIGATING, Case_WAITING, Case_ESCALATED}"
    and u: "cr_used_tool_calls b = cr_used_tool_calls a \<or> (cr_used_tool_calls a < cr_used_tool_calls b
        \<and> cr_used_tool_calls b \<le> cr_max_tool_calls a)"
      "cr_used_tool_calls c = cr_used_tool_calls b \<or> (cr_used_tool_calls b < cr_used_tool_calls c
        \<and> cr_used_tool_calls c \<le> cr_max_tool_calls b)"
    by (simp_all add: case_moved_def)
  have "cr_used_tool_calls c = cr_used_tool_calls a \<or> (cr_used_tool_calls a < cr_used_tool_calls c
        \<and> cr_used_tool_calls c \<le> cr_max_tool_calls a)"
    using u same_binding_max [OF m(3)] by linarith
  moreover have "cr_status c \<in> {cr_status a, Case_INVESTIGATING, Case_WAITING, Case_ESCALATED}"
    using s by (elim insertE emptyE) simp_all
  ultimately show ?thesis
    using m same_binding_trans [OF m(3,5)] less_trans [OF m(2,4)] unfolding case_moved_def by blast
qed

lemma case_kept_moved: "case_kept r r' \<Longrightarrow> case_moved r r'"
  by (auto simp: case_kept_def case_moved_def same_binding_def)

lemma cases_kept_moved:
  assumes "cases_kept d d'"
  shows "cases_moved d d'"
  unfolding cases_moved_def
proof
  fix k
  have "rel_option case_kept (tget k (db_cases d)) (tget k (db_cases d'))"
    using assms by (simp add: cases_kept_def)
  then show "case tget k (db_cases d) of
     Some r \<Rightarrow> (\<exists>r'. tget k (db_cases d') = Some r' \<and> case_moved r r')
   | None \<Rightarrow> (case tget k (db_cases d') of None \<Rightarrow> True | Some r' \<Rightarrow> fresh_case r')"
    by (cases "tget k (db_cases d)"; cases "tget k (db_cases d')") (auto intro: case_kept_moved)
qed

lemma cases_moved_same: "db_cases d' = db_cases d \<Longrightarrow> cases_moved d d'"
  by (rule cases_kept_moved) (simp add: cases_kept_def option.rel_refl)

lemma cases_moved_eq: "cases_moved a b \<Longrightarrow> db_cases c = db_cases b \<Longrightarrow> cases_moved a c"
  unfolding cases_moved_def by metis

lemma cases_moved_read [simp]: "cases_moved a b \<Longrightarrow> cases_moved a (b\<lparr> db_read_recovery := x \<rparr>)"
  by (erule cases_moved_eq) simp

text \<open>One row is moved, and then the scheduling may escalate.\<close>

lemma cases_moved_put:
  assumes "tget cid (db_cases d) = Some r" and "case_moved r r'"
    and "db_cases d1 = tput cid r' (db_cases d)"
  shows "cases_moved d d1"
  using assms by (auto simp: cases_moved_def split: option.split)

lemma cases_moved_update:
  "tget cid (db_cases d) = Some r \<Longrightarrow> case_moved r r'
   \<Longrightarrow> cases_moved d (d\<lparr> db_cases := tput cid r' (db_cases d) \<rparr>)"
  by (rule cases_moved_put) simp_all

lemma cases_moved_kept:
  assumes "cases_moved a b" and kept: "cases_kept b c" and same: "\<And>k. tget k (db_cases a) = None \<Longrightarrow> tget k (db_cases b) = None"
  shows "cases_moved a c"
  unfolding cases_moved_def
proof
  fix k
  have rel: "rel_option case_kept (tget k (db_cases b)) (tget k (db_cases c))"
    using kept by (simp add: cases_kept_def)
  have ab: "case tget k (db_cases a) of
     Some r \<Rightarrow> (\<exists>r'. tget k (db_cases b) = Some r' \<and> case_moved r r')
   | None \<Rightarrow> tget k (db_cases b) = None"
    using spec [OF assms(1) [unfolded cases_moved_def], of k] same [of k]
    by (cases "tget k (db_cases a)") auto
  show "case tget k (db_cases a) of
     Some r \<Rightarrow> (\<exists>r'. tget k (db_cases c) = Some r' \<and> case_moved r r')
   | None \<Rightarrow> (case tget k (db_cases c) of None \<Rightarrow> True | Some r' \<Rightarrow> fresh_case r')"
    using ab rel
    by (cases "tget k (db_cases a)"; cases "tget k (db_cases c)")
      (auto simp: option_rel_Some2 intro: case_moved_trans case_kept_moved)
qed

lemma put_then_kept:
  assumes "tget cid (db_cases d) = Some r" and "case_moved r r'"
    and "db_cases d1 = tput cid r' (db_cases d)" and "cases_kept d1 d2"
  shows "cases_moved d d2"
  by (rule cases_moved_kept [OF cases_moved_put [OF assms(1-3)] assms(4)])
    (use assms(1,3) in \<open>auto split: if_splits\<close>)

lemma tget_then_kept:
  assumes "tget cid (db_cases d) = Some r" and "case_moved r r'"
    and at: "\<And>k. tget k (db_cases d1) = (if k = cid then Some r' else tget k (db_cases d))" and "cases_kept d1 d2"
  shows "cases_moved d d2"
proof (rule cases_moved_kept [OF _ assms(4)])
  show "cases_moved d d1" using assms(1,2) by (auto simp: cases_moved_def at split: option.split)
  show "tget k (db_cases d1) = None" if "tget k (db_cases d) = None" for k
    using that assms(1) by (auto simp: at)
qed

lemma worked_cases: "worked d d' \<Longrightarrow> cases_moved d d'"
  by (simp add: worked_def cases_kept_moved)

section \<open>The writers of Case rows\<close>

lemma case_row_of_Inr [simp]:
  "case_row_of tenant d cid = Inr r \<longleftrightarrow> tget cid (db_cases d) = Some r \<and> cr_tenant_id r = tenant"
  by (auto simp: case_row_of_def split: option.splits if_splits)

lemma lock_case_Inr [simp]:
  "lock_case e tenant d cid = Inr r \<longleftrightarrow> tget cid (db_cases d) = Some r \<and> cr_tenant_id r = tenant"
  by (auto simp: lock_case_def case_row_of_def split: option.splits if_splits)

lemma lock_work_case_Inr [simp]:
  "lock_work_case tenant d cid = Inr r \<longleftrightarrow> tget cid (db_cases d) = Some r \<and> cr_tenant_id r = tenant"
  by (auto simp: lock_work_case_def case_row_of_def split: option.splits if_splits)

lemma the_case_Inr [simp]: "the_case d cid = Inr r \<longleftrightarrow> tget cid (db_cases d) = Some r"
  by (simp add: the_case_def)

lemma revision_moved:
  assumes "\<not> is_terminal (cr_status r)" and "cr_updated_at r < t"
    and "s \<in> {cr_status r, Case_INVESTIGATING, Case_WAITING, Case_ESCALATED}"
  shows "case_moved r (r\<lparr> cr_status := s, cr_updated_at := t \<rparr>)"
  using assms by (simp add: case_moved_def same_binding_def)

lemma create_case_moved [case_laws]:
  "create_case token_hash tenant d c cred = Inr (d', x) \<Longrightarrow> case_valid c \<Longrightarrow> cases_moved d d'"
  by (auto simp: create_case_def bindE_Inr_iff cases_moved_def fresh_case_def case_valid_def
      case_budget_valid_def
      split: option.splits if_splits)

lemma reserved_moved: "can_reserve r \<Longrightarrow> case_moved r (reserved_row now r)"
  by (auto simp: can_reserve_def reserved_row_def case_moved_def same_binding_def)

lemma reserve_call_Inr:
  assumes "reserve_call tenant d cid tool query p t1 t2 call_id = Inr (d', x)"
  obtains row where "tget cid (db_cases d) = Some row" "cr_tenant_id row = tenant" "can_reserve row"
    "tget call_id (db_calls d) = None"
    "db_cases d' = tput cid (reserved_row t2 row) (db_cases d)"
    "db_calls d' = tput call_id \<lparr> cl_dispatch_correlation_id = Some call_id, cl_case_id = cid,
      cl_sequence = cr_used_tool_calls row + 1, cl_tool = tool, cl_request = query,
      cl_state = Call_DISPATCHED, cl_observation_id = None \<rparr> (db_calls d)"
  using assms by (auto simp: reserve_call_def bindE_Inr_iff Let_def put_case_def reserved_row_def split: if_splits)

lemma reserve_call_moved [case_laws]:
  assumes "reserve_call tenant d cid tool query p t1 t2 call_id = Inr (d', x)"
  shows "cases_moved d d'"
  using assms by (cases rule: reserve_call_Inr) (auto intro: cases_moved_put reserved_moved)

lemma paused_moved:
  "\<not> is_terminal (cr_status r) \<Longrightarrow> s \<in> {Case_WAITING, Case_ESCALATED} \<Longrightarrow> case_moved r (paused_row s now r)"
  unfolding paused_row_def by (rule revision_moved) auto

lemma pause_moved [case_laws]: "pause tenant d cid s now = Inr (d', x) \<Longrightarrow> cases_moved d d'"
  by (auto simp: pause_def bindE_Inr_iff Let_def put_case_def intro!: cases_moved_update paused_moved split: if_splits)

lemma record_call_moved [case_laws]:
  assumes "record_call jh oh tenant d cid call_id o1 recovery now = Inr (d', refs)"
  shows "cases_moved d d'"
  using assms
proof (cases rule: record_call_Inr)
  case (1 row call r)
  from 1(13) show ?thesis
  proof (elim disjE exE conjE)
    assume "d' = d" then show ?thesis by (simp add: cases_moved_same)
  next
    fix c es
    let ?row = "row\<lparr> cr_updated_at := next_update_time now (cr_updated_at row) \<rparr>"
    assume "publish_all cid (ob_observation_id o1) call_id es ((put_case cid ?row d)
      \<lparr> db_calls := tput call_id (call\<lparr> cl_observation_id := Some (ob_observation_id o1),
          cl_state := Call_OBSERVED \<rparr>) (db_calls d) \<rparr>) = Inr d'"
    from publish_all_frame [OF this] have "db_cases d' = tput cid ?row (db_cases d)"
      by (simp add: same_but_iff put_case_def)
    moreover have "case_moved row ?row"
      using 1(2) by (simp add: case_moved_def same_binding_def)
    ultimately show ?thesis using 1(1) by (auto intro: cases_moved_put)
  qed
qed

lemma recover_publication_moved:
  "recover_publication jh oh tenant d cid call_id call now = Inr (d', s, refs, oid) \<Longrightarrow> cases_moved d d'"
  by (auto simp: recover_publication_def Let_def bindE_Inr_iff cases_moved_same dest!: record_call_moved
      split: if_splits list.splits sum.splits prod.splits)

lemma recover_read_moved [case_laws]:
  "recover_read jh oh tenant d cid call_id now attempted uuid = Inr (d', x) \<Longrightarrow> cases_moved d d'"
  by (auto simp: recover_read_def bindE_Inr_iff Let_def dest!: recover_publication_moved
      split: if_splits option.splits)

section \<open>The writers of the ledger\<close>

text \<open>The compare-and-swap publishes, and the publication only schedules.\<close>

definition published :: "db \<Rightarrow> db \<Rightarrow> bool" where
  "published d d' = (same_but LEDGER d d' \<and> cases_kept d d' \<and> queue_kept d d')"

lemma synchronize_effect_published:
  assumes "synchronize_effect digest (write_effect k r d) l = Inr d'" and ok: "work_ok d"
  shows "published d d'"
proof -
  have ok': "work_ok (write_effect k r d)" by (rule write_effect_work_ok [OF ok])
  show ?thesis
    using assms(1) ok'
  proof (cases rule: synchronize_effect_Inr)
    case (1 d1 st)
    have w: "worked (write_effect k r d) d1" by (rule scheduled_worked [OF 1(1) ok'])
    have "same_but LEDGER d d'"
      using scheduled_same [OF 1(1)] unfolding 1(2) by (simp add: same_but_iff write_effect_def)
    moreover have "cases_kept d d'"
      using w unfolding 1(2) worked_def cases_kept_def by (simp add: write_effect_def)
    moreover have "queue_kept d d'"
      using w unfolding 1(2) worked_def queue_kept_def claims_in_def
      by (simp add: write_effect_def work_ok_def)
    ultimately show ?thesis by (simp add: published_def)
  qed
qed

lemma cas_effect_published:
  assumes "cas_effect digest e d eid expected l = Inr d'" and ok: "work_ok d"
  shows "published d d'"
  using assms by (auto simp: cas_effect_def intro: synchronize_effect_published split: option.splits if_splits)

lemma queue_kept_eq: "queue_kept a b \<Longrightarrow> db_work c = db_work b \<Longrightarrow> queue_kept a c"
  unfolding queue_kept_def claims_in_def work_ok_def by simp

lemma published_log: "published d d1 \<Longrightarrow> cases_moved d (log_authorization a d1) \<and> queue_kept d (log_authorization a d1)"
  by (auto simp: published_def log_authorization_def intro: queue_kept_eq cases_moved_eq cases_kept_moved)

lemma dispatch_prepared_moved [case_laws, work_laws]:
  assumes "dispatch_prepared digest tenant d cap now claim audit_id = Inr (d', l)" and ok: "work_ok d"
  shows "cases_moved d d' \<and> queue_kept d d'"
  using assms(1)
proof (cases rule: dispatch_prepared_Inr)
  case (1 c cap_row i eid row d1)
  from published_log [OF cas_effect_published [OF 1(10) ok]] show ?thesis unfolding 1(11) .
qed

lemma transition_moved [case_laws, work_laws]:
  assumes "transition digest tenant d eid expected status now receipt failure audit_id = Inr (d', l)"
    and ok: "work_ok d"
  shows "cases_moved d d' \<and> queue_kept d d'"
  using assms(1)
proof (cases rule: transition_Inr)
  case (1 row d1 i)
  from published_log [OF cas_effect_published [OF 1(6) ok]] show ?thesis unfolding 1(7) .
qed

lemma prepare_moved [case_laws, work_laws]:
  assumes "prepare digest tenant d cap now wall correlation audit_id = Inr (d', l, fresh)" and ok: "work_ok d"
  shows "cases_moved d d' \<and> queue_kept d d'"
  using assms(1)
proof (cases rule: prepare_Inr)
  case (old c cap_row i eid r)
  then show ?thesis by (simp add: cases_moved_same queue_kept_same [OF ok])
next
  case (new c cap_row i revision d3)
  let ?d2 = "use_capability (xc_capability_id cap) cap_row (effect_key digest cap)
      (put_case (xc_case_id cap) (c\<lparr> cr_updated_at := revision \<rparr>) d)"
  have c: "tget (xc_case_id cap) (db_cases d) = Some c" "\<not> is_terminal (cr_status c)"
    using new(1,2) by (auto simp: require_open_def)
  have tables: "db_cases ?d2 = tput (xc_case_id cap) (c\<lparr> cr_updated_at := revision \<rparr>) (db_cases d)"
      "db_work ?d2 = db_work d"
    by (simp_all add: use_capability_def put_case_def)
  have "work_ok ?d2" using ok tables(2) by (simp add: work_ok_def)
  from synchronize_effect_published [OF new(12) this]
  have kept: "cases_kept ?d2 d3" and queue: "queue_kept ?d2 d3" by (simp_all add: published_def)
  have "case_moved c (c\<lparr> cr_updated_at := revision \<rparr>)"
    using c(2) new(6) by (cases fresh) (simp_all add: case_moved_def same_binding_def)
  from put_then_kept [OF c(1) this tables(1) kept] have "cases_moved d d3" .
  moreover have "queue_kept d d3" using queue_kept_trans [OF queue_kept_same [OF ok tables(2)] queue] .
  ultimately show ?thesis
    unfolding new(13) log_authorization_def by (auto intro: queue_kept_eq cases_moved_eq)
qed

section \<open>The writers of the recovery\<close>

abbreviation RECOVERY :: "table set" where
  "RECOVERY \<equiv> {T_recovery_state, T_attempts, T_recovery_audit}"

lemmas recovery_steps = put_state_def put_attempt_def recovery_audit_def

lemma finish_same: "same_but RECOVERY d (finish policy d l st a claim now failure proof escalate)"
  by (simp add: finish_def Let_def recovery_steps same_but_iff)

lemma claim_recovery_frame [frame_laws]:
  "claim_recovery contract policy tenant d eid worker now uuid = Inr (d', x) \<Longrightarrow> same_but RECOVERY d d'"
  by (auto simp: claim_recovery_def bindE_Inr_iff Let_def recovery_steps abandon_def same_but_iff
      split: if_splits option.splits)

lemma persist_lookup_frame [frame_laws]:
  "persist_lookup digest contract tenant d claim identity r now = Inr d'
   \<Longrightarrow> same_but {T_attempts, T_recovery_audit} d d'"
  by (auto simp: persist_lookup_def bindE_Inr_iff Let_def recovery_steps same_but_iff split: if_splits)

lemma finish_resume_frame [frame_laws]:
  "finish_resume policy tenant d claim now = Inr (d', x) \<Longrightarrow> same_but RECOVERY d d'"
  by (auto simp: finish_resume_def bindE_Inr_iff intro: finish_same)

lemma published_finish:
  assumes "published d d1"
  shows "same_but (LEDGER \<union> RECOVERY) d (finish policy d1 l st a claim now failure proof escalate)"
    and "cases_moved d (finish policy d1 l st a claim now failure proof escalate)
      \<and> queue_kept d (finish policy d1 l st a claim now failure proof escalate)"
proof -
  let ?d = "finish policy d1 l st a claim now failure proof escalate"
  have tables: "same_but RECOVERY d1 ?d" by (rule finish_same)
  then show "same_but (LEDGER \<union> RECOVERY) d ?d"
    using assms by (auto simp: published_def intro: same_but_mono [OF same_but_trans])
  have "db_cases ?d = db_cases d1" "db_work ?d = db_work d1" using tables by (simp_all add: same_but_iff)
  then show "cases_moved d ?d \<and> queue_kept d ?d"
    using assms by (auto simp: published_def intro: queue_kept_eq cases_moved_eq cases_kept_moved)
qed

lemma recover_transition_moved:
  assumes "recover_transition digest contract policy tenant d claim now = Inr (d', l')" and ok: "work_ok d"
  shows "same_but (LEDGER \<union> RECOVERY) d d'" and "cases_moved d d' \<and> queue_kept d d'"
proof -
  have "same_but (LEDGER \<union> RECOVERY) d d' \<and> cases_moved d d' \<and> queue_kept d d'"
    using assms(1)
  proof (cases rule: recover_transition_Inr)
    case (1 row st a r pf identity cap i d1 st1)
    from published_finish [OF cas_effect_published [OF 1(12) ok]] show ?thesis unfolding 1(14) by blast
  qed
  then show "same_but (LEDGER \<union> RECOVERY) d d'" and "cases_moved d d' \<and> queue_kept d d'" by blast+
qed

declare recover_transition_moved(1) [frame_laws] recover_transition_moved(2) [case_laws, work_laws]

lemma published_refl: "work_ok d \<Longrightarrow> published d d"
  by (simp add: published_def queue_kept_same)

lemma finish_error_moved:
  assumes "finish_error digest policy tenant d claim now failure = Inr (d', l')" and ok: "work_ok d"
  shows "same_but (LEDGER \<union> RECOVERY) d d'" and "cases_moved d d' \<and> queue_kept d d'"
proof -
  obtain row st a where l: "locked tenant d (rcl_effect_id claim) = Inr (row, st)"
    and o: "owned_attempt d claim st now = Inr a"
    using assms by (auto simp: finish_error_def bindE_Inr_iff)
  note eqs = l o bindE_simps case_prod_conv Let_def
  have "\<exists>d1 l st1 failure escalate. published d d1 \<and> d' = finish policy d1 l st1 a claim now failure None escalate"
  proof (cases "led_status (eff_payload row) = rcl_source_status claim
      \<and> led_status (eff_payload row) \<in> set LOOKUP_ONLY")
    case False
    then have "d' = finish policy d (eff_payload row) st a claim now (Some failure) None
        (failure \<in> {Rf_LOOKUP_PROOF_CONFLICT, Rf_INVALID_LOOKUP_RECEIPT})"
      using assms(1) unfolding finish_error_def eqs if_not_P [OF False] by auto
    then show ?thesis using published_refl [OF ok] by blast
  next
    case True
    let ?l = "(eff_payload row)\<lparr> led_status := Eff_UNKNOWN, led_updated_at := now \<rparr>"
    from assms(1) obtain d1 st1 where
      "cas_effect digest (RecoveryError Rf_RECOVERY_STALE) d (rcl_effect_id claim) (led_status (eff_payload row)) ?l
        = Inr d1"
      and "d' = finish policy d1 ?l st1 a claim now (Some failure) None
        (failure \<in> {Rf_LOOKUP_PROOF_CONFLICT, Rf_INVALID_LOOKUP_RECEIPT})"
      unfolding finish_error_def eqs if_P [OF True] by (auto simp: bindE_Inr_iff)
    then show ?thesis using cas_effect_published [OF _ ok] by blast
  qed
  then obtain d1 l st1 f e where p: "published d d1" and d': "d' = finish policy d1 l st1 a claim now f None e"
    by blast
  show "same_but (LEDGER \<union> RECOVERY) d d'" unfolding d' by (rule published_finish(1) [OF p])
  show "cases_moved d d' \<and> queue_kept d d'" unfolding d' by (rule published_finish(2) [OF p])
qed

declare finish_error_moved(1) [frame_laws] finish_error_moved(2) [case_laws, work_laws]

section \<open>The writers of the orchestration\<close>

lemma pause_handoff_kept:
  assumes "pause_handoff digest d cid p now = Inr (d', x)" and ok: "work_ok d"
    and c: "tget cid (db_cases d) = Some c"
  shows "same_but SCHEDULING d d'" and "queue_kept d d'"
    and "cases_kept d d' \<or> (cr_status c = Case_WAITING
      \<and> cases_kept (put_case cid (c\<lparr> cr_status := Case_ESCALATED \<rparr>) d) d')"
proof -
  let ?d1 = "fst (state_in d cid (cr_tenant_id c))"
  let ?d2 = "put_case cid (c\<lparr> cr_status := Case_ESCALATED \<rparr>) ?d1"
  have w1: "worked d ?d1" by (rule worked_state_in [OF ok])
  have ok1: "work_ok ?d1" by (rule worked_ok [OF w1])
  have same2: "same_but SCHEDULING d ?d2"
    using w1 by (auto simp: worked_def same_but_iff put_case_def)
  have work2: "db_work ?d2 = db_work d" by (simp add: put_case_def)
  have ok2: "work_ok ?d2" using ok work2 by (simp add: work_ok_def)
  consider s where "create_work digest ?d1 cid s = Inr (d', x)"
    | s where "cr_status c = Case_WAITING" "create_work digest ?d2 cid s = Inr (d', x)"
    using assms(1) c by (auto simp: pause_handoff_def bindE_Inr_iff Let_def split_beta split: if_splits)
  then have "same_but SCHEDULING d d' \<and> queue_kept d d' \<and> (cases_kept d d' \<or> (cr_status c = Case_WAITING
      \<and> cases_kept (put_case cid (c\<lparr> cr_status := Case_ESCALATED \<rparr>) d) d'))"
  proof cases
    case 1
    from worked_scheduled [OF w1 create_work_scheduled [OF 1 ok1]] show ?thesis by (simp add: worked_def)
  next
    case 2
    note w2 = scheduled_worked [OF create_work_scheduled [OF 2(2) ok2] ok2]
    have "same_but SCHEDULING d d'" using w2 by (auto simp: worked_def intro: same_but_step [OF same2])
    moreover have "queue_kept d d'"
      using queue_kept_trans [OF queue_kept_same [OF ok work2]] w2 by (simp add: worked_def)
    moreover have "cases_kept (put_case cid (c\<lparr> cr_status := Case_ESCALATED \<rparr>) d) d'"
      using w2 by (simp add: worked_def cases_kept_def put_case_def)
    ultimately show ?thesis using 2(1) by blast
  qed
  then show "same_but SCHEDULING d d'" and "queue_kept d d'"
    and "cases_kept d d' \<or> (cr_status c = Case_WAITING
      \<and> cases_kept (put_case cid (c\<lparr> cr_status := Case_ESCALATED \<rparr>) d) d')" by blast+
qed

lemma pause_if_current_kept:
  assumes "pause_if_current digest tenant d cid s p orchestration t1 t2 t3 = Inr (d', x)" and ok: "work_ok d"
  shows "same_but SCHEDULING d d'" and "cases_moved d d'" and "queue_kept d d'"
proof -
  obtain conditions u row where e: "execution_conditions cid tenant p = Inr conditions"
      "work_fence tenant d cid (Some p) t1 = Inr u" "case_row_of tenant d cid = Inr row"
    using assms(1) by (auto simp: pause_if_current_def bindE_Inr_iff)
  note eqs = e bindE_simps Let_def
  have "tget cid (db_cases d) = Some row" using e(3) by simp
  moreover have "can_pause row" "s \<in> {Case_WAITING, Case_ESCALATED}"
    and d': "case orchestration of None \<Rightarrow> d' = put_case cid (paused_row s t2 row) d
      | Some r \<Rightarrow> (\<exists>y. pause_handoff digest (put_case cid (paused_row s t2 row) d) cid r t3 = Inr (d', y))"
    using assms(1) unfolding pause_if_current_def eqs
    by (auto simp: bindE_Inr_iff split: option.splits)
  ultimately have row: "tget cid (db_cases d) = Some row" "can_pause row" "s \<in> {Case_WAITING, Case_ESCALATED}"
    by blast+
  let ?r = "paused_row s t2 row" and ?d = "put_case cid (paused_row s t2 row) d"
  have open_row: "\<not> is_terminal (cr_status row)" using row(2) by (auto simp: can_pause_def)
  have moved: "case_moved row ?r" by (rule paused_moved [OF open_row row(3)])
  have tables: "db_cases ?d = tput cid ?r (db_cases d)" "db_work ?d = db_work d" "same_but SCHEDULING d ?d"
    by (simp_all add: put_case_def same_but_iff)
  have ok1: "work_ok ?d" using ok tables(2) by (simp add: work_ok_def)
  have r: "tget cid (db_cases ?d) = Some ?r" by (simp add: tables(1))
  have escalated: "case_moved row (?r\<lparr> cr_status := Case_ESCALATED \<rparr>)"
    using open_row by (simp add: paused_row_def case_moved_def same_binding_def)
  have put2: "db_cases (put_case cid (?r\<lparr> cr_status := Case_ESCALATED \<rparr>) ?d)
    = tput cid (?r\<lparr> cr_status := Case_ESCALATED \<rparr>) (db_cases ?d)" by (simp add: put_case_def)
  have "same_but SCHEDULING d d' \<and> cases_moved d d' \<and> queue_kept d d'"
  proof (cases orchestration)
    case None
    then show ?thesis
      using d' tables cases_moved_put [OF row(1) moved tables(1)] queue_kept_same [OF ok tables(2)] by simp
  next
    case (Some p)
    with d' obtain y where h: "pause_handoff digest ?d cid p t3 = Inr (d', y)" by auto
    note kept = pause_handoff_kept [OF h ok1 r]
    from kept(3) have "cases_moved d d'"
    proof (elim disjE conjE)
      assume "cases_kept ?d d'"
      then show ?thesis by (rule put_then_kept [OF row(1) moved tables(1)])
    next
      assume "cases_kept (put_case cid (?r\<lparr> cr_status := Case_ESCALATED \<rparr>) ?d) d'"
      then show ?thesis
        by (rule tget_then_kept [OF row(1) escalated, rotated]) (simp add: put2 tables(1))
    qed
    then show ?thesis
      using kept(1,2) tables(3) queue_kept_trans [OF queue_kept_same [OF ok tables(2)]]
      by (auto intro: same_but_step)
  qed
  then show "same_but SCHEDULING d d'" and "cases_moved d d'" and "queue_kept d d'" by blast+
qed

declare pause_if_current_kept(1) [frame_laws] pause_if_current_kept(2) [case_laws] pause_if_current_kept(3) [work_laws]

lemma resumed_moved: "\<not> is_terminal (cr_status r) \<Longrightarrow> case_moved r (resumed_row now r)"
  by (simp add: case_moved_def resumed_row_def same_binding_def)

text \<open>A resume that goes through has consumed one cycle of its budget.\<close>

lemma resume_case_Inr:
  assumes "resume_case digest tenant d k cid recovery current now uuid = Inr (d', x)" and ok: "work_ok d"
  obtains (stopped) "x = None" "worked d d'"
  | (resumed) c w s d2 verification where "tget cid (db_cases d) = Some c" "\<not> is_terminal (cr_status c)"
      "owned_work tenant d k now = Inr w" "wi_resumed_at w = None" "\<not> stale_snapshot c w"
      "\<not> trigger_not_eligible c w now" "worked d d2" "db_work d2 = db_work d" "db_cases d2 = db_cases d"
      "verification = (wi_work_type w = Work_VERIFICATION_REQUIRED)"
      "resume_block s verification (rrr_prepared_blocked recovery) = None"
      "x = Some (w\<lparr> wi_resumed_at := Some now, wi_run_id := Some uuid,
         wi_resume_lease_token := Some (wc_lease_token k) \<rparr>)"
      "d' = audit_work (the x) We_RESUMED now (Some (wi_status w)) (Some (wc_worker_id k))
         (save_state cid (counted_resume verification (wi_work_item_id w) s)
           (save_work (wc_work_item_id k) (the x) (put_case cid (resumed_row now c) d2)))"
proof -
  obtain c where c: "lock_work_case tenant d cid = Inr c"
    using assms(1) by (auto simp: resume_case_def)
  note eqs = c bindE_simps Let_def
  show thesis
  proof (cases "is_terminal (cr_status c)")
    case True
    then show thesis
      using assms unfolding resume_case_def eqs if_P [OF True]
      by (auto intro!: stopped intro: scheduled_worked [OF cancel_terminal_work_scheduled])
  next
    case False
    obtain w where w: "owned_work tenant d k now = Inr w"
      using assms(1) unfolding resume_case_def eqs if_not_P [OF False] by (rule bindE_InrE)
    note here = worked_refl [OF ok]
    show thesis
    proof (cases "wi_resumed_at w \<noteq> None \<or> stale_snapshot c w")
      case True
      then show thesis
        using assms(1) here unfolding resume_case_def eqs if_not_P [OF False] w
        by (auto simp: bindE_Inr_iff split: if_splits
            intro!: stopped intro: block_and_escalate_worked [OF _ here refl w] stop_work_worked [OF here refl w])
    next
      case fresh: False
      let ?v = "wi_work_type w = Work_VERIFICATION_REQUIRED"
      define d1 s0 where "d1 = fst (state_in d cid (cr_tenant_id c))" and "s0 = snd (state_in d cid (cr_tenant_id c))"
      define reset where "reset = (rrr_semantic_progress recovery \<or> progress_changed s0 ''2'' current)"
      define s1 where "s1 = (if reset then s0\<lparr> cos_no_progress_count := 0 \<rparr> else s0)"
      define d2 where "d2 = (if reset then save_state cid s1 d1 else d1)"
      have st: "state_in d cid (cr_tenant_id c) = (d1, s0)" by (simp add: d1_def s0_def)
      have w2: "worked d d2" and tables: "db_work d2 = db_work d" "db_cases d2 = db_cases d"
        using worked_state_in [OF ok] worked_state
        by (simp_all add: d2_def d1_def save_state_def [of cid s1, unfolded d1_def])
          (simp_all add: save_state_def)
      from fresh have f: "wi_resumed_at w = None" "\<not> stale_snapshot c w" by simp_all
      have trig: "\<not> trigger_not_eligible c w now"
        using assms(1) f unfolding resume_case_def eqs if_not_P [OF False] w by (auto split: if_splits)
      note here2 = assms(1) [unfolded resume_case_def eqs if_not_P [OF False] w f(1) if_not_P [OF f(2)]
        if_not_P [OF trig] st case_prod_conv reset_def [symmetric] s1_def [symmetric] d2_def [symmetric]]
      show thesis
      proof (cases "resume_block s1 ?v (rrr_prepared_blocked recovery)")
        case (Some reason)
        then show thesis
          using here2 by (auto simp: bindE_Inr_iff intro!: stopped intro: block_and_escalate_worked [OF _ w2 tables(1) w])
      next
        case None
        show thesis
          by (rule resumed [of c w d2 ?v s1]) (use c False w f trig w2 tables None here2 in auto)
      qed
    qed
  qed
qed

lemma resume_case_kept:
  assumes "resume_case digest tenant d k cid recovery current now uuid = Inr (d', x)" and ok: "work_ok d"
  shows "same_but SCHEDULING d d'" and "cases_moved d d'" and "queue_kept d d'"
proof -
  have "same_but SCHEDULING d d' \<and> cases_moved d d' \<and> queue_kept d d'"
    using assms
  proof (cases rule: resume_case_Inr)
    case stopped
    then show ?thesis by (auto simp: worked_def intro: cases_kept_moved)
  next
    case (resumed c w s d2 verification)
    let ?d3 = "put_case cid (resumed_row now c) d2"
    have tables: "db_work ?d3 = db_work d" "db_cases ?d3 = tput cid (resumed_row now c) (db_cases d)"
      "same_but SCHEDULING d ?d3"
      using resumed(7-9) by (auto simp: put_case_def worked_def same_but_iff)
    have ok3: "work_ok ?d3" using ok tables(1) by (simp add: work_ok_def)
    have own: "owned_work tenant ?d3 k now = Inr w"
      using resumed(3) by (simp add: owned_work_def work_row_def tables(1))
    have w: "worked ?d3 d'"
      unfolding resumed(13) resumed(12)
      by (intro worked_audit worked_state worked_save_owned [OF worked_refl [OF ok3] refl own]) simp
    have "cases_moved d d'"
      using w put_then_kept [OF resumed(1) resumed_moved [OF resumed(2)] tables(2)] by (simp add: worked_def)
    then show ?thesis
      using w queue_kept_trans [OF queue_kept_same [OF ok tables(1)]]
      by (auto simp: worked_def intro: same_but_step [OF tables(3)])
  qed
  then show "same_but SCHEDULING d d'" and "cases_moved d d'" and "queue_kept d d'" by blast+
qed

declare resume_case_kept(1) [frame_laws] resume_case_kept(2) [case_laws] resume_case_kept(3) [work_laws]

lemma add_run_tables:
  "add_run run key d = Inr d' \<Longrightarrow> same_but {T_runs} d d'"
  by (auto simp: add_run_def bindE_Inr_iff same_but_iff split: option.splits if_splits)

lemma finish_run_kept:
  assumes "finish_run digest tenant d k cid before after report run now = Inr (d', x)" and ok: "work_ok d"
  shows "same_but (insert T_runs SCHEDULING) d d'" and "cases_moved d d'" and "queue_kept d d'"
proof -
  obtain c where c: "lock_work_case tenant d cid = Inr c"
    using assms(1) by (auto simp: finish_run_def)
  obtain w where w: "owned_work tenant d k now = Inr w"
    using assms(1) unfolding finish_run_def c bindE_simps by (rule bindE_InrE)
  let ?d1 = "fst (state_in d cid (cr_tenant_id c))"
  obtain s finished d4 where r: "add_run run (wi_work_item_id w) (audit_work finished We_COMPLETED now (Some (wi_status w))
        (Some (wc_worker_id k)) (save_work (wc_work_item_id k) finished (save_state cid s ?d1))) = Inr d4"
      "wi_work_item_id finished = wi_work_item_id w \<and> wi_case_id finished = wi_case_id w
        \<and> wi_tenant_id finished = wi_tenant_id w \<and> wi_work_type finished = wi_work_type w
        \<and> wi_source_ref finished = wi_source_ref w"
      "d' = d4 \<or> (\<exists>y. escalate_in digest d4 cid Why_NO_PROGRESS (wi_work_item_id w) now = Inr (d', y))"
    using assms(1) unfolding finish_run_def c w bindE_simps
    by (auto simp: Let_def split_beta bindE_Inr_iff split: if_splits)
  have "worked d (save_state cid s ?d1)" by (rule worked_state [OF worked_state_in [OF ok]])
  then have w3: "worked d (audit_work finished We_COMPLETED now (Some (wi_status w))
        (Some (wc_worker_id k)) (save_work (wc_work_item_id k) finished (save_state cid s ?d1)))" (is "worked d ?d3")
    by (intro worked_audit worked_save_owned [OF _ _ w r(2)]) (simp_all add: save_state_def)
  note same = add_run_tables [OF r(1)]
  have ok4: "work_ok d4" using worked_ok [OF w3] same by (simp add: same_but_iff work_ok_def)
  have w4: "worked d4 d'"
    using r(3) worked_refl [OF ok4] scheduled_worked [OF escalate_in_scheduled ok4] by blast
  have "same_but (insert T_runs SCHEDULING) d d4"
    using w3 same by (auto simp: worked_def intro: same_but_mono [OF same_but_trans])
  then have "same_but (insert T_runs SCHEDULING) d d'"
    using w4 by (auto simp: worked_def intro: same_but_step)
  moreover have "cases_kept d d4" "queue_kept d d4"
    using w3 same by (auto simp: worked_def cases_kept_def same_but_iff intro: queue_kept_eq)
  then have "cases_kept d d'" "queue_kept d d'"
    using w4 by (auto simp: worked_def intro: cases_kept_trans queue_kept_trans)
  ultimately show "same_but (insert T_runs SCHEDULING) d d'" and "cases_moved d d'" and "queue_kept d d'"
    by (auto intro: cases_kept_moved)
qed

declare finish_run_kept(1) [frame_laws] finish_run_kept(2) [case_laws] finish_run_kept(3) [work_laws]

lemma recheck_effect_worked [work_laws]:
  assumes "recheck_effect digest policy tenant d k after now later = Inr (d', x)" and ok: "work_ok d"
  shows "worked d d'"
proof -
  obtain d1 cur where g: "guard_current digest tenant d k now = Inr (d1, cur)"
    using assms(1) by (auto simp: recheck_effect_def)
  note kept = guard_current_worked [OF g ok]
  show ?thesis
  proof (cases cur)
    case None
    then show ?thesis using assms(1) kept(1) by (simp add: recheck_effect_def g)
  next
    case (Some w)
    then have d1: "d1 = d" and own: "owned_work tenant d k now = Inr w" using kept(2) by simp_all
    obtain c where c: "the_case d (wi_case_id w) = Inr c"
      using assms(1) unfolding recheck_effect_def g Some d1 bindE_simps case_prod_conv option.case Let_def
      by (rule bindE_InrE)
    obtain d2 s where st: "state_in d (wi_case_id w) (cr_tenant_id c) = (d2, s)" by fastforce
    have w2: "worked d d2" and t2: "db_work d2 = db_work d" using worked_state_in [OF ok] state_in_work st
      by (metis fst_conv)+
    have w3: "worked d (save_state cid s' d2)" for cid s' by (rule worked_state [OF w2])
    have t3: "db_work (save_state cid s' d2) = db_work d" for cid s' by (simp add: save_state_def t2)
    have fin: "worked d (audit_work i ev t before worker (save_work (wc_work_item_id k)
        ((rechecked after w)\<lparr> wi_status := st, wi_completed_at := ct, wi_lease_until := lu \<rparr>) (save_state cid s' d2)))"
      for i ev t before worker st ct lu cid s'
      by (intro worked_audit worked_save_owned [OF w3 t3 own]) (simp add: rechecked_def)
    have again: "worked d (audit_work i ev t before worker (save_work (wc_work_item_id k)
        (rearmed_claim at (rechecked after w)) (save_state cid s' d2)))" for i ev t before worker at cid s'
      by (intro worked_audit worked_save_owned [OF w3 t3 own]) (simp add: rechecked_def rearmed_claim_def)
    have blocked: "worked d dx" if "block_and_escalate digest k (rechecked after w) cid r t (save_state cid' s' d2) = Inr dx"
      for cid r t cid' s' dx
    proof -
      have "worked d (stop_work k (rechecked after w) Ws_BLOCKED We_BLOCKED t (save_state cid' s' d2))"
        unfolding stop_work_def Let_def
        by (intro worked_audit worked_save_owned [OF w3 t3 own]) (simp add: rechecked_def)
      with that show ?thesis
        by (auto simp: block_and_escalate_def bindE_Inr_iff intro: worked_scheduled escalate_in_scheduled)
    qed
    obtain before where b: "wi_progress_before w = Some before"
      using assms(1) unfolding recheck_effect_def g Some d1 bindE_simps case_prod_conv option.case Let_def c st
      by (cases "wi_progress_before w") simp_all
    show ?thesis
      using assms(1)
      unfolding recheck_effect_def g Some d1 bindE_simps case_prod_conv option.case Let_def c st b needE_simps
      by (auto simp: bindE_Inr_iff intro: blocked fin again
          worked_scheduled [OF fin effect_handoff_scheduled [OF _ worked_ok [OF fin]]]
          split: option.splits if_splits)
  qed
qed

section \<open>The recovery of a publication by a worker\<close>

lemma recover_if_owned_Inr:
  assumes "recover_if_owned jh oh tenant d cid call_id k now attempted work_now uuid = Inr (d', x)"
    and ok: "work_ok d"
  obtains d1 where "recover_read jh oh tenant d cid call_id now attempted uuid = Inr (d1, x)"
    and "same_but {T_work, T_orchestration_audit} d1 d'" and "queue_kept d d'"
proof -
  obtain c w d1 c1 where c: "lock_work_case tenant d cid = Inr c" and w: "owned_work tenant d k work_now = Inr w"
    and read: "recover_read jh oh tenant d cid call_id now attempted uuid = Inr (d1, x)"
    and d': "d' = d1 \<or> (\<exists>t reads. d' = audit_work (w\<lparr> wi_expected_case_revision := t, wi_recovery_reads := reads \<rparr>)
        We_RECOVERY_REBASED work_now (Some (wi_status w)) (Some (wc_worker_id k))
        (save_work (wc_work_item_id k) (w\<lparr> wi_expected_case_revision := t, wi_recovery_reads := reads \<rparr>) d1))"
    using assms(1) unfolding recover_if_owned_def
    by (auto simp: bindE_Inr_iff Let_def split: if_splits option.splits)
  have work: "db_work d1 = db_work d" using recover_read_frame [OF read] by (simp add: same_but_iff)
  have ok1: "work_ok d1" using ok work by (simp add: work_ok_def)
  have own: "owned_work tenant d1 k work_now = Inr w" using w work by (simp add: owned_work_def work_row_def)
  have "same_but {T_work, T_orchestration_audit} d1 d' \<and> queue_kept d1 d'"
    using d'
  proof (elim disjE exE)
    assume "d' = d1" then show ?thesis by (simp add: queue_kept_same [OF ok1])
  next
    fix t reads
    let ?w = "w\<lparr> wi_expected_case_revision := t, wi_recovery_reads := reads \<rparr>"
    assume d': "d' = audit_work ?w We_RECOVERY_REBASED work_now (Some (wi_status w)) (Some (wc_worker_id k))
        (save_work (wc_work_item_id k) ?w d1)"
    have "worked d1 d'"
      unfolding d' by (intro worked_audit worked_save_owned [OF worked_refl [OF ok1] refl own]) simp
    moreover have "same_but {T_work, T_orchestration_audit} d1 d'"
      using save_work_same [of d1] unfolding d' by (auto simp: same_but_iff audit_work_def)
    ultimately show ?thesis by (auto simp: worked_def)
  qed
  then show thesis using that [OF read] queue_kept_trans [OF queue_kept_same [OF ok work]] by blast
qed

lemma recover_if_owned_kept:
  assumes "recover_if_owned jh oh tenant d cid call_id k now attempted work_now uuid = Inr (d', x)"
    and ok: "work_ok d"
  shows "same_but (insert T_read_recovery (PUBLICATION \<union> {T_work, T_orchestration_audit})) d d'"
    and "cases_moved d d'" and "queue_kept d d'"
proof -
  obtain d1 where read: "recover_read jh oh tenant d cid call_id now attempted uuid = Inr (d1, x)"
    and same: "same_but {T_work, T_orchestration_audit} d1 d'" and kept: "queue_kept d d'"
    using assms by (rule recover_if_owned_Inr)
  show "same_but (insert T_read_recovery (PUBLICATION \<union> {T_work, T_orchestration_audit})) d d'"
    by (rule same_but_mono [OF same_but_trans [OF recover_read_frame [OF read] same]]) auto
  show "cases_moved d d'"
    by (rule cases_moved_eq [OF recover_read_moved [OF read]]) (use same in \<open>simp add: same_but_iff\<close>)
  show "queue_kept d d'" by (rule kept)
qed

declare recover_if_owned_kept(1) [frame_laws] recover_if_owned_kept(2) [case_laws]
  recover_if_owned_kept(3) [work_laws]

end
