(* ===== verification/ToolCapabilities.thy ===== *)
theory ToolCapabilities
  imports Extractor Hypotheses WorkModel
begin

text \<open>
  The static catalog of what each tool can produce (\<open>context/tool_capabilities.py\<close>), and the tools a
  verification requirement can be read with (\<open>orchestration/routing.py: VERIFICATION_TOOLS\<close>,
  \<open>registry/verification.py: verification_tools\<close> of a deployment without registry guard). The
  descriptions are left out.
\<close>

datatype tool_data_class = Dc_BUSINESS | Dc_BUSINESS_RULE | Dc_TOKENIZED_FINANCIAL_IDENTITY

datatype tool_risk = Risk_READ_ONLY

datatype estimate_class = Est_LOW | Est_MEDIUM

record tool_capability =
  tc_tool_name :: tool_name
  tc_produces_claim_types :: "claim_type list"
  tc_contributes_requirements :: "uncollected_claim_type list"
  tc_risk_class :: tool_risk
  tc_data_classification :: tool_data_class
  tc_estimated_cost_class :: estimate_class
  tc_estimated_latency_class :: estimate_class

fun TOOL_REQUIREMENTS :: "tool_name \<Rightarrow> uncollected_claim_type list" where
  "TOOL_REQUIREMENTS Tool_GUARANTEE = [Unc_REQUEST_ASSOCIATION, Unc_FUND_REQUEST_PROTOCOL_APPLICABILITY]"
| "TOOL_REQUIREMENTS Tool_TRACE = [Unc_REQUEST_ASSOCIATION]"
| "TOOL_REQUIREMENTS Tool_FUND = [Unc_REQUEST_ASSOCIATION]"
| "TOOL_REQUIREMENTS Tool_PAYMENT = [Unc_REQUEST_ASSOCIATION]"
| "TOOL_REQUIREMENTS Tool_CALLBACK = [Unc_CALLBACK_EVENT_ASSOCIATION]"
| "TOOL_REQUIREMENTS Tool_CALLBACK_RAW = [Unc_CALLBACK_EVENT_ASSOCIATION]"
| "TOOL_REQUIREMENTS Tool_MESSAGES = [Unc_CALLBACK_EVENT_ASSOCIATION]"
| "TOOL_REQUIREMENTS _ = []"

definition tool_capability_of :: "tool_name \<Rightarrow> claim_type list \<Rightarrow> tool_data_class \<Rightarrow> tool_capability" where
  "tool_capability_of tool cs classification = \<lparr> tc_tool_name = tool,
     tc_produces_claim_types = cs @ [Claim_SOURCE_LOOKUP_STATUS],
     tc_contributes_requirements = TOOL_REQUIREMENTS tool, tc_risk_class = Risk_READ_ONLY,
     tc_data_classification = classification, tc_estimated_cost_class = Est_LOW,
     tc_estimated_latency_class = Est_LOW \<rparr>"

definition TOOL_CATALOG :: "tool_capability list" where
  "TOOL_CATALOG = [
     tool_capability_of Tool_ASSET [Claim_ASSET_STATUS] Dc_BUSINESS,
     tool_capability_of Tool_GUARANTEE [Claim_GUARANTEE_STATUS, Claim_GUARANTEE_VERSION] Dc_BUSINESS,
     tool_capability_of Tool_FUND [Claim_FUND_BUSINESS_STATUS, Claim_LOAN_NO_PRESENT,
       Claim_LOAN_NOTE_REFERENCE] Dc_BUSINESS,
     tool_capability_of Tool_PAYMENT [Claim_PAYMENT_FINALITY, Claim_PAYMENT_TRANSACTION_ID,
       Claim_TRANSACTION_FUND_REQUEST_ID, Claim_PAYMENT_AMOUNT, Claim_PAYMENT_CURRENCY,
       Claim_PAYMENT_CUSTOMER_REF, Claim_PAYMENT_BENEFICIARY_REF, Claim_PAYMENT_ACCOUNT_REF]
       Dc_TOKENIZED_FINANCIAL_IDENTITY,
     tool_capability_of Tool_LOAN_NOTE [Claim_LOAN_NO_PRESENT, Claim_LOAN_NOTE_REFERENCE] Dc_BUSINESS,
     tool_capability_of Tool_CALLBACK [Claim_CALLBACK_GATEWAY_RECEIVED,
       Claim_CALLBACK_SIGNATURE_VERIFIED, Claim_CALLBACK_PROTOCOL_VERSION] Dc_BUSINESS,
     tool_capability_of Tool_CALLBACK_RAW [Claim_CALLBACK_GATEWAY_RECEIVED,
       Claim_CALLBACK_SIGNATURE_VERIFIED, Claim_CALLBACK_PROTOCOL_VERSION] Dc_BUSINESS,
     tool_capability_of Tool_MESSAGES [Claim_MESSAGE_CONSUME_STATUS, Claim_MESSAGE_DLQ,
       Claim_MESSAGE_ERROR_CODE, Claim_MESSAGE_ERROR_FIELD, Claim_MESSAGE_EXPECTED_FIELD_TYPE,
       Claim_MESSAGE_ACTUAL_FIELD_TYPE] Dc_BUSINESS,
     tool_capability_of Tool_ACCOUNTING [Claim_ACCOUNTING_ENTRY_PRESENT] Dc_BUSINESS,
     tool_capability_of Tool_TRACE [Claim_REQUEST_SENT, Claim_HTTP_RESPONSE_STATUS] Dc_BUSINESS,
     tool_capability_of Tool_ASSET_DELIVERY [Claim_ASSET_DELIVERY_STATUS] Dc_BUSINESS,
     tool_capability_of Tool_PROTOCOL [Claim_PROTOCOL_FIELD_TYPE, Claim_PROTOCOL_BUSINESS_SEMANTICS]
       Dc_BUSINESS_RULE]"

definition capabilities_for_case :: "case_rec \<Rightarrow> tool_capability list" where
  "capabilities_for_case c = sort_key (\<lambda>e. tool_name_value (tc_tool_name e)) (filter (\<lambda>e.
     tc_tool_name e \<in> set (csc_allowed_tools (case_scope c))
     \<and> tool_name_value (tc_tool_name e) \<notin> set (ccn_forbidden_actions (case_constraints c))) TOOL_CATALOG)"

definition VERIFICATION_TOOLS :: "(verification_requirement \<times> tool_name) list" where
  "VERIFICATION_TOOLS = [(Q_PAYMENT_FINALITY, Tool_PAYMENT), (Q_PAYMENT_IDENTITY, Tool_PAYMENT),
     (Q_REQUEST_ASSOCIATION, Tool_GUARANTEE), (Q_FUND_FINAL_STATE, Tool_FUND),
     (Q_GUARANTEE_FINAL_STATE, Tool_GUARANTEE), (Q_ASSET_FINAL_STATE, Tool_ASSET),
     (Q_ACCOUNTING_ENTRY, Tool_ACCOUNTING), (Q_CALLBACK_CONSUMPTION, Tool_MESSAGES),
     (Q_ASSET_DELIVERY, Tool_ASSET_DELIVERY), (Q_POST_EFFECT_MESSAGE_STATUS, Tool_MESSAGES),
     (Q_POST_EFFECT_DELIVERY_STATUS, Tool_ASSET_DELIVERY)]"

definition verification_tools :: "case_rec \<Rightarrow> (verification_requirement \<times> tool_name) list" where
  "verification_tools c = filter (\<lambda>(_, t). t \<in> tc_tool_name ` set (capabilities_for_case c)) VERIFICATION_TOOLS"

text \<open>
  The catalog the planner sees and the extractor disagree on exactly two tools: \<open>MESSAGES\<close> also
  yields the three claims about the deployed consumer, and \<open>ASSET_DELIVERY\<close> the reference of the
  delivery, neither of which the catalog lists. For every other tool the catalog is exact, and it
  never promises a claim the extractor cannot emit.
\<close>
lemma tool_catalog_exact:
  "map tc_tool_name TOOL_CATALOG = [Tool_ASSET, Tool_GUARANTEE, Tool_FUND, Tool_PAYMENT, Tool_LOAN_NOTE,
     Tool_CALLBACK, Tool_CALLBACK_RAW, Tool_MESSAGES, Tool_ACCOUNTING, Tool_TRACE, Tool_ASSET_DELIVERY,
     Tool_PROTOCOL]
   \<and> list_all (\<lambda>e. set (tool_claim_types (tc_tool_name e)) = (set (tc_produces_claim_types e) - {Claim_SOURCE_LOOKUP_STATUS})
       \<union> (if tc_tool_name e = Tool_MESSAGES then {Claim_CONSUMER_DEPLOYED_SCHEMA_VERSION,
            Claim_CONSUMER_ACCEPTED_PROTOCOL_VERSION, Claim_CONSUMER_LOAN_NO_FIELD_TYPE}
          else if tc_tool_name e = Tool_ASSET_DELIVERY then {Claim_ASSET_DELIVERY_EVENT_REF} else {})) TOOL_CATALOG"
  by (auto simp: TOOL_CATALOG_def tool_capability_of_def)

text \<open>A verification only reads with tools the Case allows.\<close>

lemma verification_tools_allowed:
  "(q, t) \<in> set (verification_tools c) \<Longrightarrow> t \<in> set (csc_allowed_tools (case_scope c))
    \<and> tool_name_value t \<notin> set (ccn_forbidden_actions (case_constraints c))"
  by (auto simp: verification_tools_def capabilities_for_case_def)

end
