(* ===== verification/Closure.thy ===== *)
theory Closure
  imports CaseInvariant ToolCapabilities
begin

text \<open>
  Evaluation reports and the verified closure (\<open>evaluation/repository.py\<close>, \<open>evaluation/closure.py\<close>),
  the routing of what an evaluation left unresolved (\<open>orchestration/routing.py\<close>) and the handoff of a
  report to the durable work (\<open>orchestration/handoff.py: EvaluationHandoffService\<close>). The evaluator is
  a dependency the services are constructed with: \<open>evaluator d case now\<close> is \<open>_evaluate\<close> and \<open>reader d
  case now\<close> what the closure reads of the evaluation state. \<open>ri\<close> is the digest of a report's JSON.
\<close>

section \<open>Reports\<close>

definition report_identity :: "(evaluation_report \<Rightarrow> string) \<Rightarrow> evaluation_report \<Rightarrow> string" where
  "report_identity ri r = ri (r\<lparr> erp_report_id := [], erp_evaluation_run_id := [], erp_created_at := 0 \<rparr>)"

definition record_report :: "(evaluation_report \<Rightarrow> string) \<Rightarrow> string \<Rightarrow> db \<Rightarrow> evaluation_report \<Rightarrow> error + db" where
  "record_report ri tenant d r = (
     if report_identity ri r \<noteq> erp_report_id r \<or> erp_case_id r \<noteq> vs_case_id (erp_snapshot r)
       \<or> vs_tenant_id (erp_snapshot r) \<noteq> tenant
       \<or> erp_verification_snapshot_id r \<noteq> vs_verification_snapshot_id (erp_snapshot r)
     then Inl (ClosureError Clo_REPORT_INVALID)
     else bindE (case_row_of tenant d (erp_case_id r)) (\<lambda>row.
       case tget (erp_evaluation_run_id r) (db_reports d) of
         Some old \<Rightarrow> if evr_payload old \<noteq> r then Inl (ClosureError Clo_REPORT_INVALID) else Inr d
       | None \<Rightarrow>
         if is_terminal (cr_status row) then Inl (ClosureError Clo_STALE_EVALUATION)
         else bindE (tadd IntegrityError (erp_evaluation_run_id r)
             \<lparr> hnd_tenant_id = tenant, hnd_case_id = erp_case_id r, hnd_status = Hand_PENDING \<rparr>
             (db_handoffs d)) (\<lambda>hs.
           Inr (d\<lparr> db_reports := tput (erp_evaluation_run_id r)
             \<lparr> evr_case_id = erp_case_id r, evr_payload = r \<rparr> (db_reports d), db_handoffs := hs \<rparr>))))"

definition reports_of :: "string \<Rightarrow> db \<Rightarrow> string \<Rightarrow> error + evaluation_report list" where
  "reports_of tenant d cid = bindE (case_row_of tenant d cid) (\<lambda>_.
     Inr (map (\<lambda>(_, r). evr_payload r) (sort_key fst (filter (\<lambda>(_, r). evr_case_id r = cid) (db_reports d)))))"

definition closure_of :: "string \<Rightarrow> db \<Rightarrow> string \<Rightarrow> error + case_closure_record option" where
  "closure_of tenant d cid = bindE (case_row_of tenant d cid) (\<lambda>_. Inr (tget cid (db_closures d)))"

section \<open>The closure\<close>

definition UNRESOLVED_EFFECT_STATES :: "effect_status list" where
  "UNRESOLVED_EFFECT_STATES = [Eff_PREPARED, Eff_DISPATCHED, Eff_ACCEPTED, Eff_UNKNOWN]"

text \<open>What the closure reads of the evaluation state when the Case is already closed.\<close>

record closure_view =
  cv_pending_reads :: bool
  cv_recovery_unresolved :: bool
  cv_provenance_valid :: bool
  cv_effect_statuses :: "effect_status list"
  cv_snapshot :: verification_snapshot

definition still_closed :: "closure_view \<Rightarrow> evaluation_report \<Rightarrow> bool" where
  "still_closed v r = (\<not> cv_pending_reads v \<and> \<not> cv_recovery_unresolved v \<and> cv_provenance_valid v
     \<and> \<not> list_ex (\<lambda>s. s \<in> set UNRESOLVED_EFFECT_STATES) (cv_effect_statuses v)
     \<and> vs_evidence_fingerprint (cv_snapshot v) = vs_evidence_fingerprint (erp_snapshot r)
     \<and> vs_side_effect_ledger_fingerprint (cv_snapshot v) = vs_side_effect_ledger_fingerprint (erp_snapshot r)
     \<and> vs_call_history_fingerprint (cv_snapshot v) = vs_call_history_fingerprint (erp_snapshot r))"

definition closure_record :: "(jv \<Rightarrow> string) \<Rightarrow> evaluation_report \<Rightarrow> time \<Rightarrow> case_closure_record" where
  "closure_record digest r now = \<lparr>
     ccr_closure_id = digest (jobj [(''case_id'', JStr (erp_case_id r)),
       (''report_id'', JStr (erp_report_id r)), (''snapshot'', JStr (erp_verification_snapshot_id r))]),
     ccr_case_id = erp_case_id r, ccr_evaluation_run_id = erp_evaluation_run_id r,
     ccr_report_id = erp_report_id r, ccr_verification_snapshot_id = erp_verification_snapshot_id r,
     ccr_evidence_fingerprint = vs_evidence_fingerprint (erp_snapshot r),
     ccr_ledger_fingerprint = vs_side_effect_ledger_fingerprint (erp_snapshot r),
     ccr_evaluation_policy_version = erp_policy_version r, ccr_contract_version = erp_contract_version r,
     ccr_closed_at = now \<rparr>"

definition closed_row :: "time \<Rightarrow> evaluation_report \<Rightarrow> case_row \<Rightarrow> case_row" where
  "closed_row now r row = row\<lparr> cr_status := Case_CLOSED_VERIFIED,
     cr_updated_at := max now (vs_case_revision (erp_snapshot r) + 1) \<rparr>"

text \<open>
  \<open>VerifiedClosureService.close\<close>. A fresh evaluation under the Case lock has to pass and to be the
  very report; the compare-and-swap on the Case and the unique closure row are the last fences.
\<close>

definition close_case :: "(jv \<Rightarrow> string) \<Rightarrow> (evaluation_report \<Rightarrow> string)
    \<Rightarrow> (db \<Rightarrow> string \<Rightarrow> time \<Rightarrow> error + evaluation_report) \<Rightarrow> (db \<Rightarrow> string \<Rightarrow> time \<Rightarrow> error + closure_view)
    \<Rightarrow> string \<Rightarrow> db \<Rightarrow> evaluation_report \<Rightarrow> time \<Rightarrow> error + db \<times> verified_closure_result" where
  "close_case digest ri evaluator reader tenant d r now = (
     if erp_overall_verdict r \<noteq> V_PASS then Inl (ClosureError Clo_PASS_REQUIRED)
     else if report_identity ri r \<noteq> erp_report_id r then Inl (ClosureError Clo_REPORT_INVALID)
     else bindE (case_row_of tenant d (erp_case_id r)) (\<lambda>row.
       if map_option evr_payload (tget (erp_evaluation_run_id r) (db_reports d)) \<noteq> Some r
       then Inl (ClosureError Clo_REPORT_NOT_PERSISTED)
       else case tget (erp_case_id r) (db_closures d) of
         Some old \<Rightarrow>
           if cr_status row \<noteq> Case_CLOSED_VERIFIED \<or> ccr_report_id old \<noteq> erp_report_id r
           then Inl (ClosureError Clo_STALE_EVALUATION)
           else bindE (reader d (erp_case_id r) now) (\<lambda>v.
             if \<not> still_closed v r then Inl (ClosureError Clo_CLOSURE_INVARIANT_VIOLATION)
             else Inr (d, \<lparr> vcr_status = Cls_ALREADY_CLOSED_VERIFIED, vcr_record = old \<rparr>))
       | None \<Rightarrow>
         if is_terminal (cr_status row) then Inl (ClosureError Clo_CLOSURE_INVARIANT_VIOLATION)
         else bindE (evaluator d (erp_case_id r) now) (\<lambda>fresh.
           if erp_overall_verdict fresh \<noteq> V_PASS \<or> erp_snapshot fresh \<noteq> erp_snapshot r
             \<or> erp_report_id fresh \<noteq> erp_report_id r
           then Inl (ClosureError Clo_STALE_EVALUATION)
           else if cr_updated_at row \<noteq> vs_case_revision (erp_snapshot r)
           then Inl (ClosureError Clo_STALE_EVALUATION)
           else
             let record = closure_record digest r now;
                 d1 = cancel_terminal_work (put_case (erp_case_id r) (closed_row now r row) d)
                   (erp_case_id r) now
             in if list_ex (\<lambda>c. ccr_closure_id c = ccr_closure_id record) (trows (db_closures d))
                then Inl IntegrityError
                else Inr (d1\<lparr> db_closures := tput (erp_case_id r) record (db_closures d1) \<rparr>,
                  \<lparr> vcr_status = Cls_CLOSED_VERIFIED, vcr_record = record \<rparr>))))"

section \<open>The requirement router\<close>

datatype requirement_route = Rt_READ_VERIFICATION | Rt_EFFECT_RECOVERY | Rt_OPERATOR_FOLLOWUP | Rt_NO_ACTION

primrec requirement_route_value :: "requirement_route \<Rightarrow> string" where
  "requirement_route_value Rt_READ_VERIFICATION = ''READ_VERIFICATION''"
| "requirement_route_value Rt_EFFECT_RECOVERY = ''EFFECT_RECOVERY''"
| "requirement_route_value Rt_OPERATOR_FOLLOWUP = ''OPERATOR_FOLLOWUP''"
| "requirement_route_value Rt_NO_ACTION = ''NO_ACTION''"

record recovery_route_state =
  rrs_effect_ref :: string
  rrs_status :: effect_status
  rrs_recovery_available :: bool
  rrs_requires_escalation :: bool

record routed_requirement =
  rrq_requirement :: verification_requirement
  rrq_route :: requirement_route
  rrq_effect_ref :: "string option"

definition can_recover :: "recovery_route_state \<Rightarrow> bool" where
  "can_recover s = (rrs_recovery_available s \<and> \<not> rrs_requires_escalation s)"

definition effect_route :: "recovery_route_state \<Rightarrow> requirement_route" where
  "effect_route s = (if rrs_status s \<notin> set RECOVERABLE then Rt_NO_ACTION
     else if can_recover s then Rt_EFFECT_RECOVERY else Rt_OPERATOR_FOLLOWUP)"

text \<open>The effects a finality requirement is about.\<close>

definition relevant_effects :: "unresolved_verification_requirement \<Rightarrow> recovery_route_state list
    \<Rightarrow> recovery_route_state list" where
  "relevant_effects u effects = (
     let relevant = filter (\<lambda>s. if uvr_requirement u = Q_EFFECT_FINALITY
           then Some (rrs_effect_ref s) = uvr_effect_ref u else rrs_status s \<in> set RECOVERABLE) effects;
         recoverable = filter can_recover relevant
     in if uvr_requirement u = Q_RECOVERY_FINALITY \<and> recoverable \<noteq> [] then recoverable else relevant)"

definition route_requirement :: "unresolved_verification_requirement \<Rightarrow> (verification_requirement \<times> tool_name) list
    \<Rightarrow> recovery_route_state list \<Rightarrow> routed_requirement list" where
  "route_requirement u tools effects = (let q = uvr_requirement u in
     if q \<in> {Q_EFFECT_FINALITY, Q_RECOVERY_FINALITY} then
       (case relevant_effects u effects of
          [] \<Rightarrow> [\<lparr> rrq_requirement = q, rrq_route = (if q = Q_RECOVERY_FINALITY then Rt_NO_ACTION
            else Rt_OPERATOR_FOLLOWUP), rrq_effect_ref = None \<rparr>]
        | relevant \<Rightarrow> map (\<lambda>s. \<lparr> rrq_requirement = q, rrq_route = effect_route s,
            rrq_effect_ref = Some (rrs_effect_ref s) \<rparr>) (sort_key rrs_effect_ref relevant))
     else [\<lparr> rrq_requirement = q, rrq_route = (if map_of tools q \<noteq> None then Rt_READ_VERIFICATION
        else Rt_OPERATOR_FOLLOWUP), rrq_effect_ref = None \<rparr>])"

section \<open>The handoff of a report\<close>

definition ack_handoff :: "string \<Rightarrow> db \<Rightarrow> evaluation_report \<Rightarrow> handoff_status \<Rightarrow> db" where
  "ack_handoff tenant d r s = (case tget (erp_evaluation_run_id r) (db_handoffs d) of
     Some h \<Rightarrow> if hnd_tenant_id h = tenant
       then d\<lparr> db_handoffs := tput (erp_evaluation_run_id r) (h\<lparr> hnd_status := s \<rparr>) (db_handoffs d) \<rparr> else d
   | None \<Rightarrow> d)"

definition recovery_state_of :: "db \<Rightarrow> string \<Rightarrow> case_row \<Rightarrow> string \<Rightarrow> effect_recovery_state_row option" where
  "recovery_state_of d cid c eid = (case tget eid (db_recovery_state d) of None \<Rightarrow> None
     | Some st \<Rightarrow> if ers_case_id st = cid \<and> ers_tenant_id st = cr_tenant_id c then Some st else None)"

definition route_states :: "db \<Rightarrow> string \<Rightarrow> case_row \<Rightarrow> error + recovery_route_state list" where
  "route_states d cid c = mapE (\<lambda>(eid, e).
     if led_case_id (eff_payload e) \<noteq> cid \<or> led_tenant_id (eff_payload e) \<noteq> cr_tenant_id c
     then Inl OrchestrationError
     else Inr \<lparr> rrs_effect_ref = eid, rrs_status = led_status (eff_payload e),
       rrs_recovery_available = (recovery_state_of d cid c eid \<noteq> None),
       rrs_requires_escalation = (case recovery_state_of d cid c eid of None \<Rightarrow> False
         | Some st \<Rightarrow> ers_requires_escalation st) \<rparr>)
     (filter (\<lambda>(_, e). eff_case_id e = cid) (db_effects d))"

text \<open>The work one route asks for. \<open>now\<close> is the repository's clock.\<close>

definition route_work :: "(jv \<Rightarrow> string) \<Rightarrow> recovery_policy option \<Rightarrow> string \<Rightarrow> evaluation_report
    \<Rightarrow> verification_requirement list \<Rightarrow> time \<Rightarrow> routed_requirement \<Rightarrow> db
    \<Rightarrow> error + db \<times> case_work_item option" where
  "route_work digest policy cid r reads now route d = bindE (the_case d cid) (\<lambda>c.
     let created = erp_created_at r; q = rrq_requirement route in
     case rrq_route route of
       Rt_NO_ACTION \<Rightarrow> Inr (d, None)
     | Rt_READ_VERIFICATION \<Rightarrow> create_work digest d cid
         ((work_spec Work_VERIFICATION_REQUIRED Why_EVALUATION_INCONCLUSIVE (erp_report_id r) Trig_EVALUATION created)
           \<lparr> wsp_not_before := Some (created + seconds 30), wsp_requirement := Some q,
             wsp_verification_requirements := reads \<rparr>)
     | Rt_EFFECT_RECOVERY \<Rightarrow>
         bindE (needE KeyError (rrq_effect_ref route)) (\<lambda>eid.
         bindE (needE KeyError (recovery_state_of d cid c eid)) (\<lambda>st.
           ensure_recovery_work digest d cid eid now
             (Some (max created (max (ers_next_eligible_at st)
               (case ers_lease_until st of None \<Rightarrow> 0 | Some t \<Rightarrow> t)))) policy))
     | Rt_OPERATOR_FOLLOWUP \<Rightarrow>
         let finality = q \<in> {Q_EFFECT_FINALITY, Q_RECOVERY_FINALITY};
             source = (case rrq_effect_ref route of None \<Rightarrow> erp_report_id r
               | Some eid \<Rightarrow> (case existing_recovery_work d cid eid of None \<Rightarrow> eid | Some (key, _) \<Rightarrow> key));
             escalation = (case rrq_effect_ref route of None \<Rightarrow> False
               | Some eid \<Rightarrow> (case recovery_state_of d cid c eid of None \<Rightarrow> False
                   | Some st \<Rightarrow> ers_requires_escalation st))
         in if escalation \<and> cr_status c \<noteq> Case_ESCALATED
            then escalate_in digest d cid (if finality then Why_EFFECT_UNRESOLVED else Why_OPERATOR_REQUIRED)
              source now
            else create_work digest d cid
              ((work_spec Work_OPERATOR_FOLLOWUP
                  (if finality then Why_EFFECT_UNRESOLVED else Why_OPERATOR_REQUIRED) source Trig_EVALUATION created)
                \<lparr> wsp_requirement := (if finality then None else Some q),
                  wsp_required_signal := Some Sig_OPERATOR_ACKNOWLEDGED \<rparr>))"

fun route_all :: "(jv \<Rightarrow> string) \<Rightarrow> recovery_policy option \<Rightarrow> string \<Rightarrow> evaluation_report
    \<Rightarrow> verification_requirement list \<Rightarrow> time \<Rightarrow> routed_requirement list \<Rightarrow> db
    \<Rightarrow> (string \<times> case_work_item) list \<Rightarrow> error + db \<times> (string \<times> case_work_item) list" where
  "route_all digest policy cid r reads now [] d items = Inr (d, items)"
| "route_all digest policy cid r reads now (x # xs) d items =
     bindE (route_work digest policy cid r reads now x d) (\<lambda>(d1, item).
       route_all digest policy cid r reads now xs d1 (case item of None \<Rightarrow> items
         | Some w \<Rightarrow> tput (wi_work_item_id w) w items))"

definition route_order :: "routed_requirement \<Rightarrow> string \<times> string \<times> string" where
  "route_order x = (requirement_route_value (rrq_route x), verification_requirement_value (rrq_requirement x),
     case rrq_effect_ref x of None \<Rightarrow> [] | Some e \<Rightarrow> e)"

definition route_requirements :: "(jv \<Rightarrow> string) \<Rightarrow> recovery_policy option \<Rightarrow> db \<Rightarrow> string \<Rightarrow> case_row
    \<Rightarrow> evaluation_report \<Rightarrow> time \<Rightarrow> error + db \<times> case_work_item list" where
  "route_requirements digest policy d cid c r now = bindE (hydrate c) (\<lambda>case_now.
     let tools = verification_tools case_now;
         unresolved = erp_unresolved_requirements r
     in bindE (if list_ex (\<lambda>u. uvr_requirement u \<in> {Q_EFFECT_FINALITY, Q_RECOVERY_FINALITY}) unresolved
          then route_states d cid c else Inr []) (\<lambda>effects.
        let routes = sort_key (\<lambda>x. snd (snd (route_order x))) (dedup (concat (map (\<lambda>u.
              route_requirement u tools effects) unresolved)));
            ordered = sort_key (\<lambda>x. fst (route_order x)) (sort_key (\<lambda>x. fst (snd (route_order x))) routes);
            reads = sort_key verification_requirement_value (dedup (map rrq_requirement
              (filter (\<lambda>x. rrq_route x = Rt_READ_VERIFICATION) ordered)))
        in bindE (route_all digest policy cid r reads now ordered d []) (\<lambda>(d', items).
           Inr (d', map snd items))))"

text \<open>The transaction of \<open>_consume\<close> for a report that does not pass.\<close>

definition consume_report :: "(jv \<Rightarrow> string) \<Rightarrow> (evaluation_report \<Rightarrow> string) \<Rightarrow> recovery_policy option
    \<Rightarrow> string \<Rightarrow> db \<Rightarrow> evaluation_report \<Rightarrow> time \<Rightarrow> error + db \<times> case_work_item list" where
  "consume_report digest ri policy tenant d r now = (
     if report_identity ri r \<noteq> erp_report_id r then Inl OrchestrationError
     else bindE (lock_work_case tenant d (erp_case_id r)) (\<lambda>c.
       if map_option evr_payload (tget (erp_evaluation_run_id r) (db_reports d)) \<noteq> Some r
         \<or> vs_tenant_id (erp_snapshot r) \<noteq> tenant
         \<or> cr_updated_at c \<noteq> vs_case_revision (erp_snapshot r)
       then Inl OrchestrationError
       else if is_terminal (cr_status c) then Inr (d, [])
       else if erp_overall_verdict r = V_FAIL then
         bindE (create_work digest d (erp_case_id r)
           ((work_spec Work_OPERATOR_FOLLOWUP Why_EVALUATION_FAILED (erp_report_id r) Trig_EVALUATION
               (erp_created_at r)) \<lparr> wsp_required_signal := Some Sig_OPERATOR_ACKNOWLEDGED \<rparr>))
           (\<lambda>(d', w). Inr (d', case w of None \<Rightarrow> [] | Some x \<Rightarrow> [x]))
       else route_requirements digest policy d (erp_case_id r) c r now))"

text \<open>\<open>consume\<close>: the closure or the work, and then the acknowledgement, as separate transactions.\<close>

definition consume :: "(jv \<Rightarrow> string) \<Rightarrow> (evaluation_report \<Rightarrow> string)
    \<Rightarrow> (db \<Rightarrow> string \<Rightarrow> time \<Rightarrow> error + evaluation_report) \<Rightarrow> (db \<Rightarrow> string \<Rightarrow> time \<Rightarrow> error + closure_view)
    \<Rightarrow> recovery_policy option \<Rightarrow> string \<Rightarrow> db \<Rightarrow> evaluation_report \<Rightarrow> time \<Rightarrow> error + db \<times> case_work_item list" where
  "consume digest ri evaluator reader policy tenant d r now = bindE
     (if report_identity ri r \<noteq> erp_report_id r then Inl OrchestrationError
      else if erp_overall_verdict r = V_PASS
      then bindE (close_case digest ri evaluator reader tenant d r now) (\<lambda>(d1, _). Inr (d1, []))
      else consume_report digest ri policy tenant d r now)
     (\<lambda>(d1, items). Inr (ack_handoff tenant d1 r Hand_COMPLETED, items))"

definition pending_reports :: "string \<Rightarrow> db \<Rightarrow> int \<Rightarrow> evaluation_report list" where
  "pending_reports tenant d limit = take (nat limit) (List.map_filter (\<lambda>(run, h).
     if hnd_tenant_id h = tenant \<and> hnd_status h = Hand_PENDING
     then map_option evr_payload (tget run (db_reports d)) else None) (db_handoffs d))"

text \<open>A stale report is canceled and does not stop the reports after it; any other closure error does.\<close>

fun poll_reports :: "(db \<Rightarrow> evaluation_report \<Rightarrow> error + db \<times> case_work_item list) \<Rightarrow> string
    \<Rightarrow> evaluation_report list \<Rightarrow> db \<Rightarrow> db \<times> (error + case_work_item list)" where
  "poll_reports handle tenant [] d = (d, Inr [])"
| "poll_reports handle tenant (r # rs) d = (case handle d r of
     Inr (d1, items) \<Rightarrow> (case poll_reports handle tenant rs d1 of
         (d2, Inl e) \<Rightarrow> (d2, Inl e) | (d2, Inr later) \<Rightarrow> (d2, Inr (items @ later)))
   | Inl e \<Rightarrow> if e = OrchestrationError \<or> e = ClosureError Clo_STALE_EVALUATION
       then poll_reports handle tenant rs (ack_handoff tenant d r Hand_CANCELED) else (d, Inl e))"

definition poll_unhanded_reports :: "(db \<Rightarrow> evaluation_report \<Rightarrow> error + db \<times> case_work_item list)
    \<Rightarrow> string \<Rightarrow> db \<Rightarrow> int \<Rightarrow> db \<times> (error + case_work_item list)" where
  "poll_unhanded_reports handle tenant d limit = (
     if \<not> (1 \<le> limit \<and> limit \<le> 1000) then (d, Inl ValueError)
     else poll_reports handle tenant (pending_reports tenant d limit) d)"

section \<open>What the handoff writes\<close>

lemma record_report_frame [frame_laws]:
  "record_report ri tenant d r = Inr d' \<Longrightarrow> same_but {T_reports, T_handoffs} d d'"
  by (auto simp: record_report_def bindE_Inr_iff same_but_iff split: option.splits if_splits)

lemma ack_handoff_frame: "same_but {T_handoffs} d (ack_handoff tenant d r s)"
  by (auto simp: ack_handoff_def same_but_iff split: option.split)

text \<open>Everything a closure has checked, and what it writes.\<close>

lemma close_case_Inr:
  assumes "close_case digest ri evaluator reader tenant d r now = Inr (d', x)"
  obtains (again) old v row where "d' = d" "tget (erp_case_id r) (db_cases d) = Some row"
      "cr_status row = Case_CLOSED_VERIFIED" "tget (erp_case_id r) (db_closures d) = Some old"
      "ccr_report_id old = erp_report_id r" "reader d (erp_case_id r) now = Inr v" "still_closed v r"
      "x = \<lparr> vcr_status = Cls_ALREADY_CLOSED_VERIFIED, vcr_record = old \<rparr>"
  | (closed) row fresh where "tget (erp_case_id r) (db_cases d) = Some row" "cr_tenant_id row = tenant"
      "\<not> is_terminal (cr_status row)" "tget (erp_case_id r) (db_closures d) = None"
      "map_option evr_payload (tget (erp_evaluation_run_id r) (db_reports d)) = Some r"
      "report_identity ri r = erp_report_id r" "erp_overall_verdict r = V_PASS"
      "evaluator d (erp_case_id r) now = Inr fresh" "erp_overall_verdict fresh = V_PASS"
      "erp_snapshot fresh = erp_snapshot r" "erp_report_id fresh = erp_report_id r"
      "cr_updated_at row = vs_case_revision (erp_snapshot r)"
      "x = \<lparr> vcr_status = Cls_CLOSED_VERIFIED, vcr_record = closure_record digest r now \<rparr>"
      "d' = (cancel_terminal_work (put_case (erp_case_id r) (closed_row now r row) d) (erp_case_id r) now)
        \<lparr> db_closures := tput (erp_case_id r) (closure_record digest r now) (db_closures
          (cancel_terminal_work (put_case (erp_case_id r) (closed_row now r row) d) (erp_case_id r) now)) \<rparr>"
proof -
  from assms have pass: "erp_overall_verdict r = V_PASS" and ident: "report_identity ri r = erp_report_id r"
    by (auto simp: close_case_def split: if_splits)
  obtain row where row: "case_row_of tenant d (erp_case_id r) = Inr row"
    using assms pass ident by (auto simp: close_case_def)
  have saved: "map_option evr_payload (tget (erp_evaluation_run_id r) (db_reports d)) = Some r"
    using assms pass ident row by (auto simp: close_case_def split: if_splits)
  note c = assms [unfolded close_case_def pass ident row bindE_simps saved]
  show thesis
  proof (cases "tget (erp_case_id r) (db_closures d)")
    case (Some old)
    then show thesis using c row again by (auto simp: bindE_Inr_iff split: if_splits)
  next
    case None
    have open_row: "\<not> is_terminal (cr_status row)" using c None by (auto split: if_splits)
    obtain fresh where f: "evaluator d (erp_case_id r) now = Inr fresh"
      using c None open_row by (auto simp: bindE_Inr_iff)
    have checks: "erp_overall_verdict fresh = V_PASS" "erp_snapshot fresh = erp_snapshot r"
      "erp_report_id fresh = erp_report_id r" "cr_updated_at row = vs_case_revision (erp_snapshot r)"
      using c None open_row f by (auto split: if_splits)
    show thesis
      using c None open_row f checks row pass ident saved
      by (intro closed [of row fresh]) (auto simp: Let_def split: if_splits)
  qed
qed

text \<open>The one move that makes a Case terminal, and what it does to the table.\<close>

definition case_closed :: "case_row \<Rightarrow> case_row \<Rightarrow> bool" where
  "case_closed r r' = (\<not> is_terminal (cr_status r) \<and> cr_updated_at r < cr_updated_at r'
     \<and> r' = r\<lparr> cr_status := Case_CLOSED_VERIFIED, cr_updated_at := cr_updated_at r' \<rparr>)"

definition closes_case :: "string \<Rightarrow> db \<Rightarrow> db \<Rightarrow> bool" where
  "closes_case cid d d' = (\<exists>r r'. tget cid (db_cases d) = Some r \<and> case_closed r r'
     \<and> (\<forall>k. tget k (db_cases d') = (if k = cid then Some r' else tget k (db_cases d))))"

lemma cancel_terminal_work_cases [simp]: "db_cases (cancel_terminal_work d cid now) = db_cases d"
proof -
  have "db_cases (fold (cancel_one now) rows d) = db_cases d" for rows
    by (induction rows arbitrary: d)
      (auto simp: cancel_one_def split_beta Let_def save_work_def audit_work_def split: option.split)
  then show ?thesis by (simp add: cancel_terminal_work_def)
qed

lemma close_case_kept:
  assumes "close_case digest ri evaluator reader tenant d r now = Inr (d', x)" and ok: "work_ok d"
  shows "same_but (insert T_closures SCHEDULING) d d'" and "d' = d \<or> closes_case (erp_case_id r) d d'"
    and "queue_kept d d'"
proof -
  have "same_but (insert T_closures SCHEDULING) d d' \<and> (d' = d \<or> closes_case (erp_case_id r) d d')
      \<and> queue_kept d d'"
    using assms(1)
  proof (cases rule: close_case_Inr)
    case again
    then show ?thesis by (simp add: queue_kept_same [OF ok])
  next
    case (closed row fresh)
    let ?d = "put_case (erp_case_id r) (closed_row now r row) d"
    let ?d1 = "cancel_terminal_work ?d (erp_case_id r) now"
    have tables: "db_work ?d = db_work d" "db_cases ?d = tput (erp_case_id r) (closed_row now r row) (db_cases d)"
      "same_but SCHEDULING d ?d"
      by (simp_all add: put_case_def same_but_iff)
    have ok1: "work_ok ?d" using ok tables(1) by (simp add: work_ok_def)
    have w: "worked ?d ?d1" by (rule scheduled_worked [OF cancel_terminal_work_scheduled [OF ok1] ok1])
    have "case_closed row (closed_row now r row)"
      using closed(3,12) by (simp add: case_closed_def closed_row_def less_max_iff_disj)
    then have "closes_case (erp_case_id r) d d'"
      unfolding closes_case_def closed(14) using closed(1) by (auto simp: tables(2))
    moreover have "queue_kept d ?d1"
      using w queue_kept_trans [OF queue_kept_same [OF ok tables(1)]] by (simp add: worked_def)
    moreover have "same_but (insert T_closures SCHEDULING) d ?d1"
      using w tables(3) by (auto simp: worked_def same_but_iff)
    ultimately show ?thesis
      unfolding closed(14) by (auto simp: same_but_iff intro: queue_kept_eq)
  qed
  then show "same_but (insert T_closures SCHEDULING) d d'" and "d' = d \<or> closes_case (erp_case_id r) d d'"
    and "queue_kept d d'" by blast+
qed

declare close_case_kept(1) [frame_laws] close_case_kept(3) [work_laws]

lemma route_work_worked:
  "route_work digest policy cid r reads now x d = Inr (d', w) \<Longrightarrow> work_ok d \<Longrightarrow> worked d d'"
  by (cases "rrq_route x")
    (auto simp: route_work_def bindE_Inr_iff Let_def intro: worked_refl scheduled_worked create_work_scheduled
      ensure_recovery_work_scheduled escalate_in_scheduled split: if_splits)

lemma route_all_worked:
  "route_all digest policy cid r reads now xs d items = Inr (d', ws) \<Longrightarrow> work_ok d \<Longrightarrow> worked d d'"
proof (induction xs arbitrary: d items)
  case Nil
  then show ?case by (simp add: worked_refl)
next
  case (Cons x xs)
  then obtain d1 w where "route_work digest policy cid r reads now x d = Inr (d1, w)"
    and rest: "route_all digest policy cid r reads now xs d1 (case w of None \<Rightarrow> items
         | Some w \<Rightarrow> tput (wi_work_item_id w) w items) = Inr (d', ws)"
    by (auto simp: bindE_Inr_iff)
  with Cons.prems(2) have w1: "worked d d1" by (blast intro: route_work_worked)
  from worked_trans [OF w1 Cons.IH [OF rest worked_ok [OF w1]]] show ?case .
qed

lemma consume_report_worked [work_laws]:
  assumes "consume_report digest ri policy tenant d r now = Inr (d', ws)" and ok: "work_ok d"
  shows "worked d d'"
  using assms
  by (auto simp: consume_report_def route_requirements_def bindE_Inr_iff Let_def
      intro: worked_refl scheduled_worked create_work_scheduled route_all_worked split: if_splits)

end
