(* ===== verification/StructuredValues.thy ===== *)
theory StructuredValues
  imports EvidenceModel
begin

text \<open>
  The closed syntax of every reference, code, path, topic and version that may reach a model prompt
  (\<open>context/structured_values.py\<close>) and the value contract of every claim
  (\<open>context/value_contracts.py\<close>). The regular expressions are recognisers over strings.
\<close>

section \<open>Structured syntax\<close>

definition is_digit :: "char \<Rightarrow> bool" where
  "is_digit c = (CHR ''0'' \<le> c \<and> c \<le> CHR ''9'')"

definition is_upper :: "char \<Rightarrow> bool" where
  "is_upper c = (CHR ''A'' \<le> c \<and> c \<le> CHR ''Z'')"

definition is_letter :: "char \<Rightarrow> bool" where
  "is_letter c = (is_upper c \<or> (CHR ''a'' \<le> c \<and> c \<le> CHR ''z''))"

definition is_alnum :: "char \<Rightarrow> bool" where
  "is_alnum c = (is_letter c \<or> is_digit c)"

definition sized :: "nat \<Rightarrow> nat \<Rightarrow> string \<Rightarrow> bool" where
  "sized lo hi s = (lo \<le> length s \<and> length s \<le> hi)"

definition all_digits :: "string \<Rightarrow> bool" where
  "all_digits s = (s \<noteq> [] \<and> list_all is_digit s)"

definition bare_personal_number :: "string \<Rightarrow> bool" where
  "bare_personal_number s = (all_digits s
     \<or> (length s = 18 \<and> all_digits (butlast s) \<and> last s \<in> set ''Xx''))"

definition opaque_business_ref :: "string \<Rightarrow> bool" where
  "opaque_business_ref s = (sized 1 128 s \<and> list_all (\<lambda>c. is_alnum c \<or> c \<in> set ''_:/.-'') s
     \<and> \<not> bare_personal_number s)"

definition structured_error_code :: "string \<Rightarrow> bool" where
  "structured_error_code s = (sized 2 64 s
     \<and> (case s of [] \<Rightarrow> False | c # cs \<Rightarrow>
          is_upper c \<and> list_all (\<lambda>x. is_upper x \<or> is_digit x \<or> x = CHR ''_'') cs))"

text \<open>Maximal runs between the separators.\<close>

fun split_on :: "(char \<Rightarrow> bool) \<Rightarrow> string \<Rightarrow> string list" where
  "split_on p [] = [[]]"
| "split_on p (c # cs) = (if p c then [] # split_on p cs
     else (case split_on p cs of [] \<Rightarrow> [[c]] | s # ss \<Rightarrow> (c # s) # ss))"

text \<open>\<open>(\[[0-9]{1,6}\])*\<close>.\<close>

function array_indices :: "string \<Rightarrow> bool" where
  "array_indices s = (case s of [] \<Rightarrow> True
     | c # cs \<Rightarrow> c = CHR ''['' \<and> sized 1 6 (takeWhile is_digit cs)
         \<and> (case dropWhile is_digit cs of [] \<Rightarrow> False
            | d # rest \<Rightarrow> d = CHR '']'' \<and> array_indices rest))"
  by auto

lemma dropWhile_shorter: "dropWhile p cs = d # rest \<Longrightarrow> length rest < length cs"
  by (induction cs) (auto split: if_splits)

termination array_indices
  by (relation "measure length") (auto dest: dropWhile_shorter)

declare array_indices.simps [simp del]

definition path_segment :: "string \<Rightarrow> bool" where
  "path_segment s = (case s of [] \<Rightarrow> False | c # cs \<Rightarrow> (is_letter c \<or> c = CHR ''_'')
     \<and> array_indices (dropWhile (\<lambda>x. is_alnum x \<or> x = CHR ''_'') cs))"

definition structured_field_path :: "string \<Rightarrow> bool" where
  "structured_field_path s = (sized 1 128 s \<and> list_all path_segment (split_on (\<lambda>c. c = CHR ''.'') s))"

definition structured_topic :: "string \<Rightarrow> bool" where
  "structured_topic s = (sized 1 128 s \<and> is_letter (hd s)
     \<and> list_all (\<lambda>seg. seg \<noteq> [] \<and> list_all (\<lambda>c. is_alnum c \<or> c \<in> set ''_-'') seg)
         (split_on (\<lambda>c. c = CHR ''.'') s))"

definition subject_ref_syntax :: "nat \<Rightarrow> string \<Rightarrow> bool" where
  "subject_ref_syntax hi s = (sized 1 hi s \<and> is_alnum (hd s)
     \<and> list_all (\<lambda>c. is_alnum c \<or> c \<in> set ''_:@/.-'') (tl s) \<and> \<not> bare_personal_number s)"

definition opaque_subject_ref :: "string \<Rightarrow> bool" where
  "opaque_subject_ref = subject_ref_syntax 128"

definition context_reference :: "string \<Rightarrow> bool" where
  "context_reference = subject_ref_syntax 256"

definition version_number :: "string \<Rightarrow> bool" where
  "version_number s = ((all_digits s \<and> length s \<le> 6) \<or> \<not> bare_personal_number s)"

definition structured_version :: "string \<Rightarrow> bool" where
  "structured_version s = (sized 1 64 s
     \<and> list_all (\<lambda>seg. seg \<noteq> [] \<and> list_all is_alnum seg) (split_on (\<lambda>c. c \<in> set ''._+-'') s)
     \<and> version_number s)"

definition hash_ref :: "string \<Rightarrow> bool" where
  "hash_ref s = (length s = 64 \<and> list_all (\<lambda>c. is_digit c \<or> (CHR ''a'' \<le> c \<and> c \<le> CHR ''f'')) s)"

lemma opaque_subject_ref_syntax:
  "opaque_subject_ref s \<Longrightarrow> \<not> bare_personal_number s \<and> s \<noteq> [] \<and> length s \<le> 128"
  by (auto simp: opaque_subject_ref_def subject_ref_syntax_def sized_def)

lemma subject_ref_is_context_ref: "opaque_subject_ref s \<Longrightarrow> context_reference s"
  by (auto simp: opaque_subject_ref_def context_reference_def subject_ref_syntax_def sized_def)

section \<open>Value contracts\<close>

text \<open>The type a claim's value must have: one constructor per kind of Pydantic type the table uses.\<close>

datatype value_contract = Ref_type | Error_code_type | Field_path_type | Topic_type | Customer_type
  | Beneficiary_type | Account_type | Version_type | Literal_type "string list" | Bool_type | Count_type

definition claim_contracts :: "(claim_type \<times> value_contract) list" where
  "claim_contracts = [
     (Claim_LOAN_NOTE_REFERENCE, Ref_type), (Claim_PAYMENT_TRANSACTION_ID, Ref_type),
     (Claim_TRANSACTION_FUND_REQUEST_ID, Ref_type), (Claim_MESSAGE_ERROR_CODE, Error_code_type),
     (Claim_MESSAGE_ERROR_FIELD, Field_path_type), (Claim_MESSAGE_DLQ, Topic_type),
     (Claim_PAYMENT_CUSTOMER_REF, Customer_type), (Claim_PAYMENT_BENEFICIARY_REF, Beneficiary_type),
     (Claim_PAYMENT_ACCOUNT_REF, Account_type), (Claim_CALLBACK_PROTOCOL_VERSION, Version_type),
     (Claim_CONSUMER_DEPLOYED_SCHEMA_VERSION, Version_type),
     (Claim_CONSUMER_ACCEPTED_PROTOCOL_VERSION, Version_type),
     (Claim_ASSET_DELIVERY_EVENT_REF, Ref_type),
     (Claim_HTTP_RESPONSE_STATUS, Literal_type [''NOT_ATTEMPTED'', ''OK'', ''TIMEOUT'']),
     (Claim_FUND_BUSINESS_STATUS, Literal_type [''NOT_RECEIVED'', ''PROCESSING'', ''SUCCESS'', ''FAILED'']),
     (Claim_PAYMENT_FINALITY, Literal_type [''UNKNOWN'', ''NOT_EXECUTED'', ''PENDING'', ''SETTLED'']),
     (Claim_PAYMENT_CURRENCY, Literal_type [''CNY'', ''USD'']),
     (Claim_MESSAGE_CONSUME_STATUS, Literal_type [''PENDING'', ''CONSUMED'', ''FAILED'']),
     (Claim_MESSAGE_EXPECTED_FIELD_TYPE, Literal_type [''integer'', ''string'']),
     (Claim_MESSAGE_ACTUAL_FIELD_TYPE, Literal_type [''integer'', ''string'']),
     (Claim_ASSET_STATUS, Literal_type [''PROCESSING'', ''SUCCESS'', ''FAILED'']),
     (Claim_GUARANTEE_STATUS, Literal_type [''PROCESSING'', ''SUCCESS'', ''FAILED'']),
     (Claim_CONSUMER_LOAN_NO_FIELD_TYPE, Literal_type [''integer'', ''string'']),
     (Claim_ASSET_DELIVERY_STATUS, Literal_type [''NOT_ATTEMPTED'', ''DELIVERED'', ''FAILED'']),
     (Claim_PROTOCOL_FIELD_TYPE, Literal_type [''integer'', ''string'']),
     (Claim_PROTOCOL_BUSINESS_SEMANTICS, Literal_type
        [''LOAN_CREATED_PAYMENT_SEPARATE'', ''REQUEST_PROCESSING'', ''REJECTED_NO_DISBURSEMENT'']),
     (Claim_SOURCE_LOOKUP_STATUS, Literal_type [''OK'', ''TIMEOUT'', ''NOT_FOUND'']),
     (Claim_REQUEST_SENT, Bool_type), (Claim_LOAN_NO_PRESENT, Bool_type),
     (Claim_CALLBACK_GATEWAY_RECEIVED, Bool_type), (Claim_CALLBACK_SIGNATURE_VERIFIED, Bool_type),
     (Claim_ACCOUNTING_ENTRY_PRESENT, Bool_type),
     (Claim_PAYMENT_AMOUNT, Count_type), (Claim_GUARANTEE_VERSION, Count_type)]"

fun value_conforms :: "value_contract \<Rightarrow> val \<Rightarrow> bool" where
  "value_conforms Bool_type v = (case v of VBool _ \<Rightarrow> True | _ \<Rightarrow> False)"
| "value_conforms Count_type v = (case v of VInt n \<Rightarrow> 0 \<le> n | _ \<Rightarrow> False)"
| "value_conforms k (VStr s) = (case k of Ref_type \<Rightarrow> opaque_business_ref s
     | Error_code_type \<Rightarrow> structured_error_code s | Field_path_type \<Rightarrow> structured_field_path s
     | Topic_type \<Rightarrow> structured_topic s | Customer_type \<Rightarrow> customer_ref_valid s
     | Beneficiary_type \<Rightarrow> beneficiary_ref_valid s | Account_type \<Rightarrow> account_ref_valid s
     | Version_type \<Rightarrow> structured_version s | Literal_type xs \<Rightarrow> s \<in> set xs | _ \<Rightarrow> False)"
| "value_conforms k v = False"

definition claim_value_valid :: "claim_type \<Rightarrow> val \<Rightarrow> bool" where
  "claim_value_valid claim v = (case map_of claim_contracts claim of None \<Rightarrow> False
     | Some k \<Rightarrow> value_conforms k v)"

definition subject_field_valid :: "claim_type \<Rightarrow> string option \<Rightarrow> bool" where
  "subject_field_valid claim field = (
     if claim = Claim_PROTOCOL_BUSINESS_SEMANTICS
     then (case field of None \<Rightarrow> False | Some f \<Rightarrow> structured_error_code f)
     else if claim = Claim_PROTOCOL_FIELD_TYPE \<or> field \<noteq> None
     then (case field of None \<Rightarrow> False | Some f \<Rightarrow> structured_field_path f)
     else True)"

end
