(* ===== verification/Checkpoint.thy ===== *)
theory Checkpoint
  imports CaseRepository StructuredValues
begin

text \<open>
  The audit pointer of an agent run (\<open>recovery/checkpoint.py\<close>): one row per run that only moves
  forwards and never changes its Case. The trace of a turn that the same transaction may append to
  the investigation trace is not part of the database modelled.
\<close>

definition checkpoint_valid :: "string \<Rightarrow> agent_checkpoint_row \<Rightarrow> bool" where
  "checkpoint_valid run_id r = (opaque_subject_ref run_id \<and> opaque_subject_ref (chk_case_id r)
     \<and> hash_ref (chk_last_snapshot_id r)
     \<and> (case chk_last_decision_id r of None \<Rightarrow> True | Some h \<Rightarrow> hash_ref h)
     \<and> (case chk_last_call_id r of None \<Rightarrow> True | Some i \<Rightarrow> opaque_subject_ref i))"

definition save_checkpoint :: "string \<Rightarrow> db \<Rightarrow> string \<Rightarrow> agent_checkpoint_row \<Rightarrow> error + db" where
  "save_checkpoint tenant d run_id r = (
     if \<not> checkpoint_valid run_id r then Inl ValidationError
     else bindE (case_row_of tenant d (chk_case_id r)) (\<lambda>_.
       case tget run_id (db_checkpoints d) of
         Some old \<Rightarrow> if chk_case_id old \<noteq> chk_case_id r \<or> chk_last_completed_turn r < chk_last_completed_turn old
           then Inl ValueError else Inr (d\<lparr> db_checkpoints := tput run_id r (db_checkpoints d) \<rparr>)
       | None \<Rightarrow> Inr (d\<lparr> db_checkpoints := tput run_id r (db_checkpoints d) \<rparr>)))"

definition list_checkpoints :: "string \<Rightarrow> db \<Rightarrow> string \<Rightarrow> error + (string \<times> agent_checkpoint_row) list" where
  "list_checkpoints tenant d cid = bindE (case_row_of tenant d cid) (\<lambda>_.
     Inr (sort_key (chk_updated_at \<circ> snd) (filter (\<lambda>(_, r). chk_case_id r = cid) (db_checkpoints d))))"

lemma save_checkpoint_frame [frame_laws]:
  "save_checkpoint tenant d run_id r = Inr d' \<Longrightarrow> same_but {T_checkpoints} d d'"
  by (auto simp: save_checkpoint_def bindE_Inr_iff same_but_iff split: option.splits if_splits)

lemma save_checkpoint_forwards:
  assumes "save_checkpoint tenant d run_id r = Inr d'" and "tget i (db_checkpoints d) = Some old"
  shows "\<exists>new. tget i (db_checkpoints d') = Some new \<and> chk_case_id new = chk_case_id old
    \<and> chk_last_completed_turn old \<le> chk_last_completed_turn new"
  using assms by (auto simp: save_checkpoint_def bindE_Inr_iff split: option.splits if_splits)

end
