(* ===== verification/System.thy ===== *)
theory System
  imports Closure Checkpoint
begin

text \<open>
  The deployment as a whole: one step relation over the database whose steps are the transactions
  of every component, labelled with what they let out to the world. Workers, operators, planners
  and crashes only decide which transaction comes next; the invariants below hold for every such
  interleaving. The loops of the services (\<open>poll_due_work\<close>, \<open>poll_unhanded_reports\<close>,
  \<open>recover_pending\<close>) are sequences of these steps, and a failed transaction leaves the database as it
  was.
\<close>

section \<open>Steps\<close>

text \<open>The hash functions and the policies a deployment is configured with.\<close>

record deployment =
  dep_digest :: "jv \<Rightarrow> string"
  dep_claim_hash :: "jv \<Rightarrow> string"
  dep_observation_hash :: "observation \<Rightarrow> string"
  dep_token_hash :: "string \<Rightarrow> string"
  dep_report_hash :: "evaluation_report \<Rightarrow> string"
  dep_recovery_policy :: recovery_policy
  dep_lease_seconds :: int

datatype event = Tool_called string | Dispatched string | Closed string | Internal

inductive step :: "deployment \<Rightarrow> db \<Rightarrow> event \<Rightarrow> db \<Rightarrow> bool" for D where
  step_world: "step D d Internal (d\<lparr> db_sim := s \<rparr>)"
| step_create: "case_valid c \<Longrightarrow> create_case (dep_token_hash D) tenant d c cred = Inr (d', x) \<Longrightarrow> step D d Internal d'"
| step_reserve: "reserve_call tenant d cid tool query p t1 t2 call_id = Inr (d', x) \<Longrightarrow> step D d (Tool_called cid) d'"
| step_mark_error: "mark_error tenant d cid call_id = Inr d' \<Longrightarrow> step D d Internal d'"
| step_record: "record_call (dep_claim_hash D) (dep_observation_hash D) tenant d cid call_id o1 False t = Inr (d', ids)
    \<Longrightarrow> step D d Internal d'"
| step_recover_read: "recover_read (dep_claim_hash D) (dep_observation_hash D) tenant d cid call_id t1 t2 uuid
    = Inr (d', r) \<Longrightarrow> step D d Internal d'"
| step_recover_owned: "recover_if_owned (dep_claim_hash D) (dep_observation_hash D) tenant d cid call_id k t1 t2 t3 uuid
    = Inr (d', r) \<Longrightarrow> step D d Internal d'"
| step_pause: "pause tenant d cid s t = Inr (d', x) \<Longrightarrow> step D d Internal d'"
| step_pause_current: "pause_if_current (dep_digest D) tenant d cid s p orchestration t1 t2 t3 = Inr (d', x)
    \<Longrightarrow> step D d Internal d'"
| step_request: "request_approval tenant d r revision audit_id = Inr (d', x) \<Longrightarrow> step D d Internal d'"
| step_decide: "decide_approval tenant d decision t audit_id = Inr (d', x) \<Longrightarrow> step D d Internal d'"
| step_issue: "issue (dep_digest D) tenant d i cap t signature audit_id = Inr d' \<Longrightarrow> step D d Internal d'"
| step_existing: "existing (dep_digest D) tenant d cap t = Inr (d', x) \<Longrightarrow> step D d Internal d'"
| step_prepare: "prepare (dep_digest D) tenant d cap t wall correlation audit_id = Inr (d', l, fresh)
    \<Longrightarrow> step D d Internal d'"
| step_dispatch: "dispatch_prepared (dep_digest D) tenant d cap t claim audit_id = Inr (d', l)
    \<Longrightarrow> step D d (Dispatched (led_effect_id l)) d'"
| step_transition: "transition (dep_digest D) tenant d eid expected status t receipt failure audit_id = Inr (d', l)
    \<Longrightarrow> step D d Internal d'"
| step_claim_recovery: "claim_recovery contract (dep_recovery_policy D) tenant d eid worker t uuid = Inr (d', x)
    \<Longrightarrow> step D d Internal d'"
| step_persist_lookup: "persist_lookup (dep_digest D) contract tenant d claim identity r t = Inr d'
    \<Longrightarrow> step D d Internal d'"
| step_recover: "recover_transition (dep_digest D) contract (dep_recovery_policy D) tenant d claim t = Inr (d', l)
    \<Longrightarrow> step D d Internal d'"
| step_finish_error: "finish_error (dep_digest D) (dep_recovery_policy D) tenant d claim t failure = Inr (d', l)
    \<Longrightarrow> step D d Internal d'"
| step_finish_resume: "finish_resume (dep_recovery_policy D) tenant d claim t = Inr (d', l) \<Longrightarrow> step D d Internal d'"
| step_state: "orchestration_state tenant d cid = Inr (d', s) \<Longrightarrow> step D d Internal d'"
| step_configure: "configure tenant d cid b = Inr d' \<Longrightarrow> step D d Internal d'"
| step_poll: "poll_one (dep_digest D) tenant d key t = Inr (d', x) \<Longrightarrow> step D d Internal d'"
| step_claim_work: "claim_work (dep_digest D) (dep_lease_seconds D) tenant d key worker t token = Inr (d', x)
    \<Longrightarrow> step D d Internal d'"
| step_renew: "renew (dep_lease_seconds D) tenant d k t = Inr (d', x) \<Longrightarrow> step D d Internal d'"
| step_complete: "complete_work tenant d k t = Inr (d', x) \<Longrightarrow> step D d Internal d'"
| step_signal: "submit_signal tenant d s t = Inr (d', x) \<Longrightarrow> step D d Internal d'"
| step_begin_recovery: "begin_recovery (dep_digest D) tenant d k t1 t2 = Inr (d', x) \<Longrightarrow> step D d Internal d'"
| step_note_progress: "note_progress (dep_digest D) tenant d k before t1 t2 = Inr (d', x) \<Longrightarrow> step D d Internal d'"
| step_finish_recovery: "finish_recovery (dep_digest D) tenant d k revision reads effects progressed blocked t1 t2
    = Inr (d', x) \<Longrightarrow> step D d Internal d'"
| step_begin_effect: "begin_effect_recovery (dep_digest D) tenant d k t = Inr (d', x) \<Longrightarrow> step D d Internal d'"
| step_note_effect: "note_effect_progress (dep_digest D) tenant d k before t = Inr (d', x) \<Longrightarrow> step D d Internal d'"
| step_finish_effect: "finish_effect_recovery (dep_digest D) tenant d k revision effects progressed t = Inr (d', x)
    \<Longrightarrow> step D d Internal d'"
| step_resume: "resume_case (dep_digest D) tenant d k cid recovery fp t uuid = Inr (d', x)
    \<Longrightarrow> step D d Internal d'"
| step_start: "start_once tenant d k cid t = Inr (d', x) \<Longrightarrow> step D d Internal d'"
| step_stamp: "stamp_before tenant d k cid before t = Inr d' \<Longrightarrow> step D d Internal d'"
| step_block: "block_claimed (dep_digest D) tenant d k cid reason t = Inr d' \<Longrightarrow> step D d Internal d'"
| step_finish_run: "finish_run (dep_digest D) tenant d k cid before after report run t = Inr (d', x)
    \<Longrightarrow> step D d Internal d'"
| step_recheck: "recheck_effect (dep_digest D) policy tenant d k after t1 t2 = Inr (d', x) \<Longrightarrow> step D d Internal d'"
| step_report: "record_report (dep_report_hash D) tenant d report = Inr d' \<Longrightarrow> step D d Internal d'"
| step_close: "close_case (dep_digest D) (dep_report_hash D) evaluator reader tenant d report t = Inr (d', x)
    \<Longrightarrow> step D d (Closed (erp_case_id report)) d'"
| step_consume: "consume_report (dep_digest D) (dep_report_hash D) policy tenant d report t = Inr (d', x)
    \<Longrightarrow> step D d Internal d'"
| step_ack: "step D d Internal (ack_handoff tenant d report s)"
| step_checkpoint: "save_checkpoint tenant d run_id row = Inr d' \<Longrightarrow> step D d Internal d'"

section \<open>What every step keeps\<close>

text \<open>The frames and moves of all transactions, as one rule set.\<close>

lemma frame_cases: "same_but S d d' \<Longrightarrow> T_cases \<notin> S \<Longrightarrow> cases_moved d d'"
  by (simp add: same_but_iff cases_moved_same)

lemma frame_queue: "same_but S d d' \<Longrightarrow> T_work \<notin> S \<Longrightarrow> work_ok d \<Longrightarrow> queue_kept d d'"
  by (simp add: same_but_iff queue_kept_same)

lemma frame_ledger:
  assumes "same_but S d d'" and "T_effects \<notin> S" and "T_recovery_state \<notin> S" and "queue_kept d d'" and "ledger_ok d"
  shows "ledger_kept d d'"
  using assms by (intro ledger_keptI) (simp_all add: same_but_iff queue_kept_def)

definition moved :: "db \<Rightarrow> db \<Rightarrow> bool" where
  "moved d d' = (cases_moved d d' \<and> ledger_kept d d' \<and> (one_claim d \<longrightarrow> one_claim d'))"

lemma movedI:
  assumes "cases_moved d d'" and "queue_kept d d'" and "ledger_kept d d'"
  shows "moved d d'"
  using assms one_claim_mono [of d d'] by (auto simp: moved_def queue_kept_def)

lemma moved_frame:
  assumes "same_but S d d'" and "T_effects \<notin> S" and "T_recovery_state \<notin> S"
    and "cases_moved d d'" and "queue_kept d d'" and "ledger_ok d"
  shows "moved d d'"
  by (rule movedI [OF assms(4,5) frame_ledger [OF assms(1-3,5,6)]])

lemma moved_other:
  assumes "same_but S d d'" and "T_effects \<notin> S" and "T_recovery_state \<notin> S" and "T_cases \<notin> S" and "T_work \<notin> S"
    and "ledger_ok d"
  shows "moved d d'"
  using assms frame_cases frame_queue by (intro moved_frame [OF assms(1-3)]) (auto simp: ledger_ok_def)

lemma moved_case:
  assumes "same_but S d d'" and "T_effects \<notin> S" and "T_recovery_state \<notin> S" and "T_work \<notin> S"
    and "cases_moved d d'" and "ledger_ok d"
  shows "moved d d'"
  using assms frame_queue by (intro moved_frame [OF assms(1-3)]) (auto simp: ledger_ok_def)

lemma moved_worked:
  assumes "worked d d'" and "ledger_ok d"
  shows "moved d d'"
  using assms by (intro moved_frame [of SCHEDULING]) (auto simp: worked_def intro: cases_kept_moved)

lemma moved_ledger:
  assumes "cases_moved d d' \<and> queue_kept d d'" and "ledger_kept d d'"
  shows "moved d d'"
  using assms by (blast intro: movedI)

lemma moved_recovery:
  assumes "same_but RECOVERY d d'" and "ledger_kept d d'" and "ledger_ok d"
  shows "moved d d'"
  using assms by (intro movedI frame_cases frame_queue) (auto simp: ledger_ok_def)

lemma ledger_work: "ledger_ok d \<Longrightarrow> work_ok d"
  by (simp add: ledger_ok_def)

lemma claim_work_moved:
  assumes "claim_work digest lease tenant d key worker t token = Inr (d', x)" and ok: "ledger_ok d"
  shows "moved d d'"
proof -
  note kept = claim_work_kept [OF assms(1) ledger_work [OF ok]]
  have "ledger_kept d d'"
    using kept by (intro ledger_keptI [OF ok]) (simp_all add: same_but_iff)
  then show ?thesis using kept(3,4) by (simp add: moved_def cases_kept_moved)
qed

text \<open>The closure of a Case is the one step that makes a Case terminal.\<close>

definition closing :: "string \<Rightarrow> db \<Rightarrow> db \<Rightarrow> bool" where
  "closing cid d d' = (closes_case cid d d' \<and> ledger_kept d d' \<and> (one_claim d \<longrightarrow> one_claim d'))"

lemma close_case_moved:
  assumes "close_case digest ri evaluator reader tenant d r t = Inr (d', x)" and ok: "ledger_ok d"
  shows "moved d d' \<or> closing (erp_case_id r) d d'"
proof -
  note kept = close_case_kept [OF assms(1) ledger_work [OF ok]]
  have "ledger_kept d d'" by (rule frame_ledger [OF kept(1) _ _ kept(3) ok]) auto
  moreover have "one_claim d \<longrightarrow> one_claim d'" using one_claim_mono [of d d'] kept(3) by (auto simp: queue_kept_def)
  ultimately show ?thesis using kept(2) by (auto simp: moved_def closing_def cases_moved_same)
qed

lemma step_moved:
  assumes "step D d e d'" and ok: "ledger_ok d" and not_close: "\<And>cid. e \<noteq> Closed cid"
  shows "moved d d'"
  using assms(1)
proof cases
  case (step_world s) then show ?thesis using ok by (intro moved_other [of "{T_sim}"]) (simp_all add: same_but_iff)
next case step_create then show ?thesis by (intro moved_case [OF create_case_frame]) (auto intro: case_laws ok)
next case step_reserve then show ?thesis by (intro moved_case [OF reserve_call_frame]) (auto intro: case_laws ok)
next case step_mark_error then show ?thesis by (intro moved_other [OF mark_error_frame]) (auto intro: ok)
next case step_record then show ?thesis by (intro moved_case [OF record_call_frame]) (auto intro: case_laws ok)
next case step_recover_read then show ?thesis by (intro moved_case [OF recover_read_frame]) (auto intro: case_laws ok)
next case step_recover_owned then show ?thesis
    by (intro moved_frame [OF recover_if_owned_kept(1)]) (auto intro: recover_if_owned_kept ledger_work ok)
next case step_pause then show ?thesis by (intro moved_case [OF pause_frame]) (auto intro: case_laws ok)
next case step_pause_current then show ?thesis
    by (intro moved_frame [OF pause_if_current_kept(1)]) (auto intro: pause_if_current_kept ledger_work ok)
next case step_request then show ?thesis by (intro moved_other [OF request_approval_frame]) (auto intro: ok)
next case step_decide then show ?thesis by (intro moved_other [OF decide_approval_frame]) (auto intro: ok)
next case step_issue then show ?thesis by (intro moved_other [OF issue_frame]) (auto intro: ok)
next case step_existing then show ?thesis by (intro moved_other [OF existing_frame]) (auto intro: ok)
next case step_prepare then show ?thesis
    by (intro moved_ledger [OF prepare_moved prepare_kept]) (auto intro: ledger_work ok)
next case step_dispatch then show ?thesis
    by (intro moved_ledger [OF dispatch_prepared_moved dispatch_prepared_kept]) (auto intro: ledger_work ok)
next case step_transition then show ?thesis
    by (intro moved_ledger [OF transition_moved transition_kept]) (auto intro: ledger_work ok)
next case step_claim_recovery then show ?thesis
    by (intro moved_recovery [OF claim_recovery_frame claim_recovery_kept]) (auto intro: ok)
next case step_persist_lookup then show ?thesis by (intro moved_other [OF persist_lookup_frame]) (auto intro: ok)
next case step_recover then show ?thesis
    by (intro moved_ledger [OF recover_transition_moved(2) recover_transition_kept]) (auto intro: ledger_work ok)
next case step_finish_error then show ?thesis
    by (intro moved_ledger [OF finish_error_moved(2) finish_error_kept]) (auto intro: ledger_work ok)
next case step_finish_resume then show ?thesis
    by (intro moved_recovery [OF finish_resume_frame finish_resume_kept]) (auto intro: ok)
next case step_claim_work then show ?thesis by (auto intro: claim_work_moved [OF _ ok])
next case step_signal then show ?thesis
    by (intro moved_frame [OF submit_signal_worked(1)])
      (auto intro: submit_signal_worked cases_kept_moved ledger_work ok)
next case step_resume then show ?thesis
    by (intro moved_frame [OF resume_case_kept(1)]) (auto intro: resume_case_kept ledger_work ok)
next case step_finish_run then show ?thesis
    by (intro moved_frame [OF finish_run_kept(1)]) (auto intro: finish_run_kept ledger_work ok)
next case step_report then show ?thesis by (intro moved_other [OF record_report_frame]) (auto intro: ok)
next case step_close then show ?thesis using not_close by simp
next case step_ack then show ?thesis using ok by (auto intro: moved_other [OF ack_handoff_frame])
next case step_checkpoint then show ?thesis by (intro moved_other [OF save_checkpoint_frame]) (auto intro: ok)
qed (auto intro!: moved_worked [OF _ ok] intro: work_laws ledger_work [OF ok])

section \<open>Who writes the protected tables\<close>

text \<open>
  Calls, Evidence, intents, approvals and capabilities are written by few transactions only; every
  other step leaves them alone.
\<close>

abbreviation PROTECTED :: "table set" where
  "PROTECTED \<equiv> {T_calls, T_evidence, T_origins, T_intents, T_approvals, T_capabilities, T_signatures}"

lemma worked_unprotected: "worked d d' \<Longrightarrow> same_but (- PROTECTED) d d'"
  by (auto simp: worked_def intro: same_but_mono)

lemma step_protected:
  assumes "step D d e d'" and ok: "ledger_ok d"
  obtains (other) "same_but (- PROTECTED) d d'"
  | (reserve) tenant cid tool query p t1 t2 call_id x where "e = Tool_called cid"
      "reserve_call tenant d cid tool query p t1 t2 call_id = Inr (d', x)"
  | (mark) tenant cid call_id where "mark_error tenant d cid call_id = Inr d'"
  | (publish) tenant cid call_id o1 recovery t ids d1 where
      "record_call (dep_claim_hash D) (dep_observation_hash D) tenant d cid call_id o1 recovery t = Inr (d1, ids)"
      "same_but {T_read_recovery, T_work, T_orchestration_audit} d1 d'"
  | (request) tenant r revision audit_id x where "request_approval tenant d r revision audit_id = Inr (d', x)"
  | (decide) tenant decision t audit_id x where "decide_approval tenant d decision t audit_id = Inr (d', x)"
  | (issue) tenant i cap t signature audit_id where
      "issue (dep_digest D) tenant d i cap t signature audit_id = Inr d'"
  | (existing) tenant cap t x where "existing (dep_digest D) tenant d cap t = Inr (d', x)"
  | (prepare) tenant cap t wall correlation audit_id l fresh where
      "prepare (dep_digest D) tenant d cap t wall correlation audit_id = Inr (d', l, fresh)"
proof -
  note frame = same_but_mono [THEN other]
  note wok = ledger_work [OF ok]
  have recovered: thesis
    if "recover_read (dep_claim_hash D) (dep_observation_hash D) tenant d cid call_id t1 t2 uuid = Inr (d1, x)"
      and same: "same_but {T_work, T_orchestration_audit} d1 d'" for tenant cid call_id t1 t2 uuid d1 x
    using that(1)
  proof (cases rule: recover_read_Inr)
    case (1 d2)
    have s: "same_but {T_read_recovery, T_work, T_orchestration_audit} d2 d'"
      using 1(1) same by (simp add: same_but_iff)
    from 1(2) show thesis
    proof (elim disjE exE)
      assume "d2 = d" with s show thesis by (intro frame) auto
    qed (rule publish [OF _ s])
  qed
  from assms(1) show thesis
  proof cases
    case step_world then show thesis by (intro other) (simp add: same_but_iff)
  next case step_create then show thesis by (intro frame [OF create_case_frame]) auto
  next case step_reserve then show thesis by (intro reserve)
  next case step_mark_error then show thesis by (intro mark)
  next case step_record then show thesis by (elim publish [OF _ same_but_refl])
  next case step_recover_read then show thesis by (elim recovered [OF _ same_but_refl])
  next case step_recover_owned then show thesis
      by (auto elim!: recover_if_owned_Inr [OF _ wok] intro: recovered)
  next case step_pause then show thesis by (intro frame [OF pause_frame]) auto
  next case step_pause_current then show thesis by (intro frame [OF pause_if_current_kept(1) [OF _ wok]]) auto
  next case step_request then show thesis by (intro request)
  next case step_decide then show thesis by (intro decide)
  next case step_issue then show thesis by (intro issue)
  next case step_existing then show thesis by (intro existing)
  next case step_prepare then show thesis by (intro prepare)
  next case step_dispatch then show thesis by (intro frame [OF dispatch_prepared_frame [OF _ wok]]) auto
  next case step_transition then show thesis by (intro frame [OF transition_frame [OF _ wok]]) auto
  next case step_claim_recovery then show thesis by (intro frame [OF claim_recovery_frame]) auto
  next case step_persist_lookup then show thesis by (intro frame [OF persist_lookup_frame]) auto
  next case step_recover then show thesis by (intro frame [OF recover_transition_moved(1) [OF _ wok]]) auto
  next case step_finish_error then show thesis by (intro frame [OF finish_error_moved(1) [OF _ wok]]) auto
  next case step_finish_resume then show thesis by (intro frame [OF finish_resume_frame]) auto
  next case step_claim_work then show thesis by (intro frame [OF claim_work_kept(2) [OF _ wok]]) auto
  next case step_signal then show thesis by (intro frame [OF submit_signal_worked(1) [OF _ wok]]) auto
  next case step_resume then show thesis by (intro frame [OF resume_case_kept(1) [OF _ wok]]) auto
  next case step_finish_run then show thesis by (intro frame [OF finish_run_kept(1) [OF _ wok]]) auto
  next case step_report then show thesis by (intro frame [OF record_report_frame]) auto
  next case step_close then show thesis by (intro frame [OF close_case_kept(1) [OF _ wok]]) auto
  next case step_ack then show thesis
      by (auto intro!: other same_but_mono [OF ack_handoff_frame])
  next case step_checkpoint then show thesis by (intro frame [OF save_checkpoint_frame]) auto
  qed (rule other [OF worked_unprotected], erule work_laws, rule wok)+
qed

section \<open>Runs\<close>

inductive run :: "deployment \<Rightarrow> db \<Rightarrow> event list \<Rightarrow> db \<Rightarrow> bool" for D where
  run_stop: "run D d [] d"
| run_step: "step D d e d1 \<Longrightarrow> run D d1 es d' \<Longrightarrow> run D d (e # es) d'"

inductive_simps run_Nil [simp]: "run D d [] d'"
inductive_simps run_Cons: "run D d (e # es) d'"
inductive_cases step_dispatchedE: "step D d (Dispatched eid) d'"
inductive_cases step_closedE: "step D d (Closed cid) d'"
inductive_cases step_calledE: "step D d (Tool_called cid) d'"

definition moves :: "db \<Rightarrow> db \<Rightarrow> bool" where
  "moves d d' = (ledger_ok d \<and> (moved d d' \<or> (\<exists>cid. closing cid d d')))"

text \<open>Every run from a well-formed ledger is a sequence of \<open>moves\<close>.\<close>

lemma step_moves:
  assumes "step D d e d'" and ok: "ledger_ok d"
  shows "moves d d'"
proof (cases "\<exists>cid. e = Closed cid")
  case True
  then obtain cid where "step D d (Closed cid) d'" using assms(1) by blast
  then show ?thesis
  proof (rule step_closedE)
    fix evaluator reader tenant report t x
    assume "close_case (dep_digest D) (dep_report_hash D) evaluator reader tenant d report t = Inr (d', x)"
    from close_case_moved [OF this ok] show ?thesis using ok by (auto simp: moves_def)
  qed
next
  case False
  with step_moved [OF assms] show ?thesis using ok by (simp add: moves_def)
qed

lemma moves_ledger: "moves d d' \<Longrightarrow> ledger_kept d d'"
  by (auto simp: moves_def moved_def closing_def)

lemma moves_ok: "moves d d' \<Longrightarrow> ledger_ok d'"
  using moves_ledger by (auto simp: ledger_kept_def)

lemma run_moves:
  assumes "run D d es d'" and "ledger_ok d"
  shows "moves\<^sup>*\<^sup>* d d' \<and> ledger_ok d'"
  using assms
proof (induction rule: run.induct)
  case (run_step d e d1 es d')
  from step_moves [OF run_step.hyps(1) run_step.prems] have m: "moves d d1" .
  with run_step.IH [OF moves_ok [OF m]] show ?case by (auto intro: converse_rtranclp_into_rtranclp)
qed simp

section \<open>The status machines of the deployment\<close>

lemma ledger_moved_Some:
  assumes "ledger_moved d d'" and "tget k (db_effects d) = Some r"
  obtains r' where "tget k (db_effects d') = Some r'" "row_moved r r'"
  using assms unfolding ledger_moved_def by (auto dest!: spec [of _ k])

lemma cases_moved_Some:
  assumes "cases_moved d d'" and "tget k (db_cases d) = Some r"
  obtains r' where "tget k (db_cases d') = Some r'" "case_moved r r'"
  using assms unfolding cases_moved_def by (auto dest!: spec [of _ k])

interpretation effects: status_machine moves "\<lambda>d k. tget k (db_effects d)" row_moved
proof
  fix d d' k a
  assume "moves d d'" and "tget k (db_effects d) = Some a"
  then show "\<exists>b. tget k (db_effects d') = Some b \<and> (b = a \<or> row_moved a b)"
    by (auto simp: ledger_kept_def dest!: moves_ledger elim!: ledger_moved_Some)
qed

text \<open>A Case row as its own status: it moves, or it is closed.\<close>

definition case_step :: "case_row \<Rightarrow> case_row \<Rightarrow> bool" where
  "case_step r r' = (case_moved r r' \<or> case_closed r r')"

interpretation lifecycle: status_machine moves "\<lambda>d k. tget k (db_cases d)" case_step
proof
  fix d d' k a
  assume "moves d d'" and "tget k (db_cases d) = Some a"
  then show "\<exists>b. tget k (db_cases d') = Some b \<and> (b = a \<or> case_step a b)"
    by (auto simp: moves_def moved_def closing_def closes_case_def case_step_def elim!: cases_moved_Some)
qed

lemma case_step_terminal: "is_terminal (cr_status r) \<Longrightarrow> case_step r r' \<Longrightarrow> r' = r"
  by (auto simp: case_step_def case_moved_def case_closed_def)

text \<open>The history of a Case row: unchanged, or at a later revision with the same binding.\<close>

definition case_history :: "case_row \<Rightarrow> case_row \<Rightarrow> bool" where
  "case_history r r' = (r' = r \<or> (\<not> is_terminal (cr_status r) \<and> cr_updated_at r < cr_updated_at r'
     \<and> same_binding r r' \<and> cr_used_tool_calls r \<le> cr_used_tool_calls r'
     \<and> (cr_used_tool_calls r' = cr_used_tool_calls r \<or> cr_used_tool_calls r' \<le> cr_max_tool_calls r)))"

lemma case_step_history:
  assumes "case_step r r'"
  shows "case_history r r'"
  using assms unfolding case_step_def
proof
  assume "case_moved r r'" then show ?thesis by (auto simp: case_moved_def case_history_def)
next
  assume c: "case_closed r r'"
  then have eq: "r' = r\<lparr> cr_status := Case_CLOSED_VERIFIED, cr_updated_at := cr_updated_at r' \<rparr>"
    by (simp add: case_closed_def)
  have "same_binding r r'" unfolding same_binding_def by (subst (1 2 3 4 5) eq) simp
  moreover have "cr_used_tool_calls r' = cr_used_tool_calls r" by (subst eq) simp
  ultimately show ?thesis using c by (auto simp: case_history_def case_closed_def)
qed

lemma case_history_refl [simp]: "case_history r r"
  by (simp add: case_history_def)

lemma case_history_trans:
  assumes "case_history a b" and "case_history b c"
  shows "case_history a c"
proof (cases "b = a \<or> c = b")
  case False
  with assms have h: "\<not> is_terminal (cr_status a)" "cr_updated_at a < cr_updated_at b" "same_binding a b"
      "cr_updated_at b < cr_updated_at c" "same_binding b c"
      "cr_used_tool_calls a \<le> cr_used_tool_calls b" "cr_used_tool_calls b \<le> cr_used_tool_calls c"
      "cr_used_tool_calls b = cr_used_tool_calls a \<or> cr_used_tool_calls b \<le> cr_max_tool_calls a"
      "cr_used_tool_calls c = cr_used_tool_calls b \<or> cr_used_tool_calls c \<le> cr_max_tool_calls b"
    by (auto simp: case_history_def)
  moreover have "same_binding a c" by (rule same_binding_trans [OF h(3,5)])
  moreover have "cr_max_tool_calls b = cr_max_tool_calls a" by (rule same_binding_max [OF h(3)])
  ultimately show ?thesis unfolding case_history_def by linarith
qed (use assms in auto)

lemma case_history_step: "case_history a b \<Longrightarrow> case_step b c \<Longrightarrow> case_history a c"
  by (blast intro: case_history_trans case_step_history)

lemma run_case_history:
  assumes "run D d es d'" and "ledger_ok d" and "tget cid (db_cases d) = Some r"
  obtains r' where "tget cid (db_cases d') = Some r'" and "case_history r r'"
proof -
  have steps: "moves\<^sup>*\<^sup>* d d'" using run_moves [OF assms(1,2)] by blast
  from lifecycle.run_invariant [OF steps assms(3), where P = "case_history r"] case_history_step [of r] that
  show thesis by auto
qed

end
