(* ===== verification/Safety.thy ===== *)
theory Safety
  imports System
begin

text \<open>
  What the deployment guarantees over every run: an effect is dispatched at most once and only under
  a live authorization, its status follows the ledger's state machine, a closed Case is frozen, the
  budget of tool calls is never exceeded and a Case has at most one claimed work item.
\<close>

section \<open>A sample deployment\<close>

text \<open>An open Case with one authorized administrative intent; the hash is constant, which is enough for one row a table.\<close>

definition sample_hash :: "jv \<Rightarrow> string" where
  "sample_hash j = ''H''"

definition sample_deployment :: deployment where
  "sample_deployment = \<lparr> dep_digest = sample_hash, dep_claim_hash = sample_hash,
     dep_observation_hash = (\<lambda>o1. ob_observation_id o1), dep_token_hash = (\<lambda>t. t),
     dep_report_hash = (\<lambda>r. vs_verification_snapshot_id (erp_snapshot r)),
     dep_recovery_policy = \<lparr> rpo_grace_seconds = 30, rpo_lease_seconds = 60, rpo_max_attempts = 3,
       rpo_backoff_seconds = [30] \<rparr>,
     dep_lease_seconds = 60 \<rparr>"

definition sample_case_row :: case_row where
  "sample_case_row = \<lparr> cr_tenant_id = ''tenant'', cr_simulation_id = ''sim'', cr_grant_hash = ''token'',
     cr_payload = sample_case, cr_status = Case_INVESTIGATING, cr_max_tool_calls = 10,
     cr_used_tool_calls = 0, cr_updated_at = 0 \<rparr>"

definition sample_intent :: remediation_intent where
  "sample_intent = \<lparr> ri_intent_id = ''I-1'', ri_case_id = ''CASE-1'', ri_tenant_id = ''tenant'',
     ri_internal_order_id = ''JD-1'', ri_action_type = Act_CREATE_RECONCILIATION_TASK,
     ri_risk_level = Risk_L1_ADMINISTRATIVE,
     ri_target = \<lparr> rtg_case_id = ''CASE-1'', rtg_tenant_id = ''tenant'', rtg_internal_order_id = ''JD-1'',
       rtg_callback_event_ref = None, rtg_message_ref = None, rtg_delivery_ref = None \<rparr>,
     ri_supporting_evidence_refs = [], ri_snapshot_id = ''S-1'', ri_evidence_hash = ''E-1'',
     ri_catalog_version = ''2'', ri_policy_version = ''2'', ri_preflight_fingerprint = ''P-1'',
     ri_requires_approval = False, ri_requires_capability = True \<rparr>"

definition sample_capability :: execution_capability where
  "sample_capability = \<lparr> xc_capability_id = ''CAP-1'', xc_intent_id = ''I-1'', xc_tenant_id = ''tenant'',
     xc_case_id = ''CASE-1'', xc_internal_order_id = ''JD-1'',
     xc_action_type = Act_CREATE_RECONCILIATION_TASK, xc_target_hash = ''T-1'', xc_payload_hash = ''H-1'',
     xc_snapshot_id = ''S-1'', xc_evidence_hash = ''E-1'', xc_preflight_fingerprint = ''P-1'',
     xc_approval_id = None, xc_policy_version = ''2'', xc_catalog_version = ''2'',
     xc_authorization_policy_version = ''1'', xc_expected_case_revision = 0, xc_issued_at = 0,
     xc_expires_at = 1000 \<rparr>"

definition sample_db :: db where
  "sample_db = empty_db\<lparr> db_cases := [(''CASE-1'', sample_case_row)],
     db_intents := [(''I-1'', \<lparr> ain_case_id = ''CASE-1'', ain_payload = sample_intent \<rparr>)],
     db_capabilities := [(''CAP-1'', \<lparr> cap_intent_id = ''I-1'', cap_payload = sample_capability,
       cap_used_effect_id = None \<rparr>)] \<rparr>"

definition sample_prepared :: "error + db \<times> side_effect_ledger \<times> bool" where
  "sample_prepared = prepare sample_hash ''tenant'' sample_db sample_capability 10 10 ''corr'' ''A-1''"

definition sample_dispatched :: "error + db \<times> side_effect_ledger" where
  "sample_dispatched = dispatch_prepared sample_hash ''tenant'' (fst (projr sample_prepared)) sample_capability
     11 None ''A-2''"

definition sample_work :: "error + db \<times> case_work_item" where
  "sample_work = create_work_item sample_hash sample_db ''CASE-1''
     (work_spec Work_VERIFICATION_REQUIRED Why_EVALUATION_INCONCLUSIVE ''R-1'' Trig_EVALUATION 0)"

definition sample_reserved :: "error + db \<times> (error + case_rec) \<times> string" where
  "sample_reserved = reserve_call ''tenant'' sample_db ''CASE-1'' Tool_PAYMENT sample_query None 5 6 ''call-1''"

abbreviation prepared_db :: db where
  "prepared_db \<equiv> fst (projr sample_prepared)"

abbreviation dispatched_db :: db where
  "dispatched_db \<equiv> fst (projr sample_dispatched)"

abbreviation reserved_db :: db where
  "reserved_db \<equiv> fst (projr sample_reserved)"

abbreviation sample_effect :: string where
  "sample_effect \<equiv> effect_key sample_hash sample_capability"

lemma sample_prepared_Inr: "\<not> isl sample_prepared"
  by code_simp

lemma sample_dispatched_Inr: "\<not> isl sample_dispatched"
  by code_simp

lemma sample_reserved_Inr: "\<not> isl sample_reserved"
  by code_simp

lemma sample_effect_id: "led_effect_id (snd (projr sample_dispatched)) = sample_effect"
  by code_simp

lemma sample_entry: "map_option eff_status (tget sample_effect (db_effects prepared_db)) = Some Eff_PREPARED"
  by code_simp

lemma sample_case_prepared: "tget ''CASE-1'' (db_cases prepared_db) = Some (sample_case_row\<lparr> cr_updated_at := 10 \<rparr>)"
  by code_simp

lemma sample_case_reserved: "\<exists>r. tget ''CASE-1'' (db_cases reserved_db) = Some r"
proof -
  have "tget ''CASE-1'' (db_cases reserved_db) \<noteq> None" by code_simp
  then show ?thesis by simp
qed

lemma sample_db_ok [simp]: "ledger_ok sample_db"
  by (simp add: ledger_ok_def work_ok_def sample_db_def empty_db_def)

lemma prepare_step: "step sample_deployment sample_db Internal prepared_db"
  using sample_prepared_Inr
  by (cases sample_prepared) (auto simp: sample_prepared_def sample_deployment_def intro!: step_prepare)

lemma dispatch_step: "step sample_deployment prepared_db (Dispatched sample_effect) dispatched_db"
  using sample_dispatched_Inr unfolding sample_effect_id [symmetric]
  by (cases sample_dispatched) (auto simp: sample_dispatched_def sample_deployment_def intro!: step_dispatch)

lemma reserve_step: "step sample_deployment sample_db (Tool_called ''CASE-1'') reserved_db"
  using sample_reserved_Inr by (cases sample_reserved) (auto simp: sample_reserved_def intro!: step_reserve)

lemma prepared_ok: "ledger_ok prepared_db"
  using run_moves [of sample_deployment sample_db "[Internal]" prepared_db] prepare_step by (simp add: run_Cons)

definition work_db :: db where
  "work_db = fst (projr sample_work)"

definition sample_key :: string where
  "sample_key = wi_work_item_id (snd (projr sample_work))"

definition sample_claimed :: "error + db \<times> work_claim option" where
  "sample_claimed = claim_work sample_hash 60 ''tenant'' work_db sample_key ''worker-1'' 10 ''lease-1''"

abbreviation claimed_db :: db where
  "claimed_db \<equiv> fst (projr sample_claimed)"

lemma sample_claimed_Inr: "\<not> isl sample_claimed"
  by code_simp

lemma sample_claimed_row: "map_option wir_status (tget sample_key (db_work claimed_db)) = Some Ws_CLAIMED"
  by code_simp

lemma claim_step: "step sample_deployment work_db Internal claimed_db"
  using sample_claimed_Inr
  by (cases sample_claimed) (auto simp: sample_claimed_def sample_deployment_def intro!: step_claim_work)

lemma sample_work_Inr: "\<not> isl sample_work"
  by code_simp

lemma work_db_kept: "ledger_kept sample_db work_db \<and> queue_kept sample_db work_db"
proof -
  have ok: "work_ok sample_db" using sample_db_ok by (rule ledger_work)
  have "scheduled sample_db work_db"
    using sample_work_Inr unfolding work_db_def
    by (cases sample_work) (auto simp: sample_work_def intro: create_work_item_scheduled)
  then show ?thesis
    using ledger_kept_scheduled [OF sample_db_ok] scheduled_worked [OF _ ok] by (auto simp: worked_def)
qed

definition closed_db :: db where
  "closed_db = sample_db\<lparr> db_cases := [(''CASE-1'', sample_case_row\<lparr> cr_status := Case_CLOSED_VERIFIED \<rparr>)] \<rparr>"

lemma closed_db_ok: "ledger_ok closed_db"
  by (rule ledger_ok_cong [OF sample_db_ok]) (simp_all add: closed_db_def sample_db_def empty_db_def work_ok_def)

lemma sample_run: "run sample_deployment sample_db [Internal, Dispatched sample_effect] dispatched_db"
  using prepare_step dispatch_step by (auto simp: run_Cons)

section \<open>Effects\<close>

lemma same_effect_trans: "same_effect a b \<Longrightarrow> same_effect b c \<Longrightarrow> same_effect a c"
  by (cases a; cases b; cases c) (simp add: same_effect_def)

text \<open>The history of one entry: a path of the status machine that never changes the effect.\<close>

definition same_keys :: "effect_row \<Rightarrow> effect_row \<Rightarrow> bool" where
  "same_keys r r' = (eff_idempotency_key r' = eff_idempotency_key r
     \<and> eff_capability_id r' = eff_capability_id r \<and> eff_case_id r' = eff_case_id r)"

definition effect_history :: "effect_row \<Rightarrow> effect_row \<Rightarrow> bool" where
  "effect_history r r' = (effect_edge\<^sup>*\<^sup>* (eff_status r) (eff_status r')
     \<and> same_effect (eff_payload r) (eff_payload r') \<and> same_keys r r')"

lemma row_movedD:
  assumes "row_moved r r'"
  shows "r' = r \<or> (effect_edge (eff_status r) (eff_status r') \<and> same_effect (eff_payload r) (eff_payload r')
    \<and> same_keys r r')"
proof (cases "r' = r")
  case False
  with assms have eq: "r' = r\<lparr> eff_status := eff_status r', eff_payload := eff_payload r' \<rparr>"
    and moved: "effect_edge (eff_status r) (eff_status r')" "same_effect (eff_payload r) (eff_payload r')"
    unfolding row_moved_def by blast+
  have "eff_idempotency_key r' = eff_idempotency_key r" by (subst eq) simp
  moreover have "eff_capability_id r' = eff_capability_id r" by (subst eq) simp
  moreover have "eff_case_id r' = eff_case_id r" by (subst eq) simp
  ultimately have "same_keys r r'" by (simp add: same_keys_def)
  with moved show ?thesis by blast
qed blast

lemma effect_history_refl [simp]: "effect_history r r"
  by (simp add: effect_history_def same_effect_def same_keys_def)

lemma effect_history_moved: "effect_history a b \<Longrightarrow> row_moved b c \<Longrightarrow> effect_history a c"
  by (auto dest!: row_movedD simp: effect_history_def same_keys_def
      intro: rtranclp.rtrancl_into_rtrancl same_effect_trans)

text \<open>
  C10. The ledger is a state machine over every run: an entry is never deleted or rebound, its status
  follows the edges of \<open>effect_edge\<close>, and an entry whose outcome is known (applied, confirmed failed
  or no operation) is never written again.
\<close>

theorem effect_follows_status_machine:
  assumes "run D d es d'" and "ledger_ok d" and "tget eid (db_effects d) = Some r"
  shows "\<exists>r'. tget eid (db_effects d') = Some r' \<and> effect_history r r'
    \<and> (eff_status r \<in> {Eff_APPLIED, Eff_FAILED_CONFIRMED, Eff_NOOP} \<longrightarrow> r' = r)"
proof -
  have steps: "moves\<^sup>*\<^sup>* d d'" using run_moves [OF assms(1,2)] by blast
  obtain r' where r': "tget eid (db_effects d') = Some r'" and "effect_history r r'"
    using effects.run_invariant [OF steps assms(3), where P = "effect_history r"]
    by (auto intro: effect_history_moved)
  moreover have "r' = r" if final: "eff_status r \<in> {Eff_APPLIED, Eff_FAILED_CONFIRMED, Eff_NOOP}"
  proof -
    have "y = r" if "row_moved r y" for y using row_movedD [OF that] final by auto
    with effects.run_invariant [OF steps assms(3), where P = "\<lambda>x. x = r"] r' show ?thesis by auto
  qed
  ultimately show ?thesis by blast
qed

theorem effect_follows_status_machine_witness:
  "\<exists>r r'. tget sample_effect (db_effects prepared_db) = Some r \<and> eff_status r = Eff_PREPARED
     \<and> tget sample_effect (db_effects dispatched_db) = Some r' \<and> effect_history r r'"
proof -
  obtain r where r: "tget sample_effect (db_effects prepared_db) = Some r" "eff_status r = Eff_PREPARED"
    using sample_entry by auto
  have "run sample_deployment prepared_db [Dispatched sample_effect] dispatched_db"
    using dispatch_step by (simp add: run_Cons)
  from effect_follows_status_machine [OF this prepared_ok r(1)] r show ?thesis by blast
qed

text \<open>How many more times an effect may still be dispatched.\<close>

definition dispatches_left :: "db \<Rightarrow> string \<Rightarrow> nat" where
  "dispatches_left d eid = (case tget eid (db_effects d) of None \<Rightarrow> 1
     | Some r \<Rightarrow> if eff_status r = Eff_PREPARED then 1 else 0)"

lemma dispatch_writes:
  assumes "dispatch_prepared digest tenant d cap t claim audit_id = Inr (d', l)" and ok: "ledger_ok d"
  obtains r r' where "tget (led_effect_id l) (db_effects d) = Some r" and "eff_status r = Eff_PREPARED"
    and "tget (led_effect_id l) (db_effects d') = Some r'" and "eff_status r' = Eff_DISPATCHED"
    and "eff_payload r' = l" and "led_attempt_count l = 1"
  using assms(1)
proof (cases rule: dispatch_prepared_Inr)
  case (1 c cap_row i eid row d1)
  have id: "led_effect_id l = eid" using ledger_okD(1) [OF ok 1(5)] by (simp add: 1(9) effect_row_ok_def Let_def)
  from 1(10) have st: "eff_status row = Eff_PREPARED"
    and sync: "synchronize_effect digest (write_effect eid (row\<lparr> eff_status := led_status l,
      eff_payload := l \<rparr>) d) l = Inr d1"
    by (auto simp: cas_effect_def 1(5) split: if_splits)
  have now: "tget (led_effect_id l) (db_effects d') = Some (row\<lparr> eff_status := led_status l, eff_payload := l \<rparr>)"
    using ledger.store_publish [OF sync ledger_work [OF ok], of eid] by (simp add: 1(11) log_authorization_def id)
  have "tget (led_effect_id l) (db_effects d) = Some row" by (simp add: id 1(5))
  from that [OF this st now] show thesis by (simp add: 1(9))
qed

lemma dispatches_left_moves:
  assumes "moves d d'" shows "dispatches_left d' eid \<le> dispatches_left d eid"
proof (cases "tget eid (db_effects d)")
  case (Some r)
  then obtain r' where "tget eid (db_effects d') = Some r'" "r' = r \<or> row_moved r r'"
    using effects.step_edge [OF assms] by blast
  moreover have "\<not> effect_edge s Eff_PREPARED" for s by (cases s) auto
  ultimately show ?thesis using Some by (auto simp: dispatches_left_def dest!: row_movedD)
qed (auto simp: dispatches_left_def split: option.split)

lemma dispatches_left_step:
  assumes "step D d e d'" and ok: "ledger_ok d"
  shows "(if e = Dispatched eid then 1 else 0) + dispatches_left d' eid \<le> dispatches_left d eid"
proof (cases "e = Dispatched eid")
  case True
  obtain tenant cap t claim audit_id l where id: "eid = led_effect_id l"
    and run: "dispatch_prepared (dep_digest D) tenant d cap t claim audit_id = Inr (d', l)"
    using assms(1) [unfolded True] by (rule step_dispatchedE) simp
  from run ok show ?thesis by (rule dispatch_writes) (simp add: dispatches_left_def True id)
qed (use dispatches_left_moves [OF step_moves [OF assms]] in simp)

lemma run_dispatches:
  assumes "run D d es d'" and "ledger_ok d"
  shows "count_list es (Dispatched eid) + dispatches_left d' eid \<le> dispatches_left d eid"
  using assms
proof (induction rule: run.induct)
  case (run_step d e d1 es d')
  from dispatches_left_step [OF run_step.hyps(1) run_step.prems, of eid]
    run_step.IH [OF moves_ok [OF step_moves [OF run_step.hyps(1) run_step.prems]]]
  show ?case by (auto split: if_splits)
qed simp

text \<open>
  C1. At most one dispatch per effect, over every interleaving of workers, retries, recoveries and
  crashes: once an effect has been dispatched, or if it was past PREPARED when the run began, the
  external gateway is never called for it again.
\<close>

theorem dispatched_at_most_once:
  assumes "run D d es d'" and "ledger_ok d"
  shows "count_list es (Dispatched eid) + dispatches_left d' eid \<le> dispatches_left d eid"
  by (rule run_dispatches [OF assms])

theorem dispatched_at_most_once_witness:
  "count_list [Internal, Dispatched sample_effect] (Dispatched sample_effect) = 1
   \<and> dispatches_left dispatched_db sample_effect = 0"
  using dispatched_at_most_once [OF sample_run sample_db_ok, of sample_effect]
  by (simp add: dispatches_left_def sample_db_def empty_db_def)

section \<open>Authorization\<close>

lemma check_approval_Inr:
  assumes "check_approval d i aid now = Inr ()" and "ri_requires_approval i"
  obtains a row where "aid = Some a" and "tget a (db_approvals d) = Some row" and "apr_status row = Apv_APPROVED"
    and "now < ar_expires_at (apr_payload row)" and "ar_intent (apr_payload row) = i"
  using assms
  by (auto simp: check_approval_def approval_from_row_def Let_def
      split: option.splits if_splits approval_status.splits)

lemma check_capability_Inr:
  assumes "check_capability tenant d cap now = Inr (row, i)"
  shows "xc_tenant_id cap = tenant" and "xc_issued_at cap \<le> now" and "now < xc_expires_at cap"
    and "tget (xc_capability_id cap) (db_capabilities d) = Some row" and "cap_payload row = cap"
    and "get_intent tenant d (xc_intent_id cap) = Inr i" and "check_approval d i (xc_approval_id cap) now = Inr ()"
  using assms by (auto simp: check_capability_def bindE_Inr_iff split: option.splits if_splits)



section \<open>Cases\<close>

text \<open>
  C11. A terminal Case is frozen: over every later run no transaction of any service changes its row,
  neither status nor revision nor budget.
\<close>

theorem terminal_case_frozen:
  assumes "run D d es d'" and "ledger_ok d" and "tget cid (db_cases d) = Some r" and "is_terminal (cr_status r)"
  shows "tget cid (db_cases d') = Some r"
proof -
  from assms(1-3) obtain r' where "tget cid (db_cases d') = Some r'" "case_history r r'"
    by (rule run_case_history)
  with assms(4) show ?thesis by (auto simp: case_history_def)
qed

theorem terminal_case_frozen_witness:
  "tget ''CASE-1'' (db_cases (closed_db\<lparr> db_sim := db_sim empty_db \<rparr>))
   = Some (sample_case_row\<lparr> cr_status := Case_CLOSED_VERIFIED \<rparr>)"
proof (rule terminal_case_frozen [OF _ closed_db_ok])
  show "run sample_deployment closed_db [Internal] (closed_db\<lparr> db_sim := db_sim empty_db \<rparr>)"
    by (auto simp: run_Cons intro: step_world)
qed (simp_all add: closed_db_def tget_def)

text \<open>
  C12. A revision names one state of the Case: if a Case has the same \<open>updated_at\<close> before and after a
  run, its whole row is the same, and otherwise the revision has grown. This is what makes the
  optimistic checks on the expected revision sound, without an ABA problem.
\<close>

theorem revision_identifies_case:
  assumes "run D d es d'" and "ledger_ok d"
    and "tget cid (db_cases d) = Some r" and "tget cid (db_cases d') = Some r'"
  shows "cr_updated_at r \<le> cr_updated_at r' \<and> (cr_updated_at r' = cr_updated_at r \<longrightarrow> r' = r)"
proof -
  from assms(1-3) obtain r1 where "tget cid (db_cases d') = Some r1" "case_history r r1"
    by (rule run_case_history)
  with assms(4) show ?thesis by (auto simp: case_history_def)
qed

theorem revision_identifies_case_witness:
  "\<exists>r. tget ''CASE-1'' (db_cases sample_db) = Some r \<and> cr_updated_at r \<le> 10"
proof -
  have r: "tget ''CASE-1'' (db_cases sample_db) = Some sample_case_row"
    by (simp add: sample_db_def tget_def)
  have "run sample_deployment sample_db [Internal] prepared_db" using prepare_step by (simp add: run_Cons)
  from revision_identifies_case [OF this sample_db_ok r sample_case_prepared] r show ?thesis by simp
qed

text \<open>
  C5. Only the verified closure makes a Case terminal: a step that is not a closure of this Case leaves
  an open Case open.
\<close>

theorem only_closure_closes:
  assumes "step D d e d'" and "ledger_ok d" and "tget cid (db_cases d) = Some r"
    and "\<not> is_terminal (cr_status r)" and "e \<noteq> Closed cid"
  shows "\<exists>r'. tget cid (db_cases d') = Some r' \<and> \<not> is_terminal (cr_status r')"
proof (cases "\<exists>c. e = Closed c")
  case True
  then obtain c where c: "e = Closed c" "c \<noteq> cid" using assms(5) by auto
  from assms(1) [unfolded c] show ?thesis
  proof (rule step_closedE)
    fix evaluator reader tenant report t x
    assume "c = erp_case_id report"
      and "close_case (dep_digest D) (dep_report_hash D) evaluator reader tenant d report t = Inr (d', x)"
    with close_case_kept(2) [OF _ ledger_work [OF assms(2)]] have "d' = d \<or> closes_case c d d'" by blast
    then show ?thesis using c(2) assms(3,4) by (auto simp: closes_case_def)
  qed
next
  case False
  then have "moved d d'" by (intro step_moved [OF assms(1,2)]) blast
  then obtain r' where "tget cid (db_cases d') = Some r'" "case_moved r r'"
    using cases_moved_Some [OF _ assms(3)] by (auto simp: moved_def)
  with assms(4) show ?thesis by (auto simp: case_moved_def)
qed

theorem only_closure_closes_witness:
  "\<exists>r'. tget ''CASE-1'' (db_cases prepared_db) = Some r' \<and> \<not> is_terminal (cr_status r')"
  by (rule only_closure_closes [OF prepare_step sample_db_ok, where r = sample_case_row])
    (simp_all add: sample_db_def sample_case_row_def tget_def)

section \<open>Work and budgets\<close>

lemma ledger_ok_empty [simp]: "ledger_ok empty_db"
  by (simp add: ledger_ok_def work_ok_def empty_db_def)

lemma one_claim_empty [simp]: "one_claim empty_db"
  by (simp add: one_claim_def claims_in_def empty_db_def)

lemma one_claim_moves: "moves d d' \<Longrightarrow> one_claim d \<Longrightarrow> one_claim d'"
  by (auto simp: moves_def moved_def closing_def)

text \<open>
  C6. Workers exclude each other: over every run, at most one work item of a Case is claimed at any
  time, whatever the workers, their crashes and the expiry of their leases.
\<close>

theorem one_claimed_work_per_case:
  assumes "run D d0 es d" and "ledger_ok d0" and "one_claim d0"
    and "tget k (db_work d) = Some r" and "wir_status r = Ws_CLAIMED"
    and "tget k' (db_work d) = Some r'" and "wir_status r' = Ws_CLAIMED" and "wir_case_id r' = wir_case_id r"
  shows "k' = k"
proof -
  have "moves\<^sup>*\<^sup>* d0 d" using run_moves [OF assms(1,2)] by simp
  then have one: "one_claim d" by (induction rule: rtranclp_induct) (auto intro: one_claim_moves assms(3))
  have "(k, wir_case_id r) \<in> claims_in d" "(k', wir_case_id r) \<in> claims_in d"
    using assms(4-) by (simp_all add: claims_in_def)
  with one show ?thesis unfolding one_claim_def by blast
qed

theorem one_claimed_work_per_case_witness:
  "\<exists>r. tget sample_key (db_work claimed_db) = Some r \<and> wir_status r = Ws_CLAIMED
     \<and> (\<forall>k' r'. tget k' (db_work claimed_db) = Some r' \<and> wir_status r' = Ws_CLAIMED
          \<and> wir_case_id r' = wir_case_id r \<longrightarrow> k' = sample_key)"
proof -
  obtain r where r: "tget sample_key (db_work claimed_db) = Some r" "wir_status r = Ws_CLAIMED"
    using sample_claimed_row by auto
  have run: "run sample_deployment work_db [Internal] claimed_db" using claim_step by (simp add: run_Cons)
  have ok: "ledger_ok work_db" and kept: "queue_kept sample_db work_db"
    using work_db_kept by (simp_all add: ledger_kept_def)
  have "one_claim sample_db" by (simp add: one_claim_def claims_in_def sample_db_def empty_db_def)
  then have "one_claim work_db" using kept one_claim_mono by (auto simp: queue_kept_def)
  from one_claimed_work_per_case [OF run ok this r] r show ?thesis by blast
qed

definition calls_used :: "db \<Rightarrow> string \<Rightarrow> int" where
  "calls_used d cid = (case tget cid (db_cases d) of None \<Rightarrow> 0 | Some r \<Rightarrow> cr_used_tool_calls r)"

definition within_budget :: "db \<Rightarrow> bool" where
  "within_budget d = (\<forall>cid r. tget cid (db_cases d) = Some r
     \<longrightarrow> 0 \<le> cr_used_tool_calls r \<and> cr_used_tool_calls r \<le> cr_max_tool_calls r)"

lemma case_step_budget:
  assumes "case_step r r'" and "0 \<le> cr_used_tool_calls r \<and> cr_used_tool_calls r \<le> cr_max_tool_calls r"
  shows "0 \<le> cr_used_tool_calls r' \<and> cr_used_tool_calls r' \<le> cr_max_tool_calls r'"
proof (cases "r' = r")
  case False
  with case_step_history [OF assms(1)] have "same_binding r r'" "cr_used_tool_calls r \<le> cr_used_tool_calls r'"
    "cr_used_tool_calls r' = cr_used_tool_calls r \<or> cr_used_tool_calls r' \<le> cr_max_tool_calls r"
    by (auto simp: case_history_def)
  then show ?thesis using assms(2) same_binding_max [of r r'] by auto
qed (use assms(2) in simp)

lemma moves_new_case:
  assumes "moves d d'" and "tget cid (db_cases d) = None" and "tget cid (db_cases d') = Some r"
  shows "fresh_case r"
  using assms unfolding moves_def moved_def cases_moved_def closing_def closes_case_def
  by (auto dest!: spec [of _ cid] split: if_splits)

lemma within_budget_moves:
  assumes "moves d d'" and "within_budget d"
  shows "within_budget d'"
  unfolding within_budget_def
proof (intro allI impI)
  fix cid r'
  assume r': "tget cid (db_cases d') = Some r'"
  show "0 \<le> cr_used_tool_calls r' \<and> cr_used_tool_calls r' \<le> cr_max_tool_calls r'"
  proof (cases "tget cid (db_cases d)")
    case None
    from moves_new_case [OF assms(1) None r'] show ?thesis by (simp add: fresh_case_def)
  next
    case (Some r)
    with lifecycle.step_edge [OF assms(1) Some] r' have "r' = r \<or> case_step r r'" by auto
    with Some assms(2) case_step_budget [of r r'] show ?thesis by (auto simp: within_budget_def)
  qed
qed

lemma calls_used_moves:
  assumes "moves d d'"
  shows "calls_used d cid \<le> calls_used d' cid"
proof (cases "tget cid (db_cases d)")
  case None
  with moves_new_case [OF assms None] show ?thesis by (auto simp: calls_used_def fresh_case_def split: option.split)
next
  case (Some r)
  then obtain r' where "tget cid (db_cases d') = Some r'" "r' = r \<or> case_step r r'"
    using lifecycle.step_edge [OF assms Some] by blast
  with Some show ?thesis by (auto simp: calls_used_def case_history_def dest!: case_step_history)
qed

lemma calls_used_step:
  assumes "step D d e d'" and ok: "ledger_ok d"
  shows "calls_used d cid + (if e = Tool_called cid then 1 else 0) \<le> calls_used d' cid"
proof (cases "e = Tool_called cid")
  case True
  obtain tenant tool query p t1 t2 call_id x where
    "reserve_call tenant d cid tool query p t1 t2 call_id = Inr (d', x)"
    using assms(1) [unfolded True] by (rule step_calledE) simp
  then obtain row where "tget cid (db_cases d) = Some row"
    and "db_cases d' = tput cid (reserved_row t2 row) (db_cases d)"
    by (rule reserve_call_Inr)
  then show ?thesis by (simp add: calls_used_def reserved_row_def True)
qed (use calls_used_moves [OF step_moves [OF assms]] in simp)

text \<open>
  C4. The budget of tool calls is a hard bound: over any run, the tool calls dispatched for a Case are
  all paid for by its counter, and the counter never exceeds the Case's maximum, so a crash between
  the reservation and the call, a retry or a concurrent worker cannot buy an extra call.
\<close>

theorem tool_calls_within_budget:
  assumes "run D d es d'" and "ledger_ok d" and "within_budget d" and "tget cid (db_cases d') = Some r"
  shows "calls_used d cid + int (count_list es (Tool_called cid)) \<le> cr_used_tool_calls r
    \<and> cr_used_tool_calls r \<le> cr_max_tool_calls r"
proof -
  have "calls_used d cid + int (count_list es (Tool_called cid)) \<le> calls_used d' cid \<and> within_budget d'"
    using assms(1-3)
  proof (induction rule: run.induct)
    case (run_step d e d1 es d')
    have m: "moves d d1" by (rule step_moves [OF run_step.hyps(1) run_step.prems(1)])
    from run_step.IH [OF moves_ok [OF m] within_budget_moves [OF m run_step.prems(2)]]
      calls_used_step [OF run_step.hyps(1) run_step.prems(1), of cid]
    show ?case by (auto split: if_splits)
  qed simp
  with assms(4) show ?thesis by (auto simp: calls_used_def within_budget_def)
qed

theorem tool_calls_within_budget_witness:
  "\<exists>r. tget ''CASE-1'' (db_cases reserved_db) = Some r \<and> 1 \<le> cr_used_tool_calls r
     \<and> cr_used_tool_calls r \<le> cr_max_tool_calls r"
proof -
  obtain r where r: "tget ''CASE-1'' (db_cases reserved_db) = Some r"
    using sample_case_reserved by blast
  have run: "run sample_deployment sample_db [Tool_called ''CASE-1''] reserved_db"
    using reserve_step by (simp add: run_Cons)
  have "within_budget sample_db"
    by (simp add: within_budget_def sample_db_def sample_case_row_def tget_def)
  from tool_calls_within_budget [OF run sample_db_ok this r] r show ?thesis
    by (auto simp: calls_used_def sample_db_def sample_case_row_def tget_def)
qed

end
