(* ===== verification/Evaluation.thy ===== *)
theory Evaluation
  imports Closure
begin

text \<open>
  The independent evaluation of a Case (\<open>evaluation/evaluator.py\<close>, \<open>evaluation/contract.py\<close>). It
  reads an evaluation state (built by the reader of theory \<^theory_text>\<open>Verification\<close>) and turns it into a list
  of checks, one per call of the local function \<open>check\<close> in the order of the code; the dimensions,
  the verdict and the unresolved requirements of the report are computed from that list.
\<close>

section \<open>Policy and contract\<close>

record evaluation_policy =
  epo_version :: string
  epo_required_dimensions :: "evaluation_dimension list"
  epo_evidence_max_age_seconds :: int
  epo_convergence_grace_seconds :: int

definition DIMENSIONS :: "evaluation_dimension list" where
  "DIMENSIONS = [Ed_MONEY, Ed_IDENTITY, Ed_STATE_CONVERGENCE, Ed_SIDE_EFFECT, Ed_EVIDENCE_SUFFICIENCY,
     Ed_POLICY, Ed_RECOVERY, Ed_OUTCOME]"

definition default_policy :: evaluation_policy where
  "default_policy = \<lparr> epo_version = ''1'', epo_required_dimensions = DIMENSIONS,
     epo_evidence_max_age_seconds = 300, epo_convergence_grace_seconds = 30 \<rparr>"

record verification_contract =
  vco_version :: string
  vco_settled_state :: loan_status
  vco_no_disbursement_state :: loan_status
  vco_settled_requires_callback :: bool
  vco_settled_requires_delivery :: bool

definition default_contract :: verification_contract where
  "default_contract = \<lparr> vco_version = ''1'', vco_settled_state = Loan_SUCCESS,
     vco_no_disbursement_state = Loan_FAILED, vco_settled_requires_callback = True,
     vco_settled_requires_delivery = True \<rparr>"

definition ends_with :: "string \<Rightarrow> string \<Rightarrow> bool" where
  "ends_with s suffix = (length suffix \<le> length s \<and> drop (length s - length suffix) s = suffix)"

definition exempt_gap :: "evidence_gap \<Rightarrow> outcome_path option \<Rightarrow> bool" where
  "exempt_gap g path = (path = Some Op_NO_DISBURSEMENT_PATH \<and> ends_with (eg_gap_id g) '':PAYMENT_IDENTITY'')"

definition state_expectations :: "verification_contract \<Rightarrow> outcome_path \<Rightarrow> (claim_type \<times> val) list" where
  "state_expectations k path = (let success = path = Op_SETTLED_PATH;
       s = VStr (loan_status_value (if success then vco_settled_state k else vco_no_disbursement_state k))
     in [(Claim_FUND_BUSINESS_STATUS, s), (Claim_GUARANTEE_STATUS, s), (Claim_ASSET_STATUS, s),
         (Claim_ACCOUNTING_ENTRY_PRESENT, VBool success)])"

text \<open>\<open>state_rules\<close>.\<close>

fun state_rule :: "claim_type \<Rightarrow> evaluation_reason \<times> verification_requirement" where
  "state_rule Claim_FUND_BUSINESS_STATUS = (Er_FUND_NOT_CONVERGED, Q_FUND_FINAL_STATE)"
| "state_rule Claim_GUARANTEE_STATUS = (Er_GUARANTEE_NOT_CONVERGED, Q_GUARANTEE_FINAL_STATE)"
| "state_rule Claim_ASSET_STATUS = (Er_ASSET_NOT_CONVERGED, Q_ASSET_FINAL_STATE)"
| "state_rule _ = (Er_ACCOUNTING_NOT_CONVERGED, Q_ACCOUNTING_ENTRY)"

section \<open>The evaluation state\<close>

record bound_effect =
  be_ledger :: side_effect_ledger
  be_target :: remediation_target

record evaluation_state =
  es_case :: case_rec
  es_evidence :: "evidence list"
  es_provenance_valid :: bool
  es_latest :: "evidence list"
  es_index :: evidence_index
  es_graph :: hypothesis_graph_view
  es_effects :: "bound_effect list"
  es_policy_invalid :: bool
  es_recovery_unresolved :: bool
  es_pending_reads :: bool
  es_in_grace :: bool
  es_snapshot :: verification_snapshot

section \<open>Checks\<close>

text \<open>The arguments of one call of \<open>check\<close>. Every call with a requirement names its reason.\<close>

record check =
  ck_dimension :: evaluation_dimension
  ck_status :: dimension_status
  ck_reason :: "evaluation_reason option"
  ck_refs :: "string list"
  ck_effects :: "string list"
  ck_claims :: "claim_type list"
  ck_requirement :: "verification_requirement option"

definition check_pass :: "evaluation_dimension \<Rightarrow> string list \<Rightarrow> check" where
  "check_pass d rs = \<lparr> ck_dimension = d, ck_status = Ds_PASS, ck_reason = None, ck_refs = rs,
     ck_effects = [], ck_claims = [], ck_requirement = None \<rparr>"

definition check_bad :: "evaluation_dimension \<Rightarrow> dimension_status \<Rightarrow> evaluation_reason \<Rightarrow> string list
    \<Rightarrow> claim_type list \<Rightarrow> verification_requirement option \<Rightarrow> check" where
  "check_bad d s r rs cs q = \<lparr> ck_dimension = d, ck_status = s, ck_reason = Some r, ck_refs = rs,
     ck_effects = [], ck_claims = cs, ck_requirement = q \<rparr>"

definition unresolved_status :: "dimension_status \<Rightarrow> bool" where
  "unresolved_status s = (s = Ds_FAIL \<or> s = Ds_INCONCLUSIVE)"

definition check_result :: "check \<Rightarrow> evaluation_dimension_result" where
  "check_result c = \<lparr> edr_dimension = ck_dimension c, edr_status = ck_status c,
     edr_reason_codes = (case ck_reason c of None \<Rightarrow> [] | Some r \<Rightarrow> [r]),
     edr_supporting_evidence_refs = sorted_set (ck_refs c), edr_side_effect_refs = sorted_set (ck_effects c),
     edr_required_claims_missing = (if ck_status c = Ds_INCONCLUSIVE then ck_claims c else []) \<rparr>"

definition check_requirement :: "check \<Rightarrow> unresolved_verification_requirement list" where
  "check_requirement c = (case (ck_requirement c, ck_reason c) of
     (Some q, Some r) \<Rightarrow> if unresolved_status (ck_status c)
       then [\<lparr> uvr_requirement = q, uvr_dimension = ck_dimension c, uvr_reason_code = r,
         uvr_required_claims = ck_claims c,
         uvr_effect_ref = (case ck_effects c of [] \<Rightarrow> None | e # _ \<Rightarrow> Some e) \<rparr>]
       else []
   | _ \<Rightarrow> [])"

definition ids :: "evidence list \<Rightarrow> string list" where
  "ids es = map ev_evidence_id es"

definition from_tool :: "tool_name \<Rightarrow> evidence list \<Rightarrow> evidence list" where
  "from_tool t es = filter (\<lambda>e. ev_tool e = t) es"

section \<open>Money and identity\<close>

definition money_facts :: "evaluation_state \<Rightarrow> evidence list" where
  "money_facts st = from_tool Tool_PAYMENT (current (es_index st) Claim_PAYMENT_FINALITY)"

definition all_values :: "evidence list \<Rightarrow> val \<Rightarrow> bool" where
  "all_values es v = (es \<noteq> [] \<and> list_all (\<lambda>e. ev_value e = v) es)"

text \<open>A fact about the fund request the Case is about.\<close>

definition about_request :: "evidence_index \<Rightarrow> evidence \<Rightarrow> bool" where
  "about_request ix e = (es_kind (ev_subject e) = Subj_FUND_REQUEST
     \<and> Some (es_identifier (ev_subject e)) = request_id ix
     \<and> em_fund_request_id (ev_metadata e) = request_id ix)"

definition settled_history :: "evaluation_state \<Rightarrow> evidence list" where
  "settled_history st = filter (\<lambda>e. ev_tool e = Tool_PAYMENT \<and> ev_claim_type e = Claim_PAYMENT_FINALITY
     \<and> ev_value e = VStr ''SETTLED'' \<and> em_fund_request_id (ev_metadata e) = request_id (es_index st)
     \<and> ev_source_kind e = Src_PRIMARY \<and> ev_freshness e = Fresh_CURRENT
     \<and> ev_completeness e = Compl_COMPLETE) (es_evidence st)"

definition money_check :: "evaluation_state \<Rightarrow> outcome_path option \<times> check" where
  "money_check st = (let money = money_facts st in
     if 1 < length (remdups (map (py_key \<circ> ev_value) money))
     then (None, check_bad Ed_MONEY Ds_FAIL Er_MONEY_STATE_CONTRADICTION (ids money) [] (Some Q_PAYMENT_FINALITY))
     else if all_values money (VStr ''SETTLED'') then (Some Op_SETTLED_PATH, check_pass Ed_MONEY (ids money))
     else if all_values money (VStr ''NOT_EXECUTED'') \<and> list_all (about_request (es_index st)) money then
       (if settled_history st \<noteq> []
        then (None, check_bad Ed_MONEY Ds_FAIL Er_MONEY_STATE_CONTRADICTION (ids (money @ settled_history st)) []
          (Some Q_PAYMENT_FINALITY))
        else (Some Op_NO_DISBURSEMENT_PATH, check_pass Ed_MONEY (ids money)))
     else (None, check_bad Ed_MONEY Ds_INCONCLUSIVE Er_PAYMENT_FINALITY_UNKNOWN (ids money)
       [Claim_PAYMENT_FINALITY] (Some Q_PAYMENT_FINALITY)))"

definition outcome_path_of :: "evaluation_state \<Rightarrow> outcome_path option" where
  "outcome_path_of st = fst (money_check st)"

definition identity_check :: "evaluation_state \<Rightarrow> check" where
  "identity_check st = (let identity = hg_payment_identity (es_graph st); rs = pir_evidence_refs identity in
     if outcome_path_of st = Some Op_NO_DISBURSEMENT_PATH
     then (check_pass Ed_IDENTITY (ids (money_facts st)))\<lparr> ck_status := Ds_NOT_APPLICABLE \<rparr>
     else case pir_result identity of
       Match_MISMATCH \<Rightarrow> check_bad Ed_IDENTITY Ds_FAIL Er_PAYMENT_IDENTITY_MISMATCH rs [] (Some Q_PAYMENT_IDENTITY)
     | Match_MATCH \<Rightarrow> check_pass Ed_IDENTITY rs
     | Match_UNKNOWN \<Rightarrow> check_bad Ed_IDENTITY Ds_INCONCLUSIVE Er_PAYMENT_IDENTITY_UNKNOWN rs []
         (Some Q_PAYMENT_IDENTITY))"

section \<open>Convergence of the business state\<close>

definition TRANSITIONAL :: "val list" where
  "TRANSITIONAL = [VStr ''PROCESSING'', VStr ''PENDING'', VStr ''NOT_ATTEMPTED'', VBool False]"

definition expect :: "evaluation_state \<Rightarrow> claim_type \<Rightarrow> val \<Rightarrow> evaluation_reason \<Rightarrow> verification_requirement
    \<Rightarrow> check" where
  "expect st claim expected reason q = (let items = current (es_index st) claim in
     if items = [] then check_bad Ed_STATE_CONVERGENCE Ds_INCONCLUSIVE reason [] [claim] (Some q)
     else if all_values items expected then check_pass Ed_STATE_CONVERGENCE (ids items)
     else let waiting = list_all (\<lambda>e. ev_value e \<in> set TRANSITIONAL) items \<and> es_in_grace st
       in check_bad Ed_STATE_CONVERGENCE (if waiting then Ds_INCONCLUSIVE else Ds_FAIL)
         (if waiting then Er_CONVERGENCE_WINDOW_OPEN else reason) (ids items) [] (Some q))"

text \<open>The verified, consumed deliveries of one gateway fact.\<close>

definition consumed_callback :: "evaluation_state \<Rightarrow> evidence \<Rightarrow> evidence list" where
  "consumed_callback st g = (
     let sig = filter (\<lambda>s. ev_subject s = ev_subject g \<and> ev_observation_id s = ev_observation_id g
           \<and> ev_value s = VBool True) (current (es_index st) Claim_CALLBACK_SIGNATURE_VERIFIED);
         consumed = filter (\<lambda>m. em_callback_event_id (ev_metadata m) = Some (es_identifier (ev_subject g))
           \<and> ev_value m = VStr ''CONSUMED''
           \<and> (case (ev_event_time m, ev_event_time g) of (Some tm, Some tg) \<Rightarrow> tg \<le> tm | _ \<Rightarrow> False))
           (current (es_index st) Claim_MESSAGE_CONSUME_STATUS)
     in if ev_value g = VBool True \<and> sig \<noteq> [] \<and> consumed \<noteq> [] then g # sig @ consumed else [])"

definition callback_check :: "evaluation_state \<Rightarrow> check" where
  "callback_check st = (
     let messages = current (es_index st) Claim_MESSAGE_CONSUME_STATUS;
         matched = concat (map (consumed_callback st) (current (es_index st) Claim_CALLBACK_GATEWAY_RECEIVED))
     in if matched \<noteq> [] \<and> list_all (\<lambda>m. ev_value m = VStr ''CONSUMED'') messages
        then check_pass Ed_STATE_CONVERGENCE (ids matched)
        else check_bad Ed_STATE_CONVERGENCE
          (if list_ex (\<lambda>m. ev_value m = VStr ''FAILED'') messages \<and> \<not> es_in_grace st then Ds_FAIL
           else Ds_INCONCLUSIVE) Er_CALLBACK_NOT_CONSUMED (ids messages)
          [Claim_CALLBACK_GATEWAY_RECEIVED, Claim_CALLBACK_SIGNATURE_VERIFIED, Claim_MESSAGE_CONSUME_STATUS]
          (Some Q_CALLBACK_CONSUMPTION))"

definition convergence_checks :: "verification_contract \<Rightarrow> evaluation_state \<Rightarrow> check list" where
  "convergence_checks k st = (let path = outcome_path_of st in
     (case path of
        None \<Rightarrow> [check_bad Ed_STATE_CONVERGENCE Ds_INCONCLUSIVE Er_BUSINESS_OUTCOME_NOT_CONVERGED [] [] None]
      | Some p \<Rightarrow> map (\<lambda>(claim, expected). expect st claim expected (fst (state_rule claim)) (snd (state_rule claim)))
          (state_expectations k p))
     @ (if path = Some Op_SETTLED_PATH \<and> vco_settled_requires_callback k then [callback_check st] else [])
     @ (if path = Some Op_SETTLED_PATH \<and> vco_settled_requires_delivery k
        then [expect st Claim_ASSET_DELIVERY_STATUS (VStr ''DELIVERED'') Er_DELIVERY_NOT_DELIVERED Q_ASSET_DELIVERY]
        else []))"

section \<open>Side effects\<close>

definition is_replay :: "side_effect_ledger \<Rightarrow> bool" where
  "is_replay l = (led_action_type l = Act_REPLAY_CALLBACK_CONSUMPTION)"

definition after_effect :: "side_effect_ledger \<Rightarrow> evidence \<Rightarrow> bool" where
  "after_effect l e = (led_updated_at l < ev_observed_at e
     \<and> (case ev_source_as_of e of None \<Rightarrow> False | Some t \<Rightarrow> led_updated_at l \<le> t)
     \<and> (case ev_event_time e of None \<Rightarrow> False | Some t \<Rightarrow> led_created_at l \<le> t))"

definition associated :: "evaluation_state \<Rightarrow> bound_effect \<Rightarrow> evidence \<Rightarrow> bool" where
  "associated st b e = (if is_replay (be_ledger b)
     then Some (es_identifier (ev_subject e)) = rtg_message_ref (be_target b)
       \<and> em_callback_event_id (ev_metadata e) = rtg_callback_event_ref (be_target b)
     else list_ex (\<lambda>r. Some (ev_value r) = map_option VStr (rtg_delivery_ref (be_target b))
         \<and> ev_observation_id r = ev_observation_id e)
       (from_tool Tool_ASSET_DELIVERY (current (es_index st) Claim_ASSET_DELIVERY_EVENT_REF)))"

text \<open>The evidence observed after an applied business effect that shows its outcome.\<close>

definition effect_claim :: "side_effect_ledger \<Rightarrow> claim_type" where
  "effect_claim l = (if is_replay l then Claim_MESSAGE_CONSUME_STATUS else Claim_ASSET_DELIVERY_STATUS)"

definition outcome_facts :: "evaluation_state \<Rightarrow> bound_effect \<Rightarrow> evidence list" where
  "outcome_facts st b = filter (\<lambda>e. after_effect (be_ledger b) e \<and> associated st b e)
     (from_tool (if is_replay (be_ledger b) then Tool_MESSAGES else Tool_ASSET_DELIVERY)
       (current (es_index st) (effect_claim (be_ledger b))))"

definition effect_outcome :: "side_effect_ledger \<Rightarrow> val" where
  "effect_outcome l = VStr (if is_replay l then ''CONSUMED'' else ''DELIVERED'')"

definition business_effect :: "side_effect_ledger \<Rightarrow> bool" where
  "business_effect l = (led_status l = Eff_APPLIED
     \<and> led_action_type l \<in> {Act_REPLAY_CALLBACK_CONSUMPTION, Act_REDELIVER_ASSET_NOTIFICATION})"

definition effect_check :: "evaluation_state \<Rightarrow> bound_effect \<Rightarrow> check" where
  "effect_check st b = (let l = be_ledger b; items = outcome_facts st b; effs = [led_effect_id l];
       q = (if is_replay l then Q_POST_EFFECT_MESSAGE_STATUS else Q_POST_EFFECT_DELIVERY_STATUS)
     in (if led_status l \<in> set UNRESOLVED_EFFECT_STATES
         then check_bad Ed_SIDE_EFFECT Ds_INCONCLUSIVE Er_UNRESOLVED_SIDE_EFFECT [] [] (Some Q_EFFECT_FINALITY)
         else if \<not> business_effect l then (check_pass Ed_SIDE_EFFECT [])\<lparr> ck_status := Ds_NOT_APPLICABLE \<rparr>
         else if items = []
         then check_bad Ed_SIDE_EFFECT Ds_INCONCLUSIVE Er_POST_EFFECT_EVIDENCE_MISSING [] [effect_claim l] (Some q)
         else if all_values items (effect_outcome l) then check_pass Ed_SIDE_EFFECT (ids items)
         else check_bad Ed_SIDE_EFFECT Ds_FAIL
           (if is_replay l then Er_CALLBACK_NOT_CONSUMED else Er_DELIVERY_NOT_DELIVERED) (ids items) [] (Some q))
       \<lparr> ck_effects := effs \<rparr>)"

section \<open>Sufficiency, policy and recovery\<close>

definition relevant_tools :: "outcome_path option \<Rightarrow> tool_name list" where
  "relevant_tools path = [Tool_PAYMENT, Tool_TRACE, Tool_FUND, Tool_GUARANTEE, Tool_ASSET, Tool_ACCOUNTING]
     @ (if path = Some Op_SETTLED_PATH then [Tool_CALLBACK, Tool_CALLBACK_RAW, Tool_MESSAGES, Tool_ASSET_DELIVERY]
        else [])"

definition quality_inputs :: "evaluation_state \<Rightarrow> evidence list" where
  "quality_inputs st = filter (\<lambda>e. ev_tool e \<in> set (relevant_tools (outcome_path_of st))) (es_latest st)"

definition too_old :: "evaluation_policy \<Rightarrow> time \<Rightarrow> evidence \<Rightarrow> bool" where
  "too_old p now e = (ev_freshness e = Fresh_STALE \<or> (case ev_source_as_of e of None \<Rightarrow> False
     | Some t \<Rightarrow> seconds (epo_evidence_max_age_seconds p) < now - t))"

definition blocking_gaps :: "evaluation_state \<Rightarrow> evidence_gap list" where
  "blocking_gaps st = filter (\<lambda>g. eg_priority_class g = Prio_SAFETY_CRITICAL
     \<and> \<not> exempt_gap g (outcome_path_of st)) (hg_open_gaps (es_graph st))"

definition gap_claims :: "evidence_gap \<Rightarrow> claim_type list" where
  "gap_claims g = concat (map (\<lambda>c. case c of Inl x \<Rightarrow> [x] | Inr _ \<Rightarrow> []) (eg_required_claim_types g))"

definition sufficiency_checks :: "evaluation_policy \<Rightarrow> time \<Rightarrow> evaluation_state \<Rightarrow> check list" where
  "sufficiency_checks p now st = (let bad = check_bad Ed_EVIDENCE_SUFFICIENCY Ds_INCONCLUSIVE in
     (if \<not> es_provenance_valid st then [bad Er_PROVENANCE_INVALID [] [] (Some Q_PROVENANCE)] else [])
     @ (if es_pending_reads st then [bad Er_PENDING_READ_DISPATCH [] [] (Some Q_READ_PUBLICATION)] else [])
     @ (if list_ex (too_old p now) (quality_inputs st) then [bad Er_EVIDENCE_STALE [] [] None] else [])
     @ (if list_ex (\<lambda>e. ev_completeness e \<noteq> Compl_COMPLETE) (quality_inputs st)
        then [bad Er_EVIDENCE_INCOMPLETE [] [] None] else [])
     @ map (\<lambda>g. bad Er_OPEN_SAFETY_CRITICAL_GAP [] (gap_claims g) (Some Q_SAFETY_GAP)) (blocking_gaps st))"

definition open_effects :: "evaluation_state \<Rightarrow> bool" where
  "open_effects st = list_ex (\<lambda>b. led_status (be_ledger b) \<in> set UNRESOLVED_EFFECT_STATES) (es_effects st)"

definition safety_checks :: "evaluation_state \<Rightarrow> check list" where
  "safety_checks st =
     (if es_policy_invalid st
      then [check_bad Ed_POLICY Ds_FAIL Er_FORBIDDEN_EFFECT_OBSERVED [] [] (Some Q_SAFE_POLICY)] else [])
     @ (if es_recovery_unresolved st \<or> open_effects st
        then [check_bad Ed_RECOVERY Ds_INCONCLUSIVE Er_RECOVERY_UNRESOLVED [] [] (Some Q_RECOVERY_FINALITY)] else [])
     @ (if is_terminal (case_status (es_case st))
          \<and> (es_pending_reads st \<or> es_recovery_unresolved st \<or> open_effects st)
        then [check_bad Ed_RECOVERY Ds_FAIL Er_CLOSURE_INVARIANT_VIOLATION [] [] None] else [])"

section \<open>The report\<close>

definition aggregate :: "dimension_status list \<Rightarrow> dimension_status" where
  "aggregate ss = (if Ds_FAIL \<in> set ss then Ds_FAIL else if Ds_INCONCLUSIVE \<in> set ss then Ds_INCONCLUSIVE
     else Ds_PASS)"

definition business_checks :: "evaluation_policy \<Rightarrow> verification_contract \<Rightarrow> time \<Rightarrow> evaluation_state
    \<Rightarrow> check list" where
  "business_checks p k now st = snd (money_check st) # identity_check st # convergence_checks k st
     @ map (effect_check st) (es_effects st) @ sufficiency_checks p now st @ safety_checks st"

definition parts :: "evaluation_dimension \<Rightarrow> check list \<Rightarrow> check list" where
  "parts d cs = filter (\<lambda>c. ck_dimension c = d) cs"

definition outcome_check :: "check list \<Rightarrow> check" where
  "outcome_check cs = (check_pass Ed_OUTCOME [])\<lparr> ck_status := aggregate (concat (map (\<lambda>d. map ck_status (parts d cs))
     [Ed_MONEY, Ed_IDENTITY, Ed_STATE_CONVERGENCE, Ed_SIDE_EFFECT])) \<rparr>"

definition all_checks :: "evaluation_policy \<Rightarrow> verification_contract \<Rightarrow> time \<Rightarrow> evaluation_state \<Rightarrow> check list" where
  "all_checks p k now st = (let cs = business_checks p k now st in cs @ [outcome_check cs])"

definition sorted_reasons :: "evaluation_reason list \<Rightarrow> evaluation_reason list" where
  "sorted_reasons rs = sort_key evaluation_reason_value (remdups rs)"

definition overall_status :: "dimension_status list \<Rightarrow> dimension_status" where
  "overall_status ss = (if ss \<noteq> [] \<and> list_all (\<lambda>s. s = Ds_NOT_APPLICABLE) ss then Ds_NOT_APPLICABLE
     else aggregate ss)"

definition dimension_result :: "check list \<Rightarrow> evaluation_dimension \<Rightarrow> evaluation_dimension_result" where
  "dimension_result cs d = (let items = map check_result (parts d cs) in
     \<lparr> edr_dimension = d, edr_status = overall_status (map edr_status items),
       edr_reason_codes = sorted_reasons (concat (map edr_reason_codes items)),
       edr_supporting_evidence_refs = sorted_set (concat (map edr_supporting_evidence_refs items)),
       edr_side_effect_refs = sorted_set (concat (map edr_side_effect_refs items)),
       edr_required_claims_missing = sort_key claim_type_value
         (remdups (concat (map edr_required_claims_missing items))) \<rparr>)"

definition verdict_of :: "dimension_status \<Rightarrow> evaluation_verdict" where
  "verdict_of s = (if s = Ds_FAIL then V_FAIL else if s = Ds_INCONCLUSIVE then V_INCONCLUSIVE else V_PASS)"

text \<open>
  The sort key of the unresolved requirements. It leaves \<open>required_claims\<close> out, so the order of two
  requirements that differ only there is the iteration order of the set: the argument \<open>iter\<close>.
\<close>

definition requirement_key :: "unresolved_verification_requirement \<Rightarrow> string list" where
  "requirement_key u = [evaluation_dimension_value (uvr_dimension u),
     verification_requirement_value (uvr_requirement u), evaluation_reason_value (uvr_reason_code u),
     or_else (uvr_effect_ref u) []]"

definition unresolved_of :: "(unresolved_verification_requirement list \<Rightarrow> unresolved_verification_requirement list)
    \<Rightarrow> check list \<Rightarrow> unresolved_verification_requirement list" where
  "unresolved_of iter cs = sort_key requirement_key (iter (remdups (concat (map check_requirement cs))))"

definition evaluate_state :: "(evaluation_report \<Rightarrow> string)
    \<Rightarrow> (unresolved_verification_requirement list \<Rightarrow> unresolved_verification_requirement list)
    \<Rightarrow> evaluation_policy \<Rightarrow> verification_contract \<Rightarrow> evaluation_state \<Rightarrow> string \<Rightarrow> string \<Rightarrow> time
    \<Rightarrow> error + evaluation_report" where
  "evaluate_state ri iter p k st cid uuid now = (
     let cs = all_checks p k now st;
         dims = map (dimension_result cs) DIMENSIONS;
         verdict = verdict_of (aggregate (map edr_status
           (filter (\<lambda>r. edr_dimension r \<in> set (epo_required_dimensions p)) dims)));
         report = \<lparr> erp_report_id = replicate 64 CHR ''0'', erp_evaluation_run_id = uuid, erp_case_id = cid,
           erp_verification_snapshot_id = vs_verification_snapshot_id (es_snapshot st),
           erp_snapshot = es_snapshot st, erp_contract_version = vco_version k, erp_policy_version = epo_version p,
           erp_outcome_path = outcome_path_of st, erp_overall_verdict = verdict, erp_dimensions = dims,
           erp_reason_codes = sorted_reasons (concat (map edr_reason_codes dims)),
           erp_supporting_evidence_refs = sorted_set (concat (map edr_supporting_evidence_refs dims)),
           erp_side_effect_refs = sort (map (\<lambda>b. led_effect_id (be_ledger b)) (es_effects st)),
           erp_unresolved_requirements = unresolved_of iter cs, erp_created_at = now \<rparr>
     in if set (epo_required_dimensions p) \<noteq> set DIMENSIONS then Inl ValueError
        else Inr (report\<lparr> erp_report_id := report_identity ri report \<rparr>))"

section \<open>What a verdict means\<close>

lemma unresolved_status_simps [simp]:
  "unresolved_status Ds_FAIL" "unresolved_status Ds_INCONCLUSIVE" "\<not> unresolved_status Ds_PASS"
  "\<not> unresolved_status Ds_NOT_APPLICABLE"
  by (simp_all add: unresolved_status_def)

lemma aggregate_unresolved: "unresolved_status (aggregate ss) \<longleftrightarrow> (\<exists>s\<in>set ss. unresolved_status s)"
  by (auto simp: aggregate_def unresolved_status_def)

lemma aggregate_fail: "aggregate ss = Ds_FAIL \<longleftrightarrow> Ds_FAIL \<in> set ss"
  by (simp add: aggregate_def)

lemma aggregate_map_fail: "aggregate (map f xs) = Ds_FAIL \<longleftrightarrow> (\<exists>x\<in>set xs. f x = Ds_FAIL)"
  unfolding aggregate_fail by (simp add: image_iff) metis

lemma overall_map_fail: "overall_status (map f xs) = Ds_FAIL \<longleftrightarrow> (\<exists>x\<in>set xs. f x = Ds_FAIL)"
  unfolding aggregate_map_fail [symmetric] by (auto simp: overall_status_def list_all_iff aggregate_def)

lemma overall_unresolved: "unresolved_status (overall_status ss) \<longleftrightarrow> (\<exists>s\<in>set ss. unresolved_status s)"
  by (auto simp: overall_status_def list_all_iff aggregate_unresolved)

lemma verdict_pass: "verdict_of s = V_PASS \<longleftrightarrow> \<not> unresolved_status s"
  by (cases s) (simp_all add: verdict_of_def)

lemma verdict_fail: "verdict_of s = V_FAIL \<longleftrightarrow> s = Ds_FAIL"
  by (cases s) (simp_all add: verdict_of_def)

lemma DIMENSIONS_all: "set DIMENSIONS = UNIV"
proof -
  have "d \<in> set DIMENSIONS" for d by (cases d) (simp_all add: DIMENSIONS_def)
  then show ?thesis by blast
qed

lemma dimension_statuses:
  "(\<exists>d. P (map ck_status (parts d cs))) \<longleftrightarrow> (\<exists>r\<in>set (map (dimension_result cs) DIMENSIONS).
     P (map ck_status (parts (edr_dimension r) cs)))"
  by (auto simp: DIMENSIONS_all dimension_result_def Let_def)

lemma dimension_result_status: "edr_status (dimension_result cs d) = overall_status (map ck_status (parts d cs))"
  by (simp add: dimension_result_def Let_def check_result_def comp_def)

lemma evaluate_state_Inr:
  assumes "evaluate_state ri iter p k st cid uuid now = Inr r"
  shows "erp_snapshot r = es_snapshot st" and "erp_outcome_path r = outcome_path_of st"
    and "erp_unresolved_requirements r = unresolved_of iter (all_checks p k now st)"
    and "erp_report_id r = report_identity ri r" and "erp_case_id r = cid"
    and "erp_overall_verdict r = verdict_of (aggregate (map (\<lambda>d. overall_status (map ck_status
      (parts d (all_checks p k now st)))) DIMENSIONS))"
  using assms
  by (auto simp: evaluate_state_def Let_def report_identity_def DIMENSIONS_all comp_def dimension_result_status
      split: if_splits)

lemma verdict_checks:
  assumes "evaluate_state ri iter p k st cid uuid now = Inr r"
  shows "erp_overall_verdict r = V_PASS \<longleftrightarrow> (\<forall>c\<in>set (all_checks p k now st). \<not> unresolved_status (ck_status c))"
    and "erp_overall_verdict r = V_FAIL \<longleftrightarrow> (\<exists>c\<in>set (all_checks p k now st). ck_status c = Ds_FAIL)"
  unfolding evaluate_state_Inr(6) [OF assms]
  by (auto simp: verdict_pass verdict_fail aggregate_unresolved aggregate_map_fail overall_unresolved overall_map_fail
      parts_def DIMENSIONS_all)

section \<open>What the checks establish\<close>

lemma all_valuesD: "all_values es v \<Longrightarrow> e \<in> set es \<Longrightarrow> ev_value e = v"
  by (auto simp: all_values_def list_all_iff)

lemma check_pass_status [simp]: "ck_status (check_pass d rs) = Ds_PASS"
  by (simp add: check_pass_def)

lemma check_bad_status [simp]: "ck_status (check_bad d s r rs cs q) = s"
  by (simp add: check_bad_def)

lemma money_check_ok:
  assumes "\<not> unresolved_status (ck_status (snd (money_check st)))"
  obtains (settled) "outcome_path_of st = Some Op_SETTLED_PATH" "all_values (money_facts st) (VStr ''SETTLED'')"
  | (unpaid) "outcome_path_of st = Some Op_NO_DISBURSEMENT_PATH" "all_values (money_facts st) (VStr ''NOT_EXECUTED'')"
      "\<forall>e\<in>set (money_facts st). about_request (es_index st) e" "settled_history st = []"
  using assms by (auto simp: money_check_def outcome_path_of_def Let_def list_all_iff split: if_splits)

lemma expect_ok:
  "\<not> unresolved_status (ck_status (expect st claim v reason q)) \<Longrightarrow> all_values (current (es_index st) claim) v"
  by (auto simp: expect_def Let_def split: if_splits)

lemma callback_check_ok:
  assumes "\<not> unresolved_status (ck_status (callback_check st))"
  shows "\<exists>g\<in>set (current (es_index st) Claim_CALLBACK_GATEWAY_RECEIVED). consumed_callback st g \<noteq> []"
    and "\<forall>m\<in>set (current (es_index st) Claim_MESSAGE_CONSUME_STATUS). ev_value m = VStr ''CONSUMED''"
  using assms by (auto simp: callback_check_def Let_def list_all_iff split: if_splits)

lemma effect_check_ok:
  assumes "\<not> unresolved_status (ck_status (effect_check st b))"
  shows "led_status (be_ledger b) \<notin> set UNRESOLVED_EFFECT_STATES"
    and "business_effect (be_ledger b) \<Longrightarrow> all_values (outcome_facts st b) (effect_outcome (be_ledger b))"
  using assms by (auto simp: effect_check_def Let_def split: if_splits)

lemma sufficiency_ok:
  assumes "\<forall>c\<in>set (sufficiency_checks p now st). \<not> unresolved_status (ck_status c)"
  shows "es_provenance_valid st" and "\<not> es_pending_reads st" and "blocking_gaps st = []"
    and "\<forall>e\<in>set (quality_inputs st). \<not> too_old p now e \<and> ev_completeness e = Compl_COMPLETE"
  using assms by (auto simp: sufficiency_checks_def Let_def list_ex_iff ball_Un split: if_splits)

lemma safety_ok:
  assumes "\<forall>c\<in>set (safety_checks st). \<not> unresolved_status (ck_status c)"
  shows "\<not> es_policy_invalid st" and "\<not> es_recovery_unresolved st" and "\<not> open_effects st"
  using assms by (auto simp: safety_checks_def ball_Un split: if_splits)

lemma business_checks_split:
  "set (business_checks p k now st) = {snd (money_check st), identity_check st} \<union> set (convergence_checks k st)
     \<union> effect_check st ` set (es_effects st) \<union> set (sufficiency_checks p now st) \<union> set (safety_checks st)"
  by (auto simp: business_checks_def)

text \<open>Where every check passes, nothing is left unresolved.\<close>

lemma resolved_checks:
  "\<forall>c\<in>set cs. \<not> unresolved_status (ck_status c) \<Longrightarrow> concat (map check_requirement cs) = []"
  by (auto simp: check_requirement_def split: option.splits)

section \<open>What a passed evaluation has proved\<close>

text \<open>
  C3. A PASS is a proof of the outcome. There is a decided path; on the settled path every current fact
  about the payment says SETTLED, the paid identity matches the Case, and the callback was verified
  and consumed and the asset notification delivered where the contract asks for it; on the path without
  disbursement every current fact says NOT_EXECUTED for the very request of the Case and no settled
  payment was ever recorded for it; and fund, guarantee, asset and accounting state, each observed and
  current, all equal what the contract expects on that path.
\<close>

theorem pass_proves_outcome:
  assumes "evaluate_state ri iter p k st cid uuid now = Inr r" and "erp_overall_verdict r = V_PASS"
  shows "\<exists>path. erp_outcome_path r = Some path
    \<and> (\<forall>(claim, v)\<in>set (state_expectations k path). all_values (current (es_index st) claim) v)
    \<and> (path = Op_SETTLED_PATH \<longrightarrow> all_values (money_facts st) (VStr ''SETTLED'')
        \<and> pir_result (hg_payment_identity (es_graph st)) = Match_MATCH
        \<and> (vco_settled_requires_callback k \<longrightarrow>
            (\<exists>g\<in>set (current (es_index st) Claim_CALLBACK_GATEWAY_RECEIVED). consumed_callback st g \<noteq> [])
            \<and> (\<forall>m\<in>set (current (es_index st) Claim_MESSAGE_CONSUME_STATUS). ev_value m = VStr ''CONSUMED''))
        \<and> (vco_settled_requires_delivery k \<longrightarrow>
            all_values (current (es_index st) Claim_ASSET_DELIVERY_STATUS) (VStr ''DELIVERED'')))
    \<and> (path = Op_NO_DISBURSEMENT_PATH \<longrightarrow> all_values (money_facts st) (VStr ''NOT_EXECUTED'')
        \<and> (\<forall>e\<in>set (money_facts st). about_request (es_index st) e) \<and> settled_history st = [])"
proof -
  have ok: "\<not> unresolved_status (ck_status c)" if "c \<in> set (business_checks p k now st)" for c
    using verdict_checks(1) [OF assms(1)] assms(2) that by (simp add: all_checks_def Let_def)
  note parts = business_checks_split [of p k now st]
  have money: "\<not> unresolved_status (ck_status (snd (money_check st)))" by (rule ok) (simp add: parts)
  have identity: "\<not> unresolved_status (ck_status (identity_check st))" by (rule ok) (simp add: parts)
  have conv: "\<not> unresolved_status (ck_status c)" if "c \<in> set (convergence_checks k st)" for c
    by (rule ok) (use that in \<open>simp add: parts\<close>)
  have states: "\<forall>(claim, v)\<in>set (state_expectations k path). all_values (current (es_index st) claim) v"
    if "outcome_path_of st = Some path" for path
  proof (clarify)
    fix claim v
    assume "(claim, v) \<in> set (state_expectations k path)"
    then have "expect st claim v (fst (state_rule claim)) (snd (state_rule claim)) \<in> set (convergence_checks k st)"
      using that by (force simp: convergence_checks_def Let_def)
    from expect_ok [OF conv [OF this]] show "all_values (current (es_index st) claim) v" .
  qed
  from money show ?thesis
  proof (cases rule: money_check_ok)
    case settled
    have "pir_result (hg_payment_identity (es_graph st)) = Match_MATCH"
      using identity settled(1)
      by (auto simp: identity_check_def Let_def split: identity_match.splits)
    moreover have "callback_check st \<in> set (convergence_checks k st)" if "vco_settled_requires_callback k"
      using that settled(1) by (simp add: convergence_checks_def Let_def)
    moreover have "expect st Claim_ASSET_DELIVERY_STATUS (VStr ''DELIVERED'') Er_DELIVERY_NOT_DELIVERED Q_ASSET_DELIVERY
        \<in> set (convergence_checks k st)" if "vco_settled_requires_delivery k"
      using that settled(1) by (simp add: convergence_checks_def Let_def)
    ultimately show ?thesis
      using settled states evaluate_state_Inr(2) [OF assms(1)] callback_check_ok [OF conv] expect_ok [OF conv]
      by (intro exI [of _ Op_SETTLED_PATH]) auto
  next
    case unpaid
    then show ?thesis
      using states evaluate_state_Inr(2) [OF assms(1)] by (intro exI [of _ Op_NO_DISBURSEMENT_PATH]) auto
  qed
qed

text \<open>
  C9. A PASS leaves nothing open: no side effect is unresolved and every applied business effect is
  confirmed by evidence observed after it; no read is unpublished, no recovery is running or escalated
  and no forbidden effect was seen; the evidence has valid provenance, is complete and young enough; no
  safety-critical gap is open but the one the path without disbursement exempts; and the report lists
  no unresolved requirement.
\<close>

theorem pass_leaves_nothing_open:
  assumes "evaluate_state ri iter p k st cid uuid now = Inr r" and "erp_overall_verdict r = V_PASS"
    and "\<And>xs. mset (iter xs) = mset xs"
  shows "(\<forall>b\<in>set (es_effects st). led_status (be_ledger b) \<notin> set UNRESOLVED_EFFECT_STATES
        \<and> (business_effect (be_ledger b) \<longrightarrow> all_values (outcome_facts st b) (effect_outcome (be_ledger b))))
    \<and> es_provenance_valid st \<and> \<not> es_pending_reads st \<and> \<not> es_recovery_unresolved st \<and> \<not> es_policy_invalid st
    \<and> (\<forall>e\<in>set (quality_inputs st). \<not> too_old p now e \<and> ev_completeness e = Compl_COMPLETE)
    \<and> (\<forall>g\<in>set (hg_open_gaps (es_graph st)). eg_priority_class g = Prio_SAFETY_CRITICAL
        \<longrightarrow> exempt_gap g (erp_outcome_path r))
    \<and> erp_unresolved_requirements r = []"
proof -
  have all: "\<forall>c\<in>set (all_checks p k now st). \<not> unresolved_status (ck_status c)"
    using verdict_checks(1) [OF assms(1)] assms(2) by simp
  then have ok: "\<not> unresolved_status (ck_status c)" if "c \<in> set (business_checks p k now st)" for c
    using that by (simp add: all_checks_def Let_def)
  note parts = business_checks_split [of p k now st]
  have eff: "\<not> unresolved_status (ck_status (effect_check st b))" if "b \<in> set (es_effects st)" for b
    by (rule ok) (use that in \<open>simp add: parts\<close>)
  have suff: "\<forall>c\<in>set (sufficiency_checks p now st). \<not> unresolved_status (ck_status c)"
    using ok by (simp add: parts)
  have safe: "\<forall>c\<in>set (safety_checks st). \<not> unresolved_status (ck_status c)"
    using ok by (simp add: parts)
  have "erp_unresolved_requirements r = []"
    unfolding evaluate_state_Inr(3) [OF assms(1)] unresolved_of_def resolved_checks [OF all]
    using assms(3) [of "[]"] by simp
  moreover have "\<forall>g\<in>set (hg_open_gaps (es_graph st)). eg_priority_class g = Prio_SAFETY_CRITICAL
      \<longrightarrow> exempt_gap g (erp_outcome_path r)"
    using sufficiency_ok(3) [OF suff] evaluate_state_Inr(2) [OF assms(1)]
    by (auto simp: blocking_gaps_def filter_empty_conv)
  ultimately show ?thesis
    using effect_check_ok [OF eff] sufficiency_ok [OF suff] safety_ok [OF safe] by simp
qed

text \<open>
  The verdict is decided by the checks alone, and a failure is never masked: the report fails
  exactly when one check failed, whatever passed or was inconclusive beside it, and passes exactly when
  no check failed or was inconclusive. An evaluation policy that drops a dimension yields no report.
\<close>

theorem verdict_precedence:
  "(case evaluate_state ri iter p k st cid uuid now of
      Inl e \<Rightarrow> e = ValueError \<and> set (epo_required_dimensions p) \<noteq> set DIMENSIONS
    | Inr r \<Rightarrow> set (epo_required_dimensions p) = set DIMENSIONS
        \<and> (erp_overall_verdict r = V_FAIL \<longleftrightarrow> (\<exists>c\<in>set (all_checks p k now st). ck_status c = Ds_FAIL))
        \<and> (erp_overall_verdict r = V_PASS \<longleftrightarrow> list_all (\<lambda>c. \<not> unresolved_status (ck_status c)) (all_checks p k now st)))"
proof (cases "evaluate_state ri iter p k st cid uuid now")
  case (Inl e)
  then show ?thesis by (auto simp: evaluate_state_def Let_def split: if_splits)
next
  case (Inr r)
  then have "set (epo_required_dimensions p) = set DIMENSIONS"
    by (auto simp: evaluate_state_def Let_def split: if_splits)
  with Inr verdict_checks [OF Inr] show ?thesis by (simp add: list_all_iff)
qed

section \<open>A sample evaluation\<close>

text \<open>A request that was never paid: every system agrees on FAILED and no entry was posted.\<close>

definition unpaid_facts :: "evidence list" where
  "unpaid_facts = [
     sample_fact ''a'' Tool_TRACE Claim_HTTP_RESPONSE_STATUS Subj_ORDER ''JD-1'' (VStr ''TIMEOUT''),
     sample_fact ''b'' Tool_PAYMENT Claim_PAYMENT_FINALITY Subj_FUND_REQUEST ''FREQ-1'' (VStr ''NOT_EXECUTED''),
     sample_fact ''c'' Tool_FUND Claim_FUND_BUSINESS_STATUS Subj_FUND_REQUEST ''FREQ-1'' (VStr ''FAILED''),
     sample_fact ''d'' Tool_GUARANTEE Claim_GUARANTEE_STATUS Subj_ORDER ''JD-1'' (VStr ''FAILED''),
     sample_fact ''e'' Tool_ASSET Claim_ASSET_STATUS Subj_ORDER ''JD-1'' (VStr ''FAILED''),
     sample_fact ''f'' Tool_ACCOUNTING Claim_ACCOUNTING_ENTRY_PRESENT Subj_ORDER ''JD-1'' (VBool False)]"

definition unpaid_index :: evidence_index where
  "unpaid_index = \<lparr> ix_case = sample_case, ix_evidence = unpaid_facts \<rparr>"

definition sample_snapshot :: verification_snapshot where
  "sample_snapshot = \<lparr> vs_verification_snapshot_id = ''S-1'', vs_case_id = ''CASE-1'', vs_tenant_id = ''tenant'',
     vs_case_revision = 0, vs_case_fingerprint = [], vs_evidence_fingerprint = [],
     vs_payment_identity_fingerprint = [], vs_current_state_fingerprint = [],
     vs_side_effect_ledger_fingerprint = [], vs_recovery_fingerprint = [], vs_call_history_fingerprint = [],
     vs_authorization_policy_fingerprint = [], vs_evaluation_policy_version = ''1'',
     vs_verification_contract_version = ''1'', vs_evaluation_policy_fingerprint = [],
     vs_verification_contract_fingerprint = [] \<rparr>"

definition unpaid_state :: evaluation_state where
  "unpaid_state = \<lparr> es_case = sample_case, es_evidence = unpaid_facts, es_provenance_valid = True,
     es_latest = unpaid_facts, es_index = unpaid_index,
     es_graph = graph_of (\<lambda>_. []) (\<lambda>_ _. ''fp'') unpaid_index, es_effects = [], es_policy_invalid = False,
     es_recovery_unresolved = False, es_pending_reads = False, es_in_grace = False,
     es_snapshot = sample_snapshot \<rparr>"

definition unpaid_report :: "error + evaluation_report" where
  "unpaid_report = evaluate_state (\<lambda>r. vs_verification_snapshot_id (erp_snapshot r)) (\<lambda>xs. xs) default_policy
     default_contract unpaid_state ''CASE-1'' ''run-1'' 100"

lemma unpaid_report_pass: "case unpaid_report of Inl _ \<Rightarrow> False | Inr r \<Rightarrow> erp_overall_verdict r = V_PASS
     \<and> erp_outcome_path r = Some Op_NO_DISBURSEMENT_PATH"
  by code_simp

lemma unpaid_reportE:
  obtains r where "unpaid_report = Inr r" and "erp_overall_verdict r = V_PASS"
    and "erp_outcome_path r = Some Op_NO_DISBURSEMENT_PATH"
  using unpaid_report_pass by (auto split: sum.splits)

theorem pass_proves_outcome_witness:
  "\<exists>r. unpaid_report = Inr r \<and> erp_outcome_path r = Some Op_NO_DISBURSEMENT_PATH
     \<and> all_values (money_facts unpaid_state) (VStr ''NOT_EXECUTED'')"
proof (rule unpaid_reportE)
  fix r
  assume r: "unpaid_report = Inr r" "erp_overall_verdict r = V_PASS"
    "erp_outcome_path r = Some Op_NO_DISBURSEMENT_PATH"
  from pass_proves_outcome [OF r(1) [unfolded unpaid_report_def] r(2)] obtain path
    where path: "erp_outcome_path r = Some path"
      "path = Op_SETTLED_PATH \<Longrightarrow> all_values (money_facts unpaid_state) (VStr ''SETTLED'')"
      "path = Op_NO_DISBURSEMENT_PATH \<Longrightarrow> all_values (money_facts unpaid_state) (VStr ''NOT_EXECUTED'')"
    by blast
  with r show ?thesis by auto
qed

theorem pass_leaves_nothing_open_witness:
  "\<exists>r. unpaid_report = Inr r \<and> erp_unresolved_requirements r = []
     \<and> (\<forall>e\<in>set (quality_inputs unpaid_state). \<not> too_old default_policy 100 e)"
proof (rule unpaid_reportE)
  fix r
  assume r: "unpaid_report = Inr r" "erp_overall_verdict r = V_PASS"
  from pass_leaves_nothing_open [OF r(1) [unfolded unpaid_report_def] r(2)] r(1) show ?thesis by auto
qed

end
