(* ===== verification/Remediation.thy ===== *)
theory Remediation
  imports StructuredValues Hypotheses LedgerModel EvidenceRepository "HOL-Library.Product_Lexorder"
begin

text \<open>
  The remediation stage (\<open>remediation/\<close>): the catalog of actions and the policy that forbids money
  movement (\<open>catalog.py\<close>), the witness of a compatible consumer deployment (\<open>deployment.py\<close>), the
  validation of a proposed candidate with one handler per action (\<open>validator.py\<close>), the eligibility of
  a Case and the consistent read of its state (\<open>state.py\<close>), the preflight against a fresh read
  (\<open>preflight.py\<close>) and the planner that turns a draft of the model into at most one intent
  (\<open>service.py\<close>). Descriptions and rationales are dropped. Hash functions are parameters: \<open>dg\<close> is
  the digest of canonical JSON, \<open>eh\<close> the digest of a list of Evidence dumps, \<open>gk\<close> the text of a group
  key, \<open>sn\<close> the snapshot identifier that the context assembler computes.
\<close>

section \<open>Models\<close>

datatype selection_role =
    Role_DIRECT_REMEDIATION | Role_ADMINISTRATIVE_REMEDIATION | Role_HUMAN_FALLBACK
  | Role_NO_ACTION

primrec selection_role_value :: "selection_role \<Rightarrow> string" where
  "selection_role_value Role_DIRECT_REMEDIATION = ''DIRECT_REMEDIATION''"
| "selection_role_value Role_ADMINISTRATIVE_REMEDIATION = ''ADMINISTRATIVE_REMEDIATION''"
| "selection_role_value Role_HUMAN_FALLBACK = ''HUMAN_FALLBACK''"
| "selection_role_value Role_NO_ACTION = ''NO_ACTION''"

datatype effect_scope =
    Scope_NONE | Scope_MESSAGE | Scope_DELIVERY | Scope_RECONCILIATION | Scope_ORDER_STATE
  | Scope_MONEY | Scope_BULK

primrec effect_scope_value :: "effect_scope \<Rightarrow> string" where
  "effect_scope_value Scope_NONE = ''NONE''"
| "effect_scope_value Scope_MESSAGE = ''MESSAGE''"
| "effect_scope_value Scope_DELIVERY = ''DELIVERY''"
| "effect_scope_value Scope_RECONCILIATION = ''RECONCILIATION''"
| "effect_scope_value Scope_ORDER_STATE = ''ORDER_STATE''"
| "effect_scope_value Scope_MONEY = ''MONEY''"
| "effect_scope_value Scope_BULK = ''BULK''"

datatype evidence_condition =
    Cond_SIGNED_FAILED_CALLBACK | Cond_PAYMENT_IDENTITY_MATCH | Cond_UNCONVERGED_ASSET_DELIVERY
  | Cond_OBSERVED_DIVERGENCE | Cond_OPEN_PROBLEM

primrec evidence_condition_value :: "evidence_condition \<Rightarrow> string" where
  "evidence_condition_value Cond_SIGNED_FAILED_CALLBACK = ''SIGNED_FAILED_CALLBACK''"
| "evidence_condition_value Cond_PAYMENT_IDENTITY_MATCH = ''PAYMENT_IDENTITY_MATCH''"
| "evidence_condition_value Cond_UNCONVERGED_ASSET_DELIVERY = ''UNCONVERGED_ASSET_DELIVERY''"
| "evidence_condition_value Cond_OBSERVED_DIVERGENCE = ''OBSERVED_DIVERGENCE''"
| "evidence_condition_value Cond_OPEN_PROBLEM = ''OPEN_PROBLEM''"

datatype gap_requirement =
    Req_NO_OPEN_SAFETY_GAP | Req_CURRENT_COMPATIBLE_DEPLOYMENT_IF_SCHEMA_FAILURE

primrec gap_requirement_value :: "gap_requirement \<Rightarrow> string" where
  "gap_requirement_value Req_NO_OPEN_SAFETY_GAP = ''NO_OPEN_SAFETY_GAP''"
| "gap_requirement_value Req_CURRENT_COMPATIBLE_DEPLOYMENT_IF_SCHEMA_FAILURE =
     ''CURRENT_COMPATIBLE_DEPLOYMENT_IF_SCHEMA_FAILURE''"

datatype reject_reason =
    Rej_UNKNOWN_ACTION | Rej_ACTION_NOT_ALLOWED | Rej_MONEY_MOVEMENT_PROHIBITED
  | Rej_FOREIGN_ORDER | Rej_FOREIGN_CASE | Rej_UNKNOWN_PROBLEM | Rej_EVIDENCE_NOT_FOUND
  | Rej_EVIDENCE_NOT_CURRENT | Rej_EVIDENCE_DOES_NOT_SUPPORT_ACTION | Rej_IDENTITY_UNKNOWN
  | Rej_IDENTITY_MISMATCH | Rej_HYPOTHESIS_NOT_CONFIRMED | Rej_UNRESOLVED_SAFETY_GAP
  | Rej_DEPLOYMENT_STATE_UNKNOWN | Rej_DEPLOYMENT_INCOMPATIBLE | Rej_ACTION_ALREADY_SATISFIED
  | Rej_ACTION_NOT_NEEDED | Rej_CASE_NOT_ACTIONABLE | Rej_AMBIGUOUS_TARGET | Rej_STALE_SNAPSHOT
  | Rej_STALE_POLICY | Rej_TARGET_BINDING_MISMATCH

primrec reject_reason_value :: "reject_reason \<Rightarrow> string" where
  "reject_reason_value Rej_UNKNOWN_ACTION = ''UNKNOWN_ACTION''"
| "reject_reason_value Rej_ACTION_NOT_ALLOWED = ''ACTION_NOT_ALLOWED''"
| "reject_reason_value Rej_MONEY_MOVEMENT_PROHIBITED = ''MONEY_MOVEMENT_PROHIBITED''"
| "reject_reason_value Rej_FOREIGN_ORDER = ''FOREIGN_ORDER''"
| "reject_reason_value Rej_FOREIGN_CASE = ''FOREIGN_CASE''"
| "reject_reason_value Rej_UNKNOWN_PROBLEM = ''UNKNOWN_PROBLEM''"
| "reject_reason_value Rej_EVIDENCE_NOT_FOUND = ''EVIDENCE_NOT_FOUND''"
| "reject_reason_value Rej_EVIDENCE_NOT_CURRENT = ''EVIDENCE_NOT_CURRENT''"
| "reject_reason_value Rej_EVIDENCE_DOES_NOT_SUPPORT_ACTION = ''EVIDENCE_DOES_NOT_SUPPORT_ACTION''"
| "reject_reason_value Rej_IDENTITY_UNKNOWN = ''IDENTITY_UNKNOWN''"
| "reject_reason_value Rej_IDENTITY_MISMATCH = ''IDENTITY_MISMATCH''"
| "reject_reason_value Rej_HYPOTHESIS_NOT_CONFIRMED = ''HYPOTHESIS_NOT_CONFIRMED''"
| "reject_reason_value Rej_UNRESOLVED_SAFETY_GAP = ''UNRESOLVED_SAFETY_GAP''"
| "reject_reason_value Rej_DEPLOYMENT_STATE_UNKNOWN = ''DEPLOYMENT_STATE_UNKNOWN''"
| "reject_reason_value Rej_DEPLOYMENT_INCOMPATIBLE = ''DEPLOYMENT_INCOMPATIBLE''"
| "reject_reason_value Rej_ACTION_ALREADY_SATISFIED = ''ACTION_ALREADY_SATISFIED''"
| "reject_reason_value Rej_ACTION_NOT_NEEDED = ''ACTION_NOT_NEEDED''"
| "reject_reason_value Rej_CASE_NOT_ACTIONABLE = ''CASE_NOT_ACTIONABLE''"
| "reject_reason_value Rej_AMBIGUOUS_TARGET = ''AMBIGUOUS_TARGET''"
| "reject_reason_value Rej_STALE_SNAPSHOT = ''STALE_SNAPSHOT''"
| "reject_reason_value Rej_STALE_POLICY = ''STALE_POLICY''"
| "reject_reason_value Rej_TARGET_BINDING_MISMATCH = ''TARGET_BINDING_MISMATCH''"

record remediation_action_contract =
  rac_action_type :: remediation_action_type
  rac_selection_role :: selection_role
  rac_risk_level :: action_risk_level
  rac_required_evidence_conditions :: "evidence_condition list"
  rac_required_identity_match :: bool
  rac_required_case_state :: "case_status list"
  rac_forbidden_if :: "reject_reason list"
  rac_required_open_or_resolved_gaps :: "gap_requirement list"
  rac_max_effect_scope :: effect_scope
  rac_requires_future_approval :: bool
  rac_requires_future_capability :: bool

record remediation_candidate =
  rcd_candidate_id :: string
  rcd_action_type :: remediation_action_type
  rcd_target_order_id :: string
  rcd_target_problem_ids :: "string list"
  rcd_evidence_refs :: "string list"

record remediation_draft =
  rmd_snapshot_id :: string
  rmd_candidates :: "remediation_candidate list"

record validated_remediation_candidate =
  vrc_candidate :: remediation_candidate
  vrc_target :: remediation_target
  vrc_risk_level :: action_risk_level
  vrc_supporting_evidence_refs :: "string list"
  vrc_snapshot_id :: string
  vrc_evidence_hash :: string
  vrc_policy_version :: string
  vrc_catalog_version :: string

record rejected_remediation_candidate =
  rrc_candidate :: remediation_candidate
  rrc_reason_codes :: "reject_reason list"

datatype preflight_status =
    Pre_READY_FOR_FUTURE_AUTHORIZATION | Pre_BLOCKED | Pre_STALE | Pre_NOT_NEEDED

primrec preflight_status_value :: "preflight_status \<Rightarrow> string" where
  "preflight_status_value Pre_READY_FOR_FUTURE_AUTHORIZATION = ''READY_FOR_FUTURE_AUTHORIZATION''"
| "preflight_status_value Pre_BLOCKED = ''BLOCKED''"
| "preflight_status_value Pre_STALE = ''STALE''"
| "preflight_status_value Pre_NOT_NEEDED = ''NOT_NEEDED''"

record remediation_preflight_result =
  rpr_candidate_id :: string
  rpr_status :: preflight_status
  rpr_reason_codes :: "reject_reason list"
  rpr_proposal_snapshot_id :: string
  rpr_fresh_snapshot_id :: string
  rpr_preflight_fingerprint :: string
  rpr_intent :: "remediation_intent option"

record remediation_preview =
  rpv_candidate :: remediation_candidate
  rpv_risk_level :: action_risk_level
  rpv_status :: preflight_status
  rpv_blocking_reasons :: "reject_reason list"
  rpv_target :: "remediation_target option"

datatype eligibility_status =
    Elg_ELIGIBLE | Elg_INVESTIGATION_INCOMPLETE | Elg_SAFETY_GAP_OPEN | Elg_IDENTITY_UNSAFE
  | Elg_NO_REMEDIATION_NEEDED

primrec eligibility_status_value :: "eligibility_status \<Rightarrow> string" where
  "eligibility_status_value Elg_ELIGIBLE = ''ELIGIBLE''"
| "eligibility_status_value Elg_INVESTIGATION_INCOMPLETE = ''INVESTIGATION_INCOMPLETE''"
| "eligibility_status_value Elg_SAFETY_GAP_OPEN = ''SAFETY_GAP_OPEN''"
| "eligibility_status_value Elg_IDENTITY_UNSAFE = ''IDENTITY_UNSAFE''"
| "eligibility_status_value Elg_NO_REMEDIATION_NEEDED = ''NO_REMEDIATION_NEEDED''"

record remediation_eligibility =
  rel_status :: eligibility_status
  rel_can_plan :: bool
  rel_allowed_actions :: "remediation_action_type list"


definition risk_rank :: "action_risk_level \<Rightarrow> nat" where
  "risk_rank r = (case r of Risk_L0_READ_ONLY \<Rightarrow> 0 | Risk_L1_ADMINISTRATIVE \<Rightarrow> 1
     | Risk_L2_SINGLE_ORDER_SIDE_EFFECT \<Rightarrow> 2 | Risk_L3_MONEY_MOVEMENT \<Rightarrow> 3 | Risk_L4_BULK_OR_SYSTEMIC \<Rightarrow> 4)"

section \<open>Catalog and forbidden actions\<close>

definition action_contract :: "remediation_action_type \<Rightarrow> action_risk_level \<Rightarrow> evidence_condition list
    \<Rightarrow> effect_scope \<Rightarrow> selection_role \<Rightarrow> remediation_action_contract" where
  "action_contract action risk conditions scope role = (
     let l2 = (risk = Risk_L2_SINGLE_ORDER_SIDE_EFFECT)
     in \<lparr> rac_action_type = action, rac_selection_role = role, rac_risk_level = risk,
          rac_required_evidence_conditions = conditions, rac_required_identity_match = l2,
          rac_required_case_state = (if l2 then [Case_INVESTIGATING, Case_ESCALATED]
            else if action = Act_NO_REMEDIATION then [Case_NEW, Case_INVESTIGATING, Case_WAITING,
              Case_ESCALATED, Case_CLOSED, Case_CLOSED_VERIFIED]
            else [Case_NEW, Case_INVESTIGATING, Case_WAITING, Case_ESCALATED]),
          rac_forbidden_if = (if l2 then [Rej_IDENTITY_UNKNOWN, Rej_IDENTITY_MISMATCH,
            Rej_UNRESOLVED_SAFETY_GAP, Rej_ACTION_ALREADY_SATISFIED] else []),
          rac_required_open_or_resolved_gaps = (if action = Act_REPLAY_CALLBACK_CONSUMPTION
            then [Req_NO_OPEN_SAFETY_GAP, Req_CURRENT_COMPATIBLE_DEPLOYMENT_IF_SCHEMA_FAILURE]
            else if l2 then [Req_NO_OPEN_SAFETY_GAP] else []),
          rac_max_effect_scope = scope, rac_requires_future_approval = l2,
          rac_requires_future_capability = (action \<noteq> Act_NO_REMEDIATION) \<rparr>)"

definition REMEDIATION_CATALOG :: "remediation_action_contract list" where
  "REMEDIATION_CATALOG = [
     action_contract Act_NO_REMEDIATION Risk_L0_READ_ONLY [] Scope_NONE Role_NO_ACTION,
     action_contract Act_REQUEST_OPERATOR_REVIEW Risk_L1_ADMINISTRATIVE [Cond_OPEN_PROBLEM]
       Scope_RECONCILIATION Role_HUMAN_FALLBACK,
     action_contract Act_CREATE_RECONCILIATION_TASK Risk_L1_ADMINISTRATIVE [Cond_OBSERVED_DIVERGENCE]
       Scope_RECONCILIATION Role_ADMINISTRATIVE_REMEDIATION,
     action_contract Act_REPLAY_CALLBACK_CONSUMPTION Risk_L2_SINGLE_ORDER_SIDE_EFFECT
       [Cond_PAYMENT_IDENTITY_MATCH, Cond_SIGNED_FAILED_CALLBACK] Scope_MESSAGE Role_DIRECT_REMEDIATION,
     action_contract Act_REDELIVER_ASSET_NOTIFICATION Risk_L2_SINGLE_ORDER_SIDE_EFFECT
       [Cond_PAYMENT_IDENTITY_MATCH, Cond_UNCONVERGED_ASSET_DELIVERY] Scope_DELIVERY Role_DIRECT_REMEDIATION]"

definition catalog_get :: "remediation_action_contract list \<Rightarrow> remediation_action_type
    \<Rightarrow> remediation_action_contract option" where
  "catalog_get entries action = find (\<lambda>c. rac_action_type c = action) entries"

primrec role_rank :: "selection_role \<Rightarrow> nat" where
  "role_rank Role_DIRECT_REMEDIATION = 0"
| "role_rank Role_ADMINISTRATIVE_REMEDIATION = 1"
| "role_rank Role_HUMAN_FALLBACK = 2"
| "role_rank Role_NO_ACTION = 3"

primrec scope_rank :: "effect_scope \<Rightarrow> nat" where
  "scope_rank Scope_NONE = 0"
| "scope_rank Scope_MESSAGE = 1"
| "scope_rank Scope_DELIVERY = 1"
| "scope_rank Scope_RECONCILIATION = 2"
| "scope_rank Scope_ORDER_STATE = 3"
| "scope_rank Scope_MONEY = 4"
| "scope_rank Scope_BULK = 5"

type_synonym selection_key = "nat \<times> nat \<times> nat \<times> string \<times> string"

definition selection_key :: "remediation_action_contract \<Rightarrow> remediation_candidate \<Rightarrow> selection_key" where
  "selection_key entry c = (role_rank (rac_selection_role entry), scope_rank (rac_max_effect_scope entry),
     risk_rank (rac_risk_level entry), remediation_action_type_value (rac_action_type entry),
     rcd_candidate_id c)"

definition forbidden_check :: "remediation_action_contract option \<Rightarrow> reject_reason list" where
  "forbidden_check entry = (case entry of None \<Rightarrow> [Rej_UNKNOWN_ACTION]
     | Some c \<Rightarrow>
         if rac_risk_level c = Risk_L3_MONEY_MOVEMENT \<or> rac_risk_level c = Risk_L4_BULK_OR_SYSTEMIC
         then [Rej_MONEY_MOVEMENT_PROHIBITED]
         else if rac_max_effect_scope c \<in> set [Scope_MONEY, Scope_ORDER_STATE, Scope_BULK]
         then [Rej_ACTION_NOT_ALLOWED] else [])"

section \<open>Deployment of the consumer\<close>

definition deployment_claims :: "claim_type list" where
  "deployment_claims = [Claim_CONSUMER_DEPLOYED_SCHEMA_VERSION, Claim_CONSUMER_ACCEPTED_PROTOCOL_VERSION,
     Claim_CONSUMER_LOAN_NO_FIELD_TYPE]"

text \<open>The number of different values among the facts, \<open>len({e.value for e in es})\<close>.\<close>

definition value_count :: "evidence list \<Rightarrow> nat" where
  "value_count es = length (remdups (map (py_key \<circ> ev_value) es))"

definition deployed_after :: "evidence \<Rightarrow> evidence \<Rightarrow> bool" where
  "deployed_after message version = (ev_subject version = ev_subject message
     \<and> ev_tool version = Tool_MESSAGES \<and> callback_of version = callback_of message
     \<and> time_le (ev_event_time message) (ev_event_time version))"

definition deployment_field :: "evidence_index \<Rightarrow> evidence \<Rightarrow> claim_type \<Rightarrow> evidence list" where
  "deployment_field ix version c = filter (\<lambda>e. ev_subject e = ev_subject version
     \<and> ev_observation_id e = ev_observation_id version \<and> ev_event_time e = ev_event_time version
     \<and> ev_content_hash e = ev_content_hash version \<and> ev_source_kind e = Src_PRIMARY
     \<and> ev_tool e = Tool_MESSAGES \<and> callback_of e = callback_of version) (current ix c)"

definition deployment_group :: "evidence_index \<Rightarrow> evidence \<Rightarrow> evidence list option" where
  "deployment_group ix version = (
     if list_all (\<lambda>c. value_count (deployment_field ix version c) = 1) deployment_claims
        \<and> list_all (\<lambda>c. value_count (filter (\<lambda>e. ev_subject e = ev_subject version) (current ix c)) = 1)
            deployment_claims
     then Some (concat (map (deployment_field ix version) deployment_claims)) else None)"

definition deployment_witness :: "evidence_index \<Rightarrow> evidence \<Rightarrow> evidence list" where
  "deployment_witness ix message = (
     let groups = List.map_filter (deployment_group ix)
           (filter (deployed_after message) (current ix Claim_CONSUMER_DEPLOYED_SCHEMA_VERSION))
     in if groups = [] then [] else arg_min_list refs groups)"

section \<open>The state of an investigation\<close>

record investigation_state =
  ivs_case :: case_rec
  ivs_index :: evidence_index
  ivs_graph :: hypothesis_graph_view
  ivs_snapshot_id :: string

definition safety_gap_open :: "hypothesis_graph_view \<Rightarrow> bool" where
  "safety_gap_open graph = list_ex (\<lambda>g. eg_priority_class g = Prio_SAFETY_CRITICAL) (hg_open_gaps graph)"

section \<open>Validation of a candidate\<close>

definition candidate_id_char :: "char \<Rightarrow> bool" where
  "candidate_id_char c = (is_alnum c \<or> c \<in> set ''_-'')"

definition remediation_candidate_valid :: "remediation_candidate \<Rightarrow> bool" where
  "remediation_candidate_valid c = (sized 1 64 (rcd_candidate_id c)
     \<and> list_all candidate_id_char (rcd_candidate_id c) \<and> opaque_subject_ref (rcd_target_order_id c)
     \<and> length (rcd_target_problem_ids c) \<le> 24 \<and> list_all context_reference (rcd_target_problem_ids c)
     \<and> length (rcd_evidence_refs c) \<le> 128 \<and> list_all context_reference (rcd_evidence_refs c))"

definition optional :: "('a \<Rightarrow> bool) \<Rightarrow> 'a option \<Rightarrow> bool" where
  "optional p x = (case x of None \<Rightarrow> True | Some y \<Rightarrow> p y)"

definition remediation_target_valid :: "remediation_target \<Rightarrow> bool" where
  "remediation_target_valid t = (opaque_subject_ref (rtg_case_id t)
     \<and> opaque_subject_ref (rtg_internal_order_id t)
     \<and> optional opaque_subject_ref (rtg_callback_event_ref t)
     \<and> optional opaque_subject_ref (rtg_message_ref t)
     \<and> optional opaque_subject_ref (rtg_delivery_ref t))"

definition validated_candidate_valid :: "validated_remediation_candidate \<Rightarrow> bool" where
  "validated_candidate_valid v = (remediation_candidate_valid (vrc_candidate v)
     \<and> remediation_target_valid (vrc_target v)
     \<and> list_all context_reference (vrc_supporting_evidence_refs v))"

definition cited_evidence :: "evidence_index \<Rightarrow> string list \<Rightarrow> evidence list" where
  "cited_evidence ix rs = filter (\<lambda>e. ev_evidence_id e \<in> set rs) (ix_evidence ix)"

text \<open>\<open>by_id[r] for r in rs\<close>.\<close>

definition evidence_by_id :: "evidence_index \<Rightarrow> string list \<Rightarrow> error + evidence list" where
  "evidence_by_id ix rs = mapE (\<lambda>r. needE KeyError
     (find (\<lambda>e. ev_evidence_id e = r) (ix_evidence ix))) rs"

definition same_record :: "evidence \<Rightarrow> evidence \<Rightarrow> bool" where
  "same_record a b = (ev_subject a = ev_subject b \<and> ev_observation_id a = ev_observation_id b
     \<and> ev_event_time a = ev_event_time b \<and> ev_content_hash a = ev_content_hash b)"

text \<open>The identifiers of all current facts.\<close>

definition current_ids :: "evidence_index \<Rightarrow> string list" where
  "current_ids ix = concat (map (\<lambda>claim. map ev_evidence_id (current ix claim))
     (remdups (map ev_claim_type (ix_evidence ix))))"

type_synonym handler_result = "error + remediation_target \<times> evidence list \<times> reject_reason list"

text \<open>
  One callback with its failed message: the reasons it adds and, when the candidate cites the whole
  witness, the witness.
\<close>

definition replay_pair :: "evidence_index \<Rightarrow> bool \<Rightarrow> string list \<Rightarrow> evidence \<times> evidence
    \<Rightarrow> reject_reason list \<times> (evidence \<times> evidence \<times> evidence list) option" where
  "replay_pair ix schema_confirmed cited p = (
     let (gateway, failed) = p;
         signatures = filter (\<lambda>e. same_record e gateway)
           (facts ix Claim_CALLBACK_SIGNATURE_VERIFIED (VBool True) [Tool_CALLBACK, Tool_CALLBACK_RAW]);
         mismatch = find (\<lambda>g. failed \<in> set (group_members g)) (mismatch_groups ix);
         schema_error = list_ex (\<lambda>e. ev_value e = VStr ''CALLBACK_SCHEMA_MISMATCH''
             \<and> ev_subject e = ev_subject failed \<and> callback_of e = callback_of failed)
           (current ix Claim_MESSAGE_ERROR_CODE);
         items = gateway # failed # signatures
           @ (case mismatch of None \<Rightarrow> [] | Some g \<Rightarrow> group_members g)
     in if schema_error \<and> mismatch = None then ([Rej_EVIDENCE_DOES_NOT_SUPPORT_ACTION], None)
        else (if mismatch \<noteq> None \<and> \<not> schema_confirmed then [Rej_HYPOTHESIS_NOT_CONFIRMED] else [],
              if signatures \<noteq> [] \<and> set (refs items) \<subseteq> set cited
              then Some (gateway, failed, items) else None))"

definition pair_address :: "evidence \<times> evidence \<times> evidence list \<Rightarrow> string \<times> string" where
  "pair_address g = (es_identifier (ev_subject (fst g)), es_identifier (ev_subject (fst (snd g))))"

definition replay_problem :: "case_rec \<Rightarrow> string \<Rightarrow> bool" where
  "replay_problem c p = (p \<in> set [hypothesis_id_value Hyp_H6, hypothesis_id_value Hyp_H6_SCHEMA_MISMATCH,
     case_case_id c @ '':CALLBACK_CONSUMPTION''])"

definition validate_replay :: "investigation_state \<Rightarrow> remediation_candidate \<Rightarrow> remediation_target
    \<Rightarrow> handler_result" where
  "validate_replay st c target = (
     let ix = ivs_index st; graph = ivs_graph st
     in bindE (needE KeyError (state_status Hyp_H6 (hg_hypotheses graph))) (\<lambda>h6.
        bindE (needE KeyError (state_status Hyp_H6_SCHEMA_MISMATCH (hg_hypotheses graph))) (\<lambda>schema.
        let results = map (replay_pair ix (schema = Hs_CONFIRMED) (rcd_evidence_refs c)) (callback_pairs ix ''FAILED'');
            groups = List.map_filter snd results;
            rs = (if h6 \<noteq> Hs_CONFIRMED then [Rej_HYPOTHESIS_NOT_CONFIRMED] else [])
              @ (if list_ex (replay_problem (ivs_case st)) (rcd_target_problem_ids c) then []
                 else [Rej_EVIDENCE_DOES_NOT_SUPPORT_ACTION])
              @ concat (map fst results)
        in if 1 < length (remdups (map pair_address groups))
           then Inr (target, [], rs @ [Rej_AMBIGUOUS_TARGET])
           else case groups of [] \<Rightarrow> Inr (target, [], rs @ [Rej_EVIDENCE_DOES_NOT_SUPPORT_ACTION])
             | g # _ \<Rightarrow>
                 bindE (evidence_by_id ix (pir_evidence_refs (hg_payment_identity graph))) (\<lambda>identity.
                   Inr (target \<lparr> rtg_callback_event_ref := Some (fst (pair_address g)),
                                 rtg_message_ref := Some (snd (pair_address g)) \<rparr>,
                        snd (snd g) @ identity, rs)))))"

definition redelivery_problem :: "case_rec \<Rightarrow> string \<Rightarrow> bool" where
  "redelivery_problem c p = (p \<in> set [hypothesis_id_value Hyp_H7, case_case_id c @ '':ASSET_CONVERGENCE''])"

text \<open>The delivery events recorded with a failed delivery.\<close>

definition delivery_refs :: "evidence_index \<Rightarrow> evidence list" where
  "delivery_refs ix = filter (\<lambda>e. list_ex (same_record e)
       (facts ix Claim_ASSET_DELIVERY_STATUS (VStr ''FAILED'') [Tool_ASSET_DELIVERY])
     \<and> ev_tool e = Tool_ASSET_DELIVERY) (current ix Claim_ASSET_DELIVERY_EVENT_REF)"

definition asset_converged :: "evidence_index \<Rightarrow> evidence list" where
  "asset_converged ix = facts ix Claim_ASSET_STATUS (VStr ''SUCCESS'') [Tool_ASSET]"

definition validate_redelivery :: "investigation_state \<Rightarrow> remediation_candidate \<Rightarrow> remediation_target
    \<Rightarrow> handler_result" where
  "validate_redelivery st c target = (
     let ix = ivs_index st; graph = ivs_graph st;
         local = facts ix Claim_GUARANTEE_STATUS (VStr ''SUCCESS'') [Tool_GUARANTEE];
         asset = facts ix Claim_ASSET_STATUS (VStr ''PROCESSING'') [Tool_ASSET];
         delivery = facts ix Claim_ASSET_DELIVERY_STATUS (VStr ''FAILED'') [Tool_ASSET_DELIVERY];
         events = delivery_refs ix;
         rs = (if list_ex (redelivery_problem (ivs_case st)) (rcd_target_problem_ids c) then []
               else [Rej_EVIDENCE_DOES_NOT_SUPPORT_ACTION])
           @ (if asset_converged ix \<noteq> []
                 \<or> facts ix Claim_ASSET_DELIVERY_STATUS (VStr ''DELIVERED'') [Tool_ASSET_DELIVERY] \<noteq> []
              then [Rej_ACTION_ALREADY_SATISFIED] else [])
     in if local = [] \<or> asset = [] \<or> delivery = [] \<or> value_count events \<noteq> 1
        then Inr (target, [], rs @ [Rej_EVIDENCE_DOES_NOT_SUPPORT_ACTION])
        else bindE (evidence_by_id ix (pir_evidence_refs (hg_payment_identity graph))) (\<lambda>identity.
          let support = local @ asset @ delivery @ events @ identity
          in case ev_value (hd events) of
               VStr ref \<Rightarrow> Inr (target \<lparr> rtg_delivery_ref := Some ref \<rparr>, support,
                 rs @ (if set (refs support) \<subseteq> set (rcd_evidence_refs c) then []
                       else [Rej_EVIDENCE_DOES_NOT_SUPPORT_ACTION]))
             | _ \<Rightarrow> Inl ValidationError))"

definition cited_status :: "evidence_index \<Rightarrow> string list \<Rightarrow> claim_type \<Rightarrow> tool_name \<Rightarrow> evidence list" where
  "cited_status ix cited claim tool = concat (map (\<lambda>v. filter (\<lambda>e. ev_evidence_id e \<in> set cited)
     (facts ix claim (VStr v) [tool])) [''SUCCESS'', ''PROCESSING'', ''FAILED''])"

definition divergence :: "(group_key \<Rightarrow> string) \<Rightarrow> evidence_index \<Rightarrow> string list \<Rightarrow> evidence list" where
  "divergence gk ix cited = (
     let disagreeing = concat (map (\<lambda>(g, a). if \<not> py_eq (ev_value g) (ev_value a) then [g, a] else [])
           (List.product (cited_status ix cited Claim_GUARANTEE_STATUS Tool_GUARANTEE)
              (cited_status ix cited Claim_ASSET_STATUS Tool_ASSET)));
         processing = (if settled_witness gk ix = [] then []
           else filter (\<lambda>e. ev_evidence_id e \<in> set cited)
             (facts ix Claim_GUARANTEE_STATUS (VStr ''PROCESSING'') [Tool_GUARANTEE]))
     in if disagreeing \<noteq> [] then disagreeing
        else if processing \<noteq> [] then processing @ settled_witness gk ix else [])"

definition validate_reconciliation :: "(group_key \<Rightarrow> string) \<Rightarrow> investigation_state \<Rightarrow> remediation_candidate
    \<Rightarrow> remediation_target \<Rightarrow> handler_result" where
  "validate_reconciliation gk st c target = (
     let support = divergence gk (ivs_index st) (rcd_evidence_refs c)
     in Inr (target, support,
       if support = [] \<or> \<not> set (refs support) \<subseteq> set (rcd_evidence_refs c) \<or> rcd_target_problem_ids c = []
       then [Rej_EVIDENCE_DOES_NOT_SUPPORT_ACTION] else []))"

definition active_problems :: "hypothesis_graph_view \<Rightarrow> string list" where
  "active_problems graph = map (hypothesis_id_value \<circ> hs_hypothesis_id)
       (filter (\<lambda>h. hs_status h = Hs_CONFIRMED \<or> hs_status h = Hs_SUPPORTED) (hg_hypotheses graph))
     @ map eg_gap_id (hg_open_gaps graph)"

definition validate_review :: "investigation_state \<Rightarrow> remediation_candidate \<Rightarrow> remediation_target
    \<Rightarrow> handler_result" where
  "validate_review st c target = Inr (target, cited_evidence (ivs_index st) (rcd_evidence_refs c),
     if list_ex (\<lambda>p. p \<in> set (active_problems (ivs_graph st))) (rcd_target_problem_ids c) then []
     else [Rej_ACTION_NOT_NEEDED])"

definition validate_no_action :: "investigation_state \<Rightarrow> remediation_candidate \<Rightarrow> remediation_target
    \<Rightarrow> handler_result" where
  "validate_no_action st c target = Inr (target, cited_evidence (ivs_index st) (rcd_evidence_refs c), [])"

fun validator_handler :: "(group_key \<Rightarrow> string) \<Rightarrow> remediation_action_type \<Rightarrow> investigation_state
    \<Rightarrow> remediation_candidate \<Rightarrow> remediation_target \<Rightarrow> handler_result" where
  "validator_handler gk Act_REPLAY_CALLBACK_CONSUMPTION = validate_replay"
| "validator_handler gk Act_REDELIVER_ASSET_NOTIFICATION = validate_redelivery"
| "validator_handler gk Act_CREATE_RECONCILIATION_TASK = validate_reconciliation gk"
| "validator_handler gk Act_REQUEST_OPERATOR_REVIEW = validate_review"
| "validator_handler gk Act_NO_REMEDIATION = validate_no_action"

definition known_problems :: "hypothesis_graph_view \<Rightarrow> string list" where
  "known_problems graph = map hypothesis_id_value [Hyp_H1, Hyp_H2, Hyp_H3, Hyp_H4, Hyp_H5, Hyp_H6,
     Hyp_H6_SCHEMA_MISMATCH, Hyp_H6_STALE_CONSUMER_SCHEMA, Hyp_H7, Hyp_H8] @ map eg_gap_id (hg_gaps graph)"

definition scope_reasons :: "investigation_state \<Rightarrow> remediation_candidate \<Rightarrow> reject_reason list" where
  "scope_reasons st c = (
     (if rcd_target_order_id c \<noteq> case_internal_order_id (ivs_case st)
         \<or> rcd_target_order_id c \<notin> set (csc_allowed_order_ids (case_scope (ivs_case st)))
      then [Rej_FOREIGN_ORDER] else [])
   @ (if set (rcd_target_problem_ids c) \<subseteq> set (known_problems (ivs_graph st)) then [] else [Rej_UNKNOWN_PROBLEM])
   @ (if set (rcd_evidence_refs c) \<subseteq> set (map ev_evidence_id (ix_evidence (ivs_index st))) then []
      else [Rej_EVIDENCE_NOT_FOUND]))"

definition side_effect_reasons :: "investigation_state \<Rightarrow> remediation_candidate \<Rightarrow> reject_reason list" where
  "side_effect_reasons st c = (
     let identity = hg_payment_identity (ivs_graph st); cited = set (rcd_evidence_refs c)
     in (if pir_result identity = Match_MATCH then []
         else if pir_result identity = Match_MISMATCH then [Rej_IDENTITY_MISMATCH] else [Rej_IDENTITY_UNKNOWN])
      @ (if safety_gap_open (ivs_graph st) then [Rej_UNRESOLVED_SAFETY_GAP] else [])
      @ (if cited \<subseteq> set (current_ids (ivs_index st)) then [] else [Rej_EVIDENCE_NOT_CURRENT])
      @ (if set (pir_evidence_refs identity) \<subseteq> cited then [] else [Rej_EVIDENCE_DOES_NOT_SUPPORT_ACTION]))"

definition base_target :: "case_rec \<Rightarrow> remediation_target" where
  "base_target c = \<lparr> rtg_case_id = case_case_id c, rtg_tenant_id = case_tenant_id c,
     rtg_internal_order_id = case_internal_order_id c, rtg_callback_event_ref = None,
     rtg_message_ref = None, rtg_delivery_ref = None \<rparr>"

definition rejected :: "remediation_candidate \<Rightarrow> reject_reason list \<Rightarrow> rejected_remediation_candidate" where
  "rejected c rs = \<lparr> rrc_candidate = c, rrc_reason_codes = dedup rs \<rparr>"

definition validate_candidate :: "(evidence list \<Rightarrow> string) \<Rightarrow> (group_key \<Rightarrow> string)
    \<Rightarrow> remediation_action_contract list \<Rightarrow> investigation_state \<Rightarrow> remediation_candidate
    \<Rightarrow> error + (rejected_remediation_candidate + validated_remediation_candidate)" where
  "validate_candidate eh gk entries st c = (
     if \<not> remediation_candidate_valid c then Inl ValidationError
     else let rs = forbidden_check (catalog_get entries (rcd_action_type c)) @ scope_reasons st c
     in case catalog_get entries (rcd_action_type c) of
          None \<Rightarrow> Inr (Inl (rejected c rs))
        | Some entry \<Rightarrow>
            if \<not> remediation_target_valid (base_target (ivs_case st)) then Inl ValidationError
            else bindE (validator_handler gk (rcd_action_type c) st c (base_target (ivs_case st)))
              (\<lambda>(target, support, action_reasons).
                let rs = rs
                     @ (if case_status (ivs_case st) \<in> set (rac_required_case_state entry) then []
                        else [Rej_CASE_NOT_ACTIONABLE])
                     @ (if rac_risk_level entry = Risk_L2_SINGLE_ORDER_SIDE_EFFECT
                        then side_effect_reasons st c else [])
                     @ action_reasons
                in if rs \<noteq> [] then Inr (Inl (rejected c rs))
                   else let v = \<lparr> vrc_candidate = c, vrc_target = target,
                          vrc_risk_level = rac_risk_level entry, vrc_supporting_evidence_refs = refs support,
                          vrc_snapshot_id = ivs_snapshot_id st,
                          vrc_evidence_hash = eh (cited_evidence (ivs_index st) (refs support)),
                          vrc_policy_version = REMEDIATION_POLICY_VERSION,
                          vrc_catalog_version = REMEDIATION_CATALOG_VERSION \<rparr>
                   in if list_all context_reference (refs support) then Inr (Inr v)
                      else Inl ValidationError))"

section \<open>Consistent read and eligibility\<close>

text \<open>
  One attempt sees up to three databases: one for the Case, one for the Evidence and one for the
  second read of the Case; other transactions may commit in between. The read gives up after three
  attempts.
\<close>

definition state_built :: "(group_key \<Rightarrow> string) \<Rightarrow> (case_rec \<Rightarrow> evidence list \<Rightarrow> string)
    \<Rightarrow> (case_rec \<Rightarrow> evidence list \<Rightarrow> error + string) \<Rightarrow> case_rec \<Rightarrow> evidence list \<Rightarrow> error + investigation_state" where
  "state_built gk gf sn c es = bindE (build_index c es) (\<lambda>ix. bindE (evaluate gk gf c es) (\<lambda>graph.
     bindE (sn c es) (\<lambda>snapshot.
       Inr \<lparr> ivs_case = c, ivs_index = ix, ivs_graph = graph, ivs_snapshot_id = snapshot \<rparr>)))"

fun read_attempts :: "(group_key \<Rightarrow> string) \<Rightarrow> (case_rec \<Rightarrow> evidence list \<Rightarrow> string)
    \<Rightarrow> (case_rec \<Rightarrow> evidence list \<Rightarrow> error + string) \<Rightarrow> string \<Rightarrow> string \<Rightarrow> (db \<times> db \<times> db) list
    \<Rightarrow> error + investigation_state" where
  "read_attempts gk gf sn tenant cid [] = Inl RemediationUnavailable"
| "read_attempts gk gf sn tenant cid ((d1, d2, d3) # ds) =
     bindE (get_case tenant d1 cid) (\<lambda>c. bindE (list_evidence tenant d2 cid) (\<lambda>es.
     bindE (get_case tenant d3 cid) (\<lambda>c'.
       if c' = c then state_built gk gf sn c es else read_attempts gk gf sn tenant cid ds)))"

definition read_state :: "(group_key \<Rightarrow> string) \<Rightarrow> (case_rec \<Rightarrow> evidence list \<Rightarrow> string)
    \<Rightarrow> (case_rec \<Rightarrow> evidence list \<Rightarrow> error + string) \<Rightarrow> string \<Rightarrow> string \<Rightarrow> (db \<times> db \<times> db) list
    \<Rightarrow> error + investigation_state" where
  "read_state gk gf sn tenant cid ds = read_attempts gk gf sn tenant cid (take 3 ds)"

definition admin_actions :: "remediation_action_type list" where
  "admin_actions = [Act_NO_REMEDIATION, Act_REQUEST_OPERATOR_REVIEW, Act_CREATE_RECONCILIATION_TASK]"

definition eligibility :: "investigation_state \<Rightarrow> remediation_eligibility" where
  "eligibility st = (
     let result = (\<lambda>status plan allowed. \<lparr> rel_status = status, rel_can_plan = plan,
           rel_allowed_actions = allowed \<rparr>)
     in if is_terminal (case_status (ivs_case st))
        then result Elg_NO_REMEDIATION_NEEDED False [Act_NO_REMEDIATION]
        else if ix_evidence (ivs_index st) = []
        then result Elg_INVESTIGATION_INCOMPLETE False admin_actions
        else if pir_result (hg_payment_identity (ivs_graph st)) \<noteq> Match_MATCH
        then result Elg_IDENTITY_UNSAFE True admin_actions
        else if safety_gap_open (ivs_graph st)
        then result Elg_SAFETY_GAP_OPEN True admin_actions
        else if case_status (ivs_case st) \<notin> {Case_INVESTIGATING, Case_ESCALATED}
        then result Elg_INVESTIGATION_INCOMPLETE True admin_actions
        else result Elg_ELIGIBLE True [Act_NO_REMEDIATION, Act_REPLAY_CALLBACK_CONSUMPTION,
          Act_REDELIVER_ASSET_NOTIFICATION, Act_CREATE_RECONCILIATION_TASK, Act_REQUEST_OPERATOR_REVIEW])"

section \<open>Preflight\<close>

type_synonym preflight_verdict = "preflight_status \<times> reject_reason list \<times> string list"

definition replayed_message :: "remediation_target \<Rightarrow> evidence \<Rightarrow> bool" where
  "replayed_message t e = (Some (es_identifier (ev_subject e)) = rtg_message_ref t
     \<and> callback_of e = rtg_callback_event_ref t)"

definition claim_value_of :: "claim_type \<Rightarrow> evidence list \<Rightarrow> val" where
  "claim_value_of claim es = ev_value (last (filter (\<lambda>e. ev_claim_type e = claim) es))"

definition preflight_replay :: "investigation_state \<Rightarrow> validated_remediation_candidate \<Rightarrow> preflight_verdict" where
  "preflight_replay st v = (
     let ix = ivs_index st; target = vrc_target v; support = vrc_supporting_evidence_refs v
     in if filter (replayed_message target) (message_facts ix ''CONSUMED'') \<noteq> []
        then (Pre_NOT_NEEDED, [Rej_ACTION_ALREADY_SATISFIED], support)
        else case find (replayed_message target) (message_facts ix ''FAILED'') of
          None \<Rightarrow> (Pre_READY_FOR_FUTURE_AUTHORIZATION, [], support)
        | Some failed \<Rightarrow>
           (case find (\<lambda>g. failed \<in> set (group_members g)) (mismatch_groups ix) of
              None \<Rightarrow> (Pre_READY_FOR_FUTURE_AUTHORIZATION, [], support)
            | Some mismatch \<Rightarrow>
                let deployment = deployment_witness ix failed
                in if deployment = [] then (Pre_BLOCKED, [Rej_DEPLOYMENT_STATE_UNKNOWN], support)
                   else let protocols = filter (\<lambda>e. Some (es_identifier (ev_subject e)) = rtg_callback_event_ref target)
                          (facts ix Claim_CALLBACK_PROTOCOL_VERSION
                             (claim_value_of Claim_CONSUMER_ACCEPTED_PROTOCOL_VERSION deployment)
                             [Tool_CALLBACK, Tool_CALLBACK_RAW]);
                        actual = remdups (map (py_key \<circ> ev_value) (filter (\<lambda>e. ev_claim_type e
                          = Claim_MESSAGE_ACTUAL_FIELD_TYPE) (group_members mismatch)))
                   in if protocols = []
                         \<or> actual \<noteq> [py_key (claim_value_of Claim_CONSUMER_LOAN_NO_FIELD_TYPE deployment)]
                      then (Pre_BLOCKED, [Rej_DEPLOYMENT_INCOMPATIBLE], support)
                      else (Pre_READY_FOR_FUTURE_AUTHORIZATION, [],
                            sorted_set (support @ refs (deployment @ protocols)))))"

definition preflight_redelivery :: "investigation_state \<Rightarrow> validated_remediation_candidate \<Rightarrow> preflight_verdict" where
  "preflight_redelivery st v = (
     let ix = ivs_index st; target = vrc_target v; support = vrc_supporting_evidence_refs v;
         delivered = filter (\<lambda>e. list_ex (\<lambda>r. (case rtg_delivery_ref target of None \<Rightarrow> False
               | Some t \<Rightarrow> ev_value r = VStr t) \<and> ev_observation_id r = ev_observation_id e)
             (current ix Claim_ASSET_DELIVERY_EVENT_REF))
           (facts ix Claim_ASSET_DELIVERY_STATUS (VStr ''DELIVERED'') [Tool_ASSET_DELIVERY])
     in if delivered \<noteq> [] \<or> asset_converged ix \<noteq> []
        then (Pre_NOT_NEEDED, [Rej_ACTION_ALREADY_SATISFIED], support)
        else (Pre_READY_FOR_FUTURE_AUTHORIZATION, [], support))"

definition preflight_pass_through :: "investigation_state \<Rightarrow> validated_remediation_candidate \<Rightarrow> preflight_verdict" where
  "preflight_pass_through st v = (Pre_READY_FOR_FUTURE_AUTHORIZATION, [], vrc_supporting_evidence_refs v)"

fun preflight_handler :: "remediation_action_type \<Rightarrow> investigation_state
    \<Rightarrow> validated_remediation_candidate \<Rightarrow> preflight_verdict" where
  "preflight_handler Act_REPLAY_CALLBACK_CONSUMPTION = preflight_replay"
| "preflight_handler Act_REDELIVER_ASSET_NOTIFICATION = preflight_redelivery"
| "preflight_handler _ = preflight_pass_through"

definition preflight_verdict_of :: "(evidence list \<Rightarrow> string) \<Rightarrow> (group_key \<Rightarrow> string)
    \<Rightarrow> remediation_action_contract list \<Rightarrow> investigation_state \<Rightarrow> validated_remediation_candidate
    \<Rightarrow> error + preflight_verdict" where
  "preflight_verdict_of eh gk entries st v = (
     let support = vrc_supporting_evidence_refs v; target = vrc_target v;
         action = rcd_action_type (vrc_candidate v);
         forbidden = forbidden_check (catalog_get entries action)
     in if forbidden \<noteq> [] then Inr (Pre_BLOCKED, forbidden, support)
        else if rtg_tenant_id target \<noteq> case_tenant_id (ivs_case st)
             \<or> rtg_internal_order_id target \<noteq> case_internal_order_id (ivs_case st)
        then Inr (Pre_BLOCKED, [Rej_FOREIGN_CASE], support)
        else if vrc_catalog_version v \<noteq> REMEDIATION_CATALOG_VERSION
             \<or> vrc_policy_version v \<noteq> REMEDIATION_POLICY_VERSION
        then Inr (Pre_STALE, [Rej_STALE_POLICY], support)
        else let (status, rs, support') = preflight_handler action st v
        in if status = Pre_NOT_NEEDED then Inr (status, rs, support')
           else if vrc_snapshot_id v \<noteq> ivs_snapshot_id st then Inr (Pre_STALE, [Rej_STALE_SNAPSHOT], support')
           else bindE (validate_candidate eh gk entries st (vrc_candidate v)) (\<lambda>fresh. case fresh of
               Inl r \<Rightarrow> Inr (Pre_BLOCKED, rrc_reason_codes r, support')
             | Inr v' \<Rightarrow> if v' \<noteq> v then Inr (Pre_BLOCKED, [Rej_TARGET_BINDING_MISMATCH], support')
                 else Inr (status, rs, support')))"

definition preflight_json :: "case_rec \<Rightarrow> validated_remediation_candidate \<Rightarrow> string \<Rightarrow> string
    \<Rightarrow> preflight_status \<Rightarrow> reject_reason list \<Rightarrow> jv" where
  "preflight_json c v snapshot proof_hash status rs = jobj [
     (''case_id'', JStr (case_case_id c)), (''tenant_id'', JStr (case_tenant_id c)),
     (''internal_order_id'', JStr (case_internal_order_id c)),
     (''action_type'', JStr (remediation_action_type_value (rcd_action_type (vrc_candidate v)))),
     (''target'', target_json (vrc_target v)), (''evidence_hash'', JStr proof_hash),
     (''snapshot_id'', JStr snapshot), (''proposal_snapshot_id'', JStr (vrc_snapshot_id v)),
     (''status'', JStr (preflight_status_value status)),
     (''reasons'', JArr (map (JStr \<circ> reject_reason_value) rs)),
     (''policy_version'', JStr REMEDIATION_POLICY_VERSION),
     (''catalog_version'', JStr REMEDIATION_CATALOG_VERSION)]"

definition intent_for :: "(jv \<Rightarrow> string) \<Rightarrow> remediation_action_contract \<Rightarrow> case_rec
    \<Rightarrow> validated_remediation_candidate \<Rightarrow> string \<Rightarrow> string \<Rightarrow> string list \<Rightarrow> string \<Rightarrow> remediation_intent" where
  "intent_for dg entry c v snapshot proof_hash support fp = (
     let i = \<lparr> ri_intent_id = [], ri_case_id = case_case_id c, ri_tenant_id = case_tenant_id c,
           ri_internal_order_id = case_internal_order_id c,
           ri_action_type = rcd_action_type (vrc_candidate v), ri_risk_level = rac_risk_level entry,
           ri_target = vrc_target v, ri_supporting_evidence_refs = support, ri_snapshot_id = snapshot,
           ri_evidence_hash = proof_hash, ri_catalog_version = REMEDIATION_CATALOG_VERSION,
           ri_policy_version = REMEDIATION_POLICY_VERSION, ri_preflight_fingerprint = fp,
           ri_requires_approval = rac_requires_future_approval entry,
           ri_requires_capability = rac_requires_future_capability entry \<rparr>
     in i \<lparr> ri_intent_id := dg (intent_json i) \<rparr>)"

definition preview :: "(jv \<Rightarrow> string) \<Rightarrow> (evidence list \<Rightarrow> string) \<Rightarrow> (group_key \<Rightarrow> string)
    \<Rightarrow> remediation_action_contract list \<Rightarrow> (error + investigation_state) \<Rightarrow> validated_remediation_candidate
    \<Rightarrow> error + remediation_preflight_result" where
  "preview dg eh gk entries fresh v = (
     if \<not> validated_candidate_valid v then Inl ValidationError
     else bindE fresh (\<lambda>st. bindE (preflight_verdict_of eh gk entries st v) (\<lambda>(status, rs, support).
       let c = ivs_case st; snapshot = ivs_snapshot_id st;
           proof_hash = eh (cited_evidence (ivs_index st) support);
           fp = dg (preflight_json c v snapshot proof_hash status rs);
           result = (\<lambda>i. \<lparr> rpr_candidate_id = rcd_candidate_id (vrc_candidate v), rpr_status = status,
             rpr_reason_codes = rs, rpr_proposal_snapshot_id = vrc_snapshot_id v,
             rpr_fresh_snapshot_id = snapshot, rpr_preflight_fingerprint = fp, rpr_intent = i \<rparr>)
       in if status = Pre_READY_FOR_FUTURE_AUTHORIZATION
          then bindE (needE AttributeError (catalog_get entries (rcd_action_type (vrc_candidate v)))) (\<lambda>entry.
            let i = intent_for dg entry c v snapshot proof_hash support fp
            in if list_all context_reference support \<and> opaque_subject_ref (case_case_id c)
                  \<and> opaque_subject_ref (case_internal_order_id c)
               then Inr (result (Some i)) else Inl ValidationError)
          else Inr (result None))))"

section \<open>Planner\<close>

text \<open>
  The reply of the model is an argument: \<open>Inl\<close> when the call raised, \<open>Inr\<close> of the draft otherwise.
  \<open>parse_draft\<close> turns a draft that fails its validators into a protocol error.
\<close>

definition remediation_draft_valid :: "remediation_draft \<Rightarrow> bool" where
  "remediation_draft_valid dr = (1 \<le> length (rmd_candidates dr) \<and> length (rmd_candidates dr) \<le> 3
     \<and> list_all remediation_candidate_valid (rmd_candidates dr)
     \<and> distinct (map rcd_candidate_id (rmd_candidates dr)))"

definition received_draft :: "error + remediation_draft \<Rightarrow> error + remediation_draft" where
  "received_draft reply = (case reply of
       Inl e \<Rightarrow> Inl (if e = RemediationProtocolError then e else RemediationUnavailable)
     | Inr dr \<Rightarrow> if remediation_draft_valid dr then Inr dr else Inl RemediationProtocolError)"

record remediation_decision =
  rdn_decision_id :: string
  rdn_snapshot_id :: string
  rdn_draft_hash :: "string option"
  rdn_eligibility :: remediation_eligibility
  rdn_valid_candidates :: "validated_remediation_candidate list"
  rdn_rejected_candidates :: "rejected_remediation_candidate list"
  rdn_selected_candidate :: "validated_remediation_candidate option"
  rdn_preflight_results :: "remediation_preflight_result list"
  rdn_preflight_result :: "remediation_preflight_result option"
  rdn_previews :: "remediation_preview list"
  rdn_final_intent :: "remediation_intent option"

text \<open>What one candidate contributes to the lists of the loop.\<close>

record checked_candidate =
  chc_valid :: "validated_remediation_candidate list"
  chc_rejected :: "rejected_remediation_candidate list"
  chc_results :: "remediation_preflight_result list"
  chc_previews :: "remediation_preview list"

definition check_candidate :: "(jv \<Rightarrow> string) \<Rightarrow> (evidence list \<Rightarrow> string) \<Rightarrow> (group_key \<Rightarrow> string)
    \<Rightarrow> investigation_state \<Rightarrow> (remediation_candidate \<Rightarrow> error + investigation_state)
    \<Rightarrow> remediation_candidate \<Rightarrow> error + checked_candidate" where
  "check_candidate dg eh gk st fresh c =
     bindE (validate_candidate eh gk REMEDIATION_CATALOG st c) (\<lambda>checked. case checked of
       Inl r \<Rightarrow> bindE (needE AttributeError (catalog_get REMEDIATION_CATALOG (rcd_action_type c))) (\<lambda>entry.
         Inr \<lparr> chc_valid = [], chc_rejected = [r], chc_results = [],
               chc_previews = [\<lparr> rpv_candidate = c, rpv_risk_level = rac_risk_level entry,
                 rpv_status = Pre_BLOCKED, rpv_blocking_reasons = rrc_reason_codes r, rpv_target = None \<rparr>] \<rparr>)
     | Inr v \<Rightarrow> bindE (preview dg eh gk REMEDIATION_CATALOG (fresh c) v) (\<lambda>p.
         Inr \<lparr> chc_valid = [v], chc_rejected = [], chc_results = [p],
               chc_previews = [\<lparr> rpv_candidate = c, rpv_risk_level = vrc_risk_level v,
                 rpv_status = rpr_status p, rpv_blocking_reasons = rpr_reason_codes p,
                 rpv_target = Some (vrc_target v) \<rparr>] \<rparr>))"

definition went_stale :: "string \<Rightarrow> remediation_preflight_result \<Rightarrow> bool" where
  "went_stale now r = (rpr_status r = Pre_READY_FOR_FUTURE_AUTHORIZATION \<and> rpr_fresh_snapshot_id r \<noteq> now)"

definition stale_result :: "(jv \<Rightarrow> string) \<Rightarrow> string \<Rightarrow> remediation_preflight_result
    \<Rightarrow> remediation_preflight_result" where
  "stale_result dg now r = (if went_stale now r then
     r\<lparr> rpr_status := Pre_STALE, rpr_reason_codes := [Rej_STALE_SNAPSHOT], rpr_intent := None,
        rpr_fresh_snapshot_id := now,
        rpr_preflight_fingerprint := dg (jobj [
          (''previous_preflight'', JStr (rpr_preflight_fingerprint r)), (''snapshot_id'', JStr now),
          (''status'', JStr (preflight_status_value Pre_STALE))]) \<rparr> else r)"

definition stale_preview :: "string list \<Rightarrow> remediation_preview \<Rightarrow> remediation_preview" where
  "stale_preview stale p = (if rcd_candidate_id (rpv_candidate p) \<in> set stale
     then p\<lparr> rpv_status := Pre_STALE, rpv_blocking_reasons := [Rej_STALE_SNAPSHOT] \<rparr> else p)"

definition ready_pairs :: "string \<Rightarrow> validated_remediation_candidate list \<Rightarrow> remediation_preflight_result list
    \<Rightarrow> (validated_remediation_candidate \<times> remediation_preflight_result) list" where
  "ready_pairs now vs results = filter (\<lambda>(v, p). rpr_candidate_id p = rcd_candidate_id (vrc_candidate v)
     \<and> rpr_status p = Pre_READY_FOR_FUTURE_AUTHORIZATION \<and> rpr_fresh_snapshot_id p = now)
     (List.product vs results)"

definition candidate_key :: "remediation_candidate \<Rightarrow> selection_key" where
  "candidate_key c = (case catalog_get REMEDIATION_CATALOG (rcd_action_type c) of
     Some entry \<Rightarrow> selection_key entry c | None \<Rightarrow> (4, 6, 5, [], []))"

definition select_ready :: "(validated_remediation_candidate \<times> remediation_preflight_result) list
    \<Rightarrow> (validated_remediation_candidate \<times> remediation_preflight_result) option" where
  "select_ready ready = (if ready = [] then None
     else Some (arg_min_list (candidate_key \<circ> vrc_candidate \<circ> fst) ready))"

definition decision_of :: "(jv \<Rightarrow> string) \<Rightarrow> (remediation_draft \<Rightarrow> string) \<Rightarrow> (remediation_decision \<Rightarrow> string)
    \<Rightarrow> investigation_state \<Rightarrow> string \<Rightarrow> remediation_draft option \<Rightarrow> checked_candidate list
    \<Rightarrow> remediation_decision" where
  "decision_of dg drh dch st now draft cs = (
     let vs = concat (map chc_valid cs); fresh_results = concat (map chc_results cs);
         results = map (stale_result dg now) fresh_results;
         stale = map rpr_candidate_id (filter (went_stale now) fresh_results);
         chosen = select_ready (ready_pairs now vs results);
         d = \<lparr> rdn_decision_id = replicate 64 (CHR ''0''), rdn_snapshot_id = ivs_snapshot_id st,
           rdn_draft_hash = map_option drh draft, rdn_eligibility = eligibility st,
           rdn_valid_candidates = vs, rdn_rejected_candidates = concat (map chc_rejected cs),
           rdn_selected_candidate = map_option fst chosen, rdn_preflight_results = results,
           rdn_preflight_result = map_option snd chosen,
           rdn_previews = map (stale_preview stale) (concat (map chc_previews cs)),
           rdn_final_intent = (case chosen of None \<Rightarrow> None | Some (_, p) \<Rightarrow> rpr_intent p) \<rparr>
     in d\<lparr> rdn_decision_id := dch d \<rparr>)"

text \<open>
  \<open>start\<close>, \<open>fresh c\<close> and \<open>final\<close> are the results of the reads of the state: before the draft, for the
  preview of candidate \<open>c\<close>, and after all previews.
\<close>

definition plan_remediation :: "(jv \<Rightarrow> string) \<Rightarrow> (evidence list \<Rightarrow> string) \<Rightarrow> (group_key \<Rightarrow> string)
    \<Rightarrow> (remediation_draft \<Rightarrow> string) \<Rightarrow> (remediation_decision \<Rightarrow> string)
    \<Rightarrow> error + investigation_state \<Rightarrow> (remediation_candidate \<Rightarrow> error + investigation_state)
    \<Rightarrow> error + investigation_state \<Rightarrow> error + remediation_draft \<Rightarrow> error + remediation_decision" where
  "plan_remediation dg eh gk drh dch start fresh final reply =
     bindE start (\<lambda>st.
     if \<not> rel_can_plan (eligibility st)
     then bindE final (\<lambda>now. Inr (decision_of dg drh dch st (ivs_snapshot_id now) None []))
     else bindE (received_draft reply) (\<lambda>dr.
       if rmd_snapshot_id dr \<noteq> ivs_snapshot_id st then Inl RemediationProtocolError
       else bindE (mapE (check_candidate dg eh gk st fresh) (rmd_candidates dr)) (\<lambda>cs.
         bindE final (\<lambda>now. Inr (decision_of dg drh dch st (ivs_snapshot_id now) (Some dr) cs)))))"

section \<open>What a validated candidate rests on\<close>

lemma validate_candidate_Inr:
  assumes "validate_candidate eh gk entries st c = Inr (Inr v)"
  obtains entry target support where "catalog_get entries (rcd_action_type c) = Some entry"
    and "forbidden_check (Some entry) = []" and "scope_reasons st c = []"
    and "case_status (ivs_case st) \<in> set (rac_required_case_state entry)"
    and "rac_risk_level entry = Risk_L2_SINGLE_ORDER_SIDE_EFFECT \<Longrightarrow> side_effect_reasons st c = []"
    and "validator_handler gk (rcd_action_type c) st c (base_target (ivs_case st)) = Inr (target, support, [])"
    and "vrc_candidate v = c" and "vrc_target v = target" and "vrc_risk_level v = rac_risk_level entry"
    and "vrc_supporting_evidence_refs v = refs support" and "vrc_snapshot_id v = ivs_snapshot_id st"
    and "vrc_evidence_hash v = eh (cited_evidence (ivs_index st) (refs support))"
proof -
  obtain entry where e: "catalog_get entries (rcd_action_type c) = Some entry"
    using assms by (auto simp: validate_candidate_def Let_def split: option.splits if_splits)
  with assms obtain target support rs where
    h: "validator_handler gk (rcd_action_type c) st c (base_target (ivs_case st)) = Inr (target, support, rs)"
    by (auto simp: validate_candidate_def Let_def split: if_splits)
  show thesis
    using assms by (intro that [OF e, of target support])
      (auto simp: e h validate_candidate_def Let_def split: if_splits)
qed

lemma side_effect_reasons_Nil:
  assumes "side_effect_reasons st c = []"
  shows "pir_result (hg_payment_identity (ivs_graph st)) = Match_MATCH"
    and "\<not> safety_gap_open (ivs_graph st)"
    and "set (rcd_evidence_refs c) \<subseteq> set (current_ids (ivs_index st))"
    and "set (pir_evidence_refs (hg_payment_identity (ivs_graph st))) \<subseteq> set (rcd_evidence_refs c)"
  using assms by (auto simp: side_effect_reasons_def Let_def split: if_splits)

lemma forbidden_check_Nil:
  assumes "forbidden_check (Some entry) = []"
  shows "rac_risk_level entry \<notin> {Risk_L3_MONEY_MOVEMENT, Risk_L4_BULK_OR_SYSTEMIC}"
    and "rac_max_effect_scope entry \<notin> {Scope_MONEY, Scope_ORDER_STATE, Scope_BULK}"
  using assms by (auto simp: forbidden_check_def split: if_splits)

lemma scope_reasons_Nil:
  assumes "scope_reasons st c = []"
  shows "rcd_target_order_id c = case_internal_order_id (ivs_case st)"
    and "set (rcd_evidence_refs c) \<subseteq> ev_evidence_id ` set (ix_evidence (ivs_index st))"
  using assms by (auto simp: scope_reasons_def split: if_splits)

lemma preflight_verdict_ready:
  assumes "preflight_verdict_of eh gk entries st v = Inr (Pre_READY_FOR_FUTURE_AUTHORIZATION, rs, support)"
  shows "validate_candidate eh gk entries st (vrc_candidate v) = Inr (Inr v)"
    and "vrc_snapshot_id v = ivs_snapshot_id st"
    and "preflight_handler (rcd_action_type (vrc_candidate v)) st v
      = (Pre_READY_FOR_FUTURE_AUTHORIZATION, rs, support)"
    and "rtg_tenant_id (vrc_target v) = case_tenant_id (ivs_case st)"
    and "rtg_internal_order_id (vrc_target v) = case_internal_order_id (ivs_case st)"
proof -
  obtain status rs' support' where h: "preflight_handler (rcd_action_type (vrc_candidate v)) st v = (status, rs', support')"
    by (cases "preflight_handler (rcd_action_type (vrc_candidate v)) st v")
  have "validate_candidate eh gk entries st (vrc_candidate v) = Inr (Inr v) \<and> vrc_snapshot_id v = ivs_snapshot_id st
      \<and> preflight_handler (rcd_action_type (vrc_candidate v)) st v = (Pre_READY_FOR_FUTURE_AUTHORIZATION, rs, support)
      \<and> rtg_tenant_id (vrc_target v) = case_tenant_id (ivs_case st)
      \<and> rtg_internal_order_id (vrc_target v) = case_internal_order_id (ivs_case st)"
    using assms by (auto simp: preflight_verdict_of_def Let_def h split: if_splits sum.splits)
  then show "validate_candidate eh gk entries st (vrc_candidate v) = Inr (Inr v)"
    and "vrc_snapshot_id v = ivs_snapshot_id st"
    and "preflight_handler (rcd_action_type (vrc_candidate v)) st v
      = (Pre_READY_FOR_FUTURE_AUTHORIZATION, rs, support)"
    and "rtg_tenant_id (vrc_target v) = case_tenant_id (ivs_case st)"
    and "rtg_internal_order_id (vrc_target v) = case_internal_order_id (ivs_case st)" by simp_all
qed

text \<open>A preview carries an intent exactly when it is ready.\<close>

lemma preview_Inr:
  assumes "preview dg eh gk entries fresh v = Inr r"
  obtains st status rs support where "fresh = Inr st"
    and "preflight_verdict_of eh gk entries st v = Inr (status, rs, support)"
    and "rpr_status r = status" and "rpr_fresh_snapshot_id r = ivs_snapshot_id st"
    and "rpr_candidate_id r = rcd_candidate_id (vrc_candidate v)"
    and "status = Pre_READY_FOR_FUTURE_AUTHORIZATION \<longleftrightarrow> rpr_intent r \<noteq> None"
    and "\<And>i. rpr_intent r = Some i \<Longrightarrow> \<exists>entry. catalog_get entries (rcd_action_type (vrc_candidate v)) = Some entry
      \<and> i = intent_for dg entry (ivs_case st) v (ivs_snapshot_id st)
          (eh (cited_evidence (ivs_index st) support)) support (rpr_preflight_fingerprint r)"
proof -
  obtain st status rs support where f: "fresh = Inr st"
      "preflight_verdict_of eh gk entries st v = Inr (status, rs, support)"
    using assms by (auto simp: preview_def split: if_splits)
  show thesis
    using assms by (intro that [OF f]) (auto simp: preview_def Let_def f split: if_splits)
qed

lemma intent_for_simps [simp]:
  "ri_case_id (intent_for dg entry c v sn h support fp) = case_case_id c"
  "ri_internal_order_id (intent_for dg entry c v sn h support fp) = case_internal_order_id c"
  "ri_action_type (intent_for dg entry c v sn h support fp) = rcd_action_type (vrc_candidate v)"
  "ri_risk_level (intent_for dg entry c v sn h support fp) = rac_risk_level entry"
  "ri_target (intent_for dg entry c v sn h support fp) = vrc_target v"
  "ri_snapshot_id (intent_for dg entry c v sn h support fp) = sn"
  "ri_supporting_evidence_refs (intent_for dg entry c v sn h support fp) = support"
  by (simp_all add: intent_for_def Let_def)

lemma intent_for_id:
  "ri_intent_id (intent_for dg entry c v sn h support fp) = dg (intent_json (intent_for dg entry c v sn h support fp))"
  by (simp add: intent_for_def Let_def intent_json_def)

text \<open>
  C22. An intent is only proposed for a candidate that validates again on the fresh state: it belongs to
  the Case, its order and its snapshot, never moves money and never touches more than one message or
  delivery, and a side effect needs a payment identity MATCH, no open safety gap, a Case under
  investigation, and cites only current Evidence including the whole identity proof. The identifier
  of the intent is the digest of its body.
\<close>
theorem ready_intent_sound:
  assumes "preview dg eh gk entries (Inr st) v = Inr r" and "rpr_intent r = Some i"
  shows "rpr_status r = Pre_READY_FOR_FUTURE_AUTHORIZATION
    \<and> vrc_snapshot_id v = ivs_snapshot_id st \<and> ri_snapshot_id i = ivs_snapshot_id st
    \<and> ri_intent_id i = dg (intent_json i)
    \<and> ri_case_id i = case_case_id (ivs_case st) \<and> ri_internal_order_id i = case_internal_order_id (ivs_case st)
    \<and> rtg_internal_order_id (ri_target i) = case_internal_order_id (ivs_case st)
    \<and> ri_risk_level i \<notin> {Risk_L3_MONEY_MOVEMENT, Risk_L4_BULK_OR_SYSTEMIC}
    \<and> (ri_risk_level i = Risk_L2_SINGLE_ORDER_SIDE_EFFECT \<longrightarrow>
        pir_result (hg_payment_identity (ivs_graph st)) = Match_MATCH
        \<and> \<not> safety_gap_open (ivs_graph st)
        \<and> set (rcd_evidence_refs (vrc_candidate v)) \<subseteq> set (current_ids (ivs_index st))
        \<and> set (pir_evidence_refs (hg_payment_identity (ivs_graph st))) \<subseteq> set (rcd_evidence_refs (vrc_candidate v)))"
proof -
  obtain rs support where verdict: "preflight_verdict_of eh gk entries st v
        = Inr (Pre_READY_FOR_FUTURE_AUTHORIZATION, rs, support)"
      and status: "rpr_status r = Pre_READY_FOR_FUTURE_AUTHORIZATION"
      and "\<exists>entry. catalog_get entries (rcd_action_type (vrc_candidate v)) = Some entry
        \<and> i = intent_for dg entry (ivs_case st) v (ivs_snapshot_id st)
          (eh (cited_evidence (ivs_index st) support)) support (rpr_preflight_fingerprint r)"
    by (rule preview_Inr [OF assms(1)]) (use assms(2) in auto)
  then obtain entry where entry: "catalog_get entries (rcd_action_type (vrc_candidate v)) = Some entry"
      and i: "i = intent_for dg entry (ivs_case st) v (ivs_snapshot_id st)
          (eh (cited_evidence (ivs_index st) support)) support (rpr_preflight_fingerprint r)" by blast
  note ready = preflight_verdict_ready [OF verdict]
  have ok: "forbidden_check (Some entry) = []"
    by (rule validate_candidate_Inr [OF ready(1)]) (use entry in simp)
  have l2: "side_effect_reasons st (vrc_candidate v) = []"
    if "rac_risk_level entry = Risk_L2_SINGLE_ORDER_SIDE_EFFECT"
    by (rule validate_candidate_Inr [OF ready(1)]) (use entry that in simp)
  show ?thesis
    using ready(2,5) status forbidden_check_Nil(1) [OF ok] side_effect_reasons_Nil [OF l2]
    by (auto simp: i intent_for_id [symmetric])
qed

lemma evidence_by_id_in: "evidence_by_id ix rs = Inr es \<Longrightarrow> set es \<subseteq> set (ix_evidence ix)"
  by (force simp: evidence_by_id_def find_Some_iff in_set_conv_nth dest: mapE_Inr_set)

lemma replay_pair_Some:
  assumes "snd (replay_pair ix ok cited p) = Some g"
  shows "fst g = fst p \<and> fst (snd g) = snd p \<and> set (refs (snd (snd g))) \<subseteq> set cited
    \<and> fst p \<in> set (snd (snd g)) \<and> snd p \<in> set (snd (snd g))
    \<and> (\<exists>s\<in>set (facts ix Claim_CALLBACK_SIGNATURE_VERIFIED (VBool True) [Tool_CALLBACK, Tool_CALLBACK_RAW]).
        same_record s (fst p) \<and> s \<in> set (snd (snd g)))"
proof (cases p)
  case (Pair gateway failed)
  with assms show ?thesis
    by (auto simp: replay_pair_def Let_def neq_Nil_conv filter_eq_Cons_iff split: if_splits) (force+)?
qed

lemma validate_replay_Inr:
  assumes "validate_replay st c t = Inr (target, support, [])"
  shows "state_status Hyp_H6 (hg_hypotheses (ivs_graph st)) = Some Hs_CONFIRMED
    \<and> (\<exists>gateway m. (gateway, m) \<in> set (callback_pairs (ivs_index st) ''FAILED'')
        \<and> target = t\<lparr> rtg_callback_event_ref := Some (es_identifier (ev_subject gateway)),
            rtg_message_ref := Some (es_identifier (ev_subject m)) \<rparr>
        \<and> gateway \<in> set support \<and> m \<in> set support
        \<and> (\<exists>s\<in>set (facts (ivs_index st) Claim_CALLBACK_SIGNATURE_VERIFIED (VBool True)
              [Tool_CALLBACK, Tool_CALLBACK_RAW]). same_record s gateway \<and> s \<in> set support))"
proof -
  let ?ix = "ivs_index st"
  obtain schema where h6: "state_status Hyp_H6 (hg_hypotheses (ivs_graph st)) = Some Hs_CONFIRMED"
      and s: "state_status Hyp_H6_SCHEMA_MISMATCH (hg_hypotheses (ivs_graph st)) = Some schema"
    using assms by (auto simp: validate_replay_def Let_def split: if_splits list.splits)
  let ?pairs = "callback_pairs ?ix ''FAILED''"
  let ?groups = "List.map_filter snd (map (replay_pair ?ix (schema = Hs_CONFIRMED) (rcd_evidence_refs c)) ?pairs)"
  obtain g gs identity where g: "?groups = g # gs"
      and target: "target = t\<lparr> rtg_callback_event_ref := Some (fst (pair_address g)),
        rtg_message_ref := Some (snd (pair_address g)) \<rparr>" and support: "support = snd (snd g) @ identity"
    using assms h6 s by (auto simp: validate_replay_def Let_def split: if_splits list.splits)
  have "g \<in> set ?groups" using g by simp
  then obtain p where p: "p \<in> set ?pairs"
      and "snd (replay_pair ?ix (schema = Hs_CONFIRMED) (rcd_evidence_refs c) p) = Some g"
    by (auto simp: List.map_filter_def)
  note q = replay_pair_Some [OF this(2)]
  show ?thesis
  proof (intro conjI exI)
    show "(fst p, snd p) \<in> set ?pairs" using p by simp
    show "target = t\<lparr> rtg_callback_event_ref := Some (es_identifier (ev_subject (fst p))),
        rtg_message_ref := Some (es_identifier (ev_subject (snd p))) \<rparr>"
      using q by (simp add: target pair_address_def)
  qed (use q h6 support in auto)
qed


lemma validate_redelivery_Inr:
  assumes "validate_redelivery st c t = Inr (target, support, [])"
  shows "asset_converged (ivs_index st) = []
    \<and> (\<exists>e\<in>set (delivery_refs (ivs_index st)). \<exists>ref. ev_value e = VStr ref
        \<and> target = t\<lparr> rtg_delivery_ref := Some ref \<rparr> \<and> e \<in> set support)
    \<and> value_count (delivery_refs (ivs_index st)) = 1"
proof -
  let ?es = "delivery_refs (ivs_index st)"
  have one: "value_count ?es = 1" and conv: "asset_converged (ivs_index st) = []"
    using assms by (auto simp: validate_redelivery_def Let_def split: if_splits val.splits)
  then have ne: "?es \<noteq> []" by (auto simp: value_count_def)
  have "\<exists>ref. ev_value (hd ?es) = VStr ref \<and> target = t\<lparr> rtg_delivery_ref := Some ref \<rparr> \<and> hd ?es \<in> set support"
    using assms ne by (auto simp: validate_redelivery_def Let_def split: if_splits val.splits)
  then show ?thesis using one conv hd_in_set [OF ne] by blast
qed

text \<open>
  C24. A ready redelivery addresses the one delivery event that current Evidence records as failed, and
  only while the asset side has neither received the notification nor converged.
\<close>
theorem ready_redelivery_addresses_failure:
  assumes "preview dg eh gk entries (Inr st) v = Inr r" and "rpr_intent r = Some i"
    and "ri_action_type i = Act_REDELIVER_ASSET_NOTIFICATION"
  shows "asset_converged (ivs_index st) = []
    \<and> (\<exists>e\<in>set (delivery_refs (ivs_index st)). map_option VStr (rtg_delivery_ref (ri_target i)) = Some (ev_value e)
        \<and> ev_evidence_id e \<in> set (ri_supporting_evidence_refs i))
    \<and> value_count (delivery_refs (ivs_index st)) = 1"
proof -
  obtain rs support where verdict: "preflight_verdict_of eh gk entries st v
        = Inr (Pre_READY_FOR_FUTURE_AUTHORIZATION, rs, support)"
      and "\<exists>entry. catalog_get entries (rcd_action_type (vrc_candidate v)) = Some entry
        \<and> i = intent_for dg entry (ivs_case st) v (ivs_snapshot_id st)
          (eh (cited_evidence (ivs_index st) support)) support (rpr_preflight_fingerprint r)"
    by (rule preview_Inr [OF assms(1)]) (use assms(2) in auto)
  then obtain entry where i: "i = intent_for dg entry (ivs_case st) v (ivs_snapshot_id st)
          (eh (cited_evidence (ivs_index st) support)) support (rpr_preflight_fingerprint r)" by blast
  note ready = preflight_verdict_ready [OF verdict]
  have action: "rcd_action_type (vrc_candidate v) = Act_REDELIVER_ASSET_NOTIFICATION"
    using assms(3) by (simp add: i)
  obtain base t found where h: "validate_redelivery st (vrc_candidate v) base = Inr (t, found, [])"
      and v: "vrc_target v = t" "vrc_supporting_evidence_refs v = refs found"
    by (rule validate_candidate_Inr [OF ready(1)]) (simp add: action)
  have "preflight_redelivery st v = (Pre_READY_FOR_FUTURE_AUTHORIZATION, rs, support)"
    using ready(3) by (simp add: action)
  then have "support = refs found"
    by (auto simp: preflight_redelivery_def Let_def v split: if_splits)
  then have cited: "ri_supporting_evidence_refs i = refs found" by (simp add: i)
  from validate_redelivery_Inr [OF h] obtain e ref where e: "e \<in> set (delivery_refs (ivs_index st))"
      "ev_value e = VStr ref" "t = base\<lparr> rtg_delivery_ref := Some ref \<rparr>" "e \<in> set found" by blast
  show ?thesis
  proof (intro conjI bexI [OF _ e(1)])
    show "map_option VStr (rtg_delivery_ref (ri_target i)) = Some (ev_value e)"
      using e by (simp add: i v)
    show "ev_evidence_id e \<in> set (ri_supporting_evidence_refs i)" using e by (simp add: cited refs_def)
  qed (use validate_redelivery_Inr [OF h] in simp_all)
qed

section \<open>The planner\<close>

lemma catalog_side_effects:
  assumes "catalog_get REMEDIATION_CATALOG a = Some entry"
  shows "rac_risk_level entry = Risk_L2_SINGLE_ORDER_SIDE_EFFECT \<longleftrightarrow> a \<notin> set admin_actions"
    and "rac_risk_level entry = Risk_L2_SINGLE_ORDER_SIDE_EFFECT
      \<Longrightarrow> set (rac_required_case_state entry) = {Case_INVESTIGATING, Case_ESCALATED}"
  using assms by (cases a; auto simp: REMEDIATION_CATALOG_def catalog_get_def action_contract_def Let_def admin_actions_def)+

text \<open>
  C25. The validator enforces what the eligibility announces: every candidate that validates on a state
  in which planning is allowed has an action the eligibility allows.
\<close>
theorem planned_within_eligibility:
  assumes "validate_candidate eh gk REMEDIATION_CATALOG st c = Inr (Inr v)"
    and "rel_can_plan (eligibility st)"
  shows "rcd_action_type c \<in> set (rel_allowed_actions (eligibility st))"
proof -
  obtain entry where e: "catalog_get REMEDIATION_CATALOG (rcd_action_type c) = Some entry"
      and state: "case_status (ivs_case st) \<in> set (rac_required_case_state entry)"
      and l2: "rac_risk_level entry = Risk_L2_SINGLE_ORDER_SIDE_EFFECT \<longrightarrow> side_effect_reasons st c = []"
    by (rule validate_candidate_Inr [OF assms(1)]) auto
  note side = catalog_side_effects [OF e]
  show ?thesis
  proof (cases "rcd_action_type c \<in> set admin_actions")
    case True
    then show ?thesis using assms(2) by (auto simp: eligibility_def Let_def admin_actions_def)
  next
    case False
    then have "case_status (ivs_case st) \<in> {Case_INVESTIGATING, Case_ESCALATED}"
        and reasons: "side_effect_reasons st c = []" using side l2 state by auto
    then have status: "rel_status (eligibility st) = Elg_ELIGIBLE"
      using assms(2) side_effect_reasons_Nil(1,2) [OF reasons]
      by (auto simp: eligibility_def Let_def split: if_splits)
    then show ?thesis by (cases "rcd_action_type c") (auto simp: eligibility_def Let_def split: if_splits)
  qed
qed

lemma arg_min_list_least:
  fixes f :: "'a \<Rightarrow> 'b::linorder"
  shows "xs \<noteq> [] \<Longrightarrow> y \<in> set xs \<Longrightarrow> f (arg_min_list f xs) \<le> f y"
  by (simp add: f_arg_min_list_f)

lemma select_ready_Some:
  assumes "select_ready xs = Some x"
  shows "x \<in> set xs" and "y \<in> set xs \<Longrightarrow> candidate_key (vrc_candidate (fst x)) \<le> candidate_key (vrc_candidate (fst y))"
  using assms arg_min_list_in [of xs] arg_min_list_least [of xs y "candidate_key \<circ> vrc_candidate \<circ> fst"]
  by (auto simp: select_ready_def split: if_splits)

text \<open>
  C26. The planner proposes at most one intent: that of the ready candidate with the least selection key,
  whose preflight ran on the snapshot that is still the state's snapshot after all previews; no result
  returned as ready is stale, only ready results carry an intent, and nothing is proposed when the
  eligibility forbids planning.
\<close>
theorem planner_selects_fresh_minimum:
  assumes "plan_remediation dg eh gk drh dch start fresh (Inr now) reply = Inr d"
  shows "(\<forall>r\<in>set (rdn_preflight_results d).
        (rpr_status r = Pre_READY_FOR_FUTURE_AUTHORIZATION \<longrightarrow> rpr_fresh_snapshot_id r = ivs_snapshot_id now)
        \<and> (rpr_intent r \<noteq> None \<longrightarrow> rpr_status r = Pre_READY_FOR_FUTURE_AUTHORIZATION))
    \<and> (\<forall>i. rdn_final_intent d = Some i \<longrightarrow> (\<exists>v p. rdn_selected_candidate d = Some v
        \<and> rdn_preflight_result d = Some p \<and> v \<in> set (rdn_valid_candidates d)
        \<and> p \<in> set (rdn_preflight_results d) \<and> rpr_candidate_id p = rcd_candidate_id (vrc_candidate v)
        \<and> rpr_intent p = Some i \<and> rel_can_plan (rdn_eligibility d)
        \<and> (\<forall>v'\<in>set (rdn_valid_candidates d). \<forall>p'\<in>set (rdn_preflight_results d).
            rpr_status p' = Pre_READY_FOR_FUTURE_AUTHORIZATION
            \<and> rpr_candidate_id p' = rcd_candidate_id (vrc_candidate v')
            \<longrightarrow> candidate_key (vrc_candidate v) \<le> candidate_key (vrc_candidate v'))))"
proof -
  let ?now = "ivs_snapshot_id now"
  obtain st where st: "start = Inr st" using assms by (auto simp: plan_remediation_def)
  have "\<exists>draft cs. d = decision_of dg drh dch st ?now draft cs
      \<and> (cs = [] \<or> rel_can_plan (eligibility st) \<and> (\<exists>ks. mapE (check_candidate dg eh gk st fresh) ks = Inr cs))"
    using assms by (fastforce simp: plan_remediation_def st Let_def split: if_splits)
  then obtain draft cs where d: "d = decision_of dg drh dch st ?now draft cs"
      and plan: "cs = [] \<or> rel_can_plan (eligibility st)"
      and cs: "\<forall>c\<in>set cs. \<exists>k. check_candidate dg eh gk st fresh k = Inr c"
    by (fastforce dest: mapE_Inr_set)
  have results: "rdn_preflight_results d = map (stale_result dg ?now) (concat (map chc_results cs))"
    and valid: "rdn_valid_candidates d = concat (map chc_valid cs)"
    and elig: "rdn_eligibility d = eligibility st"
    by (simp_all add: d decision_of_def Let_def)
  define chosen where "chosen = select_ready (ready_pairs ?now (rdn_valid_candidates d) (rdn_preflight_results d))"
  have sel: "rdn_selected_candidate d = map_option fst chosen" "rdn_preflight_result d = map_option snd chosen"
    "rdn_final_intent d = (case chosen of None \<Rightarrow> None | Some (_, p) \<Rightarrow> rpr_intent p)"
    by (simp_all add: chosen_def results valid) (simp_all add: d decision_of_def Let_def)
  have raw: "rpr_intent p \<noteq> None \<longleftrightarrow> rpr_status p = Pre_READY_FOR_FUTURE_AUTHORIZATION"
    if p: "p \<in> set (chc_results c)" and c: "c \<in> set cs" for p c
  proof -
    obtain k where "check_candidate dg eh gk st fresh k = Inr c" using cs c by blast
    then obtain v where "preview dg eh gk REMEDIATION_CATALOG (fresh k) v = Inr p"
      using p by (auto simp: check_candidate_def split: sum.splits)
    then show ?thesis by (rule preview_Inr) auto
  qed
  have fine: "(rpr_status r = Pre_READY_FOR_FUTURE_AUTHORIZATION \<longrightarrow> rpr_fresh_snapshot_id r = ?now)
      \<and> (rpr_intent r \<noteq> None \<longrightarrow> rpr_status r = Pre_READY_FOR_FUTURE_AUTHORIZATION)"
    if "r \<in> set (rdn_preflight_results d)" for r
    using that raw by (auto simp: results stale_result_def went_stale_def)
  have "\<exists>v p. rdn_selected_candidate d = Some v
        \<and> rdn_preflight_result d = Some p \<and> v \<in> set (rdn_valid_candidates d)
        \<and> p \<in> set (rdn_preflight_results d) \<and> rpr_candidate_id p = rcd_candidate_id (vrc_candidate v)
        \<and> rpr_intent p = Some i \<and> rel_can_plan (rdn_eligibility d)
        \<and> (\<forall>v'\<in>set (rdn_valid_candidates d). \<forall>p'\<in>set (rdn_preflight_results d).
            rpr_status p' = Pre_READY_FOR_FUTURE_AUTHORIZATION
            \<and> rpr_candidate_id p' = rcd_candidate_id (vrc_candidate v')
            \<longrightarrow> candidate_key (vrc_candidate v) \<le> candidate_key (vrc_candidate v'))"
    if final: "rdn_final_intent d = Some i" for i
  proof -
    obtain v p where c: "chosen = Some (v, p)" and i: "rpr_intent p = Some i"
      using final sel(3) by (auto split: option.splits)
    note least = select_ready_Some [OF c [unfolded chosen_def]]
    from least(1) have mem: "v \<in> set (rdn_valid_candidates d)" "p \<in> set (rdn_preflight_results d)"
      "rpr_candidate_id p = rcd_candidate_id (vrc_candidate v)" by (auto simp: ready_pairs_def)
    moreover have "candidate_key (vrc_candidate v) \<le> candidate_key (vrc_candidate v')"
      if "v' \<in> set (rdn_valid_candidates d)" "p' \<in> set (rdn_preflight_results d)"
        "rpr_status p' = Pre_READY_FOR_FUTURE_AUTHORIZATION"
        "rpr_candidate_id p' = rcd_candidate_id (vrc_candidate v')" for v' p'
      using least(2) [of "(v', p')"] fine [OF that(2)] that by (simp add: ready_pairs_def)
    moreover have "cs \<noteq> []" using mem(1) by (auto simp: valid)
    ultimately show ?thesis using i plan by (auto simp: sel c elig)
  qed
  with fine show ?thesis by blast
qed

end
