(* ===== verification/RemediationExample.thy ===== *)
theory RemediationExample
  imports Remediation
begin

text \<open>
  A Case whose callback was received with a verified signature and then failed to be consumed, and
  whose asset notification was not delivered: a replay, a redelivery and a review are ready, and the
  theorems of the remediation stage apply. The graph is given: the payment is the recorded one and H6 is
  confirmed.
\<close>

definition message_fact :: "string \<Rightarrow> claim_type \<Rightarrow> val \<Rightarrow> evidence" where
  "message_fact i claim v = (let e = sample_fact i Tool_MESSAGES claim Subj_MESSAGE ''M'' v
     in e\<lparr> ev_metadata := (ev_metadata e)\<lparr> em_callback_event_id := Some ''C'' \<rparr> \<rparr>)"

definition callback_index :: evidence_index where
  "callback_index = \<lparr> ix_case = sample_case, ix_evidence = [
     sample_fact ''j'' Tool_CALLBACK Claim_CALLBACK_GATEWAY_RECEIVED Subj_CALLBACK ''C'' (VBool True),
     sample_fact ''k'' Tool_CALLBACK Claim_CALLBACK_SIGNATURE_VERIFIED Subj_CALLBACK ''C'' (VBool True),
     message_fact ''m'' Claim_MESSAGE_CONSUME_STATUS (VStr ''FAILED'')] \<rparr>"

definition delivery_index :: evidence_index where
  "delivery_index = \<lparr> ix_case = sample_case, ix_evidence = [
     sample_fact ''n'' Tool_GUARANTEE Claim_GUARANTEE_STATUS Subj_ORDER ''O'' (VStr ''SUCCESS''),
     sample_fact ''p'' Tool_ASSET Claim_ASSET_STATUS Subj_ORDER ''O'' (VStr ''PROCESSING''),
     sample_fact ''q'' Tool_ASSET_DELIVERY Claim_ASSET_DELIVERY_STATUS Subj_ORDER ''O'' (VStr ''FAILED''),
     sample_fact ''r'' Tool_ASSET_DELIVERY Claim_ASSET_DELIVERY_EVENT_REF Subj_ORDER ''O'' (VStr ''EVT'')] \<rparr>"

definition given_status :: "hypothesis_id \<Rightarrow> hypothesis_status \<Rightarrow> hypothesis_state" where
  "given_status h s = \<lparr> hs_hypothesis_id = h, hs_status = s, hs_supporting_evidence_refs = [],
     hs_contradicting_evidence_refs = [], hs_decisive_evidence_refs = [], hs_missing_evidence = [],
     hs_rule_version = ''1'', hs_evaluated_at = 0 \<rparr>"

definition given_graph :: hypothesis_graph_view where
  "given_graph = \<lparr> hg_case_id = ''CASE-1'', hg_rule_version = ''1'', hg_evaluated_at = 0,
     hg_input_fingerprint = [], hg_definitions = [],
     hg_hypotheses = [given_status Hyp_H6 Hs_CONFIRMED, given_status Hyp_H6_SCHEMA_MISMATCH Hs_POSSIBLE],
     hg_relations = [], hg_gaps = [], hg_open_gaps = [], hg_confirmed = [Hyp_H6], hg_supported = [],
     hg_eliminated = [], hg_payment_identity = \<lparr> pir_case_id = ''CASE-1'', pir_result = Match_MATCH,
       pir_mismatch_dimensions = [], pir_unknown_dimensions = [], pir_witnesses = [],
       pir_evidence_refs = [], pir_verification_version = ''1'' \<rparr> \<rparr>"

definition given_state :: "evidence_index \<Rightarrow> investigation_state" where
  "given_state ix = \<lparr> ivs_case = sample_case, ivs_index = ix, ivs_graph = given_graph, ivs_snapshot_id = ''s'' \<rparr>"

definition replay_candidate :: remediation_candidate where
  "replay_candidate = \<lparr> rcd_candidate_id = ''one'', rcd_action_type = Act_REPLAY_CALLBACK_CONSUMPTION,
     rcd_target_order_id = ''JD-1'', rcd_target_problem_ids = [''H6''],
     rcd_evidence_refs = [''j'', ''k'', ''m''] \<rparr>"

definition redelivery_candidate :: remediation_candidate where
  "redelivery_candidate = \<lparr> rcd_candidate_id = ''two'', rcd_action_type = Act_REDELIVER_ASSET_NOTIFICATION,
     rcd_target_order_id = ''JD-1'', rcd_target_problem_ids = [''H7''],
     rcd_evidence_refs = [''n'', ''p'', ''q'', ''r''] \<rparr>"

definition previewed :: "investigation_state \<Rightarrow> remediation_candidate \<Rightarrow> error + remediation_preflight_result" where
  "previewed st c = bindE (validate_candidate (\<lambda>_. ''e'') (\<lambda>_. []) REMEDIATION_CATALOG st c) (\<lambda>x.
     case x of Inl _ \<Rightarrow> Inl ValueError
     | Inr v \<Rightarrow> preview (\<lambda>_. ''d'') (\<lambda>_. ''e'') (\<lambda>_. []) REMEDIATION_CATALOG (Inr st) v)"

definition ready_with :: "remediation_action_type \<Rightarrow> error + remediation_preflight_result \<Rightarrow> bool" where
  "ready_with action x = (case x of Inl _ \<Rightarrow> False
     | Inr r \<Rightarrow> (case rpr_intent r of None \<Rightarrow> False | Some i \<Rightarrow> ri_action_type i = action
         \<and> ri_risk_level i = Risk_L2_SINGLE_ORDER_SIDE_EFFECT))"

lemma replay_ready: "ready_with Act_REPLAY_CALLBACK_CONSUMPTION (previewed (given_state callback_index) replay_candidate)"
  by code_simp

lemma redelivery_ready: "ready_with Act_REDELIVER_ASSET_NOTIFICATION (previewed (given_state delivery_index) redelivery_candidate)"
  by code_simp

lemma readyE:
  assumes "ready_with action (previewed st c)"
  obtains v r i where "validate_candidate (\<lambda>_. ''e'') (\<lambda>_. []) REMEDIATION_CATALOG st c = Inr (Inr v)"
    and "preview (\<lambda>_. ''d'') (\<lambda>_. ''e'') (\<lambda>_. []) REMEDIATION_CATALOG (Inr st) v = Inr r"
    and "rpr_intent r = Some i" and "ri_action_type i = action"
    and "ri_risk_level i = Risk_L2_SINGLE_ORDER_SIDE_EFFECT"
  using assms by (auto simp: ready_with_def previewed_def bindE_def split: sum.splits option.splits)

theorem ready_intent_sound_witness:
  "\<exists>v r i. preview (\<lambda>_. ''d'') (\<lambda>_. ''e'') (\<lambda>_. []) REMEDIATION_CATALOG (Inr (given_state delivery_index)) v = Inr r
     \<and> rpr_intent r = Some i \<and> ri_intent_id i = ''d'' \<and> ri_case_id i = ''CASE-1''
     \<and> set (rcd_evidence_refs (vrc_candidate v)) \<subseteq> set (current_ids delivery_index)"
proof (rule readyE [OF redelivery_ready])
  fix v r i
  assume r: "preview (\<lambda>_. ''d'') (\<lambda>_. ''e'') (\<lambda>_. []) REMEDIATION_CATALOG (Inr (given_state delivery_index)) v = Inr r"
    "rpr_intent r = Some i" "ri_risk_level i = Risk_L2_SINGLE_ORDER_SIDE_EFFECT"
  then show ?thesis
    using ready_intent_sound [OF r(1,2)] by (intro exI [of _ v] exI [of _ r] exI [of _ i])
      (simp add: given_state_def sample_case_def)
qed


theorem ready_redelivery_addresses_failure_witness:
  "\<exists>v r i. preview (\<lambda>_. ''d'') (\<lambda>_. ''e'') (\<lambda>_. []) REMEDIATION_CATALOG (Inr (given_state delivery_index)) v = Inr r
     \<and> rpr_intent r = Some i
     \<and> (\<exists>e\<in>set (delivery_refs delivery_index).
          map_option VStr (rtg_delivery_ref (ri_target i)) = Some (ev_value e))"
proof (rule readyE [OF redelivery_ready])
  fix v r i
  assume r: "preview (\<lambda>_. ''d'') (\<lambda>_. ''e'') (\<lambda>_. []) REMEDIATION_CATALOG (Inr (given_state delivery_index)) v = Inr r"
    "rpr_intent r = Some i" "ri_action_type i = Act_REDELIVER_ASSET_NOTIFICATION"
  have "\<exists>e\<in>set (delivery_refs delivery_index).
          map_option VStr (rtg_delivery_ref (ri_target i)) = Some (ev_value e)"
    using ready_redelivery_addresses_failure [OF r] by (auto simp: given_state_def)
  with r show ?thesis by blast
qed

theorem planned_within_eligibility_witness:
  "rcd_action_type replay_candidate \<in> set (rel_allowed_actions (eligibility (given_state callback_index)))"
proof (rule readyE [OF replay_ready])
  fix v
  assume v: "validate_candidate (\<lambda>_. ''e'') (\<lambda>_. []) REMEDIATION_CATALOG (given_state callback_index) replay_candidate = Inr (Inr v)"
  have "rel_can_plan (eligibility (given_state callback_index))" by code_simp
  from planned_within_eligibility [OF v this] show ?thesis .
qed

definition sample_plan :: "error + remediation_decision" where
  "sample_plan = plan_remediation (\<lambda>_. ''d'') (\<lambda>_. ''e'') (\<lambda>_. []) (\<lambda>_. ''h'') (\<lambda>_. ''k'')
     (Inr (given_state delivery_index)) (\<lambda>_. Inr (given_state delivery_index))
     (Inr (given_state delivery_index))
     (Inr \<lparr> rmd_snapshot_id = ''s'', rmd_candidates = [redelivery_candidate] \<rparr>)"

lemma sample_plan_final: "case sample_plan of Inl _ \<Rightarrow> False | Inr d \<Rightarrow> rdn_final_intent d \<noteq> None"
  by code_simp

theorem planner_selects_fresh_minimum_witness:
  "\<exists>d v. sample_plan = Inr d \<and> rdn_final_intent d \<noteq> None \<and> rdn_selected_candidate d = Some v
     \<and> v \<in> set (rdn_valid_candidates d) \<and> rel_can_plan (rdn_eligibility d)"
proof -
  obtain d i where d: "sample_plan = Inr d" "rdn_final_intent d = Some i"
    using sample_plan_final by (auto split: sum.splits)
  note planned = planner_selects_fresh_minimum [OF d(1) [unfolded sample_plan_def], THEN conjunct2]
  from planned [rule_format, OF d(2)] d show ?thesis by blast
qed

end
