(* ===== verification/Verification.thy ===== *)
theory Verification
  imports Evaluation Remediation
begin

text \<open>
  What the evaluator reads: the revalidation of the stored Evidence against the raw observations
  (\<open>evidence/verification.py\<close>) and the reader of the evaluation state (\<open>evaluation/snapshot.py\<close>). The
  fingerprints of the snapshot are hashes of what was read and are parameters, collected in a record.
\<close>

section \<open>Revalidation of Evidence\<close>

text \<open>Which errors of the re-extraction count as invalid provenance; any other error is raised.\<close>

definition provenance_failure :: "error \<Rightarrow> bool" where
  "provenance_failure e = (e \<in> {ProvenanceError, ValidationError, ValueError, TypeError})"

record reextraction =
  rx_valid :: bool
  rx_receipts :: "(string \<times> observation_row) list"
  rx_extracted :: "(string \<times> evidence) list"
  rx_originals :: "((string \<times> string) \<times> evidence) list"

definition newer_observation :: "evidence \<Rightarrow> evidence \<Rightarrow> bool" where
  "newer_observation e old = (ev_observed_at old < ev_observed_at e
     \<or> (ev_observed_at old = ev_observed_at e \<and> ev_observation_id old < ev_observation_id e))"

definition keep_claim :: "evidence \<Rightarrow> reextraction \<Rightarrow> reextraction" where
  "keep_claim e rx = rx\<lparr>
     rx_originals := AList.update (ev_evidence_id e, ev_observation_id e) e (rx_originals rx),
     rx_extracted := (case map_of (rx_extracted rx) (ev_evidence_id e) of
         None \<Rightarrow> AList.update (ev_evidence_id e) e (rx_extracted rx)
       | Some old \<Rightarrow> if newer_observation e old
           then AList.update (ev_evidence_id e) e (rx_extracted rx) else rx_extracted rx) \<rparr>"

definition dispatch_matches :: "case_rec \<Rightarrow> case_row \<Rightarrow> case_call_row \<Rightarrow> observation_row \<Rightarrow> bool" where
  "dispatch_matches c row call r = (or_simulation_id r = case_simulation_id c
     \<and> or_grant_hash r = cr_grant_hash row \<and> or_tool r = cl_tool call \<and> or_request r = cl_request call
     \<and> truthy (cl_dispatch_correlation_id call)
     \<and> or_dispatch_correlation_id r = cl_dispatch_correlation_id call)"

text \<open>The claims of one observed call, or the error the \<open>try\<close> block sees.\<close>

definition reextract :: "(jv \<Rightarrow> string) \<Rightarrow> (observation \<Rightarrow> string) \<Rightarrow> case_rec \<Rightarrow> case_row
    \<Rightarrow> (string \<times> string) list \<Rightarrow> string \<Rightarrow> case_call_row \<Rightarrow> string \<Rightarrow> observation_row
    \<Rightarrow> error + evidence list" where
  "reextract jh oh c row origins call_id call rid r =
     bindE (raw_observation oh rid r) (\<lambda>raw.
       if \<not> dispatch_matches c row call r then Inl ProvenanceError
       else bindE (extract_evidence jh oh c (ro_observation raw) (Some (ro_request raw))) (\<lambda>es.
         if set (map ev_evidence_id es) \<noteq> set (map fst (filter (\<lambda>o1. snd o1 = call_id) origins))
         then Inl ProvenanceError else Inr es))"

definition revalidate_call :: "(jv \<Rightarrow> string) \<Rightarrow> (observation \<Rightarrow> string) \<Rightarrow> case_rec \<Rightarrow> case_row
    \<Rightarrow> (string \<times> string) list \<Rightarrow> db \<Rightarrow> string \<times> case_call_row \<Rightarrow> reextraction \<Rightarrow> error + reextraction" where
  "revalidate_call jh oh c row origins d k rx = (let (call_id, call) = k in
     if cl_state call \<noteq> Call_OBSERVED then Inr rx
     else case (case cl_observation_id call of None \<Rightarrow> None
         | Some rid \<Rightarrow> map_option (Pair rid) (tget rid (sim_observations (db_sim d)))) of
       None \<Rightarrow> Inr (rx\<lparr> rx_valid := False \<rparr>)
     | Some (rid, r) \<Rightarrow>
         let seen = rx\<lparr> rx_receipts := rx_receipts rx @ [(rid, r)] \<rparr>
         in case reextract jh oh c row origins call_id call rid r of
              Inr es \<Rightarrow> Inr (fold keep_claim es seen)
            | Inl e \<Rightarrow> if provenance_failure e then Inr (seen\<lparr> rx_valid := False \<rparr>) else Inl e)"

fun revalidate_calls :: "(jv \<Rightarrow> string) \<Rightarrow> (observation \<Rightarrow> string) \<Rightarrow> case_rec \<Rightarrow> case_row
    \<Rightarrow> (string \<times> string) list \<Rightarrow> db \<Rightarrow> (string \<times> case_call_row) list \<Rightarrow> reextraction \<Rightarrow> error + reextraction" where
  "revalidate_calls jh oh c row origins d [] rx = Inr rx"
| "revalidate_calls jh oh c row origins d (k # ks) rx =
     bindE (revalidate_call jh oh c row origins d k rx) (revalidate_calls jh oh c row origins d ks)"

definition stored_fact_ok :: "(jv \<Rightarrow> string) \<Rightarrow> ((string \<times> string) \<times> evidence) list
    \<Rightarrow> string \<times> evidence_row \<Rightarrow> bool" where
  "stored_fact_ok jh originals k = (let (eid, r) = k; e = evw_payload r in evidence_valid e
     \<and> ev_evidence_id e = eid \<and> ev_case_id e = evw_case_id r \<and> ev_observation_id e = evw_observation_id r
     \<and> ev_evidence_id e = ''E-'' @ fingerprint jh e
     \<and> map_of originals (ev_evidence_id e, ev_observation_id e) = Some e)"

record verified_evidence_read =
  ver_evidence :: "evidence list"
  ver_fingerprint :: string
  ver_provenance_valid :: bool
  ver_calls :: "(string \<times> case_call_row) list"

text \<open>What the Evidence fingerprint hashes: the stored rows, the origins and the receipts.\<close>

type_synonym evidence_reading = "(string \<times> evidence_row) list \<times> (string \<times> string) list
  \<times> (string \<times> observation_row) list"

definition read_verified_evidence :: "(jv \<Rightarrow> string) \<Rightarrow> (observation \<Rightarrow> string)
    \<Rightarrow> (evidence_reading \<Rightarrow> string) \<Rightarrow> db \<Rightarrow> string \<Rightarrow> case_row \<Rightarrow> error + verified_evidence_read" where
  "read_verified_evidence jh oh vf d cid row = bindE (hydrate row) (\<lambda>c.
     let rows = sort_key fst (filter (\<lambda>(_, r). evw_case_id r = cid) (db_evidence d));
         calls = sort_key (\<lambda>(_, k). cl_sequence k) (filter (\<lambda>(_, k). cl_case_id k = cid) (db_calls d));
         origins = filter (\<lambda>(_, k). k \<in> set (map fst calls)) (map fst (db_origins d))
     in bindE (revalidate_calls jh oh c row origins d calls
          \<lparr> rx_valid = True, rx_receipts = [], rx_extracted = [], rx_originals = [] \<rparr>) (\<lambda>rx.
       let stored = map fst (filter (stored_fact_ok jh (rx_originals rx)) rows);
           broken = map fst (filter (\<lambda>k. \<not> stored_fact_ok jh (rx_originals rx) k) rows);
           extracted = filter (\<lambda>(i, _). i \<notin> set broken) (rx_extracted rx)
       in Inr \<lparr> ver_evidence = map snd (sort_key fst (filter (\<lambda>(i, _). i \<in> set stored) extracted)),
                ver_fingerprint = vf (rows, sorted_set origins, rx_receipts rx),
                ver_provenance_valid = (rx_valid rx \<and> broken = []
                  \<and> set (map fst extracted) = set stored),
                ver_calls = calls \<rparr>))"

section \<open>The evaluation state\<close>

definition latest_observation_evidence :: "evidence list \<Rightarrow> evidence list" where
  "latest_observation_evidence es = filter (\<lambda>e. ev_observed_at e
     = Max (set (map ev_observed_at (filter (\<lambda>f. ev_tool f = ev_tool e
         \<and> em_scope (ev_metadata f) = em_scope (ev_metadata e)) es)))) es"

definition eligible_evidence :: "evaluation_policy \<Rightarrow> time \<Rightarrow> evidence \<Rightarrow> bool" where
  "eligible_evidence p now e = (ev_claim_type e \<noteq> Claim_SOURCE_LOOKUP_STATUS
     \<and> ev_freshness e = Fresh_CURRENT \<and> ev_completeness e = Compl_COMPLETE
     \<and> ev_source_kind e = Src_PRIMARY \<and> ev_observed_at e \<le> now
     \<and> (case ev_source_as_of e of None \<Rightarrow> False
        | Some t \<Rightarrow> 0 \<le> now - t \<and> now - t \<le> seconds (epo_evidence_max_age_seconds p)))"

text \<open>The authorization data whose hashes enter the snapshot.\<close>

record authorization_binding =
  abn_intent :: "string \<times> remediation_intent"
  abn_capability :: "string \<times> capability_row"
  abn_approval :: "(string \<times> approval_row) option"

definition ledger_stored_ok :: "case_rec \<Rightarrow> string \<Rightarrow> string \<times> effect_row \<Rightarrow> bool" where
  "ledger_stored_ok c cid k = (let (eid, r) = k; l = eff_payload r in
     eid = led_effect_id l \<and> eff_status r = led_status l \<and> eff_capability_id r = led_capability_id l
     \<and> eff_idempotency_key r = led_idempotency_key l \<and> led_tenant_id l = case_tenant_id c
     \<and> led_case_id l = cid \<and> led_internal_order_id l = case_internal_order_id c)"

definition effect_identity_ok :: "(jv \<Rightarrow> string) \<Rightarrow> case_rec \<Rightarrow> string \<Rightarrow> remediation_intent \<Rightarrow> capability_row
    \<Rightarrow> side_effect_ledger \<Rightarrow> bool" where
  "effect_identity_ok dg c cid i row l = (let cap = cap_payload row in
     ri_intent_id i = dg (intent_json i) \<and> cap_used_effect_id row = Some (led_effect_id l)
     \<and> xc_case_id cap = cid \<and> xc_tenant_id cap = case_tenant_id c \<and> xc_intent_id cap = led_intent_id l
     \<and> xc_action_type cap = led_action_type l \<and> xc_target_hash cap = led_target_hash l
     \<and> xc_payload_hash cap = led_payload_hash l \<and> xc_approval_id cap = led_approval_id l
     \<and> effect_key dg cap = led_effect_id l)"

text \<open>
  One ledger row: the bindings it appends, whether it makes the policy invalid, and the effect it
  contributes. Every failure inside the \<open>try\<close> block only marks the policy invalid.
\<close>

definition bind_effect :: "(jv \<Rightarrow> string) \<Rightarrow> remediation_action_contract list \<Rightarrow> case_rec \<Rightarrow> string \<Rightarrow> db
    \<Rightarrow> string \<times> effect_row \<Rightarrow> authorization_binding list \<times> bool \<times> bound_effect list" where
  "bind_effect dg entries c cid d k = (let l = eff_payload (snd k) in
     if \<not> ledger_stored_ok c cid k then ([], True, [])
     else case (tget (led_intent_id l) (db_intents d), tget (led_capability_id l) (db_capabilities d)) of
       (Some ir, Some cr) \<Rightarrow>
         let i = ain_payload ir; cap = cap_payload cr;
             needed = truthy (xc_approval_id cap);
             approval = (case xc_approval_id cap of None \<Rightarrow> None
               | Some a \<Rightarrow> if needed then map_option (Pair a) (tget a (db_approvals d)) else None);
             bound = [\<lparr> abn_intent = (led_intent_id l, i), abn_capability = (led_capability_id l, cr),
               abn_approval = approval \<rparr>]
         in if needed \<and> approval = None then (bound, True, [])
            else if \<not> effect_identity_ok dg c cid i cr l then (bound, True, [])
            else (case build_command dg i cap of
                Inl _ \<Rightarrow> (bound, True, [])
              | Inr _ \<Rightarrow> (bound,
                  (case catalog_get entries (led_action_type l) of None \<Rightarrow> True
                   | Some entry \<Rightarrow> forbidden_check (Some entry) \<noteq> [] \<or> ri_risk_level i \<noteq> rac_risk_level entry),
                  [\<lparr> be_ledger = l, be_target = ri_target i \<rparr>]))
     | _ \<Rightarrow> ([], True, []))"

definition case_effect_rows :: "db \<Rightarrow> string \<Rightarrow> (string \<times> effect_row) list" where
  "case_effect_rows d cid = sort_key fst (filter (\<lambda>(_, r). eff_case_id r = cid) (db_effects d))"

definition recovery_rows :: "db \<Rightarrow> string \<Rightarrow> (string \<times> effect_recovery_state_row) list" where
  "recovery_rows d cid = sort_key fst (filter (\<lambda>(_, r). ers_case_id r = cid) (db_recovery_state d))"

definition attempt_rows :: "db \<Rightarrow> string \<Rightarrow> (string \<times> effect_recovery_attempt_row) list" where
  "attempt_rows d cid = sort_key fst (filter (\<lambda>(_, r). att_effect_id r \<in> set (map fst (case_effect_rows d cid)))
     (db_attempts d))"

definition read_recovery_rows :: "db \<Rightarrow> string \<Rightarrow> (string \<times> read_dispatch_recovery_row) list" where
  "read_recovery_rows d cid = sort_key fst (filter (\<lambda>(_, r). rdr_case_id r = cid) (db_read_recovery d))"

definition recovery_open :: "case_rec \<Rightarrow> time \<Rightarrow> effect_recovery_state_row \<Rightarrow> bool" where
  "recovery_open c now r = (ers_tenant_id r \<noteq> case_tenant_id c \<or> ers_requires_escalation r
     \<or> (truthy (ers_lease_token r) \<and> (case ers_lease_until r of None \<Rightarrow> False | Some t \<Rightarrow> t \<noteq> 0 \<and> now < t)))"

definition recovery_unresolved :: "case_rec \<Rightarrow> db \<Rightarrow> string \<Rightarrow> time \<Rightarrow> bool" where
  "recovery_unresolved c d cid now = (list_ex (\<lambda>(_, r). recovery_open c now r) (recovery_rows d cid)
     \<or> list_ex (\<lambda>(_, a). att_completed_at a = None) (attempt_rows d cid))"

definition grace_anchors :: "bound_effect list \<Rightarrow> evidence list \<Rightarrow> time list" where
  "grace_anchors effects es = (
     let applied = map (led_updated_at \<circ> be_ledger) (filter (\<lambda>e. led_status (be_ledger e) = Eff_APPLIED) effects)
     in if applied \<noteq> [] then applied else List.map_filter ev_event_time es)"

definition in_grace_window :: "evaluation_policy \<Rightarrow> time \<Rightarrow> time list \<Rightarrow> bool" where
  "in_grace_window p now anchors = (anchors \<noteq> []
     \<and> now - Max (set anchors) < seconds (epo_convergence_grace_seconds p))"

record snapshot_hashes =
  sh_case :: "case_rec \<Rightarrow> string"
  sh_evidence :: "evidence_reading \<Rightarrow> string"
  sh_identity :: "payment_identity_result \<Rightarrow> string"
  sh_current :: "evidence list \<times> string \<times> bool \<times> bool \<Rightarrow> string"
  sh_effects :: "(string \<times> effect_row) list \<Rightarrow> string"
  sh_recovery :: "(string \<times> effect_recovery_state_row) list \<times> (string \<times> effect_recovery_attempt_row) list
    \<times> (string \<times> read_dispatch_recovery_row) list \<Rightarrow> string"
  sh_calls :: "(string \<times> case_call_row) list \<Rightarrow> string"
  sh_authorization :: "remediation_action_contract list \<times> authorization_binding list \<Rightarrow> string"
  sh_policy :: "evaluation_policy \<Rightarrow> string"
  sh_contract :: "verification_contract \<Rightarrow> string"
  sh_snapshot :: "verification_snapshot \<Rightarrow> string"

definition scope_sorted :: "case_rec \<Rightarrow> case_rec" where
  "scope_sorted c = c\<lparr> case_scope := (case_scope c)\<lparr>
     csc_allowed_order_ids := sort (csc_allowed_order_ids (case_scope c)),
     csc_allowed_tools := sort_key tool_name_value (csc_allowed_tools (case_scope c)) \<rparr> \<rparr>"

definition read_evaluation_state :: "snapshot_hashes \<Rightarrow> (jv \<Rightarrow> string) \<Rightarrow> (jv \<Rightarrow> string)
    \<Rightarrow> (observation \<Rightarrow> string) \<Rightarrow> (group_key \<Rightarrow> string) \<Rightarrow> (case_rec \<Rightarrow> evidence list \<Rightarrow> string)
    \<Rightarrow> remediation_action_contract list \<Rightarrow> evaluation_policy \<Rightarrow> verification_contract \<Rightarrow> string
    \<Rightarrow> db \<Rightarrow> string \<Rightarrow> time \<Rightarrow> error + evaluation_state" where
  "read_evaluation_state sh dg jh oh gk gf entries p k tenant d cid now =
     bindE (case_row_of tenant d cid) (\<lambda>row. bindE (hydrate row) (\<lambda>c.
     bindE (read_verified_evidence jh oh (sh_evidence sh) d cid row) (\<lambda>verified.
       let newest = latest_observation_evidence (ver_evidence verified);
           usable = filter (eligible_evidence p now) newest
       in bindE (build_index c usable) (\<lambda>ix. bindE (evaluate gk gf c usable) (\<lambda>graph.
         let raw = case_effect_rows d cid;
             bound = map (bind_effect dg entries c cid d) raw;
             effects = concat (map (snd \<circ> snd) bound);
             grace = in_grace_window p now (grace_anchors effects usable);
             snapshot = \<lparr> vs_verification_snapshot_id = replicate 64 (CHR ''0''), vs_case_id = cid,
               vs_tenant_id = case_tenant_id c, vs_case_revision = case_updated_at c,
               vs_case_fingerprint = sh_case sh (scope_sorted c),
               vs_evidence_fingerprint = ver_fingerprint verified,
               vs_payment_identity_fingerprint = sh_identity sh (hg_payment_identity graph),
               vs_current_state_fingerprint = sh_current sh
                 (usable, hg_input_fingerprint graph, grace, ver_provenance_valid verified),
               vs_side_effect_ledger_fingerprint = sh_effects sh raw,
               vs_recovery_fingerprint = sh_recovery sh
                 (recovery_rows d cid, attempt_rows d cid, read_recovery_rows d cid),
               vs_call_history_fingerprint = sh_calls sh (ver_calls verified),
               vs_authorization_policy_fingerprint = sh_authorization sh (entries, concat (map fst bound)),
               vs_evaluation_policy_version = epo_version p,
               vs_verification_contract_version = vco_version k,
               vs_evaluation_policy_fingerprint = sh_policy sh p,
               vs_verification_contract_fingerprint = sh_contract sh k \<rparr>
         in Inr \<lparr> es_case = c, es_evidence = ver_evidence verified,
              es_provenance_valid = ver_provenance_valid verified, es_latest = newest, es_index = ix,
              es_graph = graph, es_effects = effects,
              es_policy_invalid = list_ex (fst \<circ> snd) bound,
              es_recovery_unresolved = recovery_unresolved c d cid now,
              es_pending_reads = list_ex (\<lambda>(_, r). cl_state r \<in> {Call_DISPATCHED, Call_ERROR})
                (ver_calls verified),
              es_in_grace = grace,
              es_snapshot = snapshot\<lparr> vs_verification_snapshot_id := sh_snapshot sh snapshot \<rparr> \<rparr>)))))"

text \<open>What the closure checks again when the Case is already closed.\<close>

definition closure_view_of :: "evaluation_state \<Rightarrow> closure_view" where
  "closure_view_of st = \<lparr> cv_pending_reads = es_pending_reads st,
     cv_recovery_unresolved = es_recovery_unresolved st, cv_provenance_valid = es_provenance_valid st,
     cv_effect_statuses = map (led_status \<circ> be_ledger) (es_effects st), cv_snapshot = es_snapshot st \<rparr>"

section \<open>The evaluator over the database\<close>

text \<open>The hash functions and the configuration of a deployment's evaluator.\<close>

record evaluator_config =
  evc_hashes :: snapshot_hashes
  evc_digest :: "jv \<Rightarrow> string"
  evc_claim_hash :: "jv \<Rightarrow> string"
  evc_observation_hash :: "observation \<Rightarrow> string"
  evc_group_text :: "group_key \<Rightarrow> string"
  evc_graph_hash :: "case_rec \<Rightarrow> evidence list \<Rightarrow> string"
  evc_report_hash :: "evaluation_report \<Rightarrow> string"
  evc_entries :: "remediation_action_contract list"
  evc_policy :: evaluation_policy
  evc_contract :: verification_contract

definition snapshot_state :: "evaluator_config \<Rightarrow> string \<Rightarrow> db \<Rightarrow> string \<Rightarrow> time \<Rightarrow> error + evaluation_state" where
  "snapshot_state cfg tenant = read_evaluation_state (evc_hashes cfg) (evc_digest cfg) (evc_claim_hash cfg)
     (evc_observation_hash cfg) (evc_group_text cfg) (evc_graph_hash cfg) (evc_entries cfg)
     (evc_policy cfg) (evc_contract cfg) tenant"

definition evaluate_case :: "evaluator_config \<Rightarrow>
    (unresolved_verification_requirement list \<Rightarrow> unresolved_verification_requirement list) \<Rightarrow> string
    \<Rightarrow> string \<Rightarrow> db \<Rightarrow> string \<Rightarrow> time \<Rightarrow> error + evaluation_report" where
  "evaluate_case cfg iter uuid tenant d cid now = bindE (snapshot_state cfg tenant d cid now)
     (\<lambda>st. evaluate_state (evc_report_hash cfg) iter (evc_policy cfg) (evc_contract cfg) st cid uuid now)"

definition close_verified :: "evaluator_config \<Rightarrow>
    (unresolved_verification_requirement list \<Rightarrow> unresolved_verification_requirement list) \<Rightarrow> string
    \<Rightarrow> string \<Rightarrow> db \<Rightarrow> evaluation_report \<Rightarrow> time \<Rightarrow> error + db \<times> verified_closure_result" where
  "close_verified cfg iter uuid tenant = close_case (evc_digest cfg) (evc_report_hash cfg)
     (evaluate_case cfg iter uuid tenant)
     (\<lambda>d cid now. bindE (snapshot_state cfg tenant d cid now) (\<lambda>st. Inr (closure_view_of st))) tenant"

lemma read_evaluation_state_Inr:
  assumes "read_evaluation_state sh dg jh oh gk gf entries p k tenant d cid now = Inr st"
  obtains row c verified where "case_row_of tenant d cid = Inr row" and "hydrate row = Inr c"
    and "read_verified_evidence jh oh (sh_evidence sh) d cid row = Inr verified"
    and "es_case st = c" and "es_evidence st = ver_evidence verified"
    and "es_provenance_valid st = ver_provenance_valid verified"
    and "es_latest st = latest_observation_evidence (ver_evidence verified)"
    and "build_index c (filter (eligible_evidence p now) (es_latest st)) = Inr (es_index st)"
    and "evaluate gk gf c (filter (eligible_evidence p now) (es_latest st)) = Inr (es_graph st)"
    and "es_effects st = concat (map (snd \<circ> snd \<circ> bind_effect dg entries c cid d) (case_effect_rows d cid))"
    and "es_policy_invalid st = list_ex (fst \<circ> snd \<circ> bind_effect dg entries c cid d) (case_effect_rows d cid)"
    and "es_recovery_unresolved st = recovery_unresolved c d cid now"
    and "es_pending_reads st = list_ex (\<lambda>(_, r). cl_state r \<in> {Call_DISPATCHED, Call_ERROR}) (ver_calls verified)"
    and "vs_case_revision (es_snapshot st) = case_updated_at c"
    and "vs_case_id (es_snapshot st) = cid"
  using assms by (auto simp: read_evaluation_state_def Let_def list_ex_iff comp_def)

lemma ver_calls_of:
  assumes "read_verified_evidence jh oh vf d cid row = Inr v"
  shows "set (ver_calls v) = {k \<in> set (db_calls d). cl_case_id (snd k) = cid}"
proof -
  have "ver_calls v = sort_key (\<lambda>(_, k). cl_sequence k) (filter (\<lambda>(_, k). cl_case_id k = cid) (db_calls d))"
    using assms unfolding read_verified_evidence_def Let_def bindE_Inr_iff
    by (elim exE conjE) (simp only: sum.inject, hypsubst, simp only: verified_evidence_read.simps)
  then show ?thesis by auto
qed

text \<open>An effect row that does not make the policy invalid contributes exactly its ledger entry.\<close>

lemma bind_effect_valid:
  assumes "\<not> fst (snd (bind_effect dg entries c cid d (eid, r)))"
  obtains i cap_row entry where "ledger_stored_ok c cid (eid, r)"
    and "tget (led_intent_id (eff_payload r)) (db_intents d) = Some i"
    and "tget (led_capability_id (eff_payload r)) (db_capabilities d) = Some cap_row"
    and "effect_identity_ok dg c cid (ain_payload i) cap_row (eff_payload r)"
    and "truthy (xc_approval_id (cap_payload cap_row)) \<longrightarrow>
      (\<exists>a. xc_approval_id (cap_payload cap_row) = Some a \<and> tget a (db_approvals d) \<noteq> None)"
    and "catalog_get entries (led_action_type (eff_payload r)) = Some entry"
    and "forbidden_check (Some entry) = []" and "ri_risk_level (ain_payload i) = rac_risk_level entry"
    and "snd (snd (bind_effect dg entries c cid d (eid, r)))
      = [\<lparr> be_ledger = eff_payload r, be_target = ri_target (ain_payload i) \<rparr>]"
proof -
  let ?l = "eff_payload r"
  have ok: "ledger_stored_ok c cid (eid, r)"
    using assms by (cases "ledger_stored_ok c cid (eid, r)") (simp_all add: bind_effect_def)
  obtain i where i: "tget (led_intent_id ?l) (db_intents d) = Some i"
    using assms by (cases "tget (led_intent_id ?l) (db_intents d)") (simp_all add: bind_effect_def ok)
  obtain k where k: "tget (led_capability_id ?l) (db_capabilities d) = Some k"
    using assms by (cases "tget (led_capability_id ?l) (db_capabilities d)") (simp_all add: bind_effect_def ok i)
  define app where "app = (case xc_approval_id (cap_payload k) of None \<Rightarrow> None
     | Some a \<Rightarrow> if truthy (xc_approval_id (cap_payload k)) then map_option (Pair a) (tget a (db_approvals d)) else None)"
  have needed: "\<not> (truthy (xc_approval_id (cap_payload k)) \<and> app = None)"
    using assms by (rule contrapos_nn) (simp add: bind_effect_def ok i k Let_def app_def)
  have ident: "effect_identity_ok dg c cid (ain_payload i) k ?l"
    using assms needed by (cases "effect_identity_ok dg c cid (ain_payload i) k ?l")
      (simp_all add: bind_effect_def ok i k Let_def flip: app_def)
  obtain cmd where cmd: "build_command dg (ain_payload i) (cap_payload k) = Inr cmd"
    using assms needed by (cases "build_command dg (ain_payload i) (cap_payload k)")
      (simp_all add: bind_effect_def ok i k ident Let_def flip: app_def)
  obtain entry where e: "catalog_get entries (led_action_type ?l) = Some entry"
    using assms needed by (cases "catalog_get entries (led_action_type ?l)")
      (simp_all add: bind_effect_def ok i k ident cmd Let_def flip: app_def)
  have b: "snd (bind_effect dg entries c cid d (eid, r)) =
      (forbidden_check (Some entry) \<noteq> [] \<or> ri_risk_level (ain_payload i) \<noteq> rac_risk_level entry,
      [\<lparr> be_ledger = ?l, be_target = ri_target (ain_payload i) \<rparr>])"
    using needed by (simp add: bind_effect_def ok i k ident cmd e Let_def flip: app_def)
  from needed have "truthy (xc_approval_id (cap_payload k)) \<longrightarrow>
      (\<exists>a. xc_approval_id (cap_payload k) = Some a \<and> tget a (db_approvals d) \<noteq> None)"
    by (auto simp: app_def truthy_def split: option.splits)
  moreover have "forbidden_check (Some entry) = []" "ri_risk_level (ain_payload i) = rac_risk_level entry"
    "snd (snd (bind_effect dg entries c cid d (eid, r))) = [\<lparr> be_ledger = ?l, be_target = ri_target (ain_payload i) \<rparr>]"
    using assms by (simp_all add: b)
  ultimately show thesis using that [OF ok i k ident _ e] by blast
qed

text \<open>What the checks of a passed evaluation say about the state it read.\<close>

lemma passed_state:
  assumes "evaluate_state ri iter p k st cid uuid now = Inr r" and "erp_overall_verdict r = V_PASS"
  shows "outcome_path_of st = Some Op_SETTLED_PATH \<and> all_values (money_facts st) (VStr ''SETTLED'')
          \<and> pir_result (hg_payment_identity (es_graph st)) = Match_MATCH
        \<or> outcome_path_of st = Some Op_NO_DISBURSEMENT_PATH \<and> all_values (money_facts st) (VStr ''NOT_EXECUTED'')
          \<and> settled_history st = []"
    and "es_provenance_valid st" and "\<not> es_pending_reads st" and "\<not> es_policy_invalid st"
    and "\<not> es_recovery_unresolved st"
    and "\<And>b. b \<in> set (es_effects st) \<Longrightarrow> led_status (be_ledger b) \<notin> set UNRESOLVED_EFFECT_STATES"
proof -
  have ok: "\<not> unresolved_status (ck_status c)" if "c \<in> set (business_checks p k now st)" for c
    using verdict_checks(1) [OF assms(1)] assms(2) that by (simp add: all_checks_def Let_def)
  note split = business_checks_split [of p k now st]
  have money: "\<not> unresolved_status (ck_status (snd (money_check st)))" by (rule ok) (simp add: split)
  have identity: "\<not> unresolved_status (ck_status (identity_check st))" by (rule ok) (simp add: split)
  from money show "outcome_path_of st = Some Op_SETTLED_PATH \<and> all_values (money_facts st) (VStr ''SETTLED'')
          \<and> pir_result (hg_payment_identity (es_graph st)) = Match_MATCH
        \<or> outcome_path_of st = Some Op_NO_DISBURSEMENT_PATH \<and> all_values (money_facts st) (VStr ''NOT_EXECUTED'')
          \<and> settled_history st = []"
    by (cases rule: money_check_ok)
      (use identity in \<open>auto simp: identity_check_def Let_def split: identity_match.splits\<close>)
  have suff: "\<forall>c\<in>set (sufficiency_checks p now st). \<not> unresolved_status (ck_status c)"
    and safe: "\<forall>c\<in>set (safety_checks st). \<not> unresolved_status (ck_status c)" using ok by (simp_all add: split)
  show "es_provenance_valid st" "\<not> es_pending_reads st" using sufficiency_ok(1,2) [OF suff] .
  show "\<not> es_policy_invalid st" "\<not> es_recovery_unresolved st" using safety_ok(1,2) [OF safe] .
  show "led_status (be_ledger b) \<notin> set UNRESOLVED_EFFECT_STATES" if "b \<in> set (es_effects st)" for b
    by (rule effect_check_ok(1) [of st], rule ok) (use that in \<open>simp add: split\<close>)
qed

text \<open>
  What a closure rests on, read from the database itself: the snapshot of the report, an outcome proved
  by current Evidence whose provenance was re-extracted, no open read, ledger entries with a known
  outcome that are the single effect of a stored capability of an allowed action, and no open recovery.
\<close>

definition proved_outcome :: "evaluation_state \<Rightarrow> bool" where
  "proved_outcome st = (case outcome_path_of st of None \<Rightarrow> False
     | Some Op_SETTLED_PATH \<Rightarrow> all_values (money_facts st) (VStr ''SETTLED'')
         \<and> pir_result (hg_payment_identity (es_graph st)) = Match_MATCH
     | Some Op_NO_DISBURSEMENT_PATH \<Rightarrow> all_values (money_facts st) (VStr ''NOT_EXECUTED'')
         \<and> settled_history st = [])"

definition accounted_effect :: "evaluator_config \<Rightarrow> db \<Rightarrow> string \<times> effect_row \<Rightarrow> bool" where
  "accounted_effect cfg d k = (let l = eff_payload (snd k) in
     eff_status (snd k) \<notin> set UNRESOLVED_EFFECT_STATES
     \<and> (case tget (led_capability_id l) (db_capabilities d) of None \<Rightarrow> False
        | Some cap \<Rightarrow> cap_used_effect_id cap = Some (fst k)
            \<and> effect_key (evc_digest cfg) (cap_payload cap) = fst k)
     \<and> (case catalog_get (evc_entries cfg) (led_action_type l) of None \<Rightarrow> False
        | Some entry \<Rightarrow> forbidden_check (Some entry) = []))"

definition rests_on_database :: "evaluator_config \<Rightarrow> string \<Rightarrow> db \<Rightarrow> evaluation_report \<Rightarrow> time \<Rightarrow> bool" where
  "rests_on_database cfg tenant d r now = (case snapshot_state cfg tenant d (erp_case_id r) now of
       Inl _ \<Rightarrow> False
     | Inr st \<Rightarrow> es_snapshot st = erp_snapshot r \<and> es_provenance_valid st \<and> proved_outcome st
         \<and> list_all (\<lambda>k. cl_case_id (snd k) \<noteq> erp_case_id r
             \<or> cl_state (snd k) \<notin> {Call_DISPATCHED, Call_ERROR}) (db_calls d)
         \<and> list_all (\<lambda>k. eff_case_id (snd k) \<noteq> erp_case_id r \<or> accounted_effect cfg d k) (db_effects d)
         \<and> \<not> recovery_unresolved (es_case st) d (erp_case_id r) now)"

lemma closed_rests_on_database:
  assumes "close_verified cfg iter uuid tenant d r now = Inr (d', res)"
    and "vcr_status res = Cls_CLOSED_VERIFIED"
  shows "rests_on_database cfg tenant d r now"
proof -
  let ?cid = "erp_case_id r"
  obtain fresh where e: "evaluate_case cfg iter uuid tenant d ?cid now = Inr fresh"
      and pass: "erp_overall_verdict fresh = V_PASS" and snap: "erp_snapshot fresh = erp_snapshot r"
    by (rule close_case_Inr [OF assms(1) [unfolded close_verified_def]]) (use assms(2) in auto)
  then obtain st where st: "snapshot_state cfg tenant d ?cid now = Inr st"
      and ev: "evaluate_state (evc_report_hash cfg) iter (evc_policy cfg) (evc_contract cfg) st ?cid uuid now = Inr fresh"
    by (auto simp: evaluate_case_def)
  have same: "es_snapshot st = erp_snapshot r"
    using evaluate_state_Inr(1) [OF ev] snap by simp
  obtain row c verified where v: "read_verified_evidence (evc_claim_hash cfg) (evc_observation_hash cfg)
        (sh_evidence (evc_hashes cfg)) d ?cid row = Inr verified" and c: "es_case st = c"
      and effects: "es_effects st = concat (map (snd \<circ> snd \<circ> bind_effect (evc_digest cfg) (evc_entries cfg) c ?cid d)
          (case_effect_rows d ?cid))"
      and invalid: "es_policy_invalid st = list_ex (fst \<circ> snd \<circ> bind_effect (evc_digest cfg) (evc_entries cfg) c ?cid d)
          (case_effect_rows d ?cid)"
      and rec: "es_recovery_unresolved st = recovery_unresolved c d ?cid now"
      and reads: "es_pending_reads st = list_ex (\<lambda>(_, r). cl_state r \<in> {Call_DISPATCHED, Call_ERROR}) (ver_calls verified)"
    by (rule read_evaluation_state_Inr [OF st [unfolded snapshot_state_def]]) blast
  note passed = passed_state [OF ev pass]
  have calls: "cl_state (snd k) \<notin> {Call_DISPATCHED, Call_ERROR}"
    if "k \<in> set (db_calls d)" "cl_case_id (snd k) = ?cid" for k
    using passed(3) that by (cases k) (auto simp: reads list_ex_iff ver_calls_of [OF v])
  have bound: "accounted_effect cfg d k"
    if k: "k \<in> set (db_effects d)" "eff_case_id (snd k) = ?cid" for k
  proof (cases k)
    case (Pair eid row)
    have mem: "(eid, row) \<in> set (case_effect_rows d ?cid)" using k by (auto simp: Pair case_effect_rows_def)
    then have "\<not> fst (snd (bind_effect (evc_digest cfg) (evc_entries cfg) c ?cid d (eid, row)))"
      using passed(4) by (auto simp: invalid list_ex_iff)
    then show ?thesis
    proof (rule bind_effect_valid)
      fix i cap entry
      assume stored: "ledger_stored_ok c ?cid (eid, row)"
        and cap: "tget (led_capability_id (eff_payload row)) (db_capabilities d) = Some cap"
        and ident: "effect_identity_ok (evc_digest cfg) c ?cid (ain_payload i) cap (eff_payload row)"
        and entry: "catalog_get (evc_entries cfg) (led_action_type (eff_payload row)) = Some entry"
          "forbidden_check (Some entry) = []"
        and be: "snd (snd (bind_effect (evc_digest cfg) (evc_entries cfg) c ?cid d (eid, row)))
          = [\<lparr> be_ledger = eff_payload row, be_target = ri_target (ain_payload i) \<rparr>]"
      have "\<lparr> be_ledger = eff_payload row, be_target = ri_target (ain_payload i) \<rparr> \<in> set (es_effects st)"
        using mem be by (force simp: effects)
      from passed(6) [OF this] have "led_status (eff_payload row) \<notin> set UNRESOLVED_EFFECT_STATES" by simp
      then show ?thesis
        using stored cap ident entry
        by (simp add: accounted_effect_def Pair ledger_stored_ok_def effect_identity_ok_def Let_def)
    qed
  qed
  have "\<not> recovery_unresolved (es_case st) d ?cid now" using passed(5) by (simp add: rec c)
  moreover have "proved_outcome st" using passed(1) by (auto simp: proved_outcome_def)
  ultimately show ?thesis
    using st same passed(2) calls bound by (auto simp: rests_on_database_def list_all_iff)
qed

text \<open>
  C27. A Case is closed only on what its own database shows at that moment: the closure fails, or the
  Case was closed before, or a fresh evaluation of the database PASSes on the snapshot of the report,
  and everything \<open>rests_on_database\<close> asks for holds of the very database the closure is written to.
\<close>
theorem closure_rests_on_database:
  "case close_verified cfg iter uuid tenant d r now of Inl _ \<Rightarrow> True
   | Inr (d', res) \<Rightarrow> vcr_status res = Cls_ALREADY_CLOSED_VERIFIED \<or> rests_on_database cfg tenant d r now"
proof (cases "close_verified cfg iter uuid tenant d r now")
  case (Inr x)
  obtain d' res where x: "x = (d', res)" by (cases x)
  show ?thesis
  proof (cases "vcr_status res")
    case Cls_CLOSED_VERIFIED
    with closed_rests_on_database [OF Inr [unfolded x]] show ?thesis by (simp add: Inr x)
  qed (simp add: Inr x)
qed simp

end
