(* ===== verification/Provenance.thy ===== *)
theory Provenance
  imports Verification
begin

text \<open>
  Publication and revalidation agree: what \<open>record_call\<close> stores is exactly what
  \<open>read_verified_evidence\<close> accepts. \<open>evidence_published\<close> states what the tables hold between two
  publications of a Case; every publication keeps it, and it makes the revalidation succeed.
\<close>

section \<open>Published Evidence\<close>

text \<open>The Evidence that the observed call \<open>k\<close> yields when it is extracted again.\<close>

definition call_yields :: "(jv \<Rightarrow> string) \<Rightarrow> (observation \<Rightarrow> string) \<Rightarrow> case_row \<Rightarrow> db
    \<Rightarrow> string \<times> case_call_row \<Rightarrow> string \<Rightarrow> evidence list \<Rightarrow> bool" where
  "call_yields jh oh row d k rid es = (\<exists>c r. hydrate row = Inr c
     \<and> cl_observation_id (snd k) = Some rid \<and> tget rid (sim_observations (db_sim d)) = Some r
     \<and> reextract jh oh c row (map fst (db_origins d)) (fst k) (snd k) rid r = Inr es)"

definition observed_calls :: "db \<Rightarrow> string \<Rightarrow> (string \<times> case_call_row) set" where
  "observed_calls d cid = {k \<in> set (db_calls d). cl_case_id (snd k) = cid \<and> cl_state (snd k) = Call_OBSERVED}"

definition evidence_published :: "(jv \<Rightarrow> string) \<Rightarrow> (observation \<Rightarrow> string) \<Rightarrow> case_row \<Rightarrow> db \<Rightarrow> string \<Rightarrow> bool" where
  "evidence_published jh oh row d cid = (
     (\<forall>k\<in>observed_calls d cid. \<exists>rid es. call_yields jh oh row d k rid es
        \<and> distinct (map ev_evidence_id es)
        \<and> (\<forall>e\<in>set es. \<exists>w. tget (ev_evidence_id e) (db_evidence d) = Some w \<and> evw_case_id w = cid))
     \<and> (\<forall>eid w. tget eid (db_evidence d) = Some w \<longrightarrow> evw_case_id w = cid \<longrightarrow>
          (\<exists>k\<in>observed_calls d cid. \<exists>es. call_yields jh oh row d k (evw_observation_id w) es
             \<and> evw_payload w \<in> set es \<and> ev_evidence_id (evw_payload w) = eid))
     \<and> inj_on (cl_observation_id \<circ> snd) (observed_calls d cid)
     \<and> (\<forall>k\<in>set (db_calls d). cl_state (snd k) \<noteq> Call_OBSERVED \<longrightarrow>
          (\<forall>e. (e, fst k) \<notin> set (map fst (db_origins d)))))"

lemma extract_identity:
  assumes "extract_evidence jh oh c o1 (Some query) = Inr es" and "e \<in> set es"
  shows "ev_case_id e = case_case_id c" "ev_observation_id e = ob_observation_id o1"
    "ev_evidence_id e = ''E-'' @ fingerprint jh e" "evidence_valid e"
proof -
  obtain cs where "mapE (emit jh oh (case_case_id c) o1 query) cs = Inr es"
    using extract_shape [OF assms(1)] by auto
  from mapE_Inr_set [OF this assms(2)] obtain x where "emit jh oh (case_case_id c) o1 query x = Inr e" by blast
  then have "evidence_valid (pending_evidence oh (case_case_id c) o1 query x)"
    and e: "e = (pending_evidence oh (case_case_id c) o1 query x)
       \<lparr> ev_evidence_id := ''E-'' @ fingerprint jh (pending_evidence oh (case_case_id c) o1 query x) \<rparr>"
    by (simp_all add: emit_Inr)
  then show "evidence_valid e" by (simp add: evidence_valid_def)
  show "ev_case_id e = case_case_id c" "ev_observation_id e = ob_observation_id o1"
    "ev_evidence_id e = ''E-'' @ fingerprint jh e"
    by (simp_all add: e) (simp_all add: pending_evidence_def)
qed

lemma raw_observation_body:
  "raw_observation oh rid r = Inr raw \<Longrightarrow> ro_observation raw = or_observation r \<and> ro_request raw = or_request r
     \<and> ob_observation_id (or_observation r) = rid"
  by (auto simp: raw_observation_def Let_def split: if_split_asm)

lemma reextract_Inr:
  assumes "reextract jh oh c row origins call_id call rid r = Inr es"
  obtains "isl (raw_observation oh rid r) = False"
    and "dispatch_matches c row call r"
    and "extract_evidence jh oh c (or_observation r) (Some (or_request r)) = Inr es"
    and "ev_evidence_id ` set es = {e. (e, call_id) \<in> set origins}"
    and "ob_observation_id (or_observation r) = rid"
proof -
  obtain raw where raw: "raw_observation oh rid r = Inr raw"
    and rest: "(if \<not> dispatch_matches c row call r then Inl ProvenanceError
        else bindE (extract_evidence jh oh c (ro_observation raw) (Some (ro_request raw))) (\<lambda>es.
          if set (map ev_evidence_id es) \<noteq> set (map fst (filter (\<lambda>o1. snd o1 = call_id) origins))
          then Inl ProvenanceError else Inr es)) = Inr es"
    using assms unfolding reextract_def bindE_Inr_iff by blast
  have dm: "dispatch_matches c row call r" by (rule ccontr) (use rest in simp)
  with rest obtain es' where es': "extract_evidence jh oh c (ro_observation raw) (Some (ro_request raw)) = Inr es'"
    and rest: "(if set (map ev_evidence_id es') \<noteq> set (map fst (filter (\<lambda>o1. snd o1 = call_id) origins))
          then Inl ProvenanceError else Inr es') = Inr es" by (simp only: simp_thms if_True if_False bindE_Inr_iff) blast
  have ids: "set (map ev_evidence_id es') = set (map fst (filter (\<lambda>o1. snd o1 = call_id) origins))"
    by (rule ccontr) (use rest in simp)
  with rest have "es' = es" by simp
  note extracted = dm es' [unfolded this] ids [unfolded this]
  have "fst ` {o1 \<in> set origins. snd o1 = call_id} = {e. (e, call_id) \<in> set origins}" by force
  then show thesis using raw_observation_body [OF raw] extracted raw by (intro that) simp_all
qed

lemma call_yields_fact:
  assumes "call_yields jh oh row d k rid es" and "e \<in> set es" and "hydrate row = Inr c"
  shows "ev_observation_id e = rid" "ev_case_id e = case_case_id c"
    "ev_evidence_id e = ''E-'' @ fingerprint jh e" "evidence_valid e"
proof -
  obtain r where re: "reextract jh oh c row (map fst (db_origins d)) (fst k) (snd k) rid r = Inr es"
    using assms(1,3) by (auto simp: call_yields_def)
  obtain ext: "extract_evidence jh oh c (or_observation r) (Some (or_request r)) = Inr es"
    and rid: "ob_observation_id (or_observation r) = rid" by (rule reextract_Inr [OF re])
  show "ev_observation_id e = rid" "ev_case_id e = case_case_id c"
    "ev_evidence_id e = ''E-'' @ fingerprint jh e" "evidence_valid e"
    using extract_identity [OF ext assms(2)] rid by simp_all
qed

lemma call_yields_unique:
  "call_yields jh oh row d k rid es \<Longrightarrow> call_yields jh oh row d k rid' es' \<Longrightarrow> rid' = rid \<and> es' = es"
  by (auto simp: call_yields_def)

section \<open>Revalidation\<close>

text \<open>The claims kept so far are those of a set of Evidence, under their own keys.\<close>

definition claims_kept :: "evidence set \<Rightarrow> reextraction \<Rightarrow> bool" where
  "claims_kept E rx = (rx_valid rx \<and> distinct (map fst (rx_extracted rx))
     \<and> (\<forall>i e. map_of (rx_originals rx) i = Some e \<longrightarrow> e \<in> E \<and> i = (ev_evidence_id e, ev_observation_id e))
     \<and> (\<forall>e\<in>E. map_of (rx_originals rx) (ev_evidence_id e, ev_observation_id e) \<noteq> None)
     \<and> (\<forall>i e. map_of (rx_extracted rx) i = Some e \<longrightarrow> e \<in> E \<and> i = ev_evidence_id e)
     \<and> (\<forall>e\<in>E. map_of (rx_extracted rx) (ev_evidence_id e) \<noteq> None))"

lemma keep_claim_simps [simp]:
  "rx_valid (keep_claim e rx) = rx_valid rx"
  "map_of (rx_originals (keep_claim e rx)) i
    = (if i = (ev_evidence_id e, ev_observation_id e) then Some e else map_of (rx_originals rx) i)"
  "map_of (rx_extracted (keep_claim e rx)) j = (if j = ev_evidence_id e
     then (case map_of (rx_extracted rx) j of None \<Rightarrow> Some e
       | Some old \<Rightarrow> Some (if newer_observation e old then e else old))
     else map_of (rx_extracted rx) j)"
  "distinct (map fst (rx_extracted rx)) \<Longrightarrow> distinct (map fst (rx_extracted (keep_claim e rx)))"
  by (auto simp: keep_claim_def update_conv' distinct_update split: option.split)

lemma claims_kept_receipts [simp]: "claims_kept E (rx\<lparr> rx_receipts := x \<rparr>) = claims_kept E rx"
  by (simp add: claims_kept_def)

lemma claims_kept_keep:
  assumes "claims_kept E rx"
  shows "claims_kept (insert e E) (keep_claim e rx)"
  using assms unfolding claims_kept_def by (auto split: if_split_asm option.splits)

lemma claims_kept_fold: "claims_kept E rx \<Longrightarrow> claims_kept (E \<union> set es) (fold keep_claim es rx)"
proof (induction es arbitrary: E rx)
  case (Cons e es)
  from Cons.IH [OF claims_kept_keep [OF Cons.prems]] show ?case by simp
qed simp

lemma revalidate_calls_kept:
  assumes "claims_kept E rx"
    and "\<And>k. k \<in> set ks \<Longrightarrow> cl_state (snd k) = Call_OBSERVED \<Longrightarrow>
      \<exists>rid r. cl_observation_id (snd k) = Some rid \<and> tget rid (sim_observations (db_sim d)) = Some r
        \<and> reextract jh oh c row origins (fst k) (snd k) rid r = Inr (F k)"
  shows "\<exists>rx'. revalidate_calls jh oh c row origins d ks rx = Inr rx'
    \<and> claims_kept (E \<union> (\<Union>k\<in>{k \<in> set ks. cl_state (snd k) = Call_OBSERVED}. set (F k))) rx'"
  using assms
proof (induction ks arbitrary: E rx)
  case (Cons k ks)
  obtain i call where k: "k = (i, call)" by (cases k)
  show ?case
  proof (cases "cl_state call = Call_OBSERVED")
    case True
    with Cons.prems(2) [of k] k obtain rid r where r: "cl_observation_id call = Some rid"
      "tget rid (sim_observations (db_sim d)) = Some r"
      "reextract jh oh c row origins i call rid r = Inr (F k)" by auto
    let ?rx = "fold keep_claim (F k) (rx\<lparr> rx_receipts := rx_receipts rx @ [(rid, r)] \<rparr>)"
    have one: "revalidate_call jh oh c row origins d k rx = Inr ?rx"
      by (simp add: revalidate_call_def k True r Let_def)
    have "claims_kept (E \<union> set (F k)) ?rx"
      by (rule claims_kept_fold) (use Cons.prems(1) in simp)
    from Cons.IH [OF this Cons.prems(2)] obtain rx' where
      rx': "revalidate_calls jh oh c row origins d ks ?rx = Inr rx'"
      "claims_kept (E \<union> set (F k) \<union> (\<Union>k\<in>{k \<in> set ks. cl_state (snd k) = Call_OBSERVED}. set (F k))) rx'" by auto
    moreover have "{k' \<in> set (k # ks). cl_state (snd k') = Call_OBSERVED}
        = insert k {k \<in> set ks. cl_state (snd k) = Call_OBSERVED}" using True k by auto
    ultimately show ?thesis by (simp add: one Un_assoc)
  next
    case False
    then have one: "revalidate_call jh oh c row origins d k rx = Inr rx"
      by (simp add: revalidate_call_def k)
    have "{k' \<in> set (k # ks). cl_state (snd k') = Call_OBSERVED}
        = {k \<in> set ks. cl_state (snd k) = Call_OBSERVED}" using False k by auto
    with Cons.IH [OF Cons.prems(1)] Cons.prems(2) show ?thesis by (simp add: one)
  qed
qed simp

lemma reextract_origins:
  "(\<And>e. (e, i) \<in> set os \<longleftrightarrow> (e, i) \<in> set os') \<Longrightarrow>
   reextract jh oh c row os i call rid r = reextract jh oh c row os' i call rid r"
proof -
  assume "\<And>e. (e, i) \<in> set os \<longleftrightarrow> (e, i) \<in> set os'"
  then have "set (map fst (filter (\<lambda>o1. snd o1 = i) os)) = set (map fst (filter (\<lambda>o1. snd o1 = i) os'))"
    by force
  then show ?thesis by (simp only: reextract_def)
qed

lemma fact_identified:
  assumes "inj_on (cl_observation_id \<circ> snd) (observed_calls d cid)" and "hydrate row = Inr c"
    and "k \<in> observed_calls d cid" and "call_yields jh oh row d k rid es" and "e \<in> set es"
    and "distinct (map ev_evidence_id es)"
    and "k' \<in> observed_calls d cid" and "call_yields jh oh row d k' rid' es'" and "e' \<in> set es'"
    and "ev_evidence_id e' = ev_evidence_id e" and "ev_observation_id e' = ev_observation_id e"
  shows "e' = e"
proof -
  have "rid' = rid"
    using call_yields_fact(1) [OF assms(4,5,2)] call_yields_fact(1) [OF assms(8,9,2)] assms(11) by simp
  then have "k' = k"
    using assms(4,8) by (intro inj_onD [OF assms(1) _ assms(7,3)]) (auto simp: call_yields_def)
  with assms(4,8) have "es' = es" by (auto dest: call_yields_unique)
  with assms(5,6,9,10) show ?thesis by (auto simp: distinct_map inj_on_def)
qed

lemma stored_fact_okI:
  assumes "evidence_valid (evw_payload w)" and "ev_evidence_id (evw_payload w) = i"
    and "ev_case_id (evw_payload w) = evw_case_id w"
    and "ev_observation_id (evw_payload w) = evw_observation_id w"
    and "ev_evidence_id (evw_payload w) = ''E-'' @ fingerprint jh (evw_payload w)"
    and "map_of originals (ev_evidence_id (evw_payload w), ev_observation_id (evw_payload w)) = Some (evw_payload w)"
  shows "stored_fact_ok jh originals (i, w)"
  unfolding stored_fact_ok_def Let_def prod.case using assms by (intro conjI)

lemma map_of_sorted_mem: "distinct (map fst xs) \<Longrightarrow> e \<in> set (map snd (sort_key fst (filter (\<lambda>(i, _). P i) xs)))
    \<longleftrightarrow> (\<exists>i. P i \<and> map_of xs i = Some e)"
  by (force simp: map_of_eq_Some_iff)

lemma distinct_sort_keys: "distinct (map f (sort_key g xs)) \<longleftrightarrow> distinct (map f xs)"
  by (rule mset_eq_imp_distinct_iff) simp

text \<open>The read when no stored row is broken.\<close>

lemma read_verified_valid:
  defines "rows d cid \<equiv> sort_key fst (filter (\<lambda>(_, r). evw_case_id r = cid) (db_evidence d))"
    and "calls d cid \<equiv> sort_key (\<lambda>(_, k). cl_sequence k) (filter (\<lambda>(_, k). cl_case_id k = cid) (db_calls d))"
  assumes "hydrate row = Inr c"
    and "revalidate_calls jh oh c row (filter (\<lambda>(_, k). k \<in> set (map fst (calls d cid))) (map fst (db_origins d)))
        d (calls d cid) \<lparr> rx_valid = True, rx_receipts = [], rx_extracted = [], rx_originals = [] \<rparr> = Inr rx"
    and "filter (stored_fact_ok jh (rx_originals rx)) (rows d cid) = rows d cid"
    and "filter (\<lambda>k. \<not> stored_fact_ok jh (rx_originals rx) k) (rows d cid) = []"
    and "set (map fst (rx_extracted rx)) = set (map fst (rows d cid))" and "rx_valid rx"
  shows "\<exists>v. read_verified_evidence jh oh vf d cid row = Inr v \<and> ver_provenance_valid v
    \<and> ver_evidence v = map snd (sort_key fst (rx_extracted rx))"
proof -
  have all: "filter (\<lambda>(i, _). i \<in> set (map fst (rows d cid))) (rx_extracted rx) = rx_extracted rx"
    unfolding assms(7) [symmetric] by (force simp: filter_id_conv)
  have none: "filter (\<lambda>(i, _). i \<notin> set []) (rx_extracted rx) = rx_extracted rx"
    by (auto simp: filter_id_conv)
  show ?thesis
    unfolding read_verified_evidence_def Let_def assms(3) bindE_def sum.case
      rows_def [symmetric] calls_def [symmetric] assms(4-6) list.map all none
    using assms(7,8) by simp
qed

lemma revalidated:
  assumes "hydrate row = Inr c" and "case_case_id c = cid" and "tkeys_distinct (db_evidence d)"
    and "evidence_published jh oh row d cid"
  shows "\<exists>v. read_verified_evidence jh oh vf d cid row = Inr v \<and> ver_provenance_valid v
    \<and> set (map ev_evidence_id (ver_evidence v))
        = {i. \<exists>w. tget i (db_evidence d) = Some w \<and> evw_case_id w = cid}
    \<and> sorted (map ev_evidence_id (ver_evidence v)) \<and> distinct (map ev_evidence_id (ver_evidence v))
    \<and> (\<forall>e\<in>set (ver_evidence v). \<exists>k\<in>observed_calls d cid. \<exists>es.
        call_yields jh oh row d k (ev_observation_id e) es \<and> e \<in> set es)"
proof -
  let ?obs = "observed_calls d cid"
  note inj = assms(4) [unfolded evidence_published_def, THEN conjunct2, THEN conjunct2, THEN conjunct1]
  have "\<forall>k\<in>?obs. \<exists>es. \<exists>rid. call_yields jh oh row d k rid es \<and> distinct (map ev_evidence_id es)
      \<and> (\<forall>e\<in>set es. \<exists>w. tget (ev_evidence_id e) (db_evidence d) = Some w \<and> evw_case_id w = cid)"
    using assms(4) unfolding evidence_published_def by blast
  from bchoice [OF this] obtain F where F: "\<And>k. k \<in> ?obs \<Longrightarrow> \<exists>rid. call_yields jh oh row d k rid (F k)
      \<and> distinct (map ev_evidence_id (F k))
      \<and> (\<forall>e\<in>set (F k). \<exists>w. tget (ev_evidence_id e) (db_evidence d) = Some w \<and> evw_case_id w = cid)" by blast
  define E where "E = (\<Union>k\<in>?obs. set (F k))"
  have stored: "\<exists>k\<in>?obs. call_yields jh oh row d k (evw_observation_id w) (F k) \<and> evw_payload w \<in> set (F k)
      \<and> ev_evidence_id (evw_payload w) = i"
    if w: "tget i (db_evidence d) = Some w" "evw_case_id w = cid" for i w
  proof -
    obtain k es where k: "k \<in> ?obs" "call_yields jh oh row d k (evw_observation_id w) es"
      "evw_payload w \<in> set es" "ev_evidence_id (evw_payload w) = i"
      using assms(4) w unfolding evidence_published_def by blast
    moreover from F [OF k(1)] k(2) have "es = F k" by (auto dest: call_yields_unique)
    ultimately show ?thesis by blast
  qed
  have known: "\<exists>w. tget (ev_evidence_id e) (db_evidence d) = Some w \<and> evw_case_id w = cid" if "e \<in> E" for e
    using F that unfolding E_def by blast
  let ?rows = "sort_key fst (filter (\<lambda>(_, r). evw_case_id r = cid) (db_evidence d))"
  let ?calls = "sort_key (\<lambda>(_, k). cl_sequence k) (filter (\<lambda>(_, k). cl_case_id k = cid) (db_calls d))"
  let ?origins = "filter (\<lambda>(_, k). k \<in> set (map fst ?calls)) (map fst (db_origins d))"
  have obs: "k \<in> ?obs \<longleftrightarrow> k \<in> set ?calls \<and> cl_state (snd k) = Call_OBSERVED" for k
    by (cases k) (auto simp: observed_calls_def)
  have "claims_kept {} \<lparr> rx_valid = True, rx_receipts = [], rx_extracted = [], rx_originals = [] \<rparr>"
    by (simp add: claims_kept_def)
  then have "\<exists>rx. revalidate_calls jh oh c row ?origins d ?calls
        \<lparr> rx_valid = True, rx_receipts = [], rx_extracted = [], rx_originals = [] \<rparr> = Inr rx
      \<and> claims_kept ({} \<union> (\<Union>k\<in>{k \<in> set ?calls. cl_state (snd k) = Call_OBSERVED}. set (F k))) rx"
  proof (rule revalidate_calls_kept)
    fix k assume k: "k \<in> set ?calls" "cl_state (snd k) = Call_OBSERVED"
    with obs obtain rid where "call_yields jh oh row d k rid (F k)" using F by blast
    then obtain r where r: "cl_observation_id (snd k) = Some rid" "tget rid (sim_observations (db_sim d)) = Some r"
      "reextract jh oh c row (map fst (db_origins d)) (fst k) (snd k) rid r = Inr (F k)"
      using assms(1) by (auto simp: call_yields_def)
    have "reextract jh oh c row ?origins (fst k) (snd k) rid r
        = reextract jh oh c row (map fst (db_origins d)) (fst k) (snd k) rid r"
      by (rule reextract_origins) (use k(1) in force)
    with r show "\<exists>rid r. cl_observation_id (snd k) = Some rid \<and> tget rid (sim_observations (db_sim d)) = Some r
        \<and> reextract jh oh c row ?origins (fst k) (snd k) rid r = Inr (F k)" by auto
  qed
  moreover have "{k \<in> set ?calls. cl_state (snd k) = Call_OBSERVED} = ?obs"
    by (auto simp: observed_calls_def)
  ultimately obtain rx where rx: "revalidate_calls jh oh c row ?origins d ?calls
        \<lparr> rx_valid = True, rx_receipts = [], rx_extracted = [], rx_originals = [] \<rparr> = Inr rx"
      and kept: "claims_kept E rx" unfolding E_def by (simp only: Un_empty_left) blast
  have same: "e' = e" if e: "e \<in> E" "e' \<in> E" and same: "ev_evidence_id e' = ev_evidence_id e"
      "ev_observation_id e' = ev_observation_id e" for e e'
  proof -
    obtain k k' where k: "k \<in> ?obs" "e \<in> set (F k)" "k' \<in> ?obs" "e' \<in> set (F k')"
      using e unfolding E_def by blast
    obtain rid rid' where "call_yields jh oh row d k rid (F k)" "call_yields jh oh row d k' rid' (F k')"
      "distinct (map ev_evidence_id (F k))" using F [OF k(1)] F [OF k(3)] by blast
    from fact_identified [OF inj assms(1) k(1) this(1) k(2) this(3) k(3) this(2) k(4) same] show ?thesis .
  qed
  have ok: "stored_fact_ok jh (rx_originals rx) (i, w)" if "(i, w) \<in> set ?rows" for i w
  proof -
    from that assms(3) have w: "tget i (db_evidence d) = Some w" "evw_case_id w = cid"
      by (auto intro: tget_member)
    let ?e = "evw_payload w"
    obtain k where k: "k \<in> ?obs" "call_yields jh oh row d k (evw_observation_id w) (F k)" "?e \<in> set (F k)"
      "ev_evidence_id ?e = i" using stored [OF w] by blast
    then have "?e \<in> E" by (auto simp: E_def)
    then obtain e where e: "map_of (rx_originals rx) (ev_evidence_id ?e, ev_observation_id ?e) = Some e"
      "e \<in> E" and key: "(ev_evidence_id ?e, ev_observation_id ?e) = (ev_evidence_id e, ev_observation_id e)"
      using kept unfolding claims_kept_def by blast
    from key have "ev_evidence_id e = ev_evidence_id ?e" "ev_observation_id e = ev_observation_id ?e"
      by (simp_all only: prod.inject)
    from same [OF \<open>?e \<in> E\<close> e(2) this]
    have "map_of (rx_originals rx) (ev_evidence_id ?e, ev_observation_id ?e) = Some ?e" using e(1) by blast
    note kept_same = this
    note fact = call_yields_fact [OF k(2,3) assms(1)]
    have "ev_case_id ?e = evw_case_id w" using fact(2) w(2) assms(2) by simp
    from stored_fact_okI [OF fact(4) k(4) this fact(1) fact(3) kept_same] show ?thesis .
  qed
  then have rows: "filter (stored_fact_ok jh (rx_originals rx)) ?rows = ?rows"
      "filter (\<lambda>k. \<not> stored_fact_ok jh (rx_originals rx) k) ?rows = []"
    by (auto simp: filter_id_conv filter_empty_conv)
  have keys: "set (map fst ?rows) = {i. \<exists>w. tget i (db_evidence d) = Some w \<and> evw_case_id w = cid}"
    using assms(3) by (force simp: tget_def tkeys_distinct_def map_of_eq_Some_iff)
  have val: "ev_evidence_id e = i \<and> e \<in> E" if "(i, e) \<in> set (rx_extracted rx)" for i e
    using that kept by (auto simp: claims_kept_def map_of_eq_Some_iff)
  have ids: "set (map fst (rx_extracted rx)) = set (map fst ?rows)"
  proof (intro equalityI subsetI)
    fix i assume "i \<in> set (map fst (rx_extracted rx))"
    then obtain e where "(i, e) \<in> set (rx_extracted rx)" by auto
    then have "e \<in> E" "i = ev_evidence_id e" using val by auto
    with known [of e] show "i \<in> set (map fst ?rows)" unfolding keys by blast
  next
    fix i assume "i \<in> set (map fst ?rows)"
    then obtain w where "tget i (db_evidence d) = Some w" "evw_case_id w = cid" unfolding keys by blast
    with stored obtain e where "e \<in> E" "ev_evidence_id e = i" unfolding E_def by blast
    then have "map_of (rx_extracted rx) i \<noteq> None" using kept by (auto simp: claims_kept_def)
    then show "i \<in> set (map fst (rx_extracted rx))" by (simp add: map_of_eq_None_iff)
  qed
  let ?es = "map snd (sort_key fst (rx_extracted rx))"
  obtain v where v: "read_verified_evidence jh oh vf d cid row = Inr v" "ver_provenance_valid v" "ver_evidence v = ?es"
    using read_verified_valid [OF assms(1) rx rows ids, of vf] kept unfolding claims_kept_def by blast
  have names: "map ev_evidence_id ?es = map fst (sort_key fst (rx_extracted rx))" using val by auto
  have dist: "distinct (map fst (rx_extracted rx))" using kept by (simp add: claims_kept_def)
  have source: "\<exists>k\<in>?obs. \<exists>es. call_yields jh oh row d k (ev_observation_id e) es \<and> e \<in> set es"
    if e: "e \<in> set (ver_evidence v)" for e
  proof -
    have "e \<in> E" using e val by (auto simp: v(3))
    then obtain k rid where k: "k \<in> ?obs" "e \<in> set (F k)" "call_yields jh oh row d k rid (F k)"
      using F unfolding E_def by blast
    with call_yields_fact(1) [OF k(3,2) assms(1)] show ?thesis by blast
  qed
  show ?thesis
  proof (intro exI [of _ v] conjI ballI)
    show "set (map ev_evidence_id (ver_evidence v)) = {i. \<exists>w. tget i (db_evidence d) = Some w \<and> evw_case_id w = cid}"
      unfolding v(3) names keys [symmetric] using ids by simp
    show "sorted (map ev_evidence_id (ver_evidence v))" unfolding v(3) names by simp
    show "distinct (map ev_evidence_id (ver_evidence v))"
      unfolding v(3) names using dist by (simp only: distinct_sort_keys)
  qed (use v source in blast)+
qed

text \<open>
  C28. The Evidence published for a Case survives its revalidation: when the stored rows are what the
  observed calls of the Case yield, every raw observation extracts again to the recorded origins, no
  stored fact is found broken, the read is valid, and it returns exactly one fact for every stored
  identifier, in the order of the identifiers, each extracted from an observed call of the Case.
\<close>
theorem published_evidence_revalidates:
  assumes "hydrate row = Inr c" and "case_case_id c = cid" and "tkeys_distinct (db_evidence d)"
    and "evidence_published jh oh row d cid"
  shows "\<exists>v. read_verified_evidence jh oh vf d cid row = Inr v \<and> ver_provenance_valid v
    \<and> set (map ev_evidence_id (ver_evidence v))
        = {i. \<exists>w. tget i (db_evidence d) = Some w \<and> evw_case_id w = cid}
    \<and> sorted (map ev_evidence_id (ver_evidence v)) \<and> distinct (map ev_evidence_id (ver_evidence v))
    \<and> (\<forall>e\<in>set (ver_evidence v). \<exists>k\<in>observed_calls d cid. \<exists>es.
        call_yields jh oh row d k (ev_observation_id e) es \<and> e \<in> set es)"
  by (rule revalidated [OF assms])

section \<open>Publication\<close>

text \<open>Every stored row is filed under the Case and the hash of its payload.\<close>

definition evidence_identified :: "(jv \<Rightarrow> string) \<Rightarrow> db \<Rightarrow> bool" where
  "evidence_identified jh d = (\<forall>i w. tget i (db_evidence d) = Some w \<longrightarrow>
     i = ''E-'' @ fingerprint jh (evw_payload w) \<and> ev_case_id (evw_payload w) = evw_case_id w)"

lemma tkeys_tput: "set (map fst (tput k v t)) = insert k (set (map fst t))"
  by (simp add: tput_def dom_update)

lemma tget_None_iff: "tget k t = None \<longleftrightarrow> k \<notin> set (map fst t)"
  by (simp add: tget_def map_of_eq_None_iff)

lemma publish_all_Inr:
  assumes "publish_all cid rid call_id es d = Inr d'"
  shows "set (map fst (db_origins d')) = set (map fst (db_origins d)) \<union> (\<lambda>e. (ev_evidence_id e, call_id)) ` set es"
    and "distinct (map ev_evidence_id es)"
    and "tget i (db_evidence d') = (case tget i (db_evidence d) of Some w \<Rightarrow> Some w
      | None \<Rightarrow> map_option (\<lambda>e. \<lparr> evw_case_id = cid, evw_observation_id = rid, evw_payload = e \<rparr>)
          (find (\<lambda>e. ev_evidence_id e = i) es))"
    and "tkeys_distinct (db_evidence d) \<Longrightarrow> tkeys_distinct (db_evidence d')"
proof -
  have "set (map fst (db_origins d')) = set (map fst (db_origins d)) \<union> (\<lambda>e. (ev_evidence_id e, call_id)) ` set es
      \<and> distinct (map ev_evidence_id es)
      \<and> (\<forall>e\<in>set es. (ev_evidence_id e, call_id) \<notin> set (map fst (db_origins d)))
      \<and> (\<forall>i. tget i (db_evidence d') = (case tget i (db_evidence d) of Some w \<Rightarrow> Some w
        | None \<Rightarrow> map_option (\<lambda>e. \<lparr> evw_case_id = cid, evw_observation_id = rid, evw_payload = e \<rparr>)
          (find (\<lambda>e. ev_evidence_id e = i) es)))
      \<and> (tkeys_distinct (db_evidence d) \<longrightarrow> tkeys_distinct (db_evidence d'))"
    using assms
  proof (induction es arbitrary: d)
    case Nil
    then show ?case by (simp split: option.split)
  next
    case (Cons e es)
    then obtain d1 where one: "publish_one cid rid call_id e d = Inr d1"
      and rest: "publish_all cid rid call_id es d1 = Inr d'" by (auto simp: bindE_Inr_iff)
    from one have fresh: "(ev_evidence_id e, call_id) \<notin> set (map fst (db_origins d))"
      and os: "set (map fst (db_origins d1)) = insert (ev_evidence_id e, call_id) (set (map fst (db_origins d)))"
      and rows: "tget i (db_evidence d1) = (case tget i (db_evidence d) of Some w \<Rightarrow> Some w
        | None \<Rightarrow> if i = ev_evidence_id e then Some \<lparr> evw_case_id = cid, evw_observation_id = rid, evw_payload = e \<rparr>
            else None)"
      and keys: "tkeys_distinct (db_evidence d) \<longrightarrow> tkeys_distinct (db_evidence d1)" for i
      unfolding publish_one_def Let_def bindE_Inr_iff tadd_Inr_iff tget_None_iff [of "(ev_evidence_id e, call_id)"]
      by (auto simp: tkeys_tput simp del: set_map split: if_split_asm option.split)
    note IH = Cons.IH [OF rest]
    show ?case
    proof (intro conjI allI)
      fix i
      show "tget i (db_evidence d') = (case tget i (db_evidence d) of Some w \<Rightarrow> Some w
        | None \<Rightarrow> map_option (\<lambda>e. \<lparr> evw_case_id = cid, evw_observation_id = rid, evw_payload = e \<rparr>)
          (find (\<lambda>e. ev_evidence_id e = i) (e # es)))"
        using IH rows [of i] by (auto split: option.split)
    qed (use IH os fresh keys in auto)
  qed
  then show "set (map fst (db_origins d')) = set (map fst (db_origins d)) \<union> (\<lambda>e. (ev_evidence_id e, call_id)) ` set es"
    and "distinct (map ev_evidence_id es)"
    and "tget i (db_evidence d') = (case tget i (db_evidence d) of Some w \<Rightarrow> Some w
      | None \<Rightarrow> map_option (\<lambda>e. \<lparr> evw_case_id = cid, evw_observation_id = rid, evw_payload = e \<rparr>)
          (find (\<lambda>e. ev_evidence_id e = i) es))"
    and "tkeys_distinct (db_evidence d) \<Longrightarrow> tkeys_distinct (db_evidence d')" by simp_all
qed

lemma hydrate_touched:
  assumes "hydrate row = Inr c" and "cr_updated_at row \<le> t"
  shows "hydrate (row\<lparr> cr_updated_at := t \<rparr>) = Inr (c\<lparr> case_updated_at := t \<rparr>)"
  using assms by (auto simp: hydrate_def Let_def case_valid_def split: if_split_asm)

lemma call_yields_kept:
  assumes "call_yields jh oh row d k rid es" and "cr_updated_at row \<le> t" and "db_sim d' = db_sim d"
    and "\<And>e. (e, fst k) \<in> set (map fst (db_origins d')) \<longleftrightarrow> (e, fst k) \<in> set (map fst (db_origins d))"
  shows "call_yields jh oh (row\<lparr> cr_updated_at := t \<rparr>) d' k rid es"
proof -
  obtain c r where c: "hydrate row = Inr c" and r: "cl_observation_id (snd k) = Some rid"
      "tget rid (sim_observations (db_sim d)) = Some r"
      "reextract jh oh c row (map fst (db_origins d)) (fst k) (snd k) rid r = Inr es"
    using assms(1) by (auto simp: call_yields_def)
  have ext: "extract_evidence jh oh (c\<lparr> case_updated_at := t \<rparr>) = extract_evidence jh oh c"
    by (intro ext) (simp add: extract_evidence_def cong: if_cong)
  have "reextract jh oh (c\<lparr> case_updated_at := t \<rparr>) (row\<lparr> cr_updated_at := t \<rparr>) os i call rid r
      = reextract jh oh c row os i call rid r" for os i call
    unfolding reextract_def dispatch_matches_def ext by simp
  moreover have "reextract jh oh c row (map fst (db_origins d')) (fst k) (snd k) rid r
      = reextract jh oh c row (map fst (db_origins d)) (fst k) (snd k) rid r"
    by (rule reextract_origins) (rule assms(4))
  ultimately show ?thesis
    using hydrate_touched [OF c assms(2)] r assms(3) unfolding call_yields_def by auto
qed

text \<open>What a publication that assigns the observation has checked beside \<open>record_call_Inr\<close>.\<close>

lemma record_call_bound:
  assumes "record_call jh oh tenant d cid call_id o1 recovery now = Inr (d', rs)"
    and "assigned_call d (ob_observation_id o1) = None"
    and "case_row_of tenant d cid = Inr row" and "tget call_id (db_calls d) = Some call"
    and "tget (ob_observation_id o1) (sim_observations (db_sim d)) = Some r"
  shows "or_simulation_id r = cr_simulation_id row" and "truthy (cl_dispatch_correlation_id call)"
    and "\<exists>raw. raw_observation oh (ob_observation_id o1) r = Inr raw"
proof -
  obtain raw where raw: "raw_observation oh (ob_observation_id o1) r = Inr raw"
    using assms unfolding record_call_def assms(3-5) bindE_simps option.case Let_def
    by (auto simp: bindE_Inr_iff split: if_splits)
  then show "\<exists>raw. raw_observation oh (ob_observation_id o1) r = Inr raw" by blast
  show "or_simulation_id r = cr_simulation_id row" "truthy (cl_dispatch_correlation_id call)"
    using assms(1,2) unfolding record_call_def assms(3-5) raw bindE_simps option.case Let_def
    by (auto split: if_splits)
qed

lemma published_call:
  assumes "evidence_published jh oh row d cid" and "k \<in> observed_calls d cid"
  obtains rid es where "call_yields jh oh row d k rid es" and "distinct (map ev_evidence_id es)"
    and "\<And>e. e \<in> set es \<Longrightarrow> \<exists>w. tget (ev_evidence_id e) (db_evidence d) = Some w \<and> evw_case_id w = cid"
  using assms unfolding evidence_published_def by blast

lemma set_tput: "tkeys_distinct t \<Longrightarrow> set (tput k v t) = insert (k, v) {x \<in> set t. fst x \<noteq> k}"
proof -
  assume t: "tkeys_distinct t"
  have mem: "x \<in> set u \<longleftrightarrow> tget (fst x) u = Some (snd x)" if "tkeys_distinct u" for x and u :: "('a \<times> 'b) list"
    using that by (cases x) (simp add: tget_def tkeys_distinct_def map_of_eq_Some_iff)
  show ?thesis
    using t by (intro set_eqI) (auto simp: mem split: if_split_asm)
qed

text \<open>The new call yields what was published for it.\<close>

lemma new_call_yields:
  assumes "hydrate row = Inr c" and "cr_updated_at row \<le> t" and "case_simulation_id c = cr_simulation_id row"
    and "tget rid (sim_observations (db_sim d')) = Some r" and "raw_observation oh rid r = Inr raw"
    and "or_simulation_id r = cr_simulation_id row" and "or_grant_hash r = cr_grant_hash row"
    and "or_tool r = cl_tool call" and "or_request r = cl_request call"
    and "truthy (cl_dispatch_correlation_id call)" and "or_dispatch_correlation_id r = cl_dispatch_correlation_id call"
    and "extract_evidence jh oh c (or_observation r) (Some (cl_request call)) = Inr es"
    and "{e. (e, i) \<in> set (map fst (db_origins d'))} = ev_evidence_id ` set es"
  shows "call_yields jh oh (row\<lparr> cr_updated_at := t \<rparr>) d'
    (i, call\<lparr> cl_observation_id := Some rid, cl_state := Call_OBSERVED \<rparr>) rid es"
proof -
  let ?c = "c\<lparr> case_updated_at := t \<rparr>" and ?row = "row\<lparr> cr_updated_at := t \<rparr>"
  let ?call = "call\<lparr> cl_observation_id := Some rid, cl_state := Call_OBSERVED \<rparr>"
  have dm: "dispatch_matches ?c ?row ?call r" using assms(3,6-11) by (simp add: dispatch_matches_def)
  have "extract_evidence jh oh ?c (ro_observation raw) (Some (ro_request raw)) = Inr es"
    using assms(9,12) raw_observation_body [OF assms(5)] by (simp add: extract_evidence_def cong: if_cong)
  moreover have "set (map ev_evidence_id es) = set (map fst (filter (\<lambda>o1. snd o1 = i) (map fst (db_origins d'))))"
    unfolding set_map assms(13) [unfolded set_map, symmetric] by force
  ultimately have "reextract jh oh ?c ?row (map fst (db_origins d')) i ?call rid r = Inr es"
    unfolding reextract_def assms(5) bindE_simps using dm by simp
  with hydrate_touched [OF assms(1,2)] assms(4) show ?thesis unfolding call_yields_def by auto
qed

lemma published_extended:
  assumes pub: "evidence_published jh oh row d cid" and ident: "evidence_identified jh d"
    and apart: "\<And>e f. fingerprint jh e = fingerprint jh f \<Longrightarrow> ev_case_id e = ev_case_id f"
    and hyd: "hydrate row = Inr c" "case_case_id c = cid" and t: "cr_updated_at row \<le> t"
    and call: "tget i (db_calls d) = Some call" "cl_case_id call = cid" "cl_state call \<noteq> Call_OBSERVED"
    and keys: "tkeys_distinct (db_calls d)" and free: "\<And>k. k \<in> set (db_calls d) \<Longrightarrow> cl_observation_id (snd k) \<noteq> Some rid"
    and all: "publish_all cid rid i es d0 = Inr d'"
    and d0: "db_calls d0 = tput i call' (db_calls d)" "db_evidence d0 = db_evidence d"
      "db_origins d0 = db_origins d" "db_sim d0 = db_sim d"
    and call': "call' = call\<lparr> cl_observation_id := Some rid, cl_state := Call_OBSERVED \<rparr>"
    and yields: "call_yields jh oh (row\<lparr> cr_updated_at := t \<rparr>) d' (i, call') rid es"
  shows "evidence_published jh oh (row\<lparr> cr_updated_at := t \<rparr>) d' cid \<and> evidence_identified jh d'"
proof -
  let ?row = "row\<lparr> cr_updated_at := t \<rparr>"
  note P = publish_all_Inr [OF all] and frame = publish_all_frame [OF all]
  have calls: "db_calls d' = tput i call' (db_calls d)" and sim: "db_sim d' = db_sim d"
    using frame d0 by (auto simp: same_but_iff)
  have other: "fst k \<noteq> i" if "k \<in> observed_calls d cid" for k
    using that call(1,3) keys by (cases k) (auto simp: observed_calls_def dest: tget_member)
  have obs: "observed_calls d' cid = insert (i, call') (observed_calls d cid)"
    using other call(2) by (auto simp: observed_calls_def calls set_tput [OF keys] call')
  have origin: "(e, j) \<in> set (map fst (db_origins d')) \<longleftrightarrow>
      (e, j) \<in> set (map fst (db_origins d)) \<or> (j = i \<and> e \<in> ev_evidence_id ` set es)" for e j
    unfolding P(1) d0 by auto
  have old: "call_yields jh oh ?row d' k rid' es'" if "k \<in> observed_calls d cid" "call_yields jh oh row d k rid' es'" for k rid' es'
    by (rule call_yields_kept [OF that(2) t sim]) (use origin other [OF that(1)] in simp)
  have rows: "tget j (db_evidence d') = (case tget j (db_evidence d) of Some w \<Rightarrow> Some w
      | None \<Rightarrow> map_option (\<lambda>e. \<lparr> evw_case_id = cid, evw_observation_id = rid, evw_payload = e \<rparr>)
          (find (\<lambda>e. ev_evidence_id e = j) es))" for j
    using P(3) [of j] d0(2) by simp
  obtain c' where c': "hydrate ?row = Inr c'" "case_case_id c' = cid"
    using hydrate_touched [OF hyd(1) t] hyd(2) by auto
  note fact = call_yields_fact [OF yields _ c'(1)]
  have new: "j = ev_evidence_id (evw_payload w) \<and> evw_payload w \<in> set es \<and> evw_case_id w = cid \<and> evw_observation_id w = rid"
    if "tget j (db_evidence d') = Some w" "tget j (db_evidence d) = None" for j w
    using that by (auto simp: rows find_Some_iff)
  have ident': "evidence_identified jh d'"
    unfolding evidence_identified_def
  proof (intro allI impI)
    fix j w assume w: "tget j (db_evidence d') = Some w"
    show "j = ''E-'' @ fingerprint jh (evw_payload w) \<and> ev_case_id (evw_payload w) = evw_case_id w"
    proof (cases "tget j (db_evidence d)")
      case None
      note n = new [OF w None]
      with fact(2,3) [of "evw_payload w"] c'(2) show ?thesis by metis
    next
      case (Some w')
      then show ?thesis using w ident by (simp add: rows evidence_identified_def)
    qed
  qed
  have stored: "\<exists>w. tget (ev_evidence_id e) (db_evidence d') = Some w \<and> evw_case_id w = cid" if e: "e \<in> set es" for e
  proof (cases "tget (ev_evidence_id e) (db_evidence d)")
    case None
    then have "find (\<lambda>x. ev_evidence_id x = ev_evidence_id e) es \<noteq> None" using e by (auto simp: find_None_iff)
    then show ?thesis using None by (auto simp: rows)
  next
    case (Some w)
    then have "ev_evidence_id e = ''E-'' @ fingerprint jh (evw_payload w)" "ev_case_id (evw_payload w) = evw_case_id w"
      using ident unfolding evidence_identified_def by blast+
    with fact(2,3) [OF e] c'(2) have "evw_case_id w = cid" using apart [of e "evw_payload w"] by simp
    then show ?thesis using Some by (simp add: rows)
  qed
  have "\<exists>rid es. call_yields jh oh ?row d' k rid es \<and> distinct (map ev_evidence_id es)
        \<and> (\<forall>e\<in>set es. \<exists>w. tget (ev_evidence_id e) (db_evidence d') = Some w \<and> evw_case_id w = cid)"
    if k: "k \<in> observed_calls d' cid" for k
  proof (cases "k \<in> observed_calls d cid")
    case True
    show ?thesis
      by (rule published_call [OF pub True]) (use old [OF True] in \<open>fastforce simp: rows\<close>)
  next
    case False
    then have "k = (i, call')" using k obs by simp
    with yields P(2) stored show ?thesis by blast
  qed
  moreover have "\<exists>k\<in>observed_calls d' cid. \<exists>es. call_yields jh oh ?row d' k (evw_observation_id w) es
             \<and> evw_payload w \<in> set es \<and> ev_evidence_id (evw_payload w) = j"
    if w: "tget j (db_evidence d') = Some w" "evw_case_id w = cid" for j w
  proof (cases "tget j (db_evidence d)")
    case None
    with new [OF w(1)] yields obs show ?thesis by (metis insertI1)
  next
    case (Some w')
    then have "w' = w" using w(1) by (simp add: rows)
    with Some w(2) pub obtain k es' where "k \<in> observed_calls d cid" "call_yields jh oh row d k (evw_observation_id w) es'"
      "evw_payload w \<in> set es'" "ev_evidence_id (evw_payload w) = j" unfolding evidence_published_def by blast
    with old obs show ?thesis by (metis insertI2)
  qed
  moreover have "inj_on (cl_observation_id \<circ> snd) (observed_calls d' cid)"
    unfolding obs inj_on_insert
  proof
    show "inj_on (cl_observation_id \<circ> snd) (observed_calls d cid)" using pub by (simp add: evidence_published_def)
    show "(cl_observation_id \<circ> snd) (i, call') \<notin> (cl_observation_id \<circ> snd) ` (observed_calls d cid - {(i, call')})"
    proof
      assume "(cl_observation_id \<circ> snd) (i, call') \<in> (cl_observation_id \<circ> snd) ` (observed_calls d cid - {(i, call')})"
      then obtain k where "k \<in> observed_calls d cid" "Some rid = cl_observation_id (snd k)"
        by (elim imageE) (auto simp: call')
      with free [of k] show False by (simp add: observed_calls_def)
    qed
  qed
  moreover have "(e, fst k) \<notin> set (map fst (db_origins d'))"
    if k: "k \<in> set (db_calls d')" "cl_state (snd k) \<noteq> Call_OBSERVED" for k e
  proof -
    have "k \<noteq> (i, call')" using k(2) by (auto simp: call')
    with k(1) have "k \<in> set (db_calls d)" "fst k \<noteq> i" unfolding calls set_tput [OF keys] by blast+
    then show ?thesis using k(2) pub unfolding origin evidence_published_def by blast
  qed
  ultimately have "evidence_published jh oh ?row d' cid" unfolding evidence_published_def by blast
  with ident' show ?thesis by blast
qed

lemma record_call_published:
  assumes "record_call jh oh tenant d cid call_id o1 recovery now = Inr (d', rs)"
    and "case_row_of tenant d cid = Inr row" and "hydrate row = Inr c"
    and "case_case_id c = cid" and "case_simulation_id c = cr_simulation_id row"
    and "tget call_id (db_calls d) = Some call" and "cl_state call \<noteq> Call_OBSERVED"
    and "tkeys_distinct (db_calls d)" and "evidence_identified jh d"
    and "\<And>e f. fingerprint jh e = fingerprint jh f \<Longrightarrow> ev_case_id e = ev_case_id f"
    and "evidence_published jh oh row d cid"
  shows "\<exists>row'. case_row_of tenant d' cid = Inr row' \<and> evidence_published jh oh row' d' cid \<and> evidence_identified jh d'"
proof (cases rule: record_call_Inr [OF assms(1)])
  case (1 row2 call2 r)
  then have same: "row2 = row" "call2 = call" using assms(2,6) by auto
  let ?rid = "ob_observation_id o1" and ?t = "next_update_time now (cr_updated_at row)"
  let ?row = "row\<lparr> cr_updated_at := ?t \<rparr>"
  let ?call = "call\<lparr> cl_observation_id := Some ?rid, cl_state := Call_OBSERVED \<rparr>"
  let ?d0 = "(put_case cid ?row d)\<lparr> db_calls := tput call_id ?call (db_calls d) \<rparr>"
  show ?thesis
  proof (cases "assigned_call d ?rid")
    case (Some j)
    with 1(13) have "d' = d" by auto
    with assms(2,9,11) show ?thesis by blast
  next
    case None
    with 1(13) same assms(3) obtain es where es: "extract_evidence jh oh c o1 (Some (cl_request call)) = Inr es"
      and all: "publish_all cid ?rid call_id es ?d0 = Inr d'" by auto
    note r = 1(6)
    note bound = record_call_bound [OF assms(1) None assms(2,6) r]
    from bound(3) obtain raw where raw: "raw_observation oh ?rid r = Inr raw" by blast
    note P = publish_all_Inr [OF all] and frame = publish_all_frame [OF all]
    have sim: "db_sim d' = db_sim d" and cases: "db_cases d' = db_cases ?d0"
      using frame by (simp_all add: same_but_iff put_case_def)
    have none: "(e, call_id) \<notin> set (map fst (db_origins d))" for e
    proof -
      have "(call_id, call) \<in> set (db_calls d)" using assms(6) by (auto simp: tget_def dest: map_of_SomeD)
      with assms(7,11) show ?thesis unfolding evidence_published_def by fastforce
    qed
    have ids: "{e. (e, call_id) \<in> set (map fst (db_origins d'))} = ev_evidence_id ` set es"
      using none unfolding P(1) by (auto simp: put_case_def)
    have yields: "call_yields jh oh ?row d' (call_id, ?call) ?rid es"
      by (rule new_call_yields [OF assms(3) _ assms(5) _ raw bound(1) _ _ _ bound(2)])
        (use 1 same es ids r sim in \<open>simp_all add: less_imp_le\<close>)
    have "evidence_published jh oh ?row d' cid \<and> evidence_identified jh d'"
    proof (rule published_extended [OF assms(11,9,10,3,4) _ assms(6) _ assms(7,8) _ all])
      fix k assume "k \<in> set (db_calls d)"
      with None show "cl_observation_id (snd k) \<noteq> Some ?rid"
        by (cases k) (auto simp: assigned_call_def find_None_iff)
    next
      show "call_yields jh oh ?row d' (call_id, ?call) ?rid es" by (rule yields)
    qed (use 1(4) same in \<open>simp_all add: put_case_def less_imp_le\<close>)
    moreover have "case_row_of tenant d' cid = Inr ?row"
      using assms(2) by (simp add: cases put_case_def)
    ultimately show ?thesis by blast
  qed
qed

text \<open>
  C29. Every publication keeps the tables publishable: after an observation is recorded for a call that
  was not yet observed, the stored rows are again exactly what the observed calls of the Case yield,
  so by the revalidation theorem the new Evidence is accepted too. The hash must keep the Cases apart.
\<close>
theorem record_call_publishes:
  assumes "record_call jh oh tenant d cid call_id o1 recovery now = Inr (d', rs)"
    and "case_row_of tenant d cid = Inr row" and "hydrate row = Inr c"
    and "case_case_id c = cid" and "case_simulation_id c = cr_simulation_id row"
    and "tget call_id (db_calls d) = Some call" and "cl_state call \<noteq> Call_OBSERVED"
    and "tkeys_distinct (db_calls d)" and "evidence_identified jh d"
    and "\<And>e f. fingerprint jh e = fingerprint jh f \<Longrightarrow> ev_case_id e = ev_case_id f"
    and "evidence_published jh oh row d cid"
  shows "\<exists>row'. case_row_of tenant d' cid = Inr row' \<and> evidence_published jh oh row' d' cid \<and> evidence_identified jh d'"
  by (rule record_call_published [OF assms])

end
