(* ===== verification/ProvenanceExample.thy ===== *)
theory ProvenanceExample
  imports Provenance Safety
begin

text \<open>
  A Case with two reads that were dispatched, observed and published, and one whose observation is
  about to be published. The hashes are a member of the hashed claim, which keeps the facts apart.
\<close>

section \<open>A hash of claims\<close>

definition claim_hash :: "jv \<Rightarrow> string" where
  "claim_hash j = (case j of JObj ms \<Rightarrow> (case map_of ms ''claim_type'' of Some (JStr s) \<Rightarrow> s | _ \<Rightarrow> []) | _ \<Rightarrow> [])"

lemma map_of_sorted_members: "distinct (map fst ms) \<Longrightarrow> map_of (sort_key fst ms) = map_of ms"
  by (subst map_of_inject_set) (simp_all only: distinct_sort_keys set_sort)

lemma claim_hash_fingerprint: "fingerprint claim_hash e = claim_type_value (ev_claim_type e)"
proof -
  let ?ms = "filter (\<lambda>(k, v). k \<notin> {''evidence_id'', ''observation_id'', ''raw_ref'', ''content_hash'',
       ''created_at'', ''observed_at''}) (evidence_fields e)
     @ (if ev_event_time e = None then [(''lookup_at'', JInt (ev_observed_at e))] else [])"
  have "distinct (map fst ?ms)" by (cases "ev_event_time e") (simp_all add: evidence_fields_def)
  then have "map_of (sort_key fst ?ms) = map_of ?ms" by (rule map_of_sorted_members)
  moreover have "map_of ?ms ''claim_type'' = Some (JStr (claim_type_value (ev_claim_type e)))"
    by (simp add: evidence_fields_def)
  ultimately show ?thesis by (simp add: fingerprint_def fingerprint_payload_def jobj_def claim_hash_def)
qed

section \<open>Reads and what is stored of them\<close>

definition unpaid_case :: case_rec where
  "unpaid_case = sample_case\<lparr> case_internal_order_id := ''J'', case_scope := \<lparr> csc_allowed_order_ids = [''J''],
     csc_allowed_tools = [Tool_PAYMENT, Tool_TRACE, Tool_FUND, Tool_GUARANTEE, Tool_ASSET, Tool_ACCOUNTING] \<rparr> \<rparr>"

definition unpaid_row :: case_row where
  "unpaid_row = sample_case_row\<lparr> cr_payload := unpaid_case \<rparr>"

definition unpaid_query :: tool_query where
  "unpaid_query = sample_query\<lparr> tq_internal_order_id := ''J'' \<rparr>"

type_synonym sample_read = "string \<times> tool_name \<times> observation_data"

definition read_observation :: "sample_read \<Rightarrow> observation" where
  "read_observation r = (sample_observation (fst r) (fst (snd r)) (snd (snd r)))\<lparr> ob_internal_order_id := ''J'' \<rparr>"

definition read_fact :: "sample_read \<Rightarrow> claim \<Rightarrow> evidence" where
  "read_fact r c = (pending_evidence (\<lambda>_. []) ''CASE-1'' (read_observation r) unpaid_query c)
     \<lparr> ev_evidence_id := ''E-'' @ claim_type_value (cl_claim c) \<rparr>"

definition read_facts :: "sample_read \<Rightarrow> evidence list" where
  "read_facts r = map (read_fact r) (projr (claims (read_observation r)))"

definition read_call :: "sample_read \<Rightarrow> case_call_row" where
  "read_call r = \<lparr> cl_dispatch_correlation_id = Some ''k'', cl_case_id = ''CASE-1'', cl_sequence = 1,
     cl_tool = fst (snd r), cl_request = unpaid_query, cl_state = Call_OBSERVED, cl_observation_id = Some (fst r) \<rparr>"

definition read_row :: "sample_read \<Rightarrow> observation_row" where
  "read_row r = \<lparr> or_simulation_id = ''sim'', or_grant_hash = ''token'', or_tool = fst (snd r),
     or_request = unpaid_query, or_observation = read_observation r, or_content_hash = [],
     or_dispatch_correlation_id = Some ''k'' \<rparr>"

definition stored_row :: "sample_read \<Rightarrow> evidence \<Rightarrow> string \<times> evidence_row" where
  "stored_row r e = (ev_evidence_id e, \<lparr> evw_case_id = ''CASE-1'', evw_observation_id = fst r, evw_payload = e \<rparr>)"

definition reads_db :: "(string \<times> evaluation_report_row) list \<Rightarrow> sample_read list \<Rightarrow> db" where
  "reads_db reports rs = empty_db\<lparr> db_reports := reports, db_cases := [(''CASE-1'', unpaid_row)], db_calls := map (\<lambda>r. (fst r, read_call r)) rs,
     db_evidence := concat (map (\<lambda>r. map (stored_row r) (read_facts r)) rs),
     db_origins := concat (map (\<lambda>r. map (\<lambda>e. ((ev_evidence_id e, fst r), ())) (read_facts r)) rs),
     db_sim := (db_sim empty_db)\<lparr> sim_observations := map (\<lambda>r. (fst r, read_row r)) rs \<rparr> \<rparr>"

definition read_ok :: "sample_read \<Rightarrow> bool" where
  "read_ok r = (observation_valid (read_observation r) \<and> data_type_ok (fst (snd r)) (snd (snd r))
     \<and> fst (snd r) \<in> set (csc_allowed_tools (case_scope unpaid_case))
     \<and> (case claims (read_observation r) of Inl _ \<Rightarrow> False
        | Inr cs \<Rightarrow> list_all (\<lambda>c. evidence_valid (pending_evidence (\<lambda>_. []) ''CASE-1'' (read_observation r) unpaid_query c)) cs))"

definition reads_ok :: "sample_read list \<Rightarrow> bool" where
  "reads_ok rs = (list_all read_ok rs \<and> distinct (map fst rs)
     \<and> distinct (map ev_evidence_id (concat (map read_facts rs))))"

lemma unpaid_hydrate: "hydrate unpaid_row = Inr unpaid_case"
  by code_simp

lemma mapE_total: "(\<And>x. x \<in> set xs \<Longrightarrow> f x = Inr (g x)) \<Longrightarrow> mapE f xs = Inr (map g xs)"
  by (induction xs) simp_all

lemma read_extract:
  assumes "read_ok r"
  shows "extract_evidence claim_hash (\<lambda>_. []) unpaid_case (read_observation r) (Some unpaid_query) = Inr (read_facts r)"
proof -
  let ?o = "read_observation r"
  obtain cs where cs: "claims ?o = Inr cs"
    "\<And>c. c \<in> set cs \<Longrightarrow> evidence_valid (pending_evidence (\<lambda>_. []) ''CASE-1'' ?o unpaid_query c)"
    using assms by (auto simp: read_ok_def list_all_iff split: sum.splits)
  have claim: "ev_claim_type (pending_evidence (\<lambda>_. []) ''CASE-1'' ?o unpaid_query c) = cl_claim c" for c
    by (simp add: pending_evidence_def)
  have "mapE (emit claim_hash (\<lambda>_. []) ''CASE-1'' ?o unpaid_query) cs = Inr (map (read_fact r) cs)"
    by (rule mapE_total) (simp add: emit_def Let_def cs(2) claim_hash_fingerprint claim read_fact_def)
  moreover have "ob_internal_order_id ?o = ''J''" "ob_tool ?o = fst (snd r)" "ob_data ?o = Some (snd (snd r))"
    by (simp_all add: read_observation_def sample_observation_def)
  moreover have "case_case_id unpaid_case = ''CASE-1''" "csc_allowed_order_ids (case_scope unpaid_case) = [''J'']"
    "tq_internal_order_id unpaid_query = ''J''"
    by (simp_all add: unpaid_case_def sample_case_def unpaid_query_def)
  ultimately show ?thesis
    using assms by (simp add: extract_evidence_def cs(1) read_facts_def read_ok_def)
qed

lemma map_of_keyed: "distinct (map f rs) \<Longrightarrow> r \<in> set rs \<Longrightarrow> map_of (map (\<lambda>r. (f r, g r)) rs) (f r) = Some (g r)"
  by (induction rs) (auto simp: image_iff)

lemma read_raw:
  assumes "read_ok r"
  obtains raw where "raw_observation (\<lambda>_. []) (fst r) (read_row r) = Inr raw"
    and "ro_observation raw = read_observation r" and "ro_request raw = unpaid_query"
proof -
  have "observation_valid (read_observation r)" using assms by (simp add: read_ok_def)
  then have "raw_observation (\<lambda>_. []) (fst r) (read_row r) = Inr \<lparr> ro_observation_id = fst r,
      ro_tool = fst (snd r), ro_request = unpaid_query, ro_content_hash = [], ro_observation = read_observation r \<rparr>"
    by (simp add: raw_observation_def read_row_def read_observation_def sample_observation_def unpaid_query_def Let_def)
  then show thesis by (rule that) simp_all
qed

lemma reads_yield:
  assumes "reads_ok rs" and "r \<in> set rs"
  shows "call_yields claim_hash (\<lambda>_. []) unpaid_row (reads_db reports rs) (fst r, read_call r) (fst r) (read_facts r)"
proof -
  have ok: "read_ok r" and keys: "distinct (map fst rs)" using assms by (auto simp: reads_ok_def list_all_iff)
  have row: "tget (fst r) (sim_observations (db_sim (reads_db reports rs))) = Some (read_row r)"
    using map_of_keyed [OF keys assms(2)] by (simp add: reads_db_def tget_def)
  obtain raw where raw: "raw_observation (\<lambda>_. []) (fst r) (read_row r) = Inr raw"
      "ro_observation raw = read_observation r" "ro_request raw = unpaid_query" by (rule read_raw [OF ok])
  have dm: "dispatch_matches unpaid_case unpaid_row (read_call r) (read_row r)"
    by (simp add: dispatch_matches_def read_call_def read_row_def unpaid_case_def unpaid_row_def sample_case_def
        sample_case_row_def truthy_def)
  have "set (map ev_evidence_id (read_facts r))
      = set (map fst (filter (\<lambda>o1. snd o1 = fst r) (map fst (db_origins (reads_db reports rs)))))"
    using assms(2) keys by (force simp: reads_db_def distinct_map inj_on_def)
  then have "reextract claim_hash (\<lambda>_. []) unpaid_case unpaid_row (map fst (db_origins (reads_db reports rs))) (fst r)
      (read_call r) (fst r) (read_row r) = Inr (read_facts r)"
    unfolding reextract_def raw bindE_simps read_extract [OF ok] using dm by simp
  then show ?thesis using unpaid_hydrate row by (auto simp: call_yields_def read_call_def)
qed

lemma stored_rows:
  assumes "reads_ok rs"
  shows "tkeys_distinct (db_evidence (reads_db reports rs))"
    and "tget i (db_evidence (reads_db reports rs)) = Some w
      \<longleftrightarrow> (\<exists>r\<in>set rs. \<exists>e\<in>set (read_facts r). (i, w) = stored_row r e)"
proof -
  have "map fst (db_evidence (reads_db reports rs)) = map ev_evidence_id (concat (map read_facts rs))"
    by (simp add: reads_db_def map_concat stored_row_def comp_def)
  then show keys: "tkeys_distinct (db_evidence (reads_db reports rs))"
    using assms by (simp add: tkeys_distinct_def reads_ok_def)
  show "tget i (db_evidence (reads_db reports rs)) = Some w
      \<longleftrightarrow> (\<exists>r\<in>set rs. \<exists>e\<in>set (read_facts r). (i, w) = stored_row r e)"
    using keys by (auto simp: tget_def tkeys_distinct_def map_of_eq_Some_iff) (auto simp: reads_db_def)
qed

lemma reads_published:
  assumes "reads_ok rs"
  shows "evidence_published claim_hash (\<lambda>_. []) unpaid_row (reads_db reports rs) ''CASE-1''"
proof -
  let ?d = "reads_db reports rs"
  have calls: "db_calls ?d = map (\<lambda>r. (fst r, read_call r)) rs" by (simp add: reads_db_def)
  then have obs: "observed_calls ?d ''CASE-1'' = (\<lambda>r. (fst r, read_call r)) ` set rs"
    by (auto simp: observed_calls_def read_call_def)
  have dist: "distinct (map ev_evidence_id (read_facts r))" if "r \<in> set rs" for r
    using assms that by (auto simp: reads_ok_def distinct_map distinct_concat_iff inj_on_def)
  have key: "r = r'" if "r \<in> set rs" "r' \<in> set rs" "fst r = fst r'" for r r'
    using assms that by (auto simp: reads_ok_def distinct_map dest: inj_onD)
  show ?thesis
    unfolding evidence_published_def
  proof (intro conjI ballI allI impI)
    fix k assume "k \<in> observed_calls ?d ''CASE-1''"
    then obtain r where r: "r \<in> set rs" "k = (fst r, read_call r)" unfolding obs by blast
    have "\<exists>w. tget (ev_evidence_id e) (db_evidence ?d) = Some w \<and> evw_case_id w = ''CASE-1''" if "e \<in> set (read_facts r)" for e
      using r(1) that unfolding stored_rows(2) [OF assms] by (force simp: stored_row_def)
    with reads_yield [OF assms r(1)] dist [OF r(1)] r(2)
    show "\<exists>rid es. call_yields claim_hash (\<lambda>_. []) unpaid_row ?d k rid es \<and> distinct (map ev_evidence_id es)
        \<and> (\<forall>e\<in>set es. \<exists>w. tget (ev_evidence_id e) (db_evidence ?d) = Some w \<and> evw_case_id w = ''CASE-1'')" by blast
  next
    fix i w assume "tget i (db_evidence ?d) = Some w"
    then obtain r e where r: "r \<in> set rs" "e \<in> set (read_facts r)" "(i, w) = stored_row r e"
      unfolding stored_rows(2) [OF assms] by blast
    with reads_yield [OF assms r(1)] show "\<exists>k\<in>observed_calls ?d ''CASE-1''. \<exists>es.
        call_yields claim_hash (\<lambda>_. []) unpaid_row ?d k (evw_observation_id w) es
        \<and> evw_payload w \<in> set es \<and> ev_evidence_id (evw_payload w) = i"
      unfolding obs by (auto simp: stored_row_def)
  next
    show "inj_on (cl_observation_id \<circ> snd) (observed_calls ?d ''CASE-1'')"
      unfolding obs by (auto simp: inj_on_def read_call_def dest: key)
  qed (auto simp: calls read_call_def)
qed

definition unpaid_reads :: "sample_read list" where
  "unpaid_reads = [
     (''b'', Tool_PAYMENT, PaymentData \<lparr> pyr_event_time = 5, pyr_fund_request_id = ''F'',
        pyr_payment_finality = Pay_NOT_EXECUTED, pyr_transaction = None \<rparr>),
     (''f'', Tool_ACCOUNTING, AccountingData None)]"

lemma unpaid_facts: "map (map ev_evidence_id \<circ> read_facts) unpaid_reads = [[''E-PAYMENT_FINALITY''], [''E-ACCOUNTING_ENTRY_PRESENT'']]"
  by code_simp

lemma unpaid_reads_ok: "reads_ok unpaid_reads"
proof -
  have "list_all read_ok unpaid_reads" by code_simp
  moreover have "distinct (map ev_evidence_id (concat (map read_facts unpaid_reads)))"
    using arg_cong [OF unpaid_facts, of concat] by (simp add: map_concat)
  ultimately show ?thesis by (simp add: reads_ok_def) (simp add: unpaid_reads_def)
qed

theorem published_evidence_revalidates_witness:
  "\<exists>v. read_verified_evidence claim_hash (\<lambda>_. []) (\<lambda>_. []) (reads_db [] unpaid_reads) ''CASE-1'' unpaid_row = Inr v
     \<and> ver_provenance_valid v \<and> ''E-PAYMENT_FINALITY'' \<in> set (map ev_evidence_id (ver_evidence v))"
proof -
  have c: "case_case_id unpaid_case = ''CASE-1''" by (simp add: unpaid_case_def sample_case_def)
  have "''E-PAYMENT_FINALITY'' \<in> set (concat (map (map ev_evidence_id \<circ> read_facts) unpaid_reads))"
    unfolding unpaid_facts by simp
  then obtain r e where "r \<in> set unpaid_reads" "e \<in> set (read_facts r)" "ev_evidence_id e = ''E-PAYMENT_FINALITY''"
    by auto
  then have "\<exists>w. tget ''E-PAYMENT_FINALITY'' (db_evidence (reads_db [] unpaid_reads)) = Some w \<and> evw_case_id w = ''CASE-1''"
    unfolding stored_rows(2) [OF unpaid_reads_ok] by (force simp: stored_row_def)
  with published_evidence_revalidates [OF unpaid_hydrate c stored_rows(1) [OF unpaid_reads_ok]
      reads_published [OF unpaid_reads_ok], of "\<lambda>_. []" "[]"]
  show ?thesis by blast
qed

section \<open>A publication\<close>

text \<open>A call that was dispatched; its observation is recorded. This hash is the Case of the claim.\<close>

definition case_hash :: "jv \<Rightarrow> string" where
  "case_hash j = (case j of JObj ms \<Rightarrow> (case map_of ms ''case_id'' of Some (JStr s) \<Rightarrow> s | _ \<Rightarrow> []) | _ \<Rightarrow> [])"

lemma case_hash_fingerprint: "fingerprint case_hash e = ev_case_id e"
proof -
  let ?ms = "filter (\<lambda>(k, v). k \<notin> {''evidence_id'', ''observation_id'', ''raw_ref'', ''content_hash'',
       ''created_at'', ''observed_at''}) (evidence_fields e)
     @ (if ev_event_time e = None then [(''lookup_at'', JInt (ev_observed_at e))] else [])"
  have "distinct (map fst ?ms)" by (cases "ev_event_time e") (simp_all add: evidence_fields_def)
  then have "map_of (sort_key fst ?ms) = map_of ?ms" by (rule map_of_sorted_members)
  moreover have "map_of ?ms ''case_id'' = Some (JStr (ev_case_id e))" by (simp add: evidence_fields_def)
  ultimately show ?thesis by (simp add: fingerprint_def fingerprint_payload_def jobj_def case_hash_def)
qed

definition pending_read :: sample_read where
  "pending_read = (''b'', Tool_PAYMENT, PaymentData \<lparr> pyr_event_time = 5, pyr_fund_request_id = ''F'',
     pyr_payment_finality = Pay_NOT_EXECUTED, pyr_transaction = None \<rparr>)"

definition pending_call :: case_call_row where
  "pending_call = (read_call pending_read)\<lparr> cl_state := Call_DISPATCHED, cl_observation_id := None \<rparr>"

definition pending_db :: db where
  "pending_db = (reads_db [] [])\<lparr> db_calls := [(''b'', pending_call)],
     db_sim := (db_sim empty_db)\<lparr> sim_observations := [(''b'', read_row pending_read)] \<rparr> \<rparr>"

definition pending_published :: "error + db \<times> string list" where
  "pending_published = record_call case_hash (\<lambda>_. []) ''tenant'' pending_db ''CASE-1'' ''b''
     (read_observation pending_read) False 50"

lemma pending_published_Inr: "case pending_published of Inl _ \<Rightarrow> False | Inr _ \<Rightarrow> True"
  by code_simp

theorem record_call_publishes_witness:
  "\<exists>d' rs row'. pending_published = Inr (d', rs) \<and> case_row_of ''tenant'' d' ''CASE-1'' = Inr row'
     \<and> evidence_published case_hash (\<lambda>_. []) row' d' ''CASE-1''"
proof -
  obtain d' rs where p: "pending_published = Inr (d', rs)"
    using pending_published_Inr by (auto split: sum.splits)
  have none: "observed_calls pending_db ''CASE-1'' = {}"
    by (auto simp: observed_calls_def pending_db_def pending_call_def)
  have at: "case_row_of ''tenant'' pending_db ''CASE-1'' = Inr unpaid_row" "tkeys_distinct (db_calls pending_db)"
    "tget ''b'' (db_calls pending_db) = Some pending_call" "cl_state pending_call \<noteq> Call_OBSERVED"
    "case_case_id unpaid_case = ''CASE-1''" "case_simulation_id unpaid_case = cr_simulation_id unpaid_row"
    "evidence_identified case_hash pending_db"
    and empty: "db_evidence pending_db = []" "db_origins pending_db = []"
    by (simp_all add: pending_db_def reads_db_def unpaid_row_def sample_case_row_def tget_def pending_call_def
        unpaid_case_def sample_case_def evidence_identified_def tkeys_distinct_def empty_db_def)
  have pub: "evidence_published case_hash (\<lambda>_. []) unpaid_row pending_db ''CASE-1''"
    by (simp add: evidence_published_def none empty)
  from record_call_publishes [OF p [unfolded pending_published_def] at(1) unpaid_hydrate at(5,6,3,4,2,7) _ pub]
  have "\<exists>row'. case_row_of ''tenant'' d' ''CASE-1'' = Inr row' \<and> evidence_published case_hash (\<lambda>_. []) row' d' ''CASE-1''"
    using case_hash_fingerprint by auto
  with p show ?thesis by blast
qed

end
