(* ===== verification/ContextModel.thy ===== *)
theory ContextModel
  imports StructuredValues ToolCapabilities
begin

text \<open>
  The reasoning context a planner sees (\<open>context/models.py\<close>): typed capsules of Evidence, hypotheses,
  gaps and history, and what makes them valid; which Evidence is eligible (\<open>eligibility.py\<close>), how
  lookups, superseded states and relations are compacted (\<open>compaction.py\<close>) and how the payment
  identity is projected (\<open>identity_projection.py\<close>). The constructor of a capsule raises
  \<open>ValidationError\<close> when a field breaks its contract. Texts for the reader (questions, reasons,
  descriptions) and the constant trust labels are left out; the deployment has no registry.
\<close>

section \<open>Capsules\<close>

datatype information_class = Info_BUSINESS | Info_TOKENIZED_IDENTITY | Info_MASKED_PII | Info_RAW_PII
  | Info_INTERNAL_CONTROL | Info_ORACLE

record payment_identity_context =
  pic_result :: identity_match
  pic_mismatch_dimensions :: "identity_dimension list"
  pic_unknown_dimensions :: "identity_dimension list"
  pic_candidate_transaction_count :: nat
  pic_transaction_ref_preview :: "string list"
  pic_transaction_refs_digest :: string
  pic_evidence_ref_count :: nat
  pic_evidence_refs_digest :: string
  pic_evidence_refs :: "string list"
  pic_verification_version :: string

record fact_source =
  fso_tool :: tool_name
  fso_source_kind :: source_kind
  fso_source_version :: "string option"
  fso_source_as_of :: "time option"

record fact_capsule =
  fc_claim_type :: claim_type
  fc_value :: val
  fc_subject :: evidence_subject
  fc_business_time :: time
  fc_observed_at :: time
  fc_freshness :: freshness
  fc_completeness :: completeness
  fc_source :: fact_source
  fc_protocol_version :: "string option"
  fc_evidence_refs :: "string list"

record hypothesis_capsule =
  hc_hypothesis_id :: hypothesis_id
  hc_kind :: hypothesis_kind
  hc_statement :: string
  hc_status :: hypothesis_status
  hc_decisive_evidence_refs :: "string list"
  hc_supporting_ref_preview :: "string list"
  hc_contradicting_ref_preview :: "string list"
  hc_supporting_ref_count :: nat
  hc_contradicting_ref_count :: nat
  hc_supporting_refs_digest :: string
  hc_contradicting_refs_digest :: string
  hc_open_gap_ids :: "string list"

record resolved_hypothesis_summary =
  rhs_hypothesis_id :: hypothesis_id
  rhs_statement :: string
  rhs_status :: hypothesis_status
  rhs_decisive_evidence_refs :: "string list"

record gap_capsule =
  gpc_gap_id :: string
  gpc_required_claim_types :: "(claim_type + uncollected_claim_type) list"
  gpc_priority :: priority_class
  gpc_status :: gap_status
  gpc_related_hypotheses :: "hypothesis_id list"
  gpc_evidence_refs :: "string list"

record reference_range =
  rgr_count :: nat
  rgr_first_ref :: string
  rgr_latest_ref :: string
  rgr_range_digest :: string

record repeated_lookup_group =
  rlg_tool :: tool_name
  rlg_scope :: tool_query
  rlg_status :: observation_status
  rlg_first_observed_at :: time
  rlg_last_observed_at :: time
  rlg_latest_freshness :: freshness
  rlg_latest_completeness :: completeness
  rlg_references :: reference_range
  rlg_latest_consecutive_count :: nat

record historical_state_group =
  hsg_claim_type :: claim_type
  hsg_subject :: evidence_subject
  hsg_protocol_version :: "string option"
  hsg_first_observed_value :: val
  hsg_last_observed_value :: val
  hsg_first_business_time :: time
  hsg_last_business_time :: time
  hsg_last_freshness :: freshness
  hsg_references :: reference_range

record history_digest =
  hdg_retry_window_start :: "time option"
  hdg_tool_calls_used :: int
  hdg_evidence_count :: nat
  hdg_latest_observation_time :: "time option"
  hdg_repeated_lookup_groups :: "repeated_lookup_group list"
  hdg_state_transitions :: "historical_state_group list"
  hdg_lookup_history_complete :: bool

datatype safety_invariant = Inv_NO_NEW_FINANCIAL_INTENT | Inv_UNKNOWN_IS_NOT_FAILED
  | Inv_TOOL_SUCCESS_IS_NOT_BUSINESS_OUTCOME | Inv_REQUIRE_COMPLETE_PAYMENT_IDENTITY
  | Inv_READ_ONLY_INVESTIGATION | Inv_NO_SELF_DECLARED_CASE_SUCCESS | Inv_EVIDENCE_REFERENCES_REQUIRED

record safety_context =
  sct_invariants :: "safety_invariant list"
  sct_forbidden_actions :: "string list"

record runtime_budget_context =
  rbc_max_tool_calls :: int
  rbc_used_tool_calls :: int
  rbc_remaining_tool_calls :: int
  rbc_investigation_allowed :: bool

datatype omission_reason = Omit_ELIGIBILITY_DENIED | Omit_REPEATED_LOOKUP | Omit_HISTORICAL_SUPERSEDED
  | Omit_IRRELEVANT_TO_ACTIVE_HYPOTHESES | Omit_SIZE_BUDGET | Omit_RELATION_COMPACTED
  | Omit_IDENTITY_COMPACTED

primrec omission_reason_value :: "omission_reason \<Rightarrow> string" where
  "omission_reason_value Omit_ELIGIBILITY_DENIED = ''ELIGIBILITY_DENIED''"
| "omission_reason_value Omit_REPEATED_LOOKUP = ''REPEATED_LOOKUP''"
| "omission_reason_value Omit_HISTORICAL_SUPERSEDED = ''HISTORICAL_SUPERSEDED''"
| "omission_reason_value Omit_IRRELEVANT_TO_ACTIVE_HYPOTHESES = ''IRRELEVANT_TO_ACTIVE_HYPOTHESES''"
| "omission_reason_value Omit_SIZE_BUDGET = ''SIZE_BUDGET''"
| "omission_reason_value Omit_RELATION_COMPACTED = ''RELATION_COMPACTED''"
| "omission_reason_value Omit_IDENTITY_COMPACTED = ''IDENTITY_COMPACTED''"

record omission_group =
  omg_reason :: omission_reason
  omg_count :: nat
  omg_evidence_ids_digest :: string

record omitted_evidence_summary =
  oes_total_evidence :: nat
  oes_selected :: nat
  oes_omitted :: "omission_group list"

record context_budget =
  cbg_max_serialized_chars :: nat
  cbg_max_fact_capsules :: nat
  cbg_max_hypothesis_capsules :: nat
  cbg_max_gap_capsules :: nat
  cbg_max_history_items :: nat
  cbg_max_relation_ref_preview :: nat
  cbg_max_identity_transaction_preview :: nat

definition default_context_budget :: context_budget where
  "default_context_budget = \<lparr> cbg_max_serialized_chars = 60000, cbg_max_fact_capsules = 64,
     cbg_max_hypothesis_capsules = 16, cbg_max_gap_capsules = 24, cbg_max_history_items = 20,
     cbg_max_relation_ref_preview = 4, cbg_max_identity_transaction_preview = 3 \<rparr>"

definition context_budget_valid :: "context_budget \<Rightarrow> bool" where
  "context_budget_valid b = (cbg_max_relation_ref_preview b \<le> 32 \<and> cbg_max_identity_transaction_preview b \<le> 32)"

record context_budget_usage =
  cbu_serialized_chars :: nat
  cbu_approximate_tokens :: nat
  cbu_fact_capsules :: nat
  cbu_hypothesis_capsules :: nat
  cbu_gap_capsules :: nat
  cbu_history_items :: nat
  cbu_limits :: context_budget

record reasoning_context_snapshot =
  rcs_snapshot_id :: string
  rcs_case_id :: string
  rcs_internal_order_id :: string
  rcs_context_schema_version :: string
  rcs_eligibility_policy_version :: string
  rcs_compaction_policy_version :: string
  rcs_context_policy_version :: string
  rcs_hypothesis_rule_version :: string
  rcs_assembled_at :: time
  rcs_case_fingerprint :: string
  rcs_evidence_fingerprint :: string
  rcs_hypothesis_input_fingerprint :: string
  rcs_hypothesis_graph_fingerprint :: string
  rcs_policy_fingerprint :: string
  rcs_task :: task_contract
  rcs_financial_subject :: "financial_subject option"
  rcs_financial_identity :: payment_identity_context
  rcs_current_facts :: "fact_capsule list"
  rcs_active_hypotheses :: "hypothesis_capsule list"
  rcs_resolved_hypotheses_summary :: "resolved_hypothesis_summary list"
  rcs_open_evidence_gaps :: "gap_capsule list"
  rcs_safety_constraints :: safety_context
  rcs_budget :: runtime_budget_context
  rcs_available_tools :: "tool_capability list"
  rcs_history_digest :: history_digest
  rcs_selected_evidence_refs :: "string list"
  rcs_omitted_evidence_summary :: omitted_evidence_summary
  rcs_context_budget_usage :: context_budget_usage

section \<open>Validity\<close>

definition opt_valid :: "('a \<Rightarrow> bool) \<Rightarrow> 'a option \<Rightarrow> bool" where
  "opt_valid p x = (case x of None \<Rightarrow> True | Some y \<Rightarrow> p y)"

text \<open>\<open>FactSubject\<close>, with its \<open>subject_contract\<close>, and \<open>LookupScope\<close>.\<close>

definition fact_subject_valid :: "evidence_subject \<Rightarrow> bool" where
  "fact_subject_valid s = (opaque_subject_ref (es_identifier s) \<and> opt_valid structured_field_path (es_field s)
     \<and> opaque_subject_ref (es_internal_order_id s)
     \<and> (es_kind s \<notin> {Subj_TRANSACTION, Subj_FUND_REQUEST} \<or> opaque_business_ref (es_identifier s)))"

definition lookup_scope_valid :: "tool_query \<Rightarrow> bool" where
  "lookup_scope_valid q = (opaque_subject_ref (tq_internal_order_id q)
     \<and> opt_valid structured_version (tq_protocol_version q))"

definition fact_capsule_valid :: "fact_capsule \<Rightarrow> bool" where
  "fact_capsule_valid f = (fact_subject_valid (fc_subject f)
     \<and> opt_valid structured_version (fso_source_version (fc_source f))
     \<and> opt_valid structured_version (fc_protocol_version f) \<and> list_all context_reference (fc_evidence_refs f)
     \<and> claim_value_valid (fc_claim_type f) (fc_value f)
     \<and> subject_field_valid (fc_claim_type f) (es_field (fc_subject f)))"

definition payment_identity_context_valid :: "payment_identity_context \<Rightarrow> bool" where
  "payment_identity_context_valid p = (list_all opaque_business_ref (pic_transaction_ref_preview p)
     \<and> hash_ref (pic_transaction_refs_digest p) \<and> hash_ref (pic_evidence_refs_digest p)
     \<and> list_all context_reference (pic_evidence_refs p) \<and> structured_version (pic_verification_version p))"

definition hypothesis_capsule_valid :: "hypothesis_capsule \<Rightarrow> bool" where
  "hypothesis_capsule_valid h = (list_all context_reference (hc_decisive_evidence_refs h)
     \<and> list_all context_reference (hc_supporting_ref_preview h)
     \<and> list_all context_reference (hc_contradicting_ref_preview h)
     \<and> hash_ref (hc_supporting_refs_digest h) \<and> hash_ref (hc_contradicting_refs_digest h)
     \<and> list_all context_reference (hc_open_gap_ids h))"

definition resolved_summary_valid :: "resolved_hypothesis_summary \<Rightarrow> bool" where
  "resolved_summary_valid h = list_all context_reference (rhs_decisive_evidence_refs h)"

definition gap_capsule_valid :: "gap_capsule \<Rightarrow> bool" where
  "gap_capsule_valid g = (context_reference (gpc_gap_id g) \<and> list_all context_reference (gpc_evidence_refs g))"

definition reference_range_valid :: "reference_range \<Rightarrow> bool" where
  "reference_range_valid r = (context_reference (rgr_first_ref r) \<and> context_reference (rgr_latest_ref r)
     \<and> hash_ref (rgr_range_digest r))"

definition lookup_group_valid :: "repeated_lookup_group \<Rightarrow> bool" where
  "lookup_group_valid g = (lookup_scope_valid (rlg_scope g) \<and> reference_range_valid (rlg_references g))"

definition state_group_valid :: "historical_state_group \<Rightarrow> bool" where
  "state_group_valid g = (fact_subject_valid (hsg_subject g)
     \<and> opt_valid structured_version (hsg_protocol_version g) \<and> reference_range_valid (hsg_references g)
     \<and> claim_value_valid (hsg_claim_type g) (hsg_first_observed_value g)
     \<and> claim_value_valid (hsg_claim_type g) (hsg_last_observed_value g)
     \<and> subject_field_valid (hsg_claim_type g) (es_field (hsg_subject g)))"

definition history_digest_valid :: "history_digest \<Rightarrow> bool" where
  "history_digest_valid h = (0 \<le> hdg_tool_calls_used h \<and> list_all lookup_group_valid (hdg_repeated_lookup_groups h)
     \<and> list_all state_group_valid (hdg_state_transitions h))"

definition runtime_budget_valid :: "runtime_budget_context \<Rightarrow> bool" where
  "runtime_budget_valid b = (0 \<le> rbc_max_tool_calls b \<and> 0 \<le> rbc_used_tool_calls b
     \<and> 0 \<le> rbc_remaining_tool_calls b)"

definition omitted_summary_valid :: "omitted_evidence_summary \<Rightarrow> bool" where
  "omitted_summary_valid o1 = list_all (\<lambda>g. hash_ref (omg_evidence_ids_digest g)) (oes_omitted o1)"

text \<open>What \<open>ReasoningContextSnapshot.model_validate\<close> demands of the whole envelope.\<close>

definition snapshot_valid :: "reasoning_context_snapshot \<Rightarrow> bool" where
  "snapshot_valid s = (hash_ref (rcs_snapshot_id s) \<and> opaque_subject_ref (rcs_case_id s)
     \<and> opaque_subject_ref (rcs_internal_order_id s)
     \<and> list_all structured_version [rcs_context_schema_version s, rcs_eligibility_policy_version s,
          rcs_compaction_policy_version s, rcs_context_policy_version s, rcs_hypothesis_rule_version s]
     \<and> list_all hash_ref [rcs_case_fingerprint s, rcs_evidence_fingerprint s,
          rcs_hypothesis_input_fingerprint s, rcs_hypothesis_graph_fingerprint s, rcs_policy_fingerprint s]
     \<and> opt_valid financial_subject_valid (rcs_financial_subject s)
     \<and> payment_identity_context_valid (rcs_financial_identity s)
     \<and> list_all fact_capsule_valid (rcs_current_facts s)
     \<and> list_all hypothesis_capsule_valid (rcs_active_hypotheses s)
     \<and> list_all resolved_summary_valid (rcs_resolved_hypotheses_summary s)
     \<and> list_all gap_capsule_valid (rcs_open_evidence_gaps s)
     \<and> runtime_budget_valid (rcs_budget s) \<and> history_digest_valid (rcs_history_digest s)
     \<and> list_all context_reference (rcs_selected_evidence_refs s)
     \<and> omitted_summary_valid (rcs_omitted_evidence_summary s)
     \<and> context_budget_valid (cbu_limits (rcs_context_budget_usage s)))"

definition checked :: "('a \<Rightarrow> bool) \<Rightarrow> 'a \<Rightarrow> error + 'a" where
  "checked ok x = (if ok x then Inr x else Inl ValidationError)"

lemma checked_Inr [simp]: "checked ok x = Inr y \<longleftrightarrow> ok x \<and> y = x"
  by (auto simp: checked_def)

text \<open>
  The canonical texts and their hashes: \<open>digest\<close> of a list of references, of the Case, of the Evidence,
  of the graph, of the snapshot without its identifier and of the policies, the JSON texts of a scope
  and of a subject by which the compaction groups, and the length of the serialized snapshot.
\<close>

record context_text =
  ctx_refs_digest :: "string list \<Rightarrow> string"
  ctx_case_digest :: "case_rec \<Rightarrow> string"
  ctx_evidence_digest :: "evidence list \<Rightarrow> string"
  ctx_graph_digest :: "hypothesis_graph_view \<Rightarrow> string"
  ctx_snapshot_digest :: "reasoning_context_snapshot \<Rightarrow> string"
  ctx_policy_digest :: "context_budget \<Rightarrow> claim_type list \<Rightarrow> string"
  ctx_scope_text :: "tool_query \<Rightarrow> string"
  ctx_subject_text :: "evidence_subject \<Rightarrow> string"
  ctx_serialized_chars :: "reasoning_context_snapshot \<Rightarrow> nat"

section \<open>Compaction\<close>

definition fact_of :: "evidence \<Rightarrow> fact_capsule" where
  "fact_of e = \<lparr> fc_claim_type = ev_claim_type e, fc_value = ev_value e, fc_subject = ev_subject e,
     fc_business_time = business_time e, fc_observed_at = ev_observed_at e, fc_freshness = ev_freshness e,
     fc_completeness = ev_completeness e,
     fc_source = \<lparr> fso_tool = ev_tool e, fso_source_kind = ev_source_kind e,
       fso_source_version = ev_source_version e, fso_source_as_of = ev_source_as_of e \<rparr>,
     fc_protocol_version = ev_protocol_version e, fc_evidence_refs = [ev_evidence_id e] \<rparr>"

definition fact :: "evidence \<Rightarrow> error + fact_capsule" where
  "fact e = checked fact_capsule_valid (fact_of e)"

text \<open>Sorted by observation time, then by identifier.\<close>

definition by_observation :: "evidence list \<Rightarrow> evidence list" where
  "by_observation es = sort_key ev_observed_at (sort_key ev_evidence_id es)"

definition reference_range_of :: "context_text \<Rightarrow> evidence list \<Rightarrow> error + reference_range" where
  "reference_range_of T es = (let ordered = by_observation es in
     checked reference_range_valid \<lparr> rgr_count = length ordered, rgr_first_ref = ev_evidence_id (hd ordered),
       rgr_latest_ref = ev_evidence_id (last ordered),
       rgr_range_digest = ctx_refs_digest T (map ev_evidence_id ordered) \<rparr>)"

definition observation_status_of :: "val \<Rightarrow> error + observation_status" where
  "observation_status_of v = (if v = VStr ''OK'' then Inr Obs_OK else if v = VStr ''TIMEOUT'' then Inr Obs_TIMEOUT
     else if v = VStr ''NOT_FOUND'' then Inr Obs_NOT_FOUND else Inl ValidationError)"

definition is_lookup :: "evidence \<Rightarrow> bool" where
  "is_lookup e = (ev_claim_type e = Claim_SOURCE_LOOKUP_STATUS)"

text \<open>The calls of one tool with one scope: the Evidence of each observation, in order of appearance.\<close>

definition lookup_source :: "context_text \<Rightarrow> evidence \<Rightarrow> string list" where
  "lookup_source T e = [tool_name_value (ev_tool e), ctx_scope_text T (em_scope (ev_metadata e))]"

definition lookup_calls :: "context_text \<Rightarrow> evidence list \<Rightarrow> string list \<Rightarrow> evidence list list" where
  "lookup_calls T es source = (let same = filter (\<lambda>e. lookup_source T e = source) es in
     map (\<lambda>i. filter (\<lambda>e. ev_observation_id e = i) same) (dedup (map ev_observation_id same)))"

definition call_status :: "evidence list \<Rightarrow> val option" where
  "call_status call = single (map ev_value (filter is_lookup call))"

definition call_time :: "evidence list \<Rightarrow> time" where
  "call_time call = Max (set (map ev_observed_at call))"

text \<open>
  The run of equal outcomes at the end of the calls: it stops at the retry window, and at a moment at
  which another outcome, or no single one, was observed.
\<close>

fun trailing_run :: "val \<Rightarrow> time option \<Rightarrow> (time \<times> val option list) list \<Rightarrow> nat" where
  "trailing_run v retry_after [] = 0"
| "trailing_run v retry_after ((at, statuses) # rest) = (
     if (case retry_after of None \<Rightarrow> False | Some t \<Rightarrow> at < t) then 0
     else if list_ex (\<lambda>s. s \<noteq> Some v) statuses then 0
     else length statuses + trailing_run v retry_after rest)"

definition calls_by_time :: "evidence list list \<Rightarrow> (time \<times> val option list) list" where
  "calls_by_time calls = map (\<lambda>t. (t, map call_status (filter (\<lambda>c. call_time c = t) calls)))
     (rev (sorted_set (map call_time calls)))"

definition lookup_key :: "context_text \<Rightarrow> evidence \<Rightarrow> string list" where
  "lookup_key T e = lookup_source T e @ [case val_string (ev_value e) of None \<Rightarrow> [] | Some s \<Rightarrow> s]"

definition lookup_group :: "context_text \<Rightarrow> time option \<Rightarrow> evidence list \<Rightarrow> evidence list
    \<Rightarrow> error + repeated_lookup_group" where
  "lookup_group T retry_after es items = (
     let ordered = by_observation items; first = hd ordered; latest_item = last ordered
     in bindE (observation_status_of (ev_value latest_item)) (\<lambda>status.
        bindE (reference_range_of T items) (\<lambda>range.
          checked lookup_group_valid
            \<lparr> rlg_tool = ev_tool latest_item, rlg_scope = em_scope (ev_metadata latest_item), rlg_status = status,
              rlg_first_observed_at = ev_observed_at first, rlg_last_observed_at = ev_observed_at latest_item,
              rlg_latest_freshness = ev_freshness latest_item,
              rlg_latest_completeness = ev_completeness latest_item, rlg_references = range,
              rlg_latest_consecutive_count = trailing_run (ev_value latest_item) retry_after
                (calls_by_time (lookup_calls T es (lookup_source T latest_item))) \<rparr>)))"

definition lookup_groups :: "context_text \<Rightarrow> time option \<Rightarrow> evidence list \<Rightarrow> error + repeated_lookup_group list" where
  "lookup_groups T retry_after es = (let lookups = filter is_lookup es in
     mapE (\<lambda>k. lookup_group T retry_after es (filter (\<lambda>e. lookup_key T e = k) lookups))
       (sorted_set (map (lookup_key T) lookups)))"

definition state_key :: "context_text \<Rightarrow> evidence \<Rightarrow> string list" where
  "state_key T e = [claim_type_value (ev_claim_type e), ctx_subject_text T (ev_subject e),
     or_else (ev_protocol_version e) []]"

definition state_group :: "context_text \<Rightarrow> evidence list \<Rightarrow> error + historical_state_group" where
  "state_group T items = (
     let ordered = sort_key business_time (by_observation items); first = hd ordered; latest_item = last ordered
     in bindE (reference_range_of T items) (\<lambda>range. checked state_group_valid
          \<lparr> hsg_claim_type = ev_claim_type latest_item, hsg_subject = ev_subject latest_item,
            hsg_protocol_version = ev_protocol_version latest_item,
            hsg_first_observed_value = ev_value first, hsg_last_observed_value = ev_value latest_item,
            hsg_first_business_time = business_time first, hsg_last_business_time = business_time latest_item,
            hsg_last_freshness = ev_freshness latest_item, hsg_references = range \<rparr>))"

definition historical_groups :: "context_text \<Rightarrow> evidence list \<Rightarrow> string list \<Rightarrow> error + historical_state_group list" where
  "historical_groups T es current_ids = (
     let old = filter (\<lambda>e. ev_evidence_id e \<notin> set current_ids \<and> \<not> is_lookup e) es in
     mapE (\<lambda>k. state_group T (filter (\<lambda>e. state_key T e = k) old)) (sorted_set (map (state_key T) old)))"

definition evidence_with_id :: "evidence list \<Rightarrow> string \<Rightarrow> evidence option" where
  "evidence_with_id es i = find (\<lambda>e. ev_evidence_id e = i) es"

definition relation_refs :: "context_text \<Rightarrow> evidence list \<Rightarrow> nat \<Rightarrow> string list \<Rightarrow> error + string list" where
  "relation_refs T es limit rs = (let items = List.map_filter (evidence_with_id es) rs in
     bindE (lookup_groups T None items) (\<lambda>groups.
       Inr (take limit (sorted_set (map ev_evidence_id (filter (\<lambda>e. \<not> is_lookup e) items)
         @ concat (map (\<lambda>g. [rgr_first_ref (rlg_references g), rgr_latest_ref (rlg_references g)]) groups))))))"

section \<open>Eligibility\<close>

definition TOKEN_CLAIMS :: "claim_type list" where
  "TOKEN_CLAIMS = [Claim_PAYMENT_CUSTOMER_REF, Claim_PAYMENT_BENEFICIARY_REF, Claim_PAYMENT_ACCOUNT_REF]"

definition BUSINESS_CLAIMS :: "claim_type list" where
  "BUSINESS_CLAIMS = [Claim_REQUEST_SENT, Claim_HTTP_RESPONSE_STATUS, Claim_FUND_BUSINESS_STATUS,
     Claim_LOAN_NO_PRESENT, Claim_LOAN_NOTE_REFERENCE, Claim_PAYMENT_FINALITY, Claim_PAYMENT_TRANSACTION_ID,
     Claim_PAYMENT_AMOUNT, Claim_PAYMENT_CURRENCY, Claim_TRANSACTION_FUND_REQUEST_ID,
     Claim_CALLBACK_GATEWAY_RECEIVED, Claim_CALLBACK_SIGNATURE_VERIFIED, Claim_CALLBACK_PROTOCOL_VERSION,
     Claim_MESSAGE_CONSUME_STATUS, Claim_MESSAGE_DLQ, Claim_MESSAGE_ERROR_CODE, Claim_MESSAGE_ERROR_FIELD,
     Claim_MESSAGE_EXPECTED_FIELD_TYPE, Claim_MESSAGE_ACTUAL_FIELD_TYPE, Claim_ACCOUNTING_ENTRY_PRESENT,
     Claim_ASSET_STATUS, Claim_GUARANTEE_STATUS, Claim_GUARANTEE_VERSION, Claim_ASSET_DELIVERY_STATUS,
     Claim_PROTOCOL_FIELD_TYPE, Claim_PROTOCOL_BUSINESS_SEMANTICS, Claim_SOURCE_LOOKUP_STATUS,
     Claim_ASSET_DELIVERY_EVENT_REF, Claim_CONSUMER_DEPLOYED_SCHEMA_VERSION,
     Claim_CONSUMER_ACCEPTED_PROTOCOL_VERSION, Claim_CONSUMER_LOAN_NO_FIELD_TYPE]"

definition ALLOWED_CLASSES :: "information_class list" where
  "ALLOWED_CLASSES = [Info_BUSINESS, Info_TOKENIZED_IDENTITY, Info_INTERNAL_CONTROL]"

definition classify :: "claim_type \<Rightarrow> information_class option" where
  "classify claim = (if claim \<in> set TOKEN_CLAIMS then Some Info_TOKENIZED_IDENTITY
     else if claim \<in> set BUSINESS_CLAIMS then Some Info_BUSINESS else None)"

definition allows :: "claim_type list \<Rightarrow> evidence \<Rightarrow> bool" where
  "allows denied e = (case classify (ev_claim_type e) of None \<Rightarrow> False
     | Some k \<Rightarrow> k \<in> set ALLOWED_CLASSES \<and> ev_claim_type e \<notin> set denied
         \<and> fact_capsule_valid (fact_of e) \<and> lookup_scope_valid (em_scope (ev_metadata e)))"

definition MANDATORY_CLAIMS :: "claim_type list" where
  "MANDATORY_CLAIMS = [Claim_REQUEST_SENT, Claim_PAYMENT_FINALITY, Claim_PAYMENT_TRANSACTION_ID,
     Claim_TRANSACTION_FUND_REQUEST_ID, Claim_PAYMENT_AMOUNT, Claim_PAYMENT_CURRENCY,
     Claim_PAYMENT_CUSTOMER_REF, Claim_PAYMENT_BENEFICIARY_REF, Claim_PAYMENT_ACCOUNT_REF,
     Claim_HTTP_RESPONSE_STATUS, Claim_FUND_BUSINESS_STATUS, Claim_GUARANTEE_STATUS,
     Claim_CALLBACK_GATEWAY_RECEIVED, Claim_MESSAGE_CONSUME_STATUS]"

text \<open>\<open>ContextEligibilityPolicy.validate_case\<close>.\<close>

definition case_identifiers_valid :: "case_rec \<Rightarrow> bool" where
  "case_identifiers_valid c = (opaque_subject_ref (case_case_id c) \<and> opaque_subject_ref (case_internal_order_id c))"

section \<open>The payment identity\<close>

text \<open>The text of a value: \<open>type(v).__name__\<close> and \<open>str(v)\<close>.\<close>

fun decimal :: "nat \<Rightarrow> string" where
  "decimal n = (if n < 10 then [char_of (48 + n)] else decimal (n div 10) @ [char_of (48 + n mod 10)])"

declare decimal.simps [simp del]

fun value_text :: "val \<Rightarrow> string list" where
  "value_text (VBool b) = [''bool'', if b then ''True'' else ''False'']"
| "value_text (VInt n) = [''int'', if n < 0 then CHR ''-'' # decimal (nat (- n)) else decimal (nat n)]"
| "value_text (VStr s) = [''str'', s]"

definition sorted_witnesses :: "payment_identity_result \<Rightarrow> payment_identity_witness list" where
  "sorted_witnesses r = sort_key piw_transaction_ref (sort_key piw_observation_id
     (sort_key piw_evidence_refs (pir_witnesses r)))"

definition ASSOCIATION_CLAIMS :: "claim_type list" where
  "ASSOCIATION_CLAIMS = [Claim_PAYMENT_FINALITY, Claim_PAYMENT_TRANSACTION_ID, Claim_TRANSACTION_FUND_REQUEST_ID,
     Claim_REQUEST_SENT, Claim_HTTP_RESPONSE_STATUS, Claim_GUARANTEE_STATUS, Claim_FUND_BUSINESS_STATUS]"

definition identity_claim :: "identity_dimension \<Rightarrow> claim_type list" where
  "identity_claim d = map snd (filter (\<lambda>(k, _). k = d) IDENTITY_CLAIMS)"

definition refs_about :: "evidence list \<Rightarrow> claim_type list \<Rightarrow> string list \<Rightarrow> string list" where
  "refs_about es cs rs = filter (\<lambda>r. case evidence_with_id es r of None \<Rightarrow> False
     | Some e \<Rightarrow> ev_claim_type e \<in> set cs) rs"

text \<open>The counter-evidence: the first identifier of each of two conflicting values.\<close>

definition conflicting_refs :: "evidence_index \<Rightarrow> payment_identity_result \<Rightarrow> string \<Rightarrow> identity_dimension
    \<Rightarrow> (string list \<times> string) list" where
  "conflicting_refs ix r transaction d = (
     let candidates = sort_key ev_evidence_id (filter (\<lambda>e. ev_evidence_id e \<in> set (pir_evidence_refs r)
           \<and> es_identifier (ev_subject e) = transaction) (concat (map (current ix) (identity_claim d))));
         keys = sorted_set (map (value_text \<circ> ev_value) candidates)
     in map (\<lambda>k. (k, ev_evidence_id (hd (filter (\<lambda>e. value_text (ev_value e) = k) candidates)))) keys)"

definition unknown_refs :: "evidence_index \<Rightarrow> payment_identity_result \<Rightarrow> payment_identity_witness list
    \<Rightarrow> string list \<Rightarrow> identity_dimension \<Rightarrow> string list" where
  "unknown_refs ix r ws transactions d = (
     (if d = Dim_TRANSACTION \<and> 1 < length transactions then
        concat (map (\<lambda>t. case find (\<lambda>w. piw_transaction_ref w = t) ws of None \<Rightarrow> [] | Some w \<Rightarrow> piw_evidence_refs w)
          (take 2 transactions)) else [])
     @ (case filter (\<lambda>w. d \<in> set (piw_unknown_dimensions w)) ws of [] \<Rightarrow> []
        | w # _ \<Rightarrow>
            let values = conflicting_refs ix r (piw_transaction_ref w) d
            in piw_evidence_refs w
               @ (if 1 < length values then map snd (take 2 values)
                  else if refs_about (ix_evidence ix) [Claim_PAYMENT_TRANSACTION_ID] (piw_evidence_refs w) = []
                  then take 1 (sort (piw_evidence_refs w)) else [])))"

definition critical_refs :: "evidence_index \<Rightarrow> payment_identity_result \<Rightarrow> string list" where
  "critical_refs ix r = (
     let ws = sorted_witnesses r; transactions = sorted_set (map piw_transaction_ref ws)
     in if pir_result r = Match_MATCH \<and> ws \<noteq> [] then
          (case find (\<lambda>w. piw_result w = Match_MATCH) ws of None \<Rightarrow> [] | Some w \<Rightarrow> piw_evidence_refs w)
        else concat (map (\<lambda>w. if piw_mismatch_dimensions w = [] then []
               else refs_about (ix_evidence ix)
                 (ASSOCIATION_CLAIMS @ concat (map identity_claim (piw_mismatch_dimensions w))) (piw_evidence_refs w)) ws)
          @ concat (map (unknown_refs ix r ws transactions) (pir_unknown_dimensions r)))"

text \<open>A witness that matches exists whenever the result is a match.\<close>

definition project_identity :: "context_text \<Rightarrow> evidence_index \<Rightarrow> payment_identity_result \<Rightarrow> nat
    \<Rightarrow> error + payment_identity_context" where
  "project_identity T ix r preview_limit = (
     let transactions = sorted_set (map piw_transaction_ref (sorted_witnesses r))
     in checked payment_identity_context_valid
       \<lparr> pic_result = pir_result r, pic_mismatch_dimensions = pir_mismatch_dimensions r,
         pic_unknown_dimensions = pir_unknown_dimensions r,
         pic_candidate_transaction_count = length transactions,
         pic_transaction_ref_preview = take preview_limit (filter opaque_business_ref transactions),
         pic_transaction_refs_digest = ctx_refs_digest T transactions,
         pic_evidence_ref_count = length (pir_evidence_refs r),
         pic_evidence_refs_digest = ctx_refs_digest T (sort (pir_evidence_refs r)),
         pic_evidence_refs = sorted_set (critical_refs ix r),
         pic_verification_version = pir_verification_version r \<rparr>)"

definition identity_auxiliary_refs :: "payment_identity_result \<Rightarrow> payment_identity_context \<Rightarrow> string list" where
  "identity_auxiliary_refs r p = filter (\<lambda>x. x \<notin> set (pic_evidence_refs p)) (pir_evidence_refs r)"

end
