(* ===== verification/Context.thy ===== *)
theory Context
  imports ContextModel
begin

text \<open>
  The assembly of the reasoning context (\<open>context/assembler.py\<close>, \<open>context/budget.py\<close>,
  \<open>context/envelope.py\<close>) and the independent validator that every snapshot passes before it is
  returned (\<open>context/invariants.py\<close>). Mandatory material is rendered first and must fit; optional
  capsules are then added in a fixed order while the rendered snapshot fits its budget, and taken back
  from the end when the bookkeeping of the omissions no longer does.
\<close>

section \<open>Budget and seal\<close>

record context_config =
  cc_text :: context_text
  cc_budget :: context_budget
  cc_denied_claims :: "claim_type list"
  cc_group_text :: "group_key \<Rightarrow> string"
  cc_graph_input :: "case_rec \<Rightarrow> evidence list \<Rightarrow> string"

definition snapshot_digest :: "context_text \<Rightarrow> reasoning_context_snapshot \<Rightarrow> string" where
  "snapshot_digest T s = ctx_snapshot_digest T (s\<lparr> rcs_snapshot_id := [] \<rparr>)"

definition ZERO_HASH :: string where
  "ZERO_HASH = replicate 64 (CHR ''0'')"

definition usage_of :: "reasoning_context_snapshot \<Rightarrow> context_budget \<Rightarrow> context_budget_usage" where
  "usage_of s limits = \<lparr> cbu_serialized_chars = 0, cbu_approximate_tokens = 0,
     cbu_fact_capsules = length (rcs_current_facts s),
     cbu_hypothesis_capsules = length (rcs_active_hypotheses s) + length (rcs_resolved_hypotheses_summary s),
     cbu_gap_capsules = length (rcs_open_evidence_gaps s),
     cbu_history_items = length (hdg_repeated_lookup_groups (rcs_history_digest s))
       + length (hdg_state_transitions (rcs_history_digest s)),
     cbu_limits = limits \<rparr>"

text \<open>The length counts its own digits; the loop gives up after twelve rounds.\<close>

primrec converge :: "context_text \<Rightarrow> context_budget_usage \<Rightarrow> nat \<Rightarrow> reasoning_context_snapshot
    \<Rightarrow> error + reasoning_context_snapshot" where
  "converge T usage 0 s = Inl RuntimeError"
| "converge T usage (Suc n) s = (
     let size = ctx_serialized_chars T s;
         updated = usage\<lparr> cbu_serialized_chars := size, cbu_approximate_tokens := (size + 2) div 3 \<rparr>
     in if updated = rcs_context_budget_usage s then Inr (s\<lparr> rcs_snapshot_id := snapshot_digest T s \<rparr>)
        else converge T usage n (s\<lparr> rcs_context_budget_usage := updated \<rparr>))"

definition seal :: "context_text \<Rightarrow> context_budget \<Rightarrow> reasoning_context_snapshot
    \<Rightarrow> error + reasoning_context_snapshot" where
  "seal T limits payload = (let usage = usage_of payload limits in
     bindE (checked snapshot_valid (payload\<lparr> rcs_snapshot_id := ZERO_HASH, rcs_context_budget_usage := usage \<rparr>))
       (converge T usage 12))"

definition fits :: "reasoning_context_snapshot \<Rightarrow> bool" where
  "fits s = (let u = rcs_context_budget_usage s; b = cbu_limits u in
     cbu_serialized_chars u \<le> cbg_max_serialized_chars b \<and> cbu_fact_capsules u \<le> cbg_max_fact_capsules b
     \<and> cbu_hypothesis_capsules u \<le> cbg_max_hypothesis_capsules b
     \<and> cbu_gap_capsules u \<le> cbg_max_gap_capsules b \<and> cbu_history_items u \<le> cbg_max_history_items b)"

section \<open>References\<close>

definition range_refs :: "reference_range \<Rightarrow> string list" where
  "range_refs r = [rgr_first_ref r, rgr_latest_ref r]"

definition hypothesis_refs :: "hypothesis_capsule \<Rightarrow> string list" where
  "hypothesis_refs h = hc_decisive_evidence_refs h @ hc_supporting_ref_preview h @ hc_contradicting_ref_preview h"

definition refs_of_groups :: "repeated_lookup_group list \<Rightarrow> historical_state_group list \<Rightarrow> string list" where
  "refs_of_groups ls hs = concat (map (range_refs \<circ> rlg_references) ls) @ concat (map (range_refs \<circ> hsg_references) hs)"

definition all_refs :: "payment_identity_context \<Rightarrow> fact_capsule list \<Rightarrow> hypothesis_capsule list
    \<Rightarrow> resolved_hypothesis_summary list \<Rightarrow> gap_capsule list \<Rightarrow> repeated_lookup_group list
    \<Rightarrow> historical_state_group list \<Rightarrow> string list" where
  "all_refs p fs hs rs gs ls sts = pic_evidence_refs p @ concat (map fc_evidence_refs fs)
     @ concat (map hypothesis_refs hs) @ concat (map rhs_decisive_evidence_refs rs)
     @ concat (map gpc_evidence_refs gs) @ refs_of_groups ls sts"

definition referenced_ids :: "reasoning_context_snapshot \<Rightarrow> string list" where
  "referenced_ids s = sorted_set (all_refs (rcs_financial_identity s) (rcs_current_facts s)
     (rcs_active_hypotheses s) (rcs_resolved_hypotheses_summary s) (rcs_open_evidence_gaps s)
     (hdg_repeated_lookup_groups (rcs_history_digest s)) (hdg_state_transitions (rcs_history_digest s)))"

section \<open>Capsules of a graph\<close>

definition definition_for :: "hypothesis_graph_view \<Rightarrow> hypothesis_id \<Rightarrow> error + hypothesis_definition" where
  "definition_for graph h = needE KeyError (find (\<lambda>d. hd_hypothesis_id d = h) (hg_definitions graph))"

text \<open>\<open>rs\<close> are the references of an eligible relation that are not auxiliary to the identity.\<close>

definition hypothesis_capsule_of :: "context_config \<Rightarrow> evidence list \<Rightarrow> (string \<Rightarrow> bool) \<Rightarrow> bool
    \<Rightarrow> hypothesis_graph_view \<Rightarrow> hypothesis_state \<Rightarrow> error + hypothesis_capsule" where
  "hypothesis_capsule_of X es visible with_preview graph st = (
     let preview = (\<lambda>rs. if with_preview
           then relation_refs (cc_text X) es (cbg_max_relation_ref_preview (cc_budget X)) (filter visible rs)
           else Inr [])
     in bindE (definition_for graph (hs_hypothesis_id st)) (\<lambda>d.
        bindE (preview (hs_supporting_evidence_refs st)) (\<lambda>supporting.
        bindE (preview (hs_contradicting_evidence_refs st)) (\<lambda>contradicting.
          checked hypothesis_capsule_valid
            \<lparr> hc_hypothesis_id = hs_hypothesis_id st, hc_kind = hd_kind d, hc_statement = hd_statement d,
              hc_status = hs_status st, hc_decisive_evidence_refs = hs_decisive_evidence_refs st,
              hc_supporting_ref_preview = supporting, hc_contradicting_ref_preview = contradicting,
              hc_supporting_ref_count = length (hs_supporting_evidence_refs st),
              hc_contradicting_ref_count = length (hs_contradicting_evidence_refs st),
              hc_supporting_refs_digest = ctx_refs_digest (cc_text X) (sort (hs_supporting_evidence_refs st)),
              hc_contradicting_refs_digest = ctx_refs_digest (cc_text X) (sort (hs_contradicting_evidence_refs st)),
              hc_open_gap_ids = hs_missing_evidence st \<rparr>))))"

definition gap_capsule_of :: "evidence_gap \<Rightarrow> gap_capsule" where
  "gap_capsule_of g = \<lparr> gpc_gap_id = eg_gap_id g, gpc_required_claim_types = eg_required_claim_types g,
     gpc_priority = eg_priority_class g, gpc_status = eg_status g,
     gpc_related_hypotheses = eg_hypothesis_ids g, gpc_evidence_refs = eg_evidence_refs g \<rparr>"

definition resolved_of :: "hypothesis_graph_view \<Rightarrow> hypothesis_state \<Rightarrow> error + resolved_hypothesis_summary" where
  "resolved_of graph st = bindE (definition_for graph (hs_hypothesis_id st)) (\<lambda>d.
     checked resolved_summary_valid \<lparr> rhs_hypothesis_id = hs_hypothesis_id st, rhs_statement = hd_statement d,
       rhs_status = hs_status st, rhs_decisive_evidence_refs = hs_decisive_evidence_refs st \<rparr>)"

section \<open>What the assembly works on\<close>

text \<open>
  The local variables of \<open>_assemble\<close> that are fixed before the first rendering: the index, the graph,
  what is eligible and current, and the auxiliary references of the identity and of the relations.
\<close>

record assembly =
  as_config :: context_config
  as_index :: evidence_index
  as_graph :: hypothesis_graph_view
  as_identity :: payment_identity_context
  as_lookup_groups :: "repeated_lookup_group list"

definition all_current :: "evidence_index \<Rightarrow> evidence list" where
  "all_current ix = filter (\<lambda>e. e \<in> set (current ix (ev_claim_type e))) (ix_evidence ix)"

definition allowed_evidence :: "assembly \<Rightarrow> evidence list" where
  "allowed_evidence A = filter (allows (cc_denied_claims (as_config A))) (ix_evidence (as_index A))"

definition eligible_ids :: "assembly \<Rightarrow> string list" where
  "eligible_ids A = map ev_evidence_id (allowed_evidence A)"

definition current_eligible :: "assembly \<Rightarrow> evidence list" where
  "current_eligible A = filter (\<lambda>e. ev_evidence_id e \<in> set (eligible_ids A)) (all_current (as_index A))"

definition identity_aux :: "assembly \<Rightarrow> string list" where
  "identity_aux A = identity_auxiliary_refs (hg_payment_identity (as_graph A)) (as_identity A)"

definition relation_aux :: "assembly \<Rightarrow> string list" where
  "relation_aux A = (
     let decisive = concat (map hs_decisive_evidence_refs (hg_hypotheses (as_graph A)))
     in filter (\<lambda>r. r \<notin> set decisive) (concat (map (\<lambda>s. hs_supporting_evidence_refs s
          @ hs_contradicting_evidence_refs s) (hg_hypotheses (as_graph A)))))"

definition capsule :: "assembly \<Rightarrow> bool \<Rightarrow> hypothesis_state \<Rightarrow> error + hypothesis_capsule" where
  "capsule A with_preview = hypothesis_capsule_of (as_config A) (ix_evidence (as_index A))
     (\<lambda>r. r \<in> set (eligible_ids A) \<and> r \<notin> set (identity_aux A)) with_preview (as_graph A)"

definition critical_gaps :: "assembly \<Rightarrow> string list" where
  "critical_gaps A = map eg_gap_id (filter (\<lambda>g. eg_priority_class g = Prio_SAFETY_CRITICAL) (hg_open_gaps (as_graph A)))"

definition critical_hypotheses :: "assembly \<Rightarrow> hypothesis_id list" where
  "critical_hypotheses A = concat (map eg_hypothesis_ids
     (filter (\<lambda>g. eg_gap_id g \<in> set (critical_gaps A)) (hg_open_gaps (as_graph A))))"

section \<open>Rendering\<close>

text \<open>The capsules chosen so far.\<close>

record selection =
  sel_facts :: "fact_capsule list"
  sel_hypotheses :: "hypothesis_capsule list"
  sel_gaps :: "gap_capsule list"
  sel_resolved :: "resolved_hypothesis_summary list"
  sel_lookups :: "repeated_lookup_group list"
  sel_states :: "historical_state_group list"

definition SAFETY_INVARIANTS :: "safety_invariant list" where
  "SAFETY_INVARIANTS = [Inv_NO_NEW_FINANCIAL_INTENT, Inv_UNKNOWN_IS_NOT_FAILED,
     Inv_TOOL_SUCCESS_IS_NOT_BUSINESS_OUTCOME, Inv_REQUIRE_COMPLETE_PAYMENT_IDENTITY,
     Inv_READ_ONLY_INVESTIGATION, Inv_NO_SELF_DECLARED_CASE_SUCCESS, Inv_EVIDENCE_REFERENCES_REQUIRED]"

definition runtime_budget_of :: "case_rec \<Rightarrow> runtime_budget_context" where
  "runtime_budget_of c = (let b = case_budget c in
     \<lparr> rbc_max_tool_calls = cb_max_tool_calls b, rbc_used_tool_calls = cb_used_tool_calls b,
       rbc_remaining_tool_calls = cb_max_tool_calls b - cb_used_tool_calls b,
       rbc_investigation_allowed = (case_status c \<in> {Case_NEW, Case_INVESTIGATING}
         \<and> cb_used_tool_calls b < cb_max_tool_calls b) \<rparr>)"

text \<open>Whether a group without a call is missing because it could not be shown.\<close>

definition history_complete :: "assembly \<Rightarrow> repeated_lookup_group list \<Rightarrow> bool" where
  "history_complete A shown = (length shown = length (as_lookup_groups A)
     \<and> cb_used_tool_calls (case_budget (ix_case (as_index A)))
         \<le> int (card (set (map ev_observation_id (allowed_evidence A))))
     \<and> list_all (\<lambda>e. is_lookup e \<longrightarrow> ev_evidence_id e \<in> set (eligible_ids A)) (ix_evidence (as_index A)))"

definition history_of :: "assembly \<Rightarrow> selection \<Rightarrow> error + history_digest" where
  "history_of A sel = (let c = ix_case (as_index A); es = ix_evidence (as_index A) in
     checked history_digest_valid
       \<lparr> hdg_retry_window_start = case_lookup_retry_after c,
         hdg_tool_calls_used = cb_used_tool_calls (case_budget c), hdg_evidence_count = length es,
         hdg_latest_observation_time = (if es = [] then None else Some (Max (set (map ev_observed_at es)))),
         hdg_repeated_lookup_groups = sel_lookups sel, hdg_state_transitions = sel_states sel,
         hdg_lookup_history_complete = history_complete A (sel_lookups sel) \<rparr>)"

definition omitted_groups :: "assembly \<Rightarrow> (string \<Rightarrow> omission_reason) \<Rightarrow> string list \<Rightarrow> omission_group list" where
  "omitted_groups A reasons shown = (
     let rest = sort (filter (\<lambda>r. r \<notin> set shown) (map ev_evidence_id (ix_evidence (as_index A))))
     in map (\<lambda>k. let ids = filter (\<lambda>r. reasons r = k) rest in
           \<lparr> omg_reason = k, omg_count = length ids, omg_evidence_ids_digest = ctx_refs_digest (cc_text (as_config A)) ids \<rparr>)
         (sort_key omission_reason_value (remdups (map reasons rest))))"

definition payload_of :: "assembly \<Rightarrow> selection \<Rightarrow> history_digest \<Rightarrow> reasoning_context_snapshot" where
  "payload_of A sel history = (
     let c = ix_case (as_index A); g = as_graph A; T = cc_text (as_config A); b = cc_budget (as_config A) in
     \<lparr> rcs_snapshot_id = [], rcs_case_id = case_case_id c, rcs_internal_order_id = case_internal_order_id c,
       rcs_context_schema_version = ''6'', rcs_eligibility_policy_version = ''4'',
       rcs_compaction_policy_version = ''4'', rcs_context_policy_version = ''5'',
       rcs_hypothesis_rule_version = hg_rule_version g, rcs_assembled_at = hg_evaluated_at g,
       rcs_case_fingerprint = ctx_case_digest T c,
       rcs_evidence_fingerprint = ctx_evidence_digest T (ix_evidence (as_index A)),
       rcs_hypothesis_input_fingerprint = hg_input_fingerprint g,
       rcs_hypothesis_graph_fingerprint = ctx_graph_digest T g,
       rcs_policy_fingerprint = ctx_policy_digest T b (cc_denied_claims (as_config A)),
       rcs_task = case_task_contract c, rcs_financial_subject = case_financial_subject c,
       rcs_financial_identity = as_identity A, rcs_current_facts = sel_facts sel,
       rcs_active_hypotheses = sel_hypotheses sel, rcs_resolved_hypotheses_summary = sel_resolved sel,
       rcs_open_evidence_gaps = sel_gaps sel,
       rcs_safety_constraints = \<lparr> sct_invariants = SAFETY_INVARIANTS,
         sct_forbidden_actions = ccn_forbidden_actions (case_constraints c) \<rparr>,
       rcs_budget = runtime_budget_of c, rcs_available_tools = capabilities_for_case c,
       rcs_history_digest = history, rcs_selected_evidence_refs = [],
       rcs_omitted_evidence_summary = \<lparr> oes_total_evidence = 0, oes_selected = 0, oes_omitted = [] \<rparr>,
       rcs_context_budget_usage = \<lparr> cbu_serialized_chars = 0, cbu_approximate_tokens = 0, cbu_fact_capsules = 0,
         cbu_hypothesis_capsules = 0, cbu_gap_capsules = 0, cbu_history_items = 0, cbu_limits = b \<rparr> \<rparr>)"

definition render :: "assembly \<Rightarrow> selection \<Rightarrow> (string \<Rightarrow> omission_reason) \<Rightarrow> error + reasoning_context_snapshot" where
  "render A sel reasons = bindE (history_of A sel) (\<lambda>history.
     let payload = payload_of A sel history; shown = referenced_ids payload
     in seal (cc_text (as_config A)) (cc_budget (as_config A)) (payload\<lparr>
          rcs_selected_evidence_refs := shown,
          rcs_omitted_evidence_summary := \<lparr> oes_total_evidence = length (ix_evidence (as_index A)),
            oes_selected = length shown, oes_omitted = omitted_groups A reasons shown \<rparr> \<rparr>))"

section \<open>Candidates\<close>

datatype item = Item_preview hypothesis_capsule | Item_hypothesis hypothesis_capsule | Item_gap gap_capsule
  | Item_fact fact_capsule | Item_resolved resolved_hypothesis_summary | Item_lookup repeated_lookup_group
  | Item_state historical_state_group

fun slot_name :: "item \<Rightarrow> string" where
  "slot_name (Item_preview _) = ''hypothesis_preview''"
| "slot_name (Item_hypothesis _) = ''active_hypotheses''"
| "slot_name (Item_gap _) = ''open_evidence_gaps''"
| "slot_name (Item_fact _) = ''current_facts''"
| "slot_name (Item_resolved _) = ''resolved_hypotheses_summary''"
| "slot_name (Item_lookup _) = ''lookups''"
| "slot_name (Item_state _) = ''states''"

fun item_refs :: "item \<Rightarrow> string list" where
  "item_refs (Item_preview h) = hypothesis_refs h"
| "item_refs (Item_hypothesis h) = hypothesis_refs h"
| "item_refs (Item_gap g) = gpc_evidence_refs g"
| "item_refs (Item_fact f) = fc_evidence_refs f"
| "item_refs (Item_resolved r) = rhs_decisive_evidence_refs r"
| "item_refs (Item_lookup g) = range_refs (rlg_references g)"
| "item_refs (Item_state g) = range_refs (hsg_references g)"

record candidate_item =
  cit_rank :: nat
  cit_group :: nat
  cit_name :: string
  cit_item :: item

definition candidate_item_of :: "nat \<Rightarrow> nat \<Rightarrow> string \<Rightarrow> item \<Rightarrow> candidate_item" where
  "candidate_item_of rank grp name i = \<lparr> cit_rank = rank, cit_group = grp, cit_name = name, cit_item = i \<rparr>"

definition hypothesis_candidate :: "assembly \<Rightarrow> hypothesis_capsule \<Rightarrow> candidate_item" where
  "hypothesis_candidate A h = (let name = hypothesis_id_value (hc_hypothesis_id h) in
     if hc_status h = Hs_CONFIRMED then candidate_item_of 1 0 name (Item_preview h)
     else candidate_item_of (if hc_status h = Hs_SUPPORTED then 1 else 2)
       (if hc_hypothesis_id h \<in> set (critical_hypotheses A) then 0 else 1) name (Item_hypothesis h))"

definition gap_candidate :: "gap_capsule \<Rightarrow> candidate_item" where
  "gap_candidate g = candidate_item_of (if gpc_priority g = Prio_DISCRIMINATING then 1 else 2) 0 (gpc_gap_id g) (Item_gap g)"

definition active_claims :: "assembly \<Rightarrow> claim_type list" where
  "active_claims A = concat (map hd_relevant_claim_types (filter (\<lambda>d. hd_hypothesis_id d
       \<notin> set (hg_eliminated (as_graph A))) (hg_definitions (as_graph A))))
     @ concat (map (\<lambda>g. List.map_filter (\<lambda>c. case c of Inl k \<Rightarrow> Some k | Inr _ \<Rightarrow> None) (eg_required_claim_types g))
         (hg_open_gaps (as_graph A)))"

definition fact_candidate :: "assembly \<Rightarrow> string list \<Rightarrow> string list \<Rightarrow> evidence \<Rightarrow> bool" where
  "fact_candidate A mandatory support e = (
     let i = ev_evidence_id e; supported = (i \<in> set support) in
     i \<notin> set (identity_aux A) \<and> \<not> (i \<in> set (relation_aux A) \<and> \<not> supported)
     \<and> (ev_claim_type e \<notin> {Claim_PROTOCOL_FIELD_TYPE, Claim_PROTOCOL_BUSINESS_SEMANTICS}
        \<or> es_field (ev_subject e) = Some (if ev_claim_type e = Claim_PROTOCOL_FIELD_TYPE then ''loanNo'' else ''SUCCESS'')
        \<or> supported)
     \<and> i \<notin> set mandatory \<and> (ev_claim_type e \<in> set (active_claims A) \<or> supported))"

definition numbered :: "nat \<Rightarrow> ('a \<Rightarrow> item) \<Rightarrow> 'a list \<Rightarrow> candidate_item list" where
  "numbered grp mk xs = map (\<lambda>(i, x). candidate_item_of 3 grp (decimal i) (mk x)) (enumerate 0 xs)"

text \<open>\<open>sorted(candidates, key=lambda c: c[:4])\<close>.\<close>

definition in_candidate_order :: "candidate_item list \<Rightarrow> candidate_item list" where
  "in_candidate_order cs = sort_key cit_rank (sort_key cit_group (sort_key cit_name
     (sort_key (slot_name \<circ> cit_item) cs)))"

definition candidate_items :: "assembly \<Rightarrow> string list \<Rightarrow> hypothesis_capsule list \<Rightarrow> gap_capsule list
    \<Rightarrow> error + candidate_item list" where
  "candidate_items A mandatory hypotheses gaps = (
     let support = concat (map (\<lambda>h. hc_supporting_ref_preview h @ hc_contradicting_ref_preview h) hypotheses);
         history = filter (\<lambda>e. ev_evidence_id e \<notin> set (identity_aux A)
           \<and> ev_evidence_id e \<notin> set (relation_aux A)) (allowed_evidence A)
     in bindE (mapE (\<lambda>e. bindE (fact e) (\<lambda>f. Inr (candidate_item_of
             (if ev_evidence_id e \<in> set support then 1 else 2) 2 (ev_evidence_id e) (Item_fact f))))
           (filter (fact_candidate A mandatory support) (current_eligible A))) (\<lambda>fcs.
        bindE (mapE (\<lambda>s. bindE (resolved_of (as_graph A) s) (\<lambda>r. Inr (candidate_item_of 3 0
             (hypothesis_id_value (hs_hypothesis_id s)) (Item_resolved r))))
           (filter (\<lambda>s. hs_status s = Hs_ELIMINATED) (hg_hypotheses (as_graph A)))) (\<lambda>resolved.
        bindE (historical_groups (cc_text (as_config A)) history (map ev_evidence_id (current_eligible A))) (\<lambda>states.
          Inr (in_candidate_order (map (hypothesis_candidate A) hypotheses
            @ map gap_candidate (filter (\<lambda>g. gpc_gap_id g \<notin> set (critical_gaps A)) gaps)
            @ fcs @ resolved @ numbered 1 Item_lookup (as_lookup_groups A) @ numbered 2 Item_state states))))))"

section \<open>Adding and taking back\<close>

text \<open>\<open>hypothesis_preview\<close> replaces the capsule of the same hypothesis and remembers it.\<close>

fun replace_hypothesis :: "hypothesis_capsule \<Rightarrow> hypothesis_capsule list \<Rightarrow> (nat \<times> hypothesis_capsule) option
    \<times> hypothesis_capsule list" where
  "replace_hypothesis h [] = (None, [])"
| "replace_hypothesis h (x # xs) = (if hc_hypothesis_id x = hc_hypothesis_id h then (Some (0, x), h # xs)
     else (let (old, ys) = replace_hypothesis h xs in (map_option (map_prod Suc id) old, x # ys)))"

fun apply_item :: "item \<Rightarrow> selection \<Rightarrow> (nat \<times> hypothesis_capsule) option \<times> selection" where
  "apply_item (Item_preview h) sel = (let (old, hs) = replace_hypothesis h (sel_hypotheses sel)
     in (old, sel\<lparr> sel_hypotheses := hs \<rparr>))"
| "apply_item (Item_hypothesis h) sel = (None, sel\<lparr> sel_hypotheses := sel_hypotheses sel @ [h] \<rparr>)"
| "apply_item (Item_gap g) sel = (None, sel\<lparr> sel_gaps := sel_gaps sel @ [g] \<rparr>)"
| "apply_item (Item_fact f) sel = (None, sel\<lparr> sel_facts := sel_facts sel @ [f] \<rparr>)"
| "apply_item (Item_resolved r) sel = (None, sel\<lparr> sel_resolved := sel_resolved sel @ [r] \<rparr>)"
| "apply_item (Item_lookup g) sel = (None, sel\<lparr> sel_lookups := sel_lookups sel @ [g] \<rparr>)"
| "apply_item (Item_state g) sel = (None, sel\<lparr> sel_states := sel_states sel @ [g] \<rparr>)"

fun undo_item :: "item \<Rightarrow> (nat \<times> hypothesis_capsule) option \<Rightarrow> selection \<Rightarrow> selection" where
  "undo_item (Item_preview h) old sel = (case old of None \<Rightarrow> sel
     | Some (position, x) \<Rightarrow> sel\<lparr> sel_hypotheses := (sel_hypotheses sel)[position := x] \<rparr>)"
| "undo_item (Item_hypothesis h) old sel = sel\<lparr> sel_hypotheses := remove1 h (sel_hypotheses sel) \<rparr>"
| "undo_item (Item_gap g) old sel = sel\<lparr> sel_gaps := remove1 g (sel_gaps sel) \<rparr>"
| "undo_item (Item_fact f) old sel = sel\<lparr> sel_facts := remove1 f (sel_facts sel) \<rparr>"
| "undo_item (Item_resolved r) old sel = sel\<lparr> sel_resolved := remove1 r (sel_resolved sel) \<rparr>"
| "undo_item (Item_lookup g) old sel = sel\<lparr> sel_lookups := remove1 g (sel_lookups sel) \<rparr>"
| "undo_item (Item_state g) old sel = sel\<lparr> sel_states := remove1 g (sel_states sel) \<rparr>"

text \<open>The variables of the loop; \<open>ast_accepted\<close> holds the last accepted item first.\<close>

record assembly_state =
  ast_selected :: selection
  ast_reasons :: "string \<Rightarrow> omission_reason"
  ast_accepted :: "(item \<times> (nat \<times> hypothesis_capsule) option) list"
  ast_snapshot :: reasoning_context_snapshot

definition over_budget :: "string list \<Rightarrow> (string \<Rightarrow> omission_reason) \<Rightarrow> string \<Rightarrow> omission_reason" where
  "over_budget rs reasons = (\<lambda>r. if r \<in> set rs then Omit_SIZE_BUDGET else reasons r)"

definition offer :: "assembly \<Rightarrow> item \<Rightarrow> assembly_state \<Rightarrow> error + assembly_state" where
  "offer A i st = (
     if \<not> set (item_refs i) \<subseteq> set (eligible_ids A) then Inr st
     else let (old, sel) = apply_item i (ast_selected st) in
       bindE (render A sel (ast_reasons st)) (\<lambda>s.
         if fits s then Inr (st\<lparr> ast_selected := sel, ast_accepted := (i, old) # ast_accepted st, ast_snapshot := s \<rparr>)
         else Inr (st\<lparr> ast_selected := undo_item i old sel,
                ast_reasons := over_budget (filter (\<lambda>r. r \<notin> set (rcs_selected_evidence_refs (ast_snapshot st)))
                  (item_refs i)) (ast_reasons st) \<rparr>)))"

fun offer_all :: "assembly \<Rightarrow> candidate_item list \<Rightarrow> assembly_state \<Rightarrow> error + assembly_state" where
  "offer_all A [] st = Inr st"
| "offer_all A (c # cs) st = bindE (offer A (cit_item c) st) (offer_all A cs)"

text \<open>The loop that takes accepted items back until the snapshot fits.\<close>

fun trim :: "assembly \<Rightarrow> (item \<times> (nat \<times> hypothesis_capsule) option) list \<Rightarrow> selection
    \<Rightarrow> (string \<Rightarrow> omission_reason) \<Rightarrow> error + reasoning_context_snapshot" where
  "trim A accepted sel reasons = bindE (render A sel reasons) (\<lambda>s.
     if fits s then Inr s
     else (case accepted of [] \<Rightarrow> Inl MandatoryContextOverflow
       | (i, old) # rest \<Rightarrow> trim A rest (undo_item i old sel) (over_budget (item_refs i) reasons)))"

declare trim.simps [simp del]

section \<open>The validator\<close>

definition relation_sound :: "context_text \<Rightarrow> nat \<Rightarrow> string list \<Rightarrow> nat \<Rightarrow> string \<Rightarrow> string list \<Rightarrow> bool" where
  "relation_sound T limit rs n dg preview = (n = length rs \<and> dg = ctx_refs_digest T (sort rs)
     \<and> set preview \<subseteq> set rs \<and> length preview \<le> limit)"

definition capsule_sound :: "context_text \<Rightarrow> nat \<Rightarrow> hypothesis_graph_view \<Rightarrow> hypothesis_capsule \<Rightarrow> bool" where
  "capsule_sound T limit graph h = (
     case find (\<lambda>s. hs_hypothesis_id s = hc_hypothesis_id h) (hg_hypotheses graph) of None \<Rightarrow> False
     | Some s \<Rightarrow> relation_sound T limit (hs_supporting_evidence_refs s) (hc_supporting_ref_count h)
           (hc_supporting_refs_digest h) (hc_supporting_ref_preview h)
       \<and> relation_sound T limit (hs_contradicting_evidence_refs s) (hc_contradicting_ref_count h)
           (hc_contradicting_refs_digest h) (hc_contradicting_ref_preview h))"

text \<open>A dictionary comprehension keeps the last capsule of an identifier.\<close>

definition confirmed_kept :: "reasoning_context_snapshot \<Rightarrow> hypothesis_state \<Rightarrow> bool" where
  "confirmed_kept s st = (hs_status st \<noteq> Hs_CONFIRMED
     \<or> (case find (\<lambda>h. hc_hypothesis_id h = hs_hypothesis_id st) (rev (rcs_active_hypotheses s)) of None \<Rightarrow> False
        | Some h \<Rightarrow> hc_status h = Hs_CONFIRMED \<and> hs_decisive_evidence_refs st \<noteq> []
            \<and> hc_decisive_evidence_refs h = hs_decisive_evidence_refs st))"

definition gap_sound :: "hypothesis_graph_view \<Rightarrow> gap_capsule \<Rightarrow> bool" where
  "gap_sound graph g = (case find (\<lambda>x. eg_gap_id x = gpc_gap_id g) (hg_open_gaps graph) of None \<Rightarrow> False
     | Some x \<Rightarrow> g = gap_capsule_of x)"

definition critical_fact_ids :: "evidence_index \<Rightarrow> hypothesis_graph_view \<Rightarrow> payment_identity_context \<Rightarrow> string list" where
  "critical_fact_ids ix graph p = (let cur = all_current ix; ids = map ev_evidence_id cur in
     map ev_evidence_id (filter (\<lambda>e. ev_claim_type e \<in> set MANDATORY_CLAIMS
       \<and> ev_evidence_id e \<notin> set (identity_auxiliary_refs (hg_payment_identity graph) p)) cur)
     @ filter (\<lambda>r. r \<in> set ids) (pic_evidence_refs p)
     @ concat (map (\<lambda>s. filter (\<lambda>r. r \<in> set ids) (hs_decisive_evidence_refs s))
         (filter (\<lambda>s. hs_status s = Hs_CONFIRMED) (hg_hypotheses graph))))"

definition fact_sound :: "evidence_index \<Rightarrow> fact_capsule \<Rightarrow> bool" where
  "fact_sound ix f = (case fc_evidence_refs f of [r] \<Rightarrow>
       (case evidence_with_id (all_current ix) r of None \<Rightarrow> False | Some e \<Rightarrow> fact e = Inr f)
     | _ \<Rightarrow> False)"

text \<open>The checks of \<open>ReasoningContextInvariantValidator.validate\<close> in four groups.\<close>

definition references_sound :: "context_config \<Rightarrow> evidence_index \<Rightarrow> hypothesis_graph_view \<Rightarrow> string list
    \<Rightarrow> reasoning_context_snapshot \<Rightarrow> bool" where
  "references_sound X ix graph mandatory s = (
     let selected = set (rcs_selected_evidence_refs s); es = ix_evidence ix in
     selected \<subseteq> set (map ev_evidence_id es) \<and> set mandatory \<subseteq> selected
     \<and> list_all (\<lambda>e. ev_evidence_id e \<in> selected \<longrightarrow> allows (cc_denied_claims X) e) es
     \<and> selected = set (referenced_ids s)
     \<and> oes_total_evidence (rcs_omitted_evidence_summary s) = card (set (map ev_evidence_id es))
     \<and> oes_selected (rcs_omitted_evidence_summary s) = card selected
     \<and> sum_list (map omg_count (oes_omitted (rcs_omitted_evidence_summary s))) + card selected
        = card (set (map ev_evidence_id es)))"

definition projection_sound :: "context_config \<Rightarrow> evidence_index \<Rightarrow> hypothesis_graph_view
    \<Rightarrow> reasoning_context_snapshot \<Rightarrow> bool" where
  "projection_sound X ix graph s = (
     let T = cc_text X; limits = cbu_limits (rcs_context_budget_usage s) in
     set (map eg_gap_id (filter (\<lambda>g. eg_priority_class g = Prio_SAFETY_CRITICAL) (hg_open_gaps graph)))
        \<subseteq> gpc_gap_id ` set (rcs_open_evidence_gaps s)
     \<and> list_all (gap_sound graph) (rcs_open_evidence_gaps s)
     \<and> list_all (confirmed_kept s) (hg_hypotheses graph)
     \<and> project_identity T ix (hg_payment_identity graph) (cbg_max_identity_transaction_preview limits)
        = Inr (rcs_financial_identity s)
     \<and> list_all (capsule_sound T (cbg_max_relation_ref_preview limits) graph) (rcs_active_hypotheses s)
     \<and> set (critical_fact_ids ix graph (rcs_financial_identity s))
        \<subseteq> set (concat (map fc_evidence_refs (rcs_current_facts s)))
     \<and> list_all (fact_sound ix) (rcs_current_facts s))"

definition binding_sound :: "context_config \<Rightarrow> evidence_index \<Rightarrow> hypothesis_graph_view
    \<Rightarrow> reasoning_context_snapshot \<Rightarrow> bool" where
  "binding_sound X ix graph s = (let T = cc_text X; c = ix_case ix; u = rcs_context_budget_usage s in
     rcs_hypothesis_input_fingerprint s = hg_input_fingerprint graph
     \<and> rcs_hypothesis_graph_fingerprint s = ctx_graph_digest T graph
     \<and> rcs_case_id s = case_case_id c \<and> rcs_internal_order_id s = case_internal_order_id c
     \<and> rcs_case_fingerprint s = ctx_case_digest T c
     \<and> rcs_evidence_fingerprint s = ctx_evidence_digest T (ix_evidence ix)
     \<and> rcs_task s = case_task_contract c \<and> rcs_financial_subject s = case_financial_subject c
     \<and> sct_invariants (rcs_safety_constraints s) = SAFETY_INVARIANTS
     \<and> sct_forbidden_actions (rcs_safety_constraints s) = ccn_forbidden_actions (case_constraints c)
     \<and> cbu_fact_capsules u = length (rcs_current_facts s)
     \<and> cbu_hypothesis_capsules u = length (rcs_active_hypotheses s) + length (rcs_resolved_hypotheses_summary s)
     \<and> cbu_gap_capsules u = length (rcs_open_evidence_gaps s)
     \<and> cbu_history_items u = length (hdg_repeated_lookup_groups (rcs_history_digest s))
          + length (hdg_state_transitions (rcs_history_digest s))
     \<and> rcs_snapshot_id s = snapshot_digest T s \<and> cbu_serialized_chars u = ctx_serialized_chars T s \<and> fits s)"

definition history_sound :: "context_config \<Rightarrow> evidence_index \<Rightarrow> reasoning_context_snapshot \<Rightarrow> bool" where
  "history_sound X ix s = (
     let c = ix_case ix; es = filter (allows (cc_denied_claims X)) (ix_evidence ix); h = rcs_history_digest s;
         retained = hdg_repeated_lookup_groups h
     in hdg_retry_window_start h = case_lookup_retry_after c
        \<and> (case lookup_groups (cc_text X) (case_lookup_retry_after c) es of Inl _ \<Rightarrow> False
           | Inr groups \<Rightarrow> list_all (\<lambda>g. g \<in> set groups) retained
             \<and> hdg_lookup_history_complete h = (length retained = length groups
                \<and> cb_used_tool_calls (case_budget c) \<le> int (card (set (map ev_observation_id es)))
                \<and> list_all (\<lambda>e. \<not> is_lookup e \<or> allows (cc_denied_claims X) e) (ix_evidence ix))))"

definition validate_context :: "context_config \<Rightarrow> evidence_index \<Rightarrow> hypothesis_graph_view \<Rightarrow> string list
    \<Rightarrow> reasoning_context_snapshot \<Rightarrow> error + unit" where
  "validate_context X ix graph mandatory s = (
     if \<not> snapshot_valid s then Inl ContextEnvelopeInvariantError
     else if references_sound X ix graph mandatory s \<and> projection_sound X ix graph s
       \<and> binding_sound X ix graph s \<and> history_sound X ix s then Inr ()
     else Inl ReasoningContextInvariantError)"

section \<open>The assembly\<close>

definition initial_reason :: "assembly \<Rightarrow> evidence \<Rightarrow> omission_reason" where
  "initial_reason A e = (let i = ev_evidence_id e in
     if i \<notin> set (eligible_ids A) then Omit_ELIGIBILITY_DENIED
     else if is_lookup e then Omit_REPEATED_LOOKUP
     else if i \<in> set (identity_aux A) then Omit_IDENTITY_COMPACTED
     else if i \<in> set (relation_aux A) then Omit_RELATION_COMPACTED
     else if i \<notin> set (map ev_evidence_id (current_eligible A)) then Omit_HISTORICAL_SUPERSEDED
     else Omit_IRRELEVANT_TO_ACTIVE_HYPOTHESES)"

definition initial_reasons :: "assembly \<Rightarrow> string \<Rightarrow> omission_reason" where
  "initial_reasons A r = (case evidence_with_id (ix_evidence (as_index A)) r of
     None \<Rightarrow> Omit_ELIGIBILITY_DENIED | Some e \<Rightarrow> initial_reason A e)"

definition mandatory_refs :: "assembly \<Rightarrow> hypothesis_capsule list \<Rightarrow> gap_capsule list \<Rightarrow> string list" where
  "mandatory_refs A hs gs = sorted_set (all_refs (as_identity A) [] hs [] gs [] []
     @ map ev_evidence_id (filter (\<lambda>e. ev_claim_type e \<in> set MANDATORY_CLAIMS
         \<and> ev_evidence_id e \<notin> set (identity_aux A)) (all_current (as_index A))))"

text \<open>The choice of the optional capsules, from the mandatory selection on.\<close>

definition fill :: "assembly \<Rightarrow> string list \<Rightarrow> hypothesis_capsule list \<Rightarrow> gap_capsule list \<Rightarrow> selection
    \<Rightarrow> error + reasoning_context_snapshot" where
  "fill A mandatory hypotheses gaps sel = (
     bindE (render A sel (initial_reasons A)) (\<lambda>s.
       if \<not> fits s then Inl MandatoryContextOverflow
       else bindE (candidate_items A mandatory hypotheses gaps) (\<lambda>cs.
         bindE (offer_all A cs \<lparr> ast_selected = sel, ast_reasons = initial_reasons A, ast_accepted = [],
             ast_snapshot = s \<rparr>) (\<lambda>st.
           trim A (ast_accepted st) (ast_selected st) (ast_reasons st)))))"

definition assemble :: "assembly \<Rightarrow> error + reasoning_context_snapshot" where
  "assemble A = (let states = hg_hypotheses (as_graph A) in
     bindE (mapE (capsule A True) (filter (\<lambda>s. hs_status s \<noteq> Hs_ELIMINATED) states)) (\<lambda>hypotheses.
     bindE (mapE (\<lambda>g. checked gap_capsule_valid (gap_capsule_of g)) (hg_open_gaps (as_graph A))) (\<lambda>gaps.
     bindE (mapE (capsule A False) (filter (\<lambda>s. hs_status s = Hs_CONFIRMED) states)) (\<lambda>confirmed.
       let safety = filter (\<lambda>g. gpc_gap_id g \<in> set (critical_gaps A)) gaps;
           mandatory = mandatory_refs A confirmed safety
       in if \<not> set mandatory \<subseteq> set (eligible_ids A) then Inl ContextEligibilityError
          else bindE (mapE fact (List.map_filter (evidence_with_id (current_eligible A)) mandatory)) (\<lambda>fcs.
            bindE (fill A mandatory hypotheses gaps \<lparr> sel_facts = fcs, sel_hypotheses = confirmed,
                sel_gaps = safety, sel_resolved = [], sel_lookups = [], sel_states = [] \<rparr>) (\<lambda>s.
            bindE (validate_context (as_config A) (as_index A) (as_graph A) mandatory s) (\<lambda>_. Inr s)))))))"

text \<open>\<open>ReasoningContextAssembler.build\<close>: a capsule that breaks its contract is reported as ineligible.\<close>

definition prepare_assembly :: "context_config \<Rightarrow> evidence_index \<Rightarrow> error + assembly" where
  "prepare_assembly X ix = (let T = cc_text X; c = ix_case ix in
     bindE (evaluate (cc_group_text X) (cc_graph_input X) c (ix_evidence ix)) (\<lambda>graph.
     bindE (lookup_groups T (case_lookup_retry_after c) (filter (allows (cc_denied_claims X)) (ix_evidence ix))) (\<lambda>groups.
     bindE (project_identity T ix (hg_payment_identity graph) (cbg_max_identity_transaction_preview (cc_budget X))) (\<lambda>p.
       Inr \<lparr> as_config = X, as_index = ix, as_graph = graph, as_identity = p, as_lookup_groups = groups \<rparr>))))"

definition build_context :: "context_config \<Rightarrow> case_rec \<Rightarrow> evidence list \<Rightarrow> error + reasoning_context_snapshot" where
  "build_context X c es = bindE (build_index c es) (\<lambda>ix.
     if \<not> case_identifiers_valid c then Inl ContextEligibilityError
     else (case bindE (prepare_assembly X ix) assemble of
         Inl ValidationError \<Rightarrow> Inl ContextEligibilityError
       | r \<Rightarrow> r))"

end
