(* ===== verification/Planner.thy ===== *)
theory Planner
  imports Context
begin

text \<open>
  The planner (\<open>planner/models.py\<close>, \<open>validator.py\<close>, \<open>policy.py\<close>, \<open>ranking.py\<close>, \<open>service.py\<close>,
  \<open>aliases.py\<close>). A model proposes up to three candidates for one snapshot; each is validated against
  the snapshot, filtered by the hard policy and ranked without any score of the model, and at most one
  is selected. The reply of the model, its metadata and the hash of a payload are parameters, and so is
  the optional organizational guidance, which only reaches the model and the audit record.
\<close>

section \<open>Proposals\<close>

datatype reason_code = Rsn_NO_AVAILABLE_TOOL | Rsn_REPEATED_SOURCE_FAILURE | Rsn_BUDGET_EXHAUSTED
  | Rsn_INSUFFICIENT_EVIDENCE | Rsn_UNSUPPORTED_INVESTIGATION | Rsn_POLICY_BLOCKED

record call_tool_candidate =
  ctc_candidate_id :: string
  ctc_target_gap_ids :: "string list"
  ctc_tool_name :: tool_name
  ctc_query :: tool_query
  ctc_expected_claim_types :: "claim_type list"

record wait_candidate =
  wtc_candidate_id :: string
  wtc_target_gap_ids :: "string list"
  wtc_reason_code :: reason_code
  wtc_suggested_wait_seconds :: int

record escalate_candidate =
  etc_candidate_id :: string
  etc_target_gap_ids :: "string list"
  etc_reason_code :: reason_code
  etc_requested_capability :: "uncollected_claim_type option"

datatype action_candidate = CallTool call_tool_candidate | Wait wait_candidate | Escalate escalate_candidate

fun candidate_id :: "action_candidate \<Rightarrow> string" where
  "candidate_id (CallTool c) = ctc_candidate_id c"
| "candidate_id (Wait c) = wtc_candidate_id c"
| "candidate_id (Escalate c) = etc_candidate_id c"

fun target_gap_ids :: "action_candidate \<Rightarrow> string list" where
  "target_gap_ids (CallTool c) = ctc_target_gap_ids c"
| "target_gap_ids (Wait c) = wtc_target_gap_ids c"
| "target_gap_ids (Escalate c) = etc_target_gap_ids c"

definition candidate_id_valid :: "string \<Rightarrow> bool" where
  "candidate_id_valid s = (sized 1 64 s \<and> list_all (\<lambda>c. is_alnum c \<or> c = CHR ''_'' \<or> c = CHR ''-'') s)"

definition gap_ids_valid :: "string list \<Rightarrow> bool" where
  "gap_ids_valid gs = (1 \<le> length gs \<and> length gs \<le> 24 \<and> list_all context_reference gs)"

text \<open>\<open>^\d+\.\d+$\<close>, over the decimal digits of ASCII.\<close>

definition proposed_version_valid :: "string \<Rightarrow> bool" where
  "proposed_version_valid s = (case split_on (\<lambda>c. c = CHR ''.'') s of [a, b] \<Rightarrow> all_digits a \<and> all_digits b
     | _ \<Rightarrow> False)"

definition proposal_query_valid :: "tool_query \<Rightarrow> bool" where
  "proposal_query_valid q = (opaque_subject_ref (tq_internal_order_id q)
     \<and> opt_valid proposed_version_valid (tq_protocol_version q))"

fun action_candidate_valid :: "action_candidate \<Rightarrow> bool" where
  "action_candidate_valid (CallTool c) = (candidate_id_valid (ctc_candidate_id c)
     \<and> gap_ids_valid (ctc_target_gap_ids c) \<and> proposal_query_valid (ctc_query c)
     \<and> 1 \<le> length (ctc_expected_claim_types c) \<and> length (ctc_expected_claim_types c) \<le> 32)"
| "action_candidate_valid (Wait c) = (candidate_id_valid (wtc_candidate_id c)
     \<and> gap_ids_valid (wtc_target_gap_ids c)
     \<and> 30 \<le> wtc_suggested_wait_seconds c \<and> wtc_suggested_wait_seconds c \<le> 3600)"
| "action_candidate_valid (Escalate c) = (candidate_id_valid (etc_candidate_id c)
     \<and> gap_ids_valid (etc_target_gap_ids c))"

record planner_draft =
  pdr_snapshot_id :: string
  pdr_candidates :: "action_candidate list"

definition planner_draft_valid :: "planner_draft \<Rightarrow> bool" where
  "planner_draft_valid dr = (hash_ref (pdr_snapshot_id dr)
     \<and> 1 \<le> length (pdr_candidates dr) \<and> length (pdr_candidates dr) \<le> 3
     \<and> list_all action_candidate_valid (pdr_candidates dr)
     \<and> distinct (map candidate_id (pdr_candidates dr)))"

datatype rejection_code = Rej_TOOL_NOT_AVAILABLE | Rej_FOREIGN_ORDER | Rej_UNKNOWN_TARGET_GAP
  | Rej_INVALID_PROTOCOL_QUERY | Rej_EXPECTED_CLAIM_NOT_PRODUCED | Rej_TOOL_DOES_NOT_ADDRESS_TARGET_GAP
  | Rej_INVESTIGATION_NOT_ALLOWED | Rej_BUDGET_EXHAUSTED | Rej_NON_READ_ONLY_TOOL
  | Rej_REPEATED_NO_NEW_INFORMATION | Rej_INCOMPLETE_LOOKUP_HISTORY | Rej_ACTIONABLE_SAFETY_GAP_NOT_ADDRESSED
  | Rej_ACTIONABLE_SAFETY_GAP_NOT_TARGETED | Rej_ESCALATION_CAPABILITY_MISMATCH
  | Rej_ESCALATION_REASON_INCONSISTENT

record validated_action_proposal =
  vap_snapshot_id :: string
  vap_policy_version :: string
  vap_candidate :: action_candidate

record ranking_detail =
  rkd_candidate_id :: string
  rkd_priority :: nat
  rkd_novel_requirement_coverage :: nat
  rkd_coverage :: nat
  rkd_hypothesis_discrimination :: nat
  rkd_economy :: nat
  rkd_repeated_query_penalty :: nat

definition PLANNER_POLICY_VERSION :: string where
  "PLANNER_POLICY_VERSION = ''3''"

definition ACTION_RANKING_VERSION :: string where
  "ACTION_RANKING_VERSION = ''1''"

record planner_decision =
  pdc_decision_id :: string
  pdc_snapshot_id :: string
  pdc_planner_draft_hash :: string
  pdc_valid_candidates :: "validated_action_proposal list"
  pdc_rejected_candidates :: "(action_candidate \<times> rejection_code list) list"
  pdc_selected_action :: "validated_action_proposal option"
  pdc_ranking_details :: "ranking_detail list"
  pdc_policy_version :: string
  pdc_ranking_version :: string
  pdc_created_at :: time

section \<open>The validator\<close>

definition addressed_requirements :: "tool_capability \<Rightarrow> gap_capsule \<Rightarrow> (claim_type + uncollected_claim_type) list" where
  "addressed_requirements t g = filter (\<lambda>r. case r of Inl c \<Rightarrow> c \<in> set (tc_produces_claim_types t)
       | Inr u \<Rightarrow> u \<in> set (tc_contributes_requirements t)) (remdups (gpc_required_claim_types g))"

text \<open>A dictionary comprehension over the gaps keeps the last gap of an identifier.\<close>

definition gap_by_id :: "gap_capsule list \<Rightarrow> string \<Rightarrow> gap_capsule option" where
  "gap_by_id gs i = find (\<lambda>g. gpc_gap_id g = i) (rev gs)"

definition open_gaps :: "reasoning_context_snapshot \<Rightarrow> gap_capsule list" where
  "open_gaps s = filter (\<lambda>g. gpc_status g = Gap_OPEN) (rcs_open_evidence_gaps s)"

definition targeted_gaps :: "reasoning_context_snapshot \<Rightarrow> string list \<Rightarrow> gap_capsule list" where
  "targeted_gaps s is = List.map_filter (gap_by_id (open_gaps s)) is"

definition tool_by_name :: "reasoning_context_snapshot \<Rightarrow> tool_name \<Rightarrow> tool_capability option" where
  "tool_by_name s t = find (\<lambda>c. tc_tool_name c = t) (rcs_available_tools s)"

definition reject_if :: "bool \<Rightarrow> rejection_code \<Rightarrow> rejection_code list" where
  "reject_if b r = (if b then [r] else [])"

definition unknown_target :: "reasoning_context_snapshot \<Rightarrow> action_candidate \<Rightarrow> bool" where
  "unknown_target s c = (\<not> set (target_gap_ids c) \<subseteq> gpc_gap_id ` set (open_gaps s))"

definition escalation_rejections :: "reasoning_context_snapshot \<Rightarrow> escalate_candidate \<Rightarrow> rejection_code list" where
  "escalation_rejections s c = (let targets = targeted_gaps s (etc_target_gap_ids c) in
     reject_if (case etc_requested_capability c of None \<Rightarrow> False
       | Some u \<Rightarrow> \<not> list_ex (\<lambda>g. Inr u \<in> set (gpc_required_claim_types g)) targets) Rej_ESCALATION_CAPABILITY_MISMATCH
     @ reject_if (etc_reason_code c = Rsn_NO_AVAILABLE_TOOL
         \<and> list_ex (\<lambda>g. list_ex (\<lambda>t. addressed_requirements t g \<noteq> []) (rcs_available_tools s)) targets)
         Rej_ESCALATION_REASON_INCONSISTENT)"

text \<open>The protocol versions the snapshot has observed or asked for.\<close>

definition observed_versions :: "reasoning_context_snapshot \<Rightarrow> string list" where
  "observed_versions s = List.map_filter id (filter truthy (map fc_protocol_version (rcs_current_facts s)
     @ map (tq_protocol_version \<circ> rlg_scope) (hdg_repeated_lookup_groups (rcs_history_digest s))))"

definition invalid_protocol_query :: "reasoning_context_snapshot \<Rightarrow> call_tool_candidate \<Rightarrow> bool" where
  "invalid_protocol_query s c = (let q = ctc_query c in
     if ctc_tool_name c \<noteq> Tool_PROTOCOL then tq_protocol_version q \<noteq> None \<or> tq_effective_at q \<noteq> None
     else (case tq_protocol_version q of None \<Rightarrow> True | Some v \<Rightarrow> v \<notin> set (observed_versions s))
       \<or> tq_effective_at q \<noteq> None)"

definition call_rejections :: "reasoning_context_snapshot \<Rightarrow> call_tool_candidate \<Rightarrow> rejection_code list" where
  "call_rejections s c = (let capability = tool_by_name s (ctc_tool_name c) in
     reject_if (capability = None) Rej_TOOL_NOT_AVAILABLE
     @ reject_if (tq_internal_order_id (ctc_query c) \<noteq> rcs_internal_order_id s) Rej_FOREIGN_ORDER
     @ reject_if (invalid_protocol_query s c) Rej_INVALID_PROTOCOL_QUERY
     @ (case capability of None \<Rightarrow> []
        | Some t \<Rightarrow> reject_if (\<not> set (ctc_expected_claim_types c) \<subseteq> set (tc_produces_claim_types t))
              Rej_EXPECTED_CLAIM_NOT_PRODUCED
            @ reject_if (\<not> list_ex (\<lambda>g. addressed_requirements t g \<noteq> []) (targeted_gaps s (ctc_target_gap_ids c)))
              Rej_TOOL_DOES_NOT_ADDRESS_TARGET_GAP))"

definition validate_action :: "reasoning_context_snapshot \<Rightarrow> action_candidate \<Rightarrow> rejection_code list" where
  "validate_action s c = dedup (reject_if (unknown_target s c) Rej_UNKNOWN_TARGET_GAP
     @ (case c of CallTool x \<Rightarrow> call_rejections s x | Wait _ \<Rightarrow> [] | Escalate x \<Rightarrow> escalation_rejections s x))"

section \<open>The hard policy\<close>

definition REPEATED_FAILURE_THRESHOLD :: nat where
  "REPEATED_FAILURE_THRESHOLD = 3"

definition repeated_count :: "reasoning_context_snapshot \<Rightarrow> call_tool_candidate \<Rightarrow> nat" where
  "repeated_count s c = max_default 0 (map rlg_latest_consecutive_count (filter (\<lambda>g. rlg_tool g = ctc_tool_name c
     \<and> rlg_scope g = ctc_query c \<and> rlg_status g \<noteq> Obs_OK) (hdg_repeated_lookup_groups (rcs_history_digest s))))"

text \<open>The open safety gaps that some tool of the catalogue can work on.\<close>

definition actionable_safety :: "reasoning_context_snapshot \<Rightarrow> gap_capsule list" where
  "actionable_safety s = filter (\<lambda>g. gpc_priority g = Prio_SAFETY_CRITICAL
     \<and> list_ex (\<lambda>t. addressed_requirements t g \<noteq> []) (rcs_available_tools s)) (open_gaps s)"

definition call_policy :: "reasoning_context_snapshot \<Rightarrow> call_tool_candidate \<Rightarrow> rejection_code list" where
  "call_policy s c = (let b = rcs_budget s; safety = actionable_safety s; capability = tool_by_name s (ctc_tool_name c) in
     reject_if (\<not> rbc_investigation_allowed b) Rej_INVESTIGATION_NOT_ALLOWED
     @ reject_if (rbc_remaining_tool_calls b \<le> 0 \<or> rbc_max_tool_calls b \<le> rbc_used_tool_calls b) Rej_BUDGET_EXHAUSTED
     @ reject_if (safety \<noteq> [] \<and> \<not> (case capability of None \<Rightarrow> False | Some t \<Rightarrow>
           list_ex (\<lambda>g. gpc_gap_id g \<in> set (ctc_target_gap_ids c) \<and> addressed_requirements t g \<noteq> []) safety))
         Rej_ACTIONABLE_SAFETY_GAP_NOT_ADDRESSED
     @ reject_if (case capability of None \<Rightarrow> False | Some t \<Rightarrow> tc_risk_class t \<noteq> Risk_READ_ONLY) Rej_NON_READ_ONLY_TOOL
     @ reject_if (\<not> hdg_lookup_history_complete (rcs_history_digest s)) Rej_INCOMPLETE_LOOKUP_HISTORY
     @ reject_if (REPEATED_FAILURE_THRESHOLD \<le> repeated_count s c) Rej_REPEATED_NO_NEW_INFORMATION)"

definition deferral_policy :: "reasoning_context_snapshot \<Rightarrow> string list \<Rightarrow> rejection_code list" where
  "deferral_policy s is = (let safety = actionable_safety s in
     reject_if (safety \<noteq> [] \<and> \<not> list_ex (\<lambda>g. gpc_gap_id g \<in> set is) safety) Rej_ACTIONABLE_SAFETY_GAP_NOT_TARGETED)"

definition hard_policy :: "reasoning_context_snapshot \<Rightarrow> action_candidate \<Rightarrow> rejection_code list" where
  "hard_policy s c = dedup (validate_action s c
     @ (case c of CallTool x \<Rightarrow> call_policy s x | Wait x \<Rightarrow> deferral_policy s (wtc_target_gap_ids x)
        | Escalate x \<Rightarrow> deferral_policy s (etc_target_gap_ids x)))"

section \<open>The ranking\<close>

fun priority_rank :: "priority_class \<Rightarrow> nat" where
  "priority_rank Prio_SAFETY_CRITICAL = 3"
| "priority_rank Prio_DISCRIMINATING = 2"
| "priority_rank Prio_SUPPORTING = 1"

definition known_claims :: "reasoning_context_snapshot \<Rightarrow> claim_type list" where
  "known_claims s = map fc_claim_type (filter (\<lambda>f. fc_freshness f = Fresh_CURRENT
     \<and> fc_completeness f = Compl_COMPLETE) (rcs_current_facts s))"

definition active_hypothesis_ids :: "reasoning_context_snapshot \<Rightarrow> hypothesis_id list" where
  "active_hypothesis_ids s = map hc_hypothesis_id (filter (\<lambda>h. hc_status h \<notin> {Hs_CONFIRMED, Hs_ELIMINATED})
     (rcs_active_hypotheses s))"

text \<open>
  The ranker reads gaps and tools by key; a proposal with an unknown one raises \<open>KeyError\<close>. \<open>rank_tool\<close>
  is the last tool of a name.
\<close>

definition rank_tool :: "reasoning_context_snapshot \<Rightarrow> tool_name \<Rightarrow> error + tool_capability" where
  "rank_tool s t = needE KeyError (find (\<lambda>c. tc_tool_name c = t) (rev (rcs_available_tools s)))"

definition rank_gaps :: "reasoning_context_snapshot \<Rightarrow> string list \<Rightarrow> error + gap_capsule list" where
  "rank_gaps s is = mapE (\<lambda>i. needE KeyError (gap_by_id (rcs_open_evidence_gaps s) i)) (remdups is)"

definition addressed_targets :: "reasoning_context_snapshot \<Rightarrow> call_tool_candidate
    \<Rightarrow> error + tool_capability \<times> gap_capsule list" where
  "addressed_targets s c = bindE (rank_tool s (ctc_tool_name c)) (\<lambda>t. bindE (rank_gaps s (ctc_target_gap_ids c)) (\<lambda>gs.
     Inr (t, filter (\<lambda>g. addressed_requirements t g \<noteq> []) gs)))"

definition call_coverage :: "reasoning_context_snapshot \<Rightarrow> validated_action_proposal list \<Rightarrow> error + string list" where
  "call_coverage s ps = bindE (mapE (\<lambda>p. case vap_candidate p of
       CallTool c \<Rightarrow> bindE (addressed_targets s c) (\<lambda>(_, gs). Inr (map gpc_gap_id gs)) | _ \<Rightarrow> Inr []) ps)
     (\<lambda>gss. Inr (concat gss))"

definition call_detail :: "reasoning_context_snapshot \<Rightarrow> call_tool_candidate \<Rightarrow> error + ranking_detail" where
  "call_detail s c = bindE (addressed_targets s c) (\<lambda>(t, targets).
     if targets = [] then Inl ValueError
     else let requirements = remdups (concat (map (addressed_requirements t) targets)) in
       Inr \<lparr> rkd_candidate_id = ctc_candidate_id c, rkd_priority = Max (set (map (priority_rank \<circ> gpc_priority) targets)),
         rkd_novel_requirement_coverage = length (filter (\<lambda>r. case r of Inl k \<Rightarrow> k \<notin> set (known_claims s)
            | Inr _ \<Rightarrow> True) requirements),
         rkd_coverage = length requirements,
         rkd_hypothesis_discrimination = length (filter (\<lambda>h. h \<in> set (active_hypothesis_ids s))
            (remdups (concat (map gpc_related_hypotheses targets)))),
         rkd_economy = (if tc_estimated_cost_class t = Est_LOW then 1 else 0)
            + (if tc_estimated_latency_class t = Est_LOW then 1 else 0),
         rkd_repeated_query_penalty = repeated_count s c \<rparr>)"

definition deferral_detail :: "reasoning_context_snapshot \<Rightarrow> string list \<Rightarrow> action_candidate \<Rightarrow> error + ranking_detail" where
  "deferral_detail s covered c = bindE (rank_gaps s (target_gap_ids c)) (\<lambda>targets.
     Inr \<lparr> rkd_candidate_id = candidate_id c,
       rkd_priority = max_default 0 (map (priority_rank \<circ> gpc_priority)
         (filter (\<lambda>g. gpc_gap_id g \<notin> set covered) targets)),
       rkd_novel_requirement_coverage = 0, rkd_coverage = 0, rkd_hypothesis_discrimination = 0,
       rkd_economy = 0, rkd_repeated_query_penalty = 0 \<rparr>)"

definition detail_of :: "reasoning_context_snapshot \<Rightarrow> string list \<Rightarrow> validated_action_proposal
    \<Rightarrow> error + validated_action_proposal \<times> ranking_detail" where
  "detail_of s covered p = bindE (case vap_candidate p of CallTool c \<Rightarrow> call_detail s c
     | c \<Rightarrow> deferral_detail s covered c) (\<lambda>d. Inr (p, d))"

text \<open>The sort key, negated where the largest value comes first; the candidate identifier breaks ties.\<close>

definition rank_numbers :: "ranking_detail \<Rightarrow> int list" where
  "rank_numbers d = [- int (rkd_priority d), - int (rkd_novel_requirement_coverage d), - int (rkd_coverage d),
     - int (rkd_hypothesis_discrimination d), - int (rkd_economy d), int (rkd_repeated_query_penalty d)]"

definition in_rank_order :: "(validated_action_proposal \<times> ranking_detail) list
    \<Rightarrow> (validated_action_proposal \<times> ranking_detail) list" where
  "in_rank_order rows = sort_key (rank_numbers \<circ> snd) (sort_key (rkd_candidate_id \<circ> snd) rows)"

definition rank :: "reasoning_context_snapshot \<Rightarrow> validated_action_proposal list
    \<Rightarrow> error + (validated_action_proposal \<times> ranking_detail) list" where
  "rank s ps = bindE (call_coverage s ps) (\<lambda>covered. bindE (mapE (detail_of s covered) ps) (\<lambda>rows.
     Inr (in_rank_order rows)))"

section \<open>The service\<close>

text \<open>
  \<open>ReferenceAliasProjector\<close>: an alias for every external reference, in sorted order, none of them a
  string of the payload; \<open>ref_alias n\<close> is \<open>EXTREF-\<close> with at least three digits.
\<close>

definition REFERENCE_CLAIMS :: "claim_type list" where
  "REFERENCE_CLAIMS = [Claim_PAYMENT_TRANSACTION_ID, Claim_TRANSACTION_FUND_REQUEST_ID, Claim_LOAN_NOTE_REFERENCE,
     Claim_ASSET_DELIVERY_EVENT_REF]"

definition ref_alias :: "nat \<Rightarrow> string" where
  "ref_alias n = ''EXTREF-'' @ replicate (3 - length (decimal n)) (CHR ''0'') @ decimal n"

definition subject_reference :: "evidence_subject \<Rightarrow> string list" where
  "subject_reference x = (if es_kind x = Subj_ORDER then [] else [es_identifier x])"

definition value_reference :: "claim_type \<Rightarrow> val \<Rightarrow> string list" where
  "value_reference claim v = (if claim \<in> set REFERENCE_CLAIMS then (case val_string v of None \<Rightarrow> [] | Some s \<Rightarrow> [s]) else [])"

definition external_refs :: "reasoning_context_snapshot \<Rightarrow> string list" where
  "external_refs s = sorted_set (pic_transaction_ref_preview (rcs_financial_identity s)
     @ concat (map (\<lambda>f. subject_reference (fc_subject f) @ value_reference (fc_claim_type f) (fc_value f)) (rcs_current_facts s))
     @ concat (map (\<lambda>g. subject_reference (hsg_subject g)
         @ value_reference (hsg_claim_type g) (hsg_first_observed_value g)
         @ value_reference (hsg_claim_type g) (hsg_last_observed_value g)) (hdg_state_transitions (rcs_history_digest s))))"

text \<open>
  The first free number from \<open>n\<close> on. Among more numbers than there are reserved strings one is free, so
  the fuel is never used up.
\<close>

primrec free_number :: "nat \<Rightarrow> string list \<Rightarrow> nat \<Rightarrow> nat" where
  "free_number 0 reserved n = n"
| "free_number (Suc k) reserved n = (if ref_alias n \<in> set reserved then free_number k reserved (Suc n) else n)"

primrec alias_table :: "string list \<Rightarrow> nat \<Rightarrow> string list \<Rightarrow> (string \<times> string) list" where
  "alias_table reserved n [] = []"
| "alias_table reserved n (r # rs) = (
     let m = free_number (Suc (length reserved)) reserved n; a = ref_alias m
     in (r, a) # alias_table (a # reserved) m rs)"

text \<open>What the service records of a draft: its hash and that of the rendered input.\<close>

record planner_text =
  ptx_input_hash :: "reasoning_context_snapshot \<Rightarrow> string"
  ptx_draft_hash :: "planner_draft \<Rightarrow> string"
  ptx_decision_hash :: "string \<Rightarrow> string \<Rightarrow> string \<Rightarrow> string"

definition received_plan :: "error + planner_draft \<Rightarrow> error + planner_draft" where
  "received_plan reply = (case reply of Inl e \<Rightarrow> Inl (if e = PlannerProtocolError then e else PlannerUnavailable)
     | Inr dr \<Rightarrow> if planner_draft_valid dr then Inr dr else Inl PlannerProtocolError)"

definition judge_candidate :: "reasoning_context_snapshot \<Rightarrow> action_candidate \<Rightarrow> action_candidate \<times> rejection_code list" where
  "judge_candidate s c = (c, case validate_action s c of [] \<Rightarrow> hard_policy s c | rs \<Rightarrow> rs)"

definition renderable :: "context_text \<Rightarrow> reasoning_context_snapshot \<Rightarrow> error + unit" where
  "renderable T s = (if \<not> snapshot_valid s then Inl ContextEnvelopeInvariantError
     else if rcs_snapshot_id s \<noteq> snapshot_digest T s \<or> \<not> fits s then Inl PlannerProtocolError else Inr ())"

definition proposal_of :: "reasoning_context_snapshot \<Rightarrow> action_candidate \<Rightarrow> validated_action_proposal" where
  "proposal_of s c = \<lparr> vap_snapshot_id = rcs_snapshot_id s, vap_policy_version = PLANNER_POLICY_VERSION, vap_candidate = c \<rparr>"

definition decide_draft :: "planner_text \<Rightarrow> reasoning_context_snapshot \<Rightarrow> planner_draft \<Rightarrow> error + planner_decision" where
  "decide_draft P s dr = (
     if pdr_snapshot_id dr \<noteq> rcs_snapshot_id s then Inl PlannerProtocolError
     else let results = map (judge_candidate s) (pdr_candidates dr);
              valid = map (proposal_of s \<circ> fst) (filter (\<lambda>x. snd x = []) results)
       in bindE (rank s valid) (\<lambda>rows.
         Inr \<lparr> pdc_decision_id = ptx_decision_hash P (rcs_snapshot_id s) (ptx_input_hash P s) (ptx_draft_hash P dr),
           pdc_snapshot_id = rcs_snapshot_id s, pdc_planner_draft_hash = ptx_draft_hash P dr,
           pdc_valid_candidates = valid, pdc_rejected_candidates = filter (\<lambda>x. snd x \<noteq> []) results,
           pdc_selected_action = (case rows of [] \<Rightarrow> None | (p, _) # _ \<Rightarrow> Some p),
           pdc_ranking_details = map snd rows, pdc_policy_version = PLANNER_POLICY_VERSION,
           pdc_ranking_version = ACTION_RANKING_VERSION, pdc_created_at = rcs_assembled_at s \<rparr>))"

definition plan :: "context_text \<Rightarrow> planner_text \<Rightarrow> reasoning_context_snapshot \<Rightarrow> error + planner_draft
    \<Rightarrow> error + planner_decision" where
  "plan T P s reply = bindE (renderable T s) (\<lambda>_. bindE (received_plan reply) (decide_draft P s))"

section \<open>What the gates let through\<close>

lemma reject_if_Nil [simp]: "reject_if b r = [] \<longleftrightarrow> \<not> b"
  by (simp add: reject_if_def)

text \<open>The specification of the gates: an action a run may take on this snapshot.\<close>

definition permitted_call :: "reasoning_context_snapshot \<Rightarrow> call_tool_candidate \<Rightarrow> bool" where
  "permitted_call s c = (\<exists>t\<in>set (rcs_available_tools s). tc_tool_name t = ctc_tool_name c
     \<and> tc_risk_class t = Risk_READ_ONLY \<and> set (ctc_expected_claim_types c) \<subseteq> set (tc_produces_claim_types t)
     \<and> (\<exists>g\<in>set (open_gaps s). gpc_gap_id g \<in> set (ctc_target_gap_ids c) \<and> addressed_requirements t g \<noteq> []
          \<and> (actionable_safety s = [] \<or> (\<exists>g'\<in>set (actionable_safety s). gpc_gap_id g' \<in> set (ctc_target_gap_ids c)
               \<and> addressed_requirements t g' \<noteq> []))))"

definition permitted :: "reasoning_context_snapshot \<Rightarrow> action_candidate \<Rightarrow> bool" where
  "permitted s c = (set (target_gap_ids c) \<subseteq> gpc_gap_id ` set (open_gaps s) \<and> (case c of
     CallTool x \<Rightarrow> permitted_call s x \<and> tq_internal_order_id (ctc_query x) = rcs_internal_order_id s
       \<and> rbc_investigation_allowed (rcs_budget s) \<and> rbc_used_tool_calls (rcs_budget s) < rbc_max_tool_calls (rcs_budget s)
       \<and> hdg_lookup_history_complete (rcs_history_digest s) \<and> repeated_count s x < 3
       \<and> (ctc_tool_name x = Tool_PROTOCOL \<or> tq_protocol_version (ctc_query x) = None)
       \<and> tq_effective_at (ctc_query x) = None
   | _ \<Rightarrow> actionable_safety s = []
       \<or> (\<exists>g\<in>set (actionable_safety s). gpc_gap_id g \<in> set (target_gap_ids c))))"

lemma gap_by_id_Some: "gap_by_id gs i = Some g \<Longrightarrow> g \<in> set gs \<and> gpc_gap_id g = i"
  by (auto simp: gap_by_id_def find_Some_iff in_set_conv_nth) (metis length_rev nth_mem set_rev in_set_conv_nth)

lemma targeted_gaps_mem: "g \<in> set (targeted_gaps s is) \<Longrightarrow> g \<in> set (open_gaps s) \<and> gpc_gap_id g \<in> set is"
proof -
  assume "g \<in> set (targeted_gaps s is)"
  then obtain i where "i \<in> set is" "gap_by_id (open_gaps s) i = Some g"
    by (auto simp: targeted_gaps_def List.map_filter_def)
  then show ?thesis using gap_by_id_Some by fastforce
qed

lemma tool_by_name_Some: "tool_by_name s n = Some t \<Longrightarrow> t \<in> set (rcs_available_tools s) \<and> tc_tool_name t = n"
  by (auto simp: tool_by_name_def find_Some_iff)

lemma call_gates:
  assumes "call_rejections s c = []" and "call_policy s c = []"
  shows "permitted_call s c"
proof -
  obtain t where t: "tool_by_name s (ctc_tool_name c) = Some t"
    using assms(1) by (auto simp: call_rejections_def Let_def)
  obtain g where "g \<in> set (targeted_gaps s (ctc_target_gap_ids c))" "addressed_requirements t g \<noteq> []"
    using assms(1) t by (auto simp: call_rejections_def Let_def list_ex_iff)
  then show ?thesis
    using assms t tool_by_name_Some [OF t] targeted_gaps_mem
    unfolding permitted_call_def call_rejections_def call_policy_def Let_def
    by (simp add: list_ex_iff) blast
qed

lemma hard_policy_admissible: "hard_policy s c = [] \<Longrightarrow> permitted s c"
  by (cases c) (auto simp: hard_policy_def validate_action_def permitted_def unknown_target_def call_gates
      call_rejections_def call_policy_def deferral_policy_def invalid_protocol_query_def Let_def list_ex_iff
      REPEATED_FAILURE_THRESHOLD_def split: if_splits option.splits)

section \<open>Aliases\<close>

fun numeral_value :: "string \<Rightarrow> nat" where
  "numeral_value s = foldl (\<lambda>n c. 10 * n + (of_char c - 48)) 0 s"

lemma numeral_value_decimal: "numeral_value (decimal n) = n"
proof (induction n rule: decimal.induct)
  case (1 n)
  show ?case
  proof (cases "n < 10")
    case True then show ?thesis by (simp add: decimal.simps [of n])
  next
    case False
    with 1 have "numeral_value (decimal (n div 10)) = n div 10" by blast
    then show ?thesis using False by (simp add: decimal.simps [of n])
  qed
qed

lemma numeral_value_zeros: "numeral_value (replicate k (CHR ''0'') @ s) = numeral_value s"
  by (induction k) simp_all

lemma ref_alias_inj: "ref_alias m = ref_alias n \<Longrightarrow> m = n"
proof -
  assume "ref_alias m = ref_alias n"
  then have "replicate (3 - length (decimal m)) (CHR ''0'') @ decimal m
      = replicate (3 - length (decimal n)) (CHR ''0'') @ decimal n" by (simp add: ref_alias_def)
  then have "numeral_value (decimal m) = numeral_value (decimal n)" by (metis numeral_value_zeros)
  then show "m = n" by (simp only: numeral_value_decimal)
qed

lemma free_number_free:
  assumes "card (set reserved \<inter> ref_alias ` {n..}) < k"
  shows "ref_alias (free_number k reserved n) \<notin> set reserved"
  using assms
proof (induction k arbitrary: n)
  case (Suc k)
  show ?case
  proof (cases "ref_alias n \<in> set reserved")
    case True
    have "set reserved \<inter> ref_alias ` {Suc n..} \<subseteq> (set reserved \<inter> ref_alias ` {n..}) - {ref_alias n}"
      by (auto dest: ref_alias_inj)
    then have "card (set reserved \<inter> ref_alias ` {Suc n..}) \<le> card ((set reserved \<inter> ref_alias ` {n..}) - {ref_alias n})"
      by (intro card_mono) auto
    also have "\<dots> < card (set reserved \<inter> ref_alias ` {n..})"
      using True by (intro psubset_card_mono) auto
    finally have "card (set reserved \<inter> ref_alias ` {Suc n..}) < k" using Suc.prems by linarith
    with Suc.IH True show ?thesis by simp
  qed simp
qed simp

lemma alias_table_injective:
  "distinct (map snd (alias_table reserved n rs)) \<and> set (map snd (alias_table reserved n rs)) \<inter> set reserved = {}
     \<and> map fst (alias_table reserved n rs) = rs"
proof (induction rs arbitrary: reserved n)
  case (Cons r rs)
  have "card (set reserved \<inter> ref_alias ` {n..}) < Suc (length reserved)"
    by (metis card_length card_mono finite_set inf_le1 le_trans less_Suc_eq_le)
  then have "ref_alias (free_number (Suc (length reserved)) reserved n) \<notin> set reserved" by (rule free_number_free)
  with Cons.IH show ?case by (fastforce simp: Let_def simp del: free_number.simps)
qed simp

section \<open>The order of the rows\<close>

lemma mapE_all: "(\<forall>x\<in>set xs. \<exists>y. f x = Inr y) \<Longrightarrow> mapE f xs = Inr (map (projr \<circ> f) xs)"
  by (induction xs) auto

lemma mapE_Inr_all: "mapE f xs = Inr ys \<Longrightarrow> \<forall>x\<in>set xs. \<exists>y. f x = Inr y"
  by (induction xs arbitrary: ys) auto

lemma mapE_Inr_map: "mapE f xs = Inr ys \<Longrightarrow> ys = map (projr \<circ> f) xs"
  using mapE_all [OF mapE_Inr_all, of f xs ys] by simp

text \<open>A stable sort by one key after another does not depend on the order of the input when the first keys are distinct.\<close>

lemma sort_twice_unique:
  assumes "mset xs = mset ys" and "distinct (map g xs)"
  shows "sort_key f (sort_key g xs) = sort_key f (sort_key g ys)"
proof -
  have "inj_on g (set xs)" using assms(2) by (simp add: distinct_map)
  then have "sort_key g xs = sort_key g ys"
    by (intro sort_key_inj_key_eq) (simp_all add: assms(1))
  then show ?thesis by simp
qed

lemma set_mset_same: "mset xs = mset ys \<Longrightarrow> set xs = set ys"
  by (metis set_mset_mset)

lemma mapE_permuted:
  assumes "mapE f xs = Inr ys" and "mset xs' = mset xs"
  shows "mapE f xs' = Inr (map (projr \<circ> f) xs')" and "ys = map (projr \<circ> f) xs"
proof -
  have "\<forall>x\<in>set xs'. \<exists>y. f x = Inr y" using mapE_Inr_all [OF assms(1)] set_mset_same [OF assms(2)] by simp
  then show "mapE f xs' = Inr (map (projr \<circ> f) xs')" by (rule mapE_all)
  show "ys = map (projr \<circ> f) xs" by (rule mapE_Inr_map [OF assms(1)])
qed

lemma call_coverage_set:
  assumes "call_coverage s ps = Inr covered" and "mset qs = mset ps"
  shows "\<exists>covered'. call_coverage s qs = Inr covered' \<and> set covered' = set covered"
proof -
  define f where "f = (\<lambda>p :: validated_action_proposal. case vap_candidate p of
    CallTool c \<Rightarrow> bindE (addressed_targets s c) (\<lambda>(_, gs). Inr (map gpc_gap_id gs)) | _ \<Rightarrow> Inr [])"
  obtain gss where gss: "mapE f ps = Inr gss" "covered = concat gss"
    using assms(1) unfolding call_coverage_def f_def by blast
  note m = mapE_permuted [OF gss(1) assms(2)]
  have "set (concat (map (projr \<circ> f) qs)) = set covered"
    using set_mset_same [OF assms(2)] by (simp add: gss(2) m(2))
  then show ?thesis using m(1) by (simp add: call_coverage_def flip: f_def)
qed

lemma detail_of_cong: "set covered = set covered' \<Longrightarrow> detail_of s covered p = detail_of s covered' p"
  by (simp add: detail_of_def deferral_detail_def cong: action_candidate.case_cong)

lemma detail_of_id:
  assumes "detail_of s covered p = Inr row"
  shows "fst row = p \<and> rkd_candidate_id (snd row) = candidate_id (vap_candidate p)"
  using assms
  by (auto simp: detail_of_def call_detail_def deferral_detail_def Let_def split: action_candidate.splits if_splits)

lemma mset_in_rank_order: "mset (map fst (in_rank_order rows)) = mset (map fst rows)"
  by (simp add: in_rank_order_def mset_map)

lemma rank_rows:
  assumes "rank s ps = Inr rows"
  shows "mset (map fst rows) = mset ps"
proof -
  obtain covered where m: "mapE (detail_of s covered) ps = Inr (map (projr \<circ> detail_of s covered) ps)"
    and rows: "rows = in_rank_order (map (projr \<circ> detail_of s covered) ps)"
    using assms by (auto simp: rank_def dest: mapE_Inr_map)
  have "fst (projr (detail_of s covered p)) = p" if "p \<in> set ps" for p
    using mapE_Inr_all [OF m] that detail_of_id by fastforce
  then have "map fst (map (projr \<circ> detail_of s covered) ps) = ps" unfolding map_map by (intro map_idI) simp
  then show ?thesis unfolding rows mset_in_rank_order by (rule arg_cong)
qed

lemma rank_permuted:
  assumes "rank s ps = Inr rows" and "mset qs = mset ps" and "distinct (map (candidate_id \<circ> vap_candidate) ps)"
  shows "rank s qs = Inr rows"
proof -
  obtain covered rows0 where c: "call_coverage s ps = Inr covered" and m: "mapE (detail_of s covered) ps = Inr rows0"
    and rows: "rows = in_rank_order rows0"
    using assms(1) by (auto simp: rank_def)
  obtain covered' where c': "call_coverage s qs = Inr covered'" "set covered' = set covered"
    using call_coverage_set [OF c assms(2)] by blast
  have same: "detail_of s covered' = detail_of s covered"
    by (intro ext detail_of_cong c'(2))
  note m' = mapE_permuted [OF m assms(2)]
  have "rkd_candidate_id (snd (projr (detail_of s covered p))) = candidate_id (vap_candidate p)" if "p \<in> set ps" for p
    using mapE_Inr_all [OF m] that detail_of_id by fastforce
  then have ids: "map (rkd_candidate_id \<circ> snd) rows0 = map (candidate_id \<circ> vap_candidate) ps"
    by (simp add: m'(2))
  have "mset rows0 = mset (map (projr \<circ> detail_of s covered) qs)" using assms(2) by (simp add: m'(2) mset_map)
  then have "in_rank_order (map (projr \<circ> detail_of s covered) qs) = rows"
    unfolding rows in_rank_order_def using assms(3) ids by (intro sort_twice_unique [symmetric]) (simp_all only:)
  then show ?thesis using c'(1) m'(1) by (simp add: rank_def same)
qed

section \<open>Decisions\<close>

definition passed :: "reasoning_context_snapshot \<Rightarrow> planner_draft \<Rightarrow> validated_action_proposal list" where
  "passed s dr = map (proposal_of s \<circ> fst) (filter (\<lambda>x. snd x = []) (map (judge_candidate s) (pdr_candidates dr)))"

lemma judge_candidate_passes [simp]:
  "fst (judge_candidate s c) = c"
  "snd (judge_candidate s c) = [] \<longleftrightarrow> validate_action s c = [] \<and> hard_policy s c = []"
  by (cases "validate_action s c"; simp add: judge_candidate_def)+

lemma passed_eq: "passed s dr = map (proposal_of s) (filter (\<lambda>c. validate_action s c = [] \<and> hard_policy s c = [])
    (pdr_candidates dr))"
  by (simp add: passed_def filter_map comp_def)

lemma decide_draft_Inr:
  "decide_draft P s dr = Inr d \<longleftrightarrow> pdr_snapshot_id dr = rcs_snapshot_id s \<and> (\<exists>rows. rank s (passed s dr) = Inr rows
     \<and> d = \<lparr> pdc_decision_id = ptx_decision_hash P (rcs_snapshot_id s) (ptx_input_hash P s) (ptx_draft_hash P dr),
           pdc_snapshot_id = rcs_snapshot_id s, pdc_planner_draft_hash = ptx_draft_hash P dr,
           pdc_valid_candidates = passed s dr,
           pdc_rejected_candidates = filter (\<lambda>x. snd x \<noteq> []) (map (judge_candidate s) (pdr_candidates dr)),
           pdc_selected_action = (case rows of [] \<Rightarrow> None | (p, _) # _ \<Rightarrow> Some p),
           pdc_ranking_details = map snd rows, pdc_policy_version = PLANNER_POLICY_VERSION,
           pdc_ranking_version = ACTION_RANKING_VERSION, pdc_created_at = rcs_assembled_at s \<rparr>)"
  by (auto simp: decide_draft_def Let_def bindE_Inr_iff passed_def)

lemma selected_passed:
  assumes "decide_draft P s dr = Inr d" and "pdc_selected_action d = Some p"
  shows "\<exists>c. p = proposal_of s c \<and> c \<in> set (pdr_candidates dr) \<and> hard_policy s c = []"
proof -
  obtain rows where rows: "rank s (passed s dr) = Inr rows"
    and d: "pdc_selected_action d = (case rows of [] \<Rightarrow> None | (p, _) # _ \<Rightarrow> Some p)"
    using assms(1) by (auto simp: decide_draft_Inr)
  have "p \<in> set (map fst rows)" using assms(2) unfolding d by (auto split: list.splits)
  then have "p \<in> set (passed s dr)" using set_mset_same [OF rank_rows [OF rows]] by simp
  then show ?thesis by (auto simp: passed_eq)
qed

section \<open>The ranking is total on permitted proposals\<close>

definition well_named :: "reasoning_context_snapshot \<Rightarrow> bool" where
  "well_named s = (distinct (map gpc_gap_id (rcs_open_evidence_gaps s))
     \<and> distinct (map tc_tool_name (rcs_available_tools s)))"

lemma find_unique: "distinct (map f xs) \<Longrightarrow> x \<in> set xs \<Longrightarrow> find (\<lambda>y. f y = f x) xs = Some x"
  by (induction xs) (auto simp: image_iff)

lemma find_unique_rev: "distinct (map f xs) \<Longrightarrow> x \<in> set xs \<Longrightarrow> find (\<lambda>y. f y = f x) (rev xs) = Some x"
  by (rule find_unique) (simp_all add: rev_map [symmetric])

lemma gap_by_id_unique:
  assumes "well_named s" and "g \<in> set (rcs_open_evidence_gaps s)"
  shows "gap_by_id (rcs_open_evidence_gaps s) (gpc_gap_id g) = Some g"
  using assms by (simp add: gap_by_id_def well_named_def find_unique_rev)

lemma rank_gaps_total:
  assumes "well_named s" and "set is \<subseteq> gpc_gap_id ` set (open_gaps s)"
  shows "\<exists>gs. rank_gaps s is = Inr gs \<and> (\<forall>g\<in>set (open_gaps s). gpc_gap_id g \<in> set is \<longrightarrow> g \<in> set gs)"
proof -
  define f where "f = (\<lambda>i. needE KeyError (gap_by_id (rcs_open_evidence_gaps s) i))"
  have f: "f (gpc_gap_id g) = Inr g" if "g \<in> set (open_gaps s)" for g
    using that gap_by_id_unique [OF assms(1)] by (simp add: f_def open_gaps_def)
  then have "\<forall>i\<in>set (remdups is). \<exists>g. f i = Inr g" using assms(2) by fastforce
  then have "mapE f (remdups is) = Inr (map (projr \<circ> f) (remdups is))" by (rule mapE_all)
  then show ?thesis using f by (force simp: rank_gaps_def f_def image_iff)
qed

lemma addressed_targets_total:
  assumes "well_named s" and "validate_action s (CallTool c) = []"
  shows "\<exists>t gs. addressed_targets s c = Inr (t, gs) \<and> gs \<noteq> []"
proof -
  have call: "call_rejections s c = []" and known: "set (ctc_target_gap_ids c) \<subseteq> gpc_gap_id ` set (open_gaps s)"
    using assms(2) by (simp_all add: validate_action_def unknown_target_def)
  obtain t where t: "tool_by_name s (ctc_tool_name c) = Some t"
    using call by (auto simp: call_rejections_def Let_def)
  obtain g where g: "g \<in> set (targeted_gaps s (ctc_target_gap_ids c))" "addressed_requirements t g \<noteq> []"
    using call t by (auto simp: call_rejections_def Let_def list_ex_iff)
  have t_in: "t \<in> set (rcs_available_tools s)" "tc_tool_name t = ctc_tool_name c" using tool_by_name_Some [OF t] by simp_all
  have "find (\<lambda>x. tc_tool_name x = tc_tool_name t) (rev (rcs_available_tools s)) = Some t"
    using assms(1) t_in(1) unfolding well_named_def by (intro find_unique_rev) simp_all
  then have "rank_tool s (ctc_tool_name c) = Inr t" unfolding t_in(2) by (simp add: rank_tool_def)
  moreover obtain gs where "rank_gaps s (ctc_target_gap_ids c) = Inr gs" "g \<in> set gs"
    using rank_gaps_total [OF assms(1) known] targeted_gaps_mem [OF g(1)] by blast
  ultimately show ?thesis using g(2) by (auto simp: addressed_targets_def filter_empty_conv)
qed

lemma detail_of_total:
  assumes "well_named s" and "validate_action s (vap_candidate p) = []"
  shows "\<exists>row. detail_of s covered p = Inr row"
proof (cases "vap_candidate p")
  case (CallTool c)
  with addressed_targets_total [of s c] assms show ?thesis by (auto simp: detail_of_def call_detail_def Let_def)
next
  case (Wait c)
  with assms rank_gaps_total [OF assms(1), of "wtc_target_gap_ids c"] show ?thesis
    by (auto simp: detail_of_def deferral_detail_def validate_action_def unknown_target_def)
next
  case (Escalate c)
  with assms rank_gaps_total [OF assms(1), of "etc_target_gap_ids c"] show ?thesis
    by (auto simp: detail_of_def deferral_detail_def validate_action_def unknown_target_def)
qed

lemma rank_total:
  assumes "well_named s" and "\<forall>p\<in>set ps. validate_action s (vap_candidate p) = []"
  shows "\<exists>rows. rank s ps = Inr rows"
proof -
  have "\<forall>p\<in>set ps. \<exists>y. (case vap_candidate p of
       CallTool c \<Rightarrow> bindE (addressed_targets s c) (\<lambda>(_, gs). Inr (map gpc_gap_id gs)) | _ \<Rightarrow> Inr []) = Inr y"
    using addressed_targets_total [OF assms(1)] assms(2) by (fastforce split: action_candidate.split)
  then obtain covered where "call_coverage s ps = Inr covered"
    by (auto simp: call_coverage_def dest!: mapE_all)
  moreover obtain rows where "mapE (detail_of s covered) ps = Inr rows"
    using mapE_all [of ps "detail_of s covered"] detail_of_total [OF assms(1)] assms(2) by blast
  ultimately show ?thesis by (simp add: rank_def)
qed

lemma decide_total:
  assumes "well_named s" and "pdr_snapshot_id dr = rcs_snapshot_id s"
  shows "\<exists>d. decide_draft P s dr = Inr d \<and> (pdc_selected_action d \<noteq> None \<longleftrightarrow> passed s dr \<noteq> [])"
proof -
  have "\<forall>p\<in>set (passed s dr). validate_action s (vap_candidate p) = []"
    by (auto simp: passed_eq proposal_of_def)
  then obtain rows where rows: "rank s (passed s dr) = Inr rows" using rank_total [OF assms(1)] by blast
  then obtain d where d: "decide_draft P s dr = Inr d"
    and sel: "pdc_selected_action d = (case rows of [] \<Rightarrow> None | (p, _) # _ \<Rightarrow> Some p)"
    using assms(2) by (auto simp: decide_draft_Inr)
  have "rows = [] \<longleftrightarrow> passed s dr = []" using rank_rows [OF rows] by auto
  then have "pdc_selected_action d \<noteq> None \<longleftrightarrow> passed s dr \<noteq> []" by (cases rows) (auto simp: sel)
  then show ?thesis using d by blast
qed

lemma plan_decides:
  assumes "well_named s" and "renderable T s = Inr ()" and "planner_draft_valid dr"
    and "pdr_snapshot_id dr = rcs_snapshot_id s"
  shows "\<exists>d. plan T P s (Inr dr) = Inr d \<and> (pdc_selected_action d \<noteq> None \<longleftrightarrow>
    (\<exists>c\<in>set (pdr_candidates dr). validate_action s c = [] \<and> hard_policy s c = []))"
  using decide_total [OF assms(1,4)] assms(2,3)
  by (simp add: plan_def received_plan_def passed_eq filter_empty_conv)

section \<open>A snapshot and a draft\<close>

text \<open>Texts for a concrete run: every digest is the same and every snapshot has the same length.\<close>

definition sample_context_text :: context_text where
  "sample_context_text = \<lparr> ctx_refs_digest = (\<lambda>_. ZERO_HASH), ctx_case_digest = (\<lambda>_. ZERO_HASH),
     ctx_evidence_digest = (\<lambda>_. ZERO_HASH), ctx_graph_digest = (\<lambda>_. ZERO_HASH), ctx_snapshot_digest = (\<lambda>_. ZERO_HASH),
     ctx_policy_digest = (\<lambda>_ _. ZERO_HASH), ctx_scope_text = tq_internal_order_id, ctx_subject_text = es_identifier,
     ctx_serialized_chars = (\<lambda>_. 900) \<rparr>"

definition sample_planner_text :: planner_text where
  "sample_planner_text = \<lparr> ptx_input_hash = (\<lambda>_. ZERO_HASH), ptx_draft_hash = (\<lambda>_. ZERO_HASH),
     ptx_decision_hash = (\<lambda>_ _ _. ZERO_HASH) \<rparr>"

definition sample_gap :: gap_capsule where
  "sample_gap = \<lparr> gpc_gap_id = ''gap-payment'', gpc_required_claim_types = [Inl Claim_PAYMENT_FINALITY],
     gpc_priority = Prio_SAFETY_CRITICAL, gpc_status = Gap_OPEN, gpc_related_hypotheses = [], gpc_evidence_refs = [] \<rparr>"

definition sample_reasoning_context :: reasoning_context_snapshot where
  "sample_reasoning_context = \<lparr> rcs_snapshot_id = ZERO_HASH, rcs_case_id = ''CASE-1'', rcs_internal_order_id = ''JD-1'',
     rcs_context_schema_version = ''6'', rcs_eligibility_policy_version = ''4'', rcs_compaction_policy_version = ''4'',
     rcs_context_policy_version = ''5'', rcs_hypothesis_rule_version = ''1'', rcs_assembled_at = 0,
     rcs_case_fingerprint = ZERO_HASH, rcs_evidence_fingerprint = ZERO_HASH, rcs_hypothesis_input_fingerprint = ZERO_HASH,
     rcs_hypothesis_graph_fingerprint = ZERO_HASH, rcs_policy_fingerprint = ZERO_HASH,
     rcs_task = case_task_contract sample_case, rcs_financial_subject = None,
     rcs_financial_identity = \<lparr> pic_result = Match_UNKNOWN, pic_mismatch_dimensions = [], pic_unknown_dimensions = [],
       pic_candidate_transaction_count = 0, pic_transaction_ref_preview = [], pic_transaction_refs_digest = ZERO_HASH,
       pic_evidence_ref_count = 0, pic_evidence_refs_digest = ZERO_HASH, pic_evidence_refs = [],
       pic_verification_version = ''1'' \<rparr>,
     rcs_current_facts = [], rcs_active_hypotheses = [], rcs_resolved_hypotheses_summary = [],
     rcs_open_evidence_gaps = [sample_gap],
     rcs_safety_constraints = \<lparr> sct_invariants = SAFETY_INVARIANTS, sct_forbidden_actions = [] \<rparr>,
     rcs_budget = \<lparr> rbc_max_tool_calls = 10, rbc_used_tool_calls = 0, rbc_remaining_tool_calls = 10,
       rbc_investigation_allowed = True \<rparr>,
     rcs_available_tools = [tool_capability_of Tool_PAYMENT [Claim_PAYMENT_FINALITY] Dc_TOKENIZED_FINANCIAL_IDENTITY],
     rcs_history_digest = \<lparr> hdg_retry_window_start = None, hdg_tool_calls_used = 0, hdg_evidence_count = 0,
       hdg_latest_observation_time = None, hdg_repeated_lookup_groups = [], hdg_state_transitions = [],
       hdg_lookup_history_complete = True \<rparr>,
     rcs_selected_evidence_refs = [],
     rcs_omitted_evidence_summary = \<lparr> oes_total_evidence = 0, oes_selected = 0, oes_omitted = [] \<rparr>,
     rcs_context_budget_usage = \<lparr> cbu_serialized_chars = 900, cbu_approximate_tokens = 300, cbu_fact_capsules = 0,
       cbu_hypothesis_capsules = 0, cbu_gap_capsules = 1, cbu_history_items = 0, cbu_limits = default_context_budget \<rparr> \<rparr>"

definition sample_call :: action_candidate where
  "sample_call = CallTool \<lparr> ctc_candidate_id = ''c1'', ctc_target_gap_ids = [''gap-payment''],
     ctc_tool_name = Tool_PAYMENT, ctc_query = sample_query, ctc_expected_claim_types = [Claim_PAYMENT_FINALITY] \<rparr>"

definition sample_draft :: "action_candidate list \<Rightarrow> planner_draft" where
  "sample_draft cs = \<lparr> pdr_snapshot_id = ZERO_HASH, pdr_candidates = cs \<rparr>"

lemmas sample_planning = sample_context_text_def sample_planner_text_def sample_gap_def
  sample_reasoning_context_def sample_call_def sample_draft_def

lemma sample_zero_hash: "hash_ref ZERO_HASH"
  by code_simp

lemma sample_gap_ids: "gap_ids_valid [''gap-payment'']" "context_reference ''gap-payment''"
  by code_simp+

lemma sample_ids: "candidate_id_valid ''c1''" "candidate_id_valid ''w1''" "opaque_subject_ref ''JD-1''"
  "opaque_subject_ref ''CASE-1''"
  by code_simp+

lemma sample_versions: "structured_version ''1''" "structured_version ''4''" "structured_version ''5''"
  "structured_version ''6''"
  by code_simp+

lemmas sample_strings = sample_zero_hash sample_gap_ids sample_ids sample_versions

lemma sample_draft_valid: "planner_draft_valid (sample_draft [sample_call])"
  by (simp add: planner_draft_valid_def sample_planning proposal_query_valid_def sample_strings
    sample_query_def opt_valid_def)

definition sample_wait :: action_candidate where
  "sample_wait = Wait \<lparr> wtc_candidate_id = ''w1'', wtc_target_gap_ids = [''gap-payment''],
     wtc_reason_code = Rsn_INSUFFICIENT_EVIDENCE, wtc_suggested_wait_seconds = 60 \<rparr>"

lemma sample_drafts_valid: "planner_draft_valid (sample_draft [sample_call, sample_wait])"
  by (simp add: planner_draft_valid_def sample_planning sample_wait_def proposal_query_valid_def sample_strings
    sample_query_def opt_valid_def)

lemma sample_snapshot_valid: "snapshot_valid sample_reasoning_context"
  by (simp add: snapshot_valid_def sample_reasoning_context_def sample_gap_def sample_strings opt_valid_def
    payment_identity_context_valid_def gap_capsule_valid_def runtime_budget_valid_def history_digest_valid_def
    omitted_summary_valid_def context_budget_valid_def default_context_budget_def)

lemma sample_renderable: "renderable sample_context_text sample_reasoning_context = Inr ()"
  using sample_snapshot_valid
  by (simp add: renderable_def snapshot_digest_def fits_def default_context_budget_def sample_planning)

lemmas sample_gates = validate_action_def hard_policy_def call_rejections_def call_policy_def unknown_target_def
  invalid_protocol_query_def actionable_safety_def open_gaps_def targeted_gaps_def gap_by_id_def tool_by_name_def
  addressed_requirements_def repeated_count_def tool_capability_of_def sample_query_def reject_if_def Let_def
  List.map_filter_def max_default_def REPEATED_FAILURE_THRESHOLD_def

lemma sample_call_valid: "validate_action sample_reasoning_context sample_call = []"
  by (simp add: sample_gates sample_reasoning_context_def sample_gap_def sample_call_def)

lemma sample_call_passes: "hard_policy sample_reasoning_context sample_call = []"
  using sample_call_valid unfolding hard_policy_def
  by (simp add: sample_gates sample_reasoning_context_def sample_gap_def sample_call_def)

lemma sample_draft_simps [simp]: "pdr_snapshot_id (sample_draft cs) = rcs_snapshot_id sample_reasoning_context"
  "pdr_candidates (sample_draft cs) = cs"
  by (simp_all add: sample_draft_def sample_reasoning_context_def)

lemma sample_well_named: "well_named sample_reasoning_context"
  by (simp add: well_named_def sample_reasoning_context_def)

lemma sample_decision: "\<exists>d p. plan sample_context_text sample_planner_text sample_reasoning_context
    (Inr (sample_draft [sample_call])) = Inr d \<and> pdc_selected_action d = Some p"
  using plan_decides [OF sample_well_named sample_renderable sample_draft_valid] sample_call_valid sample_call_passes
  by fastforce

lemma sample_decided: "\<exists>d. decide_draft sample_planner_text sample_reasoning_context
    (sample_draft [sample_call, sample_wait]) = Inr d"
  using decide_total [OF sample_well_named] by (metis sample_draft_simps(1))

lemma selection_checked:
  assumes "plan T P s reply = Inr d" and "pdc_selected_action d = Some p"
  shows "snapshot_valid s \<and> fits s \<and> rcs_snapshot_id s = snapshot_digest T s
    \<and> pdc_snapshot_id d = rcs_snapshot_id s \<and> vap_snapshot_id p = rcs_snapshot_id s
    \<and> (\<exists>dr. reply = Inr dr \<and> planner_draft_valid dr \<and> vap_candidate p \<in> set (pdr_candidates dr))
    \<and> permitted s (vap_candidate p)"
proof -
  obtain dr where dr: "reply = Inr dr" "planner_draft_valid dr" "decide_draft P s dr = Inr d"
    and s: "renderable T s = Inr ()"
    using assms(1) by (auto simp: plan_def received_plan_def bindE_Inr_iff split: sum.splits if_splits)
  obtain c where c: "p = proposal_of s c" "c \<in> set (pdr_candidates dr)" "hard_policy s c = []"
    using selected_passed [OF dr(3) assms(2)] by blast
  have "pdc_snapshot_id d = rcs_snapshot_id s" using dr(3) by (auto simp: decide_draft_Inr)
  then show ?thesis using dr(1,2) s c hard_policy_admissible [OF c(3)]
    by (auto simp: renderable_def proposal_of_def split: if_splits)
qed

lemma selected_permitted:
  "plan T P s reply = Inr d \<Longrightarrow> pdc_selected_action d = Some p \<Longrightarrow> permitted s (vap_candidate p)"
  using selection_checked by blast

section \<open>Properties\<close>



text \<open>
  C35. The order in which the model lists its candidates is worth nothing: a draft with the same
  candidates in another order gives the same ranking and selects the same action.
\<close>

theorem planner_ignores_candidate_order:
  assumes "decide_draft P s dr = Inr d" and "planner_draft_valid dr"
    and "mset (pdr_candidates dr') = mset (pdr_candidates dr)" and "pdr_snapshot_id dr' = pdr_snapshot_id dr"
  shows "\<exists>d'. decide_draft P s dr' = Inr d' \<and> pdc_selected_action d' = pdc_selected_action d
    \<and> pdc_ranking_details d' = pdc_ranking_details d"
proof -
  obtain rows where rows: "rank s (passed s dr) = Inr rows" using assms(1) by (auto simp: decide_draft_Inr)
  have "mset (passed s dr') = mset (passed s dr)" using assms(3) by (simp add: passed_eq mset_map)
  moreover have "distinct (map (candidate_id \<circ> vap_candidate) (passed s dr))"
    using assms(2) by (auto simp: planner_draft_valid_def passed_eq proposal_of_def comp_def
        intro: distinct_map_filter)
  ultimately have "rank s (passed s dr') = Inr rows" by (rule rank_permuted [OF rows])
  then show ?thesis using assms(1,4) rows by (auto simp: decide_draft_Inr)
qed

theorem planner_ignores_candidate_order_witness:
  "\<exists>d d'. decide_draft sample_planner_text sample_reasoning_context (sample_draft [sample_call, sample_wait]) = Inr d
    \<and> decide_draft sample_planner_text sample_reasoning_context (sample_draft [sample_wait, sample_call]) = Inr d'
    \<and> pdc_selected_action d' = pdc_selected_action d"
  using sample_decided planner_ignores_candidate_order [OF _ sample_drafts_valid, of sample_planner_text
    sample_reasoning_context _ "sample_draft [sample_wait, sample_call]"]
  by fastforce

text \<open>
  C36. A useful proposal is never lost: when the gaps and the tools of the snapshot have distinct names,
  as the assembled ones have, and the draft is for this snapshot, the planner decides without an
  exception, and it selects an action exactly when some candidate passes validator and policy.
\<close>

theorem planner_selects_when_possible:
  assumes "well_named s" and "renderable T s = Inr ()" and "planner_draft_valid dr"
    and "pdr_snapshot_id dr = rcs_snapshot_id s"
  shows "\<exists>d. plan T P s (Inr dr) = Inr d \<and> (pdc_selected_action d \<noteq> None \<longleftrightarrow>
    (\<exists>c\<in>set (pdr_candidates dr). validate_action s c = [] \<and> hard_policy s c = []))"
  using assms by (rule plan_decides)

theorem planner_selects_when_possible_witness:
  "\<exists>d. plan sample_context_text sample_planner_text sample_reasoning_context (Inr (sample_draft [sample_call])) = Inr d
    \<and> pdc_selected_action d \<noteq> None"
  using planner_selects_when_possible [OF sample_well_named sample_renderable sample_draft_valid]
    sample_call_valid sample_call_passes
  by fastforce

end
