(* ===== verification/ContextSafety.thy ===== *)
theory ContextSafety
  imports Planner
begin

text \<open>
  What a reasoning context that the assembler returns guarantees, and with it what a planner can be led
  to select: whatever Evidence the Case has collected and however the budget cut it.
\<close>

section \<open>What rendering keeps\<close>

text \<open>What the gates read of the Case.\<close>

definition scope_of :: "reasoning_context_snapshot \<Rightarrow> runtime_budget_context \<times> tool_capability list \<times> string" where
  "scope_of s = (rcs_budget s, rcs_available_tools s, rcs_internal_order_id s)"

lemma scope_of_updates [simp]:
  "scope_of (s\<lparr> rcs_snapshot_id := i \<rparr>) = scope_of s" "scope_of (s\<lparr> rcs_context_budget_usage := u \<rparr>) = scope_of s"
  "scope_of (s\<lparr> rcs_selected_evidence_refs := rs \<rparr>) = scope_of s"
  "scope_of (s\<lparr> rcs_omitted_evidence_summary := os \<rparr>) = scope_of s"
  by (simp_all add: scope_of_def)

lemma scope_of_payload [simp]: "scope_of (payload_of A sel history) = (let c = ix_case (as_index A) in
    (runtime_budget_of c, capabilities_for_case c, case_internal_order_id c))"
  by (simp add: payload_of_def scope_of_def Let_def)

lemma converge_scope: "converge T usage n s = Inr s' \<Longrightarrow> scope_of s' = scope_of s"
proof (induction n arbitrary: s)
  case (Suc n)
  from Suc.prems show ?case unfolding converge.simps Let_def by (auto split: if_splits dest!: Suc.IH)
qed simp

lemma seal_scope: "seal T limits payload = Inr s \<Longrightarrow> scope_of s = scope_of payload"
  unfolding seal_def Let_def bindE_Inr_iff checked_Inr by (auto dest!: converge_scope)

lemma render_scope:
  assumes "render A sel reasons = Inr s"
  shows "scope_of s = (let c = ix_case (as_index A) in
    (runtime_budget_of c, capabilities_for_case c, case_internal_order_id c))"
proof -
  obtain history rs os where "seal (cc_text (as_config A)) (cc_budget (as_config A)) ((payload_of A sel history)\<lparr>
      rcs_selected_evidence_refs := rs, rcs_omitted_evidence_summary := os \<rparr>) = Inr s"
    using assms by (auto simp only: render_def Let_def bindE_Inr_iff)
  from seal_scope [OF this] show ?thesis by simp
qed

lemma trim_renders: "trim A accepted sel reasons = Inr s \<Longrightarrow> \<exists>sel reasons. render A sel reasons = Inr s \<and> fits s"
proof (induction accepted arbitrary: sel reasons)
  case Nil
  then show ?case by (subst (asm) trim.simps) (auto simp: bindE_Inr_iff split: if_splits)
next
  case (Cons a accepted)
  then show ?case by (subst (asm) (2) trim.simps) (auto simp: bindE_Inr_iff split: if_splits prod.splits)
qed

lemma fill_renders: "fill A mandatory hs gs sel = Inr s \<Longrightarrow> \<exists>sel reasons. render A sel reasons = Inr s \<and> fits s"
  by (auto simp: fill_def bindE_Inr_iff split: if_splits dest!: trim_renders)

lemma guarded_InrE: "(if b then Inl e else r) = Inr y \<Longrightarrow> (r = Inr y \<Longrightarrow> P) \<Longrightarrow> P"
  by (cases b) simp_all

lemma assemble_validated:
  assumes "assemble A = Inr s"
  shows "\<exists>mandatory sel reasons. validate_context (as_config A) (as_index A) (as_graph A) mandatory s = Inr ()
    \<and> render A sel reasons = Inr s"
proof -
  have "\<exists>mandatory hs gs sel u. fill A mandatory hs gs sel = Inr s
      \<and> validate_context (as_config A) (as_index A) (as_graph A) mandatory s = Inr u"
    using assms unfolding assemble_def Let_def
    by (elim bindE_InrE guarded_InrE, simp only: sum.inject) (intro exI conjI, assumption+)
  then obtain mandatory hs gs sel where fill: "fill A mandatory hs gs sel = Inr s"
    and ok: "validate_context (as_config A) (as_index A) (as_graph A) mandatory s = Inr ()" by auto
  from fill_renders [OF fill] ok show ?thesis by blast
qed

lemma mapped_Inr: "(case r of Inl ValidationError \<Rightarrow> Inl ContextEligibilityError | r \<Rightarrow> r) = Inr s \<longleftrightarrow> r = Inr s"
proof (cases r)
  case (Inl e)
  then show ?thesis by (cases e) simp_all
qed simp

lemma build_context_Inr:
  assumes "build_context X c es = Inr s"
  shows "\<exists>ix A. build_index c es = Inr ix \<and> prepare_assembly X ix = Inr A \<and> assemble A = Inr s"
  using assms unfolding build_context_def mapped_Inr
  by (elim bindE_InrE guarded_InrE) (unfold mapped_Inr, elim bindE_InrE, blast)

lemma prepare_assembly_Inr:
  assumes "prepare_assembly X ix = Inr A"
  shows "as_config A = X \<and> as_index A = ix
    \<and> evaluate (cc_group_text X) (cc_graph_input X) (ix_case ix) (ix_evidence ix) = Inr (as_graph A)"
  using assms by (auto simp: prepare_assembly_def Let_def bindE_Inr_iff)

section \<open>What the validator establishes\<close>

lemma validate_context_ok:
  "validate_context X ix graph mandatory s = Inr () \<longleftrightarrow> snapshot_valid s \<and> references_sound X ix graph mandatory s
     \<and> projection_sound X ix graph s \<and> binding_sound X ix graph s \<and> history_sound X ix s"
  by (auto simp: validate_context_def)

lemma evidence_with_id_Some: "evidence_with_id es i = Some e \<Longrightarrow> e \<in> set es \<and> ev_evidence_id e = i"
  by (auto simp: evidence_with_id_def find_Some_iff)

lemma referenced_allowed:
  assumes "references_sound X ix graph mandatory s" and "r \<in> set (referenced_ids s)"
  shows "\<exists>e\<in>set (ix_evidence ix). ev_evidence_id e = r \<and> allows (cc_denied_claims X) e"
  using assms by (fastforce simp: references_sound_def Let_def list_all_iff)

lemma fact_current:
  assumes "projection_sound X ix graph s" and "references_sound X ix graph mandatory s" and "f \<in> set (rcs_current_facts s)"
  shows "\<exists>e\<in>set (ix_evidence ix). f = fact_of e \<and> allows (cc_denied_claims X) e \<and> e \<in> set (current ix (ev_claim_type e))"
proof -
  have "fact_sound ix f" using assms(1,3) by (auto simp: projection_sound_def Let_def list_all_iff)
  then obtain r e where r: "fc_evidence_refs f = [r]" "evidence_with_id (all_current ix) r = Some e" "fact e = Inr f"
    by (auto simp: fact_sound_def split: list.splits option.splits)
  then have e: "e \<in> set (ix_evidence ix)" "e \<in> set (current ix (ev_claim_type e))" "ev_evidence_id e = r"
    by (auto dest!: evidence_with_id_Some simp: all_current_def)
  have "r \<in> set (referenced_ids s)" using assms(3) r(1) by (force simp: referenced_ids_def all_refs_def sorted_set_def)
  then have "allows (cc_denied_claims X) e"
    using assms(2) e(1,3) by (auto simp: references_sound_def Let_def list_all_iff)
  with e r(3) show ?thesis by (auto simp: fact_def)
qed

section \<open>Properties\<close>

text \<open>
  C37. Every reasoning context is typed and grounded. What the assembler returns, whatever Evidence the
  Case has collected and however the budget cut it, is a valid snapshot within its budget whose
  identifier is the digest of its content. Each fact in it is the exact projection of one current and
  complete piece of Evidence of this Case whose claim may be shown and whose value has the type of its
  claim; nothing it refers to is Evidence that may not be shown; and no open gap that is critical for
  safety and no confirmed hypothesis of the graph evaluated on the same Evidence is missing.
\<close>

theorem context_typed_and_grounded:
  "case build_context X c es of Inl _ \<Rightarrow> True
   | Inr s \<Rightarrow> snapshot_valid s \<and> fits s \<and> rcs_snapshot_id s = snapshot_digest (cc_text X) s
       \<and> list_all (\<lambda>f. list_ex (\<lambda>e. f = fact_of e \<and> allows (cc_denied_claims X) e \<and> ev_freshness e = Fresh_CURRENT
            \<and> ev_completeness e = Compl_COMPLETE \<and> claim_value_valid (ev_claim_type e) (ev_value e)) es) (rcs_current_facts s)
       \<and> list_all (\<lambda>r. list_ex (\<lambda>e. ev_evidence_id e = r \<and> allows (cc_denied_claims X) e) es) (referenced_ids s)
       \<and> (\<exists>ix graph. build_index c es = Inr ix
            \<and> evaluate (cc_group_text X) (cc_graph_input X) c (ix_evidence ix) = Inr graph
            \<and> set (map eg_gap_id (filter (\<lambda>g. eg_priority_class g = Prio_SAFETY_CRITICAL) (hg_open_gaps graph)))
                \<subseteq> gpc_gap_id ` set (rcs_open_evidence_gaps s)
            \<and> list_all (confirmed_kept s) (hg_hypotheses graph))"
proof (cases "build_context X c es")
  case (Inr s)
  obtain ix A where ix: "build_index c es = Inr ix" "prepare_assembly X ix = Inr A" "assemble A = Inr s"
    using build_context_Inr [OF Inr] by blast
  note ix_facts = build_index_evidence [OF ix(1)] and A = prepare_assembly_Inr [OF ix(2)]
  obtain mandatory where "validate_context X ix (as_graph A) mandatory s = Inr ()"
    using assemble_validated [OF ix(3)] A by auto
  then have ok: "snapshot_valid s" "references_sound X ix (as_graph A) mandatory s" "projection_sound X ix (as_graph A) s"
    "binding_sound X ix (as_graph A) s" by (simp_all add: validate_context_ok)
  have facts: "list_all (\<lambda>f. list_ex (\<lambda>e. f = fact_of e \<and> allows (cc_denied_claims X) e \<and> ev_freshness e = Fresh_CURRENT
      \<and> ev_completeness e = Compl_COMPLETE \<and> claim_value_valid (ev_claim_type e) (ev_value e)) es) (rcs_current_facts s)"
    unfolding list_all_iff list_ex_iff
  proof
    fix f assume "f \<in> set (rcs_current_facts s)"
    then obtain e where e: "e \<in> set (ix_evidence ix)" "f = fact_of e" "allows (cc_denied_claims X) e"
      "e \<in> set (current ix (ev_claim_type e))" using fact_current [OF ok(3,2)] by blast
    then have "claim_value_valid (ev_claim_type e) (ev_value e)"
      by (auto simp: allows_def fact_capsule_valid_def fact_of_def split: option.splits)
    with e current_facts [OF e(4)] show "\<exists>e\<in>set es. f = fact_of e \<and> allows (cc_denied_claims X) e
      \<and> ev_freshness e = Fresh_CURRENT \<and> ev_completeness e = Compl_COMPLETE \<and> claim_value_valid (ev_claim_type e) (ev_value e)"
      using ix_facts(2) by blast
  qed
  have refs: "list_all (\<lambda>r. list_ex (\<lambda>e. ev_evidence_id e = r \<and> allows (cc_denied_claims X) e) es) (referenced_ids s)"
    using referenced_allowed [OF ok(2)] ix_facts(2) by (auto simp: list_all_iff list_ex_iff)
  have "fits s \<and> rcs_snapshot_id s = snapshot_digest (cc_text X) s"
    using ok(4) by (simp add: binding_sound_def Let_def)
  moreover have "set (map eg_gap_id (filter (\<lambda>g. eg_priority_class g = Prio_SAFETY_CRITICAL) (hg_open_gaps (as_graph A))))
      \<subseteq> gpc_gap_id ` set (rcs_open_evidence_gaps s) \<and> list_all (confirmed_kept s) (hg_hypotheses (as_graph A))"
    using ok(3) by (simp add: projection_sound_def Let_def)
  ultimately show ?thesis using Inr ok(1) facts refs ix(1) A ix_facts(1) by auto
qed simp

lemma context_scope:
  assumes "build_context X c es = Inr s"
  shows "scope_of s = (runtime_budget_of c, capabilities_for_case c, case_internal_order_id c)"
proof -
  obtain ix A where ix: "build_index c es = Inr ix" "prepare_assembly X ix = Inr A" "assemble A = Inr s"
    using build_context_Inr [OF assms] by blast
  obtain sel reasons where "render A sel reasons = Inr s" using assemble_validated [OF ix(3)] by blast
  from render_scope [OF this] build_index_evidence(1) [OF ix(1)] prepare_assembly_Inr [OF ix(2)]
  show ?thesis by (simp add: Let_def)
qed

text \<open>
  C38. From Evidence to action, the Case stays in charge. Whatever is in the Evidence and whatever the
  model proposes, a tool call that the planner selects on the context assembled for a Case names a tool
  the Case allows and does not forbid and asks for the order of the Case, while the Case is open and
  has budget left.
\<close>

theorem planned_call_within_case:
  "case bindE (build_context X c es) (\<lambda>s. plan (cc_text X) P s reply) of Inl _ \<Rightarrow> True
   | Inr d \<Rightarrow> (case map_option vap_candidate (pdc_selected_action d) of
       Some (CallTool x) \<Rightarrow> ctc_tool_name x \<in> set (csc_allowed_tools (case_scope c))
         \<and> tool_name_value (ctc_tool_name x) \<notin> set (ccn_forbidden_actions (case_constraints c))
         \<and> tq_internal_order_id (ctc_query x) = case_internal_order_id c
         \<and> case_status c \<in> {Case_NEW, Case_INVESTIGATING}
         \<and> cb_used_tool_calls (case_budget c) < cb_max_tool_calls (case_budget c)
     | _ \<Rightarrow> True)"
proof -
  have "ctc_tool_name x \<in> set (csc_allowed_tools (case_scope c))
         \<and> tool_name_value (ctc_tool_name x) \<notin> set (ccn_forbidden_actions (case_constraints c))
         \<and> tq_internal_order_id (ctc_query x) = case_internal_order_id c
         \<and> case_status c \<in> {Case_NEW, Case_INVESTIGATING}
         \<and> cb_used_tool_calls (case_budget c) < cb_max_tool_calls (case_budget c)"
    if s: "build_context X c es = Inr s" and d: "plan (cc_text X) P s reply = Inr d"
      and p: "pdc_selected_action d = Some p" "vap_candidate p = CallTool x" for s d p x
  proof -
    have "permitted s (CallTool x)" using selected_permitted [OF d p(1)] p(2) by simp
    with context_scope [OF s] show ?thesis
      by (auto simp: permitted_def permitted_call_def scope_of_def capabilities_for_case_def runtime_budget_of_def Let_def)
  qed
  then show ?thesis by (auto split: sum.split option.split action_candidate.split)
qed

end
