(* ===== verification/Procedures.thy ===== *)
theory Procedures
  imports Recovery Planner
begin

text \<open>
  The services that string transactions together. A service method is not one transaction: between
  its transactions it reads the clock, draws identifiers and calls the outside world, and every other
  actor of the deployment may commit in between. A \<open>proc\<close> is such a method as a well-founded tree of
  interactions: each node is one committed transaction or one answer of the environment. \<open>solo\<close> runs
  a procedure alone against scripted answers.
\<close>

section \<open>Interactions\<close>

text \<open>What a call of an external system can raise besides the exceptions of the program.\<close>

datatype external_error = Raised error | Timed_out | Failed

text \<open>
  \<open>Send\<close> is the call \<open>adapter.dispatch(command, correlation_id)\<close>; it carries the ledger entry the call
  is made for, of which the adapter sees the correlation identifier. \<open>Lookup\<close> is \<open>resolver.lookup\<close>,
  \<open>Observe\<close> the call \<open>client.observe(tool, query, dispatch_correlation_id=call_id)\<close> of the client of a Case, and
  \<open>Ask\<close> the call \<open>model.plan\<close> of the planner with the bundle rendered from a snapshot.
\<close>

datatype 'a proc =
    Return 'a
  | Txn "db \<Rightarrow> db \<times> 'a proc"
  | Clock "time \<Rightarrow> 'a proc"
  | Fresh "string \<Rightarrow> 'a proc"
  | Send "domain_command option" side_effect_ledger "external_error + side_effect_receipt \<Rightarrow> 'a proc"
  | Lookup string effect_identity "external_error + side_effect_lookup_result \<Rightarrow> 'a proc"
  | Observe string tool_name tool_query string "external_error + observation \<Rightarrow> 'a proc"
  | Ask reasoning_context_snapshot "external_error + planner_draft \<Rightarrow> 'a proc"

lemma proc_induct [case_names Return Txn Clock Fresh Send Lookup Observe Ask]:
  assumes "\<And>x. P (Return x)" and "\<And>f. (\<And>d. P (snd (f d))) \<Longrightarrow> P (Txn f)"
    and "\<And>c. (\<And>t. P (c t)) \<Longrightarrow> P (Clock c)" and "\<And>c. (\<And>i. P (c i)) \<Longrightarrow> P (Fresh c)"
    and "\<And>cmd l c. (\<And>r. P (c r)) \<Longrightarrow> P (Send cmd l c)"
    and "\<And>corr identity c. (\<And>r. P (c r)) \<Longrightarrow> P (Lookup corr identity c)"
    and "\<And>cid tool q i c. (\<And>r. P (c r)) \<Longrightarrow> P (Observe cid tool q i c)"
    and "\<And>s c. (\<And>r. P (c r)) \<Longrightarrow> P (Ask s c)"
  shows "P p"
proof (induction p)
  case (Txn f)
  show ?case by (rule assms(2), rule Txn) (auto simp: snds.simps intro: rangeI prod.collapse [symmetric])
qed (auto intro: assms)

primrec bindP :: "'a proc \<Rightarrow> ('a \<Rightarrow> 'b proc) \<Rightarrow> 'b proc" where
  "bindP (Return x) k = k x"
| "bindP (Txn f) k = Txn (\<lambda>d. map_prod id (\<lambda>p. bindP p k) (f d))"
| "bindP (Clock c) k = Clock (\<lambda>t. bindP (c t) k)"
| "bindP (Fresh c) k = Fresh (\<lambda>i. bindP (c i) k)"
| "bindP (Send cmd l c) k = Send cmd l (\<lambda>r. bindP (c r) k)"
| "bindP (Lookup corr identity c) k = Lookup corr identity (\<lambda>r. bindP (c r) k)"
| "bindP (Observe cid tool q i c) k = Observe cid tool q i (\<lambda>r. bindP (c r) k)"
| "bindP (Ask s c) k = Ask s (\<lambda>r. bindP (c r) k)"

lemma bindP_Return [simp]: "bindP p Return = p"
  by (induction p rule: proc_induct) (simp_all add: fun_eq_iff prod_eq_iff)

lemma bindP_assoc: "bindP (bindP p k) k' = bindP p (\<lambda>x. bindP (k x) k')"
  by (induction p rule: proc_induct) (simp_all add: fun_eq_iff prod_eq_iff)

text \<open>Sequencing with the exceptions of the program, and \<open>try\<close> with a handler.\<close>

type_synonym 'a service = "(error + 'a) proc"

definition andThen :: "'a service \<Rightarrow> ('a \<Rightarrow> 'b service) \<Rightarrow> 'b service" where
  "andThen p k = bindP p (\<lambda>r. case r of Inl e \<Rightarrow> Return (Inl e) | Inr x \<Rightarrow> k x)"

definition catching :: "'a service \<Rightarrow> (error \<Rightarrow> 'b service) \<Rightarrow> ('a \<Rightarrow> 'b service) \<Rightarrow> 'b service" where
  "catching p handler k = bindP p (\<lambda>r. case r of Inl e \<Rightarrow> handler e | Inr x \<Rightarrow> k x)"

abbreviation raise :: "error \<Rightarrow> 'a service" where
  "raise e \<equiv> Return (Inl e)"

abbreviation return :: "'a \<Rightarrow> 'a service" where
  "return x \<equiv> Return (Inr x)"

abbreviation pure :: "error + 'a \<Rightarrow> 'a service" where
  "pure r \<equiv> Return r"

text \<open>A transaction that writes, one that writes and has no result, and one that reads.\<close>

definition atomic :: "(db \<Rightarrow> error + db \<times> 'a) \<Rightarrow> 'a service" where
  "atomic f = Txn (\<lambda>d. case f d of Inl e \<Rightarrow> (d, raise e) | Inr (d', x) \<Rightarrow> (d', return x))"

definition atomic_unit :: "(db \<Rightarrow> error + db) \<Rightarrow> unit service" where
  "atomic_unit f = Txn (\<lambda>d. case f d of Inl e \<Rightarrow> (d, raise e) | Inr d' \<Rightarrow> (d', return ()))"

definition query :: "(db \<Rightarrow> error + 'a) \<Rightarrow> 'a service" where
  "query f = Txn (\<lambda>d. (d, pure (f d)))"

definition now :: "time service" where
  "now = Clock return"

definition new_id :: "string service" where
  "new_id = Fresh return"

section \<open>Running alone\<close>

text \<open>
  A script answers the clock, the identifiers, the adapter and the resolver; the number of
  interactions so far is what a later answer may differ by. The result is the list of calls to the
  adapter, the database and the value.
\<close>

record script =
  sc_clock :: "nat \<Rightarrow> time"
  sc_id :: "nat \<Rightarrow> string"
  sc_adapter :: "domain_command option \<Rightarrow> string \<Rightarrow> external_error + side_effect_receipt"
  sc_resolver :: "string \<Rightarrow> effect_identity \<Rightarrow> external_error + side_effect_lookup_result"
  sc_tool :: "string \<Rightarrow> tool_name \<Rightarrow> tool_query \<Rightarrow> string \<Rightarrow> external_error + observation"
  sc_planner :: "reasoning_context_snapshot \<Rightarrow> external_error + planner_draft"

primrec solo :: "'a proc \<Rightarrow> script \<Rightarrow> nat \<Rightarrow> db \<Rightarrow> side_effect_ledger list \<times> db \<times> 'a" where
  "solo (Return x) s n d = ([], d, x)"
| "solo (Txn f) s n d = (let (d', g) = map_prod id solo (f d) in g s (Suc n) d')"
| "solo (Clock c) s n d = solo (c (sc_clock s n)) s (Suc n) d"
| "solo (Fresh c) s n d = solo (c (sc_id s n)) s (Suc n) d"
| "solo (Send cmd l c) s n d =
     (let (ls, r) = solo (c (sc_adapter s cmd (led_dispatch_correlation_id l))) s (Suc n) d in (l # ls, r))"
| "solo (Lookup corr identity c) s n d = solo (c (sc_resolver s corr identity)) s (Suc n) d"
| "solo (Observe cid tool q i c) s n d = solo (c (sc_tool s cid tool q i)) s (Suc n) d"
| "solo (Ask snap c) s n d = solo (c (sc_planner s snap)) s (Suc n) d"

text \<open>At most \<open>n\<close> interactions, whatever the environment answers.\<close>

primrec within :: "'a proc \<Rightarrow> nat \<Rightarrow> bool" where
  "within (Return x) n = True"
| "within (Txn f) n = (case n of 0 \<Rightarrow> False | Suc m \<Rightarrow> \<forall>d. snd (map_prod id within (f d)) m)"
| "within (Clock c) n = (case n of 0 \<Rightarrow> False | Suc m \<Rightarrow> \<forall>t. within (c t) m)"
| "within (Fresh c) n = (case n of 0 \<Rightarrow> False | Suc m \<Rightarrow> \<forall>i. within (c i) m)"
| "within (Send cmd l c) n = (case n of 0 \<Rightarrow> False | Suc m \<Rightarrow> \<forall>r. within (c r) m)"
| "within (Lookup corr identity c) n = (case n of 0 \<Rightarrow> False | Suc m \<Rightarrow> \<forall>r. within (c r) m)"
| "within (Observe cid tool q i c) n = (case n of 0 \<Rightarrow> False | Suc m \<Rightarrow> \<forall>r. within (c r) m)"
| "within (Ask s c) n = (case n of 0 \<Rightarrow> False | Suc m \<Rightarrow> \<forall>r. within (c r) m)"

lemma within_mono: "within p n \<Longrightarrow> n \<le> m \<Longrightarrow> within p m"
proof (induction p arbitrary: n m rule: proc_induct)
  case (Txn f) then show ?case by (cases n; cases m) auto
next
  case (Clock c) then show ?case by (cases n; cases m) auto
next
  case (Fresh c) then show ?case by (cases n; cases m) auto
next
  case (Send cmd l c) then show ?case by (cases n; cases m) auto
next
  case (Lookup corr identity c) then show ?case by (cases n; cases m) auto
next
  case (Observe cid tool q i c) then show ?case by (cases n; cases m) auto
next
  case (Ask s c) then show ?case by (cases n; cases m) auto
qed simp

lemma within_bindP: "within p n \<Longrightarrow> (\<And>x. within (k x) m) \<Longrightarrow> within (bindP p k) (n + m)"
proof (induction p arbitrary: n rule: proc_induct)
  case (Return x) then show ?case by (auto intro: within_mono [of _ m])
next
  case (Txn f) then show ?case by (cases n) auto
next
  case (Clock c) then show ?case by (cases n) auto
next
  case (Fresh c) then show ?case by (cases n) auto
next
  case (Send cmd l c) then show ?case by (cases n) auto
next
  case (Lookup corr identity c) then show ?case by (cases n) auto
next
  case (Observe cid tool q i c) then show ?case by (cases n) auto
next
  case (Ask s c) then show ?case by (cases n) auto
qed

end
