(* ===== verification/ExecutionService.thy ===== *)
theory ExecutionService
  imports Procedures Remediation
begin

text \<open>
  The authorization and execution services (\<open>authorization/service.py\<close>): the verification that an
  intent is still exactly what a fresh preflight of the live Case produces, the request of approvals
  and the issue of capabilities on it, and the execution of a signed capability, which is the only
  place where the adapter of side effects is called.
\<close>

section \<open>The consistent read as a procedure\<close>

text \<open>The functions a deployment computes with: hashes, the text of a group key, the snapshot identifier.\<close>

record remediation_config =
  rmc_digest :: "jv \<Rightarrow> string"
  rmc_evidence_hash :: "evidence list \<Rightarrow> string"
  rmc_group_key :: "group_key \<Rightarrow> string"
  rmc_fingerprint :: "case_rec \<Rightarrow> evidence list \<Rightarrow> string"
  rmc_snapshot :: "case_rec \<Rightarrow> evidence list \<Rightarrow> error + string"
  rmc_hmac :: "jv \<Rightarrow> string"

text \<open>
  \<open>InvestigationStateReader.read\<close>, with the reading of the Case as an argument: each of its reads is a
  transaction of its own, and at most three attempts are made.
\<close>

primrec read_attemptsP :: "remediation_config \<Rightarrow> string \<Rightarrow> (db \<Rightarrow> string \<Rightarrow> error + case_rec) \<Rightarrow> string
    \<Rightarrow> nat \<Rightarrow> investigation_state service" where
  "read_attemptsP C tenant get cid 0 = raise RemediationUnavailable"
| "read_attemptsP C tenant get cid (Suc n) =
     andThen (query (\<lambda>d. get d cid)) (\<lambda>c. andThen (query (\<lambda>d. list_evidence tenant d cid)) (\<lambda>es.
     andThen (query (\<lambda>d. get d cid)) (\<lambda>c'.
       if c' = c then pure (state_built (rmc_group_key C) (rmc_fingerprint C) (rmc_snapshot C) c es)
       else read_attemptsP C tenant get cid n)))"

definition read_stateP :: "remediation_config \<Rightarrow> string \<Rightarrow> (db \<Rightarrow> string \<Rightarrow> error + case_rec) \<Rightarrow> string
    \<Rightarrow> investigation_state service" where
  "read_stateP C tenant get cid = read_attemptsP C tenant get cid 3"

section \<open>Verification of an intent\<close>

definition remediation_intent_valid :: "remediation_intent \<Rightarrow> bool" where
  "remediation_intent_valid i = (hash_ref (ri_intent_id i) \<and> opaque_subject_ref (ri_case_id i)
     \<and> opaque_subject_ref (ri_internal_order_id i) \<and> remediation_target_valid (ri_target i)
     \<and> list_all context_reference (ri_supporting_evidence_refs i) \<and> hash_ref (ri_snapshot_id i)
     \<and> hash_ref (ri_evidence_hash i) \<and> hash_ref (ri_preflight_fingerprint i))"

definition intent_well_formed :: "(jv \<Rightarrow> string) \<Rightarrow> remediation_intent \<Rightarrow> error + unit" where
  "intent_well_formed dg i = (
     if \<not> remediation_intent_valid i then Inl ValidationError
     else if ri_intent_id i \<noteq> dg (intent_json i) then Inl (AuthorizationError Auth_STALE_AUTHORIZATION)
     else case catalog_get REMEDIATION_CATALOG (ri_action_type i) of
       None \<Rightarrow> Inl (AuthorizationError Auth_ACTION_NOT_ALLOWED)
     | Some entry \<Rightarrow>
         if forbidden_check (Some entry) \<noteq> [] \<or> ri_risk_level i \<noteq> rac_risk_level entry
         then Inl (AuthorizationError Auth_ACTION_NOT_ALLOWED)
         else if rac_risk_level entry = Risk_L2_SINGLE_ORDER_SIDE_EFFECT
           \<and> \<not> rac_requires_future_approval entry
         then Inl (AuthorizationError Auth_ACTION_NOT_ALLOWED) else Inr ())"

definition revalidation_problems :: "investigation_state \<Rightarrow> remediation_intent \<Rightarrow> string list" where
  "revalidation_problems st i = (
     if ri_action_type i = Act_REPLAY_CALLBACK_CONSUMPTION then [hypothesis_id_value Hyp_H6]
     else if ri_action_type i \<in> {Act_REDELIVER_ASSET_NOTIFICATION, Act_CREATE_RECONCILIATION_TASK}
     then [hypothesis_id_value Hyp_H7]
     else let gaps = map eg_gap_id (hg_open_gaps (ivs_graph st))
       in if gaps = [] then map hypothesis_id_value (hg_confirmed (ivs_graph st)) else gaps)"

definition revalidation_candidate :: "investigation_state \<Rightarrow> remediation_intent \<Rightarrow> remediation_candidate" where
  "revalidation_candidate st i = \<lparr> rcd_candidate_id = ''authorization-revalidation'',
     rcd_action_type = ri_action_type i, rcd_target_order_id = ri_internal_order_id i,
     rcd_target_problem_ids = revalidation_problems st i,
     rcd_evidence_refs = ri_supporting_evidence_refs i \<rparr>"

text \<open>The candidate that would lead to the intent, validated against the state that was read.\<close>

definition revalidated_candidate :: "remediation_config \<Rightarrow> remediation_intent \<Rightarrow> investigation_state
    \<Rightarrow> error + validated_remediation_candidate" where
  "revalidated_candidate C i st = (
     let stale = AuthorizationError Auth_STALE_AUTHORIZATION in
     if ri_tenant_id i \<noteq> case_tenant_id (ivs_case st)
       \<or> ri_internal_order_id i \<noteq> case_internal_order_id (ivs_case st) \<or> ivs_snapshot_id st \<noteq> ri_snapshot_id i
     then Inl stale
     else bindE (validate_candidate (rmc_evidence_hash C) (rmc_group_key C) REMEDIATION_CATALOG st
       (revalidation_candidate st i)) (\<lambda>checked. case checked of Inl _ \<Rightarrow> Inl stale | Inr v \<Rightarrow> Inr v))"

definition confirmed_intent :: "remediation_intent \<Rightarrow> remediation_preflight_result \<Rightarrow> error + unit" where
  "confirmed_intent i r = (
     if rpr_status r \<noteq> Pre_READY_FOR_FUTURE_AUTHORIZATION \<or> rpr_intent r \<noteq> Some i
     then Inl (AuthorizationError Auth_STALE_AUTHORIZATION) else Inr ())"

text \<open>
  \<open>FreshIntentVerifier.verify\<close>, over a reader of the state. The preview reads the state a second time.
\<close>

definition verify_intent :: "remediation_config \<Rightarrow> (string \<Rightarrow> investigation_state service)
    \<Rightarrow> remediation_intent \<Rightarrow> (remediation_intent \<times> case_rec) service" where
  "verify_intent C reader i =
     andThen (pure (intent_well_formed (rmc_digest C) i)) (\<lambda>_.
     andThen (reader (ri_case_id i)) (\<lambda>st.
     andThen (pure (revalidated_candidate C i st)) (\<lambda>v.
       if \<not> validated_candidate_valid v then raise ValidationError
       else andThen (reader (rtg_case_id (vrc_target v))) (\<lambda>fresh.
         andThen (pure (preview (rmc_digest C) (rmc_evidence_hash C) (rmc_group_key C) REMEDIATION_CATALOG
           (Inr fresh) v)) (\<lambda>r.
         andThen (pure (confirmed_intent i r)) (\<lambda>_. return (i, ivs_case st)))))))"

abbreviation live_reader :: "remediation_config \<Rightarrow> string \<Rightarrow> string \<Rightarrow> investigation_state service" where
  "live_reader C tenant \<equiv> read_stateP C tenant (get_case tenant)"

section \<open>Approvals and capabilities\<close>

text \<open>The lifetimes the service is constructed with, in seconds.\<close>

definition authorization_ttl_valid :: "int \<Rightarrow> int \<Rightarrow> bool" where
  "authorization_ttl_valid ttl approval_ttl = (1 \<le> ttl \<and> ttl \<le> 300 \<and> 1 \<le> approval_ttl \<and> approval_ttl \<le> 3600)"

definition request_approval_service :: "remediation_config \<Rightarrow> string \<Rightarrow> int \<Rightarrow> remediation_intent
    \<Rightarrow> approval_request service" where
  "request_approval_service C tenant approval_ttl i =
     andThen (verify_intent C (live_reader C tenant) i) (\<lambda>(fresh, c).
     andThen now (\<lambda>t. andThen new_id (\<lambda>approval_id. andThen new_id (\<lambda>audit_id.
       atomic (\<lambda>d. request_approval tenant d \<lparr> ar_approval_id = approval_id, ar_intent = fresh,
         ar_status = Apv_PENDING, ar_requested_at = t, ar_decided_at = None,
         ar_expires_at = t + seconds approval_ttl, ar_actor_ref = None, ar_reason_code = Apr_REQUESTED \<rparr>
         (case_updated_at c) audit_id)))))"

definition decide_approval_service :: "string \<Rightarrow> approval_decision \<Rightarrow> approval_request service" where
  "decide_approval_service tenant decision = andThen now (\<lambda>t. andThen new_id (\<lambda>audit_id.
     atomic (\<lambda>d. decide_approval tenant d decision t audit_id)))"

definition capability_for :: "(jv \<Rightarrow> string) \<Rightarrow> remediation_intent \<Rightarrow> string \<Rightarrow> string \<Rightarrow> string option
    \<Rightarrow> time \<Rightarrow> time \<Rightarrow> int \<Rightarrow> execution_capability" where
  "capability_for dg i cap_id h approval_id revision t ttl = \<lparr> xc_capability_id = cap_id,
     xc_intent_id = ri_intent_id i, xc_tenant_id = ri_tenant_id i, xc_case_id = ri_case_id i,
     xc_internal_order_id = ri_internal_order_id i, xc_action_type = ri_action_type i,
     xc_target_hash = dg (target_json (ri_target i)), xc_payload_hash = h,
     xc_snapshot_id = ri_snapshot_id i, xc_evidence_hash = ri_evidence_hash i,
     xc_preflight_fingerprint = ri_preflight_fingerprint i, xc_approval_id = approval_id,
     xc_policy_version = ri_policy_version i, xc_catalog_version = ri_catalog_version i,
     xc_authorization_policy_version = AUTHORIZATION_POLICY_VERSION, xc_expected_case_revision = revision,
     xc_issued_at = t, xc_expires_at = t + seconds ttl \<rparr>"

definition execution_capability_valid :: "execution_capability \<Rightarrow> bool" where
  "execution_capability_valid c = (opaque_subject_ref (xc_capability_id c) \<and> hash_ref (xc_intent_id c)
     \<and> opaque_subject_ref (xc_tenant_id c) \<and> opaque_subject_ref (xc_case_id c)
     \<and> opaque_subject_ref (xc_internal_order_id c) \<and> hash_ref (xc_target_hash c)
     \<and> hash_ref (xc_payload_hash c) \<and> hash_ref (xc_snapshot_id c) \<and> hash_ref (xc_evidence_hash c)
     \<and> hash_ref (xc_preflight_fingerprint c) \<and> optional opaque_subject_ref (xc_approval_id c))"

definition issue_capability :: "remediation_config \<Rightarrow> string \<Rightarrow> int \<Rightarrow> remediation_intent \<Rightarrow> string option
    \<Rightarrow> signed_execution_capability service" where
  "issue_capability C tenant ttl i approval_id =
     andThen (verify_intent C (live_reader C tenant) i) (\<lambda>(fresh, c).
     andThen now (\<lambda>t. andThen new_id (\<lambda>cap_id.
     andThen (pure (payload_hash (rmc_digest C) fresh)) (\<lambda>h.
       let cap = capability_for (rmc_digest C) fresh cap_id h approval_id (case_updated_at c) t ttl;
           signed = sign_capability (rmc_hmac C) cap
       in if \<not> execution_capability_valid cap then raise ValidationError
          else andThen now (\<lambda>t'. andThen new_id (\<lambda>audit_id.
            andThen (atomic_unit (\<lambda>d. issue (rmc_digest C) tenant d fresh cap t' (Some (sxc_signature signed)) audit_id))
              (\<lambda>_. return signed)))))))"

section \<open>Execution\<close>

definition execution_result :: "side_effect_ledger \<Rightarrow> bool \<Rightarrow> bool \<Rightarrow> side_effect_execution_result" where
  "execution_result l executed replay = \<lparr> ser_ledger = l, ser_executed_now = executed,
     ser_idempotent_replay = replay, ser_authorization_status = Auth_AUTHORIZED \<rparr>"

text \<open>The exceptions that are a \<open>ValueError\<close>, \<open>TypeError\<close> or \<open>AttributeError\<close>.\<close>

definition is_value_error :: "error \<Rightarrow> bool" where
  "is_value_error e = (e \<in> {ValueError, ValidationError, TypeError, AttributeError, HypothesisInvariantError,
     ContextEligibilityError, ContextEnvelopeInvariantError, MandatoryContextOverflow,
     ReasoningContextInvariantError})"

definition receipt_accepted :: "side_effect_ledger \<Rightarrow> side_effect_receipt \<Rightarrow> bool" where
  "receipt_accepted l r = (side_effect_receipt_valid r \<and> opaque_subject_ref (srx_correlation_id r)
     \<and> optional opaque_subject_ref (srx_external_effect_ref r)
     \<and> srx_correlation_id r = led_dispatch_correlation_id l)"

text \<open>What the reply of the adapter establishes: a receipt that is not accepted, or none, is \<open>UNKNOWN\<close>.\<close>

definition dispatch_outcome :: "side_effect_ledger \<Rightarrow> external_error + side_effect_receipt
    \<Rightarrow> effect_status \<times> side_effect_receipt option \<times> failure_code option" where
  "dispatch_outcome l reply = (case reply of
     Inr r \<Rightarrow> if receipt_accepted l r
       then (outcome_status (srx_outcome r), Some r,
         if outcome_status (srx_outcome r) = Eff_FAILED_CONFIRMED then Some Fc_REMOTE_REJECTED else None)
       else (Eff_UNKNOWN, None, Some Fc_INVALID_RECEIPT)
   | Inl (Raised e) \<Rightarrow> (Eff_UNKNOWN, None,
       Some (if is_value_error e then Fc_INVALID_RECEIPT else Fc_TRANSPORT_UNCERTAIN))
   | Inl _ \<Rightarrow> (Eff_UNKNOWN, None, Some Fc_TRANSPORT_UNCERTAIN))"

definition complete_dispatch :: "remediation_config \<Rightarrow> string \<Rightarrow> domain_command option
    \<Rightarrow> side_effect_ledger \<Rightarrow> side_effect_execution_result service" where
  "complete_dispatch C tenant command l = Send command l (\<lambda>reply.
     let (status, receipt, failure) = dispatch_outcome l reply
     in andThen now (\<lambda>t. andThen new_id (\<lambda>audit_id.
        andThen (atomic (\<lambda>d. transition (rmc_digest C) tenant d (led_effect_id l) Eff_DISPATCHED status t
            receipt failure audit_id)) (\<lambda>l'. return (execution_result l' True False)))))"

definition existing_effectP :: "remediation_config \<Rightarrow> string \<Rightarrow> execution_capability
    \<Rightarrow> side_effect_ledger option service" where
  "existing_effectP C tenant cap = andThen now (\<lambda>t. atomic (\<lambda>d. existing (rmc_digest C) tenant d cap t))"

definition dispatch_and_complete :: "remediation_config \<Rightarrow> string \<Rightarrow> execution_capability
    \<Rightarrow> domain_command option \<Rightarrow> recovery_claim option \<Rightarrow> side_effect_execution_result service" where
  "dispatch_and_complete C tenant cap command claim = andThen now (\<lambda>t. andThen new_id (\<lambda>audit_id.
     andThen (atomic (\<lambda>d. dispatch_prepared (rmc_digest C) tenant d cap t claim audit_id))
       (complete_dispatch C tenant command)))"

text \<open>A concurrent winner may have prepared the effect meanwhile: its entry is the answer.\<close>

definition existing_or :: "remediation_config \<Rightarrow> string \<Rightarrow> execution_capability \<Rightarrow> error
    \<Rightarrow> side_effect_execution_result service" where
  "existing_or C tenant cap e = andThen (existing_effectP C tenant cap) (\<lambda>old. case old of
     Some l \<Rightarrow> return (execution_result l False True) | None \<Rightarrow> raise e)"

definition prepare_and_dispatch :: "remediation_config \<Rightarrow> string \<Rightarrow> execution_capability
    \<Rightarrow> domain_command option \<Rightarrow> side_effect_execution_result service" where
  "prepare_and_dispatch C tenant cap command =
     andThen now (\<lambda>t. andThen now (\<lambda>wall. andThen new_id (\<lambda>corr. andThen new_id (\<lambda>audit_id.
     andThen (atomic (\<lambda>d. prepare (rmc_digest C) tenant d cap t wall corr audit_id)) (\<lambda>(l, owns).
       if \<not> owns then return (execution_result l False
         (led_capability_id l \<noteq> xc_capability_id cap \<or> led_status l \<noteq> Eff_NOOP))
       else dispatch_and_complete C tenant cap command None)))))"

definition execute_capability :: "remediation_config \<Rightarrow> string \<Rightarrow> signed_execution_capability
    \<Rightarrow> side_effect_execution_result service" where
  "execute_capability C tenant signed =
     andThen (pure (verify_capability (rmc_hmac C) signed)) (\<lambda>cap.
     andThen (existing_effectP C tenant cap) (\<lambda>old. case old of
       Some l \<Rightarrow> return (execution_result l False True)
     | None \<Rightarrow>
       andThen (query (\<lambda>d. get_intent tenant d (xc_intent_id cap))) (\<lambda>i.
       catching (verify_intent C (live_reader C tenant) i)
         (\<lambda>e. if e = AuthorizationError Auth_STALE_AUTHORIZATION then existing_or C tenant cap e else raise e)
         (\<lambda>(fresh, c).
           if case_updated_at c \<noteq> xc_expected_case_revision cap
           then existing_or C tenant cap (AuthorizationError Auth_STALE_AUTHORIZATION)
           else andThen (pure (build_command (rmc_digest C) fresh cap))
             (prepare_and_dispatch C tenant cap)))))"

end
