(* ===== verification/RecoveryService.thy ===== *)
theory RecoveryService
  imports ExecutionService
begin

text \<open>
  The recovery of one effect (\<open>recovery/service.py\<close>, \<open>recovery/prepared.py\<close>): a lease on the effect,
  then either a lookup whose proof settles the status, or the resumption of an effect that was
  prepared and never dispatched, under its original capability. \<open>CaseRecoveryCoordinator\<close>
  (\<open>recovery/case.py\<close>) recovers the reads of a Case and lists its unresolved effects; the tables of the
  ledger are installed.
\<close>

section \<open>Prepared effects\<close>

text \<open>
  \<open>_PreparedCases.get\<close>: the Case as it was before the preparation, if nothing else has changed it.
\<close>

definition prepared_case :: "string \<Rightarrow> side_effect_ledger \<Rightarrow> execution_capability \<Rightarrow> db \<Rightarrow> string
    \<Rightarrow> error + case_rec" where
  "prepared_case tenant l cap d cid = bindE (get_case tenant d cid) (\<lambda>c.
     if cid \<noteq> led_case_id l \<or> case_updated_at c \<noteq> led_prepared_case_revision l
     then Inl (AuthorizationError Auth_STALE_AUTHORIZATION)
     else Inr (c\<lparr> case_updated_at := xc_expected_case_revision cap \<rparr>))"

definition resume_verified :: "remediation_config \<Rightarrow> string \<Rightarrow> recovery_claim \<Rightarrow> side_effect_ledger
    \<Rightarrow> execution_capability \<Rightarrow> remediation_intent \<Rightarrow> side_effect_execution_result service" where
  "resume_verified C tenant claim l cap i =
     andThen (verify_intent C (read_stateP C tenant (prepared_case tenant l cap)) i) (\<lambda>(fresh, _).
     andThen (pure (build_command (rmc_digest C) fresh cap)) (\<lambda>command.
       dispatch_and_complete C tenant cap command (Some claim)))"

definition resume_prepared :: "remediation_config \<Rightarrow> string \<Rightarrow> recovery_claim
    \<Rightarrow> side_effect_execution_result service" where
  "resume_prepared C tenant claim =
     andThen (query (\<lambda>d. get_ledger tenant d (rcl_effect_id claim))) (\<lambda>l.
       if led_status l \<noteq> Eff_PREPARED \<or> rcl_source_status claim \<noteq> Eff_PREPARED
       then raise (RecoveryError Rf_RECOVERY_STALE)
       else andThen (query (\<lambda>d. reconstruct_identity (rmc_digest C) tenant d l)) (\<lambda>(identity, cap, i).
         andThen (query (\<lambda>d. original_signed_capability d cap)) (\<lambda>signed.
         andThen (pure (verify_capability (rmc_hmac C) signed)) (\<lambda>_.
         andThen (existing_effectP C tenant cap) (\<lambda>_. resume_verified C tenant claim l cap i)))))"

section \<open>Lookups\<close>

record recovery_setup =
  rsu_contract :: recovery_capability
  rsu_policy :: recovery_policy
  rsu_resolver :: recovery_capability
  rsu_worker :: string
  rsu_resumes :: bool

text \<open>An exception of the program, where an external call may raise anything.\<close>

definition raised :: "error + 'a \<Rightarrow> external_error + 'a" where
  "raised r = (case r of Inl e \<Rightarrow> Inl (Raised e) | Inr x \<Rightarrow> Inr x)"

text \<open>\<open>EffectStatusLookupService.capture\<close>; the resolver may raise anything.\<close>

definition capture :: "remediation_config \<Rightarrow> recovery_setup \<Rightarrow> string \<Rightarrow> recovery_claim
    \<Rightarrow> (external_error + unit) proc" where
  "capture C R tenant claim = (
     if \<not> rcap_supports_lookup (rsu_contract R) \<or> rsu_resolver R \<noteq> rsu_contract R
     then Return (Inl (Raised (RecoveryError Rf_INVALID_LOOKUP_RECEIPT)))
     else bindP (query (\<lambda>d. get_ledger tenant d (rcl_effect_id claim))) (\<lambda>r. case r of
       Inl e \<Rightarrow> Return (Inl (Raised e))
     | Inr l \<Rightarrow>
       if led_status l \<notin> set LOOKUP_ONLY \<or> rcl_source_status claim \<noteq> led_status l
       then Return (Inl (Raised (RecoveryError Rf_RECOVERY_STALE)))
       else bindP (query (\<lambda>d. reconstruct_identity (rmc_digest C) tenant d l)) (\<lambda>r. case r of
         Inl e \<Rightarrow> Return (Inl (Raised e))
       | Inr (identity, _, _) \<Rightarrow> Lookup (led_dispatch_correlation_id l) identity (\<lambda>reply. case reply of
           Inl e \<Rightarrow> Return (Inl e)
         | Inr result \<Rightarrow> bindP (andThen now (\<lambda>t. atomic_unit (\<lambda>d. persist_lookup (rmc_digest C)
             (rsu_contract R) tenant d claim identity result t))) (\<lambda>r. Return (raised r))))))"

section \<open>The coordinator\<close>

definition authorization_failure :: "authorization_code \<Rightarrow> recovery_failure" where
  "authorization_failure c = (
     if c \<in> {Auth_CAPABILITY_EXPIRED, Auth_APPROVAL_EXPIRED} then Rf_RECOVERY_AUTHORIZATION_EXPIRED
     else if c = Auth_APPROVAL_REVOKED then Rf_RECOVERY_APPROVAL_REVOKED else Rf_RECOVERY_STALE)"

definition recovery_failure_of :: "external_error \<Rightarrow> recovery_failure" where
  "recovery_failure_of x = (case x of
     Raised (AuthorizationError c) \<Rightarrow> authorization_failure c
   | Raised (RecoveryError f) \<Rightarrow> f
   | Raised e \<Rightarrow> if is_value_error e then Rf_INVALID_LOOKUP_RECEIPT else Rf_LOOKUP_TRANSPORT_ERROR
   | Timed_out \<Rightarrow> Rf_LOOKUP_TIMEOUT
   | Failed \<Rightarrow> Rf_LOOKUP_TRANSPORT_ERROR)"

definition lookup_outcome :: "effect_status \<Rightarrow> external_error + recovery_outcome" where
  "lookup_outcome s = (case s of Eff_APPLIED \<Rightarrow> Inr Ro_RECOVERED_APPLIED
     | Eff_FAILED_CONFIRMED \<Rightarrow> Inr Ro_RECOVERED_FAILED_CONFIRMED | Eff_ACCEPTED \<Rightarrow> Inr Ro_RECOVERED_ACCEPTED
     | Eff_UNKNOWN \<Rightarrow> Inr Ro_STILL_UNKNOWN | _ \<Rightarrow> Inl (Raised KeyError))"

definition attempt_recovery :: "remediation_config \<Rightarrow> recovery_setup \<Rightarrow> string \<Rightarrow> recovery_claim
    \<Rightarrow> (external_error + side_effect_ledger \<times> recovery_outcome) proc" where
  "attempt_recovery C R tenant claim = (
     if rcl_source_status claim = Eff_PREPARED then
       bindP (if \<not> rsu_resumes R then raise (RecoveryError Rf_RECOVERY_STALE)
         else andThen (resume_prepared C tenant claim) (\<lambda>_. andThen now (\<lambda>t.
           atomic (\<lambda>d. finish_resume (rsu_policy R) tenant d claim t))))
         (\<lambda>r. Return (raised (bindE r (\<lambda>l. Inr (l, Ro_RESUMED_PREPARED)))))
     else bindP (capture C R tenant claim) (\<lambda>r. case r of
       Inl e \<Rightarrow> Return (Inl e)
     | Inr _ \<Rightarrow> bindP (andThen now (\<lambda>t. atomic (\<lambda>d. recover_transition (rmc_digest C) (rsu_contract R)
           (rsu_policy R) tenant d claim t))) (\<lambda>r. Return (case r of
         Inl e \<Rightarrow> Inl (Raised e)
       | Inr l \<Rightarrow> (case lookup_outcome (led_status l) of Inl e \<Rightarrow> Inl e | Inr a \<Rightarrow> Inr (l, a))))))"

definition failed_outcome :: "effect_status \<Rightarrow> recovery_outcome" where
  "failed_outcome s = (if s = Eff_PREPARED then Ro_BLOCKED_PREPARED
     else if s \<in> set LOOKUP_ONLY then Ro_STILL_UNKNOWN else Ro_NOTHING_TO_DO)"

definition effect_recovery_result :: "string \<Rightarrow> side_effect_ledger \<Rightarrow> side_effect_ledger \<Rightarrow> recovery_outcome
    \<Rightarrow> bool \<Rightarrow> string option \<Rightarrow> recovery_failure option \<Rightarrow> recovery_result" where
  "effect_recovery_result rid prior l action escalation proof failure = \<lparr> rres_recovery_id = rid,
     rres_subject_type = Rs_SIDE_EFFECT, rres_subject_id = led_effect_id l,
     rres_before_status = Some (Inl (led_status prior)), rres_after_status = Inl (led_status l),
     rres_action_taken = Inl action, rres_proof_ref = proof, rres_recovered_evidence_refs = [],
     rres_requires_escalation = escalation, rres_failure_code = failure \<rparr>"

definition not_claimed :: "string \<Rightarrow> string \<Rightarrow> side_effect_ledger \<Rightarrow> recovery_result service" where
  "not_claimed tenant eid prior =
     andThen (query (\<lambda>d. get_ledger tenant d eid)) (\<lambda>l.
     andThen (query (\<lambda>d. requires_escalation tenant d eid)) (\<lambda>escalation.
     andThen new_id (\<lambda>rid. return (effect_recovery_result rid prior l
       (if escalation then Ro_ESCALATION_REQUIRED
        else if led_status l \<notin> set (Eff_PREPARED # LOOKUP_ONLY) then Ro_NOTHING_TO_DO
        else Ro_BUSY_OR_NOT_DUE) escalation None None))))"

text \<open>A failure is recorded under the lease; a worker that lost it leaves the successor's result alone.\<close>

definition settle_failure :: "remediation_config \<Rightarrow> recovery_setup \<Rightarrow> string \<Rightarrow> recovery_claim
    \<Rightarrow> recovery_failure \<Rightarrow> (side_effect_ledger \<times> recovery_outcome) service" where
  "settle_failure C R tenant claim failure =
     andThen (catching (andThen now (\<lambda>t. atomic (\<lambda>d. finish_error (rmc_digest C) (rsu_policy R) tenant d claim t failure)))
       (\<lambda>e. case e of RecoveryError _ \<Rightarrow> query (\<lambda>d. get_ledger tenant d (rcl_effect_id claim)) | _ \<Rightarrow> raise e)
       return) (\<lambda>l. return (l, failed_outcome (led_status l)))"

text \<open>\<open>next\<close> over no attempt raises \<open>StopIteration\<close>, for which \<open>KeyError\<close> stands.\<close>

definition recovery_report :: "recovery_setup \<Rightarrow> string \<Rightarrow> side_effect_ledger \<Rightarrow> recovery_claim
    \<Rightarrow> recovery_failure option \<Rightarrow> side_effect_ledger \<Rightarrow> recovery_outcome \<Rightarrow> recovery_result service" where
  "recovery_report R tenant prior claim failure l action =
     andThen (query (\<lambda>d. requires_escalation tenant d (rcl_effect_id claim))) (\<lambda>escalation.
     andThen (query (\<lambda>d. bindE (get_ledger tenant d (rcl_effect_id claim)) (\<lambda>_.
       Inr (attempts_of d (rcl_effect_id claim))))) (\<lambda>attempts.
     case find (\<lambda>(rid, _). rid = rcl_recovery_id claim) attempts of
       None \<Rightarrow> raise KeyError
     | Some (_, a) \<Rightarrow> return (effect_recovery_result (rcl_recovery_id claim) prior l
         (if escalation \<and> led_status l \<in> set LOOKUP_ONLY then Ro_ESCALATION_REQUIRED else action)
         escalation (att_proof_hash a) (case failure of Some f \<Rightarrow> Some f | None \<Rightarrow> att_failure_code a))))"

definition recover_effect :: "remediation_config \<Rightarrow> recovery_setup \<Rightarrow> string \<Rightarrow> string
    \<Rightarrow> recovery_result service" where
  "recover_effect C R tenant eid =
     andThen (query (\<lambda>d. get_ledger tenant d eid)) (\<lambda>prior.
     andThen now (\<lambda>t. andThen new_id (\<lambda>uuid.
     andThen (atomic (\<lambda>d. claim_recovery (rsu_contract R) (rsu_policy R) tenant d eid (rsu_worker R) t uuid))
       (\<lambda>claimed. case claimed of
         None \<Rightarrow> not_claimed tenant eid prior
       | Some claim \<Rightarrow> bindP (attempt_recovery C R tenant claim) (\<lambda>r. case r of
           Inr (l, action) \<Rightarrow> recovery_report R tenant prior claim None l action
         | Inl x \<Rightarrow> andThen (settle_failure C R tenant claim (recovery_failure_of x)) (\<lambda>(l, action).
             recovery_report R tenant prior claim (Some (recovery_failure_of x)) l action))))))"

section \<open>The recovery of a Case\<close>

record case_recovery_inspection =
  cri_case_id :: string
  cri_read_recoveries :: "recovery_result list"
  cri_unresolved_effect_ids :: "string list"

definition unresolved_effect_ids :: "db \<Rightarrow> string \<Rightarrow> string list" where
  "unresolved_effect_ids d cid = sort (map fst (filter (\<lambda>(_, r). eff_case_id r = cid
     \<and> eff_status r \<in> {Eff_PREPARED, Eff_DISPATCHED, Eff_ACCEPTED, Eff_UNKNOWN}) (db_effects d)))"

primrec recover_reads :: "(jv \<Rightarrow> string) \<Rightarrow> (observation \<Rightarrow> string) \<Rightarrow> string \<Rightarrow> string \<Rightarrow> string list
    \<Rightarrow> recovery_result list service" where
  "recover_reads jh oh tenant cid [] = return []"
| "recover_reads jh oh tenant cid (call_id # calls) =
     andThen now (\<lambda>t1. andThen now (\<lambda>t2. andThen new_id (\<lambda>uuid.
     andThen (atomic (\<lambda>d. recover_read jh oh tenant d cid call_id t1 t2 uuid)) (\<lambda>r.
     andThen (recover_reads jh oh tenant cid calls) (\<lambda>rs. return (r # rs))))))"

definition before_investigation :: "(jv \<Rightarrow> string) \<Rightarrow> (observation \<Rightarrow> string) \<Rightarrow> string \<Rightarrow> string
    \<Rightarrow> case_recovery_inspection service" where
  "before_investigation jh oh tenant cid =
     andThen (query (\<lambda>d. get_case tenant d cid)) (\<lambda>_.
     andThen (query (\<lambda>d. pending_calls tenant d cid)) (\<lambda>calls.
     andThen (recover_reads jh oh tenant cid calls) (\<lambda>reads.
     andThen (query (\<lambda>d. Inr (unresolved_effect_ids d cid))) (\<lambda>effects.
       return \<lparr> cri_case_id = cid, cri_read_recoveries = reads, cri_unresolved_effect_ids = effects \<rparr>))))"

end
