(* ===== verification/Services.thy ===== *)
theory Services
  imports Safety RecoveryService
begin

text \<open>
  The services refine the deployment: every node of a service procedure is a transaction of \<open>System\<close>
  or writes nothing, and a call of the adapter stands directly behind the committed dispatch of the
  same effect. A pool of services that run concurrently, with each other and with every other actor
  of the deployment, is therefore a run of the system, and inherits its invariants.
\<close>

section \<open>Outcomes under any environment\<close>

text \<open>
  \<open>yields p cs x\<close>: in some environment, whatever commits between its transactions and whatever the
  outside answers, \<open>p\<close> ends with \<open>x\<close> after the calls \<open>cs\<close> of the adapter with their replies.
\<close>

type_synonym adapter_call =
  "domain_command option \<times> side_effect_ledger \<times> (external_error + side_effect_receipt)"

inductive yields :: "'a proc \<Rightarrow> adapter_call list \<Rightarrow> 'a \<Rightarrow> bool" where
  yields_Return: "yields (Return x) [] x"
| yields_Txn: "yields (snd (f d)) cs x \<Longrightarrow> yields (Txn f) cs x"
| yields_Clock: "yields (c t) cs x \<Longrightarrow> yields (Clock c) cs x"
| yields_Fresh: "yields (c i) cs x \<Longrightarrow> yields (Fresh c) cs x"
| yields_Send: "yields (c r) cs x \<Longrightarrow> yields (Send cmd l c) ((cmd, l, r) # cs) x"
| yields_Lookup: "yields (c r) cs x \<Longrightarrow> yields (Lookup corr identity c) cs x"
| yields_Observe: "yields (c r) cs x \<Longrightarrow> yields (Observe cid tool q i c) cs x"
| yields_Ask: "yields (c r) cs x \<Longrightarrow> yields (Ask s c) cs x"

inductive_simps yields_simps [simp]:
  "yields (Return y) cs x" "yields (Txn f) cs x" "yields (Clock c) cs x" "yields (Fresh c) cs x"
  "yields (Send cmd l c) cs x" "yields (Lookup corr identity c) cs x" "yields (Observe cid tool q i c) cs x"
  "yields (Ask s c) cs x"

lemma yields_bindP: "yields (bindP p k) cs x \<longleftrightarrow> (\<exists>cs1 cs2 y. cs = cs1 @ cs2 \<and> yields p cs1 y \<and> yields (k y) cs2 x)"
proof (induction p arbitrary: cs rule: proc_induct)
  case (Send cmd l c)
  show ?case by (auto simp: Send.IH Cons_eq_append_conv) blast+
qed auto

lemma yields_andThen: "yields (andThen p k) cs r \<longleftrightarrow>
  (\<exists>e. yields p cs (Inl e) \<and> r = Inl e) \<or>
  (\<exists>cs1 cs2 x. cs = cs1 @ cs2 \<and> yields p cs1 (Inr x) \<and> yields (k x) cs2 r)"
  by (simp add: andThen_def yields_bindP split_sum_ex ex_disj_distrib conj_disj_distribL)
    (rule arg_cong2 [where f = "(\<or>)"], auto)

lemma yields_catching: "yields (catching p h k) cs r \<longleftrightarrow>
  (\<exists>cs1 cs2 e. cs = cs1 @ cs2 \<and> yields p cs1 (Inl e) \<and> yields (h e) cs2 r) \<or>
  (\<exists>cs1 cs2 x. cs = cs1 @ cs2 \<and> yields p cs1 (Inr x) \<and> yields (k x) cs2 r)"
  by (simp add: catching_def yields_bindP split_sum_ex ex_disj_distrib conj_disj_distribL)

lemma yields_query [simp]: "yields (query f) cs r \<longleftrightarrow> cs = [] \<and> (\<exists>d. r = f d)"
  by (auto simp: query_def)

lemma yields_atomic: "yields (atomic f) cs r \<longleftrightarrow> cs = [] \<and>
  ((\<exists>d e. f d = Inl e \<and> r = Inl e) \<or> (\<exists>d d' x. f d = Inr (d', x) \<and> r = Inr x))"
proof -
  have "yields (snd (case f d of Inl e \<Rightarrow> (d, raise e) | Inr (d', x) \<Rightarrow> (d', return x))) cs r \<longleftrightarrow> cs = [] \<and>
    ((\<exists>e. f d = Inl e \<and> r = Inl e) \<or> (\<exists>d' x. f d = Inr (d', x) \<and> r = Inr x))" for d
    by (cases "f d") (auto split: prod.splits)
  then show ?thesis by (auto simp: atomic_def)
qed

lemma yields_atomic_unit: "yields (atomic_unit f) cs r \<longleftrightarrow> cs = [] \<and>
  ((\<exists>d e. f d = Inl e \<and> r = Inl e) \<or> (\<exists>d d'. f d = Inr d' \<and> r = Inr ()))"
proof -
  have "yields (snd (case f d of Inl e \<Rightarrow> (d, raise e) | Inr d' \<Rightarrow> (d', return ()))) cs r \<longleftrightarrow> cs = [] \<and>
    ((\<exists>e. f d = Inl e \<and> r = Inl e) \<or> (\<exists>d'. f d = Inr d' \<and> r = Inr ()))" for d
    by (cases "f d") auto
  then show ?thesis by (auto simp: atomic_unit_def)
qed

lemma yields_now [simp]: "yields now cs r \<longleftrightarrow> cs = [] \<and> (\<exists>t. r = Inr t)"
  by (auto simp: now_def)

lemma yields_new_id [simp]: "yields new_id cs r \<longleftrightarrow> cs = [] \<and> (\<exists>i. r = Inr i)"
  by (auto simp: new_id_def)

text \<open>A run alone is one of the environments.\<close>

lemma solo_yields: "solo p s n d = (ls, d', x) \<Longrightarrow> \<exists>cs. yields p cs x \<and> map (fst \<circ> snd) cs = ls"
proof (induction p arbitrary: n d ls rule: proc_induct)
  case (Txn f)
  then show ?case by (auto simp: case_prod_beta) blast
next
  case (Send cmd l c)
  then obtain ls' where "ls = l # ls'"
    and "solo (c (sc_adapter s cmd (led_dispatch_correlation_id l))) s (Suc n) d = (ls', d', x)"
    by (auto split: prod.splits)
  with Send.IH show ?case by fastforce
qed (fastforce)+

section \<open>What is sent\<close>

lemma read_attemptsP_silent: "yields (read_attemptsP C tenant get cid n) cs r \<Longrightarrow> cs = []"
  by (induction n arbitrary: cs r) (auto simp: yields_andThen split: if_splits)

lemma read_stateP_silent: "yields (read_stateP C tenant get cid) cs r \<Longrightarrow> cs = []"
  unfolding read_stateP_def by (rule read_attemptsP_silent)

lemma verify_intent_yields:
  assumes "yields (verify_intent C reader i) cs r" and "\<And>cid cs r. yields (reader cid) cs r \<Longrightarrow> cs = []"
  shows "cs = []" and "r = Inr (fresh, c) \<Longrightarrow> fresh = i \<and> intent_well_formed (rmc_digest C) i = Inr ()"
  using assms by (auto simp: verify_intent_def yields_andThen split: if_splits dest!: assms(2))

lemma existing_effectP_silent: "yields (existing_effectP C tenant cap) cs r \<Longrightarrow> cs = []"
  by (auto simp: existing_effectP_def yields_andThen yields_atomic)

definition settles :: "effect_status \<times> side_effect_receipt option \<times> failure_code option \<Rightarrow> side_effect_ledger \<Rightarrow> bool" where
  "settles = (\<lambda>(status, receipt, failure) l'. led_status l' = status \<and> led_failure_code l' = failure
     \<and> (case receipt of None \<Rightarrow> True | Some r \<Rightarrow> led_external_effect_ref l' = srx_external_effect_ref r))"

abbreviation settled_as :: "side_effect_ledger \<Rightarrow> external_error + side_effect_receipt \<Rightarrow> side_effect_ledger \<Rightarrow> bool" where
  "settled_as l reply \<equiv> settles (dispatch_outcome l reply)"

lemma transition_settles:
  assumes "transition dg tenant d eid expected status t receipt failure a = Inr (d', l')"
  shows "settles (status, receipt, failure) l'"
  using assms
proof (cases rule: transition_Inr)
  case (1 row d1 i)
  then show ?thesis by (simp add: settles_def split: option.split)
qed

lemma complete_dispatch_yields:
  assumes "yields (complete_dispatch C tenant cmd l) cs r"
  shows "\<exists>reply. cs = [(cmd, l, reply)] \<and> (\<forall>x. r = Inr x \<longrightarrow> ser_executed_now x \<and> settled_as l reply (ser_ledger x))"
proof -
  from assms obtain reply cs' where cs: "cs = (cmd, l, reply) # cs'"
    and y: "yields (case dispatch_outcome l reply of (status, receipt, failure) \<Rightarrow>
      andThen now (\<lambda>t. andThen new_id (\<lambda>audit_id.
        andThen (atomic (\<lambda>d. transition (rmc_digest C) tenant d (led_effect_id l) Eff_DISPATCHED status t
            receipt failure audit_id)) (\<lambda>l'. return (execution_result l' True False))))) cs' r"
    by (auto simp: complete_dispatch_def Let_def)
  obtain status receipt failure where o1: "dispatch_outcome l reply = (status, receipt, failure)" by (rule prod_cases3)
  from y have "cs' = []" by (auto simp: o1 yields_andThen yields_atomic)
  moreover have "ser_executed_now x \<and> settled_as l reply (ser_ledger x)" if "r = Inr x" for x
    using y that by (auto simp: o1 yields_andThen yields_atomic execution_result_def dest: transition_settles)
  ultimately show ?thesis using cs by blast
qed

lemma dispatched_entry:
  "dispatch_prepared dg tenant d cap t claim a = Inr (d', l) \<Longrightarrow> led_status l = Eff_DISPATCHED \<and> led_attempt_count l = 1"
  by (auto elim!: dispatch_prepared_Inr)

text \<open>One call at most, for an entry that was dispatched; what is reported is what its reply establishes.\<close>

definition sends_once :: "domain_command option \<Rightarrow> adapter_call list \<Rightarrow> error + side_effect_execution_result \<Rightarrow> bool" where
  "sends_once cmd cs r = (
     (cs = [] \<or> (\<exists>l reply. cs = [(cmd, l, reply)] \<and> led_status l = Eff_DISPATCHED \<and> led_attempt_count l = 1))
     \<and> (case r of Inl _ \<Rightarrow> True | Inr x \<Rightarrow>
          if ser_executed_now x then \<exists>l reply. cs = [(cmd, l, reply)] \<and> settled_as l reply (ser_ledger x)
          else cs = []))"

lemma sends_once_raise [simp]: "sends_once cmd [] (Inl e)"
  by (simp add: sends_once_def)

lemma sends_once_replay [simp]: "sends_once cmd [] (Inr (execution_result l False b))"
  by (simp add: sends_once_def execution_result_def)

lemma dispatch_and_complete_yields:
  assumes "yields (dispatch_and_complete C tenant cap cmd claim) cs r"
  shows "sends_once cmd cs r"
proof -
  from assms consider e where "cs = []" "r = Inl e"
    | d t a d' l where "dispatch_prepared (rmc_digest C) tenant d cap t claim a = Inr (d', l)"
        "yields (complete_dispatch C tenant cmd l) cs r"
    by (auto simp: dispatch_and_complete_def yields_andThen yields_atomic)
  then show ?thesis
  proof cases
    case 2
    from complete_dispatch_yields [OF 2(2)] dispatched_entry [OF 2(1)]
    show ?thesis by (auto simp: sends_once_def split: sum.splits)
  qed simp
qed

lemma existing_or_yields: "yields (existing_or C tenant cap e) cs r \<Longrightarrow> sends_once cmd cs r"
  by (auto simp: existing_or_def yields_andThen dest!: existing_effectP_silent split: option.splits)

lemma prepare_and_dispatch_yields:
  "yields (prepare_and_dispatch C tenant cap cmd) cs r \<Longrightarrow> sends_once cmd cs r"
  by (auto simp: prepare_and_dispatch_def yields_andThen yields_atomic split: if_splits
      intro: dispatch_and_complete_yields)

text \<open>The command of a capability that was signed: its hashes are the signed ones.\<close>

definition signed_command :: "remediation_config \<Rightarrow> signed_execution_capability \<Rightarrow> domain_command option \<Rightarrow> bool" where
  "signed_command C signed cmd = (
     sxc_signature signed = rmc_hmac C (capability_json (sxc_payload signed))
     \<and> (\<exists>i. intent_well_formed (rmc_digest C) i = Inr () \<and> for_intent i = Inr cmd
          \<and> ri_intent_id i = xc_intent_id (sxc_payload signed) \<and> ri_case_id i = xc_case_id (sxc_payload signed)
          \<and> rmc_digest C (target_json (ri_target i)) = xc_target_hash (sxc_payload signed)
          \<and> payload_hash (rmc_digest C) i = Inr (xc_payload_hash (sxc_payload signed))))"

lemma build_command_signed:
  assumes "verify_capability (rmc_hmac C) signed = Inr cap" and "intent_well_formed (rmc_digest C) i = Inr ()"
    and "build_command (rmc_digest C) i cap = Inr cmd"
  shows "signed_command C signed cmd"
  using assms by (auto simp: verify_capability_def sign_capability_def build_command_def signed_command_def
      bindE_Inr_iff split: if_splits)

lemma verify_yields:
  assumes "yields (verify_intent C (read_stateP C tenant get) i) cs r"
  shows "cs = [] \<and> (\<forall>fresh c. r = Inr (fresh, c) \<longrightarrow> fresh = i \<and> intent_well_formed (rmc_digest C) i = Inr ())"
  using verify_intent_yields [OF assms] read_stateP_silent by blast

lemma execute_capability_yields:
  assumes "yields (execute_capability C tenant signed) cs r"
  shows "\<exists>cmd. sends_once cmd cs r \<and> (cs = [] \<or> signed_command C signed cmd)"
proof -
  consider e where "cs = []" "r = Inl e"
    | l where "cs = []" "r = Inr (execution_result l False True)"
    | cap i where "Inr cap = verify_capability (rmc_hmac C) signed"
        "yields (catching (verify_intent C (live_reader C tenant) i)
         (\<lambda>e. if e = AuthorizationError Auth_STALE_AUTHORIZATION then existing_or C tenant cap e else raise e)
         (\<lambda>(fresh, c).
           if case_updated_at c \<noteq> xc_expected_case_revision cap
           then existing_or C tenant cap (AuthorizationError Auth_STALE_AUTHORIZATION)
           else andThen (pure (build_command (rmc_digest C) fresh cap))
             (prepare_and_dispatch C tenant cap))) cs r"
    using assms
    by (auto simp: execute_capability_def yields_andThen split: option.splits dest!: existing_effectP_silent)
  then show ?thesis
  proof cases
    case 3
    from 3(2) consider e where "yields (existing_or C tenant cap e) cs r" | e where "cs = []" "r = Inl e"
      | cmd where "intent_well_formed (rmc_digest C) i = Inr ()" "Inr cmd = build_command (rmc_digest C) i cap"
        "yields (prepare_and_dispatch C tenant cap cmd) cs r"
      by (auto simp: yields_catching yields_andThen split: if_splits dest!: verify_yields)
    then show ?thesis
    proof cases
      case 1
      moreover have "cs = []" using 1
        by (auto simp: existing_or_def yields_andThen split: option.splits dest!: existing_effectP_silent)
      ultimately show ?thesis using existing_or_yields by blast
    next
      case (3 cmd)
      from prepare_and_dispatch_yields [OF 3(3)]
        build_command_signed [OF \<open>Inr cap = _\<close> [symmetric] 3(1) 3(2) [symmetric]]
      show ?thesis by blast
    qed auto
  qed auto
qed

text \<open>
  C32. What an execution sends is what was signed. Whatever the rest of the deployment commits meanwhile
  and whatever the adapter answers, the execution of a signed capability calls the adapter at most
  once, after the dispatch of the entry was committed, with a command of a well-formed intent whose
  target and payload hashes are the ones in the payload of a valid signature; it reports an execution
  exactly when it made the call, with the status that the reply establishes.
\<close>

theorem execution_sends_signed_command:
  assumes "yields (execute_capability C tenant signed) cs r"
  shows "\<exists>cmd. sends_once cmd cs r \<and> (cs = [] \<or> signed_command C signed cmd)"
  by (rule execute_capability_yields [OF assms])

lemma resume_prepared_yields:
  assumes "yields (resume_prepared C tenant claim) cs r"
  shows "\<exists>cmd. sends_once cmd cs r \<and> (cs = [] \<or> (\<exists>signed. signed_command C signed cmd))"
proof -
  consider e where "cs = []" "r = Inl e"
    | l d cap i signed where "original_signed_capability d cap = Inr signed"
        "\<not> isl (verify_capability (rmc_hmac C) signed)"
        "yields (resume_verified C tenant claim l cap i) cs r"
    using assms
    by (auto simp: resume_prepared_def yields_andThen split: if_splits dest!: existing_effectP_silent)
      (metis sum.disc(2))
  then show ?thesis
  proof cases
    case 2
    have cap: "verify_capability (rmc_hmac C) signed = Inr cap"
      using 2(1,2) by (auto simp: original_signed_capability_def bindE_Inr_iff verify_capability_def split: if_splits)
    from 2(3) consider e where "cs = []" "r = Inl e"
      | cmd where "intent_well_formed (rmc_digest C) i = Inr ()" "Inr cmd = build_command (rmc_digest C) i cap"
        "yields (dispatch_and_complete C tenant cap cmd (Some claim)) cs r"
      by (auto simp: resume_verified_def yields_andThen dest!: verify_yields)
    then show ?thesis
    proof cases
      case (2 cmd)
      from dispatch_and_complete_yields [OF 2(3)] build_command_signed [OF cap 2(1) 2(2) [symmetric]]
      show ?thesis by blast
    qed auto
  qed auto
qed

section \<open>A sample configuration\<close>

definition sample_config :: remediation_config where
  "sample_config = \<lparr> rmc_digest = sample_hash, rmc_evidence_hash = (\<lambda>_. ''E''), rmc_group_key = (\<lambda>_. []),
     rmc_fingerprint = (\<lambda>_ _. ''F''), rmc_snapshot = (\<lambda>_ _. Inr ''S-1''), rmc_hmac = (\<lambda>_. ''sig'') \<rparr>"

definition sample_setup :: recovery_setup where
  "sample_setup = (let contract = \<lparr> rcap_resolver_id = ''resolver'', rcap_contract_version = ''1'',
       rcap_supports_lookup = True, rcap_not_found_proves_no_effect = False,
       rcap_lookup_freshness_sla_seconds = 60, rcap_supports_external_effect_ref = True \<rparr>
     in \<lparr> rsu_contract = contract, rsu_policy = dep_recovery_policy sample_deployment, rsu_resolver = contract,
       rsu_worker = ''worker'', rsu_resumes = True \<rparr>)"

end
