(* ===== verification/AgentActions.thy ===== *)
theory AgentActions
  imports Planner EvidenceRepository
begin

text \<open>
  What the agent decides about one action (\<open>agent/query.py\<close>, \<open>agent/progress.py\<close>,
  \<open>agent/revalidation.py\<close>): the query it would send, whether a planner decision still holds for the
  Case as it is now, the precondition of its execution, and whether a turn brought new knowledge.
\<close>

section \<open>The query\<close>

text \<open>\<open>ToolQuery\<close> of \<open>tools/contracts.py\<close>.\<close>

definition tool_query_valid :: "tool_query \<Rightarrow> bool" where
  "tool_query_valid q = (identifier_valid (tq_internal_order_id q)
     \<and> opt_valid proposed_version_valid (tq_protocol_version q))"

text \<open>The candidate is parsed again; the query is built field by field from the Case.\<close>

definition build_tool_query :: "case_rec \<Rightarrow> call_tool_candidate \<Rightarrow> error + tool_query" where
  "build_tool_query c cand = (let q = ctc_query cand; t = ctc_tool_name cand in
     if \<not> action_candidate_valid (CallTool cand) then Inl ValidationError
     else if tq_internal_order_id q \<noteq> case_internal_order_id c
       \<or> tq_internal_order_id q \<notin> set (csc_allowed_order_ids (case_scope c))
       \<or> t \<notin> set (csc_allowed_tools (case_scope c))
       \<or> tool_name_value t \<in> set (ccn_forbidden_actions (case_constraints c)) then Inl CasePolicyError
     else if t \<noteq> Tool_PROTOCOL \<and> (tq_protocol_version q \<noteq> None \<or> tq_effective_at q \<noteq> None)
     then Inl CasePolicyError
     else checked tool_query_valid (q\<lparr> tq_internal_order_id := case_internal_order_id c \<rparr>))"

section \<open>Knowledge\<close>

text \<open>\<open>UNKNOWN\<close> and \<open>POSSIBLE\<close> are the same knowledge: undecided.\<close>

definition decided_status :: "hypothesis_status \<Rightarrow> hypothesis_status option" where
  "decided_status s = (if s \<in> {Hs_UNKNOWN, Hs_POSSIBLE} then None else Some s)"

definition hypothesis_knowledge :: "reasoning_context_snapshot
    \<Rightarrow> (hypothesis_id \<times> hypothesis_status \<times> string list) list" where
  "hypothesis_knowledge s = sort_key (hypothesis_id_value \<circ> fst)
     (map (\<lambda>h. (hc_hypothesis_id h, hc_status h, hc_decisive_evidence_refs h)) (rcs_active_hypotheses s)
      @ map (\<lambda>h. (rhs_hypothesis_id h, rhs_status h, rhs_decisive_evidence_refs h)) (rcs_resolved_hypotheses_summary s))"

record knowledge_summary =
  kns_identity :: identity_match
  kns_hypotheses :: "(hypothesis_id \<times> hypothesis_status \<times> string list) list"
  kns_open_gap_ids :: "string list"

definition knowledge_summary_of :: "reasoning_context_snapshot \<Rightarrow> knowledge_summary" where
  "knowledge_summary_of s = \<lparr> kns_identity = pic_result (rcs_financial_identity s),
     kns_hypotheses = hypothesis_knowledge s,
     kns_open_gap_ids = sort (map gpc_gap_id (rcs_open_evidence_gaps s)) \<rparr>"

record knowledge_progress =
  knp_new_evidence :: bool
  knp_hypothesis_graph_fingerprint_changed :: bool
  knp_hypothesis_changed :: bool
  knp_identity_changed :: bool
  knp_gap_changed :: bool
  knp_history_changed :: bool
  knp_facts_changed :: bool
  knp_has_progress :: bool
  knp_before :: knowledge_summary
  knp_after :: knowledge_summary

definition undecided_merged :: "knowledge_summary \<Rightarrow> (hypothesis_id \<times> hypothesis_status option \<times> string list) list" where
  "undecided_merged k = map (\<lambda>(h, s, rs). (h, decided_status s, rs)) (kns_hypotheses k)"

definition knowledge_progress_of :: "reasoning_context_snapshot \<Rightarrow> reasoning_context_snapshot \<Rightarrow> knowledge_progress" where
  "knowledge_progress_of s1 s2 = (
     let old = knowledge_summary_of s1; new = knowledge_summary_of s2;
         h1 = rcs_history_digest s1; h2 = rcs_history_digest s2;
         evidence_new = (rcs_evidence_fingerprint s1 \<noteq> rcs_evidence_fingerprint s2);
         hypothesis_changed = (undecided_merged old \<noteq> undecided_merged new);
         identity_changed = (rcs_financial_identity s1 \<noteq> rcs_financial_identity s2);
         gap_changed = (rcs_open_evidence_gaps s1 \<noteq> rcs_open_evidence_gaps s2);
         history_changed = (hdg_repeated_lookup_groups h1 \<noteq> hdg_repeated_lookup_groups h2
           \<or> hdg_state_transitions h1 \<noteq> hdg_state_transitions h2);
         facts_changed = (rcs_current_facts s1 \<noteq> rcs_current_facts s2)
     in \<lparr> knp_new_evidence = evidence_new,
          knp_hypothesis_graph_fingerprint_changed =
            (rcs_hypothesis_graph_fingerprint s1 \<noteq> rcs_hypothesis_graph_fingerprint s2),
          knp_hypothesis_changed = hypothesis_changed, knp_identity_changed = identity_changed,
          knp_gap_changed = gap_changed, knp_history_changed = history_changed, knp_facts_changed = facts_changed,
          knp_has_progress = (evidence_new \<or> hypothesis_changed \<or> identity_changed \<or> gap_changed
            \<or> history_changed \<or> facts_changed),
          knp_before = old, knp_after = new \<rparr>)"

section \<open>Revalidation\<close>

datatype revalidation_status = Rv_VALID | Rv_STALE_SNAPSHOT | Rv_STALE_POLICY | Rv_CANDIDATE_REJECTED
  | Rv_CASE_PRECONDITION_FAILED | Rv_QUERY_REBUILD_FAILED | Rv_NO_SELECTED_ACTION

definition execution_precondition :: "case_rec \<Rightarrow> reasoning_context_snapshot \<Rightarrow> agent_execution_precondition" where
  "execution_precondition c s = \<lparr> aep_case_id = case_case_id c, aep_tenant_id = case_tenant_id c,
     aep_expected_case_status = case_status c,
     aep_expected_used_tool_calls = cb_used_tool_calls (case_budget c),
     aep_expected_case_updated_at = case_updated_at c, aep_expected_snapshot_id = rcs_snapshot_id s,
     aep_planner_policy_version = PLANNER_POLICY_VERSION, aep_work_lease = None,
     aep_registry_version = None, aep_routing_fingerprint = None \<rparr>"

definition proposal_valid :: "validated_action_proposal \<Rightarrow> bool" where
  "proposal_valid p = (hash_ref (vap_snapshot_id p) \<and> action_candidate_valid (vap_candidate p))"

definition decision_valid :: "planner_decision \<Rightarrow> bool" where
  "decision_valid d = (list_all hash_ref [pdc_decision_id d, pdc_snapshot_id d, pdc_planner_draft_hash d]
     \<and> list_all proposal_valid (pdc_valid_candidates d)
     \<and> list_all (action_candidate_valid \<circ> fst) (pdc_rejected_candidates d)
     \<and> (case pdc_selected_action d of None \<Rightarrow> True | Some p \<Rightarrow> proposal_valid p)
     \<and> list_all (candidate_id_valid \<circ> rkd_candidate_id) (pdc_ranking_details d))"

definition revalidate :: "context_text \<Rightarrow> case_rec \<Rightarrow> reasoning_context_snapshot \<Rightarrow> planner_decision
    \<Rightarrow> revalidation_status \<times> rejection_code list" where
  "revalidate T c s d = (
     if \<not> decision_valid d then (Rv_CANDIDATE_REJECTED, [])
     else case pdc_selected_action d of
       None \<Rightarrow> (Rv_NO_SELECTED_ACTION, [])
     | Some p \<Rightarrow>
         if pdc_snapshot_id d \<noteq> vap_snapshot_id p \<or> vap_snapshot_id p \<noteq> rcs_snapshot_id s then (Rv_STALE_SNAPSHOT, [])
         else if pdc_policy_version d \<noteq> PLANNER_POLICY_VERSION \<or> vap_policy_version p \<noteq> PLANNER_POLICY_VERSION
         then (Rv_STALE_POLICY, [])
         else if case_case_id c \<noteq> rcs_case_id s \<or> ctx_case_digest T c \<noteq> rcs_case_fingerprint s
           \<or> case_status c \<notin> {Case_NEW, Case_INVESTIGATING} then (Rv_CASE_PRECONDITION_FAILED, [])
         else (let cand = vap_candidate p; reasons = dedup (validate_action s cand @ hard_policy s cand) in
           if reasons \<noteq> [] then (Rv_CANDIDATE_REJECTED, reasons)
           else case cand of
             CallTool x \<Rightarrow> (case build_tool_query c x of
                 Inl e \<Rightarrow> (Rv_QUERY_REBUILD_FAILED, []) | Inr _ \<Rightarrow> (Rv_VALID, []))
           | _ \<Rightarrow> (Rv_VALID, [])))"

end
