(* ===== verification/AgentRuntime.thy ===== *)
theory AgentRuntime
  imports RecoveryService AgentActions Checkpoint
begin

text \<open>
  The investigation agent (\<open>agent/runtime.py\<close>, \<open>agent/models.py\<close>) and the executor it dispatches
  with (\<open>cases/executor.py\<close>), as procedures. A turn plans on the current context, loads the context
  again, revalidates the decision on it, and makes at most one tool call or one pause, whose
  transaction rechecks the precondition. The trace store only keeps projections for inspection and is
  left out, and so is the optional guidance of the planner.
\<close>

section \<open>The executor\<close>

datatype action_failure = Failed_with error | Tool_failed string

text \<open>
  \<open>CaseToolExecutor._execute\<close> with a precondition: whatever fails after the reservation is one
  \<open>CaseToolExecutionError\<close>, and the call is marked.
\<close>

definition failed_call :: "string \<Rightarrow> string \<Rightarrow> string \<Rightarrow> (action_failure + 'a) proc" where
  "failed_call tenant cid call_id = bindP (atomic_unit (\<lambda>d. mark_error tenant d cid call_id))
     (\<lambda>r. case r of Inl e \<Rightarrow> Return (Inl (Failed_with e)) | Inr _ \<Rightarrow> Return (Inl (Tool_failed call_id)))"

definition publish_call :: "(jv \<Rightarrow> string) \<Rightarrow> (observation \<Rightarrow> string) \<Rightarrow> string \<Rightarrow> string \<Rightarrow> string \<Rightarrow> observation
    \<Rightarrow> (action_failure + string \<times> string list) proc" where
  "publish_call jh oh tenant cid call_id o1 = bindP (andThen now (\<lambda>t. atomic (\<lambda>d.
       record_call jh oh tenant d cid call_id o1 False t)))
     (\<lambda>r. case r of Inl _ \<Rightarrow> failed_call tenant cid call_id | Inr rs \<Rightarrow> Return (Inr (call_id, rs)))"

definition observed_call :: "(jv \<Rightarrow> string) \<Rightarrow> (observation \<Rightarrow> string) \<Rightarrow> string \<Rightarrow> string \<Rightarrow> tool_name \<Rightarrow> tool_query
    \<Rightarrow> string \<Rightarrow> (action_failure + string \<times> string list) proc" where
  "observed_call jh oh tenant cid tool q call_id = Observe cid tool q call_id (\<lambda>reply. case reply of
       Inl _ \<Rightarrow> failed_call tenant cid call_id | Inr o1 \<Rightarrow> publish_call jh oh tenant cid call_id o1)"

definition execute_if_current :: "(jv \<Rightarrow> string) \<Rightarrow> (observation \<Rightarrow> string) \<Rightarrow> string \<Rightarrow> string \<Rightarrow> tool_name
    \<Rightarrow> tool_query \<Rightarrow> agent_execution_precondition \<Rightarrow> (action_failure + string \<times> string list) proc" where
  "execute_if_current jh oh tenant cid tool q p = Clock (\<lambda>t1. Clock (\<lambda>t2. Fresh (\<lambda>uuid.
     bindP (atomic (\<lambda>d. reserve_call tenant d cid tool q (Some p) t1 t2 uuid)) (\<lambda>r. case r of
         Inl e \<Rightarrow> Return (Inl (Failed_with e))
       | Inr (Inl e, call_id) \<Rightarrow> Return (Inl (Failed_with e))
       | Inr (Inr _, call_id) \<Rightarrow> observed_call jh oh tenant cid tool q call_id))))"

section \<open>Setup and traces\<close>

record agent_config =
  agc_max_turns :: nat
  agc_max_stale_replans_per_turn :: nat
  agc_max_consecutive_no_knowledge_progress :: nat

definition default_agent_config :: agent_config where
  "default_agent_config = \<lparr> agc_max_turns = 12, agc_max_stale_replans_per_turn = 3,
     agc_max_consecutive_no_knowledge_progress = 2 \<rparr>"

definition agent_config_valid :: "agent_config \<Rightarrow> bool" where
  "agent_config_valid g = (1 \<le> agc_max_turns g \<and> agc_max_turns g \<le> 100 \<and> agc_max_stale_replans_per_turn g \<le> 10
     \<and> 1 \<le> agc_max_consecutive_no_knowledge_progress g \<and> agc_max_consecutive_no_knowledge_progress g \<le> 20)"

record agent_setup =
  ags_config :: agent_config
  ags_context :: context_config
  ags_planner :: planner_text
  ags_digest :: "jv \<Rightarrow> string"
  ags_claim_hash :: "jv \<Rightarrow> string"
  ags_observation_hash :: "observation \<Rightarrow> string"

datatype execution_cas_status = Cas_NOT_ATTEMPTED | Cas_PASSED | Cas_FAILED

datatype turn_outcome = Out_TOOL_OBSERVED | Out_WAITING | Out_ESCALATED | Out_SAFE_NO_ACTION
  | Out_PLANNER_UNAVAILABLE | Out_TOOL_EXECUTION_ERROR | Out_STALE_REPLAN_EXHAUSTED | Out_RUNTIME_SAFETY_STOP

record planning_attempt =
  pat_snapshot_id :: string
  pat_fresh_snapshot_id :: string
  pat_decision :: planner_decision
  pat_revalidation :: "revalidation_status \<times> rejection_code list"
  pat_execution_precondition :: "agent_execution_precondition option"
  pat_execution_cas :: execution_cas_status

record agent_turn_trace =
  att_turn_number :: nat
  att_before_snapshot_id :: string
  att_tool_name :: "tool_name option"
  att_tool_call_id :: "string option"
  att_new_evidence_refs :: "string list"
  att_after_snapshot_id :: string
  att_knowledge_progress :: knowledge_progress
  att_case_status_after :: case_status
  att_turn_outcome :: turn_outcome
  att_attempts :: "planning_attempt list"

record agent_run_result =
  arr_run_id :: string
  arr_case_id :: string
  arr_initial_snapshot_id :: string
  arr_final_snapshot_id :: string
  arr_status :: agent_run_status
  arr_tool_calls_dispatched :: nat
  arr_planner_decision_ids :: "string list"
  arr_turns :: "agent_turn_trace list"
  arr_final_case_status :: case_status

section \<open>The current context\<close>

type_synonym loaded = "case_rec \<times> evidence list \<times> reasoning_context_snapshot"

definition load_current_context :: "agent_setup \<Rightarrow> string \<Rightarrow> string \<Rightarrow> loaded service" where
  "load_current_context S tenant cid = andThen (query (\<lambda>d. get_case tenant d cid)) (\<lambda>c.
     andThen (query (\<lambda>d. list_evidence tenant d cid)) (\<lambda>es.
     andThen (pure (build_context (ags_context S) c es)) (\<lambda>s. return (c, es, s))))"

text \<open>\<open>PlannerService.plan\<close>: the snapshot is rendered before the model is asked.\<close>

definition planner_reply :: "external_error + planner_draft \<Rightarrow> error + planner_draft" where
  "planner_reply r = (case r of Inl (Raised e) \<Rightarrow> Inl e | Inl _ \<Rightarrow> Inl PlannerUnavailable | Inr dr \<Rightarrow> Inr dr)"

definition plan_on :: "agent_setup \<Rightarrow> reasoning_context_snapshot \<Rightarrow> planner_decision service" where
  "plan_on S s = (let T = cc_text (ags_context S) in case renderable T s of
     Inl e \<Rightarrow> raise e
   | Inr _ \<Rightarrow> Ask s (\<lambda>r. pure (plan T (ags_planner S) s (planner_reply r))))"

section \<open>One action\<close>

datatype acted = Acted_read string "string list" | Acted_pause case_status

fun pause_status :: "action_candidate \<Rightarrow> case_status" where
  "pause_status (Wait _) = Case_WAITING"
| "pause_status _ = Case_ESCALATED"

fun pause_reason :: "action_candidate \<Rightarrow> work_reason" where
  "pause_reason (Wait _) = Why_WAIT_REQUESTED"
| "pause_reason (Escalate x) = (
     if etc_requested_capability x = Some Unc_DEPLOYED_CONSUMER_SCHEMA_VERSION then Why_DEPLOYMENT_STATE_UNKNOWN
     else if etc_reason_code x = Rsn_REPEATED_SOURCE_FAILURE then Why_SOURCE_UNAVAILABLE
     else if etc_reason_code x = Rsn_NO_AVAILABLE_TOOL then Why_CAPABILITY_UNAVAILABLE else Why_OPERATOR_REQUIRED)"
| "pause_reason (CallTool _) = Why_OPERATOR_REQUIRED"

fun pause_signal :: "action_candidate \<Rightarrow> signal_type option" where
  "pause_signal (Escalate x) = Some (
     if pause_reason (Escalate x) = Why_DEPLOYMENT_STATE_UNKNOWN then Sig_DEPLOYMENT_STATE_UPDATED
     else if etc_reason_code x = Rsn_REPEATED_SOURCE_FAILURE then Sig_SOURCE_RECOVERED
     else if pause_reason (Escalate x) = Why_CAPABILITY_UNAVAILABLE then Sig_CAPABILITY_AVAILABLE
     else Sig_OPERATOR_ACKNOWLEDGED)"
| "pause_signal _ = None"

fun pause_wait :: "action_candidate \<Rightarrow> int option" where
  "pause_wait (Wait x) = Some (wtc_suggested_wait_seconds x)"
| "pause_wait _ = None"

definition reservation_of :: "string \<Rightarrow> reasoning_context_snapshot \<Rightarrow> planner_decision \<Rightarrow> action_candidate
    \<Rightarrow> error + pause_reservation" where
  "reservation_of run_id planned d cand = checked (\<lambda>r. hash_ref (pres_decision_id r) \<and> hash_ref (pres_snapshot_id r)
       \<and> opaque_subject_ref (pres_run_id r) \<and> pause_reservation_valid r)
     \<lparr> pres_decision_id = pdc_decision_id d, pres_snapshot_id = rcs_snapshot_id planned, pres_run_id = run_id,
       pres_reason = pause_reason cand, pres_wait_seconds = pause_wait cand,
       pres_required_signal = pause_signal cand \<rparr>"

definition pause_action :: "agent_setup \<Rightarrow> string \<Rightarrow> string \<Rightarrow> string \<Rightarrow> reasoning_context_snapshot
    \<Rightarrow> planner_decision \<Rightarrow> action_candidate \<Rightarrow> agent_execution_precondition \<Rightarrow> case_status service" where
  "pause_action S tenant cid run_id planned d cand p =
     andThen (pure (reservation_of run_id planned d cand)) (\<lambda>r.
     andThen now (\<lambda>t1. andThen now (\<lambda>t2. andThen now (\<lambda>t3.
     andThen (atomic (\<lambda>d. pause_if_current (ags_digest S) tenant d cid (pause_status cand) p (Some r) t1 t2 t3)) (\<lambda>x.
     andThen (pure x) (\<lambda>c. return (case_status c)))))))"

text \<open>The lease of the work item is renewed, and fences the action, when there is one.\<close>

type_synonym guard = "work_lease_precondition service option"

definition fenced :: "guard \<Rightarrow> agent_execution_precondition \<Rightarrow> agent_execution_precondition service" where
  "fenced guard p = (case guard of None \<Rightarrow> return p
     | Some g \<Rightarrow> andThen g (\<lambda>lease. return (p\<lparr> aep_work_lease := Some lease \<rparr>)))"

definition renew_lease :: "int \<Rightarrow> string \<Rightarrow> work_claim \<Rightarrow> work_lease_precondition service" where
  "renew_lease lease_seconds tenant k = andThen now (\<lambda>t. atomic (\<lambda>d. renew lease_seconds tenant d k t))"

text \<open>The body of the \<open>try\<close>: the precondition it used, the tool it named and how it ended.\<close>

type_synonym performed = "agent_execution_precondition \<times> tool_name option \<times> (action_failure + acted)"

definition perform_read :: "agent_setup \<Rightarrow> string \<Rightarrow> string \<Rightarrow> case_rec \<Rightarrow> call_tool_candidate
    \<Rightarrow> agent_execution_precondition \<Rightarrow> performed proc" where
  "perform_read S tenant cid c x p = (case build_tool_query c x of
       Inl e \<Rightarrow> Return (p, None, Inl (Failed_with e))
     | Inr q \<Rightarrow> bindP (execute_if_current (ags_claim_hash S) (ags_observation_hash S) tenant cid (ctc_tool_name x) q p)
         (\<lambda>r. Return (p, Some (ctc_tool_name x), map_sum id (\<lambda>(call_id, rs). Acted_read call_id rs) r)))"

definition perform :: "agent_setup \<Rightarrow> string \<Rightarrow> string \<Rightarrow> string \<Rightarrow> guard \<Rightarrow> case_rec \<Rightarrow> reasoning_context_snapshot
    \<Rightarrow> planner_decision \<Rightarrow> action_candidate \<Rightarrow> agent_execution_precondition \<Rightarrow> performed proc" where
  "perform S tenant cid run_id guard c planned d cand p0 = bindP (fenced guard p0) (\<lambda>f. case f of
       Inl e \<Rightarrow> Return (p0, None, Inl (Failed_with e))
     | Inr p \<Rightarrow> (case cand of CallTool x \<Rightarrow> perform_read S tenant cid c x p
         | _ \<Rightarrow> bindP (pause_action S tenant cid run_id planned d cand p)
             (\<lambda>r. Return (p, None, map_sum Failed_with Acted_pause r))))"

section \<open>One turn\<close>

record turn_state =
  tst_loaded :: loaded
  tst_attempts :: "planning_attempt list"
  tst_seen :: "string list"
  tst_tool_name :: "tool_name option"
  tst_call_id :: "string option"
  tst_new_refs :: "string list"
  tst_outcome :: turn_outcome
  tst_stop :: "agent_run_status option"
  tst_decision_ids :: "string list"
  tst_dispatched :: nat

abbreviation tst_snapshot :: "turn_state \<Rightarrow> reasoning_context_snapshot" where
  "tst_snapshot st \<equiv> snd (snd (tst_loaded st))"

definition ended :: "turn_outcome \<Rightarrow> agent_run_status option \<Rightarrow> turn_state \<Rightarrow> turn_state" where
  "ended out stop st = st\<lparr> tst_outcome := out, tst_stop := stop \<rparr>"

abbreviation stale :: "turn_state \<Rightarrow> turn_state" where
  "stale \<equiv> ended Out_STALE_REPLAN_EXHAUSTED (Some Run_STALE_REPLAN_EXHAUSTED)"

text \<open>Replaces the last attempt.\<close>

definition last_attempt :: "(planning_attempt \<Rightarrow> planning_attempt) \<Rightarrow> turn_state \<Rightarrow> turn_state" where
  "last_attempt f st = st\<lparr> tst_attempts := butlast (tst_attempts st) @ [f (last (tst_attempts st))] \<rparr>"

definition is_any_value_error :: "error \<Rightarrow> bool" where
  "is_any_value_error e = (e \<in> {ValueError, ValidationError, HypothesisInvariantError, ContextEligibilityError,
     ContextEnvelopeInvariantError, MandatoryContextOverflow, ReasoningContextInvariantError})"

text \<open>
  The handlers of one performed action; the flag says whether the planner is asked again. An exception
  that no handler names ends the run.
\<close>

definition concluded :: "evidence list \<Rightarrow> performed \<Rightarrow> turn_state \<Rightarrow> error + bool \<times> turn_state" where
  "concluded es performed st = (
     let (p, tool, r) = performed;
         st1 = last_attempt (\<lambda>a. a\<lparr> pat_execution_precondition := Some p \<rparr>) st;
         passed = last_attempt (\<lambda>a. a\<lparr> pat_execution_cas := Cas_PASSED \<rparr>)
     in case r of
       Inr (Acted_read call_id rs) \<Rightarrow> Inr (False, ended Out_TOOL_OBSERVED None (passed (st1\<lparr> tst_tool_name := tool,
         tst_call_id := Some call_id, tst_new_refs := filter (\<lambda>x. x \<notin> set (map ev_evidence_id es)) rs,
         tst_dispatched := tst_dispatched st + 1 \<rparr>)))
     | Inr (Acted_pause status) \<Rightarrow> Inr (False, (if status = Case_WAITING then ended Out_WAITING (Some Run_WAITING)
         else ended Out_ESCALATED (Some Run_ESCALATED)) (passed st1))
     | Inl (Tool_failed call_id) \<Rightarrow> Inr (False, ended Out_TOOL_EXECUTION_ERROR (Some Run_TOOL_EXECUTION_ERROR)
         (passed (st1\<lparr> tst_tool_name := tool, tst_call_id := Some call_id, tst_dispatched := tst_dispatched st + 1 \<rparr>)))
     | Inl (Failed_with e) \<Rightarrow>
         if e = AgentPreconditionFailed then Inr (True, stale (last_attempt (\<lambda>a. a\<lparr> pat_execution_cas := Cas_FAILED,
           pat_revalidation := (Rv_CASE_PRECONDITION_FAILED, []) \<rparr>) (st1\<lparr> tst_tool_name := None \<rparr>)))
         else if e = CasePolicyError \<or> is_any_value_error e then Inr (False, ended Out_RUNTIME_SAFETY_STOP
           (Some Run_RUNTIME_SAFETY_STOP) (last_attempt (\<lambda>a. a\<lparr> pat_revalidation := (Rv_QUERY_REBUILD_FAILED, []) \<rparr>)
             (st1\<lparr> tst_tool_name := if tool = None then tst_tool_name st else tool \<rparr>)))
         else Inl e)"

text \<open>A decision is judged on the context loaded after the planner has answered.\<close>

definition judge :: "agent_setup \<Rightarrow> string \<Rightarrow> string \<Rightarrow> string \<Rightarrow> guard \<Rightarrow> planner_decision \<Rightarrow> loaded \<Rightarrow> turn_state
    \<Rightarrow> (bool \<times> turn_state) service" where
  "judge S tenant cid run_id guard d l st = (
     let (c, es, s) = l; planned = tst_snapshot st;
         verdict = revalidate (cc_text (ags_context S)) c s d;
         attempt = \<lparr> pat_snapshot_id = rcs_snapshot_id planned, pat_fresh_snapshot_id = rcs_snapshot_id s,
           pat_decision = d, pat_revalidation = verdict, pat_execution_precondition = None,
           pat_execution_cas = Cas_NOT_ATTEMPTED \<rparr>;
         st1 = st\<lparr> tst_loaded := l, tst_attempts := tst_attempts st @ [attempt] \<rparr>
     in if fst verdict = Rv_NO_SELECTED_ACTION
        then return (False, ended Out_SAFE_NO_ACTION (Some Run_SAFE_NO_ACTION) st1)
        else if fst verdict \<in> {Rv_STALE_SNAPSHOT, Rv_STALE_POLICY} then return (True, stale st1)
        else if fst verdict \<noteq> Rv_VALID then return (False, st1)
        else (case pdc_selected_action d of None \<Rightarrow> return (False, st1)
          | Some a \<Rightarrow> bindP (perform S tenant cid run_id guard c planned d (vap_candidate a) (execution_precondition c s))
              (\<lambda>performed. andThen (pure (concluded es performed st1)) (\<lambda>(again, st2).
                 andThen (load_current_context S tenant cid) (\<lambda>l'. return (again, st2\<lparr> tst_loaded := l' \<rparr>))))))"

definition attempt :: "agent_setup \<Rightarrow> string \<Rightarrow> string \<Rightarrow> string \<Rightarrow> guard \<Rightarrow> turn_state \<Rightarrow> (bool \<times> turn_state) service" where
  "attempt S tenant cid run_id guard st = catching (plan_on S (tst_snapshot st))
     (\<lambda>e. if e = PlannerUnavailable \<or> e = PlannerProtocolError
       then andThen (load_current_context S tenant cid) (\<lambda>l. return (False,
         ended Out_PLANNER_UNAVAILABLE (Some Run_PLANNER_UNAVAILABLE) (st\<lparr> tst_loaded := l \<rparr>)))
       else raise e)
     (\<lambda>d. andThen (load_current_context S tenant cid) (\<lambda>l.
       judge S tenant cid run_id guard d l (st\<lparr> tst_decision_ids := tst_decision_ids st @ [pdc_decision_id d] \<rparr>)))"

text \<open>A snapshot that was already planned on in this turn is not planned on again.\<close>

primrec attempts :: "agent_setup \<Rightarrow> string \<Rightarrow> string \<Rightarrow> string \<Rightarrow> guard \<Rightarrow> nat \<Rightarrow> turn_state \<Rightarrow> turn_state service" where
  "attempts S tenant cid run_id guard 0 st = return st"
| "attempts S tenant cid run_id guard (Suc n) st = (
     let i = rcs_snapshot_id (tst_snapshot st) in
     if i \<in> set (tst_seen st) then return (stale st)
     else andThen (attempt S tenant cid run_id guard (st\<lparr> tst_seen := i # tst_seen st \<rparr>)) (\<lambda>(again, st').
       if again then attempts S tenant cid run_id guard n st' else return st'))"

section \<open>The run\<close>

record run_state =
  rns_loaded :: loaded
  rns_turns :: "agent_turn_trace list"
  rns_decision_ids :: "string list"
  rns_dispatched :: nat
  rns_no_progress :: nat
  rns_stop :: agent_run_status

definition new_turn :: "loaded \<Rightarrow> run_state \<Rightarrow> turn_state" where
  "new_turn l st = \<lparr> tst_loaded = l, tst_attempts = [], tst_seen = [], tst_tool_name = None, tst_call_id = None,
     tst_new_refs = [], tst_outcome = Out_RUNTIME_SAFETY_STOP, tst_stop = Some Run_RUNTIME_SAFETY_STOP,
     tst_decision_ids = rns_decision_ids st, tst_dispatched = rns_dispatched st \<rparr>"

definition turn_trace :: "nat \<Rightarrow> reasoning_context_snapshot \<Rightarrow> turn_state \<Rightarrow> agent_turn_trace" where
  "turn_trace number prior ts = \<lparr> att_turn_number = number, att_before_snapshot_id = rcs_snapshot_id prior,
     att_tool_name = tst_tool_name ts, att_tool_call_id = tst_call_id ts, att_new_evidence_refs = tst_new_refs ts,
     att_after_snapshot_id = rcs_snapshot_id (tst_snapshot ts),
     att_knowledge_progress = knowledge_progress_of prior (tst_snapshot ts),
     att_case_status_after = case_status (fst (tst_loaded ts)), att_turn_outcome = tst_outcome ts,
     att_attempts = tst_attempts ts \<rparr>"

definition last_decision :: "agent_turn_trace \<Rightarrow> string option" where
  "last_decision tr = (case att_attempts tr of [] \<Rightarrow> None | as \<Rightarrow> Some (pdc_decision_id (pat_decision (last as))))"

definition checkpoint :: "string \<Rightarrow> string \<Rightarrow> string \<Rightarrow> nat \<Rightarrow> reasoning_context_snapshot \<Rightarrow> string option
    \<Rightarrow> string option \<Rightarrow> agent_run_status option \<Rightarrow> unit service" where
  "checkpoint tenant cid run_id turn s decision call_id stop = andThen now (\<lambda>t. atomic_unit (\<lambda>d.
     save_checkpoint tenant d run_id \<lparr> chk_case_id = cid, chk_last_completed_turn = int turn,
       chk_last_snapshot_id = rcs_snapshot_id s, chk_last_decision_id = decision, chk_last_call_id = call_id,
       chk_stop_status = stop, chk_updated_at = t \<rparr>))"

definition recorded_turn :: "run_state \<Rightarrow> agent_turn_trace \<Rightarrow> turn_state \<Rightarrow> run_state" where
  "recorded_turn st tr ts = st\<lparr> rns_loaded := tst_loaded ts, rns_turns := rns_turns st @ [tr],
     rns_decision_ids := tst_decision_ids ts, rns_dispatched := tst_dispatched ts,
     rns_no_progress := (if knp_has_progress (att_knowledge_progress tr) then 0 else rns_no_progress st + 1) \<rparr>"

definition held :: "guard \<Rightarrow> unit service" where
  "held guard = (case guard of None \<Rightarrow> return () | Some g \<Rightarrow> andThen g (\<lambda>_. return ()))"

primrec turns :: "agent_setup \<Rightarrow> string \<Rightarrow> string \<Rightarrow> string \<Rightarrow> guard \<Rightarrow> nat \<Rightarrow> run_state \<Rightarrow> run_state service" where
  "turns S tenant cid run_id guard 0 st = return st"
| "turns S tenant cid run_id guard (Suc n) st = andThen (held guard) (\<lambda>_.
     andThen (load_current_context S tenant cid) (\<lambda>l.
       if case_status (fst l) \<notin> {Case_NEW, Case_INVESTIGATING}
       then return (st\<lparr> rns_loaded := l, rns_stop := Run_RUNTIME_SAFETY_STOP \<rparr>)
       else andThen (attempts S tenant cid run_id guard (Suc (agc_max_stale_replans_per_turn (ags_config S))) (new_turn l st))
         (\<lambda>ts. let number = Suc (length (rns_turns st)); tr = turn_trace number (snd (snd l)) ts;
                  st' = recorded_turn st tr ts
           in andThen (checkpoint tenant cid run_id number (tst_snapshot ts) (last_decision tr) (tst_call_id ts) (tst_stop ts))
             (\<lambda>_. case tst_stop ts of Some stop \<Rightarrow> return (st'\<lparr> rns_stop := stop \<rparr>)
              | None \<Rightarrow> if agc_max_consecutive_no_knowledge_progress (ags_config S) \<le> rns_no_progress st'
                  then return (st'\<lparr> rns_stop := Run_NO_KNOWLEDGE_PROGRESS \<rparr>)
                  else turns S tenant cid run_id guard n st'))))"

definition agent_result :: "string \<Rightarrow> string \<Rightarrow> reasoning_context_snapshot \<Rightarrow> run_state \<Rightarrow> agent_run_result" where
  "agent_result cid run_id initial st = \<lparr> arr_run_id = run_id, arr_case_id = cid,
     arr_initial_snapshot_id = rcs_snapshot_id initial,
     arr_final_snapshot_id = rcs_snapshot_id (snd (snd (rns_loaded st))), arr_status = rns_stop st,
     arr_tool_calls_dispatched = rns_dispatched st, arr_planner_decision_ids = rns_decision_ids st,
     arr_turns = rns_turns st, arr_final_case_status = case_status (fst (rns_loaded st)) \<rparr>"

definition run_agent :: "agent_setup \<Rightarrow> string \<Rightarrow> string \<Rightarrow> string option \<Rightarrow> guard \<Rightarrow> agent_run_result service" where
  "run_agent S tenant cid given guard =
     andThen (before_investigation (ags_claim_hash S) (ags_observation_hash S) tenant cid) (\<lambda>_.
     andThen (load_current_context S tenant cid) (\<lambda>l.
     andThen (case given of None \<Rightarrow> new_id | Some [] \<Rightarrow> new_id | Some i \<Rightarrow> return i) (\<lambda>run_id.
     andThen (checkpoint tenant cid run_id 0 (snd (snd l)) None None None) (\<lambda>_.
     andThen (turns S tenant cid run_id guard (agc_max_turns (ags_config S))
         \<lparr> rns_loaded = l, rns_turns = [], rns_decision_ids = [], rns_dispatched = 0, rns_no_progress = 0,
           rns_stop = Run_MAX_TURNS_REACHED \<rparr>) (\<lambda>st.
     let trs = rns_turns st; final = (if trs = [] then None else Some (last trs)) in
     andThen (checkpoint tenant cid run_id (length trs) (snd (snd (rns_loaded st)))
         (Option.bind final last_decision) (Option.bind final att_tool_call_id) (Some (rns_stop st))) (\<lambda>_.
       return (agent_result cid run_id (snd (snd l)) st)))))))"

end
