(* ===== verification/Pool.thy ===== *)
theory Pool
  imports Services AgentRuntime
begin

text \<open>
  Any number of services at work: a pool shares the database with all other actors of the deployment.
  Every pool is a run of the system in which each call of the adapter has its own committed dispatch.
\<close>

section \<open>Procedures of the deployment\<close>

text \<open>The event that announces the call which is the next interaction.\<close>

definition pending :: "'a proc \<Rightarrow> event option" where
  "pending p = (case p of Send cmd l c \<Rightarrow> Some (Dispatched (led_effect_id l))
     | Observe cid tool q i c \<Rightarrow> Some (Tool_called cid) | _ \<Rightarrow> None)"

lemma pending_simps [simp]:
  "pending (Return x) = None" "pending (Txn f) = None" "pending (Clock c) = None" "pending (Fresh cf) = None"
  "pending (Send cmd l r) = Some (Dispatched (led_effect_id l))" "pending (Lookup corr identity k) = None"
  "pending (Observe cid tool q i ro) = Some (Tool_called cid)" "pending (Ask s ra) = None"
  by (simp_all add: pending_def)

text \<open>A transaction that leaves a call pending has committed its announcement; any other is a step, or writes nothing.\<close>

definition commits :: "deployment \<Rightarrow> db \<Rightarrow> db \<Rightarrow> 'a proc \<Rightarrow> bool" where
  "commits D d d' p = (case pending p of
     Some e \<Rightarrow> step D d e d'
   | None \<Rightarrow> d' = d \<or> (\<exists>e. step D d e d'))"

inductive obeys :: "deployment \<Rightarrow> 'a proc \<Rightarrow> bool" for D where
  obeys_Return: "obeys D (Return x)"
| obeys_Txn: "(\<And>d. commits D d (fst (f d)) (snd (f d))) \<Longrightarrow> (\<And>d. obeys D (snd (f d))) \<Longrightarrow> obeys D (Txn f)"
| obeys_Clock: "(\<And>t. pending (c t) = None) \<Longrightarrow> (\<And>t. obeys D (c t)) \<Longrightarrow> obeys D (Clock c)"
| obeys_Fresh: "(\<And>i. pending (c i) = None) \<Longrightarrow> (\<And>i. obeys D (c i)) \<Longrightarrow> obeys D (Fresh c)"
| obeys_Send: "(\<And>r. pending (c r) = None) \<Longrightarrow> (\<And>r. obeys D (c r)) \<Longrightarrow> obeys D (Send cmd l c)"
| obeys_Lookup: "(\<And>r. pending (c r) = None) \<Longrightarrow> (\<And>r. obeys D (c r)) \<Longrightarrow> obeys D (Lookup corr identity c)"
| obeys_Observe: "(\<And>r. pending (c r) = None) \<Longrightarrow> (\<And>r. obeys D (c r)) \<Longrightarrow> obeys D (Observe cid tool q i c)"
| obeys_Ask: "(\<And>r. pending (c r) = None) \<Longrightarrow> (\<And>r. obeys D (c r)) \<Longrightarrow> obeys D (Ask s c)"

inductive_cases obeysE:
  "obeys D (Txn f)" "obeys D (Clock c)" "obeys D (Fresh c)" "obeys D (Send cmd l c)" "obeys D (Lookup corr identity c)"
  "obeys D (Observe cid tool q i c)" "obeys D (Ask s c)"

text \<open>A procedure that can start at any time: it does not begin with a call.\<close>

definition safe :: "deployment \<Rightarrow> 'a proc \<Rightarrow> bool" where
  "safe D p = (pending p = None \<and> obeys D p)"

named_theorems safe_rules

lemma safe_Return [safe_rules, simp]: "safe D (Return x)"
  by (simp add: safe_def obeys_Return)

lemma pending_bindP: "pending p = None \<Longrightarrow> (\<And>x. pending (k x) = None) \<Longrightarrow> pending (bindP p k) = None"
  by (cases p) auto

lemma commits_bindP: "commits D d d' p \<Longrightarrow> (\<And>x. pending (k x) = None) \<Longrightarrow> commits D d d' (bindP p k)"
  by (cases p) (auto simp: commits_def)

lemma obeys_bindP:
  assumes "obeys D p" and "\<And>x. safe D (k x)"
  shows "obeys D (bindP p k)"
  using assms(1)
proof induction
  case (obeys_Txn f)
  have "commits D d (fst (f d)) (bindP (snd (f d)) k)" for d
    using obeys_Txn.hyps(1) assms(2) by (intro commits_bindP) (auto simp: safe_def)
  then show ?case using obeys_Txn.IH by (auto intro!: obeys.obeys_Txn)
qed (use assms(2) in \<open>auto simp: safe_def intro!: obeys.intros pending_bindP\<close>)

lemma safe_bindP [safe_rules]: "safe D p \<Longrightarrow> (\<And>x. safe D (k x)) \<Longrightarrow> safe D (bindP p k)"
  using obeys_bindP [of D p k] pending_bindP [of p k] by (auto simp: safe_def)

lemma safe_andThen [safe_rules]: "safe D p \<Longrightarrow> (\<And>x. safe D (k x)) \<Longrightarrow> safe D (andThen p k)"
  unfolding andThen_def by (auto intro!: safe_bindP split: sum.split)

lemma safe_catching [safe_rules]:
  "safe D p \<Longrightarrow> (\<And>e. safe D (h e)) \<Longrightarrow> (\<And>x. safe D (k x)) \<Longrightarrow> safe D (catching p h k)"
  unfolding catching_def by (auto intro!: safe_bindP split: sum.split)

lemma safe_query [safe_rules]: "safe D (query f)"
  by (auto simp: safe_def query_def commits_def intro!: obeys.intros)

lemma safe_now [safe_rules]: "safe D now"
  by (auto simp: safe_def now_def intro!: obeys.intros)

lemma safe_new_id [safe_rules]: "safe D new_id"
  by (auto simp: safe_def new_id_def intro!: obeys.intros)

lemma safe_atomic: "(\<And>d d' x. f d = Inr (d', x) \<Longrightarrow> \<exists>e. step D d e d') \<Longrightarrow> safe D (atomic f)"
  by (auto simp: safe_def atomic_def commits_def intro!: obeys.intros split: sum.split)

lemma safe_atomic_unit: "(\<And>d d'. f d = Inr d' \<Longrightarrow> \<exists>e. step D d e d') \<Longrightarrow> safe D (atomic_unit f)"
  by (auto simp: safe_def atomic_unit_def commits_def intro!: obeys.intros split: sum.split)

section \<open>The services\<close>

lemma safe_read_attempts [safe_rules]: "safe D (read_attemptsP C tenant get cid n)"
  by (induction n) (auto intro!: safe_rules)

lemma safe_read_state [safe_rules]: "safe D (read_stateP C tenant get cid)"
  unfolding read_stateP_def by (rule safe_read_attempts)

lemma safe_verify [safe_rules]: "(\<And>cid. safe D (reader cid)) \<Longrightarrow> safe D (verify_intent C reader i)"
  unfolding verify_intent_def by (auto intro!: safe_rules)

text \<open>A configuration of the deployment hashes as the deployment does.\<close>

definition config_of :: "deployment \<Rightarrow> remediation_config \<Rightarrow> bool" where
  "config_of D C = (rmc_digest C = dep_digest D)"

lemma safe_existing [safe_rules]: "config_of D C \<Longrightarrow> safe D (existing_effectP C tenant cap)"
  unfolding existing_effectP_def config_of_def
  by (auto intro!: safe_rules safe_atomic exI [of _ Internal] step_existing)

lemma safe_existing_or [safe_rules]: "config_of D C \<Longrightarrow> safe D (existing_or C tenant cap e)"
  unfolding existing_or_def by (auto intro!: safe_rules split: option.split)

lemma obeys_complete: "config_of D C \<Longrightarrow> obeys D (complete_dispatch C tenant cmd l)"
proof -
  assume "config_of D C"
  then have "safe D (case dispatch_outcome l reply of (status, receipt, failure) \<Rightarrow> andThen now (\<lambda>t. andThen new_id (\<lambda>audit_id.
      andThen (atomic (\<lambda>d. transition (rmc_digest C) tenant d (led_effect_id l) Eff_DISPATCHED status t
            receipt failure audit_id)) (\<lambda>l'. return (execution_result l' True False)))))" for reply
    by (auto simp: config_of_def intro!: safe_rules safe_atomic exI [of _ Internal] step_transition split: prod.split)
  then show ?thesis unfolding complete_dispatch_def Let_def safe_def by (auto intro: obeys_Send)
qed

lemma safe_dispatch [safe_rules]:
  assumes "config_of D C"
  shows "safe D (dispatch_and_complete C tenant cap cmd claim)"
proof -
  have "safe D (andThen (atomic (\<lambda>d. dispatch_prepared (rmc_digest C) tenant d cap t claim audit_id))
       (complete_dispatch C tenant cmd))" for t audit_id
    using assms obeys_complete [OF assms]
    by (auto simp: safe_def andThen_def atomic_def commits_def config_of_def complete_dispatch_def
        intro!: obeys_Txn obeys_Return step_dispatch split: sum.split)
  then show ?thesis
    unfolding dispatch_and_complete_def by (intro safe_andThen [OF safe_now] safe_andThen [OF safe_new_id])
qed

lemma safe_prepare [safe_rules]: "config_of D C \<Longrightarrow> safe D (prepare_and_dispatch C tenant cap cmd)"
  unfolding prepare_and_dispatch_def
  by (auto simp: config_of_def intro!: safe_rules safe_atomic exI [of _ Internal] step_prepare)

lemma safe_execute: "config_of D C \<Longrightarrow> safe D (execute_capability C tenant signed)"
  unfolding execute_capability_def by (auto intro!: safe_rules split: option.split)

lemma safe_request: "config_of D C \<Longrightarrow> safe D (request_approval_service C tenant ttl i)"
  unfolding request_approval_service_def
  by (auto intro!: safe_rules safe_atomic exI [of _ Internal] step_request)

lemma safe_decide: "safe D (decide_approval_service tenant decision)"
  unfolding decide_approval_service_def
  by (auto intro!: safe_rules safe_atomic exI [of _ Internal] step_decide)

lemma safe_issue: "config_of D C \<Longrightarrow> safe D (issue_capability C tenant ttl i approval_id)"
  unfolding issue_capability_def Let_def
  by (auto simp: config_of_def intro!: safe_rules safe_atomic_unit exI [of _ Internal] step_issue)

text \<open>The recovery, whose policy is the one of the deployment.\<close>

definition setup_of :: "deployment \<Rightarrow> recovery_setup \<Rightarrow> bool" where
  "setup_of D R = (rsu_policy R = dep_recovery_policy D)"

lemma safe_resume [safe_rules]: "config_of D C \<Longrightarrow> safe D (resume_prepared C tenant claim)"
  unfolding resume_prepared_def resume_verified_def by (auto intro!: safe_rules)

lemma safe_Lookup [safe_rules]: "(\<And>r. safe D (c r)) \<Longrightarrow> safe D (Lookup corr identity c)"
  by (auto simp: safe_def intro!: obeys.intros)

lemma safe_capture [safe_rules]: "config_of D C \<Longrightarrow> safe D (capture C R tenant claim)"
  unfolding capture_def
  by (auto simp: config_of_def intro!: safe_rules safe_atomic_unit exI [of _ Internal] step_persist_lookup split: sum.split)

lemma safe_finish_resume [safe_rules]:
  "setup_of D R \<Longrightarrow> safe D (atomic (\<lambda>d. finish_resume (rsu_policy R) tenant d claim t))"
  by (auto simp: setup_of_def intro!: safe_atomic exI [of _ Internal] step_finish_resume)

lemma safe_transition [safe_rules]: "config_of D C \<Longrightarrow> setup_of D R \<Longrightarrow>
  safe D (atomic (\<lambda>d. recover_transition (rmc_digest C) (rsu_contract R) (rsu_policy R) tenant d claim t))"
  by (auto simp: config_of_def setup_of_def intro!: safe_atomic exI [of _ Internal] step_recover)

lemma safe_attempt [safe_rules]:
  "config_of D C \<Longrightarrow> setup_of D R \<Longrightarrow> safe D (attempt_recovery C R tenant claim)"
  unfolding attempt_recovery_def by (auto intro!: safe_rules split: sum.split)

lemma safe_not_claimed [safe_rules]: "safe D (not_claimed tenant eid before)"
  unfolding not_claimed_def by (auto intro!: safe_rules)

lemma safe_settle [safe_rules]:
  "config_of D C \<Longrightarrow> setup_of D R \<Longrightarrow> safe D (settle_failure C R tenant claim failure)"
  unfolding settle_failure_def
  by (auto simp: config_of_def setup_of_def intro!: safe_rules safe_atomic exI [of _ Internal]
      step_finish_error split: error.split)

lemma safe_report [safe_rules]: "safe D (recovery_report R tenant before claim failure l action)"
  unfolding recovery_report_def by (auto intro!: safe_rules split: option.split)

lemma safe_recover: "config_of D C \<Longrightarrow> setup_of D R \<Longrightarrow> safe D (recover_effect C R tenant eid)"
  unfolding recover_effect_def
  by (auto simp: setup_of_def intro!: safe_rules safe_atomic exI [of _ Internal] step_claim_recovery
      split: option.split sum.split)

lemma safe_recover_reads [safe_rules]:
  "jh = dep_claim_hash D \<Longrightarrow> oh = dep_observation_hash D \<Longrightarrow> safe D (recover_reads jh oh tenant cid calls)"
  by (induction calls) (auto intro!: safe_rules safe_atomic exI [of _ Internal] step_recover_read)

lemma safe_before_investigation:
  "safe D (before_investigation (dep_claim_hash D) (dep_observation_hash D) tenant cid)"
  unfolding before_investigation_def by (auto intro!: safe_rules)

section \<open>The agent\<close>

text \<open>A setup of the deployment, and the fence a worker runs it behind: the renewal of its own lease.\<close>

definition agent_of :: "deployment \<Rightarrow> agent_setup \<Rightarrow> bool" where
  "agent_of D S = (ags_digest S = dep_digest D \<and> ags_claim_hash S = dep_claim_hash D
     \<and> ags_observation_hash S = dep_observation_hash D)"

definition fence_of :: "deployment \<Rightarrow> string \<Rightarrow> guard \<Rightarrow> bool" where
  "fence_of D tenant guard = (case guard of None \<Rightarrow> True | Some g \<Rightarrow> \<exists>k. g = renew_lease (dep_lease_seconds D) tenant k)"

lemma safe_Ask [safe_rules]: "(\<And>r. safe D (c r)) \<Longrightarrow> safe D (Ask s c)"
  by (auto simp: safe_def intro!: obeys.intros)

lemma safe_fence: "fence_of D tenant guard \<Longrightarrow> guard = Some g \<Longrightarrow> safe D g"
  by (auto simp: fence_of_def renew_lease_def intro!: safe_rules safe_atomic exI [of _ Internal] step_renew)

lemma safe_failed_call [safe_rules]: "safe D (failed_call tenant cid call_id)"
  unfolding failed_call_def
  by (auto intro!: safe_rules safe_atomic_unit exI [of _ Internal] step_mark_error split: sum.split)

lemma safe_publish [safe_rules]: "agent_of D S \<Longrightarrow>
  safe D (publish_call (ags_claim_hash S) (ags_observation_hash S) tenant cid call_id o1)"
  unfolding publish_call_def
  by (auto simp: agent_of_def intro!: safe_rules safe_atomic exI [of _ Internal] step_record split: sum.split)

lemma obeys_observed: "agent_of D S \<Longrightarrow>
  obeys D (observed_call (ags_claim_hash S) (ags_observation_hash S) tenant cid tool q call_id)"
proof -
  assume "agent_of D S"
  then have "safe D (case reply of Inl e \<Rightarrow> failed_call tenant cid call_id
     | Inr o1 \<Rightarrow> publish_call (ags_claim_hash S) (ags_observation_hash S) tenant cid call_id o1)"
    for reply :: "external_error + observation"
    by (auto intro!: safe_rules split: sum.split)
  then show ?thesis unfolding observed_call_def safe_def by (auto intro: obeys_Observe)
qed

lemma obeys_reserve:
  assumes "agent_of D S"
  shows "obeys D (bindP (atomic (\<lambda>d. reserve_call tenant d cid tool q p t1 t2 uuid)) (\<lambda>r. case r of
         Inl e \<Rightarrow> Return (Inl (Failed_with e))
       | Inr (Inl e, call_id) \<Rightarrow> Return (Inl (Failed_with e))
       | Inr (Inr _, call_id) \<Rightarrow> observed_call (ags_claim_hash S) (ags_observation_hash S) tenant cid tool q call_id))"
  unfolding atomic_def bindP.simps
proof (rule obeys_Txn)
  fix d
  let ?k = "\<lambda>r. case r of Inl e \<Rightarrow> Return (Inl (Failed_with e))
       | Inr (Inl e, call_id) \<Rightarrow> Return (Inl (Failed_with e))
       | Inr (Inr _, call_id) \<Rightarrow> observed_call (ags_claim_hash S) (ags_observation_hash S) tenant cid tool q call_id"
  let ?f = "map_prod id (\<lambda>r. bindP r ?k) (case reserve_call tenant d cid tool q p t1 t2 uuid of
       Inl e \<Rightarrow> (d, raise e) | Inr (d', x) \<Rightarrow> (d', return x))"
  have "commits D d (fst ?f) (snd ?f) \<and> obeys D (snd ?f)"
  proof (cases "reserve_call tenant d cid tool q p t1 t2 uuid")
    case (Inl e)
    then show ?thesis by (simp add: commits_def obeys_Return)
  next
    case (Inr x)
    obtain d' r i where x: "x = (d', r, i)" by (rule prod_cases3)
    have "step D d (Tool_called cid) d'" using Inr x by (auto intro: step_reserve)
    with Inr x obeys_observed [OF assms] show ?thesis
      by (cases r) (auto simp: commits_def observed_call_def intro: obeys_Return)
  qed
  then show "commits D d (fst ?f) (snd ?f)" and "obeys D (snd ?f)" by blast+
qed

lemma safe_execute_read [safe_rules]: "agent_of D S \<Longrightarrow>
  safe D (execute_if_current (ags_claim_hash S) (ags_observation_hash S) tenant cid tool q p)"
proof -
  assume "agent_of D S"
  note obeys_reserve [OF this]
  moreover have "pending (bindP (atomic f) k) = None" for f :: "db \<Rightarrow> error + db \<times> (error + case_rec) \<times> string"
    and k :: "error + (error + case_rec) \<times> string \<Rightarrow> (action_failure + string \<times> string list) proc"
    by (simp add: atomic_def)
  ultimately show ?thesis unfolding execute_if_current_def safe_def by (auto intro!: obeys.intros)
qed

lemma safe_pause [safe_rules]: "agent_of D S \<Longrightarrow> safe D (pause_action S tenant cid run_id planned d cand p)"
  unfolding pause_action_def
  by (auto simp: agent_of_def intro!: safe_rules safe_atomic exI [of _ Internal] step_pause_current)

lemma safe_perform:
  assumes "agent_of D S" and "fence_of D tenant guard"
  shows "safe D (perform S tenant cid run_id guard c planned d cand p0)"
proof -
  have "safe D (perform_read S tenant cid c x p)" for x p
    unfolding perform_read_def using assms(1) by (auto intro!: safe_rules split: sum.split)
  moreover have "safe D (fenced guard p0)"
    unfolding fenced_def using safe_fence [OF assms(2)] by (auto intro!: safe_rules split: option.split)
  ultimately show ?thesis unfolding perform_def using assms(1)
    by (auto intro!: safe_rules split: sum.split action_candidate.split)
qed

lemma safe_load [safe_rules]: "safe D (load_current_context S tenant cid)"
  unfolding load_current_context_def by (auto intro!: safe_rules)

lemma safe_plan [safe_rules]: "safe D (plan_on S s)"
  unfolding plan_on_def Let_def by (auto intro!: safe_rules split: sum.split)

lemma safe_judge: "agent_of D S \<Longrightarrow> fence_of D tenant guard \<Longrightarrow> safe D (judge S tenant cid run_id guard d l st)"
  unfolding judge_def Let_def using safe_perform [of D S tenant guard]
  by (auto intro!: safe_rules split: option.split prod.split)

lemma safe_turn_attempts: "agent_of D S \<Longrightarrow> fence_of D tenant guard \<Longrightarrow>
  safe D (attempts S tenant cid run_id guard n st)"
proof (induction n arbitrary: st)
  case (Suc n)
  have "safe D (attempt S tenant cid run_id guard st')" for st'
    unfolding attempt_def using safe_judge [OF Suc.prems] by (auto intro!: safe_rules)
  with Suc show ?case by (auto simp: Let_def intro!: safe_rules split: prod.split)
qed simp

lemma safe_checkpoint [safe_rules]: "safe D (checkpoint tenant cid run_id turn s decision call_id stop)"
  unfolding checkpoint_def by (auto intro!: safe_rules safe_atomic_unit exI [of _ Internal] step_checkpoint)

lemma safe_turns: "agent_of D S \<Longrightarrow> fence_of D tenant guard \<Longrightarrow> safe D (turns S tenant cid run_id guard n st)"
proof (induction n arbitrary: st)
  case (Suc n)
  have "safe D (held guard)"
    unfolding held_def using safe_fence [OF Suc.prems(2)] by (auto intro!: safe_rules split: option.split)
  with Suc safe_turn_attempts [OF Suc.prems] show ?case
    by (auto simp: Let_def simp del: attempts.simps intro!: safe_rules split: option.split)
qed simp

lemma safe_run_agent: "agent_of D S \<Longrightarrow> fence_of D tenant guard \<Longrightarrow> safe D (run_agent S tenant cid given guard)"
  unfolding run_agent_def Let_def using safe_turns [of D S tenant guard] safe_before_investigation [of D tenant cid]
  by (auto simp: agent_of_def intro!: safe_rules split: option.split list.split)

section \<open>The pool\<close>

text \<open>
  A service of the deployment, its result dropped. An execution may also be observed from the moment
  its intent has been verified.
\<close>

definition job :: "'a proc \<Rightarrow> unit proc" where
  "job p = bindP p (\<lambda>_. Return ())"

inductive service :: "deployment \<Rightarrow> unit proc \<Rightarrow> bool" for D where
  service_request: "config_of D C \<Longrightarrow> service D (job (request_approval_service C tenant ttl i))"
| service_decide: "service D (job (decide_approval_service tenant decision))"
| service_issue: "config_of D C \<Longrightarrow> service D (job (issue_capability C tenant ttl i approval_id))"
| service_execute: "config_of D C \<Longrightarrow> service D (job (execute_capability C tenant signed))"
| service_verified: "config_of D C \<Longrightarrow> service D (job (prepare_and_dispatch C tenant cap cmd))"
| service_recover: "config_of D C \<Longrightarrow> setup_of D R \<Longrightarrow> service D (job (recover_effect C R tenant eid))"
| service_before: "service D (job (before_investigation (dep_claim_hash D) (dep_observation_hash D) tenant cid))"
| service_investigate: "agent_of D S \<Longrightarrow> fence_of D tenant guard \<Longrightarrow> service D (job (run_agent S tenant cid given guard))"

lemma safe_job: "safe D p \<Longrightarrow> safe D (job p)"
  unfolding job_def by (auto intro!: safe_rules)

lemma service_safe: "service D p \<Longrightarrow> safe D p"
  by (induction rule: service.induct)
    (auto intro!: safe_job safe_request safe_decide safe_issue safe_execute safe_prepare safe_recover safe_before_investigation safe_run_agent)

datatype act = Worked | Sent side_effect_ledger | Looked_at string

text \<open>The event that must announce a call of the outside.\<close>

fun announced :: "act \<Rightarrow> event option" where
  "announced Worked = None"
| "announced (Sent l) = Some (Dispatched (led_effect_id l))"
| "announced (Looked_at cid) = Some (Tool_called cid)"

text \<open>
  Another actor commits, a service starts, one service makes its next interaction, or its process is
  killed.
\<close>

inductive pool_step :: "deployment \<Rightarrow> db \<times> unit proc list \<Rightarrow> act \<Rightarrow> db \<times> unit proc list \<Rightarrow> bool" for D where
  pool_other: "step D d e d' \<Longrightarrow> pool_step D (d, ps) Worked (d', ps)"
| pool_start: "service D p \<Longrightarrow> pool_step D (d, ps) Worked (d, p # ps)"
| pool_txn: "pool_step D (d, ps @ Txn f # qs) Worked (fst (f d), ps @ snd (f d) # qs)"
| pool_clock: "pool_step D (d, ps @ Clock c # qs) Worked (d, ps @ c t # qs)"
| pool_fresh: "pool_step D (d, ps @ Fresh c # qs) Worked (d, ps @ c i # qs)"
| pool_send: "pool_step D (d, ps @ Send cmd l c # qs) (Sent l) (d, ps @ c r # qs)"
| pool_lookup: "pool_step D (d, ps @ Lookup corr identity c # qs) Worked (d, ps @ c r # qs)"
| pool_observe: "pool_step D (d, ps @ Observe cid tool q i c # qs) (Looked_at cid) (d, ps @ c r # qs)"
| pool_ask: "pool_step D (d, ps @ Ask s c # qs) Worked (d, ps @ c r # qs)"
| pool_crash: "pool_step D (d, ps @ p # qs) Worked (d, ps @ qs)"

inductive pool_run :: "deployment \<Rightarrow> db \<times> unit proc list \<Rightarrow> act list \<Rightarrow> db \<times> unit proc list \<Rightarrow> bool" for D where
  pool_stop: "pool_run D s [] s"
| pool_more: "pool_run D s as s1 \<Longrightarrow> pool_step D s1 a s2 \<Longrightarrow> pool_run D s (as @ [a]) s2"

text \<open>The calls made that an event announces, and the calls about to be made.\<close>

definition calls_made :: "event \<Rightarrow> act list \<Rightarrow> nat" where
  "calls_made e as = length (filter (\<lambda>a. announced a = Some e) as)"

definition calls_due :: "event \<Rightarrow> unit proc list \<Rightarrow> nat" where
  "calls_due e ps = length (filter (\<lambda>p. pending p = Some e) ps)"

lemma calls_made_simps [simp]:
  "calls_made e [] = 0" "calls_made e (as @ [a]) = calls_made e as + (if announced a = Some e then 1 else 0)"
  by (simp_all add: calls_made_def)

lemma calls_due_simps [simp]:
  "calls_due e [] = 0" "calls_due e (ps @ qs) = calls_due e ps + calls_due e qs"
  "calls_due e (p # ps) = (if pending p = Some e then 1 else 0) + calls_due e ps"
  by (simp_all add: calls_due_def)

lemma run_snoc: "run D d es d1 \<Longrightarrow> step D d1 e d2 \<Longrightarrow> run D d (es @ [e]) d2"
  by (induction rule: run.induct) (auto intro: run.intros)

text \<open>Every call made or due has an announcement of its own.\<close>

definition accounted :: "event list \<Rightarrow> act list \<Rightarrow> unit proc list \<Rightarrow> bool" where
  "accounted es as ps = (\<forall>e. calls_made e as + calls_due e ps \<le> count_list es e)"

lemma accountedI:
  assumes "accounted es as ps"
    and "\<And>e. calls_made e as + calls_due e ps \<le> count_list es e \<Longrightarrow>
      calls_made e as' + calls_due e ps' \<le> count_list es' e"
  shows "accounted es' as' ps'"
  using assms by (simp add: accounted_def)

lemma pool_refines:
  assumes "pool_run D s as s'" and "s = (d, [])"
  shows "\<exists>es. run D d es (fst s') \<and> list_all (obeys D) (snd s') \<and> accounted es as (snd s')"
  using assms
proof (induction rule: pool_run.induct)
  case (pool_stop s)
  then show ?case by (auto simp: accounted_def intro!: exI [of _ "[]"] run.intros)
next
  case (pool_more s as s1 a s2)
  then obtain es where es: "run D d es (fst s1)" "list_all (obeys D) (snd s1)" "accounted es as (snd s1)" by blast
  note acc = accountedI [OF es(3)]
  from pool_more.hyps(2) show ?case
  proof cases
    case (pool_other d1 e d2 ps)
    moreover have "accounted (es @ [e]) (as @ [a]) ps" by (rule acc) (auto simp: pool_other)
    ultimately show ?thesis using es by (auto intro!: exI [of _ "es @ [e]"] run_snoc)
  next
    case (pool_start p d1 ps)
    moreover from this have "accounted es (as @ [a]) (p # ps)"
      by (intro acc) (auto simp: safe_def dest!: service_safe)
    ultimately show ?thesis using es by (auto simp: safe_def dest!: service_safe intro!: exI [of _ es])
  next
    case (pool_txn d1 ps f qs)
    then have f: "commits D d1 (fst (f d1)) (snd (f d1))" "obeys D (snd (f d1))"
      using es(2) by (auto elim: obeysE)
    show ?thesis
    proof (cases "\<exists>e. step D d1 e (fst (f d1))")
      case True
      obtain e where e: "step D d1 e (fst (f d1))" "\<And>e'. pending (snd (f d1)) = Some e' \<Longrightarrow> e = e'"
        using True f(1) by (cases "pending (snd (f d1))") (auto simp: commits_def)
      have "accounted (es @ [e]) (as @ [a]) (ps @ snd (f d1) # qs)"
        by (rule acc) (auto simp: pool_txn dest: e(2))
      then show ?thesis using es f e pool_txn by (auto intro!: exI [of _ "es @ [e]"] run_snoc)
    next
      case False
      with f(1) have same: "fst (f d1) = d1" "pending (snd (f d1)) = None" by (auto simp: commits_def split: option.splits)
      then have "accounted es (as @ [a]) (ps @ snd (f d1) # qs)" by (intro acc) (auto simp: pool_txn)
      with es f same pool_txn show ?thesis by (auto intro!: exI [of _ es])
    qed
  next
    case (pool_send d1 ps cmd l c qs r)
    then have c: "pending (c r) = None" "obeys D (c r)" using es(2) by (auto elim: obeysE)
    then have "accounted es (as @ [a]) (ps @ c r # qs)" by (intro acc) (auto simp: pool_send)
    with es c pool_send show ?thesis by (auto intro!: exI [of _ es])
  next
    case (pool_crash d1 ps p qs)
    moreover have "accounted es (as @ [a]) (ps @ qs)" by (rule acc) (simp add: pool_crash)
    ultimately show ?thesis using es by (auto intro!: exI [of _ es])
  next
    case (pool_clock d1 ps c qs t)
    then have c: "pending (c t) = None" "obeys D (c t)" using es(2) by (auto elim: obeysE)
    then have "accounted es (as @ [a]) (ps @ c t # qs)" by (intro acc) (auto simp: pool_clock)
    with es c pool_clock show ?thesis by (auto intro!: exI [of _ es])
  next
    case (pool_fresh d1 ps c qs i)
    then have c: "pending (c i) = None" "obeys D (c i)" using es(2) by (auto elim: obeysE)
    then have "accounted es (as @ [a]) (ps @ c i # qs)" by (intro acc) (auto simp: pool_fresh)
    with es c pool_fresh show ?thesis by (auto intro!: exI [of _ es])
  next
    case (pool_lookup d1 ps corr identity c qs r)
    then have c: "pending (c r) = None" "obeys D (c r)" using es(2) by (auto elim: obeysE)
    then have "accounted es (as @ [a]) (ps @ c r # qs)" by (intro acc) (auto simp: pool_lookup)
    with es c pool_lookup show ?thesis by (auto intro!: exI [of _ es])
  next
    case (pool_observe d1 ps cid tool q i c qs r)
    then have c: "pending (c r) = None" "obeys D (c r)" using es(2) by (auto elim: obeysE)
    then have "accounted es (as @ [a]) (ps @ c r # qs)" by (intro acc) (auto simp: pool_observe)
    with es c pool_observe show ?thesis by (auto intro!: exI [of _ es])
  next
    case (pool_ask d1 ps snap c qs r)
    then have c: "pending (c r) = None" "obeys D (c r)" using es(2) by (auto elim: obeysE)
    then have "accounted es (as @ [a]) (ps @ c r # qs)" by (intro acc) (auto simp: pool_ask)
    with es c pool_ask show ?thesis by (auto intro!: exI [of _ es])
  qed
qed

text \<open>
  C30. The services refine the deployment: every pool of concurrent executions, recoveries, approvals,
  issues and investigating agents, interleaved with every other actor and with crashes at any point, drives the database
  along a run of the system, and each call of the adapter has a committed dispatch of the same effect of
  its own in that run, each call of a read tool a committed reservation of the same Case.
\<close>

theorem services_refine_system:
  assumes "pool_run D (d, []) as (d', ps)"
  shows "\<exists>es. run D d es d' \<and> (\<forall>e. calls_made e as \<le> count_list es e)"
proof -
  from pool_refines [OF assms refl] obtain es where "run D d es d'" and "accounted es as ps" by auto
  then show ?thesis by (auto simp: accounted_def intro: add_leD1)
qed

text \<open>
  C31. The adapter of side effects is called at most once for an effect, however many executions of
  however many capabilities and however many recoveries run at the same time and whenever they crash;
  for an effect that was past \<open>PREPARED\<close> when the services started it is not called at all.
\<close>

theorem adapter_called_at_most_once:
  assumes "pool_run D (d, []) as (d', ps)" and "ledger_ok d"
  shows "calls_made (Dispatched eid) as \<le> dispatches_left d eid"
proof -
  from pool_refines [OF assms(1) refl] obtain es where es: "run D d es d'" "accounted es as ps" by auto
  from run_dispatches [OF es(1) assms(2), of eid] have "count_list es (Dispatched eid) \<le> dispatches_left d eid"
    by linarith
  with es(2) show ?thesis unfolding accounted_def by (meson add_leD1 le_trans)
qed

end
