(* ===== verification/ServiceExample.thy ===== *)
theory ServiceExample
  imports Pool
begin

text \<open>
  An execution at work: it prepares and dispatches the authorized intent of the sample deployment and
  calls the adapter; a second execution of the same capability answers with the entry it finds.
\<close>

lemma calls_made_append [simp]: "calls_made e (as @ bs) = calls_made e as + calls_made e bs"
  by (simp add: calls_made_def)

lemma calls_made_Cons [simp]:
  "calls_made e (a # as) = (if announced a = Some e then 1 else 0) + calls_made e as"
  by (simp add: calls_made_def)

text \<open>A run alone is a pool of one.\<close>

lemma pool_run_step: "pool_run D s1 as s2 \<Longrightarrow> pool_step D s a s1 \<Longrightarrow> pool_run D s (a # as) s2"
proof (induction rule: pool_run.induct)
  case (pool_stop s1)
  then show ?case using pool_more [OF pool_run.pool_stop] by fastforce
next
  case (pool_more s1 as s2 a' s3)
  then show ?case using pool_run.pool_more [of D s "a # as"] by simp
qed

lemma solo_pool:
  "solo p sc n d = (ls, d', x) \<Longrightarrow> \<exists>as. pool_run D (d, [p]) as (d', [Return x])
     \<and> (\<forall>eid. calls_made (Dispatched eid) as = count_list (map led_effect_id ls) eid)"
proof (induction p arbitrary: n d ls rule: proc_induct)
  case (Return x)
  then show ?case by (auto intro!: exI [of _ "[]"] pool_run.intros)
next
  case (Txn f)
  then obtain as where "pool_run D (fst (f d), [snd (f d)]) as (d', [Return x])"
    "\<forall>eid. calls_made (Dispatched eid) as = count_list (map led_effect_id ls) eid" by (fastforce simp: case_prod_beta)
  with pool_run_step [OF _ pool_txn [of D d "[]" f "[]"]] show ?case by (fastforce intro!: exI [of _ "Worked # as"])
next
  case (Clock c)
  then obtain as where "pool_run D (d, [c (sc_clock sc n)]) as (d', [Return x])"
    "\<forall>eid. calls_made (Dispatched eid) as = count_list (map led_effect_id ls) eid" by fastforce
  with pool_run_step [OF _ pool_clock [of D d "[]" c "[]"]] show ?case by (fastforce intro!: exI [of _ "Worked # as"])
next
  case (Fresh c)
  then obtain as where "pool_run D (d, [c (sc_id sc n)]) as (d', [Return x])"
    "\<forall>eid. calls_made (Dispatched eid) as = count_list (map led_effect_id ls) eid" by fastforce
  with pool_run_step [OF _ pool_fresh [of D d "[]" c "[]"]] show ?case by (fastforce intro!: exI [of _ "Worked # as"])
next
  case (Send cmd l c)
  then obtain ls' where ls: "ls = l # ls'"
    and r: "solo (c (sc_adapter sc cmd (led_dispatch_correlation_id l))) sc (Suc n) d = (ls', d', x)"
    by (auto split: prod.splits)
  from Send.IH [OF r] obtain as where
    "pool_run D (d, [c (sc_adapter sc cmd (led_dispatch_correlation_id l))]) as (d', [Return x])"
    "\<forall>eid. calls_made (Dispatched eid) as = count_list (map led_effect_id ls') eid" by blast
  with ls pool_run_step [OF _ pool_send [of D d "[]" cmd l c "[]"]] show ?case
    by (fastforce intro!: exI [of _ "Sent l # as"])
next
  case (Lookup corr identity c)
  then obtain as where "pool_run D (d, [c (sc_resolver sc corr identity)]) as (d', [Return x])"
    "\<forall>eid. calls_made (Dispatched eid) as = count_list (map led_effect_id ls) eid" by fastforce
  with pool_run_step [OF _ pool_lookup [of D d "[]" corr identity c "[]"]] show ?case
    by (fastforce intro!: exI [of _ "Worked # as"])
next
  case (Observe cid tool q i c)
  then obtain as where "pool_run D (d, [c (sc_tool sc cid tool q i)]) as (d', [Return x])"
    "\<forall>eid. calls_made (Dispatched eid) as = count_list (map led_effect_id ls) eid" by fastforce
  with pool_run_step [OF _ pool_observe [of D d "[]" cid tool q i c "[]"]] show ?case
    by (fastforce intro!: exI [of _ "Looked_at cid # as"])
next
  case (Ask snap c)
  then obtain as where "pool_run D (d, [c (sc_planner sc snap)]) as (d', [Return x])"
    "\<forall>eid. calls_made (Dispatched eid) as = count_list (map led_effect_id ls) eid" by fastforce
  with pool_run_step [OF _ pool_ask [of D d "[]" snap c "[]"]] show ?case
    by (fastforce intro!: exI [of _ "Worked # as"])
qed

section \<open>One execution\<close>

lemma sample_config_of: "config_of sample_deployment sample_config"
  by (simp add: config_of_def sample_deployment_def sample_config_def)

definition sample_script :: script where
  "sample_script = \<lparr> sc_clock = (\<lambda>n. if n < 2 then 10 else 11),
     sc_id = (\<lambda>n. if n = 2 then ''corr'' else if n = 3 then ''A-1'' else ''A-2''),
     sc_adapter = (\<lambda>_ _. Inl Timed_out), sc_resolver = (\<lambda>_ _. Inl Timed_out),
     sc_tool = (\<lambda>_ _ _ _. Inl Timed_out), sc_planner = (\<lambda>_. Inl Timed_out) \<rparr>"

abbreviation sample_job :: "unit proc" where
  "sample_job \<equiv> job (prepare_and_dispatch sample_config ''tenant'' sample_capability None)"

lemma sample_prepared_owned: "snd (snd (projr sample_prepared))"
  by code_simp

lemma sample_solo: "\<exists>l d'. solo sample_job sample_script 0 sample_db = ([l], d', ()) \<and> led_effect_id l = sample_effect"
proof -
  obtain l where prep: "prepare sample_hash ''tenant'' sample_db sample_capability 10 10 ''corr'' ''A-1'' = Inr (prepared_db, l, True)"
    using sample_prepared_Inr sample_prepared_owned by (cases sample_prepared) (auto simp: sample_prepared_def)
  obtain l' where disp: "dispatch_prepared sample_hash ''tenant'' prepared_db sample_capability 11 None ''A-2'' = Inr (dispatched_db, l')"
    and eid: "led_effect_id l' = sample_effect"
    using sample_dispatched_Inr sample_effect_id
    by (cases sample_dispatched) (auto simp: sample_dispatched_def)
  show ?thesis
    by (simp add: job_def prepare_and_dispatch_def andThen_def now_def new_id_def atomic_def sample_script_def
        sample_config_def prep disp dispatch_and_complete_def complete_dispatch_def dispatch_outcome_def eid
        split: sum.split prod.split)
qed

lemma sample_pool: "\<exists>as d'. pool_run sample_deployment (sample_db, []) as (d', [Return ()])
  \<and> calls_made (Dispatched sample_effect) as = 1"
proof -
  obtain l d' where "solo sample_job sample_script 0 sample_db = ([l], d', ())" "led_effect_id l = sample_effect"
    using sample_solo by blast
  with solo_pool [of sample_job sample_script 0 sample_db "[l]" d' "()" sample_deployment] obtain as where
    as: "pool_run sample_deployment (sample_db, [sample_job]) as (d', [Return ()])" "calls_made (Dispatched sample_effect) as = 1"
    by auto
  have "pool_step sample_deployment (sample_db, []) Worked (sample_db, [sample_job])"
    by (rule pool_start [OF service_verified [OF sample_config_of]])
  from pool_run_step [OF as(1) this] as(2) show ?thesis by fastforce
qed

theorem services_refine_system_witness:
  "\<exists>as d' es. pool_run sample_deployment (sample_db, []) as (d', [Return ()]) \<and> calls_made (Dispatched sample_effect) as = 1
     \<and> run sample_deployment sample_db es d' \<and> 1 \<le> count_list es (Dispatched sample_effect)"
proof -
  obtain as d' where as: "pool_run sample_deployment (sample_db, []) as (d', [Return ()])"
    "calls_made (Dispatched sample_effect) as = 1" using sample_pool by blast
  with services_refine_system [OF as(1)] show ?thesis by metis
qed

theorem adapter_called_at_most_once_witness:
  "\<exists>as d'. pool_run sample_deployment (sample_db, []) as (d', [Return ()]) \<and> calls_made (Dispatched sample_effect) as = 1
     \<and> 1 \<le> dispatches_left sample_db sample_effect"
proof -
  obtain as d' where as: "pool_run sample_deployment (sample_db, []) as (d', [Return ()])"
    "calls_made (Dispatched sample_effect) as = 1" using sample_pool by blast
  with adapter_called_at_most_once [OF as(1) sample_db_ok] show ?thesis by metis
qed

text \<open>A second execution of the capability finds the prepared entry.\<close>

lemma sample_existing: "case existing sample_hash ''tenant'' prepared_db sample_capability 12 of
  Inr (_, Some l) \<Rightarrow> led_status l = Eff_PREPARED | _ \<Rightarrow> False"
  by code_simp

theorem execution_sends_signed_command_witness:
  "\<exists>l. yields (execute_capability sample_config ''tenant'' (sign_capability (rmc_hmac sample_config) sample_capability))
       [] (Inr (execution_result l False True)) \<and> led_status l = Eff_PREPARED
     \<and> (\<exists>cmd. sends_once cmd [] (Inr (execution_result l False True)))"
proof -
  obtain d' l where e: "existing sample_hash ''tenant'' prepared_db sample_capability 12 = Inr (d', Some l)"
    and l: "led_status l = Eff_PREPARED"
    using sample_existing by (auto split: sum.splits option.splits)
  have "yields (existing_effectP sample_config ''tenant'' sample_capability) [] (Inr (Some l))"
    using e by (auto simp: existing_effectP_def yields_andThen yields_atomic sample_config_def)
  then have y: "yields (execute_capability sample_config ''tenant'' (sign_capability (rmc_hmac sample_config) sample_capability))
       [] (Inr (execution_result l False True))"
    by (fastforce simp: execute_capability_def yields_andThen verify_capability_def sign_capability_def)
  from execution_sends_signed_command [OF y] l y show ?thesis by blast
qed

end
