(* ===== verification/Bounded.thy ===== *)
theory Bounded
  imports Services
begin

text \<open>
  Every service ends: whatever the environment does between and inside its interactions, it makes a
  bounded number of them. The consistent reads are the only loops; each gives up after three attempts.
\<close>

section \<open>Interactions of a service\<close>

inductive advance :: "'a proc \<Rightarrow> 'a proc \<Rightarrow> bool" where
  advance_Txn: "advance (Txn f) (snd (f d))"
| advance_Clock: "advance (Clock c) (c t)"
| advance_Fresh: "advance (Fresh c) (c i)"
| advance_Send: "advance (Send cmd l c) (c r)"
| advance_Lookup: "advance (Lookup corr identity c) (c r)"
| advance_Observe: "advance (Observe cid tool q i c) (c r)"
| advance_Ask: "advance (Ask s c) (c r)"

lemma advance_total: "(\<exists>q. advance p q) \<or> (\<exists>x. p = Return x)"
  by (cases p) (auto intro: advance.intros)

lemma within_advance: "advance p q \<Longrightarrow> within p n \<Longrightarrow> \<exists>m. n = Suc m \<and> within q m"
  by (induction rule: advance.induct) (auto split: nat.splits)

lemma within_steps: "(advance ^^ k) p q \<Longrightarrow> within p n \<Longrightarrow> k \<le> n"
proof (induction k arbitrary: p n)
  case (Suc k)
  then obtain p' where "advance p p'" "(advance ^^ k) p' q" by (metis relpowp_Suc_D2)
  with Suc within_advance show ?case by fastforce
qed simp

named_theorems within_rules

lemma within_Return [within_rules, simp]: "within (Return x) n"
  by simp

lemma within_chain: "within p m \<Longrightarrow> m \<le> n \<Longrightarrow> (\<And>x. within (k x) (n - m)) \<Longrightarrow> within (bindP p k) n"
  using within_bindP [of p m k "n - m"] by simp

lemma within_andThen: "within p m \<Longrightarrow> m \<le> n \<Longrightarrow> (\<And>x. within (k x) (n - m)) \<Longrightarrow> within (andThen p k) n"
  unfolding andThen_def by (rule within_chain) (auto split: sum.split)

lemma within_catching: "within p m \<Longrightarrow> m \<le> n \<Longrightarrow> (\<And>e. within (h e) (n - m)) \<Longrightarrow> (\<And>x. within (k x) (n - m))
  \<Longrightarrow> within (catching p h k) n"
  unfolding catching_def by (rule within_chain) (auto split: sum.split)

lemma within_now: "1 \<le> n \<Longrightarrow> within now n" and within_new_id: "1 \<le> n \<Longrightarrow> within new_id n"
  and within_query: "1 \<le> n \<Longrightarrow> within (query f) n" and within_atomic: "1 \<le> n \<Longrightarrow> within (atomic g) n"
  and within_atomic_unit: "1 \<le> n \<Longrightarrow> within (atomic_unit h) n"
  by (cases n; auto simp: now_def new_id_def query_def atomic_def atomic_unit_def split: sum.split prod.split)+

lemmas one_interaction [within_rules] =
  within_now [of 1, simplified, THEN within_andThen] within_new_id [of 1, simplified, THEN within_andThen]
  within_query [of 1, simplified, THEN within_andThen] within_atomic [of 1, simplified, THEN within_andThen]
  within_atomic_unit [of 1, simplified, THEN within_andThen] within_Return [of _ 0, THEN within_andThen]
  within_atomic within_query within_now within_new_id within_atomic_unit

section \<open>The bounds\<close>

lemma within_read_attempts: "within (read_attemptsP C tenant get cid n) (3 * n)"
proof (induction n)
  case (Suc n)
  then have "within (read_attemptsP C tenant get cid n) (Suc (Suc (Suc (3 * n))) - 1 - 1 - 1)" by simp
  then show ?case by (auto intro!: within_rules)
qed simp

lemma within_read_state: "within (read_stateP C tenant get cid) 9"
  using within_read_attempts [of C tenant get cid 3] by (simp add: read_stateP_def)

lemma within_verify: "within (verify_intent C (read_stateP C tenant get) i) 18"
  unfolding verify_intent_def
  by (auto intro!: within_rules within_read_state [THEN within_andThen])

lemma within_existing: "within (existing_effectP C tenant cap) 2"
  unfolding existing_effectP_def by (auto intro!: within_rules)

lemma within_existing_or: "within (existing_or C tenant cap e) 2"
  unfolding existing_or_def by (auto intro!: within_rules within_existing [THEN within_andThen] split: option.split)

lemma within_complete: "within (complete_dispatch C tenant cmd l) 4"
  unfolding complete_dispatch_def Let_def
  by (auto simp: eval_nat_numeral intro!: within_rules split: prod.split)

lemma within_dispatch: "within (dispatch_and_complete C tenant cap cmd claim) 7"
  unfolding dispatch_and_complete_def by (auto intro!: within_rules within_complete)

lemma within_prepare: "within (prepare_and_dispatch C tenant cap cmd) 12"
  unfolding prepare_and_dispatch_def by (auto intro!: within_rules within_dispatch)

lemma within_execute: "within (execute_capability C tenant signed) 33"
  unfolding execute_capability_def
  by (auto intro!: within_rules within_existing [THEN within_andThen] within_verify [THEN within_catching]
      within_prepare within_mono [OF within_existing_or] split: option.split)

lemma within_resume: "within (resume_prepared C tenant claim) 30"
  unfolding resume_prepared_def resume_verified_def
  by (auto intro!: within_rules within_existing [THEN within_andThen] within_verify [THEN within_andThen]
      within_mono [OF within_dispatch] split: prod.split)

lemma within_Lookup: "1 \<le> n \<Longrightarrow> (\<And>r. within (c r) (n - 1)) \<Longrightarrow> within (Lookup corr identity c) n"
  by (cases n) auto

lemma within_timed: "within (andThen now (\<lambda>t. atomic (g t))) 2"
  and within_timed_unit: "within (andThen now (\<lambda>t. atomic_unit (h t))) 2"
  by (auto intro!: within_rules)

lemma within_capture: "within (capture C R tenant claim) 5"
  unfolding capture_def
  by (auto intro!: within_Return within_Lookup within_query [of 1, simplified, THEN within_chain]
      within_timed_unit [THEN within_chain] split: sum.split)

lemma within_attempt: "within (attempt_recovery C R tenant claim) 32"
proof (cases "rcl_source_status claim = Eff_PREPARED")
  case True
  then show ?thesis unfolding attempt_recovery_def
    by (auto intro!: within_Return within_chain [where m = 32] within_resume [THEN within_andThen]
        within_mono [OF within_timed])
next
  case False
  then show ?thesis unfolding attempt_recovery_def
    by (auto intro!: within_Return within_capture [THEN within_chain] within_timed [THEN within_chain] split: sum.split)
qed

lemma within_settle: "within (settle_failure C R tenant claim failure) 3"
  unfolding settle_failure_def
  by (rule within_andThen [where m = 3])
    (auto intro!: within_rules within_catching [where m = 2] split: error.split)

lemma within_report: "within (recovery_report R tenant before claim failure l action) 2"
  unfolding recovery_report_def by (auto intro!: within_rules split: option.split)

lemma within_not_claimed: "within (not_claimed tenant eid before) 3"
  unfolding not_claimed_def by (auto intro!: within_rules)

lemma within_recover: "within (recover_effect C R tenant eid) 41"
  unfolding recover_effect_def
  by (auto intro!: within_rules within_mono [OF within_not_claimed] within_attempt [THEN within_chain]
      within_settle [THEN within_andThen] within_mono [OF within_report] split: option.split sum.split)

text \<open>
  C33. Executions and recoveries end. Whatever other actors commit, whatever the adapter, the resolver
  and the clock answer, an execution makes at most 33 interactions and a recovery at most 41, and where
  no interaction is left there is a result.
\<close>

theorem services_terminate:
  assumes "(advance ^^ j) (execute_capability C tenant signed) p" and "(advance ^^ k) (recover_effect C R tenant eid) q"
  shows "j \<le> 33 \<and> k \<le> 41 \<and> ((\<exists>p'. advance p p') \<or> (\<exists>r. p = Return r)) \<and> ((\<exists>q'. advance q q') \<or> (\<exists>r. q = Return r))"
  using within_steps [OF assms(1) within_execute] within_steps [OF assms(2) within_recover]
    advance_total [of p] advance_total [of q] by blast

theorem services_terminate_witness:
  "\<exists>p q. (advance ^^ 1) (execute_capability sample_config ''tenant'' (sign_capability (\<lambda>_. ''sig'') sample_capability)) p
     \<and> (advance ^^ 1) (recover_effect sample_config sample_setup ''tenant'' ''E'') q \<and> (1::nat) \<le> 33 \<and> (1::nat) \<le> 41"
proof -
  have "\<exists>p. advance (execute_capability sample_config ''tenant'' (sign_capability (\<lambda>_. ''sig'') sample_capability)) p"
    by (auto simp: execute_capability_def verify_capability_def sign_capability_def sample_config_def andThen_def
        existing_effectP_def now_def intro: advance.intros)
  moreover have "\<exists>q. advance (recover_effect sample_config sample_setup ''tenant'' ''E'') q"
    by (auto simp: recover_effect_def andThen_def query_def intro: advance.intros)
  ultimately obtain p q where
    "(advance ^^ 1) (execute_capability sample_config ''tenant'' (sign_capability (\<lambda>_. ''sig'') sample_capability)) p"
    "(advance ^^ 1) (recover_effect sample_config sample_setup ''tenant'' ''E'') q" by auto
  then show ?thesis using services_terminate by blast
qed

end
