(* ===== verification/AgentSafety.thy ===== *)
theory AgentSafety
  imports AgentRuntime Bounded
begin

text \<open>
  What the agent may do to the outside, whatever the planner answers and whoever else commits: each
  call of a read tool stands directly behind a reservation whose precondition, candidate and query
  were checked on one loaded context, and a run makes as many calls as it reports, at most one a turn.
\<close>

section \<open>Calls behind their reservation\<close>

definition about_to_read :: "'a proc \<Rightarrow> bool" where
  "about_to_read p = (case p of Observe cid tool q i c \<Rightarrow> True | _ \<Rightarrow> False)"

lemma about_to_read_simps [simp]:
  "\<not> about_to_read (Return x)" "\<not> about_to_read (Txn f)" "\<not> about_to_read (Clock ct)" "\<not> about_to_read (Fresh cf)"
  "\<not> about_to_read (Send cmd l cs)" "\<not> about_to_read (Lookup corr identity cl)" "\<not> about_to_read (Ask s ca)"
  "about_to_read (Observe cid tool q i c)"
  by (simp_all add: about_to_read_def)

text \<open>\<open>P d d' cid tool q i\<close> must hold of every transaction that a call follows; nothing else may be followed by one.\<close>

type_synonym read_law = "db \<Rightarrow> db \<Rightarrow> string \<Rightarrow> tool_name \<Rightarrow> tool_query \<Rightarrow> string \<Rightarrow> bool"

definition opens_read :: "read_law \<Rightarrow> db \<Rightarrow> db \<Rightarrow> 'a proc \<Rightarrow> bool" where
  "opens_read P d d' p = (case p of Observe cid tool q i c \<Rightarrow> P d d' cid tool q i | _ \<Rightarrow> True)"

inductive careful :: "read_law \<Rightarrow> 'a proc \<Rightarrow> bool" for P where
  careful_Return: "careful P (Return x)"
| careful_Txn: "(\<And>d. opens_read P d (fst (f d)) (snd (f d))) \<Longrightarrow> (\<And>d. careful P (snd (f d))) \<Longrightarrow> careful P (Txn f)"
| careful_Clock: "(\<And>t. \<not> about_to_read (c t)) \<Longrightarrow> (\<And>t. careful P (c t)) \<Longrightarrow> careful P (Clock c)"
| careful_Fresh: "(\<And>i. \<not> about_to_read (c i)) \<Longrightarrow> (\<And>i. careful P (c i)) \<Longrightarrow> careful P (Fresh c)"
| careful_Send: "(\<And>r. \<not> about_to_read (c r)) \<Longrightarrow> (\<And>r. careful P (c r)) \<Longrightarrow> careful P (Send cmd l c)"
| careful_Lookup: "(\<And>r. \<not> about_to_read (c r)) \<Longrightarrow> (\<And>r. careful P (c r)) \<Longrightarrow> careful P (Lookup corr identity c)"
| careful_Observe: "(\<And>r. \<not> about_to_read (c r)) \<Longrightarrow> (\<And>r. careful P (c r)) \<Longrightarrow> careful P (Observe cid tool q i c)"
| careful_Ask: "(\<And>r. \<not> about_to_read (c r)) \<Longrightarrow> (\<And>r. careful P (c r)) \<Longrightarrow> careful P (Ask s c)"

definition guarded :: "read_law \<Rightarrow> 'a proc \<Rightarrow> bool" where
  "guarded P p = (\<not> about_to_read p \<and> careful P p)"

named_theorems guarded_rules

lemma guarded_Return [guarded_rules, simp]: "guarded P (Return x)"
  by (simp add: guarded_def careful_Return)

lemma about_to_read_bindP: "\<not> about_to_read p \<Longrightarrow> (\<And>x. \<not> about_to_read (k x)) \<Longrightarrow> \<not> about_to_read (bindP p k)"
  by (cases p) auto

lemma about_to_read_bindPD: "about_to_read (bindP p k) \<Longrightarrow> about_to_read p \<or> (\<exists>x. about_to_read (k x))"
  using about_to_read_bindP [of p k] by blast

lemma opens_read_quiet: "\<not> about_to_read p \<Longrightarrow> opens_read P d d' p"
  by (cases p) (simp_all add: opens_read_def)

lemma opens_read_bindP: "opens_read P d d' p \<Longrightarrow> (\<And>x. \<not> about_to_read (k x)) \<Longrightarrow> opens_read P d d' (bindP p k)"
proof (cases p)
  case (Return x)
  assume "\<And>x. \<not> about_to_read (k x)"
  with Return show ?thesis by (simp add: opens_read_quiet)
qed (auto simp: opens_read_def)

lemma careful_bindP:
  assumes "careful P p" and "\<And>x. guarded P (k x)"
  shows "careful P (bindP p k)"
  using assms(1)
proof induction
  case (careful_Txn f)
  have "opens_read P d (fst (f d)) (bindP (snd (f d)) k)" for d
    using careful_Txn.hyps(1) assms(2) by (intro opens_read_bindP) (auto simp: guarded_def)
  then show ?case using careful_Txn.IH by (auto intro!: careful.careful_Txn)
qed (use assms(2) in \<open>auto simp: guarded_def intro!: careful.intros dest!: about_to_read_bindPD\<close>)

lemma guarded_bindP [guarded_rules]: "guarded P p \<Longrightarrow> (\<And>x. guarded P (k x)) \<Longrightarrow> guarded P (bindP p k)"
  using careful_bindP [of P p k] about_to_read_bindP [of p k] by (auto simp: guarded_def)

lemma guarded_andThen [guarded_rules]: "guarded P p \<Longrightarrow> (\<And>x. guarded P (k x)) \<Longrightarrow> guarded P (andThen p k)"
  unfolding andThen_def by (auto intro!: guarded_bindP split: sum.split)

lemma guarded_catching [guarded_rules]:
  "guarded P p \<Longrightarrow> (\<And>e. guarded P (h e)) \<Longrightarrow> (\<And>x. guarded P (k x)) \<Longrightarrow> guarded P (catching p h k)"
  unfolding catching_def by (auto intro!: guarded_bindP split: sum.split)

lemma guarded_query [guarded_rules]: "guarded P (query f)"
  and guarded_now [guarded_rules]: "guarded P now" and guarded_new_id [guarded_rules]: "guarded P new_id"
  and guarded_atomic [guarded_rules]: "guarded P (atomic g)"
  and guarded_atomic_unit [guarded_rules]: "guarded P (atomic_unit h)"
  by (auto simp: guarded_def query_def now_def new_id_def atomic_def atomic_unit_def opens_read_def
      intro!: careful.intros split: sum.split prod.split)

lemma guarded_Ask [guarded_rules]: "(\<And>r. guarded P (c r)) \<Longrightarrow> guarded P (Ask s c)"
  by (auto simp: guarded_def intro!: careful.intros)

lemma guarded_failed_call [guarded_rules]: "guarded P (failed_call tenant cid call_id)"
  unfolding failed_call_def by (auto intro!: guarded_rules split: sum.split)

lemma guarded_publish_call [guarded_rules]: "guarded P (publish_call jh oh tenant cid call_id o1)"
  unfolding publish_call_def by (auto intro!: guarded_rules split: sum.split)

lemma careful_observed_call: "careful P (observed_call jh oh tenant cid tool q call_id)"
proof -
  have "guarded P (case reply of Inl e \<Rightarrow> failed_call tenant cid call_id
     | Inr o1 \<Rightarrow> publish_call jh oh tenant cid call_id o1)" for reply :: "external_error + observation"
    by (auto intro!: guarded_rules split: sum.split)
  then show ?thesis unfolding observed_call_def guarded_def by (auto intro: careful_Observe)
qed

text \<open>The reservation that a call of the agent stands behind.\<close>

definition reserved_read :: "string \<Rightarrow> agent_execution_precondition \<Rightarrow> read_law" where
  "reserved_read tenant p d d' cid tool q call_id = (\<exists>t1 t2 c'.
     reserve_call tenant d cid tool q (Some p) t1 t2 call_id = Inr (d', Inr c', call_id))"

lemma reserve_call_id: "reserve_call tenant d cid tool q p t1 t2 u = Inr (d', x, i) \<Longrightarrow> i = u"
  by (auto simp: reserve_call_def Let_def bindE_Inr_iff split: if_splits)

lemma about_to_read_atomic [simp]: "\<not> about_to_read (bindP (atomic f) k)"
  by (simp add: atomic_def)

lemma guarded_execute:
  assumes "\<And>d d' i. reserved_read tenant p d d' cid tool q i \<Longrightarrow> P d d' cid tool q i"
  shows "guarded P (execute_if_current jh oh tenant cid tool q p)"
proof -
  let ?k = "\<lambda>r :: error + (error + case_rec) \<times> string. case r of Inl e \<Rightarrow> Return (Inl (Failed_with e))
       | Inr (Inl e, call_id) \<Rightarrow> Return (Inl (Failed_with e))
       | Inr (Inr _, call_id) \<Rightarrow> observed_call jh oh tenant cid tool q call_id"
  have k: "careful P (?k r)" for r
    by (auto intro: careful_Return careful_observed_call split: sum.split prod.split)
  have "careful P (bindP (atomic (\<lambda>d. reserve_call tenant d cid tool q (Some p) t1 t2 uuid)) ?k)" for t1 t2 uuid
    unfolding atomic_def bindP.simps
  proof (rule careful_Txn)
    fix d
    let ?f = "map_prod id (\<lambda>r. bindP r ?k) (case reserve_call tenant d cid tool q (Some p) t1 t2 uuid of
       Inl e \<Rightarrow> (d, raise e) | Inr (d', x) \<Rightarrow> (d', return x))"
    have "opens_read P d (fst ?f) (snd ?f) \<and> careful P (snd ?f)"
    proof (cases "reserve_call tenant d cid tool q (Some p) t1 t2 uuid")
      case (Inl e)
      then show ?thesis using k [of "Inl e"] by (simp add: opens_read_def)
    next
      case (Inr x)
      obtain d' r i where x: "x = (d', r, i)" by (rule prod_cases3)
      have i: "i = uuid" using Inr x by (blast dest: reserve_call_id)
      show ?thesis
      proof (cases r)
        case (Inl e)
        then show ?thesis using Inr x k [of "Inr (r, i)"] by (simp add: opens_read_def)
      next
        case (Inr c')
        then have "reserved_read tenant p d d' cid tool q i"
          using \<open>reserve_call _ _ _ _ _ _ _ _ _ = Inr x\<close> x i by (auto simp: reserved_read_def)
        then have "P d d' cid tool q i" by (rule assms)
        then show ?thesis using Inr \<open>reserve_call _ _ _ _ _ _ _ _ _ = Inr x\<close> x k [of "Inr (r, i)"]
          by (simp add: opens_read_def observed_call_def)
      qed
    qed
    then show "opens_read P d (fst ?f) (snd ?f)" and "careful P (snd ?f)" by blast+
  qed
  then show ?thesis unfolding execute_if_current_def guarded_def by (auto intro!: careful.intros)
qed

section \<open>What the agent has checked\<close>

text \<open>
  The context \<open>s\<close> was built from the Case \<open>c\<close> and the Evidence \<open>es\<close> that the database held when they
  were loaded; the candidate passes validator and policy on it and its query was rebuilt for \<open>c\<close>; the
  reservation committed with the precondition of exactly this Case and snapshot.
\<close>

definition justified :: "agent_setup \<Rightarrow> string \<Rightarrow> read_law" where
  "justified S tenant d d' cid tool q call_id = (\<exists>d1 d2 c es s x lease.
     get_case tenant d1 cid = Inr c \<and> list_evidence tenant d2 cid = Inr es
     \<and> build_context (ags_context S) c es = Inr s
     \<and> ctc_tool_name x = tool \<and> hard_policy s (CallTool x) = [] \<and> build_tool_query c x = Inr q
     \<and> reserved_read tenant ((execution_precondition c s)\<lparr> aep_work_lease := lease \<rparr>) d d' cid tool q call_id)"

definition loaded_from :: "agent_setup \<Rightarrow> string \<Rightarrow> string \<Rightarrow> loaded \<Rightarrow> bool" where
  "loaded_from S tenant cid l = (\<exists>d1 d2. get_case tenant d1 cid = Inr (fst l)
     \<and> list_evidence tenant d2 cid = Inr (fst (snd l))
     \<and> build_context (ags_context S) (fst l) (fst (snd l)) = Inr (snd (snd l)))"

lemma andThen_assoc: "andThen (andThen p k) k' = andThen p (\<lambda>x. andThen (k x) k')"
  unfolding andThen_def bindP_assoc by (intro arg_cong2 [where f = bindP] refl ext) (simp split: sum.split)

lemma andThen_return [simp]: "andThen (return x) k = k x" "andThen (raise e) k = raise e"
  by (simp_all add: andThen_def)

lemma guarded_query_then:
  "(\<And>d x. f d = Inr x \<Longrightarrow> guarded P (k x)) \<Longrightarrow> guarded P (andThen (query f) k)"
  by (fastforce simp: andThen_def query_def guarded_def opens_read_def about_to_read_def intro: careful_Txn careful_Return
      split: sum.split proc.split)

lemma guarded_load [guarded_rules]:
  assumes "\<And>l. loaded_from S tenant cid l \<Longrightarrow> guarded P (k l)"
  shows "guarded P (andThen (load_current_context S tenant cid) k)"
proof -
  have "guarded P (andThen (pure (build_context (ags_context S) c es)) (\<lambda>s. k (c, es, s)))"
    if "get_case tenant d1 cid = Inr c" "list_evidence tenant d2 cid = Inr es" for d1 d2 c es
    using that assms [of "(c, es, _)"] by (cases "build_context (ags_context S) c es") (auto simp: loaded_from_def)
  then show ?thesis unfolding load_current_context_def andThen_assoc
    by (auto intro!: guarded_query_then simp: andThen_assoc)
qed

lemma guarded_fenced:
  assumes "\<And>g. guard = Some g \<Longrightarrow> guarded P g" and "\<And>e. guarded P (k (Inl e))" and "guarded P (k (Inr p))"
    and "\<And>lease. guarded P (k (Inr (p\<lparr> aep_work_lease := Some lease \<rparr>)))"
  shows "guarded P (bindP (fenced guard p) k)"
proof (cases guard)
  case None
  with assms(3) show ?thesis by (simp add: fenced_def)
next
  case (Some g)
  have "bindP (fenced guard p) k = bindP g (\<lambda>r. case r of Inl e \<Rightarrow> k (Inl e) | Inr lease \<Rightarrow> k (Inr (p\<lparr> aep_work_lease := Some lease \<rparr>)))"
    unfolding Some fenced_def andThen_def option.case bindP_assoc
    by (intro arg_cong2 [where f = bindP] refl ext) (simp split: sum.split)
  then show ?thesis using assms Some by (auto intro!: guarded_bindP split: sum.split)
qed

lemma guarded_pause [guarded_rules]: "guarded P (pause_action S tenant cid run_id planned d cand p)"
  unfolding pause_action_def by (auto intro!: guarded_rules)

text \<open>What a valid verdict establishes.\<close>

lemma revalidate_valid:
  assumes "fst (revalidate T c s d) = Rv_VALID" and "pdc_selected_action d = Some p"
  shows "hard_policy s (vap_candidate p) = [] \<and> case_case_id c = rcs_case_id s
    \<and> case_status c \<in> {Case_NEW, Case_INVESTIGATING} \<and> vap_snapshot_id p = rcs_snapshot_id s
    \<and> (\<forall>x. vap_candidate p = CallTool x \<longrightarrow> (\<exists>q. build_tool_query c x = Inr q))"
  using assms by (auto simp: revalidate_def Let_def split: if_splits action_candidate.splits sum.splits)

lemma guarded_perform:
  assumes "\<And>g. guard = Some g \<Longrightarrow> guarded (justified S tenant) g" and "loaded_from S tenant cid (c, es, s)"
    and "hard_policy s cand = []"
  shows "guarded (justified S tenant) (perform S tenant cid run_id guard c planned d cand (execution_precondition c s))"
proof -
  have read: "guarded (justified S tenant) (perform_read S tenant cid c x p)"
    if "cand = CallTool x" and p: "p = (execution_precondition c s)\<lparr> aep_work_lease := lease \<rparr>" for x p lease
  proof (cases "build_tool_query c x")
    case (Inr q)
    have "justified S tenant e e' cid (ctc_tool_name x) q i"
      if "reserved_read tenant p e e' cid (ctc_tool_name x) q i" for e e' i
      using that assms(2,3) \<open>cand = CallTool x\<close> Inr unfolding p justified_def loaded_from_def fst_conv snd_conv by blast
    with Inr show ?thesis by (auto simp: perform_read_def intro!: guarded_bindP guarded_execute)
  qed (simp add: perform_read_def)
  have lease: "execution_precondition c s = (execution_precondition c s)\<lparr> aep_work_lease := None \<rparr>"
    by (simp add: execution_precondition_def)
  have "guarded (justified S tenant) (case cand of CallTool x \<Rightarrow> perform_read S tenant cid c x p
      | _ \<Rightarrow> bindP (pause_action S tenant cid run_id planned d cand p) (\<lambda>r. Return (p, None, map_sum Failed_with Acted_pause r)))"
    if "p = (execution_precondition c s)\<lparr> aep_work_lease := lease \<rparr>" for p lease
    using read that by (auto intro!: guarded_rules split: action_candidate.split)
  with assms(1) lease show ?thesis unfolding perform_def by (auto intro!: guarded_fenced)
qed

lemma guarded_judge:
  assumes "\<And>g. guard = Some g \<Longrightarrow> guarded (justified S tenant) g" and "loaded_from S tenant cid l"
  shows "guarded (justified S tenant) (judge S tenant cid run_id guard d l st)"
proof -
  obtain c es s where l: "l = (c, es, s)" by (rule prod_cases3)
  have "guarded (justified S tenant) (perform S tenant cid run_id guard c planned d (vap_candidate a) (execution_precondition c s))"
    if "fst (revalidate (cc_text (ags_context S)) c s d) = Rv_VALID" "pdc_selected_action d = Some a" for a planned
    using guarded_perform [where S = S and guard = guard and c = c and s = s, OF assms(1)] revalidate_valid [OF that] assms(2) l by blast
  then show ?thesis unfolding judge_def l Let_def
    by (auto intro!: guarded_rules split: option.split)
qed

lemma guarded_plan [guarded_rules]: "guarded P (plan_on S s)"
  unfolding plan_on_def Let_def by (auto intro!: guarded_rules split: sum.split)

lemma guarded_attempt:
  assumes "\<And>g. guard = Some g \<Longrightarrow> guarded (justified S tenant) g"
  shows "guarded (justified S tenant) (attempt S tenant cid run_id guard st)"
  unfolding attempt_def using guarded_judge [OF assms] by (auto intro!: guarded_rules)

lemma guarded_attempts:
  assumes "\<And>g. guard = Some g \<Longrightarrow> guarded (justified S tenant) g"
  shows "guarded (justified S tenant) (attempts S tenant cid run_id guard n st)"
proof (induction n arbitrary: st)
  case (Suc n)
  then show ?case using guarded_attempt [OF assms] by (auto simp: Let_def intro!: guarded_rules split: prod.split)
qed simp

lemma guarded_checkpoint [guarded_rules]: "guarded P (checkpoint tenant cid run_id turn s decision call_id stop)"
  unfolding checkpoint_def by (auto intro!: guarded_rules)

lemma guarded_held: "(\<And>g. guard = Some g \<Longrightarrow> guarded P g) \<Longrightarrow> guarded P (held guard)"
  unfolding held_def by (auto intro!: guarded_rules split: option.split)

lemma guarded_turns:
  assumes "\<And>g. guard = Some g \<Longrightarrow> guarded (justified S tenant) g"
  shows "guarded (justified S tenant) (turns S tenant cid run_id guard n st)"
proof (induction n arbitrary: st)
  case (Suc n)
  then show ?case using guarded_attempts [OF assms] guarded_held [OF assms]
    by (auto simp: Let_def simp del: attempts.simps intro!: guarded_rules split: option.split)
qed simp

lemma guarded_recover_reads [guarded_rules]: "guarded P (recover_reads jh oh tenant cid calls)"
  by (induction calls) (auto intro!: guarded_rules)

lemma guarded_before [guarded_rules]: "guarded P (before_investigation jh oh tenant cid)"
  unfolding before_investigation_def by (auto intro!: guarded_rules)

lemma guarded_run_agent:
  assumes "\<And>g. guard = Some g \<Longrightarrow> guarded (justified S tenant) g"
  shows "guarded (justified S tenant) (run_agent S tenant cid given guard)"
  unfolding run_agent_def Let_def using guarded_turns [OF assms]
  by (auto intro!: guarded_rules split: option.split list.split)

lemma careful_advance: "advance p q \<Longrightarrow> careful P p \<Longrightarrow> careful P q \<and>
  (about_to_read q \<longrightarrow> (\<exists>f d. p = Txn f \<and> q = snd (f d) \<and> opens_read P d (fst (f d)) q))"
  by (induction rule: advance.induct) (auto elim: careful.cases)

lemma careful_reachable: "advance\<^sup>*\<^sup>* p q \<Longrightarrow> careful P p \<Longrightarrow> careful P q"
  by (induction rule: rtranclp_induct) (auto dest: careful_advance)

lemma guarded_reads:
  assumes "guarded P r" and "advance\<^sup>*\<^sup>* r p" and "advance p (Observe cid tool q i c)"
  shows "\<exists>f d. p = Txn f \<and> snd (f d) = Observe cid tool q i c \<and> P d (fst (f d)) cid tool q i"
proof -
  have "careful P p" using careful_reachable [OF assms(2)] assms(1) by (simp add: guarded_def)
  from careful_advance [OF assms(3) this] show ?thesis by (auto simp: opens_read_def)
qed

section \<open>Calls are counted\<close>

text \<open>In some environment \<open>p\<close> ends with \<open>x\<close> after \<open>n\<close> calls of read tools.\<close>

inductive reads :: "'a proc \<Rightarrow> nat \<Rightarrow> 'a \<Rightarrow> bool" where
  reads_Return: "reads (Return x) 0 x"
| reads_Txn: "reads (snd (f d)) n x \<Longrightarrow> reads (Txn f) n x"
| reads_Clock: "reads (c t) n x \<Longrightarrow> reads (Clock c) n x"
| reads_Fresh: "reads (c i) n x \<Longrightarrow> reads (Fresh c) n x"
| reads_Send: "reads (c r) n x \<Longrightarrow> reads (Send cmd l c) n x"
| reads_Lookup: "reads (c r) n x \<Longrightarrow> reads (Lookup corr identity c) n x"
| reads_Observe: "reads (c r) n x \<Longrightarrow> reads (Observe cid tool q i c) (Suc n) x"
| reads_Ask: "reads (c r) n x \<Longrightarrow> reads (Ask s c) n x"

inductive_simps reads_simps [simp]:
  "reads (Return y) n x" "reads (Txn f) n x" "reads (Clock c) n x" "reads (Fresh c) n x"
  "reads (Send cmd l c) n x" "reads (Lookup corr identity c) n x" "reads (Observe cid tool q i c) n x"
  "reads (Ask s c) n x"

lemma reads_bindP: "reads (bindP p k) n x \<longleftrightarrow> (\<exists>n1 n2 y. n = n1 + n2 \<and> reads p n1 y \<and> reads (k y) n2 x)"
proof (induction p arbitrary: n rule: proc_induct)
  case (Observe cid tool q i c)
  show ?case by (auto simp: Observe.IH) (metis add_Suc)+
qed auto

lemma reads_andThen: "reads (andThen p k) n r \<longleftrightarrow>
  (\<exists>e. reads p n (Inl e) \<and> r = Inl e) \<or> (\<exists>n1 n2 x. n = n1 + n2 \<and> reads p n1 (Inr x) \<and> reads (k x) n2 r)"
  by (simp add: andThen_def reads_bindP split_sum_ex ex_disj_distrib conj_disj_distribL)
    (rule arg_cong2 [where f = "(\<or>)"], auto)

lemma reads_catching: "reads (catching p h k) n r \<longleftrightarrow>
  (\<exists>n1 n2 e. n = n1 + n2 \<and> reads p n1 (Inl e) \<and> reads (h e) n2 r) \<or>
  (\<exists>n1 n2 x. n = n1 + n2 \<and> reads p n1 (Inr x) \<and> reads (k x) n2 r)"
  by (simp add: catching_def reads_bindP split_sum_ex ex_disj_distrib conj_disj_distribL)

text \<open>A procedure without calls.\<close>

definition blind :: "'a proc \<Rightarrow> bool" where
  "blind p = (\<forall>n x. reads p n x \<longrightarrow> n = 0)"

named_theorems blind_rules

lemma blind_Return [blind_rules, simp]: "blind (Return x)"
  by (simp add: blind_def)

lemma blind_bindP [blind_rules]: "blind p \<Longrightarrow> (\<And>x. blind (k x)) \<Longrightarrow> blind (bindP p k)"
  by (auto simp: blind_def reads_bindP)

lemma blind_andThen [blind_rules]: "blind p \<Longrightarrow> (\<And>x. blind (k x)) \<Longrightarrow> blind (andThen p k)"
  unfolding andThen_def by (auto intro!: blind_bindP split: sum.split)

lemma blind_Txn: "(\<And>d. blind (snd (f d))) \<Longrightarrow> blind (Txn f)"
  by (auto simp: blind_def)

lemma blind_basic [blind_rules]: "blind (query f)" "blind now" "blind new_id" "blind (atomic g)" "blind (atomic_unit h)"
  unfolding query_def atomic_def atomic_unit_def
  by (auto simp: now_def new_id_def blind_def [of "Clock _"] blind_def [of "Fresh _"] intro!: blind_Txn
      split: sum.split prod.split)

lemma blind_load [blind_rules]: "blind (load_current_context S tenant cid)"
  unfolding load_current_context_def by (auto intro!: blind_rules)

lemma blind_checkpoint [blind_rules]: "blind (checkpoint tenant cid run_id turn s decision call_id stop)"
  unfolding checkpoint_def by (auto intro!: blind_rules)

lemma blind_pause [blind_rules]: "blind (pause_action S tenant cid run_id planned d cand p)"
  unfolding pause_action_def by (auto intro!: blind_rules)

lemma blind_plan [blind_rules]: "blind (plan_on S s)"
  by (auto simp: plan_on_def Let_def blind_def split: sum.splits)

lemma blind_before [blind_rules]: "blind (before_investigation jh oh tenant cid)"
proof -
  have "blind (recover_reads jh oh tenant cid calls)" for calls by (induction calls) (auto intro!: blind_rules)
  then show ?thesis unfolding before_investigation_def by (auto intro!: blind_rules)
qed

lemma blind_renew [blind_rules]: "blind (renew_lease lease_seconds tenant k)"
  unfolding renew_lease_def by (auto intro!: blind_rules)

section \<open>One call per turn\<close>

lemma blindD: "blind p \<Longrightarrow> reads p n x \<Longrightarrow> n = 0"
  by (auto simp: blind_def)

lemma reads_atomic_unit: "reads (atomic_unit f) n r \<longleftrightarrow> n = 0 \<and>
  ((\<exists>d e. f d = Inl e \<and> r = Inl e) \<or> (\<exists>d d'. f d = Inr d' \<and> r = Inr ()))"
proof -
  have "reads (snd (case f d of Inl e \<Rightarrow> (d, raise e) | Inr d' \<Rightarrow> (d', return ()))) n r \<longleftrightarrow> n = 0 \<and>
    ((\<exists>e. f d = Inl e \<and> r = Inl e) \<or> (\<exists>d'. f d = Inr d' \<and> r = Inr ()))" for d
    by (cases "f d") auto
  then show ?thesis by (auto simp: atomic_unit_def)
qed

lemma reads_case_sum: "reads (case x of Inl a \<Rightarrow> f a | Inr b \<Rightarrow> g b) n r \<longleftrightarrow>
  (\<exists>a. x = Inl a \<and> reads (f a) n r) \<or> (\<exists>b. x = Inr b \<and> reads (g b) n r)"
  by (cases x) auto

lemma failed_call_reads:
  assumes "reads (failed_call tenant cid call_id) n r"
  shows "n = 0 \<and> (r = Inl (Tool_failed call_id) \<or> r = Inl (Failed_with CaseAccessError))"
proof -
  have "mark_error tenant d cid call_id = Inl e \<Longrightarrow> e = CaseAccessError" for d e
    by (auto simp: mark_error_def case_row_of_def bindE_def split: option.splits sum.splits if_splits)
  then show ?thesis using assms
    by (fastforce simp: failed_call_def reads_bindP reads_atomic_unit)
qed

text \<open>How many calls an action made, by how it ended.\<close>

definition read_count :: "action_failure + acted \<Rightarrow> nat \<Rightarrow> bool" where
  "read_count r n = (case r of Inr (Acted_read _ _) \<Rightarrow> n = 1 | Inr (Acted_pause _) \<Rightarrow> n = 0
     | Inl (Tool_failed _) \<Rightarrow> n = 1 | Inl (Failed_with e) \<Rightarrow> n = 0 \<or> (n = 1 \<and> e = CaseAccessError))"

lemma publish_reads:
  assumes "reads (publish_call jh oh tenant cid call_id o1) n r"
  shows "n = 0 \<and> (case r of Inl (Failed_with e) \<Rightarrow> e = CaseAccessError | _ \<Rightarrow> True)"
proof -
  have "blind (andThen now (\<lambda>t. atomic (\<lambda>d. record_call jh oh tenant d cid call_id o1 False t)))"
    by (auto intro!: blind_rules)
  then show ?thesis using assms
    by (auto simp: publish_call_def reads_bindP reads_case_sum dest!: failed_call_reads dest: blindD)
qed

lemma observed_reads:
  assumes "reads (observed_call jh oh tenant cid tool q call_id) n r"
  shows "n = 1 \<and> (case r of Inl (Failed_with e) \<Rightarrow> e = CaseAccessError | _ \<Rightarrow> True)"
  using assms
  by (auto simp: observed_call_def reads_case_sum dest!: failed_call_reads publish_reads)

lemma execute_reads:
  assumes "reads (execute_if_current jh oh tenant cid tool q p) n r"
  shows "read_count (map_sum id (\<lambda>(call_id, rs). Acted_read call_id rs) r) n"
proof -
  obtain t1 t2 uuid n1 n2 x where x: "reads (atomic (\<lambda>d. reserve_call tenant d cid tool q (Some p) t1 t2 uuid)) n1 x"
    and r: "reads (case x of Inl e \<Rightarrow> Return (Inl (Failed_with e))
       | Inr (Inl e, call_id) \<Rightarrow> Return (Inl (Failed_with e))
       | Inr (Inr _, call_id) \<Rightarrow> observed_call jh oh tenant cid tool q call_id) n2 r" and n: "n = n1 + n2"
    using assms unfolding execute_if_current_def by (auto simp: reads_bindP)
  have "n1 = 0" using blindD [OF blind_basic(4) x] .
  then show ?thesis using r n
    by (cases r) (auto simp: read_count_def reads_case_sum split: action_failure.split dest!: observed_reads)
qed

lemma fenced_blind: "(\<And>g. guard = Some g \<Longrightarrow> blind g) \<Longrightarrow> blind (fenced guard p)"
  unfolding fenced_def by (auto intro!: blind_rules split: option.split)

lemma perform_reads:
  assumes "reads (perform S tenant cid run_id guard c planned d cand p0) n (p, tool, r)"
    and "\<And>g. guard = Some g \<Longrightarrow> blind g"
  shows "read_count r n"
proof -
  obtain n1 n2 f where f: "reads (fenced guard p0) n1 f" "n = n1 + n2"
    and r: "reads (case f of Inl e \<Rightarrow> Return (p0, None, Inl (Failed_with e))
     | Inr p \<Rightarrow> (case cand of CallTool x \<Rightarrow> perform_read S tenant cid c x p
         | _ \<Rightarrow> bindP (pause_action S tenant cid run_id planned d cand p)
             (\<lambda>r. Return (p, None, map_sum Failed_with Acted_pause r)))) n2 (p, tool, r)"
    using assms(1) by (auto simp: perform_def reads_bindP)
  have n: "n = n2" using blindD [OF fenced_blind [OF assms(2)] f(1)] f(2) by simp
  have pause: "read_count r n2" if "reads (pause_action S tenant cid run_id planned d cand p') n2 y"
    "r = map_sum Failed_with Acted_pause y" for p' y
    using blindD [OF blind_pause that(1)] that(2) by (cases y) (simp_all add: read_count_def)
  have read: "read_count r n2" if "reads (perform_read S tenant cid c x p') n2 (p, tool, r)" for x p'
    using that by (auto simp: perform_read_def reads_bindP reads_case_sum read_count_def [of "Inl _"] dest!: execute_reads)
  show ?thesis unfolding n using r pause read
    by (cases cand) (auto simp: reads_bindP reads_case_sum read_count_def [of "Inl _"])
qed

lemma concluded_counts:
  assumes "read_count r n"
  shows "n \<le> 1" and "concluded es (p, tool, r) st = Inr (again, st') \<Longrightarrow>
    tst_dispatched st' = tst_dispatched st + n \<and> (again \<longrightarrow> n = 0)"
  using assms
  by (auto simp: read_count_def concluded_def Let_def ended_def last_attempt_def is_any_value_error_def
      split: sum.splits acted.splits action_failure.splits if_splits)

definition turn_count :: "turn_state \<Rightarrow> nat \<Rightarrow> error + bool \<times> turn_state \<Rightarrow> bool" where
  "turn_count st n r = (n \<le> 1 \<and> (case r of Inl _ \<Rightarrow> True | Inr (again, st') \<Rightarrow>
     tst_dispatched st' = tst_dispatched st + n \<and> (again \<longrightarrow> n = 0)))"

lemma judge_reads:
  assumes "reads (judge S tenant cid run_id guard d l st) n r" and "\<And>g. guard = Some g \<Longrightarrow> blind g"
  shows "turn_count st n r"
proof -
  obtain c es s where l: "l = (c, es, s)" by (rule prod_cases3)
  have acts: "turn_count st (n1 + n2) r" if "reads (perform S tenant cid run_id guard c planned d cand p0) n1 (p, tool, y)"
    and tail: "reads (andThen (pure (concluded es (p, tool, y) st1)) (\<lambda>(again, st2).
                 andThen (load_current_context S tenant cid) (\<lambda>l'. return (again, st2\<lparr> tst_loaded := l' \<rparr>)))) n2 r"
    and "tst_dispatched st1 = tst_dispatched st" for n1 n2 planned cand p0 p tool y st1
  proof -
    have "read_count y n1" by (rule perform_reads [OF that(1) assms(2)])
    note count = concluded_counts [OF this]
    show ?thesis
    proof (cases "concluded es (p, tool, y) st1")
      case (Inl e)
      with tail count(1) show ?thesis by (auto simp: turn_count_def)
    next
      case (Inr z)
      then obtain again st2 where z: "concluded es (p, tool, y) st1 = Inr (again, st2)" by (cases z) simp
      have "blind (andThen (load_current_context S tenant cid) (\<lambda>l'. return (again, st2\<lparr> tst_loaded := l' \<rparr>)))"
        by (auto intro!: blind_rules)
      with tail z have "n2 = 0" by (auto dest: blindD)
      with tail z count(1) count(2) [OF z] that(3) show ?thesis
        by (auto simp: turn_count_def reads_andThen)
    qed
  qed
  show ?thesis using assms(1) acts unfolding judge_def l
    by (auto simp: Let_def reads_bindP turn_count_def [of _ 0] ended_def split: if_splits option.splits)
qed

lemma turn_count_update [simp]:
  "turn_count (st\<lparr> tst_decision_ids := ds \<rparr>) n r = turn_count st n r"
  "turn_count (st\<lparr> tst_seen := seen \<rparr>) n r = turn_count st n r"
  by (simp_all add: turn_count_def cong: sum.case_cong)

lemma reads_after_blind:
  assumes "blind p" and "reads (andThen p k) n r"
  shows "(\<exists>e. n = 0 \<and> r = Inl e) \<or> (\<exists>x. reads (k x) n r)"
  using assms unfolding blind_def reads_andThen by fastforce

lemma attempt_reads:
  assumes "reads (attempt S tenant cid run_id guard st) n r" and "\<And>g. guard = Some g \<Longrightarrow> blind g"
  shows "turn_count st n r"
  using assms(1) unfolding attempt_def
  by (auto simp: reads_catching reads_andThen turn_count_def [of _ 0] ended_def split: if_splits
      dest!: blindD [OF blind_plan] blindD [OF blind_load] judge_reads [OF _ assms(2)])

lemma attempts_reads:
  assumes "\<And>g. guard = Some g \<Longrightarrow> blind g"
  shows "reads (attempts S tenant cid run_id guard m st) n r \<Longrightarrow>
    n \<le> 1 \<and> (\<forall>st'. r = Inr st' \<longrightarrow> tst_dispatched st' = tst_dispatched st + n)"
proof (induction m arbitrary: st n r)
  case (Suc m)
  show ?case
  proof (cases "rcs_snapshot_id (tst_snapshot st) \<in> set (tst_seen st)")
    case True
    with Suc.prems show ?thesis by (auto simp: ended_def)
  next
    case False
    with Suc.prems consider e where "reads (attempt S tenant cid run_id guard
          (st\<lparr> tst_seen := rcs_snapshot_id (tst_snapshot st) # tst_seen st \<rparr>)) n (Inl e)" "r = Inl e"
      | n1 n2 again st1 where "n = n1 + n2" "reads (attempt S tenant cid run_id guard
          (st\<lparr> tst_seen := rcs_snapshot_id (tst_snapshot st) # tst_seen st \<rparr>)) n1 (Inr (again, st1))"
        "reads (if again then attempts S tenant cid run_id guard m st1 else return st1) n2 r"
      by (auto simp: Let_def reads_andThen)
    then show ?thesis
    proof cases
      case 1
      with attempt_reads [OF 1(1) assms] show ?thesis by (simp add: turn_count_def)
    next
      case 2
      with attempt_reads [OF 2(2) assms] show ?thesis
        using Suc.IH [of st1 n2 r] by (cases again) (auto simp: turn_count_def)
    qed
  qed
qed simp

lemma held_blind: "(\<And>g. guard = Some g \<Longrightarrow> blind g) \<Longrightarrow> blind (held guard)"
  unfolding held_def by (auto intro!: blind_rules split: option.split)

lemma turns_reads:
  assumes "\<And>g. guard = Some g \<Longrightarrow> blind g"
  shows "reads (turns S tenant cid run_id guard m st) n r \<Longrightarrow>
    n \<le> m \<and> (\<forall>st'. r = Inr st' \<longrightarrow> rns_dispatched st' = rns_dispatched st + n
      \<and> length (rns_turns st) + n \<le> length (rns_turns st') \<and> length (rns_turns st') \<le> length (rns_turns st) + m)"
proof (induction m arbitrary: st n r)
  case (Suc m)
  define body where "body = (\<lambda>(l :: loaded) ts. let number = Suc (length (rns_turns st)); tr = turn_trace number (snd (snd l)) ts;
                  st' = recorded_turn st tr ts
           in andThen (checkpoint tenant cid run_id number (tst_snapshot ts) (last_decision tr) (tst_call_id ts) (tst_stop ts))
             (\<lambda>_. case tst_stop ts of Some stop \<Rightarrow> return (st'\<lparr> rns_stop := stop \<rparr>)
              | None \<Rightarrow> if agc_max_consecutive_no_knowledge_progress (ags_config S) \<le> rns_no_progress st'
                  then return (st'\<lparr> rns_stop := Run_NO_KNOWLEDGE_PROGRESS \<rparr>)
                  else turns S tenant cid run_id guard m st'))"
  have done1: "n2 \<le> m \<and> (\<forall>st'. r = Inr st' \<longrightarrow> rns_dispatched st' = tst_dispatched ts + n2
      \<and> length (rns_turns st) + 1 + n2 \<le> length (rns_turns st') \<and> length (rns_turns st') \<le> length (rns_turns st) + 1 + m)"
    if "reads (body l ts) n2 r" for l ts n2
  proof -
    obtain tr st' where st': "st' = recorded_turn st tr ts" and tr: "tr = turn_trace (Suc (length (rns_turns st))) (snd (snd l)) ts"
      by blast
    have len: "length (rns_turns st') = length (rns_turns st) + 1" "rns_dispatched st' = tst_dispatched ts"
      by (simp_all add: st' recorded_turn_def)
    from that consider e where "n2 = 0" "r = Inl e"
      | stop where "n2 = 0" "r = Inr (st'\<lparr> rns_stop := stop \<rparr>)"
      | "reads (turns S tenant cid run_id guard m st') n2 r"
      unfolding body_def Let_def st' tr
      by (auto simp: reads_andThen split: option.splits if_splits dest!: blindD [OF blind_checkpoint])
    then show ?thesis
    proof cases
      case 3
      from Suc.IH [OF this] len show ?thesis by auto
    qed (use len in auto)
  qed
  have "turns S tenant cid run_id guard (Suc m) st = andThen (held guard) (\<lambda>_.
     andThen (load_current_context S tenant cid) (\<lambda>l.
       if case_status (fst l) \<notin> {Case_NEW, Case_INVESTIGATING}
       then return (st\<lparr> rns_loaded := l, rns_stop := Run_RUNTIME_SAFETY_STOP \<rparr>)
       else andThen (attempts S tenant cid run_id guard (Suc (agc_max_stale_replans_per_turn (ags_config S))) (new_turn l st))
         (body l)))" by (simp only: turns.simps body_def)
  with Suc.prems have *: "reads (andThen (held guard) (\<lambda>_. andThen (load_current_context S tenant cid) (\<lambda>l.
       if case_status (fst l) \<notin> {Case_NEW, Case_INVESTIGATING}
       then return (st\<lparr> rns_loaded := l, rns_stop := Run_RUNTIME_SAFETY_STOP \<rparr>)
       else andThen (attempts S tenant cid run_id guard (Suc (agc_max_stale_replans_per_turn (ags_config S))) (new_turn l st))
         (body l)))) n r" by (simp only:)
  from reads_after_blind [OF held_blind [OF assms] *] consider e where "n = 0" "r = Inl e"
    | l where "reads (if case_status (fst l) \<notin> {Case_NEW, Case_INVESTIGATING}
       then return (st\<lparr> rns_loaded := l, rns_stop := Run_RUNTIME_SAFETY_STOP \<rparr>)
       else andThen (attempts S tenant cid run_id guard (Suc (agc_max_stale_replans_per_turn (ags_config S))) (new_turn l st))
         (body l)) n r" by (blast dest: reads_after_blind [OF blind_load])
  then consider e where "n = 0" "r = Inl e"
    | l where "n = 0" "r = Inr (st\<lparr> rns_loaded := l, rns_stop := Run_RUNTIME_SAFETY_STOP \<rparr>)"
    | l e where "reads (attempts S tenant cid run_id guard (Suc (agc_max_stale_replans_per_turn (ags_config S))) (new_turn l st)) n (Inl e)"
        "r = Inl e"
    | l n1 n2 ts where "n = n1 + n2" "reads (body l ts) n2 r"
        "reads (attempts S tenant cid run_id guard (Suc (agc_max_stale_replans_per_turn (ags_config S))) (new_turn l st)) n1 (Inr ts)"
  proof cases
    case (2 l)
    show ?thesis
    proof (cases "case_status (fst l) \<notin> {Case_NEW, Case_INVESTIGATING}")
      case True
      with 2 have "n = 0 \<and> r = Inr (st\<lparr> rns_loaded := l, rns_stop := Run_RUNTIME_SAFETY_STOP \<rparr>)" by simp
      then show ?thesis using that(2) by blast
    next
      case False
      with 2 have "reads (andThen (attempts S tenant cid run_id guard (Suc (agc_max_stale_replans_per_turn (ags_config S)))
         (new_turn l st)) (body l)) n r" by (simp only: if_False)
      then show ?thesis unfolding reads_andThen using that(3,4) by blast
    qed
  qed
  then show ?case
  proof cases
    case 3
    from attempts_reads [OF assms 3(1)] 3(2) show ?thesis by simp
  next
    case 4
    from attempts_reads [OF assms 4(3)] done1 [OF 4(2)] 4(1) show ?thesis by (auto simp: new_turn_def)
  qed auto
qed simp

lemma after_blind:
  assumes "blind p" and "\<And>e. Q 0 (Inl e)" and "\<And>x n r. reads (k x) n r \<Longrightarrow> Q n r"
  shows "reads (andThen p k) n r \<Longrightarrow> Q n r"
  using reads_after_blind [OF assms(1)] assms(2,3) by blast

definition within_turns :: "agent_setup \<Rightarrow> nat \<Rightarrow> error + agent_run_result \<Rightarrow> bool" where
  "within_turns S n r = (n \<le> agc_max_turns (ags_config S) \<and> (\<forall>x. r = Inr x \<longrightarrow> arr_tool_calls_dispatched x = n
    \<and> n \<le> length (arr_turns x) \<and> length (arr_turns x) \<le> agc_max_turns (ags_config S)))"

lemma run_reads:
  assumes "\<And>g. guard = Some g \<Longrightarrow> blind g"
  shows "reads (run_agent S tenant cid given guard) n r \<Longrightarrow> within_turns S n r"
proof -
  have zero: "within_turns S 0 (Inl e)" for e by (simp add: within_turns_def)
  have rest: "within_turns S n r" if "reads (andThen (turns S tenant cid run_id guard (agc_max_turns (ags_config S))
         \<lparr> rns_loaded = l, rns_turns = [], rns_decision_ids = [], rns_dispatched = 0, rns_no_progress = 0,
           rns_stop = Run_MAX_TURNS_REACHED \<rparr>) (\<lambda>st. andThen (p st) (\<lambda>_. return (agent_result cid run_id initial st)))) n r"
    and "\<And>st. blind (p st)" for p :: "run_state \<Rightarrow> unit service" and n r run_id l initial
  proof -
    have count: "n \<le> m \<and> (\<forall>st'. r = Inr st' \<longrightarrow> rns_dispatched st' = rns_dispatched st + n
      \<and> length (rns_turns st) + n \<le> length (rns_turns st') \<and> length (rns_turns st') \<le> length (rns_turns st) + m)"
      if "reads (turns S tenant cid run_id guard m st) n r" for m st n r
      using assms that by (rule turns_reads)
    show ?thesis using that(1)
      by (auto simp: reads_andThen within_turns_def agent_result_def dest!: blindD [OF that(2)] count)
  qed
  show "reads (run_agent S tenant cid given guard) n r \<Longrightarrow> within_turns S n r"
    unfolding run_agent_def Let_def
    by ((erule rest | (erule after_blind [rotated 3], (auto intro: zero blind_rules split: option.split list.split)[2]))+,
        auto intro!: blind_rules)
qed

section \<open>Properties\<close>

text \<open>
  What the reservation finds and leaves: the Case is as it was judged, open and within its budget; a
  dispatched call with exactly this tool and query is recorded under the identifier of the call, and
  counts against the budget.
\<close>

definition reserved_for :: "string \<Rightarrow> case_rec \<Rightarrow> read_law" where
  "reserved_for tenant c d d' cid tool q call_id = (\<exists>row row' r.
     tget cid (db_cases d) = Some row \<and> cr_tenant_id row = tenant \<and> can_reserve row
     \<and> cr_status row = case_status c \<and> cr_used_tool_calls row = cb_used_tool_calls (case_budget c)
     \<and> cr_updated_at row = case_updated_at c
     \<and> tget cid (db_cases d') = Some row' \<and> cr_used_tool_calls row' = cr_used_tool_calls row + 1
     \<and> tget call_id (db_calls d) = None \<and> tget call_id (db_calls d') = Some r
     \<and> cl_case_id r = cid \<and> cl_tool r = tool \<and> cl_request r = q \<and> cl_state r = Call_DISPATCHED)"

lemma reserved_read_for:
  assumes "reserved_read tenant ((execution_precondition c s)\<lparr> aep_work_lease := lease \<rparr>) d d' cid tool q i"
  shows "reserved_for tenant c d d' cid tool q i"
  using assms
  by (auto simp: reserved_read_def reserve_call_def bindE_Inr_iff Let_def call_conditions_def execution_conditions_def
      execution_precondition_def reserved_for_def case_row_of_def tadd_def reserved_row_def put_case_def
      split: if_splits option.splits)

lemma careful_mono: "careful P p \<Longrightarrow> P \<le> Q \<Longrightarrow> careful Q p"
proof (induction rule: careful.induct)
  case (careful_Txn f)
  have "opens_read Q d (fst (f d)) (snd (f d))" for d
    using careful_Txn.hyps(1) [of d] careful_Txn.prems
    by (auto simp: opens_read_def le_fun_def split: proc.splits)
  with careful_Txn show ?case by (auto intro: careful.careful_Txn)
qed (auto intro: careful.intros)

text \<open>The whole law: the call was judged on a context of the stored Case, and this very call was reserved.\<close>

definition checked_read :: "agent_setup \<Rightarrow> string \<Rightarrow> read_law" where
  "checked_read S tenant d d' cid tool q call_id = (\<exists>d1 d2 c es s x.
     get_case tenant d1 cid = Inr c \<and> list_evidence tenant d2 cid = Inr es
     \<and> build_context (ags_context S) c es = Inr s
     \<and> ctc_tool_name x = tool \<and> hard_policy s (CallTool x) = [] \<and> build_tool_query c x = Inr q
     \<and> reserved_for tenant c d d' cid tool q call_id)"

lemma justified_checked: "justified S tenant \<le> checked_read S tenant"
  unfolding le_fun_def le_bool_def justified_def checked_read_def using reserved_read_for by blast

text \<open>
  C39. The agent reads only what it has checked. In every run of the agent, with or without the lease of
  a work item, whatever the planner and the tools answer and whatever else commits in between, a call
  of a read tool is only the very next interaction after a committed transaction that reserved exactly
  this call, and nothing else is ever followed by one. The reservation was made for a Case and Evidence
  loaded from the database: on the context built from them the validator and the hard policy pass the
  candidate, the query was rebuilt for that Case, and the Case was, at the reservation, still the one
  judged, open and within its budget.
\<close>

theorem agent_reads_what_it_checked:
  "guarded (checked_read S tenant) (run_agent S tenant cid given (map_option (renew_lease lease_seconds tenant) claim))"
proof -
  let ?guard = "map_option (renew_lease lease_seconds tenant) claim"
  have "guarded (justified S tenant) g" if "?guard = Some g" for g
    using that by (auto simp: renew_lease_def intro!: guarded_rules)
  then have "guarded (justified S tenant) (run_agent S tenant cid given ?guard)" by (rule guarded_run_agent)
  then show ?thesis using careful_mono [OF _ justified_checked] by (auto simp: guarded_def)
qed

text \<open>
  C40. A run is bounded. Whatever the environment does, it calls read tools at most \<open>max_turns\<close> times, at
  most once for every turn, and the number of calls it reports is the number it made.
\<close>

theorem agent_calls_bounded:
  assumes "reads (run_agent S tenant cid given (map_option (renew_lease lease_seconds tenant) claim)) n r"
  shows "n \<le> agc_max_turns (ags_config S) \<and> (case r of Inl _ \<Rightarrow> True | Inr x \<Rightarrow> arr_tool_calls_dispatched x = n
    \<and> n \<le> length (arr_turns x) \<and> length (arr_turns x) \<le> agc_max_turns (ags_config S))"
proof -
  let ?guard = "map_option (renew_lease lease_seconds tenant) claim"
  have "blind g" if "?guard = Some g" for g using that by (auto intro: blind_rules)
  from run_reads [OF this assms] show ?thesis by (auto simp: within_turns_def split: sum.split)
qed

text \<open>The run of an unknown Case ends at its first read.\<close>

definition sample_agent :: agent_setup where
  "sample_agent = \<lparr> ags_config = default_agent_config, ags_context = \<lparr> cc_text = sample_context_text,
     cc_budget = default_context_budget, cc_denied_claims = [], cc_group_text = (\<lambda>_. []), cc_graph_input = (\<lambda>_ _. ZERO_HASH) \<rparr>,
     ags_planner = sample_planner_text, ags_digest = sample_hash, ags_claim_hash = sample_hash,
     ags_observation_hash = (\<lambda>_. ZERO_HASH) \<rparr>"

lemma sample_agent_reads: "reads (run_agent sample_agent ''tenant'' ''CASE-2'' None
  (map_option (renew_lease 60 ''tenant'') None)) 0 (Inl CaseAccessError)"
proof -
  have "get_case ''tenant'' sample_db ''CASE-2'' = Inl CaseAccessError"
    by (simp add: get_case_def case_row_of_def sample_db_def tget_def)
  then have "reads (query (\<lambda>d. get_case ''tenant'' d ''CASE-2'')) 0 (Inl CaseAccessError)"
    by (auto simp: query_def intro!: exI [of _ sample_db])
  then show ?thesis
    by (simp add: run_agent_def before_investigation_def reads_andThen)
qed

theorem agent_calls_bounded_witness:
  "reads (run_agent sample_agent ''tenant'' ''CASE-2'' None (map_option (renew_lease 60 ''tenant'') None)) 0
     (Inl CaseAccessError) \<and> 0 \<le> agc_max_turns (ags_config sample_agent)"
  using sample_agent_reads agent_calls_bounded [OF sample_agent_reads] by blast

end
