(* ===== verification/Spec2Isabelle.thy ===== *)
theory Spec2Isabelle
  imports Scenarios Hypotheses RecoveryInvariant EvidenceRepository Safety Evaluation RemediationExample ProvenanceExample
    ContextSafety ServiceExample Bounded AgentSafety
begin

text \<open>
  A verification development of the credit incident resolution harness (the Python package
  \<open>credit_harness\<close> under \<open>src/src/\<close>). The harness investigates one disputed credit order per Case:
  it reads ten business systems through budgeted tools, turns what they answer into Evidence, judges
  a fixed set of hypotheses over it, proposes at most one remediation, dispatches that remediation
  under an approval and a signed capability, recovers effects whose outcome is unknown, and closes a
  Case only on an independent evaluation. Everything durable lives in one SQL database, and every
  method of a repository is one transaction.

  \<^bold>\<open>The model.\<close> The database is the record \<open>db\<close> (\<open>Database\<close>), one association list per table. A
  transaction is a function from the database to \<open>error + db \<times> result\<close>: \<open>Inl\<close> is the exception
  that rolls the transaction back, with one constructor of \<open>error\<close> per exception class. Pydantic
  models are records, their validators Boolean functions, enumerations datatypes with a \<open>_value\<close>
  function. Integers of Python are \<open>int\<close>; points in time are microseconds. Everything the code
  obtains from elsewhere is an argument: clock readings, fresh identifiers, the hash functions (SHA-256
  of canonical JSON, HMAC), the replies of models, adapters and resolvers, and the iteration order of
  a Python set. No assumption is made about any of them unless a theorem states it. Text for people
  (descriptions, rationales, log lines) is left out of the records.

  \<^bold>\<open>Parts, and the theories that model them.\<close>
  \<^item> Domain and tools: \<open>domain/\<close>, \<open>tools/contracts.py\<close> in \<open>Domain\<close>; the catalogue of
    \<open>context/tool_capabilities.py\<close> in \<open>ToolCapabilities\<close>; the closed syntax of references and the
    value contract of every claim (\<open>context/structured_values.py\<close>, \<open>value_contracts.py\<close>) in
    \<open>StructuredValues\<close>.
  \<^item> The simulator that answers the tools (\<open>simulator/\<close>, \<open>persistence/store.py\<close>) in \<open>Simulator\<close> and
    \<open>Scenarios\<close>: faults, projections, grants, the observation service and the eight scenarios. What
    is proved: the service discloses only what is visible to the tool, depends on nothing else, is
    authorised, and degrades under faults; the scenarios are well formed.
  \<^item> Cases (\<open>cases/\<close>) in \<open>CaseModel\<close>, \<open>CaseRepository\<close>; Evidence (\<open>evidence/\<close>) in \<open>EvidenceModel\<close>,
    \<open>Extractor\<close>, \<open>EvidenceRepository\<close>; its revalidation and the evaluator's reader
    (\<open>evidence/verification.py\<close>, \<open>evaluation/snapshot.py\<close>) in \<open>Verification\<close>. \<open>Provenance\<close> relates the
    two: what a publication stores is what a revalidation accepts.
  \<^item> Reading Evidence: the index, freshness, conflicts and the payment identity (\<open>hypotheses/index.py\<close>,
    \<open>evidence/services.py\<close>, \<open>identity/\<close>) in \<open>EvidenceIndex\<close>; the hypothesis engine (\<open>hypotheses/\<close>) in
    \<open>Hypotheses\<close>. The engine decides only on quality Evidence, its graph is well formed, and its
    index does not depend on the order of the Evidence.
  \<^item> Remediation (\<open>remediation/\<close>) in \<open>Remediation\<close>, with examples in \<open>RemediationExample\<close>: a ready
    intent is bound to current Evidence and addresses the failure it was proposed for.
  \<^item> The side-effect ledger (\<open>authorization/\<close>) in \<open>LedgerModel\<close> and \<open>Authorization\<close>, its recovery
    (\<open>recovery/\<close>) in \<open>Recovery\<close>, their invariants in \<open>LedgerInvariant\<close> and \<open>RecoveryInvariant\<close>.
  \<^item> Durable work, resumption and the handoff of evaluations (\<open>orchestration/\<close>) in \<open>WorkModel\<close>,
    \<open>EffectWork\<close>, \<open>WorkRepository\<close>, \<open>Resume\<close> and \<open>Closure\<close>, their invariants in \<open>WorkInvariant\<close> and
    \<open>CaseInvariant\<close>.
  \<^item> The evaluation and the verified closure (\<open>evaluation/\<close>) in \<open>Evaluation\<close> and \<open>Closure\<close>: a PASS
    proves the outcome, leaves nothing open, and its closure rests on the database.
  \<^item> The reasoning context a model sees (\<open>context/\<close>): capsules, eligibility, compaction and the
    projection of the payment identity in \<open>ContextModel\<close>, the assembly under a budget and the
    independent validator in \<open>Context\<close>. The planner (\<open>planner/\<close>): drafts, validator, hard policy,
    ranking and service in \<open>Planner\<close>. \<open>ContextSafety\<close>: a context is typed, rests on current Evidence
    that may be shown and keeps every safety gap, and what is planned on it stays within the Case.
  \<^item> The services that string transactions together, as trees of interactions (\<open>Procedures\<close>):
    authorization and execution (\<open>authorization/service.py\<close>) in \<open>ExecutionService\<close>, recovery
    (\<open>recovery/service.py\<close>, \<open>prepared.py\<close>, \<open>case.py\<close>) in \<open>RecoveryService\<close>. A node is one committed
    transaction, a reading of the clock, a fresh identifier, or a call of the adapter, the resolver, a
    read tool or the planning model;
    everything else may happen between two nodes. \<open>Services\<close> says what an execution sends under any
    environment, \<open>Bounded\<close> that services end, \<open>Pool\<close> that a pool of them refines the system and
    calls the adapter at most once for an effect; \<open>ServiceExample\<close> runs one.
  \<^item> The investigation agent (\<open>agent/\<close>, \<open>cases/executor.py\<close>): its decisions about one action in
    \<open>AgentActions\<close>, the run as a procedure in \<open>AgentRuntime\<close>, its audit pointer
    (\<open>recovery/checkpoint.py\<close>) in \<open>Checkpoint\<close>. \<open>AgentSafety\<close>: it reads only what it has checked and
    just reserved, at most once a turn. Agents are services of the pool.

  \<^bold>\<open>The deployment.\<close> \<open>System\<close> is one step relation whose steps are the transactions of every
  component, in any order: workers, operators and crashes only choose the next one. \<open>Frames\<close> says
  which tables a transaction may write, and \<open>Safety\<close> proves over every run that an effect is
  dispatched at most once and only under a live authorization, follows the status machine of the
  ledger, that a closed Case is frozen, that budgets hold and that a Case has one worker. The
  locales of \<open>Prelude\<close> (a table of rows, a status machine) and \<open>EffectWork\<close> (a ledger that is
  published with every write) state the interfaces these proofs use; each is interpreted on the
  definitions of the model.

  \<^bold>\<open>Bounds.\<close> Counters are those of the code: the consistent read of a Case gives up after three attempts,
  the length of a context after twelve rounds, an agent after its configured turns and replans. The one
  fuel is that of \<open>free_number\<close> in \<open>Planner\<close>, which is one more than there are reserved strings, and
  \<open>free_number_free\<close> proves that it is never used up. Every other loop is structural recursion or has a
  proved measure.

  \<^bold>\<open>Not modelled.\<close>
  The interactive frame over an investigation and its trace store (\<open>investigation/\<close>), the prompt that
  is rendered from a context, the parsing of the reply of a model and the audit lists of the planners.
  The registry of adapters and its administration, organizational memory and retrieval: services that
  the modelled core does not call in a deployment without them, which is the one modelled (no registry
  guard, no guidance). HTTP, settings, migrations, telemetry, benchmarks, fixtures and the clients of
  external services: input and output.
\<close>

end
